(* ===== verification/Prelude.thy ===== *)
theory Prelude
  imports Main "HOL-Library.List_Lexorder" "HOL-Library.Char_ord" "HOL-Library.Product_Lexorder"
begin

text \<open>
  Shared vocabulary of the development: the types every component uses (identifiers,
  instants, JSON values), the computations that either throw or return a value and a new
  state, and the generic list facts the components need.

  A JavaScript string is a HOL \<^typ>\<open>string\<close>; an identifier (a UUID in its canonical
  text) is a string too, ordered lexicographically as both JavaScript's \<open><\<close> and
  PostgreSQL's uuid order do on canonical texts.  An instant is the number of microseconds
  since the epoch, the resolution of PostgreSQL's \<open>timestamptz\<close>.
\<close>

type_synonym uuid = string
type_synonym instant = int

text \<open>
  A JSON value.  A number is carried by the text \<open>Number::toString\<close> gives it.
\<close>

datatype json =
    JNull
  | JBool bool
  | JNumber string
  | JString string
  | JArray "json list"
  | JObject "(string \<times> json) list"

named_theorems tx_simps "what the computations of a transaction return"
named_theorems table_simps "what a statement leaves in a table"

section \<open>Computations that throw or return\<close>

text \<open>
  An asynchronous method over a state \<open>'s\<close>: it throws an error of type \<open>'e\<close>, or
  returns a value with the state after it.  \<open>tx_bind\<close> is the source's \<open>await\<close>
  followed by the rest of the method.
\<close>

type_synonym ('s, 'e, 'a) tx = "'s \<Rightarrow> 'e + 'a \<times> 's"

definition tx_return :: "'a \<Rightarrow> ('s, 'e, 'a) tx" where
  "tx_return a = (\<lambda>s. Inr (a, s))"

definition tx_throw :: "'e \<Rightarrow> ('s, 'e, 'a) tx" where
  "tx_throw e = (\<lambda>s. Inl e)"

definition tx_bind :: "('s, 'e, 'a) tx \<Rightarrow> ('a \<Rightarrow> ('s, 'e, 'b) tx) \<Rightarrow> ('s, 'e, 'b) tx" where
  "tx_bind m k = (\<lambda>s. case m s of Inl e \<Rightarrow> Inl e | Inr (a, s') \<Rightarrow> k a s')"

definition tx_require :: "bool \<Rightarrow> 'e \<Rightarrow> ('s, 'e, unit) tx" where
  "tx_require b e = (if b then tx_return () else tx_throw e)"

definition tx_check :: "'e option \<Rightarrow> ('s, 'e, unit) tx" where
  "tx_check r = (case r of None \<Rightarrow> tx_return () | Some e \<Rightarrow> tx_throw e)"

definition tx_get :: "('s \<Rightarrow> 'a) \<Rightarrow> ('s, 'e, 'a) tx" where
  "tx_get f = (\<lambda>s. Inr (f s, s))"

definition tx_modify :: "('s \<Rightarrow> 's) \<Rightarrow> ('s, 'e, unit) tx" where
  "tx_modify f = (\<lambda>s. Inr ((), f s))"

definition tx_lift :: "'e + 'a \<Rightarrow> ('s, 'e, 'a) tx" where
  "tx_lift r = (\<lambda>s. case r of Inl e \<Rightarrow> Inl e | Inr a \<Rightarrow> Inr (a, s))"

text \<open>A loop that runs one computation per element, in order.\<close>

fun tx_iter :: "('a \<Rightarrow> ('s, 'e, unit) tx) \<Rightarrow> 'a list \<Rightarrow> ('s, 'e, unit) tx" where
  "tx_iter f [] = tx_return ()"
| "tx_iter f (x # xs) = tx_bind (f x) (\<lambda>_. tx_iter f xs)"

lemma tx_bind_eq_Inr [tx_simps]:
  "tx_bind m k s = Inr r \<longleftrightarrow> (\<exists>a s'. m s = Inr (a, s') \<and> k a s' = Inr r)"
  by (auto simp: tx_bind_def split: sum.splits)

lemma tx_bind_eq_Inl [tx_simps]:
  "tx_bind m k s = Inl e \<longleftrightarrow>
    m s = Inl e \<or> (\<exists>a s'. m s = Inr (a, s') \<and> k a s' = Inl e)"
  by (auto simp: tx_bind_def split: sum.splits)

lemma tx_require_eq_Inr [tx_simps]:
  "tx_require b e s = Inr (u, s') \<longleftrightarrow> b \<and> s' = s"
  by (auto simp: tx_require_def tx_return_def tx_throw_def)

lemma tx_require_eq_Inl [tx_simps]:
  "tx_require b e s = Inl e' \<longleftrightarrow> \<not> b \<and> e' = e"
  by (auto simp: tx_require_def tx_return_def tx_throw_def)

lemma tx_check_eq_Inr [tx_simps]:
  "tx_check r s = Inr (u, s') \<longleftrightarrow> r = None \<and> s' = s"
  by (auto simp: tx_check_def tx_return_def tx_throw_def split: option.splits)

lemma tx_check_eq_Inl [tx_simps]: "tx_check r s = Inl e \<longleftrightarrow> r = Some e"
  by (auto simp: tx_check_def tx_return_def tx_throw_def split: option.splits)

lemma tx_lift_eq_Inr [tx_simps]: "tx_lift r s = Inr (a, s') \<longleftrightarrow> r = Inr a \<and> s' = s"
  by (auto simp: tx_lift_def split: sum.splits)

lemma tx_lift_eq_Inl [tx_simps]: "tx_lift r s = Inl e \<longleftrightarrow> r = Inl e"
  by (auto simp: tx_lift_def split: sum.splits)

lemma tx_get_apply [tx_simps]: "tx_get f s = Inr (f s, s)"
  by (simp add: tx_get_def)

lemma tx_modify_apply [tx_simps]: "tx_modify f s = Inr ((), f s)"
  by (simp add: tx_modify_def)

lemma tx_return_apply [tx_simps]: "tx_return a s = Inr (a, s)"
  by (simp add: tx_return_def)

lemma tx_throw_apply [tx_simps]: "tx_throw e s = Inl e"
  by (simp add: tx_throw_def)

text \<open>
  Unfolding a computation on a concrete state, for the evaluation of closed instances.
\<close>

lemmas tx_eval = tx_bind_def tx_lift_def tx_require_def tx_check_def tx_get_def tx_modify_def tx_return_def tx_throw_def

text \<open>
  Outside a transaction a throw undoes nothing: the method returns or throws, and either way
  leaves a state.  \<open>io_catch\<close> is try / catch; \<open>statement\<close> runs one auto-committed statement
  (or one transaction without an environment): all or nothing.
\<close>

type_synonym ('s, 'e, 'a) io = "'s \<Rightarrow> ('e + 'a) \<times> 's"

definition io_return :: "'a \<Rightarrow> ('s, 'e, 'a) io" where
  "io_return a = (\<lambda>s. (Inr a, s))"

definition io_throw :: "'e \<Rightarrow> ('s, 'e, 'a) io" where
  "io_throw e = (\<lambda>s. (Inl e, s))"

definition io_bind :: "('s, 'e, 'a) io \<Rightarrow> ('a \<Rightarrow> ('s, 'e, 'b) io) \<Rightarrow> ('s, 'e, 'b) io" where
  "io_bind m k = (\<lambda>s. case m s of (Inl e, s') \<Rightarrow> (Inl e, s') | (Inr a, s') \<Rightarrow> k a s')"

definition io_catch :: "('s, 'e, 'a) io \<Rightarrow> ('e \<Rightarrow> ('s, 'e, 'a) io) \<Rightarrow> ('s, 'e, 'a) io" where
  "io_catch m h = (\<lambda>s. case m s of (Inl e, s') \<Rightarrow> h e s' | (Inr a, s') \<Rightarrow> (Inr a, s'))"

definition io_require :: "bool \<Rightarrow> 'e \<Rightarrow> ('s, 'e, unit) io" where
  "io_require b e = (if b then io_return () else io_throw e)"

definition io_lift :: "'e + 'a \<Rightarrow> ('s, 'e, 'a) io" where
  "io_lift r = (\<lambda>s. (r, s))"

definition io_get :: "('s \<Rightarrow> 'a) \<Rightarrow> ('s, 'e, 'a) io" where
  "io_get f = (\<lambda>s. (Inr (f s), s))"

definition io_modify :: "('s \<Rightarrow> 's) \<Rightarrow> ('s, 'e, unit) io" where
  "io_modify f = (\<lambda>s. (Inr (), f s))"

definition auto_commit :: "('s, 'e, 'a) tx \<Rightarrow> ('s, 'e, 'a) io" where
  "auto_commit m = (\<lambda>s. case m s of Inl e \<Rightarrow> (Inl e, s) | Inr (a, s') \<Rightarrow> (Inr a, s'))"

text \<open>The same statement when it may fail to reach the database.\<close>

definition query_or_fail :: "'e option \<Rightarrow> ('s, 'e, 'a) tx \<Rightarrow> ('s, 'e, 'a) io" where
  "query_or_fail fault m = (case fault of Some e \<Rightarrow> io_throw e | None \<Rightarrow> auto_commit m)"

named_theorems io_simps "what the methods outside a transaction leave"

lemma io_apply [io_simps]:
  "io_return a s = (Inr a, s)" "io_throw e s = (Inl e, s)" "io_get f s = (Inr (f s), s)"
  "io_modify g s = (Inr (), g s)" "io_lift r s = (r, s)"
  "io_require b e s = (if b then Inr () else Inl e, s)"
  by (simp_all add: io_return_def io_throw_def io_get_def io_modify_def io_require_def io_lift_def)

lemma io_bind_eq [io_simps]:
  "io_bind m k s = r \<longleftrightarrow>
    (\<exists>e s'. m s = (Inl e, s') \<and> r = (Inl e, s')) \<or> (\<exists>a s'. m s = (Inr a, s') \<and> k a s' = r)"
  by (auto simp: io_bind_def split: sum.splits prod.splits)

text \<open>Running the first step of a sequence.\<close>

lemma io_steps:
  "io_bind (io_return a) k s = k a s" "io_bind (io_throw e) k s = (Inl e, s)"
  "io_bind (io_get f) kg s = kg (f s) s" "io_bind (io_modify g) km s = km () (g s)"
  "io_bind (io_lift r) kl s = (case r of Inl d \<Rightarrow> (Inl d, s) | Inr b \<Rightarrow> kl b s)"
  by (simp_all add: io_bind_def io_apply)

lemma snd_io_bind_tail: "(\<And>a s. snd (f a s) = s) \<Longrightarrow> snd (io_bind m f s) = snd (m s)"
  by (auto simp: io_bind_def split: prod.split sum.split)

lemma io_bind_eq_Inr:
  "io_bind m k s = (Inr r, s') \<longleftrightarrow> (\<exists>a s1. m s = (Inr a, s1) \<and> k a s1 = (Inr r, s'))"
  by (auto simp: io_bind_def split: sum.splits prod.splits)

lemma auto_commit_eq [io_simps]:
  "auto_commit m s = r \<longleftrightarrow>
    (\<exists>e. m s = Inl e \<and> r = (Inl e, s)) \<or> (\<exists>a s'. m s = Inr (a, s') \<and> r = (Inr a, s'))"
  by (auto simp: auto_commit_def split: sum.splits prod.splits)

lemma io_catch_eq [io_simps]:
  "io_catch m h s = r \<longleftrightarrow>
    (\<exists>e s'. m s = (Inl e, s') \<and> h e s' = r) \<or> (\<exists>a s'. m s = (Inr a, s') \<and> r = (Inr a, s'))"
  by (auto simp: io_catch_def split: sum.splits prod.splits)

lemmas io_eval = io_bind_def io_catch_def io_require_def io_get_def io_modify_def io_return_def
  io_throw_def io_lift_def auto_commit_def

text \<open>A method that keeps an invariant of the state keeps it whether it returns or throws.\<close>

definition io_keeps :: "('s \<Rightarrow> bool) \<Rightarrow> ('s, 'e, 'a) io \<Rightarrow> bool" where
  "io_keeps P m \<longleftrightarrow> (\<forall>s. P s \<longrightarrow> P (snd (m s)))"

definition tx_keeps :: "('s \<Rightarrow> bool) \<Rightarrow> ('s, 'e, 'a) tx \<Rightarrow> bool" where
  "tx_keeps P m \<longleftrightarrow> (\<forall>s a s'. P s \<longrightarrow> m s = Inr (a, s') \<longrightarrow> P s')"

named_theorems keeps_intros "methods that keep an invariant"

lemma io_keepsD: "io_keeps P m \<Longrightarrow> P s \<Longrightarrow> P (snd (m s))"
  by (simp add: io_keeps_def)

lemma tx_keepsD: "tx_keeps P m \<Longrightarrow> P s \<Longrightarrow> m s = Inr (a, s') \<Longrightarrow> P s'"
  by (auto simp: tx_keeps_def)

lemma tx_keeps_basic [keeps_intros]:
  "tx_keeps P (tx_return a)" "tx_keeps P (tx_throw e)" "tx_keeps P (tx_require b e)"
  "tx_keeps P (tx_check r)" "tx_keeps P (tx_get f)" "tx_keeps P (tx_lift x)"
  by (auto simp: tx_keeps_def tx_simps)

lemma tx_keeps_bind [keeps_intros]:
  "tx_keeps P m \<Longrightarrow> (\<And>a. tx_keeps P (k a)) \<Longrightarrow> tx_keeps P (tx_bind m k)"
  unfolding tx_keeps_def tx_bind_eq_Inr by metis

lemma tx_keeps_modify: "(\<And>s. P s \<Longrightarrow> P (f s)) \<Longrightarrow> tx_keeps P (tx_modify f)"
  by (auto simp: tx_keeps_def tx_simps)

lemma io_keeps_basic [keeps_intros]:
  "io_keeps P (io_return a)" "io_keeps P (io_throw e)" "io_keeps P (io_require b e)"
  "io_keeps P (io_lift r)" "io_keeps P (io_get f)"
  by (auto simp: io_keeps_def io_simps)

lemma io_keeps_bind [keeps_intros]:
  "io_keeps P m \<Longrightarrow> (\<And>a. io_keeps P (k a)) \<Longrightarrow> io_keeps P (io_bind m k)"
  unfolding io_keeps_def io_bind_def by (auto split: sum.split prod.split) 

lemma io_keeps_catch [keeps_intros]:
  "io_keeps P m \<Longrightarrow> (\<And>e. io_keeps P (h e)) \<Longrightarrow> io_keeps P (io_catch m h)"
  unfolding io_keeps_def io_catch_def by (auto split: sum.split prod.split) 

lemma io_keeps_auto_commit [keeps_intros]:
  "tx_keeps P m \<Longrightarrow> io_keeps P (auto_commit m)"
  unfolding io_keeps_def tx_keeps_def auto_commit_def by (auto split: sum.split prod.split)

text \<open>
  A method that, whatever it returns, leaves a state its first one is related to, by a relation
  that is reflexive and transitive.
\<close>

definition io_within :: "('s \<Rightarrow> 's \<Rightarrow> bool) \<Rightarrow> ('s, 'e, 'a) io \<Rightarrow> bool" where
  "io_within R m \<longleftrightarrow> (\<forall>s. R s (snd (m s)))"

lemma io_withinD: "io_within R m \<Longrightarrow> R s (snd (m s))"
  by (simp add: io_within_def)

lemma io_within_basic:
  assumes "reflp R"
  shows "io_within R (io_return a)" "io_within R (io_throw e)" "io_within R (io_require b e)"
    "io_within R (io_get f)"
  using assms by (auto simp: io_within_def io_simps reflp_def)

lemma io_within_bind:
  assumes "transp R" and "io_within R m" and "\<And>a. io_within R (k a)"
  shows "io_within R (io_bind m k)"
  unfolding io_within_def
proof
  fix s
  have one: "R s (snd (m s))" by (rule io_withinD [OF assms(2)])
  show "R s (snd (io_bind m k s))"
  proof (cases "m s")
    case (Pair r s')
    with one io_withinD [OF assms(3)] transpD [OF assms(1)] show ?thesis
      by (cases r) (auto simp: io_bind_def)
  qed
qed

lemma io_within_catch:
  assumes "transp R" and "io_within R m" and "\<And>e. io_within R (h e)"
  shows "io_within R (io_catch m h)"
  unfolding io_within_def
proof
  fix s
  have one: "R s (snd (m s))" by (rule io_withinD [OF assms(2)])
  show "R s (snd (io_catch m h s))"
  proof (cases "m s")
    case (Pair r s')
    with one io_withinD [OF assms(3)] transpD [OF assms(1)] show ?thesis
      by (cases r) (auto simp: io_catch_def)
  qed
qed

lemma io_within_auto_commit:
  assumes "reflp R" and "\<And>s a s'. m s = Inr (a, s') \<Longrightarrow> R s s'"
  shows "io_within R (auto_commit m)"
  using assms by (auto simp: io_within_def auto_commit_def reflp_def split: sum.split prod.split)

text \<open>The first failing check of a list, in order.\<close>

fun first_error :: "('a \<Rightarrow> 'e option) \<Rightarrow> 'a list \<Rightarrow> 'e option" where
  "first_error f [] = None"
| "first_error f (x # xs) = (case f x of Some e \<Rightarrow> Some e | None \<Rightarrow> first_error f xs)"

lemma first_error_None: "first_error f xs = None \<longleftrightarrow> (\<forall>x\<in>set xs. f x = None)"
  by (induction xs) (auto split: option.splits)

lemma first_error_Some: "first_error f xs = Some e \<Longrightarrow> \<exists>x\<in>set xs. f x = Some e"
  by (induction xs) (auto split: option.splits)

section \<open>Sums over lists\<close>

lemma distinct_map_eqD:
  "distinct (map key xs) \<Longrightarrow> x \<in> set xs \<Longrightarrow> y \<in> set xs \<Longrightarrow> key x = key y \<Longrightarrow> x = y"
  by (auto simp: distinct_map inj_on_def)

lemma sum_list_map_cong_set:
  "(\<And>x. x \<in> set xs \<Longrightarrow> f x = g x) \<Longrightarrow> sum_list (map f xs) = sum_list (map g xs)"
  by (induction xs) auto

lemma sum_list_map_add:
  fixes f g :: "'a \<Rightarrow> int"
  shows "sum_list (map (\<lambda>x. f x + g x) xs) = sum_list (map f xs) + sum_list (map g xs)"
  by (induction xs) auto

lemma sum_list_map_zero: "(\<And>x. x \<in> set xs \<Longrightarrow> f x = (0::int)) \<Longrightarrow> sum_list (map f xs) = 0"
  by (induction xs) auto

text \<open>A key met once selects exactly one summand.\<close>

lemma sum_list_map_key:
  fixes c :: int
  assumes "distinct (map key xs)" and "k \<in> key ` set xs"
  shows "sum_list (map (\<lambda>x. if key x = k then c else 0) xs) = c"
  using assms
proof (induction xs)
  case (Cons x xs)
  show ?case
  proof (cases "key x = k")
    case True
    with Cons.prems have "k \<notin> key ` set xs" by auto
    then have "sum_list (map (\<lambda>x. if key x = k then c else 0) xs) = 0"
      by (intro sum_list_map_zero) auto
    with True show ?thesis by simp
  next
    case False
    with Cons show ?thesis by auto
  qed
qed simp

lemma sum_list_map_key_absent:
  "k \<notin> key ` set xs \<Longrightarrow> sum_list (map (\<lambda>x. if key x = k then c else (0::int)) xs) = 0"
  by (intro sum_list_map_zero) auto

text \<open>Summing over rows and over entries commutes.\<close>

lemma sum_list_swap:
  fixes f :: "'a \<Rightarrow> 'b \<Rightarrow> int"
  shows "sum_list (map (\<lambda>x. sum_list (map (f x) ys)) xs) =
    sum_list (map (\<lambda>y. sum_list (map (\<lambda>x. f x y) xs)) ys)"
  by (induction xs) (simp_all add: sum_list_map_add)

text \<open>
  Grouping entries by the row they refer to counts every entry once: the sum over the rows
  that satisfy \<open>P\<close> of their own entries is the sum over the entries that satisfy \<open>Q\<close>.
\<close>

lemma sum_list_regroup:
  fixes g :: "'e \<Rightarrow> int"
  assumes keys: "distinct (map key xs)"
    and target: "\<And>e. e \<in> set es \<Longrightarrow> \<exists>x\<in>set xs. key x = tgt e \<and> (P x \<longleftrightarrow> Q e)"
  shows "sum_list (map (\<lambda>x. if P x then sum_list (map (\<lambda>e. if tgt e = key x then g e else 0) es) else 0) xs)
    = sum_list (map (\<lambda>e. if Q e then g e else 0) es)"
proof -
  have "sum_list (map (\<lambda>x. if P x then sum_list (map (\<lambda>e. if tgt e = key x then g e else 0) es) else 0) xs)
      = sum_list (map (\<lambda>x. sum_list (map (\<lambda>e. if P x \<and> tgt e = key x then g e else 0) es)) xs)"
    by (intro sum_list_map_cong_set) auto
  also have "\<dots> = sum_list (map (\<lambda>e. sum_list (map (\<lambda>x. if P x \<and> tgt e = key x then g e else 0) xs)) es)"
    by (rule sum_list_swap)
  also have "\<dots> = sum_list (map (\<lambda>e. if Q e then g e else 0) es)"
  proof (rule sum_list_map_cong_set)
    fix e assume "e \<in> set es"
    then obtain x0 where x0: "x0 \<in> set xs" "key x0 = tgt e" "P x0 \<longleftrightarrow> Q e" using target by blast
    have same: "x = x0" if "x \<in> set xs" "key x = tgt e" for x
      using distinct_map_eqD [OF keys that(1) x0(1)] that x0 by simp
    show "sum_list (map (\<lambda>x. if P x \<and> tgt e = key x then g e else 0) xs) = (if Q e then g e else 0)"
    proof (cases "Q e")
      case True
      have "(P x \<and> tgt e = key x) = (key x = tgt e)" if "x \<in> set xs" for x
        using same [OF that] x0 True by metis
      then have "sum_list (map (\<lambda>x. if P x \<and> tgt e = key x then g e else 0) xs) =
          sum_list (map (\<lambda>x. if key x = tgt e then g e else 0) xs)"
        by (intro sum_list_map_cong_set) simp
      also have "\<dots> = g e" by (rule sum_list_map_key [OF keys]) (use x0 in force)
      finally show ?thesis using True by simp
    next
      case False
      have "(if P x \<and> tgt e = key x then g e else 0) = 0" if "x \<in> set xs" for x
        using same [OF that] x0 False by metis
      with False show ?thesis by (simp add: sum_list_map_zero)
    qed
  qed
  finally show ?thesis .
qed

section \<open>Lists with a distinguishing key\<close>


lemma find_key_eq:
  "distinct (map key xs) \<Longrightarrow> find (\<lambda>r. key r = k) xs = Some x \<longleftrightarrow> x \<in> set xs \<and> key x = k"
  by (induction xs) auto

lemma find_key_None: "find (\<lambda>r. key r = k) xs = None \<longleftrightarrow> k \<notin> key ` set xs"
  by (induction xs) auto

lemma filter_length_eq_0: "length (filter p xs) = 0 \<longleftrightarrow> (\<forall>x\<in>set xs. \<not> p x)"
  by (induction xs) auto

end
