(* ===== verification/Sql.thy ===== *)
theory Sql
  imports Prelude
begin

text \<open>
  The SQL statements of the repositories, as operations on a table: a table is the list of
  its rows.  Each statement of the source is a predicate (its WHERE), an ordering key (its
  ORDER BY), a bound (its LIMIT) and an update (its SET); the combinators here give those
  their meaning, and the facts below carry the component proofs.
\<close>

definition select_where :: "('r \<Rightarrow> bool) \<Rightarrow> 'r list \<Rightarrow> 'r list" where
  "select_where p t = filter p t"

definition select_first :: "('r \<Rightarrow> bool) \<Rightarrow> 'r list \<Rightarrow> 'r option" where
  "select_first p t = find p t"

definition select_page :: "('r \<Rightarrow> bool) \<Rightarrow> ('r \<Rightarrow> 'k::linorder) \<Rightarrow> nat \<Rightarrow> 'r list \<Rightarrow> 'r list" where
  "select_page p k n t = take n (sort_key k (filter p t))"

definition count_where :: "('r \<Rightarrow> bool) \<Rightarrow> 'r list \<Rightarrow> nat" where
  "count_where p t = length (filter p t)"

definition update_where :: "('r \<Rightarrow> bool) \<Rightarrow> ('r \<Rightarrow> 'r) \<Rightarrow> 'r list \<Rightarrow> 'r list" where
  "update_where p f t = map (\<lambda>r. if p r then f r else r) t"

definition delete_where :: "('r \<Rightarrow> bool) \<Rightarrow> 'r list \<Rightarrow> 'r list" where
  "delete_where p t = filter (\<lambda>r. \<not> p r) t"

text \<open>INSERT ... ON CONFLICT (key) DO NOTHING: \<open>None\<close> when the key is taken.\<close>

definition insert_unique :: "('r \<Rightarrow> 'k) \<Rightarrow> 'r \<Rightarrow> 'r list \<Rightarrow> 'r list option" where
  "insert_unique key r t = (if key r \<in> key ` set t then None else Some (t @ [r]))"

text \<open>
  DELETE ... WHERE key IN (SELECT key ... WHERE p ORDER BY k LIMIT n): the rows removed are
  counted as PostgreSQL's \<open>rowCount\<close>.
\<close>

definition delete_batch ::
    "('r \<Rightarrow> 'i) \<Rightarrow> ('r \<Rightarrow> bool) \<Rightarrow> ('r \<Rightarrow> 'k::linorder) \<Rightarrow> nat \<Rightarrow> 'r list \<Rightarrow> nat \<times> 'r list" where
  "delete_batch key p k n t =
    (let victims = key ` set (select_page p k n t)
     in (count_where (\<lambda>r. key r \<in> victims) t, delete_where (\<lambda>r. key r \<in> victims) t))"

section \<open>Reading\<close>

lemma select_first_Some_iff [table_simps]:
  "distinct (map key t) \<Longrightarrow>
    select_first (\<lambda>r. key r = k) t = Some r \<longleftrightarrow> r \<in> set t \<and> key r = k"
  by (simp add: select_first_def find_key_eq)

lemma select_first_None_iff [table_simps]:
  "select_first (\<lambda>r. key r = k) t = None \<longleftrightarrow> k \<notin> key ` set t"
  by (simp add: select_first_def find_key_None)

lemma select_first_SomeD: "select_first p t = Some r \<Longrightarrow> r \<in> set t \<and> p r"
  by (auto simp: select_first_def find_Some_iff)

lemma select_first_NoneD: "select_first p t = None \<Longrightarrow> \<forall>r\<in>set t. \<not> p r"
  by (auto simp: select_first_def find_None_iff)

lemma set_select_where [table_simps]: "set (select_where p t) = {r \<in> set t. p r}"
  by (simp add: select_where_def)

lemma count_where_0 [table_simps]: "count_where p t = 0 \<longleftrightarrow> (\<forall>r\<in>set t. \<not> p r)"
  by (auto simp: count_where_def filter_empty_conv)

lemma count_where_key_le_1:
  "distinct (map key t) \<Longrightarrow> (\<And>r. p r \<Longrightarrow> key r = k) \<Longrightarrow> count_where p t \<le> 1"
  unfolding count_where_def
proof (induction t)
  case (Cons r t)
  show ?case
  proof (cases "p r")
    case True
    with Cons.prems have "\<not> p x" if "x \<in> set t" for x
      using that by force
    then have "filter p t = []" by (simp add: filter_empty_conv)
    with True show ?thesis by simp
  next
    case False
    with Cons show ?thesis by simp
  qed
qed simp

section \<open>Writing\<close>

lemma length_update_where [simp]: "length (update_where p f t) = length t"
  by (simp add: update_where_def)

lemma set_update_where [table_simps]:
  "set (update_where p f t) = (\<lambda>r. if p r then f r else r) ` set t"
  by (simp add: update_where_def)

lemma map_key_update_where [table_simps]:
  "(\<And>r. key (f r) = key r) \<Longrightarrow> map key (update_where p f t) = map key t"
  by (simp add: update_where_def)

lemma update_where_none: "\<forall>r\<in>set t. \<not> p r \<Longrightarrow> update_where p f t = t"
  unfolding update_where_def by (rule map_idI) auto

lemma select_update_where:
  "(\<And>r. p (f r) = p r) \<Longrightarrow> select_where p (update_where p f t) = map f (select_where p t)"
  unfolding select_where_def update_where_def by (induction t) auto

lemma update_where_keeps_row: "r \<in> set t \<Longrightarrow> \<not> p r \<Longrightarrow> r \<in> set (update_where p f t)"
  by (force simp: update_where_def)

lemma update_whereE:
  assumes "r' \<in> set (update_where p f t)"
  obtains r where "r \<in> set t" and "r' = (if p r then f r else r)"
  using assms by (auto simp: update_where_def)

lemma updated_rows_satisfy:
  "\<forall>x\<in>set (select_where p (update_where p f t)). Q x \<Longrightarrow> r \<in> set t \<Longrightarrow> p r \<Longrightarrow> p (f r) \<Longrightarrow> Q (f r)"
  by (auto simp: select_where_def update_where_def)

lemma set_delete_where [table_simps]: "set (delete_where p t) = {r \<in> set t. \<not> p r}"
  by (auto simp: delete_where_def)

lemma distinct_delete_where [table_simps]:
  "distinct (map key t) \<Longrightarrow> distinct (map key (delete_where p t))"
  by (simp add: delete_where_def distinct_map_filter)

lemma insert_unique_Some [table_simps]:
  "insert_unique key r t = Some t' \<longleftrightarrow> key r \<notin> key ` set t \<and> t' = t @ [r]"
  by (auto simp: insert_unique_def)

lemma insert_unique_None [table_simps]:
  "insert_unique key r t = None \<longleftrightarrow> key r \<in> key ` set t"
  by (auto simp: insert_unique_def)

lemma insert_unique_distinct:
  "insert_unique key r t = Some t' \<Longrightarrow> distinct (map key t) \<Longrightarrow> distinct (map key t')"
  by (auto simp: insert_unique_Some)

section \<open>Sweeping a table in bounded batches\<close>

text \<open>
  The retention loop both stores write: delete a batch, add what it deleted, stop when a batch
  comes back short.  A batch size of 0 would never come back short, so not returning is the
  value \<open>None\<close>.
\<close>

partial_function (option) purge_loop ::
    "('t \<Rightarrow> nat \<times> 't) \<Rightarrow> nat \<Rightarrow> nat \<Rightarrow> 't \<Rightarrow> (nat \<times> 't) option" where
  "purge_loop sweep n removed t =
    (let d = fst (sweep t); t' = snd (sweep t)
     in if d < n then Some (removed + d, t') else purge_loop sweep n (removed + d) t')"

text \<open>
  What the loop needs of one batch: it removes as many of the pending rows as fit, and what
  stays to be cleaned is the same afterwards.
\<close>

locale batch_sweep =
  fixes sweep :: "nat \<Rightarrow> 't \<Rightarrow> nat \<times> 't"
    and pending :: "'t \<Rightarrow> nat"
    and clean :: "'t \<Rightarrow> 't"
    and well_keyed :: "'t \<Rightarrow> bool"
  assumes sweep_count: "well_keyed t \<Longrightarrow> fst (sweep n t) = min n (pending t)"
    and sweep_pending: "well_keyed t \<Longrightarrow> pending (snd (sweep n t)) = pending t - min n (pending t)"
    and sweep_clean: "well_keyed t \<Longrightarrow> clean (snd (sweep n t)) = clean t"
    and sweep_keyed: "well_keyed t \<Longrightarrow> well_keyed (snd (sweep n t))"
    and clean_idle: "well_keyed t \<Longrightarrow> pending t = 0 \<Longrightarrow> clean t = t"
begin

lemma loop_cleans:
  assumes "0 < n" and "well_keyed t"
  shows "purge_loop (sweep n) n removed t = Some (removed + pending t, clean t)"
  using assms(2)
proof (induction "pending t" arbitrary: t removed rule: less_induct)
  case less
  note count = sweep_count [OF less.prems, of n]
  show ?case
  proof (cases "pending t < n")
    case True
    have "pending (snd (sweep n t)) = 0" using True sweep_pending [OF less.prems, of n] by simp
    then have "snd (sweep n t) = clean t"
      using clean_idle [OF sweep_keyed [OF less.prems]] sweep_clean [OF less.prems] by metis
    with True count show ?thesis by (simp add: purge_loop.simps Let_def)
  next
    case False
    have smaller: "pending (snd (sweep n t)) < pending t"
      using False assms(1) sweep_pending [OF less.prems, of n] by simp
    have "purge_loop (sweep n) n (removed + n) (snd (sweep n t)) =
        Some (removed + n + pending (snd (sweep n t)), clean (snd (sweep n t)))"
      by (rule less.hyps [OF smaller sweep_keyed [OF less.prems]])
    moreover have "purge_loop (sweep n) n removed t =
        purge_loop (sweep n) n (removed + n) (snd (sweep n t))"
      using False count by (subst purge_loop.simps) (simp add: Let_def)
    ultimately show ?thesis
      using False sweep_pending [OF less.prems, of n] sweep_clean [OF less.prems, of n] by simp
  qed
qed

end

text \<open>One DELETE of the source is such a batch, for any key, condition and order.\<close>

lemma select_page_subset: "set (select_page p k n t) \<subseteq> {r \<in> set t. p r}"
  unfolding select_page_def using set_take_subset by fastforce

lemma count_where_key_set:
  assumes "distinct (map key t)" and "set rs \<subseteq> set t" and "distinct (map key rs)"
  shows "count_where (\<lambda>r. key r \<in> key ` set rs) t = length rs"
proof -
  have same: "{r \<in> set t. key r \<in> key ` set rs} = set rs"
    using assms(1,2) by (auto dest: distinct_map_eqD)
  have "count_where (\<lambda>r. key r \<in> key ` set rs) t = card {r \<in> set t. key r \<in> key ` set rs}"
    unfolding count_where_def using assms(1)
    by (metis distinct_card distinct_filter distinct_map set_filter)
  also have "\<dots> = length rs"
    unfolding same using assms(3) by (metis distinct_card distinct_map)
  finally show ?thesis .
qed

lemma distinct_select_page:
  assumes "distinct (map key t)"
  shows "distinct (map key (select_page p k n t))"
proof -
  have "distinct (map key (filter p t))" using assms by (rule distinct_map_filter)
  then have "distinct (map key (sort_key k (filter p t)))"
    by (simp add: distinct_map)
  then show ?thesis
    unfolding select_page_def take_map [symmetric] by (rule distinct_take)
qed

lemma length_select_page: "length (select_page p k n t) = min n (count_where p t)"
  by (simp add: select_page_def count_where_def min.commute)

lemma delete_batch_count:
  assumes "distinct (map key t)"
  shows "fst (delete_batch key p k n t) = min n (count_where p t)"
proof -
  have "set (select_page p k n t) \<subseteq> set t" using select_page_subset [of p k n t] by blast
  from count_where_key_set [OF assms this distinct_select_page [OF assms]]
  show ?thesis by (simp only: delete_batch_def Let_def fst_conv length_select_page)
qed

lemma filter_length_mono:
  "\<forall>r\<in>set t. q r \<longrightarrow> p r \<Longrightarrow> length (filter q t) \<le> length (filter p t)"
  by (induction t) (auto simp: le_SucI)

lemma count_where_split:
  "\<forall>r\<in>set t. q r \<longrightarrow> p r \<Longrightarrow>
    count_where p (delete_where q t) = count_where p t - count_where q t"
  unfolding count_where_def delete_where_def
proof (induction t)
  case (Cons r t)
  then have "length (filter q t) \<le> length (filter p t)" by (intro filter_length_mono) simp
  with Cons show ?case by auto
qed simp

lemma delete_batch_pending:
  assumes "distinct (map key t)"
  shows "count_where p (snd (delete_batch key p k n t)) = count_where p t - min n (count_where p t)"
proof -
  let ?q = "\<lambda>r. key r \<in> key ` set (select_page p k n t)"
  have "count_where p (delete_where ?q t) = count_where p t - count_where ?q t"
    using select_page_subset [of p k n t] assms
    by (intro count_where_split) (auto dest: distinct_map_eqD)
  then show ?thesis
    using delete_batch_count [OF assms, of p k n] by (simp add: delete_batch_def Let_def)
qed

lemma delete_batch_clean:
  assumes "distinct (map key t)"
  shows "delete_where p (snd (delete_batch key p k n t)) = delete_where p t"
proof -
  have "p r" if "r \<in> set t" "key r \<in> key ` set (select_page p k n t)" for r
    using that select_page_subset [of p k n t] assms by (auto dest: distinct_map_eqD)
  then show ?thesis
    by (simp add: delete_batch_def Let_def delete_where_def) (rule filter_cong, auto)
qed

lemma delete_batch_keyed:
  "distinct (map key t) \<Longrightarrow> distinct (map key (snd (delete_batch key p k n t)))"
  by (simp add: delete_batch_def Let_def distinct_delete_where)

lemma delete_where_idle: "count_where p t = 0 \<Longrightarrow> delete_where p t = t"
  by (auto simp: count_where_0 delete_where_def filter_id_conv)

lemmas delete_batch_laws =
  delete_batch_count delete_batch_pending delete_batch_clean delete_batch_keyed delete_where_idle

end
