(* ===== verification/Errors.thy ===== *)
theory Errors
  imports Prelude
begin

text \<open>
  src/errors.ts: the errors this service raises, the HTTP status each carries, and the two
  readers of an error - the Fastify error handler and the rule that decides which failures
  may become the stored answer of an idempotency key.
\<close>

section \<open>Error values\<close>

text \<open>
  \<open>AppError\<close> carries its own status.  The feature errors (\<open>LedgerError\<close>,
  \<open>TransferError\<close>, \<open>IdempotencyError\<close>, \<open>AuthError\<close>, \<open>AccountError\<close>) and the errors
  of the pg driver (\<open>DatabaseError\<close>, whose code is an SQLSTATE) carry a \<open>code\<close>.  A schema
  violation reported by Fastify has a \<open>validation\<close> property, other framework errors a
  numeric \<open>statusCode\<close>; anything else is a plain \<open>Error\<close>.  \<open>IdentityAlreadyMapped\<close> is the
  auth store's internal signal.
\<close>

datatype error_class =
  LedgerError | TransferError | IdempotencyError | AuthError | AccountError | DatabaseError

datatype js_error =
    AppError string nat string
  | CodedError error_class string string
  | ValidationError string
  | FrameworkError nat string
  | PlainError string
  | IdentityAlreadyMapped

abbreviation pg_error :: "string \<Rightarrow> string \<Rightarrow> js_error" where
  "pg_error sqlstate msg \<equiv> CodedError DatabaseError sqlstate msg"

fun is_idempotency_error :: "js_error \<Rightarrow> bool" where
  "is_idempotency_error (CodedError IdempotencyError _ _) = True"
| "is_idempotency_error _ = False"

section \<open>Statuses and responses\<close>

definition domainErrorStatus :: "(string \<times> nat) list" where
  "domainErrorStatus =
    [(''ACCOUNT_NOT_ACTIVE'', 409),
     (''ACCOUNT_NOT_FOUND'', 404),
     (''API_KEY_NOT_FOUND'', 404),
     (''CURRENCY_MISMATCH'', 400),
     (''EMAIL_NOT_VERIFIED'', 403),
     (''IDEMPOTENCY_CONFLICT'', 409),
     (''IDEMPOTENCY_IN_PROGRESS'', 409),
     (''INSUFFICIENT_FUNDS'', 409),
     (''INVALID_AMOUNT'', 400),
     (''INVALID_CURSOR'', 400),
     (''INVALID_POSTING'', 400),
     (''MIXED_CURRENCY_POSTING'', 400),
     (''PRINCIPAL_NOT_FOUND'', 404),
     (''SELF_TRANSFER'', 400),
     (''TRANSFER_NOT_FOUND'', 404),
     (''TRANSFER_RETRY_EXHAUSTED'', 503),
     (''TREASURY_NOT_FOUND'', 500),
     (''UNAUTHORIZED'', 401),
     (''UNBALANCED_POSTING'', 400)]"

fun isDomainError :: "js_error \<Rightarrow> bool" where
  "isDomainError (CodedError _ code _) = (map_of domainErrorStatus code \<noteq> None)"
| "isDomainError _ = False"

record error_body =
  eb_code :: string
  eb_message :: string
  eb_requestId :: string

definition error_json :: "error_body \<Rightarrow> json" where
  "error_json b = JObject [(''error'',
    JObject [(''code'', JString (eb_code b)), (''message'', JString (eb_message b)),
             (''requestId'', JString (eb_requestId b))])]"

text \<open>Code, message and status of an error raised on purpose.\<close>

fun knownError :: "js_error \<Rightarrow> (string \<times> string \<times> nat) option" where
  "knownError (AppError code status msg) = Some (code, msg, status)"
| "knownError (CodedError _ code msg) =
    (case map_of domainErrorStatus code of
       None \<Rightarrow> None
     | Some status \<Rightarrow> Some (code, msg, status))"
| "knownError _ = None"

definition replayableFailure :: "js_error \<Rightarrow> string \<Rightarrow> (error_body \<times> nat) option" where
  "replayableFailure e requestId =
    (case knownError e of
       None \<Rightarrow> None
     | Some (code, msg, status) \<Rightarrow>
         if status < 400 \<or> 500 \<le> status then None
         else Some (\<lparr>eb_code = code, eb_message = msg, eb_requestId = requestId\<rparr>, status))"

datatype log_line = Log_warn string | Log_error string

fun frameworkStatus :: "js_error \<Rightarrow> nat option" where
  "frameworkStatus (AppError _ status _) = Some status"
| "frameworkStatus (FrameworkError status _) = Some status"
| "frameworkStatus _ = None"

fun has_validation :: "js_error \<Rightarrow> bool" where
  "has_validation (ValidationError _) = True"
| "has_validation _ = False"

text \<open>The response the handler sends, and the line it logs before it, if any.\<close>

definition errorHandler :: "js_error \<Rightarrow> string \<Rightarrow> nat \<times> error_body \<times> log_line option" where
  "errorHandler e requestId =
    (case knownError e of
       Some (code, msg, status) \<Rightarrow>
         (status, \<lparr>eb_code = code, eb_message = msg, eb_requestId = requestId\<rparr>, None)
     | None \<Rightarrow>
         if has_validation e then
           (400, \<lparr>eb_code = ''VALIDATION_ERROR'',
                  eb_message = ''Request validation failed'', eb_requestId = requestId\<rparr>, None)
         else
           (case frameworkStatus e of
              Some status \<Rightarrow>
                if 400 \<le> status \<and> status < 500 then
                  (status, \<lparr>eb_code = ''REQUEST_REJECTED'',
                            eb_message = ''The request could not be processed'',
                            eb_requestId = requestId\<rparr>, Some (Log_warn ''request rejected''))
                else
                  (500, \<lparr>eb_code = ''INTERNAL_ERROR'',
                         eb_message = ''An unexpected error occurred'',
                         eb_requestId = requestId\<rparr>,
                   Some (Log_error ''unhandled request error''))
            | None \<Rightarrow>
                (500, \<lparr>eb_code = ''INTERNAL_ERROR'',
                       eb_message = ''An unexpected error occurred'',
                       eb_requestId = requestId\<rparr>,
                 Some (Log_error ''unhandled request error''))))"

section \<open>What the two readers agree on\<close>

lemma knownError_pg: "map_of domainErrorStatus code = None \<Longrightarrow> knownError (pg_error code msg) = None"
  by simp

lemma replayableFailure_SomeD:
  assumes "replayableFailure e rid = Some (body, status)"
  shows "400 \<le> status" and "status < 500" and "errorHandler e rid = (status, body, None)"
  using assms
  by (auto simp: replayableFailure_def errorHandler_def split: option.splits if_splits)

text \<open>
  The failure stored as an idempotency key's stable result is exactly the response the
  error handler sends for it, and it is stored exactly when that response is a deliberate
  4xx: same status, same code, same message, same request id, nothing logged as unexpected.
\<close>

theorem replayable_failure_is_the_response:
  "replayableFailure e rid = Some (body, status) \<longleftrightarrow>
    knownError e \<noteq> None \<and> 400 \<le> status \<and> status < 500 \<and> errorHandler e rid = (status, body, None)"
  by (auto simp: replayableFailure_def errorHandler_def split: option.splits if_splits)

end
