(* ===== verification/Transaction.thy ===== *)
theory Transaction
  imports Errors
begin

text \<open>
  src/ports/transaction.ts over the port of src/ports/database.ts: \<open>withTransaction\<close>, the
  single home of the transaction lifecycle.  The state \<open>'s\<close> is the database as its
  clients see it.  What the server and the network may do to one transaction is an
  argument, the \<open>tx_env\<close>: whether a connection is obtained, whether BEGIN succeeds,
  whether a statement of the transaction is aborted by the server (a serialization
  failure, a deadlock, a lost connection), how COMMIT ends and whether ROLLBACK succeeds.
  A COMMIT may also take effect and lose its answer.
\<close>

section \<open>The environment of one transaction\<close>

datatype commit_outcome = Commit_ok | Commit_rejected js_error | Commit_lost js_error

record tx_env =
  env_connect :: "js_error option"
  env_begin :: "js_error option"
  env_statement :: "js_error option"
  env_commit :: commit_outcome
  env_rollback :: "js_error option"

text \<open>A server that does what it is asked.\<close>

definition calm :: tx_env where
  "calm = \<lparr>env_connect = None, env_begin = None, env_statement = None,
           env_commit = Commit_ok, env_rollback = None\<rparr>"

datatype statement =
    Stmt_begin string | Stmt_work | Stmt_commit | Stmt_rollback
  | Stmt_release "js_error option"

text \<open>
  What a call of \<open>withTransaction\<close> leaves: its result or the error it throws, the state,
  and what it did to the connection, in order.
\<close>

record ('s, 'a) tx_outcome =
  out_result :: "js_error + 'a"
  out_state :: 's
  out_trace :: "statement list"

section \<open>withTransaction\<close>

text \<open>
  The catch and finally blocks: roll back, remember whether the rollback failed, release
  the connection with that error, rethrow the original one.
\<close>

definition rollback_and_release ::
    "tx_env \<Rightarrow> js_error \<Rightarrow> 's \<Rightarrow> statement list \<Rightarrow> ('s, 'a) tx_outcome" where
  "rollback_and_release env e s tr =
    \<lparr>out_result = Inl e, out_state = s,
     out_trace = tr @ [Stmt_rollback, Stmt_release (env_rollback env)]\<rparr>"

text \<open>
  \<open>deferred s s'\<close> is the verdict of the deferred constraints when a transaction that
  began in \<open>s\<close> commits in \<open>s'\<close>.
\<close>

definition withTransaction ::
    "tx_env \<Rightarrow> string \<Rightarrow> ('s \<Rightarrow> 's \<Rightarrow> js_error option) \<Rightarrow> ('s, js_error, 'a) tx \<Rightarrow> 's
      \<Rightarrow> ('s, 'a) tx_outcome" where
  "withTransaction env begin_text deferred work s =
    (case env_connect env of
       Some e \<Rightarrow> \<lparr>out_result = Inl e, out_state = s, out_trace = []\<rparr>
     | None \<Rightarrow>
    (case env_begin env of
       Some e \<Rightarrow> rollback_and_release env e s [Stmt_begin begin_text]
     | None \<Rightarrow>
    (case env_statement env of
       Some e \<Rightarrow> rollback_and_release env e s [Stmt_begin begin_text, Stmt_work]
     | None \<Rightarrow>
    (case work s of
       Inl e \<Rightarrow> rollback_and_release env e s [Stmt_begin begin_text, Stmt_work]
     | Inr (a, s') \<Rightarrow>
    (let tr = [Stmt_begin begin_text, Stmt_work, Stmt_commit] in
     case deferred s s' of
       Some e \<Rightarrow> rollback_and_release env e s tr
     | None \<Rightarrow>
    (case env_commit env of
       Commit_ok \<Rightarrow> \<lparr>out_result = Inr a, out_state = s', out_trace = tr @ [Stmt_release None]\<rparr>
     | Commit_rejected e \<Rightarrow> rollback_and_release env e s tr
     | Commit_lost e \<Rightarrow> rollback_and_release env e s' tr))))))"

text \<open>
  A statement sent without BEGIN is a transaction of its own: no rollback is issued, the
  server undoes it.
\<close>

definition single_statement ::
    "tx_env \<Rightarrow> ('s \<Rightarrow> 's \<Rightarrow> js_error option) \<Rightarrow> ('s, js_error, 'a) tx \<Rightarrow> 's \<Rightarrow> ('s, 'a) tx_outcome" where
  "single_statement env deferred work s =
    (let fails = (\<lambda>e s'. \<lparr>out_result = Inl e, out_state = s', out_trace = [Stmt_work]\<rparr>) in
     case env_connect env of
       Some e \<Rightarrow> \<lparr>out_result = Inl e, out_state = s, out_trace = []\<rparr>
     | None \<Rightarrow>
    (case env_statement env of
       Some e \<Rightarrow> fails e s
     | None \<Rightarrow>
    (case work s of
       Inl e \<Rightarrow> fails e s
     | Inr (a, s') \<Rightarrow>
    (case deferred s s' of
       Some e \<Rightarrow> fails e s
     | None \<Rightarrow>
    (case env_commit env of
       Commit_ok \<Rightarrow> \<lparr>out_result = Inr a, out_state = s', out_trace = [Stmt_work]\<rparr>
     | Commit_rejected e \<Rightarrow> fails e s
     | Commit_lost e \<Rightarrow> fails e s')))))"

text \<open>The statement that opens the transaction unless the caller chooses one.\<close>

definition default_begin :: string where
  "default_begin = ''BEGIN''"

definition serializable_begin :: string where
  "serializable_begin = ''BEGIN TRANSACTION ISOLATION LEVEL SERIALIZABLE''"

definition no_deferred :: "'s \<Rightarrow> 's \<Rightarrow> js_error option" where
  "no_deferred s s' = None"

section \<open>Atomicity and the fate of the connection\<close>

lemmas withTransaction_cases =
  withTransaction_def rollback_and_release_def Let_def

lemma withTransaction_InrD:
  "out_result (withTransaction env b d work s) = Inr a \<Longrightarrow>
    work s = Inr (a, out_state (withTransaction env b d work s)) \<and>
    d s (out_state (withTransaction env b d work s)) = None \<and> env_commit env = Commit_ok"
  by (auto simp: withTransaction_cases
      split: option.splits sum.splits prod.splits commit_outcome.splits)

lemma withTransaction_InlD:
  "out_result (withTransaction env b d work s) = Inl e \<Longrightarrow>
    out_state (withTransaction env b d work s) = s \<or>
    env_commit env = Commit_lost e \<and>
      (\<exists>a. work s = Inr (a, out_state (withTransaction env b d work s)))"
  by (auto simp: withTransaction_cases
      split: option.splits sum.splits prod.splits commit_outcome.splits)

lemma withTransaction_state:
  "out_state (withTransaction env b d work s) = s \<or>
    (\<exists>a. work s = Inr (a, out_state (withTransaction env b d work s)) \<and>
      d s (out_state (withTransaction env b d work s)) = None)"
  by (auto simp: withTransaction_cases
      split: option.splits sum.splits prod.splits commit_outcome.splits)

lemma single_statement_InrD:
  "out_result (single_statement env d work s) = Inr a \<Longrightarrow>
    work s = Inr (a, out_state (single_statement env d work s)) \<and>
    d s (out_state (single_statement env d work s)) = None"
  by (auto simp: single_statement_def Let_def
      split: option.splits sum.splits prod.splits commit_outcome.splits)

lemma single_statement_state:
  "out_state (single_statement env d work s) = s \<or>
    (\<exists>a. work s = Inr (a, out_state (single_statement env d work s)) \<and>
      d s (out_state (single_statement env d work s)) = None)"
  by (auto simp: single_statement_def Let_def
      split: option.splits sum.splits prod.splits commit_outcome.splits)

lemma withTransaction_calm:
  "withTransaction calm b d work s =
    (case work s of
       Inl e \<Rightarrow> \<lparr>out_result = Inl e, out_state = s,
                 out_trace = [Stmt_begin b, Stmt_work, Stmt_rollback, Stmt_release None]\<rparr>
     | Inr (a, s') \<Rightarrow>
    (case d s s' of
       Some e \<Rightarrow> \<lparr>out_result = Inl e, out_state = s,
                  out_trace = [Stmt_begin b, Stmt_work, Stmt_commit, Stmt_rollback,
                               Stmt_release None]\<rparr>
     | None \<Rightarrow> \<lparr>out_result = Inr a, out_state = s',
                out_trace = [Stmt_begin b, Stmt_work, Stmt_commit, Stmt_release None]\<rparr>))"
  by (auto simp: withTransaction_cases calm_def
      split: option.splits sum.splits prod.splits)


text \<open>The errors a connection was handed back with, one per release.\<close>

fun releases :: "statement list \<Rightarrow> js_error option list" where
  "releases [] = []"
| "releases (Stmt_release e # tr) = e # releases tr"
| "releases (_ # tr) = releases tr"

text \<open>
  Every connection taken is handed back exactly once, as the last thing done with it, and
  it is handed back as broken exactly when a rollback was issued and failed: a healthy
  connection is never destroyed, and one in an unknown state is never reused.  A rollback is
  issued exactly when the call throws.
\<close>

theorem withTransaction_releases_once:
  "(case env_connect env of
      Some e \<Rightarrow> out_trace (withTransaction env b d work s) = []
    | None \<Rightarrow>
        (let o' = withTransaction env b d work s;
             broken = (if isl (out_result o') then env_rollback env else None)
         in releases (out_trace o') = [broken] \<and>
            last (out_trace o') = Stmt_release broken \<and>
            (Stmt_rollback \<in> set (out_trace o') \<longleftrightarrow> isl (out_result o'))))"
  by (simp add: withTransaction_cases split: option.split sum.split prod.split commit_outcome.split)

section \<open>Invariants of transactional work\<close>

text \<open>
  What a store's method promises about the state it leaves, seen by the transaction that
  runs it: whatever the environment does, the invariant survives.
\<close>

locale tx_invariant =
  fixes P :: "'s \<Rightarrow> bool"
    and work :: "('s, js_error, 'a) tx"
  assumes work_keeps: "P s \<Longrightarrow> work s = Inr (a, s') \<Longrightarrow> P s'"
begin

lemma transaction_keeps: "P s \<Longrightarrow> P (out_state (withTransaction env b d work s))"
  using withTransaction_state [of env b d work s] work_keeps by metis

end

end
