(* ===== verification/Money_Domain.thy ===== *)
theory Money_Domain
  imports Errors
begin

text \<open>
  The money values of src/modules/ledger/ledger-domain.ts: \<open>Money.fromMinor\<close>, which
  accepts a positive decimal text or a bigint, and \<open>toString\<close>, which prints it back.
  JavaScript's bigints are unbounded, so they are \<^typ>\<open>int\<close>; the bound is the
  largest value of PostgreSQL's \<open>bigint\<close> column.
\<close>

section \<open>Decimal text\<close>

text \<open>The class \<open>[0-9]\<close> of the regular expressions.\<close>

definition is_digit :: "char \<Rightarrow> bool" where
  "is_digit c \<longleftrightarrow> CHR ''0'' \<le> c \<and> c \<le> CHR ''9''"

definition digit_value :: "char \<Rightarrow> nat" where
  "digit_value c = of_char c - 48"

definition digit_char :: "nat \<Rightarrow> char" where
  "digit_char d = char_of (48 + d)"

text \<open>\<open>BigInt(text)\<close> on a text of digits, most significant first.\<close>

definition digits_value :: "string \<Rightarrow> nat" where
  "digits_value s = foldl (\<lambda>n c. 10 * n + digit_value c) 0 s"

text \<open>\<open>BigInt.prototype.toString\<close>.\<close>

fun nat_text :: "nat \<Rightarrow> string" where
  "nat_text n = (if n < 10 then [digit_char n] else nat_text (n div 10) @ [digit_char (n mod 10)])"

declare nat_text.simps [simp del]

definition bigint_text :: "int \<Rightarrow> string" where
  "bigint_text i = (if i < 0 then CHR ''-'' # nat_text (nat (- i)) else nat_text (nat i))"

text \<open>The pattern \<open>^[1-9][0-9]*$\<close>.\<close>

definition is_positive_text :: "string \<Rightarrow> bool" where
  "is_positive_text s \<longleftrightarrow>
    (case s of [] \<Rightarrow> False
     | c # cs \<Rightarrow> CHR ''1'' \<le> c \<and> c \<le> CHR ''9'' \<and> list_all is_digit cs)"

lemma digit_char_digit [simp]: "d < 10 \<Longrightarrow> digit_value (digit_char d) = d"
  by (simp add: digit_value_def digit_char_def)

lemma is_digit_digit_char [simp]: "d < 10 \<Longrightarrow> is_digit (digit_char d)"
  by (simp add: is_digit_def digit_char_def less_eq_char_def)

lemma digit_char_value [simp]: "is_digit c \<Longrightarrow> digit_char (digit_value c) = c"
  by (simp add: is_digit_def digit_char_def digit_value_def less_eq_char_def)

lemma digit_value_less [simp]: "is_digit c \<Longrightarrow> digit_value c < 10"
  unfolding is_digit_def digit_value_def less_eq_char_def by simp linarith

lemma digits_value_Nil [simp]: "digits_value [] = 0"
  by (simp add: digits_value_def)

lemma digits_value_single [simp]: "digits_value [c] = digit_value c"
  by (simp add: digits_value_def)

lemma digits_value_snoc [simp]: "digits_value (s @ [c]) = 10 * digits_value s + digit_value c"
  by (simp add: digits_value_def)

lemma digits_value_nat_text [simp]: "digits_value (nat_text n) = n"
proof (induction n rule: nat_text.induct)
  case (1 n)
  show ?case
  proof (cases "n < 10")
    case True
    then show ?thesis
      by (simp add: nat_text.simps [of n])
  next
    case False
    with 1 show ?thesis by (simp add: nat_text.simps [of n])
  qed
qed

lemma nat_text_not_Nil [simp]: "nat_text n \<noteq> []"
  by (subst nat_text.simps) simp

lemma is_positive_text_snoc:
  "s \<noteq> [] \<Longrightarrow> is_positive_text (s @ [c]) \<longleftrightarrow> is_positive_text s \<and> is_digit c"
  by (cases s) (auto simp: is_positive_text_def)

lemma is_positive_text_single: "is_positive_text [c] \<longleftrightarrow> is_digit c \<and> digit_value c \<noteq> 0"
  by (auto simp: is_positive_text_def is_digit_def digit_value_def less_eq_char_def)

lemma is_positive_nat_text: "0 < n \<Longrightarrow> is_positive_text (nat_text n)"
proof (induction n rule: nat_text.induct)
  case (1 n)
  show ?case
  proof (cases "n < 10")
    case True
    with 1 show ?thesis by (simp add: nat_text.simps [of n] is_positive_text_single)
  next
    case False
    with 1 show ?thesis
      by (simp add: nat_text.simps [of n] is_positive_text_snoc)
  qed
qed

lemma is_positive_text_value_pos: "is_positive_text s \<Longrightarrow> 0 < digits_value s"
proof (induction s rule: rev_induct)
  case Nil
  then show ?case by (simp add: is_positive_text_def)
next
  case (snoc c s)
  then show ?case
    by (cases "s = []") (auto simp: is_positive_text_single is_positive_text_snoc)
qed

lemma nat_text_digits_value: "is_positive_text s \<Longrightarrow> nat_text (digits_value s) = s"
proof (induction s rule: rev_induct)
  case Nil
  then show ?case by (simp add: is_positive_text_def)
next
  case (snoc c s)
  show ?case
  proof (cases "s = []")
    case True
    with snoc.prems show ?thesis
      by (simp add: is_positive_text_single nat_text.simps)
  next
    case False
    with snoc.prems have s: "is_positive_text s" and c: "is_digit c"
      by (simp_all add: is_positive_text_snoc)
    have "\<not> digits_value (s @ [c]) < 10"
      using is_positive_text_value_pos [OF s] by simp
    moreover have "digits_value (s @ [c]) div 10 = digits_value s"
      using c by simp
    moreover have "digits_value (s @ [c]) mod 10 = digit_value c"
      using c by simp
    ultimately show ?thesis
      using snoc.IH [OF s] c
      by (simp add: nat_text.simps [of "digits_value (s @ [c])"] del: digits_value_snoc)
  qed
qed

lemma bigint_text_of_nat [simp]: "bigint_text (int n) = nat_text n"
  by (simp add: bigint_text_def)

text \<open>Printing an integer loses nothing.\<close>

lemma nat_text_inject [simp]: "nat_text m = nat_text n \<longleftrightarrow> m = n"
  by (metis digits_value_nat_text)

lemma nat_text_digits: "list_all is_digit (nat_text n)"
proof (induction n rule: nat_text.induct)
  case (1 n)
  then show ?case by (cases "n < 10") (simp_all add: nat_text.simps [of n])
qed

lemma nat_text_no_minus: "nat_text n \<noteq> CHR ''-'' # s"
  using nat_text_digits [of n] by (auto simp: is_digit_def less_eq_char_def)

lemma bigint_text_inject [simp]: "bigint_text i = bigint_text j \<longleftrightarrow> i = j"
  using nat_text_no_minus nat_text_no_minus [symmetric]
  by (auto simp: bigint_text_def split: if_splits)

text \<open>\<open>BigInt(text)\<close> on the text of a bigint column.\<close>

definition bigint_value :: "string \<Rightarrow> int" where
  "bigint_value s =
    (case s of
       [] \<Rightarrow> 0
     | c # cs \<Rightarrow> if c = CHR ''-'' then - int (digits_value cs) else int (digits_value s))"

lemma bigint_value_text [simp]: "bigint_value (bigint_text i) = i"
proof (cases "i < 0")
  case True
  then show ?thesis by (simp add: bigint_value_def bigint_text_def)
next
  case False
  obtain c cs where cs: "nat_text (nat i) = c # cs" by (metis nat_text_not_Nil list.exhaust)
  moreover have "c \<noteq> CHR ''-''" using cs nat_text_no_minus by auto
  moreover have "digits_value (c # cs) = nat i" using cs digits_value_nat_text by metis
  ultimately show ?thesis using False by (simp add: bigint_value_def bigint_text_def)
qed

section \<open>Money\<close>

definition maximumMoneyMinor :: int where
  "maximumMoneyMinor = 9223372036854775807"

text \<open>What \<open>fromMinor\<close> is given (\<open>unknown\<close>): a string, a bigint, or anything else.\<close>

datatype js_arg = StringArg string | BigintArg int | OtherArg

datatype Money = Money (minor: int)

abbreviation invalid_amount :: "string \<Rightarrow> js_error" where
  "invalid_amount msg \<equiv> CodedError LedgerError ''INVALID_AMOUNT'' msg"

definition in_money_range :: "int \<Rightarrow> bool" where
  "in_money_range m \<longleftrightarrow> 0 < m \<and> m \<le> maximumMoneyMinor"

definition fromMinor :: "js_arg \<Rightarrow> js_error + Money" where
  "fromMinor arg =
    (case arg of
       OtherArg \<Rightarrow> Inl (invalid_amount ''Amount must be a positive integer string'')
     | StringArg s \<Rightarrow>
         if \<not> is_positive_text s
         then Inl (invalid_amount ''Amount must be a positive integer string'')
         else let m = int (digits_value s) in
           if m \<le> 0 \<or> maximumMoneyMinor < m
           then Inl (invalid_amount ''Amount is outside the supported range'')
           else Inr (Money m)
     | BigintArg m \<Rightarrow>
         if m \<le> 0 \<or> maximumMoneyMinor < m
         then Inl (invalid_amount ''Amount is outside the supported range'')
         else Inr (Money m))"

definition Money_toString :: "Money \<Rightarrow> string" where
  "Money_toString m = bigint_text (minor m)"

lemma fromMinor_range: "fromMinor arg = Inr m \<Longrightarrow> in_money_range (minor m)"
  by (auto simp: fromMinor_def in_money_range_def Let_def split: js_arg.splits if_splits)

lemma fromMinor_error:
  "fromMinor arg = Inl e \<Longrightarrow> \<exists>msg. e = invalid_amount msg"
  by (auto simp: fromMinor_def Let_def split: js_arg.splits if_splits)

lemma fromMinor_string:
  "fromMinor (StringArg s) = Inr m \<longleftrightarrow>
    is_positive_text s \<and> m = Money (int (digits_value s)) \<and> in_money_range (minor m)"
  using is_positive_text_value_pos [of s]
  by (auto simp: fromMinor_def in_money_range_def Let_def)

lemma fromMinor_of_text:
  assumes "in_money_range (minor m)"
  shows "fromMinor (StringArg (Money_toString m)) = Inr m"
proof -
  have pos: "0 < nat (minor m)" and s_eq: "Money_toString m = nat_text (nat (minor m))"
    using assms by (auto simp: in_money_range_def Money_toString_def bigint_text_def)
  have "m = Money (int (digits_value (Money_toString m)))"
    using pos s_eq by (cases m) simp
  then show ?thesis
    using assms is_positive_nat_text [OF pos] unfolding s_eq by (simp add: fromMinor_string)
qed

text \<open>
  Money round-trips: a text is accepted exactly when it is the canonical decimal text of
  an amount between 1 and 2^63 - 1, and then the amount prints back as that very text - no
  leading zero, sign, blank or other spelling of the same amount is ever accepted.
\<close>

theorem money_text_roundtrip:
  "fromMinor (StringArg s) = Inr m \<longleftrightarrow> in_money_range (minor m) \<and> s = Money_toString m"
  by (auto simp: fromMinor_of_text)
    (auto simp: fromMinor_string Money_toString_def nat_text_digits_value)

end
