(* ===== verification/Js_Date.thy ===== *)
theory Js_Date
  imports Money_Domain
begin

text \<open>
  The calendar part of JavaScript's \<open>Date\<close> the source uses: \<open>toISOString\<close>.  A
  \<open>Date\<close> holds whole milliseconds, so an instant loses its microseconds when it becomes
  one.
\<close>

text \<open>Days since 1970-01-01 as (year, month, day) in the proleptic Gregorian calendar.\<close>

definition civil_from_days :: "int \<Rightarrow> int \<times> int \<times> int" where
  "civil_from_days days =
    (let z = days + 719468;
         era = z div 146097;
         doe = z mod 146097;
         yoe = (doe - doe div 1460 + doe div 36524 - doe div 146096) div 365;
         doy = doe - (365 * yoe + yoe div 4 - yoe div 100);
         mp = (5 * doy + 2) div 153;
         d = doy - (153 * mp + 2) div 5 + 1;
         m = (if mp < 10 then mp + 3 else mp - 9);
         y = yoe + era * 400 + (if m \<le> 2 then 1 else 0)
     in (y, m, d))"

definition pad_left :: "nat \<Rightarrow> string \<Rightarrow> string" where
  "pad_left n s = replicate (n - length s) (CHR ''0'') @ s"

definition two_digits :: "int \<Rightarrow> string" where
  "two_digits i = pad_left 2 (bigint_text i)"

definition year_text :: "int \<Rightarrow> string" where
  "year_text y =
    (if 0 \<le> y \<and> y \<le> 9999 then pad_left 4 (bigint_text y)
     else (if y < 0 then CHR ''-'' else CHR ''+'') # pad_left 6 (bigint_text \<bar>y\<bar>))"

definition ms_of :: "instant \<Rightarrow> int" where
  "ms_of t = t div 1000"

definition iso_of_ms :: "int \<Rightarrow> string" where
  "iso_of_ms ms =
    (let (y, mo, d) = civil_from_days (ms div 86400000);
         r = ms mod 86400000
     in year_text y @ ''-'' @ two_digits mo @ ''-'' @ two_digits d @ ''T'' @
        two_digits (r div 3600000) @ '':'' @ two_digits (r div 60000 mod 60) @ '':'' @
        two_digits (r div 1000 mod 60) @ ''.'' @ pad_left 3 (bigint_text (r mod 1000)) @ ''Z'')"

definition toISOString :: "instant \<Rightarrow> string" where
  "toISOString t = iso_of_ms (ms_of t)"

text \<open>
  Comparing an instant with a whole-millisecond threshold gives the same answer before and
  after the microseconds are dropped, so the application's and the database's age checks
  agree.
\<close>

lemma ms_of_less_iff: "ms_of t < m \<longleftrightarrow> t < 1000 * m"
  unfolding ms_of_def by linarith

end
