(* ===== verification/Database.thy ===== *)
theory Database
  imports Sql Transaction Js_Date
begin

text \<open>
  The database of migrations/001 to 012: one record per table row, the database as the
  record of its tables, the constraints and triggers the application relies on, and the
  posting function \<open>post_ledger_transaction\<close> (migrations/002), the only writer of
  balances.  A \<open>bigint\<close> column is an integer together with PostgreSQL's range check,
  which raises (it never wraps).
\<close>

section \<open>Rows\<close>

datatype account_status = Account_active | Account_frozen | Account_closed

datatype direction = Debit | Credit

datatype principal_status = Principal_active | Principal_disabled

datatype idempotency_status = In_progress | Completed

datatype outbox_status = Pending | Processing | Failed | Processed

record account_row =
  acc_id :: uuid
  acc_currency :: string
  acc_status :: account_status
  acc_balance_minor :: int
  acc_is_treasury :: bool
  acc_owner_principal_id :: "uuid option"
  acc_created_at :: instant
  acc_updated_at :: instant

record ledger_transaction_row =
  lt_id :: uuid
  lt_type :: string
  lt_reference :: string
  lt_currency :: string
  lt_finalized :: bool
  lt_created_at :: instant

record journal_entry_row =
  je_id :: uuid
  je_transaction_id :: uuid
  je_account_id :: uuid
  je_currency :: string
  je_direction :: direction
  je_amount_minor :: int
  je_created_at :: instant

record transfer_row =
  tr_id :: uuid
  tr_source_account_id :: uuid
  tr_destination_account_id :: uuid
  tr_amount_minor :: int
  tr_currency :: string

record idempotency_row =
  ir_principal_id :: uuid
  ir_key :: string
  ir_operation :: string
  ir_request_fingerprint :: string
  ir_status :: idempotency_status
  ir_response_status_code :: "nat option"
  ir_response_body :: "json option"
  ir_created_at :: instant
  ir_completed_at :: "instant option"

text \<open>\<open>next_attempt_at\<close>: NULL, an instant, or the timestamp 'infinity'.\<close>

datatype attempt_time = At instant | Infinity_time

record outbox_row =
  ob_id :: uuid
  ob_aggregate_id :: uuid
  ob_aggregate_type :: string
  ob_event_type :: string
  ob_event_version :: nat
  ob_payload :: json
  ob_status :: outbox_status
  ob_attempts :: nat
  ob_last_error :: "string option"
  ob_next_attempt_at :: "attempt_time option"
  ob_processed_at :: "instant option"
  ob_created_at :: instant

record inbox_row =
  in_consumer_name :: string
  in_event_id :: uuid
  in_processed_at :: instant

record audit_row =
  ae_id :: uuid
  ae_event_id :: uuid
  ae_aggregate_id :: uuid
  ae_aggregate_type :: string
  ae_event_type :: string
  ae_payload :: json
  ae_created_at :: instant

record principal_row =
  pr_id :: uuid
  pr_name :: string
  pr_status :: principal_status
  pr_created_at :: instant

record api_key_row =
  ak_id :: uuid
  ak_principal_id :: uuid
  ak_key_prefix :: string
  ak_key_hash :: string
  ak_created_at :: instant
  ak_revoked_at :: "instant option"

record identity_row =
  pid_provider :: string
  pid_subject :: string
  pid_principal_id :: uuid
  pid_email :: "string option"
  pid_created_at :: instant

record db =
  accounts :: "account_row list"
  ledger_transactions :: "ledger_transaction_row list"
  journal_entries :: "journal_entry_row list"
  transfers :: "transfer_row list"
  idempotency_records :: "idempotency_row list"
  outbox_events :: "outbox_row list"
  consumer_inbox :: "inbox_row list"
  audit_effects :: "audit_row list"
  principals :: "principal_row list"
  api_keys :: "api_key_row list"
  principal_identities :: "identity_row list"

type_synonym 'a db_tx = "(db, js_error, 'a) tx"

abbreviation unique_violation :: "string \<Rightarrow> js_error" where
  "unique_violation c \<equiv> pg_error ''23505'' c"

abbreviation foreign_key_violation :: "string \<Rightarrow> js_error" where
  "foreign_key_violation c \<equiv> pg_error ''23503'' c"

abbreviation check_violation :: "string \<Rightarrow> js_error" where
  "check_violation c \<equiv> pg_error ''23514'' c"

section \<open>Column domains\<close>

definition bigint_max :: int where
  "bigint_max = 9223372036854775807"

definition in_bigint :: "int \<Rightarrow> bool" where
  "in_bigint i \<longleftrightarrow> - bigint_max - 1 \<le> i \<and> i \<le> bigint_max"

text \<open>The check \<open>currency ~ '^[A-Z]{3}$'\<close>.\<close>

definition currency_ok :: "string \<Rightarrow> bool" where
  "currency_ok s \<longleftrightarrow> length s = 3 \<and> list_all (\<lambda>c. CHR ''A'' \<le> c \<and> c \<le> CHR ''Z'') s"

text \<open>The text of a bigint parameter, as the source passes it: canonical positive decimals.\<close>

definition bigint_in :: "string \<Rightarrow> js_error + int" where
  "bigint_in s =
    (if \<not> is_positive_text s then Inl (pg_error ''22P02'' ''invalid input syntax for type bigint'')
     else if bigint_max < int (digits_value s) then Inl (pg_error ''22003'' ''value out of range'')
     else Inr (int (digits_value s)))"

fun bigints_in :: "string list \<Rightarrow> js_error + int list" where
  "bigints_in [] = Inr []"
| "bigints_in (s # ss) =
    (case bigint_in s of
       Inl e \<Rightarrow> Inl e
     | Inr i \<Rightarrow> (case bigints_in ss of Inl e \<Rightarrow> Inl e | Inr is \<Rightarrow> Inr (i # is)))"

lemma bigint_in_Money:
  "in_money_range (minor m) \<Longrightarrow> bigint_in (Money_toString m) = Inr (minor m)"
  using fromMinor_of_text [of m]
  by (cases m)
    (auto simp: bigint_in_def fromMinor_string in_money_range_def bigint_max_def
      maximumMoneyMinor_def)

text \<open>
  A uuid parameter: PostgreSQL compares uuids by value, so the case of the hexadecimal digits
  does not matter; the rows hold the canonical lower-case text.
\<close>

definition lower_char :: "char \<Rightarrow> char" where
  "lower_char c = (if CHR ''A'' \<le> c \<and> c \<le> CHR ''Z'' then char_of (of_char c + 32 :: nat) else c)"

definition uuid_in :: "string \<Rightarrow> uuid" where
  "uuid_in s = map lower_char s"

section \<open>Sums over journal entries\<close>

definition signed_amount :: "direction \<Rightarrow> int \<Rightarrow> int" where
  "signed_amount d m = (case d of Debit \<Rightarrow> m | Credit \<Rightarrow> - m)"

definition debit_total :: "(direction \<times> int) list \<Rightarrow> int" where
  "debit_total es = sum_list (map (\<lambda>(d, m). if d = Debit then m else 0) es)"

definition credit_total :: "(direction \<times> int) list \<Rightarrow> int" where
  "credit_total es = sum_list (map (\<lambda>(d, m). if d = Credit then m else 0) es)"

text \<open>What a list of entries adds to one account.\<close>

definition entry_delta :: "(uuid \<times> direction \<times> int) list \<Rightarrow> uuid \<Rightarrow> int" where
  "entry_delta es aid = sum_list (map (\<lambda>(a, d, m). if a = aid then signed_amount d m else 0) es)"

lemma debit_minus_credit:
  "debit_total es - credit_total es = sum_list (map (\<lambda>(d, m). signed_amount d m) es)"
  by (induction es)
    (auto simp: debit_total_def credit_total_def signed_amount_def split: direction.splits)

section \<open>Inserting with constraints\<close>

text \<open>
  INSERT INTO ledger_transactions: primary key, unique reference, the checks on type and
  currency and the width of the reference.
\<close>

definition insert_ledger_transaction :: "ledger_transaction_row \<Rightarrow> unit db_tx" where
  "insert_ledger_transaction r =
    tx_bind (tx_get ledger_transactions) (\<lambda>t.
    tx_bind (tx_require (length (lt_reference r) \<le> 128)
      (pg_error ''22001'' ''value too long for type character varying(128)'')) (\<lambda>_.
    tx_bind (tx_require (lt_type r \<in> {''funding'', ''transfer''})
      (check_violation ''ledger_transactions_type_check'')) (\<lambda>_.
    tx_bind (tx_require (currency_ok (lt_currency r))
      (check_violation ''ledger_transactions_currency_check'')) (\<lambda>_.
    tx_bind (tx_require (lt_id r \<notin> lt_id ` set t) (unique_violation ''ledger_transactions_pkey''))
      (\<lambda>_.
    tx_bind (tx_require (lt_reference r \<notin> lt_reference ` set t)
      (unique_violation ''ledger_transactions_reference_key'')) (\<lambda>_.
    tx_modify (\<lambda>s. s\<lparr>ledger_transactions := t @ [r]\<rparr>)))))))"

text \<open>
  INSERT INTO journal_entries: the trigger that refuses a finalized transaction, the positive
  amount, the primary key and the two composite foreign keys.
\<close>

definition insert_journal_entry :: "journal_entry_row \<Rightarrow> unit db_tx" where
  "insert_journal_entry r =
    tx_bind (tx_get (\<lambda>s. s)) (\<lambda>s.
    tx_bind (tx_require
        (\<not> (\<exists>t\<in>set (ledger_transactions s). lt_id t = je_transaction_id r \<and> lt_finalized t))
        (pg_error ''55000'' ''cannot append to finalized ledger transaction'')) (\<lambda>_.
    tx_bind (tx_require (0 < je_amount_minor r)
      (check_violation ''journal_entries_amount_minor_check'')) (\<lambda>_.
    tx_bind (tx_require (je_id r \<notin> je_id ` set (journal_entries s))
      (unique_violation ''journal_entries_pkey'')) (\<lambda>_.
    tx_bind (tx_require
        ((je_transaction_id r, je_currency r) \<in>
          (\<lambda>t. (lt_id t, lt_currency t)) ` set (ledger_transactions s))
        (foreign_key_violation ''journal_entries_transaction_currency_fk'')) (\<lambda>_.
    tx_bind (tx_require
        ((je_account_id r, je_currency r) \<in>
          (\<lambda>a. (acc_id a, acc_currency a)) ` set (accounts s))
        (foreign_key_violation ''journal_entries_account_currency_fk'')) (\<lambda>_.
    tx_modify (\<lambda>s. s\<lparr>journal_entries := journal_entries s @ [r]\<rparr>)))))))"

section \<open>post_ledger_transaction\<close>

text \<open>The rows of accounts a posting touches, and the currency the function selects.\<close>

definition posting_accounts :: "uuid list \<Rightarrow> account_row list \<Rightarrow> account_row list" where
  "posting_accounts ids t = select_where (\<lambda>a. acc_id a \<in> set ids) t"

definition active_posting_accounts :: "uuid list \<Rightarrow> account_row list \<Rightarrow> account_row list" where
  "active_posting_accounts ids t =
    select_where (\<lambda>a. acc_id a \<in> set ids \<and> acc_status a = Account_active) t"

text \<open>UPDATE accounts: add each account's delta, then check the row.\<close>

definition post_delta :: "instant \<Rightarrow> (uuid \<times> direction \<times> int) list \<Rightarrow> account_row \<Rightarrow> account_row" where
  "post_delta now es a =
    a\<lparr>acc_balance_minor := acc_balance_minor a + entry_delta es (acc_id a), acc_updated_at := now\<rparr>"

definition account_row_ok :: "account_row \<Rightarrow> bool" where
  "account_row_ok a \<longleftrightarrow> acc_is_treasury a \<or> 0 \<le> acc_balance_minor a"

definition balance_error :: "account_row \<Rightarrow> js_error option" where
  "balance_error a =
    (if \<not> in_bigint (acc_balance_minor a) then Some (pg_error ''22003'' ''bigint out of range'')
     else if \<not> account_row_ok a then Some (check_violation ''accounts_check'')
     else None)"

definition update_balances :: "instant \<Rightarrow> (uuid \<times> direction \<times> int) list \<Rightarrow> unit db_tx" where
  "update_balances now es =
    tx_bind (tx_get accounts) (\<lambda>t.
    (let touched = (\<lambda>a. acc_id a \<in> fst ` set es);
         t' = update_where touched (post_delta now es) t
     in
    tx_bind (tx_check (first_error balance_error (select_where touched t'))) (\<lambda>_.
    tx_modify (\<lambda>s. s\<lparr>accounts := t'\<rparr>))))"

definition finalize_transaction :: "uuid \<Rightarrow> unit db_tx" where
  "finalize_transaction tid =
    tx_modify (\<lambda>s. s\<lparr>ledger_transactions :=
      update_where (\<lambda>t. lt_id t = tid) (\<lambda>t. t\<lparr>lt_finalized := True\<rparr>) (ledger_transactions s)\<rparr>)"

definition entry_row ::
    "instant \<Rightarrow> uuid \<Rightarrow> string \<Rightarrow> uuid \<times> uuid \<times> direction \<times> int \<Rightarrow> journal_entry_row" where
  "entry_row now tid cur e =
    (case e of (eid, aid, d, m) \<Rightarrow>
      \<lparr>je_id = eid, je_transaction_id = tid, je_account_id = aid, je_currency = cur,
       je_direction = d, je_amount_minor = m, je_created_at = now\<rparr>)"

definition post_ledger_transaction ::
    "instant \<Rightarrow> uuid \<Rightarrow> string \<Rightarrow> string \<Rightarrow> uuid list \<Rightarrow> uuid list \<Rightarrow> direction list \<Rightarrow> int list
      \<Rightarrow> ledger_transaction_row db_tx" where
  "post_ledger_transaction now tid ty ref entry_ids account_ids directions amounts =
    tx_bind (tx_require
        (2 \<le> length entry_ids \<and> length account_ids = length entry_ids \<and>
         length directions = length entry_ids \<and> length amounts = length entry_ids)
        (pg_error ''22023'' ''invalid posting entry arrays'')) (\<lambda>_.
    tx_bind (tx_require (list_all (\<lambda>m. 0 < m) amounts)
        (pg_error ''22023'' ''invalid posting entry'')) (\<lambda>_.
    tx_bind (tx_get (\<lambda>s. active_posting_accounts account_ids (accounts s))) (\<lambda>active.
    tx_bind (tx_require (length active = card (set account_ids))
        (pg_error ''23503'' ''posting account unavailable'')) (\<lambda>_.
    tx_bind (tx_get (\<lambda>s. acc_currency ` set (posting_accounts account_ids (accounts s))))
      (\<lambda>currencies.
    tx_bind (tx_require (card currencies = 1)
        (pg_error ''23514'' ''mixed-currency posting'')) (\<lambda>_.
    tx_bind (tx_require
        (debit_total (zip directions amounts) = credit_total (zip directions amounts))
        (pg_error ''23514'' ''unbalanced posting'')) (\<lambda>_.
    (let cur = min_list (map acc_currency active);
         row = \<lparr>lt_id = tid, lt_type = ty, lt_reference = ref, lt_currency = cur,
                lt_finalized = False, lt_created_at = now\<rparr>
     in
    tx_bind (insert_ledger_transaction row) (\<lambda>_.
    tx_bind (tx_iter insert_journal_entry
        (map (entry_row now tid cur) (zip entry_ids (zip account_ids (zip directions amounts)))))
      (\<lambda>_.
    tx_bind (update_balances now (zip account_ids (zip directions amounts))) (\<lambda>_.
    tx_bind (finalize_transaction tid) (\<lambda>_.
    tx_return (row\<lparr>lt_finalized := True\<rparr>)))))))))))))"

section \<open>The deferred constraint triggers\<close>

definition entries_of :: "uuid \<Rightarrow> journal_entry_row list \<Rightarrow> (direction \<times> int) list" where
  "entries_of tid t =
    map (\<lambda>e. (je_direction e, je_amount_minor e)) (select_where (\<lambda>e. je_transaction_id e = tid) t)"

definition balanced_entries :: "(direction \<times> int) list \<Rightarrow> bool" where
  "balanced_entries es \<longleftrightarrow>
    Debit \<in> fst ` set es \<and> Credit \<in> fst ` set es \<and> debit_total es = credit_total es"

text \<open>assert_ledger_transaction_balanced, for one transaction id.\<close>

definition assert_balanced :: "db \<Rightarrow> uuid \<Rightarrow> js_error option" where
  "assert_balanced s tid =
    (if \<not> (\<exists>t\<in>set (ledger_transactions s). lt_id t = tid \<and> lt_finalized t)
     then Some (pg_error ''23514'' ''ledger transaction is not finalized'')
     else if \<not> balanced_entries (entries_of tid (journal_entries s))
     then Some (pg_error ''23514'' ''ledger transaction is not balanced'')
     else None)"

text \<open>
  The rows inserted since the transaction began fire the triggers at COMMIT: first the
  transactions', then the entries'.
\<close>

definition deferred_constraints :: "db \<Rightarrow> db \<Rightarrow> js_error option" where
  "deferred_constraints s s' =
    (let new_tx = map lt_id (filter (\<lambda>t. lt_id t \<notin> lt_id ` set (ledger_transactions s))
                       (ledger_transactions s'));
         new_entries = map je_transaction_id
                         (filter (\<lambda>e. je_id e \<notin> je_id ` set (journal_entries s)) (journal_entries s'))
     in first_error (assert_balanced s') (new_tx @ new_entries))"

section \<open>The migrated database\<close>

text \<open>What the migrations leave: the two treasuries (001) and the administrator principal (011).\<close>

definition treasury_row :: "instant \<Rightarrow> uuid \<Rightarrow> string \<Rightarrow> account_row" where
  "treasury_row now aid cur =
    \<lparr>acc_id = aid, acc_currency = cur, acc_status = Account_active, acc_balance_minor = 0,
     acc_is_treasury = True, acc_owner_principal_id = None, acc_created_at = now,
     acc_updated_at = now\<rparr>"

definition admin_principal_id :: uuid where
  "admin_principal_id = ''00000000-0000-4000-8000-0000000000ad''"

definition initial_db :: "instant \<Rightarrow> db" where
  "initial_db now =
    \<lparr>accounts = [treasury_row now ''00000000-0000-4000-8000-000000000001'' ''INR'',
                treasury_row now ''00000000-0000-4000-8000-000000000002'' ''USD''],
     ledger_transactions = [], journal_entries = [], transfers = [], idempotency_records = [],
     outbox_events = [], consumer_inbox = [], audit_effects = [],
     principals = [\<lparr>pr_id = admin_principal_id, pr_name = ''system-administrator'',
                    pr_status = Principal_disabled, pr_created_at = now\<rparr>],
     api_keys = [], principal_identities = []\<rparr>"

end
