(* ===== verification/Ledger_Invariant.thy ===== *)
theory Ledger_Invariant
  imports Database
begin

text \<open>
  What the double-entry ledger promises between transactions, what one call of
  \<open>post_ledger_transaction\<close> leaves, and that it keeps the promise: balanced and finalized
  transactions, cached balances equal to the sum of the journal, no customer overdraft.
\<close>

section \<open>The invariant\<close>

definition journal_balance :: "journal_entry_row list \<Rightarrow> uuid \<Rightarrow> int" where
  "journal_balance t aid =
    sum_list (map (\<lambda>e. if je_account_id e = aid
                       then signed_amount (je_direction e) (je_amount_minor e) else 0) t)"

definition transaction_settled :: "db \<Rightarrow> ledger_transaction_row \<Rightarrow> bool" where
  "transaction_settled s t \<longleftrightarrow>
    lt_finalized t \<and> balanced_entries (entries_of (lt_id t) (journal_entries s))"

definition entry_grounded :: "db \<Rightarrow> journal_entry_row \<Rightarrow> bool" where
  "entry_grounded s e \<longleftrightarrow> 0 < je_amount_minor e \<and>
    (je_transaction_id e, je_currency e) \<in> (\<lambda>t. (lt_id t, lt_currency t)) ` set (ledger_transactions s) \<and>
    (je_account_id e, je_currency e) \<in> (\<lambda>a. (acc_id a, acc_currency a)) ` set (accounts s)"

definition account_sound :: "db \<Rightarrow> account_row \<Rightarrow> bool" where
  "account_sound s a \<longleftrightarrow>
    acc_balance_minor a = journal_balance (journal_entries s) (acc_id a) \<and>
    in_bigint (acc_balance_minor a) \<and> account_row_ok a"

definition ledger_keys :: "db \<Rightarrow> bool" where
  "ledger_keys s \<longleftrightarrow>
    distinct (map acc_id (accounts s)) \<and> distinct (map lt_id (ledger_transactions s)) \<and>
    distinct (map lt_reference (ledger_transactions s)) \<and> distinct (map je_id (journal_entries s))"

definition ledger_inv :: "db \<Rightarrow> bool" where
  "ledger_inv s \<longleftrightarrow> ledger_keys s \<and>
    (\<forall>t\<in>set (ledger_transactions s). transaction_settled s t) \<and>
    (\<forall>e\<in>set (journal_entries s). entry_grounded s e) \<and>
    (\<forall>a\<in>set (accounts s). account_sound s a)"

section \<open>What the statements leave\<close>

lemma journal_balance_append:
  "journal_balance (t @ u) aid = journal_balance t aid + journal_balance u aid"
  by (simp add: journal_balance_def)

lemma insert_journal_entry_InrD:
  "insert_journal_entry r s = Inr (u, s') \<Longrightarrow>
    s' = s\<lparr>journal_entries := journal_entries s @ [r]\<rparr> \<and>
    je_id r \<notin> je_id ` set (journal_entries s) \<and> entry_grounded s r"
  by (auto simp: insert_journal_entry_def tx_simps entry_grounded_def)

lemma insert_journal_entries_InrD:
  "tx_iter insert_journal_entry rs s = Inr (u, s') \<Longrightarrow>
    s' = s\<lparr>journal_entries := journal_entries s @ rs\<rparr> \<and> distinct (map je_id rs) \<and>
    je_id ` set rs \<inter> je_id ` set (journal_entries s) = {} \<and> (\<forall>r\<in>set rs. entry_grounded s r)"
proof (induction rs arbitrary: s)
  case Nil
  then show ?case by (simp add: tx_simps)
next
  case (Cons r rs)
  from Cons.prems obtain u0 s0 where r: "insert_journal_entry r s = Inr (u0, s0)"
    and rs: "tx_iter insert_journal_entry rs s0 = Inr (u, s')"
    by (auto simp: tx_simps)
  from Cons.IH [OF rs] insert_journal_entry_InrD [OF r] show ?case
    by (auto simp: entry_grounded_def)
qed

lemma insert_ledger_transaction_InrD:
  "insert_ledger_transaction r s = Inr (u, s') \<Longrightarrow>
    s' = s\<lparr>ledger_transactions := ledger_transactions s @ [r]\<rparr> \<and>
    lt_id r \<notin> lt_id ` set (ledger_transactions s) \<and>
    lt_reference r \<notin> lt_reference ` set (ledger_transactions s) \<and>
    lt_type r \<in> {''funding'', ''transfer''} \<and> currency_ok (lt_currency r)"
  by (auto simp: insert_ledger_transaction_def tx_simps)

lemma balance_error_None:
  "balance_error a = None \<longleftrightarrow> in_bigint (acc_balance_minor a) \<and> account_row_ok a"
  by (simp add: balance_error_def)

lemma post_delta_key [simp]:
  "acc_id (post_delta now es a) = acc_id a" "acc_currency (post_delta now es a) = acc_currency a"
  "acc_is_treasury (post_delta now es a) = acc_is_treasury a"
  "acc_balance_minor (post_delta now es a) = acc_balance_minor a + entry_delta es (acc_id a)"
  by (simp_all add: post_delta_def)

lemma update_balances_InrD:
  "update_balances now es s = Inr (u, s') \<Longrightarrow>
    s' = s\<lparr>accounts := update_where (\<lambda>a. acc_id a \<in> fst ` set es) (post_delta now es) (accounts s)\<rparr> \<and>
    (\<forall>a\<in>set (accounts s). acc_id a \<in> fst ` set es \<longrightarrow>
      in_bigint (acc_balance_minor (post_delta now es a)) \<and> account_row_ok (post_delta now es a))"
  unfolding update_balances_def Let_def tx_simps first_error_None
  using updated_rows_satisfy [where p = "\<lambda>a. acc_id a \<in> fst ` set es" and f = "post_delta now es"
      and t = "accounts s" and Q = "\<lambda>a. balance_error a = None"]
  by (auto simp: balance_error_None tx_simps)

text \<open>Everything a successful posting is, and what it required.\<close>

definition posted_state ::
    "instant \<Rightarrow> ledger_transaction_row \<Rightarrow> journal_entry_row list \<Rightarrow> (uuid \<times> direction \<times> int) list
      \<Rightarrow> db \<Rightarrow> db" where
  "posted_state now row rows es s =
    s\<lparr>ledger_transactions := ledger_transactions s @ [row],
      journal_entries := journal_entries s @ rows,
      accounts := update_where (\<lambda>a. acc_id a \<in> fst ` set es) (post_delta now es) (accounts s)\<rparr>"

lemma finalize_new_transaction:
  "tid \<notin> lt_id ` set t \<Longrightarrow> lt_id r = tid \<Longrightarrow>
    update_where (\<lambda>x. lt_id x = tid) (\<lambda>x. x\<lparr>lt_finalized := True\<rparr>) (t @ [r]) =
      t @ [r\<lparr>lt_finalized := True\<rparr>]"
  by (auto simp: update_where_def image_iff intro!: map_idI)

lemma post_ledger_transaction_InrD:
  assumes "post_ledger_transaction now tid ty ref eids aids ds ms s = Inr (row, s')"
  defines "es \<equiv> zip aids (zip ds ms)"
  obtains rows where
    "rows = map (entry_row now tid (lt_currency row)) (zip eids es)"
    "lt_id row = tid" "lt_type row = ty" "lt_reference row = ref" "lt_finalized row"
    "lt_created_at row = now"
    "s' = posted_state now row rows es s"
    "2 \<le> length eids" "length aids = length eids" "length ds = length eids" "length ms = length eids"
    "list_all (\<lambda>m. 0 < m) ms"
    "debit_total (zip ds ms) = credit_total (zip ds ms)"
    "tid \<notin> lt_id ` set (ledger_transactions s)"
    "ref \<notin> lt_reference ` set (ledger_transactions s)"
    "distinct (map je_id rows)" "je_id ` set rows \<inter> je_id ` set (journal_entries s) = {}"
    "\<forall>r\<in>set rows. entry_grounded (s\<lparr>ledger_transactions := ledger_transactions s @ [row]\<rparr>) r"
    "\<forall>a\<in>set (accounts s). acc_id a \<in> fst ` set es \<longrightarrow>
      in_bigint (acc_balance_minor (post_delta now es a)) \<and> account_row_ok (post_delta now es a)"
proof -
  from assms(1) obtain cur u1 s1 u2 s2 u3 s3 where
    len: "2 \<le> length eids" "length aids = length eids" "length ds = length eids"
      "length ms = length eids"
    and pos: "list_all (\<lambda>m. 0 < m) ms"
    and bal: "debit_total (zip ds ms) = credit_total (zip ds ms)"
    and ins: "insert_ledger_transaction \<lparr>lt_id = tid, lt_type = ty, lt_reference = ref,
        lt_currency = cur, lt_finalized = False, lt_created_at = now\<rparr> s = Inr (u1, s1)"
    and ent: "tx_iter insert_journal_entry (map (entry_row now tid cur) (zip eids es)) s1 = Inr (u2, s2)"
    and upd: "update_balances now es s2 = Inr (u3, s3)"
    and fin: "s' = s3\<lparr>ledger_transactions :=
      update_where (\<lambda>t. lt_id t = tid) (\<lambda>t. t\<lparr>lt_finalized := True\<rparr>) (ledger_transactions s3)\<rparr>"
    and row: "row = \<lparr>lt_id = tid, lt_type = ty, lt_reference = ref, lt_currency = cur,
        lt_finalized = True, lt_created_at = now\<rparr>"
    unfolding post_ledger_transaction_def es_def Let_def finalize_transaction_def
    by (auto simp: tx_simps)
  note i = insert_ledger_transaction_InrD [OF ins]
  note e = insert_journal_entries_InrD [OF ent]
  note b = update_balances_InrD [OF upd]
  show ?thesis
  proof (rule that)
    show "map (entry_row now tid cur) (zip eids es) =
        map (entry_row now tid (lt_currency row)) (zip eids es)"
      by (simp add: row)
    show "s' = posted_state now row (map (entry_row now tid cur) (zip eids es)) es s"
      using i e b by (simp add: fin posted_state_def finalize_new_transaction row)
    show "\<forall>r\<in>set (map (entry_row now tid cur) (zip eids es)).
        entry_grounded (s\<lparr>ledger_transactions := ledger_transactions s @ [row]\<rparr>) r"
      using i e by (force simp: entry_grounded_def row)
  qed (use len pos bal i e b row in auto)
qed

section \<open>Posting keeps the invariant\<close>

lemma entry_row_simps [simp]:
  "je_id (entry_row now tid cur e) = fst e" "je_transaction_id (entry_row now tid cur e) = tid"
  "je_currency (entry_row now tid cur e) = cur" "je_account_id (entry_row now tid cur e) = fst (snd e)"
  "je_direction (entry_row now tid cur e) = fst (snd (snd e))"
  "je_amount_minor (entry_row now tid cur e) = snd (snd (snd e))"
  "je_created_at (entry_row now tid cur e) = now"
  by (simp_all add: entry_row_def split: prod.splits)

lemma journal_balance_new_rows:
  "length eids = length es \<Longrightarrow>
    journal_balance (map (entry_row now tid cur) (zip eids es)) aid = entry_delta es aid"
  unfolding journal_balance_def entry_delta_def
  by (induction eids es rule: list_induct2) (auto simp: split_def)

lemma entry_delta_untouched: "aid \<notin> fst ` set es \<Longrightarrow> entry_delta es aid = 0"
  unfolding entry_delta_def by (intro sum_list_map_zero) (force split: prod.splits)

lemma entries_of_new_rows:
  "length eids = length es \<Longrightarrow>
    entries_of tid (map (entry_row now tid cur) (zip eids es)) = map snd es"
  unfolding entries_of_def select_where_def
  by (induction eids es rule: list_induct2) auto

lemma entries_of_append: "entries_of tid (t @ u) = entries_of tid t @ entries_of tid u"
  by (simp add: entries_of_def select_where_def)

lemma entries_of_foreign: "\<forall>e\<in>set t. je_transaction_id e \<noteq> tid \<Longrightarrow> entries_of tid t = []"
  by (simp add: entries_of_def select_where_def filter_empty_conv)

lemma totals_nonneg:
  "\<forall>e\<in>set es. 0 < snd e \<Longrightarrow> 0 \<le> debit_total es \<and> 0 \<le> credit_total es"
  unfolding debit_total_def credit_total_def by (induction es) (auto simp: split_def)

lemma total_zero_iff:
  "\<forall>e\<in>set es. 0 < snd e \<Longrightarrow>
    (debit_total es = 0 \<longleftrightarrow> Debit \<notin> fst ` set es) \<and> (credit_total es = 0 \<longleftrightarrow> Credit \<notin> fst ` set es)"
proof (induction es)
  case Nil
  then show ?case by (simp add: debit_total_def credit_total_def)
next
  case (Cons e es)
  moreover have "0 \<le> debit_total es \<and> 0 \<le> credit_total es"
    using Cons.prems by (intro totals_nonneg) simp
  ultimately show ?case
    by (cases "fst e") (auto simp: debit_total_def credit_total_def split_def)
qed

text \<open>
  Positive amounts with equal totals have both sides, so a posting the function accepts
  satisfies the deferred trigger too.
\<close>

lemma equal_totals_balanced:
  assumes "es \<noteq> []" and "\<forall>e\<in>set es. 0 < snd e" and "debit_total es = credit_total es"
  shows "balanced_entries es"
proof -
  obtain e where e: "e \<in> set es" using assms(1) by (cases es) auto
  then have "Debit \<in> fst ` set es \<or> Credit \<in> fst ` set es"
    by (metis (full_types) direction.exhaust imageI)
  then show ?thesis
    using total_zero_iff [OF assms(2)] assms(3) unfolding balanced_entries_def by metis
qed

lemma zip_positive:
  "list_all (\<lambda>m. 0 < m) ms \<Longrightarrow> \<forall>e\<in>set (zip ds ms). 0 < snd e"
  by (force simp: list_all_iff dest: set_zip_rightD)

lemma post_delta_identities:
  "(\<lambda>a. (acc_id a, acc_currency a)) ` set (update_where p (post_delta now es) t) =
    (\<lambda>a. (acc_id a, acc_currency a)) ` set t"
proof -
  have "(\<lambda>a. (acc_id a, acc_currency a)) ` set (update_where p (post_delta now es) t) =
      set (map (\<lambda>a. (acc_id a, acc_currency a)) (update_where p (post_delta now es) t))"
    by simp
  then show ?thesis by (simp add: map_key_update_where del: set_map) simp
qed

lemma entry_grounded_posted:
  assumes "entry_grounded (s\<lparr>ledger_transactions := ledger_transactions s @ [row]\<rparr>) e"
  shows "entry_grounded (posted_state now row rows es s) e"
  using assms by (simp add: entry_grounded_def posted_state_def post_delta_identities)

lemma entry_grounded_more_transactions:
  "entry_grounded s e \<Longrightarrow>
    entry_grounded (s\<lparr>ledger_transactions := ledger_transactions s @ [row]\<rparr>) e"
  by (auto simp: entry_grounded_def)

lemma posted_state_tables [simp]:
  "ledger_transactions (posted_state now row rows es s) = ledger_transactions s @ [row]"
  "journal_entries (posted_state now row rows es s) = journal_entries s @ rows"
  "accounts (posted_state now row rows es s) =
    update_where (\<lambda>a. acc_id a \<in> fst ` set es) (post_delta now es) (accounts s)"
  by (simp_all add: posted_state_def)

lemma posted_account_ids:
  "map acc_id (accounts (posted_state now row rows es s)) = map acc_id (accounts s)"
  by (simp add: map_key_update_where)

lemma ledger_keys_posted:
  "ledger_keys s \<Longrightarrow> lt_id row \<notin> lt_id ` set (ledger_transactions s) \<Longrightarrow>
    lt_reference row \<notin> lt_reference ` set (ledger_transactions s) \<Longrightarrow>
    distinct (map je_id rows) \<Longrightarrow> je_id ` set rows \<inter> je_id ` set (journal_entries s) = {} \<Longrightarrow>
    ledger_keys (posted_state now row rows es s)"
  by (simp add: ledger_keys_def posted_account_ids Int_commute del: posted_state_tables(3))

lemma post_ledger_transaction_keeps:
  assumes inv: "ledger_inv s"
    and post: "post_ledger_transaction now tid ty ref eids aids ds ms s = Inr (row, s')"
  shows "ledger_inv s'"
proof -
  define es where "es = zip aids (zip ds ms)"
  from post obtain rows where
    rows: "rows = map (entry_row now tid (lt_currency row)) (zip eids es)"
    and row_id: "lt_id row = tid" "lt_type row = ty" "lt_reference row = ref" "lt_finalized row"
      "lt_created_at row = now"
    and s': "s' = posted_state now row rows es s"
    and len: "2 \<le> length eids" "length aids = length eids" "length ds = length eids"
      "length ms = length eids"
    and pos: "list_all (\<lambda>m. 0 < m) ms" and bal: "debit_total (zip ds ms) = credit_total (zip ds ms)"
    and fresh: "tid \<notin> lt_id ` set (ledger_transactions s)"
      "ref \<notin> lt_reference ` set (ledger_transactions s)"
      "distinct (map je_id rows)" "je_id ` set rows \<inter> je_id ` set (journal_entries s) = {}"
    and ground: "\<forall>r\<in>set rows. entry_grounded (s\<lparr>ledger_transactions := ledger_transactions s @ [row]\<rparr>) r"
    and ok: "\<forall>a\<in>set (accounts s). acc_id a \<in> fst ` set es \<longrightarrow>
      in_bigint (acc_balance_minor (post_delta now es a)) \<and> account_row_ok (post_delta now es a)"
    unfolding es_def by (rule post_ledger_transaction_InrD)
  have len_es: "length eids = length es" using len by (simp add: es_def)
  have old: "\<forall>e\<in>set (journal_entries s). entry_grounded s e"
    and keys: "ledger_keys s" using inv by (simp_all add: ledger_inv_def)
  have keys': "ledger_keys s'"
    unfolding s' using ledger_keys_posted [OF keys] fresh row_id by simp
  have no_old: "\<forall>e\<in>set (journal_entries s). je_transaction_id e \<noteq> tid"
    using old fresh(1) by (force simp: entry_grounded_def)
  have settled_new: "transaction_settled s' row"
  proof -
    have "entries_of tid (journal_entries s') = zip ds ms"
      using len
      unfolding s' posted_state_tables entries_of_append entries_of_foreign [OF no_old] rows
        entries_of_new_rows [OF len_es]
      by (simp add: es_def)
    moreover have "zip ds ms \<noteq> []" using len by (auto simp: zip_eq_Nil_iff)
    ultimately show ?thesis
      using equal_totals_balanced [OF _ zip_positive [OF pos] bal] row_id
      by (simp add: transaction_settled_def)
  qed
  have settled_old: "transaction_settled s' t" if "t \<in> set (ledger_transactions s)" for t
  proof -
    have "lt_id t \<noteq> tid" using fresh(1) that by auto
    then have "entries_of (lt_id t) rows = []"
      by (intro entries_of_foreign) (auto simp: rows)
    then show ?thesis
      using inv that unfolding s' ledger_inv_def transaction_settled_def
      by (simp add: entries_of_append)
  qed
  have sound: "account_sound s' a'" if a': "a' \<in> set (accounts s')" for a'
  proof -
    obtain a where a: "a \<in> set (accounts s)"
      "a' = (if acc_id a \<in> fst ` set es then post_delta now es a else a)"
      using a' unfolding s' posted_state_tables by (rule update_whereE)
    have "journal_balance (journal_entries s') (acc_id a) =
        journal_balance (journal_entries s) (acc_id a) + entry_delta es (acc_id a)"
      unfolding s' posted_state_tables journal_balance_append rows
        journal_balance_new_rows [OF len_es] ..
    then show ?thesis
      using inv a ok by (auto simp: ledger_inv_def account_sound_def entry_delta_untouched)
  qed
  have "entry_grounded s' e" if "e \<in> set (journal_entries s')" for e
    using that ground old entry_grounded_posted entry_grounded_more_transactions
    unfolding s' by auto
  then show ?thesis
    using keys' settled_new settled_old sound
    unfolding ledger_inv_def by (simp add: s')
qed

section \<open>No money is created\<close>

definition currency_total :: "db \<Rightarrow> string \<Rightarrow> int" where
  "currency_total s c =
    sum_list (map (\<lambda>a. if acc_currency a = c then acc_balance_minor a else 0) (accounts s))"

definition entry_value :: "journal_entry_row \<Rightarrow> int" where
  "entry_value e = signed_amount (je_direction e) (je_amount_minor e)"

lemma journal_balance_value:
  "journal_balance t aid = sum_list (map (\<lambda>e. if je_account_id e = aid then entry_value e else 0) t)"
  unfolding journal_balance_def entry_value_def ..

lemma entries_of_value:
  "sum_list (map (\<lambda>e. if je_transaction_id e = tid then entry_value e else 0) t) =
    debit_total (entries_of tid t) - credit_total (entries_of tid t)"
  unfolding debit_minus_credit
  by (induction t) (auto simp: entries_of_def select_where_def entry_value_def)

lemma ledger_inv_currency_total:
  assumes "ledger_inv s"
  shows "currency_total s c = 0"
proof -
  from assms have keys: "distinct (map acc_id (accounts s))" "distinct (map lt_id (ledger_transactions s))"
    and ground: "\<And>e. e \<in> set (journal_entries s) \<Longrightarrow> entry_grounded s e"
    and sound: "\<And>a. a \<in> set (accounts s) \<Longrightarrow> account_sound s a"
    and settled: "\<And>t. t \<in> set (ledger_transactions s) \<Longrightarrow> transaction_settled s t"
    by (auto simp: ledger_inv_def ledger_keys_def)
  have "currency_total s c = sum_list (map (\<lambda>a. if acc_currency a = c then
      sum_list (map (\<lambda>e. if je_account_id e = acc_id a then entry_value e else 0) (journal_entries s))
      else 0) (accounts s))"
    unfolding currency_total_def using sound
    by (intro sum_list_map_cong_set) (simp add: account_sound_def journal_balance_value)
  also have "\<dots> = sum_list (map (\<lambda>e. if je_currency e = c then entry_value e else 0) (journal_entries s))"
    using ground by (intro sum_list_regroup [OF keys(1)]) (force simp: entry_grounded_def)
  also have "\<dots> = sum_list (map (\<lambda>t. if lt_currency t = c then
      sum_list (map (\<lambda>e. if je_transaction_id e = lt_id t then entry_value e else 0) (journal_entries s))
      else 0) (ledger_transactions s))"
    using ground by (intro sum_list_regroup [OF keys(2), symmetric]) (force simp: entry_grounded_def)
  also have "\<dots> = 0"
    using settled by (intro sum_list_map_zero)
      (simp add: entries_of_value transaction_settled_def balanced_entries_def)
  finally show ?thesis .
qed

section \<open>The deferred triggers never reject a posting\<close>

lemma ledger_inv_deferred:
  assumes "ledger_inv s'"
  shows "deferred_constraints s s' = None"
proof -
  from assms have settled: "\<forall>t\<in>set (ledger_transactions s'). transaction_settled s' t"
    and ground: "\<forall>e\<in>set (journal_entries s'). entry_grounded s' e"
    by (auto simp: ledger_inv_def)
  then have "assert_balanced s' (lt_id t) = None" if "t \<in> set (ledger_transactions s')" for t
    using that by (auto simp: assert_balanced_def transaction_settled_def)
  then show ?thesis
    using ground unfolding deferred_constraints_def Let_def first_error_None
    by (fastforce simp: entry_grounded_def)
qed

text \<open>The invariant reads three tables only.\<close>

lemma ledger_inv_cong:
  "accounts s' = accounts s \<Longrightarrow> ledger_transactions s' = ledger_transactions s \<Longrightarrow>
    journal_entries s' = journal_entries s \<Longrightarrow> ledger_inv s' = ledger_inv s"
  by (simp add: ledger_inv_def ledger_keys_def transaction_settled_def entry_grounded_def
      account_sound_def)

end
