(* ===== verification/Idempotency.thy ===== *)
theory Idempotency
  imports Database
begin

text \<open>
  src/modules/idempotency: the claim of an \<open>Idempotency-Key\<close>, its completion, release and
  retention.  A statement of the repository is a \<^typ>\<open>'a db_tx\<close>; a method that runs several
  auto-committed statements is a \<open>db_io\<close>, in which other clients may act between two
  statements (\<open>claim_env\<close>).  The ISO texts of \<open>createdAt\<close> and \<open>completedAt\<close> name a whole
  number of milliseconds and are carried as that number.
\<close>

type_synonym 'a db_io = "(db, js_error, 'a) io"

section \<open>idempotency-domain.ts\<close>

record IdempotencyRecord =
  rec_completedAt :: "int option"
  rec_createdAt :: int
  rec_key :: string
  rec_operation :: string
  rec_requestFingerprint :: string
  rec_responseBody :: json
  rec_responseStatus :: "nat option"
  rec_status :: idempotency_status

record StoredIdempotentResponse =
  rsp_body :: json
  rsp_status :: "nat option"

datatype claim_action = Proceed | Replay

record ClaimResult =
  cr_action :: claim_action
  cr_record :: "IdempotencyRecord option"
  cr_response :: "StoredIdempotentResponse option"

record claim_params =
  cp_fingerprint :: string
  cp_key :: string
  cp_operation :: string
  cp_principalId :: uuid
  cp_staleTimeoutMs :: int

definition idempotencyKeyMaxLength :: nat where
  "idempotencyKeyMaxLength = 256"

text \<open>
  A header is absent, one string, or a list of strings; the outcome is \<open>undefined\<close>, \<open>null\<close> or
  the key.
\<close>

datatype header = No_header | One_header string | Many_headers "string list"

datatype header_key = Key_undefined | Key_null | Key string

definition idempotencyKeyFrom :: "header \<Rightarrow> header_key" where
  "idempotencyKeyFrom h =
    (case h of
       One_header s \<Rightarrow>
         if length s = 0 then Key_undefined
         else if length s \<le> idempotencyKeyMaxLength then Key s else Key_null
     | _ \<Rightarrow> Key_undefined)"

abbreviation idempotency_in_progress :: js_error where
  "idempotency_in_progress \<equiv> CodedError IdempotencyError ''IDEMPOTENCY_IN_PROGRESS''
     ''A request with this idempotency key is already in progress''"

abbreviation idempotency_conflict :: js_error where
  "idempotency_conflict \<equiv> CodedError IdempotencyError ''IDEMPOTENCY_CONFLICT''
     ''Duplicate idempotency key with a different request body''"

section \<open>idempotency-repository.ts\<close>

definition toRecord :: "idempotency_row \<Rightarrow> IdempotencyRecord" where
  "toRecord r =
    \<lparr>rec_completedAt = map_option ms_of (ir_completed_at r),
     rec_createdAt = ms_of (ir_created_at r),
     rec_key = ir_key r, rec_operation = ir_operation r,
     rec_requestFingerprint = ir_request_fingerprint r,
     rec_responseBody = (case ir_response_body r of None \<Rightarrow> JNull | Some b \<Rightarrow> b),
     rec_responseStatus = ir_response_status_code r, rec_status = ir_status r\<rparr>"

definition toResponse :: "IdempotencyRecord \<Rightarrow> StoredIdempotentResponse" where
  "toResponse r = \<lparr>rsp_body = rec_responseBody r, rsp_status = rec_responseStatus r\<rparr>"

text \<open>The identity of a record: the unique index of migrations/009.\<close>

type_synonym claim_key = "uuid \<times> string \<times> string"

definition row_key :: "idempotency_row \<Rightarrow> claim_key" where
  "row_key r = (ir_principal_id r, ir_key r, ir_operation r)"

definition params_key :: "claim_params \<Rightarrow> claim_key" where
  "params_key p = (cp_principalId p, cp_key p, cp_operation p)"

text \<open>The checks of migrations/005: \<open>char_length(key)\<close> and \<open>operation ~ '^[a-z_]{1,64}$'\<close>.\<close>

definition key_ok :: "string \<Rightarrow> bool" where
  "key_ok s \<longleftrightarrow> 1 \<le> length s \<and> length s \<le> 256"

definition operation_ok :: "string \<Rightarrow> bool" where
  "operation_ok s \<longleftrightarrow> 1 \<le> length s \<and> length s \<le> 64 \<and>
    list_all (\<lambda>c. (CHR ''a'' \<le> c \<and> c \<le> CHR ''z'') \<or> c = CHR ''_'') s"

definition fresh_claim :: "instant \<Rightarrow> claim_params \<Rightarrow> idempotency_row" where
  "fresh_claim now p =
    \<lparr>ir_principal_id = cp_principalId p, ir_key = cp_key p, ir_operation = cp_operation p,
     ir_request_fingerprint = cp_fingerprint p, ir_status = In_progress,
     ir_response_status_code = None, ir_response_body = None, ir_created_at = now,
     ir_completed_at = None\<rparr>"

text \<open>INSERT ... ON CONFLICT DO NOTHING RETURNING.\<close>

definition insert_claim :: "instant \<Rightarrow> claim_params \<Rightarrow> idempotency_row option db_tx" where
  "insert_claim now p =
    tx_bind (tx_require (key_ok (cp_key p)) (check_violation ''idempotency_records_key_check'')) (\<lambda>_.
    tx_bind (tx_require (operation_ok (cp_operation p))
      (check_violation ''idempotency_records_operation_check'')) (\<lambda>_.
    tx_bind (tx_get (\<lambda>s. insert_unique row_key (fresh_claim now p) (idempotency_records s))) (\<lambda>ins.
    case ins of
      None \<Rightarrow> tx_return None
    | Some t' \<Rightarrow>
        tx_bind (tx_get principals) (\<lambda>ps.
        tx_bind (tx_require (cp_principalId p \<in> pr_id ` set ps)
          (foreign_key_violation ''idempotency_records_principal_id_fkey'')) (\<lambda>_.
        tx_bind (tx_modify (\<lambda>s. s\<lparr>idempotency_records := t'\<rparr>)) (\<lambda>_.
        tx_return (Some (fresh_claim now p))))))))"

definition findRecord :: "string \<Rightarrow> string \<Rightarrow> uuid \<Rightarrow> db \<Rightarrow> IdempotencyRecord option" where
  "findRecord key operation principalId s =
    map_option toRecord
      (select_first (\<lambda>r. ir_key r = key \<and> ir_operation r = operation \<and> ir_principal_id r = principalId)
        (idempotency_records s))"

text \<open>The conditional UPDATE of a reclaim; the threshold is a whole number of milliseconds.\<close>

definition reclaimable :: "claim_params \<Rightarrow> int \<Rightarrow> idempotency_row \<Rightarrow> bool" where
  "reclaimable p threshold r \<longleftrightarrow>
    ir_key r = cp_key p \<and> ir_operation r = cp_operation p \<and> ir_principal_id r = cp_principalId p \<and>
    ir_status r = In_progress \<and> ir_request_fingerprint r = cp_fingerprint p \<and>
    ir_created_at r < 1000 * threshold"

definition reclaim :: "instant \<Rightarrow> claim_params \<Rightarrow> int \<Rightarrow> idempotency_row option db_tx" where
  "reclaim now p threshold =
    tx_bind (tx_get idempotency_records) (\<lambda>t.
    (let renew = (\<lambda>r. r\<lparr>ir_created_at := now, ir_completed_at := None\<rparr>) in
    tx_bind (tx_modify (\<lambda>s. s\<lparr>idempotency_records := update_where (reclaimable p threshold) renew t\<rparr>))
      (\<lambda>_. tx_return (map_option renew (select_first (reclaimable p threshold) t)))))"

text \<open>A \<open>null\<close> parameter is SQL NULL; the bodies the callers store are objects.\<close>

definition json_param :: "json \<Rightarrow> json option" where
  "json_param b = (if b = JNull then None else Some b)"

definition unfinished :: "string \<Rightarrow> string \<Rightarrow> uuid \<Rightarrow> idempotency_row \<Rightarrow> bool" where
  "unfinished key operation principalId r \<longleftrightarrow>
    ir_key r = key \<and> ir_operation r = operation \<and> ir_principal_id r = principalId \<and>
    ir_status r = In_progress"

definition completed_with :: "instant \<Rightarrow> json \<Rightarrow> nat \<Rightarrow> idempotency_row \<Rightarrow> idempotency_row" where
  "completed_with now body status r =
    r\<lparr>ir_status := Completed, ir_response_status_code := Some status,
      ir_response_body := json_param body, ir_completed_at := Some now\<rparr>"

text \<open>The completing UPDATE, with its \<open>rowCount\<close>: the store's and the postings' own.\<close>

definition complete :: "instant \<Rightarrow> string \<Rightarrow> string \<Rightarrow> uuid \<Rightarrow> json \<Rightarrow> nat \<Rightarrow> nat db_tx" where
  "complete now key operation principalId body status =
    tx_bind (tx_get idempotency_records) (\<lambda>t.
    tx_bind (tx_modify (\<lambda>s. s\<lparr>idempotency_records :=
        update_where (unfinished key operation principalId) (completed_with now body status) t\<rparr>)) (\<lambda>_.
    tx_return (count_where (unfinished key operation principalId) t)))"

definition release :: "string \<Rightarrow> string \<Rightarrow> uuid \<Rightarrow> unit db_tx" where
  "release key operation principalId =
    tx_modify (\<lambda>s. s\<lparr>idempotency_records :=
      delete_where (unfinished key operation principalId) (idempotency_records s)\<rparr>)"

section \<open>Claiming\<close>

text \<open>
  One attempt's environment: the database clock of its INSERT and UPDATE, the application's
  clock in milliseconds, and what other clients do before each statement after the first.
\<close>

record claim_env =
  ce_insert_now :: instant
  ce_app_now :: int
  ce_update_now :: instant
  ce_before_find :: "db \<Rightarrow> db"
  ce_before_reclaim :: "db \<Rightarrow> db"
  ce_before_reread :: "db \<Rightarrow> db"

definition tryClaim :: "claim_env \<Rightarrow> claim_params \<Rightarrow> ClaimResult option db_io" where
  "tryClaim env p =
    io_bind (auto_commit (insert_claim (ce_insert_now env) p)) (\<lambda>inserted.
    case inserted of
      Some row \<Rightarrow>
        io_return (Some \<lparr>cr_action = Proceed, cr_record = Some (toRecord row), cr_response = None\<rparr>)
    | None \<Rightarrow>
        io_bind (io_modify (ce_before_find env)) (\<lambda>_.
        io_bind (io_get (findRecord (cp_key p) (cp_operation p) (cp_principalId p))) (\<lambda>existing.
        case existing of
          None \<Rightarrow> io_return None
        | Some e \<Rightarrow>
            if rec_requestFingerprint e \<noteq> cp_fingerprint p then io_throw idempotency_conflict
            else if rec_status e = Completed then
              io_return (Some \<lparr>cr_action = Replay, cr_record = Some e,
                               cr_response = Some (toResponse e)\<rparr>)
            else
              (let staleThreshold = ce_app_now env - cp_staleTimeoutMs p in
               if rec_createdAt e < staleThreshold then
                 io_bind (io_modify (ce_before_reclaim env)) (\<lambda>_.
                 io_bind (auto_commit (reclaim (ce_update_now env) p staleThreshold)) (\<lambda>reclaimed.
                 case reclaimed of
                   Some row \<Rightarrow>
                     io_return (Some \<lparr>cr_action = Proceed, cr_record = Some (toRecord row),
                                      cr_response = None\<rparr>)
                 | None \<Rightarrow>
                     io_bind (io_modify (ce_before_reread env)) (\<lambda>_.
                     io_bind (io_get (findRecord (cp_key p) (cp_operation p) (cp_principalId p)))
                       (\<lambda>current.
                     case current of
                       None \<Rightarrow> io_return None
                     | Some c \<Rightarrow>
                         if rec_status c = Completed then
                           io_return (Some \<lparr>cr_action = Replay, cr_record = Some c,
                                            cr_response = Some (toResponse c)\<rparr>)
                         else io_throw idempotency_in_progress))))
               else io_throw idempotency_in_progress))))"

definition maxClaimAttempts :: nat where
  "maxClaimAttempts = 3"

text \<open>The loop of \<open>claim\<close>, from an attempt on, with the attempts that are left.\<close>

fun claim_attempts :: "(nat \<Rightarrow> claim_env) \<Rightarrow> claim_params \<Rightarrow> nat \<Rightarrow> nat \<Rightarrow> ClaimResult db_io" where
  "claim_attempts envs p attempt 0 = io_throw idempotency_in_progress"
| "claim_attempts envs p attempt (Suc left) =
    io_bind (tryClaim (envs attempt) p) (\<lambda>result.
    case result of
      Some r \<Rightarrow> io_return r
    | None \<Rightarrow> claim_attempts envs p (attempt + 1) left)"

definition claim :: "(nat \<Rightarrow> claim_env) \<Rightarrow> claim_params \<Rightarrow> ClaimResult db_io" where
  "claim envs p = claim_attempts envs p 1 maxClaimAttempts"

section \<open>idempotency-service.ts\<close>

text \<open>
  \<open>fingerprint\<close> is \<open>computeCanonicalFingerprint\<close> of the request body, built on the SHA-256 of
  node:crypto (see Canonical_Json).
\<close>

definition claimOrReplay ::
    "(json \<Rightarrow> string) \<Rightarrow> int \<Rightarrow> (nat \<Rightarrow> claim_env) \<Rightarrow> string \<Rightarrow> string \<Rightarrow> uuid \<Rightarrow> json
      \<Rightarrow> StoredIdempotentResponse option db_io" where
  "claimOrReplay fingerprint staleTimeoutMs envs key operation principalId requestBody =
    io_bind (claim envs \<lparr>cp_fingerprint = fingerprint requestBody, cp_key = key,
                         cp_operation = operation, cp_principalId = principalId,
                         cp_staleTimeoutMs = staleTimeoutMs\<rparr>) (\<lambda>result.
    if cr_action result = Replay then
      (case cr_response result of
         None \<Rightarrow> io_throw idempotency_conflict
       | Some response \<Rightarrow> io_return (Some response))
    else io_return None)"

definition default_stale_timeout_ms :: int where
  "default_stale_timeout_ms = 30000"

definition settleFailure ::
    "instant \<Rightarrow> string \<Rightarrow> string \<Rightarrow> uuid \<Rightarrow> (json \<times> nat) option \<Rightarrow> unit db_tx" where
  "settleFailure now key operation principalId failure =
    (case failure of
       Some (body, status) \<Rightarrow>
         tx_bind (complete now key operation principalId body status) (\<lambda>_. tx_return ())
     | None \<Rightarrow> release key operation principalId)"

section \<open>Retention\<close>

text \<open>The cutoff is a \<open>Date\<close>: a whole number of milliseconds.\<close>

definition purgeable :: "int \<Rightarrow> idempotency_row \<Rightarrow> bool" where
  "purgeable cutoff r \<longleftrightarrow>
    ir_status r = Completed \<and> (case ir_completed_at r of None \<Rightarrow> False | Some t \<Rightarrow> t < 1000 * cutoff)"

definition completed_at_key :: "idempotency_row \<Rightarrow> instant" where
  "completed_at_key r = (case ir_completed_at r of None \<Rightarrow> 0 | Some t \<Rightarrow> t)"

text \<open>\<open>ctid\<close> names a row; the unique index does so as well.\<close>

definition purge_batch :: "int \<Rightarrow> nat \<Rightarrow> idempotency_row list \<Rightarrow> nat \<times> idempotency_row list" where
  "purge_batch cutoff n t = delete_batch row_key (purgeable cutoff) completed_at_key n t"

definition purgeCompletedBefore :: "int \<Rightarrow> nat \<Rightarrow> db \<Rightarrow> (nat \<times> db) option" where
  "purgeCompletedBefore cutoff batchSize s =
    map_option (\<lambda>(removed, t). (removed, s\<lparr>idempotency_records := t\<rparr>))
      (purge_loop (purge_batch cutoff batchSize) batchSize 0 (idempotency_records s))"

interpretation idempotency_purge: batch_sweep "purge_batch cutoff"
    "count_where (purgeable cutoff)" "delete_where (purgeable cutoff)" "\<lambda>t. distinct (map row_key t)"
  for cutoff
  by unfold_locales (simp_all add: purge_batch_def delete_batch_laws)

end
