(* ===== verification/Outbox.thy ===== *)
theory Outbox
  imports Complex_Main Idempotency
begin

text \<open>
  src/modules/outbox: the transactional outbox.  The store's statements over the table of
  migrations/006 and 007, among them the claim of a batch and the outcomes a worker records, and the
  operator's statements (inspection, replay, retention).
\<close>

section \<open>outbox-domain.ts\<close>

record NewOutboxEvent =
  ne_aggregateId :: uuid
  ne_aggregateType :: string
  ne_eventType :: string
  ne_eventVersion :: "nat option"
  ne_payload :: json

record OutboxRecord =
  oe_aggregateId :: uuid
  oe_aggregateType :: string
  oe_attempts :: nat
  oe_createdAt :: string
  oe_eventType :: string
  oe_eventVersion :: nat
  oe_id :: uuid
  oe_lastError :: "string option"
  oe_nextAttemptAt :: "string option"
  oe_payload :: json
  oe_processedAt :: "string option"
  oe_status :: outbox_status

definition outboxCurrentEventVersion :: nat where
  "outboxCurrentEventVersion = 1"

definition outboxDefaultClaimLeaseSeconds :: int where
  "outboxDefaultClaimLeaseSeconds = 300"

definition outboxDefaultBatchSize :: nat where
  "outboxDefaultBatchSize = 10"

definition outboxDefaultMaxAttempts :: nat where
  "outboxDefaultMaxAttempts = 12"

definition outboxDefaultListLimit :: int where
  "outboxDefaultListLimit = 20"

definition outboxDefaultPurgeBatchSize :: int where
  "outboxDefaultPurgeBatchSize = 1000"

text \<open>
  The delay before a retry, in milliseconds.  \<open>random\<close> is what \<open>Math.random()\<close> gives,
  between 0 and 1; the product is taken exactly, without the rounding of doubles.
\<close>

definition retry_delay :: "nat \<Rightarrow> int" where
  "retry_delay attempts = (if attempts = 0 then 50 else min (100 * 2 ^ (attempts - 1)) 60000)"

definition computeNextAttempt :: "rat \<Rightarrow> nat \<Rightarrow> int \<Rightarrow> int" where
  "computeNextAttempt random attempts failedAt =
    failedAt + \<lfloor>of_int (retry_delay attempts) * (1 / 2 + random * (1 / 2))\<rfloor>"

section \<open>outbox-repository.ts: the worker's store\<close>

definition toNextAttempt :: "attempt_time option \<Rightarrow> string option" where
  "toNextAttempt v =
    (case v of
       None \<Rightarrow> None
     | Some (At t) \<Rightarrow> Some (toISOString t)
     | Some Infinity_time \<Rightarrow> Some ''infinity'')"

definition toOutboxRecord :: "outbox_row \<Rightarrow> OutboxRecord" where
  "toOutboxRecord r =
    \<lparr>oe_aggregateId = ob_aggregate_id r, oe_aggregateType = ob_aggregate_type r,
     oe_attempts = ob_attempts r, oe_createdAt = toISOString (ob_created_at r),
     oe_eventType = ob_event_type r, oe_eventVersion = ob_event_version r, oe_id = ob_id r,
     oe_lastError = ob_last_error r, oe_nextAttemptAt = toNextAttempt (ob_next_attempt_at r),
     oe_payload = ob_payload r, oe_processedAt = map_option toISOString (ob_processed_at r),
     oe_status = ob_status r\<rparr>"

text \<open>The row's \<open>id\<close> is the column's default, \<open>gen_random_uuid()\<close>.\<close>

definition new_event_row :: "instant \<Rightarrow> uuid \<Rightarrow> NewOutboxEvent \<Rightarrow> outbox_row" where
  "new_event_row now eid e =
    \<lparr>ob_id = eid, ob_aggregate_id = ne_aggregateId e, ob_aggregate_type = ne_aggregateType e,
     ob_event_type = ne_eventType e,
     ob_event_version =
       (case ne_eventVersion e of None \<Rightarrow> outboxCurrentEventVersion | Some v \<Rightarrow> v),
     ob_payload = ne_payload e, ob_status = Pending, ob_attempts = 0, ob_last_error = None,
     ob_next_attempt_at = None, ob_processed_at = None, ob_created_at = now\<rparr>"

definition outbox_insert :: "instant \<Rightarrow> uuid \<Rightarrow> NewOutboxEvent \<Rightarrow> unit db_tx" where
  "outbox_insert now eid e =
    (let row = new_event_row now eid e in
    tx_bind (tx_require (ob_aggregate_type row \<in> {''transfer'', ''funding''})
      (check_violation ''outbox_events_aggregate_type_check'')) (\<lambda>_.
    tx_bind (tx_require (1 \<le> ob_event_version row)
      (check_violation ''outbox_events_event_version_check'')) (\<lambda>_.
    tx_bind (tx_get outbox_events) (\<lambda>t.
    tx_bind (tx_require (eid \<notin> ob_id ` set t) (unique_violation ''outbox_events_pkey'')) (\<lambda>_.
    tx_modify (\<lambda>s. s\<lparr>outbox_events := t @ [row]\<rparr>))))))"

definition due :: "instant \<Rightarrow> attempt_time option \<Rightarrow> bool" where
  "due now v = (case v of None \<Rightarrow> True | Some (At t) \<Rightarrow> t \<le> now | Some Infinity_time \<Rightarrow> False)"

definition claimable :: "instant \<Rightarrow> outbox_row \<Rightarrow> bool" where
  "claimable now r \<longleftrightarrow> ob_status r \<in> {Pending, Failed, Processing} \<and> due now (ob_next_attempt_at r)"

definition leased :: "instant \<Rightarrow> int \<Rightarrow> outbox_row \<Rightarrow> outbox_row" where
  "leased now leaseSeconds r =
    r\<lparr>ob_status := Processing, ob_attempts := ob_attempts r + 1,
      ob_next_attempt_at := Some (At (now + 1000000 * leaseSeconds))\<rparr>"

text \<open>
  The claiming UPDATE.  \<open>locked\<close> holds the rows other transactions have locked at that moment
  (SKIP LOCKED); among equal creation times the table's order decides.
\<close>

definition claimed_ids :: "instant \<Rightarrow> uuid set \<Rightarrow> nat \<Rightarrow> outbox_row list \<Rightarrow> uuid set" where
  "claimed_ids now locked n t =
    ob_id ` set (select_page (\<lambda>r. claimable now r \<and> ob_id r \<notin> locked) ob_created_at n t)"

definition claim_work :: "instant \<Rightarrow> int \<Rightarrow> uuid set \<Rightarrow> nat \<Rightarrow> OutboxRecord list db_tx" where
  "claim_work now leaseSeconds locked n =
    tx_bind (tx_get outbox_events) (\<lambda>t.
    (let ids = claimed_ids now locked n t;
         t' = update_where (\<lambda>r. ob_id r \<in> ids) (leased now leaseSeconds) t
     in
    tx_bind (tx_modify (\<lambda>s. s\<lparr>outbox_events := t'\<rparr>)) (\<lambda>_.
    tx_return (map toOutboxRecord (select_where (\<lambda>r. ob_id r \<in> ids) t')))))"

definition claimBatch ::
    "tx_env \<Rightarrow> instant \<Rightarrow> int \<Rightarrow> uuid set \<Rightarrow> nat \<Rightarrow> db \<Rightarrow> (db, OutboxRecord list) tx_outcome" where
  "claimBatch env now leaseSeconds locked n =
    withTransaction env default_begin deferred_constraints (claim_work now leaseSeconds locked n)"

definition in_processing :: "uuid \<Rightarrow> outbox_row \<Rightarrow> bool" where
  "in_processing eid r \<longleftrightarrow> ob_id r = eid \<and> ob_status r = Processing"

definition markProcessed :: "instant \<Rightarrow> uuid \<Rightarrow> unit db_tx" where
  "markProcessed now eid =
    tx_modify (\<lambda>s. s\<lparr>outbox_events := update_where (in_processing eid)
      (\<lambda>r. r\<lparr>ob_status := Processed, ob_processed_at := Some now\<rparr>) (outbox_events s)\<rparr>)"

definition markFailed :: "uuid \<Rightarrow> string \<Rightarrow> attempt_time \<Rightarrow> unit db_tx" where
  "markFailed eid err nextAttemptAt =
    tx_modify (\<lambda>s. s\<lparr>outbox_events := update_where (in_processing eid)
      (\<lambda>r. r\<lparr>ob_status := Failed, ob_last_error := Some err,
             ob_next_attempt_at := Some nextAttemptAt\<rparr>) (outbox_events s)\<rparr>)"

record outbox_stats =
  os_failed :: nat
  os_pending :: nat
  os_processing :: nat

text \<open>One row per status that occurs; a status that does not occur stays at the initial 0.\<close>

definition stats :: "db \<Rightarrow> outbox_stats" where
  "stats s =
    \<lparr>os_failed = count_where (\<lambda>r. ob_status r = Failed) (outbox_events s),
     os_pending = count_where (\<lambda>r. ob_status r = Pending) (outbox_events s),
     os_processing = count_where (\<lambda>r. ob_status r = Processing) (outbox_events s)\<rparr>"

section \<open>outbox-repository.ts: the operator's store\<close>

definition parked :: "outbox_row \<Rightarrow> bool" where
  "parked r \<longleftrightarrow> ob_status r = Failed \<and> ob_next_attempt_at r = Some Infinity_time"

definition store_listParked :: "nat \<Rightarrow> db \<Rightarrow> OutboxRecord list" where
  "store_listParked limit s = map toOutboxRecord (select_page parked ob_created_at limit (outbox_events s))"

definition countParked :: "db \<Rightarrow> nat" where
  "countParked s = count_where parked (outbox_events s)"

definition findEventById :: "uuid \<Rightarrow> db \<Rightarrow> OutboxRecord option" where
  "findEventById eid s = map_option toOutboxRecord (select_first (\<lambda>r. ob_id r = eid) (outbox_events s))"

definition replayed :: "outbox_row \<Rightarrow> outbox_row" where
  "replayed r = r\<lparr>ob_status := Pending, ob_attempts := 0, ob_next_attempt_at := None\<rparr>"

definition replay_where :: "(outbox_row \<Rightarrow> bool) \<Rightarrow> nat db_tx" where
  "replay_where p =
    tx_bind (tx_get outbox_events) (\<lambda>t.
    tx_bind (tx_modify (\<lambda>s. s\<lparr>outbox_events := update_where p replayed t\<rparr>)) (\<lambda>_.
    tx_return (count_where p t)))"

definition replay :: "uuid \<Rightarrow> bool db_tx" where
  "replay eid = tx_bind (replay_where (\<lambda>r. ob_id r = eid \<and> parked r)) (\<lambda>n. tx_return (0 < n))"

definition replayAllParked :: "nat db_tx" where
  "replayAllParked = replay_where parked"

definition event_purgeable :: "int \<Rightarrow> outbox_row \<Rightarrow> bool" where
  "event_purgeable cutoff r \<longleftrightarrow>
    ob_status r = Processed \<and> (case ob_processed_at r of None \<Rightarrow> False | Some t \<Rightarrow> t < 1000 * cutoff)"

definition processed_at_key :: "outbox_row \<Rightarrow> instant" where
  "processed_at_key r = (case ob_processed_at r of None \<Rightarrow> 0 | Some t \<Rightarrow> t)"

definition event_purge_batch :: "int \<Rightarrow> nat \<Rightarrow> outbox_row list \<Rightarrow> nat \<times> outbox_row list" where
  "event_purge_batch cutoff n t = delete_batch ob_id (event_purgeable cutoff) processed_at_key n t"

definition store_purgeProcessedBefore :: "int \<Rightarrow> nat \<Rightarrow> db \<Rightarrow> (nat \<times> db) option" where
  "store_purgeProcessedBefore cutoff batchSize s =
    map_option (\<lambda>(removed, t). (removed, s\<lparr>outbox_events := t\<rparr>))
      (purge_loop (event_purge_batch cutoff batchSize) batchSize 0 (outbox_events s))"

interpretation outbox_purge: batch_sweep "event_purge_batch cutoff"
    "count_where (event_purgeable cutoff)" "delete_where (event_purgeable cutoff)"
    "\<lambda>t. distinct (map ob_id t)"
  for cutoff
  by unfold_locales (simp_all add: event_purge_batch_def delete_batch_laws)

section \<open>outbox-admin-service.ts\<close>

text \<open>A JavaScript number the service is given: \<open>Math.max(1, Math.trunc(limit))\<close>.\<close>

definition at_least_one :: "rat \<Rightarrow> nat" where
  "at_least_one x = nat (max 1 (if 0 \<le> x then \<lfloor>x\<rfloor> else \<lceil>x\<rceil>))"

definition listParked :: "rat option \<Rightarrow> db \<Rightarrow> OutboxRecord list" where
  "listParked limit =
    store_listParked (at_least_one
      (case limit of None \<Rightarrow> of_int outboxDefaultListLimit | Some l \<Rightarrow> l))"

definition purgeProcessedBefore :: "int \<Rightarrow> rat option \<Rightarrow> db \<Rightarrow> (nat \<times> db) option" where
  "purgeProcessedBefore cutoff batchSize =
    store_purgeProcessedBefore cutoff (at_least_one
      (case batchSize of None \<Rightarrow> of_int outboxDefaultPurgeBatchSize | Some n \<Rightarrow> n))"

end
