(* ===== verification/Ledger.thy ===== *)
theory Ledger
  imports Ledger_Invariant Outbox
begin

text \<open>
  src/modules/ledger: postings, funding, and the two account reads behind them.  The amounts of
  a posting travel to the database as text; the identifiers the source draws at random are
  arguments.
\<close>

section \<open>ledger-domain.ts\<close>

record LedgerAccount =
  la_currency :: string
  la_id :: uuid
  la_isTreasury :: bool
  la_ownerPrincipalId :: "uuid option"
  la_status :: account_status

record PostingEntryInput =
  en_accountId :: uuid
  en_amount :: Money
  en_currency :: string
  en_direction :: direction

record PostingInput =
  po_entries :: "PostingEntryInput list"
  po_id :: uuid
  po_reference :: string
  po_type :: string

record PostedTransaction =
  pt_createdAt :: string
  pt_currency :: string
  pt_id :: uuid
  pt_reference :: string
  pt_type :: string

record PostingIdempotency =
  pi_key :: string
  pi_operation :: string
  pi_principalId :: uuid
  pi_responseBody :: "PostedTransaction \<Rightarrow> json"
  pi_responseStatus :: nat

record FundAccountInput =
  fa_accountId :: uuid
  fa_amountMinor :: string

record FundingResult =
  fr_posted :: PostedTransaction
  fr_amountMinor :: string
  fr_fundedAccountId :: uuid

definition fundingIdempotencyOperation :: string where
  "fundingIdempotencyOperation = ''funding''"

fun add_entries :: "PostingEntryInput list \<Rightarrow> int \<times> int \<Rightarrow> int \<times> int" where
  "add_entries [] (debits, credits) = (debits, credits)"
| "add_entries (e # es) (debits, credits) =
    add_entries es
      (if en_direction e = Debit then (debits + minor (en_amount e), credits)
       else (debits, credits + minor (en_amount e)))"

definition validatePosting :: "PostingInput \<Rightarrow> js_error option" where
  "validatePosting input =
    (if length (po_entries input) < 2 then
       Some (CodedError LedgerError ''INVALID_POSTING'' ''A posting requires at least two entries'')
     else if card (en_currency ` set (po_entries input)) \<noteq> 1 then
       Some (CodedError LedgerError ''MIXED_CURRENCY_POSTING'' ''All entries must use one currency'')
     else
       (let (debits, credits) = add_entries (po_entries input) (0, 0) in
        if debits \<noteq> credits then
          Some (CodedError LedgerError ''UNBALANCED_POSTING'' ''Total debits must equal total credits'')
        else None))"

section \<open>ledger-repository.ts\<close>

definition toAccount :: "account_row \<Rightarrow> LedgerAccount" where
  "toAccount r =
    \<lparr>la_currency = acc_currency r, la_id = acc_id r, la_isTreasury = acc_is_treasury r,
     la_ownerPrincipalId = acc_owner_principal_id r, la_status = acc_status r\<rparr>"

definition findAccount :: "uuid \<Rightarrow> db \<Rightarrow> LedgerAccount option" where
  "findAccount aid s = map_option toAccount (select_first (\<lambda>a. acc_id a = uuid_in aid) (accounts s))"

definition findTreasury :: "string \<Rightarrow> db \<Rightarrow> LedgerAccount option" where
  "findTreasury currency s =
    map_option toAccount
      (select_first (\<lambda>a. acc_currency a = currency \<and> acc_is_treasury a) (accounts s))"

definition toPosted :: "ledger_transaction_row \<Rightarrow> PostedTransaction" where
  "toPosted r =
    \<lparr>pt_createdAt = toISOString (lt_created_at r), pt_currency = lt_currency r, pt_id = lt_id r,
     pt_reference = lt_reference r, pt_type = lt_type r\<rparr>"

definition postWith :: "instant \<Rightarrow> uuid list \<Rightarrow> PostingInput \<Rightarrow> PostedTransaction db_tx" where
  "postWith now entryIds input =
    tx_bind (tx_lift (bigints_in (map (\<lambda>e. Money_toString (en_amount e)) (po_entries input)))) (\<lambda>amounts.
    tx_bind (post_ledger_transaction now (po_id input) (po_type input) (po_reference input) entryIds
        (map en_accountId (po_entries input)) (map en_direction (po_entries input)) amounts) (\<lambda>row.
    tx_return (toPosted row)))"

definition posted_fields :: "PostedTransaction \<Rightarrow> (string \<times> json) list" where
  "posted_fields p =
    [(''createdAt'', JString (pt_createdAt p)), (''currency'', JString (pt_currency p)),
     (''id'', JString (pt_id p)), (''reference'', JString (pt_reference p)),
     (''type'', JString (pt_type p))]"

definition direction_text :: "direction \<Rightarrow> string" where
  "direction_text d = (case d of Debit \<Rightarrow> ''debit'' | Credit \<Rightarrow> ''credit'')"

definition entry_json :: "PostingEntryInput \<Rightarrow> json" where
  "entry_json e =
    JObject [(''accountId'', JString (en_accountId e)),
             (''amountMinor'', JString (Money_toString (en_amount e))),
             (''direction'', JString (direction_text (en_direction e)))]"

definition posting_event :: "PostingInput \<Rightarrow> PostedTransaction \<Rightarrow> NewOutboxEvent" where
  "posting_event input posted =
    \<lparr>ne_aggregateId = pt_id posted, ne_aggregateType = po_type input,
     ne_eventType = po_type input @ ''.created'', ne_eventVersion = Some outboxCurrentEventVersion,
     ne_payload = JObject (posted_fields posted @
       [(''entries'', JArray (map entry_json (po_entries input)))])\<rparr>"

text \<open>Completing the claim in the posting's own transaction: exactly one row, or roll back.\<close>

definition complete_claim :: "instant \<Rightarrow> string \<Rightarrow> string \<Rightarrow> uuid \<Rightarrow> json \<Rightarrow> nat \<Rightarrow> unit db_tx" where
  "complete_claim now key operation principalId body status =
    tx_bind (complete now key operation principalId body status) (\<lambda>rowCount.
    tx_require (rowCount = 1) idempotency_in_progress)"

definition post_work ::
    "bool \<Rightarrow> instant \<Rightarrow> uuid list \<Rightarrow> uuid \<Rightarrow> PostingInput \<Rightarrow> PostingIdempotency option
      \<Rightarrow> PostedTransaction db_tx" where
  "post_work outbox now entryIds eventId input idempotency =
    tx_bind (postWith now entryIds input) (\<lambda>posted.
    tx_bind (if outbox then outbox_insert now eventId (posting_event input posted) else tx_return ()) (\<lambda>_.
    tx_bind (case idempotency of
        None \<Rightarrow> tx_return ()
      | Some i \<Rightarrow> complete_claim now (pi_key i) (pi_operation i) (pi_principalId i)
                  (pi_responseBody i posted) (pi_responseStatus i)) (\<lambda>_.
    tx_return posted)))"

text \<open>\<open>outbox\<close> tells whether the store was built with an outbox.\<close>

definition store_post ::
    "tx_env \<Rightarrow> bool \<Rightarrow> instant \<Rightarrow> uuid list \<Rightarrow> uuid \<Rightarrow> PostingInput \<Rightarrow> PostingIdempotency option \<Rightarrow> db
      \<Rightarrow> (db, PostedTransaction) tx_outcome" where
  "store_post env outbox now entryIds eventId input idempotency =
    (if \<not> outbox \<and> idempotency = None
     then single_statement env deferred_constraints (postWith now entryIds input)
     else withTransaction env default_begin deferred_constraints
            (post_work outbox now entryIds eventId input idempotency))"

definition run_outcome :: "(db \<Rightarrow> (db, 'a) tx_outcome) \<Rightarrow> 'a db_io" where
  "run_outcome f = (\<lambda>s. let r = f s in (out_result r, out_state r))"

section \<open>ledger-service.ts\<close>

definition post ::
    "tx_env \<Rightarrow> bool \<Rightarrow> instant \<Rightarrow> uuid list \<Rightarrow> uuid \<Rightarrow> PostingInput \<Rightarrow> PostingIdempotency option
      \<Rightarrow> PostedTransaction db_io" where
  "post env outbox now entryIds eventId input idempotency =
    (case validatePosting input of
       Some e \<Rightarrow> io_throw e
     | None \<Rightarrow> run_outcome (store_post env outbox now entryIds eventId input idempotency))"

text \<open>
  What one funding meets: the posting's transaction, the clock, the identifiers drawn, and what
  other clients do between its three statements.
\<close>

record fund_env =
  fe_tx :: tx_env
  fe_now :: instant
  fe_id :: uuid
  fe_entryIds :: "uuid list"
  fe_eventId :: uuid
  fe_before_treasury :: "db \<Rightarrow> db"
  fe_before_post :: "db \<Rightarrow> db"

definition funding_result :: "Money \<Rightarrow> uuid \<Rightarrow> PostedTransaction \<Rightarrow> FundingResult" where
  "funding_result amount aid posted =
    \<lparr>fr_posted = posted, fr_amountMinor = Money_toString amount, fr_fundedAccountId = aid\<rparr>"

definition funding_json :: "FundingResult \<Rightarrow> json" where
  "funding_json r =
    JObject (posted_fields (fr_posted r) @
      [(''amountMinor'', JString (fr_amountMinor r)),
       (''fundedAccountId'', JString (fr_fundedAccountId r))])"

definition funding_posting :: "uuid \<Rightarrow> Money \<Rightarrow> uuid \<Rightarrow> uuid \<Rightarrow> string \<Rightarrow> PostingInput" where
  "funding_posting tid amount account treasury currency =
    \<lparr>po_entries =
       [\<lparr>en_accountId = account, en_amount = amount, en_currency = currency, en_direction = Debit\<rparr>,
        \<lparr>en_accountId = treasury, en_amount = amount, en_currency = currency, en_direction = Credit\<rparr>],
     po_id = tid, po_reference = ''funding:'' @ tid, po_type = ''funding''\<rparr>"

text \<open>The claim a keyed funding completes, and the answer it stores.\<close>

definition funding_claim :: "Money \<Rightarrow> uuid \<Rightarrow> (string \<times> uuid) option \<Rightarrow> PostingIdempotency option" where
  "funding_claim amount aid idempotency =
    (case idempotency of
       None \<Rightarrow> None
     | Some (key, principalId) \<Rightarrow>
         Some \<lparr>pi_key = key, pi_operation = fundingIdempotencyOperation, pi_principalId = principalId,
               pi_responseBody = (\<lambda>posted. funding_json (funding_result amount aid posted)),
               pi_responseStatus = 201\<rparr>)"

definition fundAccount ::
    "bool \<Rightarrow> fund_env \<Rightarrow> FundAccountInput \<Rightarrow> (string \<times> uuid) option \<Rightarrow> FundingResult db_io" where
  "fundAccount outbox env input idempotency =
    io_bind (io_lift (fromMinor (StringArg (fa_amountMinor input)))) (\<lambda>amount.
    io_bind (io_get (findAccount (fa_accountId input))) (\<lambda>found.
    case found of
      None \<Rightarrow> io_throw (CodedError LedgerError ''ACCOUNT_NOT_FOUND'' ''Account not found'')
    | Some account \<Rightarrow>
        if la_isTreasury account then
          io_throw (CodedError LedgerError ''ACCOUNT_NOT_FOUND'' ''Account not found'')
        else if la_status account \<noteq> Account_active then
          io_throw (CodedError LedgerError ''ACCOUNT_NOT_ACTIVE'' ''Account is not active'')
        else
          io_bind (io_modify (fe_before_treasury env)) (\<lambda>_.
          io_bind (io_get (findTreasury (la_currency account))) (\<lambda>found_treasury.
          case found_treasury of
            None \<Rightarrow>
              io_throw (CodedError LedgerError ''TREASURY_NOT_FOUND'' ''Treasury account is unavailable'')
          | Some treasury \<Rightarrow>
              io_bind (io_modify (fe_before_post env)) (\<lambda>_.
              io_bind (post (fe_tx env) outbox (fe_now env) (fe_entryIds env) (fe_eventId env)
                  (funding_posting (fe_id env) amount (la_id account) (la_id treasury)
                    (la_currency account))
                  (funding_claim amount (la_id account) idempotency)) (\<lambda>posted.
              io_return (funding_result amount (la_id account) posted)))))))"

end
