(* ===== verification/Transfers.thy ===== *)
theory Transfers
  imports Ledger
begin

text \<open>
  src/modules/transfers: the transfer between two customer accounts - the locked reads, the
  posting, and the service's retry loop around one serializable transaction per attempt.
\<close>

section \<open>transfer-domain.ts\<close>

record CreateTransferInput =
  ct_amountMinor :: string
  ct_destinationAccountId :: uuid
  ct_sourceAccountId :: uuid

record Transfer =
  t_amountMinor :: string
  t_createdAt :: string
  t_currency :: string
  t_destinationAccountId :: uuid
  t_id :: uuid
  t_reference :: string
  t_sourceAccountId :: uuid

record LockedTransferAccount =
  lk_balanceMinor :: string
  lk_currency :: string
  lk_id :: uuid
  lk_isTreasury :: bool
  lk_ownerPrincipalId :: "uuid option"
  lk_status :: account_status

text \<open>\<open>pt_idempotency\<close>: key, operation, principal.\<close>

record PostTransferInput =
  px_amountMinor :: string
  px_currency :: string
  px_destinationAccountId :: uuid
  px_id :: uuid
  px_reference :: string
  px_sourceAccountId :: uuid
  px_idempotency :: "(string \<times> string \<times> uuid) option"

definition deterministicAccountOrder :: "string \<Rightarrow> string \<Rightarrow> string list" where
  "deterministicAccountOrder firstId secondId =
    (if firstId < secondId then [firstId, secondId] else [secondId, firstId])"

abbreviation transfer_error :: "string \<Rightarrow> string \<Rightarrow> js_error" where
  "transfer_error code msg \<equiv> CodedError TransferError code msg"

text \<open>The object stored, sent and put in the outbox; a status other than \<open>completed\<close> does not exist.\<close>

definition transfer_json :: "Transfer \<Rightarrow> json" where
  "transfer_json t =
    JObject [(''amountMinor'', JString (t_amountMinor t)), (''createdAt'', JString (t_createdAt t)),
             (''currency'', JString (t_currency t)),
             (''destinationAccountId'', JString (t_destinationAccountId t)),
             (''id'', JString (t_id t)), (''reference'', JString (t_reference t)),
             (''sourceAccountId'', JString (t_sourceAccountId t)), (''status'', JString ''completed'')]"

section \<open>transfer-repository.ts\<close>

definition toLocked :: "account_row \<Rightarrow> LockedTransferAccount" where
  "toLocked r =
    \<lparr>lk_balanceMinor = bigint_text (acc_balance_minor r), lk_currency = acc_currency r,
     lk_id = acc_id r, lk_isTreasury = acc_is_treasury r,
     lk_ownerPrincipalId = acc_owner_principal_id r, lk_status = acc_status r\<rparr>"

text \<open>SELECT ... WHERE id = ANY ORDER BY id FOR UPDATE.\<close>

definition lockAccounts :: "string list \<Rightarrow> LockedTransferAccount list db_tx" where
  "lockAccounts ids =
    tx_get (\<lambda>s. map toLocked
      (sort_key acc_id (select_where (\<lambda>a. acc_id a \<in> uuid_in ` set ids) (accounts s))))"

text \<open>INSERT INTO transfers: the checks of migrations/003 and 004.\<close>

definition insert_transfer :: "transfer_row \<Rightarrow> unit db_tx" where
  "insert_transfer r =
    tx_bind (tx_get (\<lambda>s. s)) (\<lambda>s.
    tx_bind (tx_require (0 < tr_amount_minor r) (check_violation ''transfers_amount_minor_check'')) (\<lambda>_.
    tx_bind (tx_require (currency_ok (tr_currency r)) (check_violation ''transfers_currency_check'')) (\<lambda>_.
    tx_bind (tx_require (tr_source_account_id r \<noteq> tr_destination_account_id r)
      (check_violation ''transfers_check'')) (\<lambda>_.
    tx_bind (tx_require (tr_id r \<notin> tr_id ` set (transfers s)) (unique_violation ''transfers_pkey'')) (\<lambda>_.
    tx_bind (tx_require ((tr_id r, tr_currency r, ''transfer'') \<in>
        (\<lambda>t. (lt_id t, lt_currency t, lt_type t)) ` set (ledger_transactions s))
      (foreign_key_violation ''transfers_ledger_identity_fk'')) (\<lambda>_.
    tx_bind (tx_require ((tr_source_account_id r, tr_currency r) \<in>
        (\<lambda>a. (acc_id a, acc_currency a)) ` set (accounts s))
      (foreign_key_violation ''transfers_source_currency_fk'')) (\<lambda>_.
    tx_bind (tx_require ((tr_destination_account_id r, tr_currency r) \<in>
        (\<lambda>a. (acc_id a, acc_currency a)) ` set (accounts s))
      (foreign_key_violation ''transfers_destination_currency_fk'')) (\<lambda>_.
    tx_modify (\<lambda>s. s\<lparr>transfers := transfers s @ [r]\<rparr>)))))))))"

definition transfer_event :: "Transfer \<Rightarrow> NewOutboxEvent" where
  "transfer_event t =
    \<lparr>ne_aggregateId = t_id t, ne_aggregateType = ''transfer'', ne_eventType = ''transfer.created'',
     ne_eventVersion = Some outboxCurrentEventVersion, ne_payload = transfer_json t\<rparr>"

definition postTransfer ::
    "bool \<Rightarrow> instant \<Rightarrow> uuid list \<Rightarrow> uuid \<Rightarrow> PostTransferInput \<Rightarrow> Transfer db_tx" where
  "postTransfer outbox now entryIds eventId input =
    tx_bind (tx_lift (bigints_in [px_amountMinor input, px_amountMinor input])) (\<lambda>amounts.
    tx_bind (post_ledger_transaction now (px_id input) ''transfer'' (px_reference input) entryIds
        [px_sourceAccountId input, px_destinationAccountId input] [Credit, Debit] amounts) (\<lambda>row.
    tx_bind (tx_lift (bigint_in (px_amountMinor input))) (\<lambda>amount.
    tx_bind (insert_transfer
        \<lparr>tr_id = px_id input, tr_source_account_id = px_sourceAccountId input,
         tr_destination_account_id = px_destinationAccountId input, tr_amount_minor = amount,
         tr_currency = px_currency input\<rparr>) (\<lambda>_.
    (let transfer =
       \<lparr>t_amountMinor = px_amountMinor input, t_createdAt = toISOString (lt_created_at row),
        t_currency = px_currency input, t_destinationAccountId = px_destinationAccountId input,
        t_id = px_id input, t_reference = px_reference input,
        t_sourceAccountId = px_sourceAccountId input\<rparr>
     in
    tx_bind (if outbox then outbox_insert now eventId (transfer_event transfer) else tx_return ()) (\<lambda>_.
    tx_bind (case px_idempotency input of
        None \<Rightarrow> tx_return ()
      | Some (key, operation, principalId) \<Rightarrow>
          complete_claim now key operation principalId (transfer_json transfer) 201) (\<lambda>_.
    tx_return transfer)))))))"

text \<open>The transfer joined with its ledger transaction, for a participant's owner.\<close>

definition findVisibleById :: "string \<Rightarrow> uuid \<Rightarrow> db \<Rightarrow> Transfer option" where
  "findVisibleById tid principalId s =
    (case select_first (\<lambda>t. tr_id t = uuid_in tid \<and>
        (\<exists>a\<in>set (accounts s). acc_id a \<in> {tr_source_account_id t, tr_destination_account_id t} \<and>
          acc_owner_principal_id a = Some principalId)) (transfers s) of
       None \<Rightarrow> None
     | Some t \<Rightarrow>
         map_option (\<lambda>l.
           \<lparr>t_amountMinor = bigint_text (tr_amount_minor t), t_createdAt = toISOString (lt_created_at l),
            t_currency = tr_currency t, t_destinationAccountId = tr_destination_account_id t,
            t_id = tr_id t, t_reference = lt_reference l,
            t_sourceAccountId = tr_source_account_id t\<rparr>)
           (select_first (\<lambda>l. lt_id l = tr_id t) (ledger_transactions s)))"

definition runSerializable :: "tx_env \<Rightarrow> 'a db_tx \<Rightarrow> db \<Rightarrow> (db, 'a) tx_outcome" where
  "runSerializable env work = withTransaction env serializable_begin deferred_constraints work"

section \<open>transfer-service.ts\<close>

definition retryableDatabaseCodes :: "string list" where
  "retryableDatabaseCodes = [''40001'', ''40P01'']"

fun databaseErrorCode :: "js_error \<Rightarrow> string option" where
  "databaseErrorCode (AppError code _ _) = Some code"
| "databaseErrorCode (CodedError _ code _) = Some code"
| "databaseErrorCode _ = None"

record TransferMetrics =
  tm_completed :: nat
  tm_exhausted :: nat
  tm_retries :: nat

definition no_transfers :: TransferMetrics where
  "no_transfers = \<lparr>tm_completed = 0, tm_exhausted = 0, tm_retries = 0\<rparr>"

definition recordCompleted :: "TransferMetrics \<Rightarrow> TransferMetrics" where
  "recordCompleted m = m\<lparr>tm_completed := tm_completed m + 1\<rparr>"

definition recordExhausted :: "TransferMetrics \<Rightarrow> TransferMetrics" where
  "recordExhausted m = m\<lparr>tm_exhausted := tm_exhausted m + 1\<rparr>"

definition recordRetry :: "TransferMetrics \<Rightarrow> TransferMetrics" where
  "recordRetry m = m\<lparr>tm_retries := tm_retries m + 1\<rparr>"

text \<open>Telemetry: elapsed ms, retries, id; and delay ms, error code, attempt, id.\<close>

datatype transfer_telemetry =
    Transfer_completed int nat uuid
  | Transfer_retrying int string nat uuid

text \<open>What one call of the service changes: the database, the counters, what it reports and sleeps.\<close>

record transfer_world =
  tw_db :: db
  tw_metrics :: TransferMetrics
  tw_events :: "transfer_telemetry list"
  tw_slept :: "int list"

text \<open>
  One attempt: what other clients did before it, its transaction, the database clock, the
  identifiers drawn, the service's clock and \<open>Math.random()\<close>.
\<close>

record attempt_env =
  at_before :: "db \<Rightarrow> db"
  at_tx :: tx_env
  at_now :: instant
  at_entryIds :: "uuid list"
  at_eventId :: uuid
  at_clock :: int
  at_jitter :: rat

record transfer_config =
  tc_outbox :: bool
  tc_baseRetryDelayMs :: int
  tc_maxAttempts :: nat

definition default_transfer_config :: transfer_config where
  "default_transfer_config = \<lparr>tc_outbox = True, tc_baseRetryDelayMs = 2, tc_maxAttempts = 12\<rparr>"

text \<open>The work of one attempt, from the locked reads to the posting.\<close>

definition transfer_checks ::
    "Money \<Rightarrow> CreateTransferInput \<Rightarrow> uuid \<Rightarrow> LockedTransferAccount list
      \<Rightarrow> js_error + LockedTransferAccount \<times> LockedTransferAccount" where
  "transfer_checks amount input principalId locked =
    (let source = find (\<lambda>a. lk_id a = ct_sourceAccountId input) locked;
         destination = find (\<lambda>a. lk_id a = ct_destinationAccountId input) locked
     in case (source, destination) of
          (Some src, Some dst) \<Rightarrow>
            if lk_isTreasury src \<or> lk_isTreasury dst
            then Inl (transfer_error ''ACCOUNT_NOT_FOUND'' ''Account not found'')
            else if lk_ownerPrincipalId src \<noteq> Some principalId
            then Inl (transfer_error ''ACCOUNT_NOT_FOUND'' ''Account not found'')
            else if lk_status src \<noteq> Account_active \<or> lk_status dst \<noteq> Account_active
            then Inl (transfer_error ''ACCOUNT_NOT_ACTIVE'' ''Both accounts must be active'')
            else if lk_currency src \<noteq> lk_currency dst
            then Inl (transfer_error ''CURRENCY_MISMATCH'' ''Source and destination currencies must match'')
            else if bigint_value (lk_balanceMinor src) < minor amount
            then Inl (transfer_error ''INSUFFICIENT_FUNDS'' ''Source account has insufficient funds'')
            else Inr (src, dst)
        | _ \<Rightarrow> Inl (transfer_error ''ACCOUNT_NOT_FOUND'' ''Account not found''))"

definition transfer_work ::
    "bool \<Rightarrow> instant \<Rightarrow> uuid list \<Rightarrow> uuid \<Rightarrow> Money \<Rightarrow> CreateTransferInput \<Rightarrow> uuid \<Rightarrow> uuid
      \<Rightarrow> string option \<Rightarrow> Transfer db_tx" where
  "transfer_work outbox now entryIds eventId amount input principalId transferId idempotencyKey =
    tx_bind (lockAccounts
        (deterministicAccountOrder (ct_sourceAccountId input) (ct_destinationAccountId input))) (\<lambda>locked.
    tx_bind (tx_lift (transfer_checks amount input principalId locked)) (\<lambda>(source, destination).
    postTransfer outbox now entryIds eventId
      \<lparr>px_amountMinor = Money_toString amount, px_currency = lk_currency source,
       px_destinationAccountId = lk_id destination, px_id = transferId,
       px_reference = ''transfer:'' @ transferId, px_sourceAccountId = lk_id source,
       px_idempotency = map_option (\<lambda>key. (key, ''transfer'', principalId)) idempotencyKey\<rparr>))"

definition retry_delay_ms :: "int \<Rightarrow> nat \<Rightarrow> rat \<Rightarrow> int" where
  "retry_delay_ms base attempt jitter =
    \<lfloor>of_int (min (base * 2 ^ (attempt - 1)) 50) * (1 / 2 + jitter * (1 / 2))\<rfloor>"

definition attempt_outcome ::
    "transfer_config \<Rightarrow> attempt_env \<Rightarrow> Money \<Rightarrow> CreateTransferInput \<Rightarrow> uuid \<Rightarrow> uuid \<Rightarrow> string option
      \<Rightarrow> db \<Rightarrow> (db, Transfer) tx_outcome" where
  "attempt_outcome cfg env amount input principalId transferId key s =
    runSerializable (at_tx env)
      (transfer_work (tc_outbox cfg) (at_now env) (at_entryIds env) (at_eventId env) amount input
        principalId transferId key)
      (at_before env s)"

text \<open>The loop, from an attempt on, with the attempts that are left.\<close>

fun create_attempts ::
    "transfer_config \<Rightarrow> (nat \<Rightarrow> attempt_env) \<Rightarrow> Money \<Rightarrow> CreateTransferInput \<Rightarrow> uuid \<Rightarrow> uuid
      \<Rightarrow> string option \<Rightarrow> int \<Rightarrow> nat \<Rightarrow> nat \<Rightarrow> (transfer_world, js_error, Transfer) io" where
  "create_attempts cfg envs amount input principalId transferId key startedAt attempt 0 w =
    (Inl (PlainError ''unreachable transfer retry state''), w)"
| "create_attempts cfg envs amount input principalId transferId key startedAt attempt (Suc left) w =
    (let env = envs attempt;
         r = attempt_outcome cfg env amount input principalId transferId key (tw_db w);
         w1 = w\<lparr>tw_db := out_state r\<rparr>
     in case out_result r of
          Inr transfer \<Rightarrow>
            (Inr transfer,
             w1\<lparr>tw_metrics := recordCompleted (tw_metrics w1),
                tw_events := tw_events w1 @
                  [Transfer_completed (at_clock env - startedAt) (attempt - 1) transferId]\<rparr>)
        | Inl err \<Rightarrow>
            (case databaseErrorCode err of
               None \<Rightarrow> (Inl err, w1)
             | Some code \<Rightarrow>
                 if code \<notin> set retryableDatabaseCodes then (Inl err, w1)
                 else if attempt = tc_maxAttempts cfg then
                   (Inl (transfer_error ''TRANSFER_RETRY_EXHAUSTED''
                      ''Transfer could not be completed within the retry limit''),
                    w1\<lparr>tw_metrics := recordExhausted (tw_metrics w1)\<rparr>)
                 else
                   (let delayMs = retry_delay_ms (tc_baseRetryDelayMs cfg) attempt (at_jitter env) in
                    create_attempts cfg envs amount input principalId transferId key startedAt
                      (attempt + 1) left
                      (w1\<lparr>tw_metrics := recordRetry (tw_metrics w1),
                          tw_events := tw_events w1 @ [Transfer_retrying delayMs code attempt transferId],
                          tw_slept := tw_slept w1 @ [delayMs]\<rparr>))))"

definition create ::
    "transfer_config \<Rightarrow> (nat \<Rightarrow> attempt_env) \<Rightarrow> uuid \<Rightarrow> int \<Rightarrow> CreateTransferInput \<Rightarrow> uuid
      \<Rightarrow> string option \<Rightarrow> (transfer_world, js_error, Transfer) io" where
  "create cfg envs transferId startedAt input principalId key w =
    (case fromMinor (StringArg (ct_amountMinor input)) of
       Inl e \<Rightarrow> (Inl e, w)
     | Inr amount \<Rightarrow>
         if ct_sourceAccountId input = ct_destinationAccountId input then
           (Inl (transfer_error ''SELF_TRANSFER'' ''Source and destination must differ''), w)
         else
           create_attempts cfg envs amount input principalId transferId key startedAt 1
             (tc_maxAttempts cfg) w)"

definition findById :: "string \<Rightarrow> uuid \<Rightarrow> Transfer db_io" where
  "findById tid principalId =
    io_bind (io_get (findVisibleById tid principalId)) (\<lambda>found.
    case found of
      None \<Rightarrow> io_throw (transfer_error ''TRANSFER_NOT_FOUND'' ''Transfer not found'')
    | Some t \<Rightarrow> io_return t)"

end
