(* ===== verification/Audit_Consumer.thy ===== *)
theory Audit_Consumer
  imports Outbox
begin

text \<open>
  src/modules/audit: the idempotent consumer inbox.  Outbox delivery is at least once; the
  claim of (consumer, event) and the audit effect commit together, so the effect of an event
  is recorded once however often the event is delivered.
\<close>

section \<open>audit-domain.ts and audit-repository.ts\<close>

definition auditConsumerName :: string where
  "auditConsumerName = ''audit''"

record AuditConsumeInput =
  ac_aggregateId :: uuid
  ac_aggregateType :: string
  ac_eventId :: uuid
  ac_eventType :: string
  ac_payload :: json

record AuditConsumeResult =
  ac_duplicate :: bool

definition inbox_key :: "inbox_row \<Rightarrow> string \<times> uuid" where
  "inbox_key r = (in_consumer_name r, in_event_id r)"

text \<open>INSERT INTO consumer_inbox ... ON CONFLICT DO NOTHING, with its \<open>rowCount\<close>.\<close>

definition claim_inbox :: "instant \<Rightarrow> uuid \<Rightarrow> nat db_tx" where
  "claim_inbox now eid =
    tx_bind (tx_get (\<lambda>s. insert_unique inbox_key
        \<lparr>in_consumer_name = auditConsumerName, in_event_id = eid, in_processed_at = now\<rparr>
        (consumer_inbox s))) (\<lambda>ins.
    case ins of
      None \<Rightarrow> tx_return 0
    | Some t' \<Rightarrow> tx_bind (tx_modify (\<lambda>s. s\<lparr>consumer_inbox := t'\<rparr>)) (\<lambda>_. tx_return 1))"

definition effect_row :: "instant \<Rightarrow> uuid \<Rightarrow> AuditConsumeInput \<Rightarrow> audit_row" where
  "effect_row now effect_id i =
    \<lparr>ae_id = effect_id, ae_event_id = ac_eventId i, ae_aggregate_id = ac_aggregateId i,
     ae_aggregate_type = ac_aggregateType i, ae_event_type = ac_eventType i,
     ae_payload = ac_payload i, ae_created_at = now\<rparr>"

definition insert_effect :: "audit_row \<Rightarrow> unit db_tx" where
  "insert_effect r =
    tx_bind (tx_get audit_effects) (\<lambda>t.
    tx_bind (tx_require (ae_id r \<notin> ae_id ` set t) (unique_violation ''audit_effects_pkey'')) (\<lambda>_.
    tx_bind (tx_require (ae_event_id r \<notin> ae_event_id ` set t)
      (unique_violation ''audit_effects_event_id_key'')) (\<lambda>_.
    tx_modify (\<lambda>s. s\<lparr>audit_effects := t @ [r]\<rparr>))))"

definition consume_work :: "instant \<Rightarrow> uuid \<Rightarrow> AuditConsumeInput \<Rightarrow> AuditConsumeResult db_tx" where
  "consume_work now effect_id i =
    tx_bind (claim_inbox now (ac_eventId i)) (\<lambda>claimed.
    if claimed = 0 then tx_return \<lparr>ac_duplicate = True\<rparr>
    else
      tx_bind (insert_effect (effect_row now effect_id i)) (\<lambda>_.
      tx_return \<lparr>ac_duplicate = False\<rparr>))"

definition consume ::
    "tx_env \<Rightarrow> instant \<Rightarrow> uuid \<Rightarrow> AuditConsumeInput \<Rightarrow> db \<Rightarrow> (db, AuditConsumeResult) tx_outcome" where
  "consume env now effect_id i =
    withTransaction env default_begin deferred_constraints (consume_work now effect_id i)"

section \<open>audit-service.ts\<close>

datatype audit_telemetry = Audit_duplicate uuid | Audit_processed uuid

definition audit_input :: "OutboxRecord \<Rightarrow> AuditConsumeInput" where
  "audit_input e =
    \<lparr>ac_aggregateId = oe_aggregateId e, ac_aggregateType = oe_aggregateType e, ac_eventId = oe_id e,
     ac_eventType = oe_eventType e, ac_payload = oe_payload e\<rparr>"

definition audit_handle ::
    "tx_env \<Rightarrow> instant \<Rightarrow> uuid \<Rightarrow> OutboxRecord \<Rightarrow> audit_telemetry db_io" where
  "audit_handle env now effect_id e =
    io_bind (\<lambda>s. let r = consume env now effect_id (audit_input e) s in (out_result r, out_state r)) (\<lambda>result.
    io_return (if ac_duplicate result then Audit_duplicate (oe_id e) else Audit_processed (oe_id e)))"

section \<open>One effect per event\<close>

definition audit_inv :: "db \<Rightarrow> bool" where
  "audit_inv s \<longleftrightarrow>
    distinct (map inbox_key (consumer_inbox s)) \<and> distinct (map ae_id (audit_effects s)) \<and>
    distinct (map ae_event_id (audit_effects s)) \<and>
    (\<forall>eid. (auditConsumerName, eid) \<in> inbox_key ` set (consumer_inbox s) \<longleftrightarrow>
           eid \<in> ae_event_id ` set (audit_effects s))"

definition effects_of :: "uuid \<Rightarrow> db \<Rightarrow> audit_row list" where
  "effects_of eid s = select_where (\<lambda>r. ae_event_id r = eid) (audit_effects s)"

lemma claim_inbox_eq:
  "claim_inbox now eid s =
    (if (auditConsumerName, eid) \<in> inbox_key ` set (consumer_inbox s) then Inr (0, s)
     else Inr (1, s\<lparr>consumer_inbox := consumer_inbox s @
       [\<lparr>in_consumer_name = auditConsumerName, in_event_id = eid, in_processed_at = now\<rparr>]\<rparr>))"
  by (simp add: claim_inbox_def tx_eval insert_unique_def inbox_key_def)

lemma consume_work_InrD:
  assumes "consume_work now effect_id i s = Inr (r, s')"
  shows "if (auditConsumerName, ac_eventId i) \<in> inbox_key ` set (consumer_inbox s)
    then ac_duplicate r \<and> s' = s
    else \<not> ac_duplicate r \<and> effect_id \<notin> ae_id ` set (audit_effects s) \<and>
      s' = s\<lparr>consumer_inbox := consumer_inbox s @ [\<lparr>in_consumer_name = auditConsumerName,
                in_event_id = ac_eventId i, in_processed_at = now\<rparr>],
             audit_effects := audit_effects s @ [effect_row now effect_id i]\<rparr>"
  using assms unfolding consume_work_def tx_bind_eq_Inr claim_inbox_eq
  by (auto simp: tx_simps insert_effect_def effect_row_def split: if_splits)

lemma effects_of_iff:
  "audit_inv s \<Longrightarrow>
    effects_of eid s \<noteq> [] \<longleftrightarrow> (auditConsumerName, eid) \<in> inbox_key ` set (consumer_inbox s)"
  by (auto simp: audit_inv_def effects_of_def select_where_def filter_empty_conv)

lemma effects_of_one: "audit_inv s \<Longrightarrow> length (effects_of eid s) \<le> 1"
  using count_where_key_le_1 [of ae_event_id "audit_effects s" "\<lambda>r. ae_event_id r = eid" eid]
  by (simp add: audit_inv_def effects_of_def select_where_def count_where_def)

lemma consume_work_keeps: "tx_keeps audit_inv (consume_work now effect_id i)"
  unfolding tx_keeps_def
proof (intro allI impI)
  fix s r s'
  assume inv: "audit_inv s" and run: "consume_work now effect_id i s = Inr (r, s')"
  show "audit_inv s'"
  proof (cases "(auditConsumerName, ac_eventId i) \<in> inbox_key ` set (consumer_inbox s)")
    case True
    with consume_work_InrD [OF run] inv show ?thesis by simp
  next
    case False
    with inv have "ac_eventId i \<notin> ae_event_id ` set (audit_effects s)" by (simp add: audit_inv_def)
    with False consume_work_InrD [OF run] inv show ?thesis
      by (auto simp: audit_inv_def effect_row_def inbox_key_def)
  qed
qed

interpretation audit_tx: tx_invariant audit_inv "consume_work now effect_id i"
  for now effect_id i
  by unfold_locales (rule tx_keepsD [OF consume_work_keeps])

text \<open>
  C35.  However often an event is delivered, and whatever the server does to each delivery, it
  has at most one audit effect.  A delivery that returns leaves exactly one; it is reported as
  a duplicate exactly when the effect was there before, and then it changes nothing.  A
  delivery that throws leaves the state as it was, or - the answer to its COMMIT lost - exactly
  as a successful one would have left it.
\<close>

theorem audit_effect_once:
  fixes env now effect_id i s
  assumes inv: "audit_inv s"
  defines "o' \<equiv> consume env now effect_id i s"
  shows "audit_inv (out_state o') \<and>
    length (effects_of (ac_eventId i) (out_state o')) \<le> 1 \<and>
    (case out_result o' of
       Inr r \<Rightarrow> length (effects_of (ac_eventId i) (out_state o')) = 1 \<and>
         (ac_duplicate r \<longleftrightarrow> effects_of (ac_eventId i) s \<noteq> []) \<and>
         (if ac_duplicate r then out_state o' = s
          else effects_of (ac_eventId i) (out_state o') = [effect_row now effect_id i])
     | Inl e \<Rightarrow> out_state o' = s \<or>
         env_commit env = Commit_lost e \<and>
           (\<exists>r. consume_work now effect_id i s = Inr (r, out_state o')))"
proof -
  have inv': "audit_inv (out_state o')"
    unfolding o'_def consume_def by (rule audit_tx.transaction_keeps [OF inv])
  show ?thesis
  proof (cases "out_result o'")
    case (Inl e)
    then show ?thesis
      using inv' effects_of_one [OF inv'] withTransaction_InlD [of env default_begin deferred_constraints
          "consume_work now effect_id i" s e]
      by (auto simp: o'_def consume_def)
  next
    case (Inr r)
    then have run: "consume_work now effect_id i s = Inr (r, out_state o')"
      using withTransaction_InrD [of env default_begin deferred_constraints
          "consume_work now effect_id i" s r]
      by (auto simp: o'_def consume_def)
    have ids: "effects_of (ac_eventId i) s = [] \<Longrightarrow>
        effects_of (ac_eventId i) (s\<lparr>consumer_inbox := t, audit_effects := audit_effects s @
          [effect_row now effect_id i]\<rparr>) = [effect_row now effect_id i]" for t
      by (simp add: effects_of_def select_where_def effect_row_def)
    have "length (effects_of (ac_eventId i) s) = 1" if "effects_of (ac_eventId i) s \<noteq> []"
      using that effects_of_one [OF inv, of "ac_eventId i"] by (cases "effects_of (ac_eventId i) s") auto
    then show ?thesis
      using consume_work_InrD [OF run] effects_of_iff [OF inv, of "ac_eventId i"] inv'
        effects_of_one [OF inv'] ids Inr
      by (auto split: if_splits)
  qed
qed

end
