(* ===== verification/Outbox_Worker.thy ===== *)
theory Outbox_Worker
  imports Audit_Consumer
begin

text \<open>
  src/modules/outbox/outbox-worker.ts: one event, one poll, and the life cycle of the worker.
\<close>

section \<open>processEvent\<close>

datatype worker_telemetry =
    Claim_error js_error
  | Event_failed uuid string
  | Event_permanently_failed nat uuid string
  | Event_processed uuid
  | Poll_completed nat nat int
  | Shutting_down

fun error_message :: "js_error \<Rightarrow> string" where
  "error_message (AppError _ _ msg) = msg"
| "error_message (CodedError _ _ msg) = msg"
| "error_message (ValidationError msg) = msg"
| "error_message (FrameworkError _ msg) = msg"
| "error_message (PlainError msg) = msg"
| "error_message IdentityAlreadyMapped = []"

text \<open>
  What one event meets: the clocks of its two possible statements, \<open>Math.random()\<close>, and whether
  either statement fails to reach the database.
\<close>

record event_env =
  ev_processed_now :: instant
  ev_mark_fault :: "js_error option"
  ev_failed_ms :: int
  ev_random :: rat
  ev_fail_fault :: "js_error option"

definition processEvent ::
    "nat \<Rightarrow> (OutboxRecord \<Rightarrow> 'h db_io) \<Rightarrow> event_env \<Rightarrow> OutboxRecord \<Rightarrow> worker_telemetry db_io" where
  "processEvent maxAttempts handler env event =
    io_catch
      (io_bind (handler event) (\<lambda>_.
       io_bind (query_or_fail (ev_mark_fault env) (markProcessed (ev_processed_now env) (oe_id event))) (\<lambda>_.
       io_return (Event_processed (oe_id event)))))
      (\<lambda>err. let message = error_message err in
       if maxAttempts \<le> oe_attempts event then
         io_bind (query_or_fail (ev_fail_fault env) (markFailed (oe_id event) message Infinity_time)) (\<lambda>_.
         io_return (Event_permanently_failed (oe_attempts event) (oe_id event) message))
       else
         (let nextAttemptAt = computeNextAttempt (ev_random env) (oe_attempts event + 1) (ev_failed_ms env) in
         io_bind (query_or_fail (ev_fail_fault env)
             (markFailed (oe_id event) message (At (1000 * nextAttemptAt)))) (\<lambda>_.
         io_return (Event_failed (oe_id event) message))))"

section \<open>poll\<close>

text \<open>The loop over the batch: a statement that fails abandons the rest of it.\<close>

fun process_batch ::
    "nat \<Rightarrow> (OutboxRecord \<Rightarrow> 'h db_io) \<Rightarrow> (nat \<Rightarrow> event_env) \<Rightarrow> nat \<Rightarrow> OutboxRecord list \<Rightarrow> db
      \<Rightarrow> js_error option \<times> worker_telemetry list \<times> db" where
  "process_batch maxAttempts handler envs i [] s = (None, [], s)"
| "process_batch maxAttempts handler envs i (event # events) s =
    (case processEvent maxAttempts handler (envs i) event s of
       (Inl e, s') \<Rightarrow> (Some e, [], s')
     | (Inr line, s') \<Rightarrow>
         (case process_batch maxAttempts handler envs (i + 1) events s' of
            (r, lines, s'') \<Rightarrow> (r, line # lines, s'')))"

record poll_env =
  pe_tx :: tx_env
  pe_now :: instant
  pe_locked :: "uuid set"
  pe_started_ms :: int
  pe_finished_ms :: int
  pe_events :: "nat \<Rightarrow> event_env"

definition poll ::
    "int \<Rightarrow> nat \<Rightarrow> nat \<Rightarrow> (OutboxRecord \<Rightarrow> 'h db_io) \<Rightarrow> poll_env \<Rightarrow> db \<Rightarrow> worker_telemetry list \<times> db" where
  "poll leaseSeconds batchSize maxAttempts handler env s =
    (let claimed = claimBatch (pe_tx env) (pe_now env) leaseSeconds (pe_locked env) batchSize s in
     case out_result claimed of
       Inl e \<Rightarrow> ([Claim_error e], out_state claimed)
     | Inr batch \<Rightarrow>
         (case process_batch maxAttempts handler (pe_events env) 0 batch (out_state claimed) of
            (Some e, lines, s') \<Rightarrow> (lines @ [Claim_error e], s')
          | (None, lines, s') \<Rightarrow>
              (lines @ [Poll_completed batchSize (length batch) (pe_finished_ms env - pe_started_ms env)], s')))"

section \<open>The life cycle\<close>

text \<open>
  \<open>running\<close>, whether the timer is set, and the poll in flight (its number).  \<open>polls\<close> counts the
  polls begun.
\<close>

record worker =
  wk_running :: bool
  wk_timer :: bool
  wk_inFlight :: "nat option"
  wk_polls :: nat

definition new_worker :: worker where
  "new_worker = \<lparr>wk_running = False, wk_timer = False, wk_inFlight = None, wk_polls = 0\<rparr>"

definition schedulePoll :: "worker \<Rightarrow> worker" where
  "schedulePoll w =
    (if \<not> wk_running w \<or> wk_timer w \<or> wk_inFlight w \<noteq> None then w else w\<lparr>wk_timer := True\<rparr>)"

definition start :: "worker \<Rightarrow> worker" where
  "start w = (if wk_running w then w else schedulePoll (w\<lparr>wk_running := True\<rparr>))"

text \<open>\<open>stop\<close> up to its \<open>await\<close>: the worker, what it logs, and the poll it waits for.\<close>

definition stop :: "worker \<Rightarrow> worker \<times> worker_telemetry list \<times> nat option" where
  "stop w =
    (w\<lparr>wk_running := False, wk_timer := False\<rparr>,
     if wk_running w then [Shutting_down] else [], wk_inFlight w)"

definition timer_fires :: "worker \<Rightarrow> worker" where
  "timer_fires w = w\<lparr>wk_timer := False, wk_inFlight := Some (wk_polls w), wk_polls := wk_polls w + 1\<rparr>"

definition poll_settles :: "worker \<Rightarrow> worker" where
  "poll_settles w = schedulePoll (w\<lparr>wk_inFlight := None\<rparr>)"

datatype worker_label = Start | Stop | Timer_fires | Poll_settles

inductive worker_step :: "worker \<Rightarrow> worker_label \<Rightarrow> worker \<Rightarrow> bool" where
  step_start: "worker_step w Start (start w)"
| step_stop: "worker_step w Stop (fst (stop w))"
| step_timer: "wk_timer w \<Longrightarrow> worker_step w Timer_fires (timer_fires w)"
| step_settle: "wk_inFlight w \<noteq> None \<Longrightarrow> worker_step w Poll_settles (poll_settles w)"

inductive worker_run :: "worker \<Rightarrow> worker_label list \<Rightarrow> worker \<Rightarrow> bool" where
  run_nil: "worker_run w [] w"
| run_cons: "worker_step w l w' \<Longrightarrow> worker_run w' ls w'' \<Longrightarrow> worker_run w (l # ls) w''"

inductive_cases worker_step_cases: "worker_step w l w'"
inductive_cases worker_run_consE: "worker_run w (l # ls) w''"
inductive_simps worker_run_simps: "worker_run w [] w''" "worker_run w (l # ls) w''"

definition worker_inv :: "worker \<Rightarrow> bool" where
  "worker_inv w \<longleftrightarrow> \<not> (wk_timer w \<and> wk_inFlight w \<noteq> None) \<and>
    (wk_running w \<longrightarrow> wk_timer w \<or> wk_inFlight w \<noteq> None) \<and> (wk_timer w \<longrightarrow> wk_running w)"

lemma worker_step_inv: "worker_step w l w' \<Longrightarrow> worker_inv w \<Longrightarrow> worker_inv w'"
  by (induction rule: worker_step.induct)
    (auto simp: worker_inv_def start_def stop_def timer_fires_def poll_settles_def schedulePoll_def)

text \<open>
  C36.  One poll chain, never two, never none.  However start and stop calls interleave with
  timers and polls, a running worker always has exactly one of a timer and a poll in flight, and
  a stopped worker has no timer.
\<close>

theorem worker_single_chain:
  "worker_run new_worker ls w \<Longrightarrow>
    (wk_running w \<longrightarrow> wk_timer w \<noteq> (wk_inFlight w \<noteq> None)) \<and>
    (\<not> wk_running w \<longrightarrow> \<not> wk_timer w)"
proof -
  have inv: "worker_run w0 ls w \<Longrightarrow> worker_inv w0 \<Longrightarrow> worker_inv w" for w0
    by (induction rule: worker_run.induct) (auto dest: worker_step_inv)
  assume "worker_run new_worker ls w"
  from inv [OF this] show ?thesis by (auto simp: worker_inv_def new_worker_def)
qed

theorem worker_single_chain_witness:
  "\<exists>w. worker_run new_worker [Start, Timer_fires, Stop, Start, Poll_settles] w \<and> wk_timer w \<and>
    ((wk_running w \<longrightarrow> wk_timer w \<noteq> (wk_inFlight w \<noteq> None)) \<and> (\<not> wk_running w \<longrightarrow> \<not> wk_timer w))"
proof -
  let ?w1 = "start new_worker" let ?w2 = "timer_fires ?w1" let ?w3 = "fst (stop ?w2)"
  let ?w4 = "start ?w3" let ?w5 = "poll_settles ?w4"
  have run: "worker_run new_worker [Start, Timer_fires, Stop, Start, Poll_settles] ?w5"
  proof (rule run_cons [OF _ run_cons [OF _ run_cons [OF _ run_cons [OF _ run_cons [OF _ run_nil]]]]])
    show "worker_step new_worker Start ?w1" by (rule step_start)
    show "worker_step ?w1 Timer_fires ?w2"
      by (rule step_timer) (simp add: start_def schedulePoll_def new_worker_def)
    show "worker_step ?w2 Stop ?w3" by (rule step_stop)
    show "worker_step ?w3 Start ?w4" by (rule step_start)
    show "worker_step ?w4 Poll_settles ?w5"
      by (rule step_settle)
        (simp add: start_def stop_def timer_fires_def schedulePoll_def new_worker_def)
  qed
  have "wk_timer ?w5"
    by (simp add: start_def stop_def timer_fires_def poll_settles_def schedulePoll_def new_worker_def)
  with run worker_single_chain [OF run] show ?thesis by blast
qed

lemma stopped_run:
  "worker_run w ls w' \<Longrightarrow> \<not> wk_running w \<Longrightarrow> \<not> wk_timer w \<Longrightarrow> Start \<notin> set ls \<Longrightarrow>
    \<not> wk_running w' \<and> \<not> wk_timer w' \<and> wk_polls w' = wk_polls w \<and> Timer_fires \<notin> set ls \<and>
    (wk_inFlight w' = wk_inFlight w \<or> wk_inFlight w' = None) \<and>
    (Poll_settles \<in> set ls \<longrightarrow> wk_inFlight w' = None)"
proof (induction rule: worker_run.induct)
  case (run_cons w l w' ls w'')
  have "l \<noteq> Start" "Start \<notin> set ls" using run_cons.prems by auto
  with run_cons.hyps(1) run_cons.prems have w': "\<not> wk_running w'" "\<not> wk_timer w'"
      "wk_polls w' = wk_polls w" "l \<noteq> Timer_fires"
      "l = Poll_settles \<Longrightarrow> wk_inFlight w' = None"
      "wk_inFlight w' = wk_inFlight w \<or> wk_inFlight w' = None"
    by (auto elim!: worker_step_cases simp: stop_def poll_settles_def schedulePoll_def)
  from run_cons.IH [OF w'(1,2) \<open>Start \<notin> set ls\<close>] w' show ?case by auto
qed simp

text \<open>
  A graceful stop.  After \<open>stop\<close>, and until the next \<open>start\<close>, no poll ever begins; the only
  poll that may still be under way is the one \<open>stop\<close> waits for, and once that one has settled
  nothing is in flight: a caller that awaited \<open>stop\<close> can close the database pool.
\<close>

theorem stop_is_graceful:
  assumes "stop w = (w0, lines, awaited)" and "worker_run w0 ls w'" and "Start \<notin> set ls"
  shows "wk_polls w' = wk_polls w \<and> Timer_fires \<notin> set ls \<and>
    (wk_inFlight w' = None \<or> wk_inFlight w' = awaited) \<and>
    (awaited = None \<or> Poll_settles \<in> set ls \<longrightarrow> wk_inFlight w' = None)"
proof -
  have w0: "\<not> wk_running w0" "\<not> wk_timer w0" "wk_polls w0 = wk_polls w" "wk_inFlight w0 = awaited"
    using assms(1) by (auto simp: stop_def)
  from stopped_run [OF assms(2) w0(1,2) assms(3)] w0 show ?thesis by auto
qed

theorem stop_is_graceful_witness:
  "wk_inFlight (poll_settles (fst (stop (timer_fires (start new_worker))))) = None"
proof -
  let ?w = "timer_fires (start new_worker)"
  have run: "worker_run (fst (stop ?w)) [Poll_settles] (poll_settles (fst (stop ?w)))"
    by (rule run_cons [OF step_settle run_nil]) (simp add: stop_def timer_fires_def)
  have "stop ?w = (fst (stop ?w), [Shutting_down], Some 0)"
    by (simp add: stop_def timer_fires_def start_def schedulePoll_def new_worker_def)
  from stop_is_graceful [OF this run] show ?thesis by simp
qed

end
