(* ===== verification/Outbox_Delivery.thy ===== *)
theory Outbox_Delivery
  imports Outbox_Worker
begin

text \<open>
  What the outbox promises its events: a claim leases what it returns, no event is lost or
  handed out twice within a lease, an event that is done or parked is left alone by the worker,
  and retention removes only what is done.
\<close>

section \<open>The rows of the outbox\<close>

definition outbox_row_ok :: "outbox_row \<Rightarrow> bool" where
  "outbox_row_ok r \<longleftrightarrow>
    (ob_status r = Processed \<longleftrightarrow> ob_processed_at r \<noteq> None) \<and>
    (ob_next_attempt_at r = Some Infinity_time \<longrightarrow> ob_status r = Failed)"

definition outbox_inv :: "db \<Rightarrow> bool" where
  "outbox_inv s \<longleftrightarrow> distinct (map ob_id (outbox_events s)) \<and>
    (\<forall>r\<in>set (outbox_events s). outbox_row_ok r)"

lemma outbox_inv_cong: "outbox_events s' = outbox_events s \<Longrightarrow> outbox_inv s' = outbox_inv s"
  by (simp add: outbox_inv_def)

lemma outbox_inv_update:
  assumes "outbox_inv s" and "\<And>r. ob_id (f r) = ob_id r"
    and "\<And>r. r \<in> set (outbox_events s) \<Longrightarrow> p r \<Longrightarrow> outbox_row_ok r \<Longrightarrow> outbox_row_ok (f r)"
  shows "outbox_inv (s\<lparr>outbox_events := update_where p f (outbox_events s)\<rparr>)"
  using assms by (auto simp: outbox_inv_def map_key_update_where set_update_where)

lemma claim_work_eq:
  "claim_work now leaseSeconds locked n s =
    (let ids = claimed_ids now locked n (outbox_events s);
         t' = update_where (\<lambda>r. ob_id r \<in> ids) (leased now leaseSeconds) (outbox_events s)
     in Inr (map toOutboxRecord (select_where (\<lambda>r. ob_id r \<in> ids) t'), s\<lparr>outbox_events := t'\<rparr>))"
  by (simp add: claim_work_def tx_eval Let_def)

lemma leased_simps [simp]:
  "ob_id (leased now l r) = ob_id r" "ob_status (leased now l r) = Processing"
  "ob_attempts (leased now l r) = ob_attempts r + 1"
  "ob_next_attempt_at (leased now l r) = Some (At (now + 1000000 * l))"
  "ob_processed_at (leased now l r) = ob_processed_at r"
  by (simp_all add: leased_def)

lemma toOutboxRecord_simps [simp]:
  "oe_id (toOutboxRecord r) = ob_id r" "oe_attempts (toOutboxRecord r) = ob_attempts r"
  "oe_status (toOutboxRecord r) = ob_status r"
  by (simp_all add: toOutboxRecord_def)

lemma claimed_rows:
  assumes "distinct (map ob_id t)" and "r \<in> set t" and "ob_id r \<in> claimed_ids now locked n t"
  shows "claimable now r" and "ob_id r \<notin> locked"
proof -
  obtain x where "x \<in> set (select_page (\<lambda>r. claimable now r \<and> ob_id r \<notin> locked) ob_created_at n t)"
    and id: "ob_id x = ob_id r"
    using assms(3) by (auto simp: claimed_ids_def)
  then have "x \<in> set t \<and> claimable now x \<and> ob_id x \<notin> locked"
    using select_page_subset [of "\<lambda>r. claimable now r \<and> ob_id r \<notin> locked" ob_created_at n t] by blast
  with distinct_map_eqD [OF assms(1) _ assms(2) id] show "claimable now r" "ob_id r \<notin> locked" by auto
qed

lemma card_claimed_ids:
  assumes "distinct (map ob_id t)"
  shows "card (claimed_ids now locked n t) = min n (count_where (\<lambda>r. claimable now r \<and> ob_id r \<notin> locked) t)"
  unfolding claimed_ids_def set_map [symmetric]
    distinct_card [OF distinct_select_page [OF assms]] length_map length_select_page ..

lemma length_filter_ids:
  assumes "distinct (map ob_id t)" and "ids \<subseteq> ob_id ` set t"
  shows "length (filter (\<lambda>r. ob_id r \<in> ids) t) = card ids"
proof -
  have "ids = ob_id ` set (filter (\<lambda>r. ob_id r \<in> ids) t)" using assms(2) by auto
  then have "card ids = card (set (map ob_id (filter (\<lambda>r. ob_id r \<in> ids) t)))" by (metis set_map)
  also have "\<dots> = length (filter (\<lambda>r. ob_id r \<in> ids) t)"
    by (subst distinct_card) (simp_all add: distinct_map_filter assms(1))
  finally show ?thesis by simp
qed

lemma claimed_ids_subset: "claimed_ids now locked n t \<subseteq> ob_id ` set t"
  unfolding claimed_ids_def
  using select_page_subset [of "\<lambda>r. claimable now r \<and> ob_id r \<notin> locked" ob_created_at n t] by blast

lemma claim_work_batch:
  assumes "claim_work now l locked n s = Inr (batch, s')"
  shows "batch = map (\<lambda>r. toOutboxRecord (leased now l r))
      (filter (\<lambda>r. ob_id r \<in> claimed_ids now locked n (outbox_events s)) (outbox_events s))"
proof -
  have "select_where (\<lambda>r. ob_id r \<in> ids) (update_where (\<lambda>r. ob_id r \<in> ids) (leased now l) t) =
      map (leased now l) (select_where (\<lambda>r. ob_id r \<in> ids) t)" for ids t
    by (rule select_update_where) simp
  then show ?thesis
    using assms by (auto simp: claim_work_eq Let_def select_where_def)
qed

text \<open>
  What a claim hands out.  The batch holds as many events as are due and not locked by another
  worker, up to the batch size; each one was waiting, failed or abandoned and due, is now leased
  with its attempt counted, and every other event is left exactly as it was.
\<close>

theorem claim_leases_due_events:
  assumes "distinct (map ob_id (outbox_events s))"
    and "claim_work now leaseSeconds locked n s = Inr (batch, s')"
  shows "length batch = min n (count_where (\<lambda>r. claimable now r \<and> ob_id r \<notin> locked) (outbox_events s)) \<and>
    (\<exists>ids. outbox_events s' = update_where (\<lambda>r. ob_id r \<in> ids) (leased now leaseSeconds) (outbox_events s) \<and>
      set (map oe_id batch) = ids \<and>
      (\<forall>r\<in>set (outbox_events s). ob_id r \<in> ids \<longrightarrow> claimable now r \<and> ob_id r \<notin> locked) \<and>
      (\<forall>e\<in>set batch. oe_status e = Processing \<and>
        (\<exists>r\<in>set (outbox_events s). e = toOutboxRecord (leased now leaseSeconds r))))"
proof -
  let ?ids = "claimed_ids now locked n (outbox_events s)"
  note batch = claim_work_batch [OF assms(2)]
  have "length batch = card ?ids"
    unfolding batch by (simp add: length_filter_ids assms(1) claimed_ids_subset)
  moreover have "outbox_events s' = update_where (\<lambda>r. ob_id r \<in> ?ids) (leased now leaseSeconds) (outbox_events s)"
    using assms(2) by (auto simp: claim_work_eq Let_def)
  moreover have "set (map oe_id batch) = ?ids"
    unfolding batch using claimed_ids_subset [of now locked n "outbox_events s"] by (auto simp: image_iff)
  moreover have "\<forall>e\<in>set batch. oe_status e = Processing \<and>
      (\<exists>r\<in>set (outbox_events s). e = toOutboxRecord (leased now leaseSeconds r))"
    unfolding batch by auto
  ultimately show ?thesis
    using claimed_rows [OF assms(1), of _ now locked n] card_claimed_ids [OF assms(1)] by auto
qed


section \<open>Events the worker leaves alone\<close>

text \<open>Done, or parked for a human.\<close>

definition settled_event :: "outbox_row \<Rightarrow> bool" where
  "settled_event r \<longleftrightarrow> ob_status r = Processed \<or> parked r"

lemma settled_not_claimable: "settled_event r \<Longrightarrow> \<not> claimable now r"
  by (auto simp: settled_event_def parked_def claimable_def due_def)

lemma settled_not_in_processing: "settled_event r \<Longrightarrow> \<not> in_processing eid r"
  by (auto simp: settled_event_def parked_def in_processing_def)

text \<open>What a computation leaves of the events that are settled.\<close>

definition settled_kept :: "db \<Rightarrow> db \<Rightarrow> bool" where
  "settled_kept s s' \<longleftrightarrow>
    {r \<in> set (outbox_events s). settled_event r} \<subseteq> set (outbox_events s')"

lemma settled_kept_refl [simp]: "settled_kept s s"
  by (auto simp: settled_kept_def)

lemma settled_kept_trans: "settled_kept s s' \<Longrightarrow> settled_kept s' s'' \<Longrightarrow> settled_kept s s''"
  by (auto simp: settled_kept_def)

lemma claim_work_settled:
  assumes "distinct (map ob_id (outbox_events s))"
    and "claim_work now l locked n s = Inr (batch, s')"
  shows "settled_kept s s'"
proof -
  have "ob_id r \<notin> claimed_ids now locked n (outbox_events s)"
    if "r \<in> set (outbox_events s)" "settled_event r" for r
    using claimed_rows(1) [OF assms(1) that(1)] settled_not_claimable [OF that(2)] by blast
  then show ?thesis
    using assms(2) by (auto simp: settled_kept_def claim_work_eq Let_def intro!: update_where_keeps_row)
qed

lemma mark_settled:
  "markProcessed now eid s = Inr (u, s') \<Longrightarrow> settled_kept s s'"
  "markFailed eid msg a s = Inr (u, s') \<Longrightarrow> settled_kept s s'"
  by (auto simp: settled_kept_def markProcessed_def markFailed_def tx_modify_apply
      settled_not_in_processing intro!: update_where_keeps_row)

section \<open>One event\<close>

lemma query_or_fail_eq:
  "query_or_fail fault (tx_modify f) s =
    (case fault of Some e \<Rightarrow> (Inl e, s) | None \<Rightarrow> (Inr (), f s))"
  by (simp add: query_or_fail_def auto_commit_def tx_modify_apply io_throw_def split: option.splits)

lemma settled_kept_preorder: "reflp settled_kept" "transp settled_kept"
  by (auto simp: reflp_def transp_def intro: settled_kept_trans)

lemma query_settled:
  "io_within settled_kept (query_or_fail f (markProcessed now eid))"
  "io_within settled_kept (query_or_fail f (markFailed eid msg a))"
  unfolding query_or_fail_def
  by (auto split: option.split intro!: io_within_basic io_within_auto_commit settled_kept_preorder
      intro: mark_settled)

lemma processEvent_settled:
  "io_within settled_kept (handler event) \<Longrightarrow>
    io_within settled_kept (processEvent m handler env event)"
  unfolding processEvent_def Let_def
  by (intro io_within_catch io_within_bind settled_kept_preorder)
    (auto intro!: io_within_bind io_within_basic settled_kept_preorder query_settled)

lemma process_batch_settled:
  assumes "\<And>e. io_within settled_kept (handler e)"
  shows "settled_kept s (snd (snd (process_batch m handler envs i events s)))"
proof (induction events arbitrary: i s)
  case (Cons event events)
  have one: "settled_kept s (snd (processEvent m handler (envs i) event s))"
    by (rule io_withinD [OF processEvent_settled [OF assms]])
  obtain r s1 where run: "processEvent m handler (envs i) event s = (r, s1)"
    by (cases "processEvent m handler (envs i) event s")
  have rest: "settled_kept s1 (snd (snd (process_batch m handler envs (i + 1) events s1)))"
    by (rule Cons.IH)
  show ?case
    using one rest run settled_kept_trans by (cases r) (auto split: prod.split)
qed simp

text \<open>
  A poll never touches an event that is done or parked: whatever the handler, the server and
  the clocks do, an event that was processed stays processed, and one parked for a human stays
  exactly as it was parked, until an operator replays it or retention removes it.
\<close>

theorem poll_leaves_settled_events:
  assumes "distinct (map ob_id (outbox_events s))"
    and "\<forall>e s. settled_kept s (snd (handler e s))"
    and "r \<in> set (outbox_events s)" and "settled_event r"
  shows "r \<in> set (outbox_events (snd (poll leaseSeconds batchSize maxAttempts handler env s)))"
proof -
  define o1 where "o1 = claimBatch (pe_tx env) (pe_now env) leaseSeconds (pe_locked env) batchSize s"
  have h: "io_within settled_kept (handler e)" for e using assms(2) by (simp add: io_within_def)
  have "out_state o1 = s \<or>
      (\<exists>b. claim_work (pe_now env) leaseSeconds (pe_locked env) batchSize s = Inr (b, out_state o1))"
    unfolding o1_def claimBatch_def by (metis withTransaction_state)
  then have one: "settled_kept s (out_state o1)"
    using claim_work_settled [OF assms(1)] settled_kept_refl by metis
  have "settled_kept s (snd (poll leaseSeconds batchSize maxAttempts handler env s))"
    using one process_batch_settled [of handler, OF h] settled_kept_trans
    unfolding poll_def o1_def [symmetric] Let_def
    by (auto split: sum.split prod.split option.split) (metis snd_conv settled_kept_trans)+
  with assms(3,4) show ?thesis by (auto simp: settled_kept_def)
qed

section \<open>Failures, retries and parking\<close>

lemma retry_delay_bounds: "50 \<le> retry_delay attempts" "retry_delay attempts \<le> 60000"
proof -
  obtain p :: int where p: "p = 2 ^ (attempts - 1)" "1 \<le> p" by simp
  from p(2) show "50 \<le> retry_delay attempts" "retry_delay attempts \<le> 60000"
    unfolding retry_delay_def p(1) [symmetric] by auto
qed

lemma computeNextAttempt_bounds:
  assumes "0 \<le> random" and "random \<le> 1"
  shows "failedAt + retry_delay n div 2 \<le> computeNextAttempt random n failedAt"
    and "computeNextAttempt random n failedAt \<le> failedAt + retry_delay n"
proof -
  let ?d = "retry_delay n"
  let ?j = "1 / 2 + random * (1 / 2)"
  have d: "0 \<le> (of_int ?d :: rat)" using retry_delay_bounds(1) [of n] by simp
  have j: "1 / 2 \<le> ?j" "?j \<le> 1" using assms by auto
  have "of_int (?d div 2) \<le> (of_int ?d :: rat) * (1 / 2)"
    using of_int_le_iff [of "?d div 2 * 2" ?d, where ?'a = rat] by auto
  also have "\<dots> \<le> of_int ?d * ?j" by (rule mult_left_mono [OF j(1) d])
  finally have lower: "?d div 2 \<le> \<lfloor>of_int ?d * ?j\<rfloor>" by (simp add: le_floor_iff)
  have "of_int ?d * ?j \<le> (of_int ?d :: rat)" using mult_left_mono [OF j(2) d] by simp
  then have upper: "\<lfloor>of_int ?d * ?j\<rfloor> \<le> ?d" by (simp add: floor_le_iff)
  from lower upper show "failedAt + ?d div 2 \<le> computeNextAttempt random n failedAt"
    "computeNextAttempt random n failedAt \<le> failedAt + ?d"
    by (simp_all add: computeNextAttempt_def)
qed

lemma processEvent_failure:
  assumes "handler event s = (Inl e, s1)" and "ev_fail_fault env = None"
  shows "snd (processEvent m handler env event s) =
    s1\<lparr>outbox_events := update_where (in_processing (oe_id event))
      (\<lambda>r. r\<lparr>ob_status := Failed, ob_last_error := Some (error_message e),
             ob_next_attempt_at := Some (if m \<le> oe_attempts event then Infinity_time
               else At (1000 * computeNextAttempt (ev_random env) (oe_attempts event + 1)
                 (ev_failed_ms env)))\<rparr>) (outbox_events s1)\<rparr>"
  using assms
  by (simp add: processEvent_def io_catch_def io_bind_def Let_def query_or_fail_eq markFailed_def io_return_def)

text \<open>
  A failing event is retried later or parked, never lost.  When the handler throws, the event's
  row records the message; with its attempts used up it is parked, and no claim ever picks it
  again by itself; otherwise it comes back no sooner than half the back-off and no later than
  the whole back-off of 100 ms doubled per attempt and capped at a minute.
\<close>

theorem failed_event_is_rescheduled:
  assumes "handler event s = (Inl e, s1)" and "ev_fail_fault env = None"
    and "0 \<le> ev_random env" and "ev_random env \<le> 1"
    and "r \<in> set (outbox_events s1)" and "in_processing (oe_id event) r"
  shows "\<exists>r'\<in>set (outbox_events (snd (processEvent m handler env event s))).
    ob_id r' = ob_id r \<and> ob_status r' = Failed \<and> ob_last_error r' = Some (error_message e) \<and>
    (if m \<le> oe_attempts event then parked r' \<and> (\<forall>now. \<not> claimable now r')
     else
       (let delay = retry_delay (oe_attempts event + 1) in
        delay \<le> 60000 \<and>
        (\<forall>now. now < 1000 * (ev_failed_ms env + delay div 2) \<longrightarrow> \<not> claimable now r') \<and>
        (\<forall>now. 1000 * (ev_failed_ms env + delay) \<le> now \<longrightarrow> claimable now r')))"
proof -
  let ?next = "computeNextAttempt (ev_random env) (oe_attempts event + 1) (ev_failed_ms env)"
  let ?r' = "r\<lparr>ob_status := Failed, ob_last_error := Some (error_message e),
      ob_next_attempt_at := Some (if m \<le> oe_attempts event then Infinity_time else At (1000 * ?next))\<rparr>"
  have mem: "?r' \<in> set (outbox_events (snd (processEvent m handler env event s)))"
    unfolding processEvent_failure [where handler = handler and event = event and env = env, OF assms(1,2)] using assms(5,6)
    by (auto simp: update_where_def image_iff intro!: bexI [of _ r])
  note b = computeNextAttempt_bounds [OF assms(3,4), where failedAt = "ev_failed_ms env" and n = "oe_attempts event + 1"]
  have parked: "parked ?r' \<and> (\<forall>now. \<not> claimable now ?r')" if "m \<le> oe_attempts event"
    using that settled_not_claimable [of ?r'] by (simp add: settled_event_def parked_def)
  have later: "claimable now ?r' \<longleftrightarrow> 1000 * ?next \<le> now" if "\<not> m \<le> oe_attempts event" for now
    using that by (simp add: claimable_def due_def)
  show ?thesis
    by (rule bexI [OF _ mem])
      (use parked later b retry_delay_bounds(2) [of "oe_attempts event + 1"] in
        \<open>auto simp: Let_def simp del: add_Suc_right add_0_right\<close>)
qed

section \<open>The operator\<close>

lemma replay_eq:
  "replay eid s = Inr (\<exists>r\<in>set (outbox_events s). ob_id r = eid \<and> parked r,
    s\<lparr>outbox_events := update_where (\<lambda>r. ob_id r = eid \<and> parked r) replayed (outbox_events s)\<rparr>)"
proof -
  have "0 < count_where (\<lambda>r. ob_id r = eid \<and> parked r) (outbox_events s) \<longleftrightarrow>
      (\<exists>r\<in>set (outbox_events s). ob_id r = eid \<and> parked r)"
    unfolding neq0_conv [symmetric] count_where_0 by blast
  then show ?thesis by (simp add: replay_def replay_where_def tx_eval)
qed

text \<open>
  Replaying an event touches that event only, and only when it is parked: then, and only then,
  it is reported as replayed and becomes claimable at once with a fresh budget, the reason it
  was parked kept.  Every other event - and this one when it is not parked - is untouched.
\<close>

theorem replay_unparks:
  assumes "distinct (map ob_id (outbox_events s))"
  shows "\<exists>s'. replay eid s = Inr (\<exists>r\<in>set (outbox_events s). ob_id r = eid \<and> parked r, s') \<and>
    outbox_events s' = map (\<lambda>r. if ob_id r = eid \<and> parked r then replayed r else r) (outbox_events s) \<and>
    (\<forall>r. parked r \<longrightarrow> (\<forall>now. claimable now (replayed r)) \<and> ob_attempts (replayed r) = 0 \<and>
      ob_last_error (replayed r) = ob_last_error r)"
  using replay_eq [of eid s] by (simp add: update_where_def replayed_def claimable_def due_def)

section \<open>Retention\<close>

text \<open>
  Retention of the outbox always ends, whatever batch size it is asked for, reports exactly the
  number of events that were processed before the cutoff, and removes exactly those: pending,
  failed, parked and in-flight events and younger ones stay, untouched and in order.
\<close>

theorem outbox_retention:
  assumes "distinct (map ob_id (outbox_events s))"
  shows "purgeProcessedBefore cutoff batchSize s =
    Some (count_where (event_purgeable cutoff) (outbox_events s),
      s\<lparr>outbox_events := delete_where (event_purgeable cutoff) (outbox_events s)\<rparr>)"
proof -
  have "0 < at_least_one x" for x by (simp add: at_least_one_def)
  from outbox_purge.loop_cleans [OF this, where t = "outbox_events s" and removed = 0] assms
  show ?thesis by (simp add: purgeProcessedBefore_def store_purgeProcessedBefore_def)
qed

text \<open>
  The same of the idempotency table: with a positive batch size the sweep ends, counts what it
  removed and removes exactly the completed records older than the cutoff; a claim in progress
  is never removed, however old.
\<close>

theorem idempotency_retention:
  assumes "distinct (map row_key (idempotency_records s))" and "0 < batchSize"
  shows "Idempotency.purgeCompletedBefore cutoff batchSize s =
    Some (count_where (purgeable cutoff) (idempotency_records s),
      s\<lparr>idempotency_records := delete_where (purgeable cutoff) (idempotency_records s)\<rparr>)"
  using idempotency_purge.loop_cleans [OF assms(2), where t = "idempotency_records s" and removed = 0]
    assms(1)
  by (simp add: purgeCompletedBefore_def)

section \<open>The invariant of the table\<close>

lemma outbox_insert_InrD:
  "outbox_insert now eid e s = Inr (u, s') \<Longrightarrow>
    eid \<notin> ob_id ` set (outbox_events s) \<and>
    s' = s\<lparr>outbox_events := outbox_events s @ [new_event_row now eid e]\<rparr>"
  by (auto simp: outbox_insert_def Let_def tx_simps)

lemma outbox_insert_keeps: "tx_keeps outbox_inv (outbox_insert now eid e)"
  unfolding tx_keeps_def
  by (auto dest!: outbox_insert_InrD simp: outbox_inv_def outbox_row_ok_def new_event_row_def)

lemma claim_work_keeps: "tx_keeps outbox_inv (claim_work now l locked n)"
  unfolding tx_keeps_def claim_work_eq Let_def
proof (intro allI impI)
  fix s batch s'
  assume inv: "outbox_inv s" and "Inr (map toOutboxRecord (select_where
      (\<lambda>r. ob_id r \<in> claimed_ids now locked n (outbox_events s))
      (update_where (\<lambda>r. ob_id r \<in> claimed_ids now locked n (outbox_events s)) (leased now l) (outbox_events s))),
      s\<lparr>outbox_events := update_where (\<lambda>r. ob_id r \<in> claimed_ids now locked n (outbox_events s))
        (leased now l) (outbox_events s)\<rparr>) = Inr (batch, s')"
  then have s': "s' = s\<lparr>outbox_events := update_where
      (\<lambda>r. ob_id r \<in> claimed_ids now locked n (outbox_events s)) (leased now l) (outbox_events s)\<rparr>"
    by simp
  show "outbox_inv s'"
    unfolding s'
  proof (rule outbox_inv_update [OF inv])
    fix r assume "r \<in> set (outbox_events s)" "ob_id r \<in> claimed_ids now locked n (outbox_events s)"
      "outbox_row_ok r"
    moreover have "claimable now r"
      using claimed_rows(1) [OF _ calculation(1,2)] inv by (simp add: outbox_inv_def)
    ultimately show "outbox_row_ok (leased now l r)"
      by (auto simp: outbox_row_ok_def claimable_def)
  qed simp
qed

lemma markProcessed_keeps: "tx_keeps outbox_inv (markProcessed now eid)"
  unfolding markProcessed_def
  by (rule tx_keeps_modify, rule outbox_inv_update) (auto simp: outbox_row_ok_def in_processing_def)

lemma markFailed_keeps: "tx_keeps outbox_inv (markFailed eid msg a)"
  unfolding markFailed_def
  by (rule tx_keeps_modify, rule outbox_inv_update) (auto simp: outbox_row_ok_def in_processing_def)

lemma replay_where_keeps:
  "(\<And>r. p r \<Longrightarrow> parked r) \<Longrightarrow> tx_keeps outbox_inv (replay_where p)"
  unfolding replay_where_def tx_keeps_def
  by (auto simp: tx_simps intro!: outbox_inv_update)
    (auto simp: outbox_row_ok_def replayed_def parked_def)

end
