(* ===== verification/Idempotency_Claims.thy ===== *)
theory Idempotency_Claims
  imports Idempotency
begin

text \<open>
  What a claim decides, what its statements leave of the record they name, and the invariant of
  the table: one record per key, and a completed record always carries its response.
\<close>

section \<open>The record of a key\<close>

definition claim_of :: "claim_key \<Rightarrow> db \<Rightarrow> idempotency_row option" where
  "claim_of k s = select_first (\<lambda>r. row_key r = k) (idempotency_records s)"

definition idem_row_ok :: "db \<Rightarrow> idempotency_row \<Rightarrow> bool" where
  "idem_row_ok s r \<longleftrightarrow>
    key_ok (ir_key r) \<and> operation_ok (ir_operation r) \<and> ir_principal_id r \<in> pr_id ` set (principals s) \<and>
    (ir_status r = Completed \<longleftrightarrow> ir_completed_at r \<noteq> None) \<and>
    (ir_status r = Completed \<longleftrightarrow> ir_response_status_code r \<noteq> None)"

definition idem_inv :: "db \<Rightarrow> bool" where
  "idem_inv s \<longleftrightarrow> distinct (map row_key (idempotency_records s)) \<and>
    (\<forall>r\<in>set (idempotency_records s). idem_row_ok s r)"

lemma unfinished_iff:
  "unfinished key operation pid r \<longleftrightarrow> row_key r = (pid, key, operation) \<and> ir_status r = In_progress"
  by (auto simp: unfinished_def row_key_def)

lemma reclaimable_iff:
  "reclaimable p threshold r \<longleftrightarrow> row_key r = params_key p \<and> ir_status r = In_progress \<and>
    ir_request_fingerprint r = cp_fingerprint p \<and> ir_created_at r < 1000 * threshold"
  by (auto simp: reclaimable_def row_key_def params_key_def)

lemma findRecord_claim_of:
  "findRecord key operation pid s = map_option toRecord (claim_of (pid, key, operation) s)"
proof -
  have "(\<lambda>r. ir_key r = key \<and> ir_operation r = operation \<and> ir_principal_id r = pid) =
      (\<lambda>r. row_key r = (pid, key, operation))"
    by (auto simp: row_key_def)
  then show ?thesis by (simp add: findRecord_def claim_of_def)
qed

lemma row_key_fresh [simp]: "row_key (fresh_claim now p) = params_key p"
  by (simp add: row_key_def fresh_claim_def params_key_def)

lemma row_key_completed_with [simp]: "row_key (completed_with now b st r) = row_key r"
  by (simp add: completed_with_def row_key_def)

lemma row_key_renew [simp]:
  "row_key (r\<lparr>ir_created_at := now, ir_completed_at := None\<rparr>) = row_key r"
  by (simp add: row_key_def)

lemma claim_of_append:
  "select_first (\<lambda>r. row_key r = k) (t @ [r]) =
    (case select_first (\<lambda>r. row_key r = k) t of
       Some x \<Rightarrow> Some x | None \<Rightarrow> if row_key r = k then Some r else None)"
  unfolding select_first_def by (induction t) auto

lemma select_first_update:
  "(\<And>r. row_key (f r) = row_key r) \<Longrightarrow>
    select_first (\<lambda>r. row_key r = k) (update_where p f t) =
      map_option (\<lambda>r. if p r then f r else r) (select_first (\<lambda>r. row_key r = k) t)"
  unfolding select_first_def update_where_def by (induction t) auto

lemma select_first_delete:
  "distinct (map row_key t) \<Longrightarrow>
    select_first (\<lambda>r. row_key r = k) (delete_where p t) =
      (case select_first (\<lambda>r. row_key r = k) t of
         None \<Rightarrow> None | Some r \<Rightarrow> if p r then None else Some r)"
  unfolding select_first_def delete_where_def
proof (induction t)
  case (Cons r t)
  show ?case
  proof (cases "row_key r = k \<and> p r")
    case True
    with Cons.prems have "find (\<lambda>r. row_key r = k) t = None"
      by (auto simp: find_key_None)
    with True Cons show ?thesis by simp
  next
    case False
    with Cons show ?thesis by auto
  qed
qed simp

lemma claim_of_Some_iff:
  "distinct (map row_key (idempotency_records s)) \<Longrightarrow>
    claim_of k s = Some r \<longleftrightarrow> r \<in> set (idempotency_records s) \<and> row_key r = k"
  by (simp add: claim_of_def select_first_Some_iff)

lemma claim_of_SomeD: "claim_of k s = Some r \<Longrightarrow> r \<in> set (idempotency_records s) \<and> row_key r = k"
  by (auto simp: claim_of_def dest: select_first_SomeD)

lemma claim_of_None_iff: "claim_of k s = None \<longleftrightarrow> k \<notin> row_key ` set (idempotency_records s)"
  by (simp add: claim_of_def select_first_None_iff)

section \<open>What each statement leaves\<close>

lemma insert_claim_InrD:
  assumes "insert_claim now p s = Inr (res, s')"
  shows "key_ok (cp_key p) \<and> operation_ok (cp_operation p) \<and>
    (case res of
       None \<Rightarrow> s' = s \<and> claim_of (params_key p) s \<noteq> None
     | Some r \<Rightarrow> r = fresh_claim now p \<and> claim_of (params_key p) s = None \<and>
         cp_principalId p \<in> pr_id ` set (principals s) \<and>
         s' = s\<lparr>idempotency_records := idempotency_records s @ [r]\<rparr>)"
proof (cases "params_key p \<in> row_key ` set (idempotency_records s)")
  case True
  with assms have "insert_unique row_key (fresh_claim now p) (idempotency_records s) = None"
    by (simp add: insert_unique_None)
  with assms True show ?thesis
    by (auto simp: insert_claim_def tx_simps claim_of_None_iff)
next
  case False
  then have "insert_unique row_key (fresh_claim now p) (idempotency_records s) =
      Some (idempotency_records s @ [fresh_claim now p])"
    by (simp add: insert_unique_Some)
  with assms False show ?thesis
    by (auto simp: insert_claim_def tx_simps claim_of_None_iff)
qed

lemma insert_claim_taken:
  "key_ok (cp_key p) \<Longrightarrow> operation_ok (cp_operation p) \<Longrightarrow> claim_of (params_key p) s = Some r \<Longrightarrow>
    insert_claim now p s = Inr (None, s)"
  using claim_of_None_iff [of "params_key p" s]
  by (auto simp: insert_claim_def tx_eval insert_unique_def)

lemma insert_claim_free:
  "key_ok (cp_key p) \<Longrightarrow> operation_ok (cp_operation p) \<Longrightarrow> claim_of (params_key p) s = None \<Longrightarrow>
    cp_principalId p \<in> pr_id ` set (principals s) \<Longrightarrow>
    insert_claim now p s = Inr (Some (fresh_claim now p),
      s\<lparr>idempotency_records := idempotency_records s @ [fresh_claim now p]\<rparr>)"
  using claim_of_None_iff [of "params_key p" s]
  by (simp add: insert_claim_def tx_eval insert_unique_def)

lemma reclaim_eq:
  "reclaim now p th s =
    Inr (map_option (\<lambda>r. r\<lparr>ir_created_at := now, ir_completed_at := None\<rparr>)
           (select_first (reclaimable p th) (idempotency_records s)),
         s\<lparr>idempotency_records := update_where (reclaimable p th)
           (\<lambda>r. r\<lparr>ir_created_at := now, ir_completed_at := None\<rparr>) (idempotency_records s)\<rparr>)"
  by (simp add: reclaim_def tx_eval Let_def)

lemma select_first_reclaimable:
  assumes "distinct (map row_key (idempotency_records s))"
  shows "select_first (reclaimable p th) (idempotency_records s) =
    (case claim_of (params_key p) s of
       None \<Rightarrow> None | Some r \<Rightarrow> if reclaimable p th r then Some r else None)"
proof (cases "select_first (reclaimable p th) (idempotency_records s)")
  case None
  then show ?thesis
    by (auto dest!: select_first_NoneD claim_of_SomeD split: option.splits)
next
  case (Some r)
  then have r: "r \<in> set (idempotency_records s)" "reclaimable p th r"
    by (auto dest: select_first_SomeD)
  then have "claim_of (params_key p) s = Some r"
    using assms by (simp add: claim_of_Some_iff reclaimable_iff)
  with Some r show ?thesis by simp
qed

lemma claim_of_reclaim:
  "reclaim now p th s = Inr (res, s') \<Longrightarrow>
    claim_of k s' = map_option (\<lambda>r. if reclaimable p th r
      then r\<lparr>ir_created_at := now, ir_completed_at := None\<rparr> else r) (claim_of k s)"
  by (auto simp: reclaim_eq claim_of_def select_first_update)

lemma complete_eq:
  "complete now key operation pid b st s =
    Inr (count_where (unfinished key operation pid) (idempotency_records s),
         s\<lparr>idempotency_records := update_where (unfinished key operation pid)
           (completed_with now b st) (idempotency_records s)\<rparr>)"
  by (simp add: complete_def tx_eval)

lemma claim_of_complete:
  "complete now key operation pid b st s = Inr (n, s') \<Longrightarrow>
    claim_of k s' = map_option (\<lambda>r. if unfinished key operation pid r
      then completed_with now b st r else r) (claim_of k s)"
  by (auto simp: complete_eq claim_of_def select_first_update)

text \<open>A completion counts one row exactly when the key's claim was unfinished.\<close>

lemma complete_count:
  assumes "distinct (map row_key (idempotency_records s))"
    and "complete now key operation pid b st s = Inr (n, s')"
  shows "n \<le> 1" and "n = 1 \<longleftrightarrow>
    (\<exists>r. claim_of (pid, key, operation) s = Some r \<and> ir_status r = In_progress)"
proof -
  have n: "n = count_where (unfinished key operation pid) (idempotency_records s)"
    using assms(2) by (simp add: complete_eq)
  show le: "n \<le> 1"
    unfolding n by (rule count_where_key_le_1 [OF assms(1)]) (simp add: unfinished_iff)
  have "n = 0 \<longleftrightarrow> \<not> (\<exists>r. claim_of (pid, key, operation) s = Some r \<and> ir_status r = In_progress)"
    unfolding n count_where_0 claim_of_Some_iff [OF assms(1)] by (auto simp: unfinished_iff)
  with le show "n = 1 \<longleftrightarrow> (\<exists>r. claim_of (pid, key, operation) s = Some r \<and> ir_status r = In_progress)"
    by (cases n) auto
qed

lemma claim_of_release:
  "distinct (map row_key (idempotency_records s)) \<Longrightarrow> release key operation pid s = Inr (u, s') \<Longrightarrow>
    claim_of k s' = (case claim_of k s of None \<Rightarrow> None
      | Some r \<Rightarrow> if unfinished key operation pid r then None else Some r)"
  by (auto simp: release_def tx_modify_apply claim_of_def select_first_delete)

section \<open>The invariant of the table\<close>

lemma idem_inv_cong:
  "idempotency_records s' = idempotency_records s \<Longrightarrow>
    pr_id ` set (principals s) \<subseteq> pr_id ` set (principals s') \<Longrightarrow> idem_inv s \<Longrightarrow> idem_inv s'"
  by (auto simp: idem_inv_def idem_row_ok_def)

lemma idem_row_ok_records [simp]:
  "idem_row_ok (s\<lparr>idempotency_records := t\<rparr>) r = idem_row_ok s r"
  by (simp add: idem_row_ok_def)

lemma idem_inv_update:
  assumes "idem_inv s" and "\<And>r. row_key (f r) = row_key r"
    and "\<And>r. p r \<Longrightarrow> idem_row_ok s r \<Longrightarrow> idem_row_ok s (f r)"
  shows "idem_inv (s\<lparr>idempotency_records := update_where p f (idempotency_records s)\<rparr>)"
  using assms by (auto simp: idem_inv_def map_key_update_where set_update_where)

lemma insert_claim_keeps: "tx_keeps idem_inv (insert_claim now p)"
  unfolding tx_keeps_def
proof (intro allI impI)
  fix s res s'
  assume inv: "idem_inv s" and ins: "insert_claim now p s = Inr (res, s')"
  note d = insert_claim_InrD [OF ins]
  show "idem_inv s'"
  proof (cases res)
    case None
    with d inv show ?thesis by simp
  next
    case (Some r)
    with d have "idem_row_ok s r" by (simp add: idem_row_ok_def fresh_claim_def)
    with d Some inv show ?thesis
      by (auto simp: idem_inv_def claim_of_None_iff)
  qed
qed

lemma reclaim_keeps: "tx_keeps idem_inv (reclaim now p th)"
  unfolding tx_keeps_def reclaim_eq
  by (auto intro!: idem_inv_update simp: idem_row_ok_def reclaimable_def)

lemma complete_keeps: "tx_keeps idem_inv (complete now key operation pid b st)"
  unfolding tx_keeps_def complete_eq
  by (auto intro!: idem_inv_update simp: idem_row_ok_def) (simp_all add: completed_with_def)

lemma release_keeps: "tx_keeps idem_inv (release key operation pid)"
  unfolding release_def
  by (rule tx_keeps_modify) (auto simp: idem_inv_def set_delete_where distinct_delete_where)

lemma settleFailure_keeps: "tx_keeps idem_inv (settleFailure now key operation pid failure)"
  unfolding settleFailure_def
  by (auto split: option.split prod.split intro!: keeps_intros complete_keeps release_keeps)

section \<open>What a claim decides\<close>

text \<open>An attempt no other client interferes with.\<close>

definition quiet_env :: "instant \<Rightarrow> int \<Rightarrow> instant \<Rightarrow> claim_env" where
  "quiet_env ins app upd =
    \<lparr>ce_insert_now = ins, ce_app_now = app, ce_update_now = upd, ce_before_find = (\<lambda>s. s),
     ce_before_reclaim = (\<lambda>s. s), ce_before_reread = (\<lambda>s. s)\<rparr>"

definition renewed :: "instant \<Rightarrow> idempotency_row \<Rightarrow> idempotency_row" where
  "renewed now r = r\<lparr>ir_created_at := now, ir_completed_at := None\<rparr>"

definition proceed_with :: "idempotency_row \<Rightarrow> ClaimResult" where
  "proceed_with r = \<lparr>cr_action = Proceed, cr_record = Some (toRecord r), cr_response = None\<rparr>"

definition replay_of :: "idempotency_row \<Rightarrow> ClaimResult" where
  "replay_of r = \<lparr>cr_action = Replay, cr_record = Some (toRecord r),
     cr_response = Some (toResponse (toRecord r))\<rparr>"

lemma toRecord_simps [simp]:
  "rec_requestFingerprint (toRecord r) = ir_request_fingerprint r"
  "rec_status (toRecord r) = ir_status r"
  "rec_createdAt (toRecord r) = ms_of (ir_created_at r)"
  by (simp_all add: toRecord_def)

lemma findRecord_params:
  "findRecord (cp_key p) (cp_operation p) (cp_principalId p) s =
    map_option toRecord (claim_of (params_key p) s)"
  by (simp add: findRecord_claim_of params_key_def)

lemma claim_completed:
  assumes "key_ok (cp_key p)" and "operation_ok (cp_operation p)"
    and "claim_of (params_key p) s = Some r"
    and "ir_request_fingerprint r = cp_fingerprint p" and "ir_status r = Completed"
  shows "claim (\<lambda>_. quiet_env ins app upd) p s = (Inr (replay_of r), s)"
  using insert_claim_taken [OF assms(1,2,3), of ins] assms
  by (simp add: claim_def maxClaimAttempts_def numeral_3_eq_3 tryClaim_def quiet_env_def io_eval
      findRecord_params replay_of_def)

text \<open>
  C17.  What a claim decides when nobody interferes, on every branch: a free key is taken; a key
  used with another request body is a conflict, completed or not; a completed key replays its
  stored response; an unfinished claim past the stale window is taken over and its age reset;
  a younger one is reported in progress.  Nothing but the record of the key ever changes.
\<close>

theorem claim_decision:
  assumes "distinct (map row_key (idempotency_records s))"
    and "key_ok (cp_key p)" and "operation_ok (cp_operation p)"
  shows "claim (\<lambda>_. quiet_env ins app upd) p s =
    (case claim_of (params_key p) s of
       None \<Rightarrow>
         if cp_principalId p \<in> pr_id ` set (principals s) then
           (Inr (proceed_with (fresh_claim ins p)),
            s\<lparr>idempotency_records := idempotency_records s @ [fresh_claim ins p]\<rparr>)
         else (Inl (foreign_key_violation ''idempotency_records_principal_id_fkey''), s)
     | Some r \<Rightarrow>
         if ir_request_fingerprint r \<noteq> cp_fingerprint p then (Inl idempotency_conflict, s)
         else if ir_status r = Completed then (Inr (replay_of r), s)
         else if ir_created_at r < 1000 * (app - cp_staleTimeoutMs p) then
           (Inr (proceed_with (renewed upd r)),
            s\<lparr>idempotency_records :=
              update_where (\<lambda>x. row_key x = row_key r) (renewed upd) (idempotency_records s)\<rparr>)
         else (Inl idempotency_in_progress, s))"
proof (cases "claim_of (params_key p) s")
  case None
  show ?thesis
  proof (cases "cp_principalId p \<in> pr_id ` set (principals s)")
    case True
    note insert_claim_free [OF assms(2,3) None True, of ins]
    with None True show ?thesis
      by (simp add: claim_def maxClaimAttempts_def numeral_3_eq_3 tryClaim_def quiet_env_def io_eval
          proceed_with_def)
  next
    case False
    then have "insert_claim ins p s =
        Inl (foreign_key_violation ''idempotency_records_principal_id_fkey'')"
      using assms(2,3) None claim_of_None_iff [of "params_key p" s]
      by (simp add: insert_claim_def tx_eval insert_unique_def)
    with None False show ?thesis
      by (simp add: claim_def maxClaimAttempts_def numeral_3_eq_3 tryClaim_def quiet_env_def io_eval)
  qed
next
  case (Some r)
  note ins = insert_claim_taken [OF assms(2,3) Some, of ins]
  have key: "row_key r = params_key p" using claim_of_SomeD [OF Some] by simp
  show ?thesis
  proof (cases "reclaimable p (app - cp_staleTimeoutMs p) r")
    case True
    have same: "update_where (reclaimable p (app - cp_staleTimeoutMs p)) (renewed upd)
        (idempotency_records s) =
      update_where (\<lambda>x. row_key x = row_key r) (renewed upd) (idempotency_records s)"
      unfolding update_where_def
    proof (rule map_cong [OF refl])
      fix x assume x: "x \<in> set (idempotency_records s)"
      have "reclaimable p (app - cp_staleTimeoutMs p) x \<longleftrightarrow> row_key x = row_key r"
        using x True claim_of_SomeD [OF Some] key distinct_map_eqD [OF assms(1) x, of r]
        by (metis reclaimable_iff)
      then show "(if reclaimable p (app - cp_staleTimeoutMs p) x then renewed upd x else x) =
          (if row_key x = row_key r then renewed upd x else x)" by simp
    qed
    with Some True ins key show ?thesis
      by (simp add: claim_def maxClaimAttempts_def numeral_3_eq_3 tryClaim_def quiet_env_def io_eval
          findRecord_params Let_def reclaim_eq select_first_reclaimable [OF assms(1)] proceed_with_def
          reclaimable_iff ms_of_less_iff renewed_def [abs_def])
  next
    case False
    have progress: "ir_status r = In_progress" if "ir_status r \<noteq> Completed"
      using that by (cases "ir_status r") auto
    show ?thesis
      using Some False ins key progress
      by (auto simp: claim_def maxClaimAttempts_def numeral_3_eq_3 tryClaim_def quiet_env_def io_eval
          findRecord_params Let_def reclaimable_iff ms_of_less_iff replay_of_def)
  qed
qed

section \<open>Claims under interference\<close>

definition env_keeps :: "(db \<Rightarrow> bool) \<Rightarrow> claim_env \<Rightarrow> bool" where
  "env_keeps P env \<longleftrightarrow> (\<forall>s. P s \<longrightarrow> P (ce_before_find env s) \<and> P (ce_before_reclaim env s) \<and>
    P (ce_before_reread env s))"

text \<open>What a claim's answer says of the record that is in the table when it is given.\<close>

definition claim_answered :: "claim_params \<Rightarrow> ClaimResult \<Rightarrow> db \<Rightarrow> bool" where
  "claim_answered p r s \<longleftrightarrow>
    (\<exists>row. claim_of (params_key p) s = Some row \<and>
      (case cr_action r of
         Proceed \<Rightarrow> r = proceed_with row \<and> ir_status row = In_progress \<and>
           ir_request_fingerprint row = cp_fingerprint p
       | Replay \<Rightarrow> r = replay_of row \<and> ir_status row = Completed \<and>
           ir_response_status_code row \<noteq> None))"

lemma completed_status:
  "idem_inv s \<Longrightarrow> claim_of k s = Some row \<Longrightarrow> ir_status row = Completed \<Longrightarrow>
    ir_response_status_code row \<noteq> None"
  by (auto simp: idem_inv_def idem_row_ok_def dest: claim_of_SomeD)

lemma claim_answered_replay:
  "idem_inv s \<Longrightarrow> claim_of (params_key p) s = Some row \<Longrightarrow> ir_status row = Completed \<Longrightarrow>
    claim_answered p \<lparr>cr_action = Replay, cr_record = Some (toRecord row),
      cr_response = Some (toResponse (toRecord row))\<rparr> s"
  using completed_status by (auto simp: claim_answered_def replay_of_def)

lemma claim_answered_fresh:
  assumes "insert_claim now p s = Inr (Some row, s')"
  shows "claim_answered p \<lparr>cr_action = Proceed, cr_record = Some (toRecord row), cr_response = None\<rparr> s'"
proof -
  note d = insert_claim_InrD [OF assms]
  then have "claim_of (params_key p) s' = Some (fresh_claim now p)"
    by (simp add: claim_of_def claim_of_append)
  with d show ?thesis by (simp add: claim_answered_def proceed_with_def) (simp add: fresh_claim_def)
qed

lemma claim_answered_reclaimed:
  assumes "idem_inv s" and "reclaim now p th s = Inr (Some row, s')"
  shows "claim_answered p \<lparr>cr_action = Proceed, cr_record = Some (toRecord row), cr_response = None\<rparr> s'"
proof -
  have d: "distinct (map row_key (idempotency_records s))" using assms(1) by (simp add: idem_inv_def)
  obtain r where r: "claim_of (params_key p) s = Some r" "reclaimable p th r"
    and row: "row = r\<lparr>ir_created_at := now, ir_completed_at := None\<rparr>"
    using assms(2) by (auto simp: reclaim_eq select_first_reclaimable [OF d] split: option.splits if_splits)
  have "claim_of (params_key p) s' = Some row"
    using claim_of_reclaim [OF assms(2)] r row by simp
  then show ?thesis
    using r by (simp add: claim_answered_def proceed_with_def row reclaimable_def)
qed

definition claim_error :: "js_error \<Rightarrow> bool" where
  "claim_error e \<longleftrightarrow> e \<in> {idempotency_conflict, idempotency_in_progress,
     check_violation ''idempotency_records_key_check'',
     check_violation ''idempotency_records_operation_check'',
     foreign_key_violation ''idempotency_records_principal_id_fkey''}"

lemma insert_claim_InlD: "insert_claim now p s = Inl e \<Longrightarrow> claim_error e"
  by (auto simp: insert_claim_def tx_simps claim_error_def split: option.splits)

lemma claim_of_reread:
  "findRecord (cp_key p) (cp_operation p) (cp_principalId p) s = Some e \<Longrightarrow>
    \<exists>row. claim_of (params_key p) s = Some row \<and> e = toRecord row"
  by (auto simp: findRecord_params)

lemma tryClaim_outcome:
  assumes inv: "idem_inv s" and env: "env_keeps idem_inv env" and run: "tryClaim env p s = (r, s')"
  shows "idem_inv s' \<and>
    (case r of Inl e \<Rightarrow> claim_error e | Inr None \<Rightarrow> True | Inr (Some c) \<Rightarrow> claim_answered p c s')"
proof (cases "insert_claim (ce_insert_now env) p s")
  case (Inl e)
  with run inv insert_claim_InlD [OF Inl] show ?thesis by (auto simp: tryClaim_def io_eval)
next
  case (Inr x)
  then obtain res s1 where ins: "insert_claim (ce_insert_now env) p s = Inr (res, s1)" by (cases x) auto
  have inv1: "idem_inv s1" using tx_keepsD [OF insert_claim_keeps inv ins] .
  show ?thesis
  proof (cases res)
    case (Some row)
    with run ins inv1 claim_answered_fresh [of "ce_insert_now env" p s row s1] show ?thesis
      by (auto simp: tryClaim_def io_eval)
  next
    case None
    define s2 where "s2 = ce_before_find env s1"
    have inv2: "idem_inv s2" using env inv1 by (simp add: env_keeps_def s2_def)
    define s3 where "s3 = ce_before_reclaim env s2"
    have inv3: "idem_inv s3" using env inv2 by (simp add: env_keeps_def s3_def)
    obtain res4 s4 where rec: "reclaim (ce_update_now env) p (ce_app_now env - cp_staleTimeoutMs p) s3
        = Inr (res4, s4)"
      by (simp add: reclaim_eq)
    have inv4: "idem_inv s4" using tx_keepsD [OF reclaim_keeps inv3 rec] .
    define s5 where "s5 = ce_before_reread env s4"
    have inv5: "idem_inv s5" using env inv4 by (simp add: env_keeps_def s5_def)
    show ?thesis
    proof (cases "claim_of (params_key p) s2")
      case none: None
      with run ins None inv2 show ?thesis
        by (auto simp: tryClaim_def io_eval findRecord_params s2_def)
    next
      case some: (Some row)
      consider "ir_request_fingerprint row \<noteq> cp_fingerprint p \<or> ir_status row = Completed \<or>
            \<not> ms_of (ir_created_at row) < ce_app_now env - cp_staleTimeoutMs p"
        | "ir_request_fingerprint row = cp_fingerprint p" "ir_status row \<noteq> Completed"
          "ms_of (ir_created_at row) < ce_app_now env - cp_staleTimeoutMs p"
        by blast
      then show ?thesis
      proof cases
        case 1
        with run ins None some inv2 claim_answered_replay [OF inv2 some] show ?thesis
          by (auto simp: tryClaim_def io_eval findRecord_params s2_def Let_def claim_error_def
              split: if_splits)
      next
        case 2
        note path = run ins None some 2 s2_def [symmetric] s3_def [symmetric] rec s5_def [symmetric]
        show ?thesis
        proof (cases res4)
          case (Some row4)
          with path inv4 claim_answered_reclaimed [OF inv3, of "ce_update_now env" p _ row4 s4] show ?thesis
            by (auto simp: tryClaim_def io_eval findRecord_params Let_def)
        next
          case none: None
          with path inv5 claim_answered_replay [OF inv5] show ?thesis
            by (auto simp: tryClaim_def io_eval findRecord_params Let_def claim_error_def
                split: option.splits if_splits)
        qed
      qed
    qed
  qed
qed

lemma claim_attempts_outcome:
  assumes "\<And>i. env_keeps idem_inv (envs i)"
  shows "idem_inv s \<Longrightarrow> claim_attempts envs p attempt left s = (r, s') \<Longrightarrow>
    idem_inv s' \<and> (case r of Inl e \<Rightarrow> claim_error e | Inr c \<Rightarrow> claim_answered p c s')"
proof (induction left arbitrary: attempt s)
  case 0
  then show ?case by (auto simp: io_eval claim_error_def)
next
  case (Suc left)
  obtain r1 s1 where one: "tryClaim (envs attempt) p s = (r1, s1)" by (cases "tryClaim (envs attempt) p s")
  note out = tryClaim_outcome [OF Suc.prems(1) assms one]
  show ?case
  proof (cases r1)
    case (Inl e)
    with out one Suc.prems(2) show ?thesis by (auto simp: io_eval)
  next
    case (Inr c)
    show ?thesis
    proof (cases c)
      case None
      with out one Suc.prems(2) Inr Suc.IH [of s1 "attempt + 1"] show ?thesis by (simp add: io_eval)
    next
      case (Some c')
      with out one Suc.prems(2) Inr show ?thesis by (auto simp: io_eval)
    qed
  qed
qed

text \<open>
  C18.  Claims under interference.  Whatever other clients do to the table between the
  statements of a claim, short of breaking its invariant, after at most three attempts the
  claim returns or throws one of its documented errors.  When it proceeds, the key's record is
  an unfinished claim with this request's fingerprint; when it replays, the answer is the
  stored response of a completed record, and its status is never missing.
\<close>

theorem claim_outcome:
  assumes "idem_inv s" and "\<forall>i. env_keeps idem_inv (envs i)"
  shows "idem_inv (snd (claim envs p s)) \<and>
    (case fst (claim envs p s) of
       Inl e \<Rightarrow> claim_error e
     | Inr c \<Rightarrow> claim_answered p c (snd (claim envs p s)))"
  using claim_attempts_outcome [of envs s p 1 maxClaimAttempts "fst (claim envs p s)" "snd (claim envs p s)"]
    assms by (simp add: claim_def)

text \<open>
  A stale claim is taken over once: after a reclaim has moved the record, a second reclaim
  whose threshold is not in the future of the first one's clock finds nothing to move, whoever
  makes it and whatever its own clock says.
\<close>

theorem reclaim_exclusive:
  assumes "distinct (map row_key (idempotency_records s))"
    and "reclaim now1 p1 th1 s = Inr (Some row, s1)"
    and "params_key p2 = params_key p1" and "1000 * th2 \<le> now1"
  shows "reclaim now2 p2 th2 s1 = Inr (None, s1)"
proof -
  obtain r where r: "claim_of (params_key p1) s = Some r" "reclaimable p1 th1 r"
    using assms(2) by (auto simp: reclaim_eq select_first_reclaimable [OF assms(1)] split: option.splits if_splits)
  have d1: "distinct (map row_key (idempotency_records s1))"
    using assms(1,2) by (auto simp: reclaim_eq map_key_update_where)
  have at1: "claim_of (params_key p2) s1 = Some (r\<lparr>ir_created_at := now1, ir_completed_at := None\<rparr>)"
    using claim_of_reclaim [OF assms(2)] r assms(3) by simp
  have none: "select_first (reclaimable p2 th2) (idempotency_records s1) = None"
    unfolding select_first_reclaimable [OF d1] at1 using assms(4) by (simp add: reclaimable_def)
  then have "update_where (reclaimable p2 th2) f (idempotency_records s1) = idempotency_records s1" for f
    by (intro update_where_none select_first_NoneD)
  with none show ?thesis by (simp add: reclaim_eq)
qed

end
