(* ===== verification/Transfer_Safety.thy ===== *)
theory Transfer_Safety
  imports Transfers Outbox_Delivery Idempotency_Claims
begin

text \<open>
  What one committed transfer or funding changes, exactly, and what every attempt keeps.
\<close>

section \<open>A posting between two accounts\<close>

definition pair_moved ::
    "instant \<Rightarrow> uuid \<Rightarrow> int \<Rightarrow> uuid \<Rightarrow> int \<Rightarrow> account_row list \<Rightarrow> account_row list" where
  "pair_moved now a dx b dy t =
    map (\<lambda>x. if acc_id x = a
             then x\<lparr>acc_balance_minor := acc_balance_minor x + dx, acc_updated_at := now\<rparr>
             else if acc_id x = b
             then x\<lparr>acc_balance_minor := acc_balance_minor x + dy, acc_updated_at := now\<rparr>
             else x) t"

lemma pair_moved_identities:
  "(\<lambda>x. (acc_id x, acc_currency x)) ` set (pair_moved now a dx b dy t) =
    (\<lambda>x. (acc_id x, acc_currency x)) ` set t"
proof -
  have "map (\<lambda>x. (acc_id x, acc_currency x)) (pair_moved now a dx b dy t) =
      map (\<lambda>x. (acc_id x, acc_currency x)) t"
    unfolding pair_moved_def by (induction t) auto
  then show ?thesis by (metis set_map)
qed

lemma posting_pair:
  assumes post: "post_ledger_transaction now tid ty ref eids [a, b] [d1, d2] [m1, m2] s = Inr (row, s')"
    and "a \<noteq> b"
  obtains e1 e2 where "eids = [e1, e2]"
    "lt_id row = tid" "lt_type row = ty" "lt_reference row = ref" "lt_finalized row"
    "lt_created_at row = now"
    "s' = s\<lparr>ledger_transactions := ledger_transactions s @ [row],
            journal_entries := journal_entries s @
              [entry_row now tid (lt_currency row) (e1, a, d1, m1),
               entry_row now tid (lt_currency row) (e2, b, d2, m2)],
            accounts := pair_moved now a (signed_amount d1 m1) b (signed_amount d2 m2) (accounts s)\<rparr>"
    "tid \<notin> lt_id ` set (ledger_transactions s)"
    "(a, lt_currency row) \<in> (\<lambda>x. (acc_id x, acc_currency x)) ` set (accounts s)"
    "(b, lt_currency row) \<in> (\<lambda>x. (acc_id x, acc_currency x)) ` set (accounts s)"
proof -
  obtain rows where rows: "rows = map (entry_row now tid (lt_currency row))
      (zip eids (zip [a, b] (zip [d1, d2] [m1, m2])))"
    and row: "lt_id row = tid" "lt_type row = ty" "lt_reference row = ref" "lt_finalized row"
      "lt_created_at row = now"
    and s': "s' = posted_state now row rows (zip [a, b] (zip [d1, d2] [m1, m2])) s"
    and len: "length [a, b] = length eids"
    and fresh: "tid \<notin> lt_id ` set (ledger_transactions s)"
    and ground: "\<forall>r\<in>set rows. entry_grounded (s\<lparr>ledger_transactions := ledger_transactions s @ [row]\<rparr>) r"
    by (rule post_ledger_transaction_InrD [OF post]) blast
  obtain e1 e2 where eids: "eids = [e1, e2]"
    using len by (cases eids; cases "tl eids") auto
  have acc: "update_where (\<lambda>x. acc_id x \<in> fst ` set [(a, d1, m1), (b, d2, m2)])
      (post_delta now [(a, d1, m1), (b, d2, m2)]) (accounts s) =
    pair_moved now a (signed_amount d1 m1) b (signed_amount d2 m2) (accounts s)"
    unfolding update_where_def pair_moved_def using \<open>a \<noteq> b\<close>
    by (intro map_cong refl) (auto simp: post_delta_def entry_delta_def)
  show ?thesis
  proof (rule that [OF eids row _ fresh])
    show "s' = s\<lparr>ledger_transactions := ledger_transactions s @ [row],
            journal_entries := journal_entries s @
              [entry_row now tid (lt_currency row) (e1, a, d1, m1),
               entry_row now tid (lt_currency row) (e2, b, d2, m2)],
            accounts := pair_moved now a (signed_amount d1 m1) b (signed_amount d2 m2) (accounts s)\<rparr>"
      using acc by (simp add: s' posted_state_def rows eids)
  qed (use ground in \<open>auto simp: rows eids entry_grounded_def\<close>)
qed

section \<open>One transfer\<close>

lemma toLocked_simps [simp]:
  "lk_balanceMinor (toLocked r) = bigint_text (acc_balance_minor r)"
  "lk_currency (toLocked r) = acc_currency r" "lk_id (toLocked r) = acc_id r"
  "lk_isTreasury (toLocked r) = acc_is_treasury r"
  "lk_ownerPrincipalId (toLocked r) = acc_owner_principal_id r"
  "lk_status (toLocked r) = acc_status r"
  by (simp_all add: toLocked_def)

lemma lockAccounts_find:
  assumes "lockAccounts ids s = Inr (locked, s')" and "find (\<lambda>a. lk_id a = k) locked = Some l"
  shows "s' = s \<and> (\<exists>r\<in>set (accounts s). l = toLocked r \<and> acc_id r = k)"
proof -
  from assms(1) have "s' = s" and locked: "set locked = toLocked ` {a \<in> set (accounts s). acc_id a \<in> uuid_in ` set ids}"
    by (auto simp: lockAccounts_def tx_get_apply set_select_where)
  moreover from assms(2) have "l \<in> set locked" "lk_id l = k" by (auto simp: find_Some_iff)
  ultimately show ?thesis by auto
qed

lemma transfer_checks_InrD:
  "transfer_checks amount input pid locked = Inr (src, dst) \<Longrightarrow>
    find (\<lambda>a. lk_id a = ct_sourceAccountId input) locked = Some src \<and>
    find (\<lambda>a. lk_id a = ct_destinationAccountId input) locked = Some dst \<and>
    \<not> lk_isTreasury src \<and> \<not> lk_isTreasury dst \<and> lk_ownerPrincipalId src = Some pid \<and>
    lk_status src = Account_active \<and> lk_status dst = Account_active \<and>
    lk_currency src = lk_currency dst \<and> minor amount \<le> bigint_value (lk_balanceMinor src)"
  by (auto simp: transfer_checks_def Let_def split: option.splits if_splits)

lemma insert_transfer_InrD:
  "insert_transfer r s = Inr (u, s') \<Longrightarrow>
    s' = s\<lparr>transfers := transfers s @ [r]\<rparr> \<and>
    tr_source_account_id r \<noteq> tr_destination_account_id r \<and> tr_id r \<notin> tr_id ` set (transfers s) \<and>
    (tr_id r, tr_currency r, ''transfer'') \<in>
      (\<lambda>t. (lt_id t, lt_currency t, lt_type t)) ` set (ledger_transactions s)"
  by (auto simp: insert_transfer_def tx_simps)

lemma complete_claim_InrD:
  assumes "distinct (map row_key (idempotency_records s))"
    and "complete_claim now key operation pid body status s = Inr (u, s')"
  shows "\<exists>r. claim_of (pid, key, operation) s = Some r \<and> ir_status r = In_progress \<and>
    claim_of (pid, key, operation) s' = Some (completed_with now body status r) \<and>
    s' = s\<lparr>idempotency_records := update_where (unfinished key operation pid)
            (completed_with now body status) (idempotency_records s)\<rparr>"
proof -
  from assms(2) have c: "complete now key operation pid body status s = Inr (1, s')"
    by (auto simp: complete_claim_def tx_simps)
  from complete_count(2) [OF assms(1) c] obtain r where
    r: "claim_of (pid, key, operation) s = Some r" "ir_status r = In_progress" by auto
  then have "row_key r = (pid, key, operation)" using claim_of_SomeD by blast
  with r have "unfinished key operation pid r" by (simp add: unfinished_iff)
  with r c claim_of_complete [OF c, of "(pid, key, operation)"] show ?thesis
    by (auto simp: complete_eq)
qed

text \<open>What a keyed posting requires and leaves of its claim, and an unkeyed one of the table.\<close>

definition claim_settled :: "instant \<Rightarrow> string \<Rightarrow> uuid \<Rightarrow> string option \<Rightarrow> json \<Rightarrow> db \<Rightarrow> db \<Rightarrow> bool" where
  "claim_settled now operation pid key body s s' =
    (case key of
       None \<Rightarrow> idempotency_records s' = idempotency_records s
     | Some k \<Rightarrow>
         (\<exists>r. claim_of (pid, k, operation) s = Some r \<and> ir_status r = In_progress \<and>
              claim_of (pid, k, operation) s' = Some (completed_with now body 201 r)) \<and>
         (\<forall>k'. k' \<noteq> (pid, k, operation) \<longrightarrow> claim_of k' s' = claim_of k' s))"

definition transfer_of :: "instant \<Rightarrow> Money \<Rightarrow> uuid \<Rightarrow> account_row \<Rightarrow> account_row \<Rightarrow> Transfer" where
  "transfer_of now amount tid src dst =
    \<lparr>t_amountMinor = Money_toString amount, t_createdAt = toISOString now,
     t_currency = acc_currency src, t_destinationAccountId = acc_id dst, t_id = tid,
     t_reference = ''transfer:'' @ tid, t_sourceAccountId = acc_id src\<rparr>"

definition may_transfer :: "Money \<Rightarrow> uuid \<Rightarrow> account_row \<Rightarrow> account_row \<Rightarrow> bool" where
  "may_transfer amount pid src dst \<longleftrightarrow>
    acc_id src \<noteq> acc_id dst \<and> \<not> acc_is_treasury src \<and> \<not> acc_is_treasury dst \<and>
    acc_owner_principal_id src = Some pid \<and> acc_status src = Account_active \<and>
    acc_status dst = Account_active \<and> acc_currency src = acc_currency dst \<and>
    minor amount \<le> acc_balance_minor src"

text \<open>The state a transfer leaves: each table, exactly.\<close>

definition transferred ::
    "bool \<Rightarrow> instant \<Rightarrow> uuid list \<Rightarrow> uuid \<Rightarrow> Money \<Rightarrow> uuid \<Rightarrow> uuid \<Rightarrow> string option
      \<Rightarrow> account_row \<Rightarrow> account_row \<Rightarrow> db \<Rightarrow> db \<Rightarrow> bool" where
  "transferred outbox now eids evid amount pid tid key src dst s s' \<longleftrightarrow>
    (let t = transfer_of now amount tid src dst;
         entry = (\<lambda>eid aid d. entry_row now tid (acc_currency src) (eid, aid, d, minor amount)) in
     accounts s' = pair_moved now (acc_id src) (- minor amount) (acc_id dst) (minor amount) (accounts s) \<and>
     ledger_transactions s' = ledger_transactions s @
       [\<lparr>lt_id = tid, lt_type = ''transfer'', lt_reference = ''transfer:'' @ tid,
         lt_currency = acc_currency src, lt_finalized = True, lt_created_at = now\<rparr>] \<and>
     (\<exists>e1 e2. eids = [e1, e2] \<and> journal_entries s' = journal_entries s @
       [entry e1 (acc_id src) Credit, entry e2 (acc_id dst) Debit]) \<and>
     transfers s' = transfers s @
       [\<lparr>tr_id = tid, tr_source_account_id = acc_id src, tr_destination_account_id = acc_id dst,
         tr_amount_minor = minor amount, tr_currency = acc_currency src\<rparr>] \<and>
     outbox_events s' = outbox_events s @
       (if outbox then [new_event_row now evid (transfer_event t)] else []) \<and>
     claim_settled now ''transfer'' pid key (transfer_json t) s s' \<and>
     (consumer_inbox s', audit_effects s', principals s', api_keys s', principal_identities s') =
       (consumer_inbox s, audit_effects s, principals s, api_keys s, principal_identities s))"

lemma claim_settled_complete:
  assumes "distinct (map row_key (idempotency_records s))"
    and "complete_claim now k operation pid body 201 s = Inr (u, s')"
  shows "claim_settled now operation pid (Some k) body s s'"
proof -
  from complete_claim_InrD [OF assms] obtain r where
    "claim_of (pid, k, operation) s = Some r" "ir_status r = In_progress"
    "claim_of (pid, k, operation) s' = Some (completed_with now body 201 r)"
    and s': "s' = s\<lparr>idempotency_records := update_where (unfinished k operation pid)
      (completed_with now body 201) (idempotency_records s)\<rparr>" by blast
  moreover have "claim_of k' s' = claim_of k' s" if "k' \<noteq> (pid, k, operation)" for k'
    unfolding s' claim_of_def using that
    by (auto simp: select_first_update unfinished_iff dest!: select_first_SomeD intro!: option.map_ident_strong)
  ultimately show ?thesis by (simp add: claim_settled_def)
qed

lemma bigint_in_amount: "in_money_range (minor m) \<Longrightarrow> bigints_in [Money_toString m, Money_toString m] = Inr [minor m, minor m]"
  by (simp add: bigint_in_Money)

lemma postTransfer_InrD:
  assumes run: "postTransfer outbox now eids evid
      \<lparr>px_amountMinor = Money_toString amount, px_currency = acc_currency src,
       px_destinationAccountId = acc_id dst, px_id = tid, px_reference = ''transfer:'' @ tid,
       px_sourceAccountId = acc_id src,
       px_idempotency = map_option (\<lambda>k. (k, ''transfer'', pid)) key\<rparr> s = Inr (t, s')"
    and amount: "in_money_range (minor amount)" and "acc_id src \<noteq> acc_id dst"
    and keys: "distinct (map row_key (idempotency_records s))"
    and ids: "distinct (map acc_id (accounts s))" and src: "src \<in> set (accounts s)"
  shows "t = transfer_of now amount tid src dst \<and>
    transferred outbox now eids evid amount pid tid key src dst s s'"
proof -
  let ?t = "transfer_of now amount tid src dst"
  from run obtain row s1 u2 s2 u3 s3 u4 where
    post: "post_ledger_transaction now tid ''transfer'' (''transfer:'' @ tid) eids
        [acc_id src, acc_id dst] [Credit, Debit] [minor amount, minor amount] s = Inr (row, s1)"
    and ins: "insert_transfer \<lparr>tr_id = tid, tr_source_account_id = acc_id src,
        tr_destination_account_id = acc_id dst, tr_amount_minor = minor amount,
        tr_currency = acc_currency src\<rparr> s1 = Inr (u2, s2)"
    and t: "t = ?t\<lparr>t_createdAt := toISOString (lt_created_at row)\<rparr>"
    and box: "(if outbox then outbox_insert now evid (transfer_event t) else tx_return ()) s2 = Inr (u3, s3)"
    and idem: "(case key of None \<Rightarrow> tx_return () | Some k \<Rightarrow>
        complete_claim now k ''transfer'' pid (transfer_json t) 201) s3 = Inr (u4, s')"
    using amount
    by (cases key) (auto simp: postTransfer_def tx_simps bigint_in_amount bigint_in_Money Let_def transfer_of_def)
  obtain e1 e2 where eids: "eids = [e1, e2]"
    and row: "lt_id row = tid" "lt_type row = ''transfer''" "lt_reference row = ''transfer:'' @ tid"
      "lt_finalized row" "lt_created_at row = now"
    and s1: "s1 = s\<lparr>ledger_transactions := ledger_transactions s @ [row],
            journal_entries := journal_entries s @
              [entry_row now tid (lt_currency row) (e1, acc_id src, Credit, minor amount),
               entry_row now tid (lt_currency row) (e2, acc_id dst, Debit, minor amount)],
            accounts := pair_moved now (acc_id src) (signed_amount Credit (minor amount))
              (acc_id dst) (signed_amount Debit (minor amount)) (accounts s)\<rparr>"
    and cur: "(acc_id src, lt_currency row) \<in> (\<lambda>x. (acc_id x, acc_currency x)) ` set (accounts s)"
    by (rule posting_pair [OF post assms(3)]) blast
  have "lt_currency row = acc_currency src"
    using cur distinct_map_eqD [OF ids src] by auto
  then have row_eq: "row = \<lparr>lt_id = tid, lt_type = ''transfer'', lt_reference = ''transfer:'' @ tid,
      lt_currency = acc_currency src, lt_finalized = True, lt_created_at = now\<rparr>"
    using row by simp
  have t_eq: "t = ?t" using t row by (simp add: transfer_of_def)
  note s2 = insert_transfer_InrD [OF ins]
  have s3: "s3 = s2\<lparr>outbox_events := outbox_events s2 @
      (if outbox then [new_event_row now evid (transfer_event ?t)] else [])\<rparr>"
    using box outbox_insert_InrD [of now evid "transfer_event t" s2 u3 s3]
    by (auto simp: tx_return_apply t_eq split: if_splits)
  have s3_keys: "distinct (map row_key (idempotency_records s3))"
    and s3_records: "idempotency_records s3 = idempotency_records s"
    using s1 s2 s3 keys by simp_all
  have claims: "claim_settled now ''transfer'' pid key (transfer_json ?t) s s' \<and>
      (\<exists>r. s' = s3\<lparr>idempotency_records := r\<rparr>)"
  proof (cases key)
    case None
    with idem s3_records have "idempotency_records s' = idempotency_records s" "s' = s3"
      by (simp_all add: tx_return_apply)
    moreover have "\<exists>r. s3 = s3\<lparr>idempotency_records := r\<rparr>"
      by (rule exI [of _ "idempotency_records s3"]) simp
    ultimately show ?thesis using None by (simp add: claim_settled_def)
  next
    case (Some k)
    with idem have c: "complete_claim now k ''transfer'' pid (transfer_json ?t) 201 s3 = Inr (u4, s')"
      by (simp add: t_eq)
    have "claim_of k' s3 = claim_of k' s" for k' by (simp add: claim_of_def s3_records)
    with claim_settled_complete [OF s3_keys c] Some complete_claim_InrD [OF s3_keys c] show ?thesis
      by (auto simp: claim_settled_def)
  qed
  then obtain r where s': "s' = s3\<lparr>idempotency_records := r\<rparr>" by blast
  show ?thesis
    unfolding transferred_def Let_def
    using claims t_eq s2 by (simp add: s' s3 s1 row_eq eids signed_amount_def)
qed

lemma transfer_work_InrD:
  assumes run: "transfer_work outbox now eids evid amount input pid tid key s = Inr (t, s')"
    and amount: "in_money_range (minor amount)"
    and differ: "ct_sourceAccountId input \<noteq> ct_destinationAccountId input"
    and keys: "distinct (map row_key (idempotency_records s))"
    and ids: "distinct (map acc_id (accounts s))"
  shows "\<exists>src\<in>set (accounts s). \<exists>dst\<in>set (accounts s).
    acc_id src = ct_sourceAccountId input \<and> acc_id dst = ct_destinationAccountId input \<and>
    may_transfer amount pid src dst \<and> t = transfer_of now amount tid src dst \<and>
    transferred outbox now eids evid amount pid tid key src dst s s'"
proof -
  from run obtain locked s0 lsrc ldst where
    lock: "lockAccounts (deterministicAccountOrder (ct_sourceAccountId input)
        (ct_destinationAccountId input)) s = Inr (locked, s0)"
    and checks: "transfer_checks amount input pid locked = Inr (lsrc, ldst)"
    and post: "postTransfer outbox now eids evid
      \<lparr>px_amountMinor = Money_toString amount, px_currency = lk_currency lsrc,
       px_destinationAccountId = lk_id ldst, px_id = tid, px_reference = ''transfer:'' @ tid,
       px_sourceAccountId = lk_id lsrc,
       px_idempotency = map_option (\<lambda>k. (k, ''transfer'', pid)) key\<rparr> s0 = Inr (t, s')"
    by (auto simp: transfer_work_def tx_simps)
  note c = transfer_checks_InrD [OF checks]
  obtain src dst where src: "src \<in> set (accounts s)" "lsrc = toLocked src" "acc_id src = ct_sourceAccountId input"
    and dst: "dst \<in> set (accounts s)" "ldst = toLocked dst" "acc_id dst = ct_destinationAccountId input"
    and s0: "s0 = s"
    using lockAccounts_find [OF lock] c by metis
  have "acc_id src \<noteq> acc_id dst" using differ src dst by simp
  moreover from postTransfer_InrD [OF _ amount this keys ids src(1)] post
  have "t = transfer_of now amount tid src dst \<and>
      transferred outbox now eids evid amount pid tid key src dst s s'"
    by (simp add: s0 src(2) dst(2))
  moreover have "may_transfer amount pid src dst"
    using c \<open>acc_id src \<noteq> acc_id dst\<close> unfolding src(2) dst(2) by (simp add: may_transfer_def)
  ultimately show ?thesis using src dst by blast
qed

section \<open>The invariant of the database\<close>

definition db_inv :: "db \<Rightarrow> bool" where
  "db_inv s \<longleftrightarrow> ledger_inv s \<and> idem_inv s \<and> outbox_inv s \<and> audit_inv s \<and>
    distinct (map tr_id (transfers s))"

lemma db_inv_keys:
  assumes "db_inv s"
  shows "distinct (map acc_id (accounts s))" "distinct (map row_key (idempotency_records s))"
    "distinct (map ob_id (outbox_events s))" "distinct (map lt_id (ledger_transactions s))"
  using assms by (auto simp: db_inv_def ledger_inv_def ledger_keys_def idem_inv_def outbox_inv_def)

lemma audit_inv_cong:
  "consumer_inbox s' = consumer_inbox s \<Longrightarrow> audit_effects s' = audit_effects s \<Longrightarrow>
    audit_inv s' = audit_inv s"
  by (simp add: audit_inv_def)

lemma idem_inv_same:
  "idempotency_records s' = idempotency_records s \<Longrightarrow> principals s' = principals s \<Longrightarrow>
    idem_inv s' = idem_inv s"
  by (simp add: idem_inv_def idem_row_ok_def)

text \<open>Each part of the invariant reads its own tables only.\<close>

lemma ledger_inv_frame [simp]:
  "ledger_inv (s\<lparr>transfers := x1\<rparr>) = ledger_inv s"
  "ledger_inv (s\<lparr>idempotency_records := x2\<rparr>) = ledger_inv s"
  "ledger_inv (s\<lparr>outbox_events := x3\<rparr>) = ledger_inv s"
  "ledger_inv (s\<lparr>consumer_inbox := x4\<rparr>) = ledger_inv s"
  "ledger_inv (s\<lparr>audit_effects := x5\<rparr>) = ledger_inv s"
  "ledger_inv (s\<lparr>principals := x6\<rparr>) = ledger_inv s"
  "ledger_inv (s\<lparr>api_keys := x7\<rparr>) = ledger_inv s"
  "ledger_inv (s\<lparr>principal_identities := x8\<rparr>) = ledger_inv s"
  by (rule ledger_inv_cong; simp)+

lemma idem_inv_frame [simp]:
  "idem_inv (s\<lparr>accounts := x9\<rparr>) = idem_inv s"
  "idem_inv (s\<lparr>ledger_transactions := x10\<rparr>) = idem_inv s"
  "idem_inv (s\<lparr>journal_entries := x11\<rparr>) = idem_inv s"
  "idem_inv (s\<lparr>transfers := x12\<rparr>) = idem_inv s"
  "idem_inv (s\<lparr>outbox_events := x13\<rparr>) = idem_inv s"
  "idem_inv (s\<lparr>consumer_inbox := x14\<rparr>) = idem_inv s"
  "idem_inv (s\<lparr>audit_effects := x15\<rparr>) = idem_inv s"
  "idem_inv (s\<lparr>api_keys := x16\<rparr>) = idem_inv s"
  "idem_inv (s\<lparr>principal_identities := x17\<rparr>) = idem_inv s"
  by (rule idem_inv_same; simp)+

lemma outbox_inv_frame [simp]:
  "outbox_inv (s\<lparr>accounts := x18\<rparr>) = outbox_inv s"
  "outbox_inv (s\<lparr>ledger_transactions := x19\<rparr>) = outbox_inv s"
  "outbox_inv (s\<lparr>journal_entries := x20\<rparr>) = outbox_inv s"
  "outbox_inv (s\<lparr>transfers := x21\<rparr>) = outbox_inv s"
  "outbox_inv (s\<lparr>idempotency_records := x22\<rparr>) = outbox_inv s"
  "outbox_inv (s\<lparr>consumer_inbox := x23\<rparr>) = outbox_inv s"
  "outbox_inv (s\<lparr>audit_effects := x24\<rparr>) = outbox_inv s"
  "outbox_inv (s\<lparr>principals := x25\<rparr>) = outbox_inv s"
  "outbox_inv (s\<lparr>api_keys := x26\<rparr>) = outbox_inv s"
  "outbox_inv (s\<lparr>principal_identities := x27\<rparr>) = outbox_inv s"
  by (rule outbox_inv_cong; simp)+

lemma audit_inv_frame [simp]:
  "audit_inv (s\<lparr>accounts := x28\<rparr>) = audit_inv s"
  "audit_inv (s\<lparr>ledger_transactions := x29\<rparr>) = audit_inv s"
  "audit_inv (s\<lparr>journal_entries := x30\<rparr>) = audit_inv s"
  "audit_inv (s\<lparr>transfers := x31\<rparr>) = audit_inv s"
  "audit_inv (s\<lparr>idempotency_records := x32\<rparr>) = audit_inv s"
  "audit_inv (s\<lparr>outbox_events := x33\<rparr>) = audit_inv s"
  "audit_inv (s\<lparr>principals := x34\<rparr>) = audit_inv s"
  "audit_inv (s\<lparr>api_keys := x35\<rparr>) = audit_inv s"
  "audit_inv (s\<lparr>principal_identities := x36\<rparr>) = audit_inv s"
  by (rule audit_inv_cong; simp)+

lemma db_inv_ledger:
  assumes "db_inv s" and "ledger_inv s'"
    and "(transfers s', idempotency_records s', outbox_events s', consumer_inbox s', audit_effects s', principals s') =
      (transfers s, idempotency_records s, outbox_events s, consumer_inbox s, audit_effects s, principals s)"
  shows "db_inv s'"
  using assms idem_inv_same [of s' s] outbox_inv_cong [of s' s] audit_inv_cong [of s' s]
  by (simp add: db_inv_def)

lemma post_ledger_transaction_db_inv:
  "tx_keeps db_inv (post_ledger_transaction now tid ty ref eids aids ds ms)"
  unfolding tx_keeps_def
proof (intro allI impI)
  fix s row s'
  assume inv: "db_inv s" and post: "post_ledger_transaction now tid ty ref eids aids ds ms s = Inr (row, s')"
  have "ledger_inv s'" using inv post_ledger_transaction_keeps [OF _ post] by (simp add: db_inv_def)
  moreover obtain rows where "s' = posted_state now row rows (zip aids (zip ds ms)) s"
    by (rule post_ledger_transaction_InrD [OF post]) blast
  ultimately show "db_inv s'" using inv by (intro db_inv_ledger [OF inv]) (simp_all add: posted_state_def)
qed

lemma insert_transfer_db_inv: "tx_keeps db_inv (insert_transfer r)"
  unfolding tx_keeps_def
  by (auto simp: db_inv_def dest!: insert_transfer_InrD)

lemma outbox_insert_db_inv: "tx_keeps db_inv (outbox_insert now eid e)"
  unfolding tx_keeps_def
proof (intro allI impI)
  fix s u s'
  assume inv: "db_inv s" and ins: "outbox_insert now eid e s = Inr (u, s')"
  have "outbox_inv s'" using inv tx_keepsD [OF outbox_insert_keeps _ ins] by (simp add: db_inv_def)
  with inv outbox_insert_InrD [OF ins] show "db_inv s'" by (simp add: db_inv_def)
qed

lemma complete_db_inv: "tx_keeps db_inv (complete now key operation pid b st)"
  unfolding tx_keeps_def
proof (intro allI impI)
  fix s n s'
  assume inv: "db_inv s" and c: "complete now key operation pid b st s = Inr (n, s')"
  have "idem_inv s'" using inv tx_keepsD [OF complete_keeps _ c] by (simp add: db_inv_def)
  with inv c show "db_inv s'" by (auto simp: complete_eq db_inv_def)
qed

text \<open>The two transactions that move money keep whatever their statements keep.\<close>

locale posting_invariant =
  fixes P :: "db \<Rightarrow> bool"
  assumes on_ledger: "tx_keeps P (post_ledger_transaction now tid ty ref eids aids ds ms)"
    and on_event: "tx_keeps P (outbox_insert now eid e)"
    and on_settle: "tx_keeps P (complete now key operation pid b st)"
begin

lemma complete_claim_keeps: "tx_keeps P (complete_claim now key operation pid b st)"
  unfolding complete_claim_def by (intro keeps_intros on_settle)

lemma postWith_keeps: "tx_keeps P (postWith now eids input)"
  unfolding postWith_def by (intro keeps_intros on_ledger)

lemma post_work_keeps: "tx_keeps P (post_work outbox now eids evid input idempotency)"
  unfolding post_work_def
  by (intro keeps_intros postWith_keeps)
    (auto split: option.split intro!: keeps_intros on_event complete_claim_keeps)

end

locale transfer_posting = posting_invariant +
  assumes on_transfer_row: "tx_keeps P (insert_transfer r)"
begin

lemma postTransfer_keeps: "tx_keeps P (postTransfer outbox now eids evid i)"
  unfolding postTransfer_def Let_def
  by (intro keeps_intros on_ledger on_transfer_row)
    (auto split: option.split prod.split intro!: keeps_intros on_event complete_claim_keeps)

lemma transfer_work_keeps: "tx_keeps P (transfer_work outbox now eids evid amount input pid tid key)"
  unfolding transfer_work_def lockAccounts_def
  by (auto split: prod.split intro!: keeps_intros postTransfer_keeps)

end

interpretation books_posting: transfer_posting db_inv
  by unfold_locales
    (rule post_ledger_transaction_db_inv outbox_insert_db_inv complete_db_inv insert_transfer_db_inv)+

lemmas transfer_work_db_inv = books_posting.transfer_work_keeps
lemmas postWith_db_inv = books_posting.postWith_keeps
lemmas post_work_db_inv = books_posting.post_work_keeps

interpretation transfer_tx: tx_invariant db_inv
    "transfer_work outbox now eids evid amount input pid tid key"
  for outbox now eids evid amount input pid tid key
  by unfold_locales (rule tx_keepsD [OF transfer_work_db_inv])

interpretation post_tx: tx_invariant db_inv "post_work outbox now eids evid input idempotency"
  for outbox now eids evid input idempotency
  by unfold_locales (rule tx_keepsD [OF post_work_db_inv])

section \<open>Every attempt of a transfer\<close>

definition attempts_fair :: "(nat \<Rightarrow> attempt_env) \<Rightarrow> bool" where
  "attempts_fair envs \<longleftrightarrow> (\<forall>i s. db_inv s \<longrightarrow> db_inv (at_before (envs i) s))"

lemma attempt_outcome_state:
  assumes "attempts_fair envs" and "db_inv s"
  shows "db_inv (out_state (attempt_outcome cfg (envs i) amount input pid tid key s))"
  unfolding attempt_outcome_def runSerializable_def
  using assms by (intro transfer_tx.transaction_keeps) (simp add: attempts_fair_def)

lemma attempt_outcome_InrD:
  "out_result (attempt_outcome cfg env amount input pid tid key s) = Inr t \<Longrightarrow>
    transfer_work (tc_outbox cfg) (at_now env) (at_entryIds env) (at_eventId env) amount input pid tid key
      (at_before env s) = Inr (t, out_state (attempt_outcome cfg env amount input pid tid key s))"
  unfolding attempt_outcome_def runSerializable_def by (drule withTransaction_InrD) blast

definition retryable :: "js_error \<Rightarrow> bool" where
  "retryable e \<longleftrightarrow> (\<exists>code\<in>set retryableDatabaseCodes. databaseErrorCode e = Some code)"

abbreviation retry_exhausted :: js_error where
  "retry_exhausted \<equiv> transfer_error ''TRANSFER_RETRY_EXHAUSTED''
     ''Transfer could not be completed within the retry limit''"

text \<open>What the loop reports and sleeps after one retryable failure.\<close>

definition after_retry :: "transfer_config \<Rightarrow> attempt_env \<Rightarrow> nat \<Rightarrow> uuid \<Rightarrow> js_error \<Rightarrow> transfer_world \<Rightarrow> transfer_world" where
  "after_retry cfg env attempt tid e w =
    (let delayMs = retry_delay_ms (tc_baseRetryDelayMs cfg) attempt (at_jitter env) in
     w\<lparr>tw_metrics := recordRetry (tw_metrics w),
       tw_events := tw_events w @ [Transfer_retrying delayMs (the (databaseErrorCode e)) attempt tid],
       tw_slept := tw_slept w @ [delayMs]\<rparr>)"

lemma create_attempts_failed:
  assumes "out_result (attempt_outcome cfg (envs attempt) amount input pid tid key (tw_db w)) = Inl e"
  defines "w1 \<equiv> w\<lparr>tw_db := out_state (attempt_outcome cfg (envs attempt) amount input pid tid key (tw_db w))\<rparr>"
  shows "create_attempts cfg envs amount input pid tid key t0 attempt (Suc left) w =
    (if \<not> retryable e then (Inl e, w1)
     else if attempt = tc_maxAttempts cfg then
       (Inl retry_exhausted, w1\<lparr>tw_metrics := recordExhausted (tw_metrics w1)\<rparr>)
     else create_attempts cfg envs amount input pid tid key t0 (attempt + 1) left
       (after_retry cfg (envs attempt) attempt tid e w1))"
proof (cases "databaseErrorCode e")
  case None
  with assms show ?thesis by (simp add: retryable_def Let_def)
next
  case (Some code)
  with assms show ?thesis by (simp add: retryable_def after_retry_def Let_def)
qed

lemma create_attempts_returned:
  assumes "out_result (attempt_outcome cfg (envs attempt) amount input pid tid key (tw_db w)) = Inr t"
  shows "create_attempts cfg envs amount input pid tid key t0 attempt (Suc left) w =
    (Inr t, w\<lparr>tw_db := out_state (attempt_outcome cfg (envs attempt) amount input pid tid key (tw_db w)),
       tw_metrics := recordCompleted (tw_metrics w),
       tw_events := tw_events w @ [Transfer_completed (at_clock (envs attempt) - t0) (attempt - 1) tid]\<rparr>)"
  using assms by (simp add: Let_def)

lemma after_retry_simps [simp]:
  "tw_db (after_retry cfg env attempt tid e w) = tw_db w"
  "tw_metrics (after_retry cfg env attempt tid e w) = recordRetry (tw_metrics w)"
  "tw_slept (after_retry cfg env attempt tid e w) =
    tw_slept w @ [retry_delay_ms (tc_baseRetryDelayMs cfg) attempt (at_jitter env)]"
  by (simp_all add: after_retry_def Let_def)

text \<open>
  What every attempt keeps, the loop keeps; and what it returns is the work of its last attempt.
\<close>

lemma create_attempts_reach:
  assumes before: "\<And>i s. P s \<Longrightarrow> P (at_before (envs i) s)"
    and work: "\<And>i. tx_keeps P (transfer_work (tc_outbox cfg) (at_now (envs i)) (at_entryIds (envs i))
      (at_eventId (envs i)) amount input pid tid key)"
  shows "P (tw_db w) \<Longrightarrow>
    create_attempts cfg envs amount input pid tid key t0 attempt left w = (r, w') \<Longrightarrow>
    P (tw_db w') \<and>
    (\<forall>t. r = Inr t \<longrightarrow> (\<exists>i s0. P s0 \<and>
      transfer_work (tc_outbox cfg) (at_now (envs i)) (at_entryIds (envs i)) (at_eventId (envs i))
        amount input pid tid key s0 = Inr (t, tw_db w')))"
proof (induction left arbitrary: attempt w)
  case (Suc left)
  define o1 where "o1 = attempt_outcome cfg (envs attempt) amount input pid tid key (tw_db w)"
  have started: "P (at_before (envs attempt) (tw_db w))" by (rule before [OF Suc.prems(1)])
  have kept: "P (out_state o1)"
    unfolding o1_def attempt_outcome_def runSerializable_def
    using withTransaction_state tx_keepsD [OF work started] started by metis
  show ?case
  proof (cases "out_result o1")
    case (Inr t)
    have run: "transfer_work (tc_outbox cfg) (at_now (envs attempt)) (at_entryIds (envs attempt))
        (at_eventId (envs attempt)) amount input pid tid key (at_before (envs attempt) (tw_db w)) =
        Inr (t, out_state o1)"
      using attempt_outcome_InrD Inr unfolding o1_def by blast
    have "r = Inr t \<and> tw_db w' = out_state o1"
      using Suc.prems(2) Inr by (auto simp: Let_def o1_def [symmetric])
    with run started kept show ?thesis by auto
  next
    case (Inl e)
    note step = create_attempts_failed [where envs = envs and attempt = attempt and left = left and ?t0.0 = t0,
        OF Inl [unfolded o1_def], folded o1_def]
    show ?thesis
    proof (cases "\<not> retryable e \<or> attempt = tc_maxAttempts cfg")
      case True
      with step Suc.prems(2) kept show ?thesis by (auto split: if_splits)
    next
      case False
      let ?w2 = "after_retry cfg (envs attempt) attempt tid e (w\<lparr>tw_db := out_state o1\<rparr>)"
      have "create_attempts cfg envs amount input pid tid key t0 (attempt + 1) left ?w2 = (r, w')"
        using False step Suc.prems(2) by simp
      with kept show ?thesis by (intro Suc.IH) simp_all
    qed
  qed
qed auto

lemma create_attempts_keep:
  "attempts_fair envs \<Longrightarrow> db_inv (tw_db w) \<Longrightarrow>
    create_attempts cfg envs amount input pid tid key t0 attempt left w = (r, w') \<Longrightarrow>
    db_inv (tw_db w') \<and>
    (\<forall>t. r = Inr t \<longrightarrow> (\<exists>i s0. db_inv s0 \<and>
      transfer_work (tc_outbox cfg) (at_now (envs i)) (at_entryIds (envs i)) (at_eventId (envs i))
        amount input pid tid key s0 = Inr (t, tw_db w')))"
  by (rule create_attempts_reach [OF _ transfer_work_db_inv]) (simp_all add: attempts_fair_def)

lemma create_Inr:
  assumes inv: "db_inv (tw_db w)" and fair: "attempts_fair envs"
    and ok: "create cfg envs tid t0 input pid key w = (Inr t, w')"
  shows "db_inv (tw_db w') \<and>
    (\<exists>amount s src dst i. fromMinor (StringArg (ct_amountMinor input)) = Inr amount \<and> db_inv s \<and>
      src \<in> set (accounts s) \<and> dst \<in> set (accounts s) \<and>
      acc_id src = ct_sourceAccountId input \<and> acc_id dst = ct_destinationAccountId input \<and>
      may_transfer amount pid src dst \<and> t = transfer_of (at_now (envs i)) amount tid src dst \<and>
      transferred (tc_outbox cfg) (at_now (envs i)) (at_entryIds (envs i)) (at_eventId (envs i))
        amount pid tid key src dst s (tw_db w'))"
proof -
  from ok obtain amount where amount: "fromMinor (StringArg (ct_amountMinor input)) = Inr amount"
    and differ: "ct_sourceAccountId input \<noteq> ct_destinationAccountId input"
    and run: "create_attempts cfg envs amount input pid tid key t0 1 (tc_maxAttempts cfg) w = (Inr t, w')"
    by (auto simp: create_def split: sum.splits if_splits)
  from create_attempts_keep [OF fair inv run] obtain i s0 where s0: "db_inv s0" "db_inv (tw_db w')"
    and work: "transfer_work (tc_outbox cfg) (at_now (envs i)) (at_entryIds (envs i)) (at_eventId (envs i))
        amount input pid tid key s0 = Inr (t, tw_db w')" by blast
  from transfer_work_InrD [OF work fromMinor_range [OF amount] differ db_inv_keys(2,1) [OF s0(1)]]
  show ?thesis using amount s0 by blast
qed

text \<open>
  C1.  What a successful transfer did, exactly.  If \<open>create\<close> returns, then - whatever failed and was
  retried before, and whatever other clients did in between - one last transaction moved the
  amount: from an active customer account owned by the caller and holding at least that much,
  to a different active customer account of the same currency; those two balances changed by
  the amount and no other account changed; one finalized ledger transaction with one credit and
  one debit entry, one transfer and one outbox event were added; and the answer describes it.
\<close>

theorem transfer_moves_exactly_the_amount:
  assumes inv: "db_inv (tw_db w)" and fair: "attempts_fair envs"
    and ok: "create cfg envs tid t0 input pid key w = (Inr t, w')"
  shows "\<exists>amount s src dst i. fromMinor (StringArg (ct_amountMinor input)) = Inr amount \<and> db_inv s \<and>
    src \<in> set (accounts s) \<and> dst \<in> set (accounts s) \<and>
    acc_id src = ct_sourceAccountId input \<and> acc_id dst = ct_destinationAccountId input \<and>
    may_transfer amount pid src dst \<and> t = transfer_of (at_now (envs i)) amount tid src dst \<and>
    transferred (tc_outbox cfg) (at_now (envs i)) (at_entryIds (envs i)) (at_eventId (envs i))
      amount pid tid key src dst s (tw_db w')"
  using create_Inr [OF inv fair ok] by blast

end
