(* ===== verification/Transfer_Theorems.thy ===== *)
theory Transfer_Theorems
  imports Transfer_Safety
begin

text \<open>
  What callers of the transfer service can rely on: bounded retries, nobody else's money, the
  stored answer of a keyed transfer, and which requests succeed.
\<close>

section \<open>Whatever happens\<close>

text \<open>
  The service keeps the books whatever happens to it: whether it returns or throws, after any
  number of retries, rejected or lost commits and concurrent changes that keep the invariant,
  the database still has balanced finalized postings, cached balances equal to the journal, no
  overdrawn customer, and consistent claims, events and effects.
\<close>

theorem create_keeps_invariant:
  assumes "db_inv (tw_db w)" and "attempts_fair envs"
  shows "db_inv (tw_db (snd (create cfg envs tid t0 input pid key w)))"
proof (cases "fromMinor (StringArg (ct_amountMinor input))")
  case (Inl e)
  with assms show ?thesis by (simp add: create_def)
next
  case (Inr amount)
  with assms create_attempts_keep [OF assms(2,1)] show ?thesis
    by (auto simp: create_def) (metis prod.collapse)
qed

section \<open>Retries\<close>

lemma retry_delay_ms_bounds:
  assumes "0 \<le> base" and "0 \<le> jitter" and "jitter \<le> 1"
  shows "0 \<le> retry_delay_ms base attempt jitter" and "retry_delay_ms base attempt jitter \<le> 50"
proof -
  define d where "d = min (base * 2 ^ (attempt - 1)) 50"
  have d: "0 \<le> d" "d \<le> 50" using assms(1) by (auto simp: d_def)
  let ?j = "1 / 2 + jitter * (1 / 2)"
  have j: "0 \<le> ?j" "?j \<le> 1" using assms by auto
  have "0 \<le> of_int d * ?j" using d j by simp
  moreover have "of_int d * ?j \<le> 50" using mult_mono [of "of_int d" 50 ?j 1] d j by simp
  ultimately show "0 \<le> retry_delay_ms base attempt jitter" "retry_delay_ms base attempt jitter \<le> 50"
    unfolding retry_delay_ms_def d_def [symmetric] by (simp_all add: floor_le_iff)
qed

definition jitter_ok :: "transfer_config \<Rightarrow> (nat \<Rightarrow> attempt_env) \<Rightarrow> bool" where
  "jitter_ok cfg envs \<longleftrightarrow>
    0 \<le> tc_baseRetryDelayMs cfg \<and> (\<forall>i. 0 \<le> at_jitter (envs i) \<and> at_jitter (envs i) \<le> 1)"

text \<open>What a run of the loop adds to the counters and the sleeps.\<close>

definition retried :: "nat \<Rightarrow> js_error + Transfer \<Rightarrow> transfer_world \<Rightarrow> transfer_world \<Rightarrow> int list \<Rightarrow> bool" where
  "retried left r w w' naps \<longleftrightarrow>
    tw_slept w' = tw_slept w @ naps \<and> length naps < left \<and> (\<forall>d\<in>set naps. 0 \<le> d \<and> d \<le> 50) \<and>
    tm_retries (tw_metrics w') = tm_retries (tw_metrics w) + length naps \<and>
    tm_completed (tw_metrics w') = tm_completed (tw_metrics w) + (if isl r then 0 else 1) \<and>
    (tm_exhausted (tw_metrics w') = tm_exhausted (tw_metrics w) \<or>
     tm_exhausted (tw_metrics w') = tm_exhausted (tw_metrics w) + 1 \<and>
       r = Inl retry_exhausted \<and> length naps + 1 = left)"

lemma create_attempts_retried:
  assumes jitter: "jitter_ok cfg envs"
  shows "0 < left \<Longrightarrow> attempt + left = tc_maxAttempts cfg + 1 \<Longrightarrow>
    create_attempts cfg envs amount input pid tid key t0 attempt left w = (r, w') \<Longrightarrow>
    \<exists>naps. retried left r w w' naps"
proof (induction left arbitrary: attempt w)
  case (Suc left)
  define o1 where "o1 = attempt_outcome cfg (envs attempt) amount input pid tid key (tw_db w)"
  show ?case
  proof (cases "out_result o1")
    case (Inr t)
    from create_attempts_returned [where envs = envs and attempt = attempt and left = left,
        OF this [unfolded o1_def]] Suc.prems(3)
    have "retried (Suc left) r w w' []" by (auto simp: retried_def recordCompleted_def)
    then show ?thesis ..
  next
    case (Inl e)
    note step = create_attempts_failed [where envs = envs and attempt = attempt and left = left and ?t0.0 = t0,
        OF Inl [unfolded o1_def], folded o1_def]
    show ?thesis
    proof (cases "\<not> retryable e \<or> attempt = tc_maxAttempts cfg")
      case True
      with step Suc.prems have "retried (Suc left) r w w' []"
        by (auto simp: retried_def recordExhausted_def split: if_splits)
      then show ?thesis ..
    next
      case False
      let ?w2 = "after_retry cfg (envs attempt) attempt tid e (w\<lparr>tw_db := out_state o1\<rparr>)"
      let ?nap = "retry_delay_ms (tc_baseRetryDelayMs cfg) attempt (at_jitter (envs attempt))"
      have "create_attempts cfg envs amount input pid tid key t0 (attempt + 1) left ?w2 = (r, w')"
        using False step Suc.prems(3) by simp
      with Suc.IH [of "attempt + 1" ?w2] Suc.prems(2) False obtain naps where
        "retried left r ?w2 w' naps" by auto
      moreover have "0 \<le> ?nap \<and> ?nap \<le> 50"
        using jitter by (simp add: jitter_ok_def retry_delay_ms_bounds)
      ultimately have "retried (Suc left) r w w' (?nap # naps)"
        by (auto simp: retried_def recordRetry_def)
      then show ?thesis ..
    qed
  qed
qed simp


section \<open>Nobody else's money\<close>

text \<open>No customer account of another owner has less than before.\<close>

definition others_kept :: "uuid \<Rightarrow> db \<Rightarrow> db \<Rightarrow> bool" where
  "others_kept pid s s' \<longleftrightarrow>
    (\<forall>a\<in>set (accounts s). acc_owner_principal_id a \<noteq> Some pid \<longrightarrow>
      (\<exists>a'\<in>set (accounts s'). acc_id a' = acc_id a \<and> acc_owner_principal_id a' = acc_owner_principal_id a \<and>
        acc_balance_minor a \<le> acc_balance_minor a'))"

lemma others_kept_refl: "others_kept pid s s"
  by (auto simp: others_kept_def)

lemma others_kept_trans: "others_kept pid s s' \<Longrightarrow> others_kept pid s' s'' \<Longrightarrow> others_kept pid s s''"
  unfolding others_kept_def by (fastforce intro: order_trans)

lemma transferred_others_kept:
  assumes t: "transferred outbox now eids evid amount pid tid key src dst s s'"
    and may: "may_transfer amount pid src dst" and amount: "in_money_range (minor amount)"
    and src: "src \<in> set (accounts s)" and ids: "distinct (map acc_id (accounts s))"
  shows "others_kept pid s s'"
  unfolding others_kept_def
proof (intro ballI impI)
  fix a assume a: "a \<in> set (accounts s)" "acc_owner_principal_id a \<noteq> Some pid"
  then have not_src: "acc_id a \<noteq> acc_id src"
    using distinct_map_eqD [OF ids a(1) src] may by (auto simp: may_transfer_def)
  let ?a' = "if acc_id a = acc_id dst
    then a\<lparr>acc_balance_minor := acc_balance_minor a + minor amount, acc_updated_at := now\<rparr> else a"
  have "?a' \<in> set (accounts s')"
    using t a(1) not_src by (auto simp: transferred_def Let_def pair_moved_def image_iff intro!: bexI [of _ a])
  then show "\<exists>a'\<in>set (accounts s'). acc_id a' = acc_id a \<and>
      acc_owner_principal_id a' = acc_owner_principal_id a \<and> acc_balance_minor a \<le> acc_balance_minor a'"
    using amount by (intro bexI [of _ ?a']) (auto simp: in_money_range_def)
qed

lemma attempt_others_kept:
  assumes inv: "db_inv (at_before env s)" and amount: "in_money_range (minor amount)"
    and differ: "ct_sourceAccountId input \<noteq> ct_destinationAccountId input"
  shows "others_kept pid (at_before env s) (out_state (attempt_outcome cfg env amount input pid tid key s))"
proof -
  let ?s' = "out_state (attempt_outcome cfg env amount input pid tid key s)"
  consider "?s' = at_before env s"
    | t where "transfer_work (tc_outbox cfg) (at_now env) (at_entryIds env) (at_eventId env) amount input
        pid tid key (at_before env s) = Inr (t, ?s')"
    unfolding attempt_outcome_def runSerializable_def by (metis withTransaction_state)
  then show ?thesis
  proof cases
    case 2
    from transfer_work_InrD [OF 2 amount differ db_inv_keys(2,1) [OF inv]] transferred_others_kept
    show ?thesis using amount db_inv_keys(1) [OF inv] by blast
  qed (simp add: others_kept_refl)
qed

lemma create_attempts_others_kept:
  assumes quiet: "\<forall>i s. at_before (envs i) s = s" and amount: "in_money_range (minor amount)"
    and differ: "ct_sourceAccountId input \<noteq> ct_destinationAccountId input"
  shows "db_inv (tw_db w) \<Longrightarrow>
    create_attempts cfg envs amount input pid tid key t0 attempt left w = (r, w') \<Longrightarrow>
    others_kept pid (tw_db w) (tw_db w')"
proof (induction left arbitrary: attempt w)
  case (Suc left)
  define o1 where "o1 = attempt_outcome cfg (envs attempt) amount input pid tid key (tw_db w)"
  have fair: "attempts_fair envs" using quiet by (simp add: attempts_fair_def)
  have inv1: "db_inv (out_state o1)"
    unfolding o1_def by (rule attempt_outcome_state [OF fair Suc.prems(1)])
  have one: "others_kept pid (tw_db w) (out_state o1)"
    using attempt_others_kept [OF _ amount differ, of "envs attempt" "tw_db w"] Suc.prems(1) quiet
    by (simp add: o1_def)
  show ?case
  proof (cases "out_result o1")
    case (Inr t)
    from create_attempts_returned [where envs = envs and attempt = attempt and left = left,
        OF this [unfolded o1_def], folded o1_def] Suc.prems(2) one
    show ?thesis by auto
  next
    case (Inl e)
    note step = create_attempts_failed [where envs = envs and attempt = attempt and left = left and ?t0.0 = t0,
        OF Inl [unfolded o1_def], folded o1_def]
    show ?thesis
    proof (cases "\<not> retryable e \<or> attempt = tc_maxAttempts cfg")
      case True
      with step Suc.prems(2) one show ?thesis by (auto split: if_splits)
    next
      case False
      let ?w2 = "after_retry cfg (envs attempt) attempt tid e (w\<lparr>tw_db := out_state o1\<rparr>)"
      have "create_attempts cfg envs amount input pid tid key t0 (attempt + 1) left ?w2 = (r, w')"
        using False step Suc.prems(2) by simp
      with Suc.IH [of ?w2] inv1 one others_kept_trans show ?thesis by fastforce
    qed
  qed
qed (auto intro: others_kept_refl)

text \<open>
  Nobody can spend another principal's money.  However a call of \<open>create\<close> for a principal
  ends - returned, rejected, retried, its commit lost - no account that principal does not own
  has a smaller balance afterwards, or another owner.
\<close>

theorem create_spends_only_own_money:
  assumes "db_inv (tw_db w)" and "\<forall>i s. at_before (envs i) s = s"
  shows "others_kept pid (tw_db w) (tw_db (snd (create cfg envs tid t0 input pid key w)))"
proof (cases "fromMinor (StringArg (ct_amountMinor input))")
  case (Inl e)
  then show ?thesis by (simp add: create_def others_kept_refl)
next
  case (Inr amount)
  show ?thesis
  proof (cases "ct_sourceAccountId input = ct_destinationAccountId input")
    case True
    with Inr show ?thesis by (simp add: create_def others_kept_refl)
  next
    case False
    obtain r w' where run: "create_attempts cfg envs amount input pid tid key t0 1 (tc_maxAttempts cfg) w = (r, w')"
      by (cases "create_attempts cfg envs amount input pid tid key t0 1 (tc_maxAttempts cfg) w")
    from create_attempts_others_kept [OF assms(2) fromMinor_range [OF Inr] False assms(1) run] run Inr False
    show ?thesis by (simp add: create_def)
  qed
qed

section \<open>The stored answer\<close>

text \<open>
  A keyed transfer stores its answer with the money.  When \<open>create\<close> returns for a key, the
  key's claim - in progress until then - is completed by the same transaction, and any later
  claim of that key with the same request replays exactly this transfer with status 201,
  however long ago the first answer was lost.
\<close>

theorem keyed_transfer_replays:
  assumes inv: "db_inv (tw_db w)" and fair: "attempts_fair envs"
    and ok: "create cfg envs tid t0 input pid (Some key) w = (Inr t, w')"
    and p: "params_key p = (pid, key, ''transfer'')"
    and row: "claim_of (params_key p) (tw_db w') = Some row" "ir_request_fingerprint row = cp_fingerprint p"
  shows "\<exists>c. claim (\<lambda>_. quiet_env ins app upd) p (tw_db w') = (Inr c, tw_db w') \<and>
    cr_action c = Replay \<and> cr_response c = Some \<lparr>rsp_body = transfer_json t, rsp_status = Some 201\<rparr>"
proof -
  from create_Inr [OF inv fair ok] obtain amount s src dst i where
    inv': "db_inv (tw_db w')" and
    t: "t = transfer_of (at_now (envs i)) amount tid src dst" and
    moved: "transferred (tc_outbox cfg) (at_now (envs i)) (at_entryIds (envs i)) (at_eventId (envs i))
      amount pid tid (Some key) src dst s (tw_db w')" by blast
  then obtain r where r: "claim_of (pid, key, ''transfer'') (tw_db w') =
      Some (completed_with (at_now (envs i)) (transfer_json t) 201 r)"
    by (auto simp: transferred_def Let_def claim_settled_def t)
  have row_eq: "row = completed_with (at_now (envs i)) (transfer_json t) 201 r" using r row p by simp
  have "row \<in> set (idempotency_records (tw_db w'))" using claim_of_SomeD [OF row(1)] by simp
  with inv' have "key_ok (ir_key row) \<and> operation_ok (ir_operation row)"
    by (auto simp: db_inv_def idem_inv_def idem_row_ok_def)
  moreover have "ir_key row = cp_key p \<and> ir_operation row = cp_operation p"
    using claim_of_SomeD [OF row(1)] by (simp add: row_key_def params_key_def)
  ultimately have "key_ok (cp_key p)" "operation_ok (cp_operation p)" by simp_all
  from claim_completed [OF this row(1), of ins app upd] row row_eq
  show ?thesis
    by (simp add: completed_with_def replay_of_def toResponse_def toRecord_def json_param_def transfer_json_def)
qed

end
