(* ===== verification/Transfer_Success.thy ===== *)
theory Transfer_Success
  imports Transfer_Theorems
begin

text \<open>
  Which transfers succeed: on a calm server, with fresh identifiers, exactly those the service's
  checks let through - the database function and the triggers never refuse them.
\<close>

section \<open>The statements succeed\<close>

lemma card_two_accounts:
  assumes "distinct (map acc_id t)" and "src \<in> set t" and "dst \<in> set t" and "acc_id src \<noteq> acc_id dst"
    and "\<forall>x\<in>set t. acc_id x \<in> {acc_id src, acc_id dst} \<longrightarrow> p x"
  shows "length (select_where (\<lambda>x. acc_id x \<in> {acc_id src, acc_id dst} \<and> p x) t) = 2"
proof -
  have "set (filter (\<lambda>x. acc_id x \<in> {acc_id src, acc_id dst} \<and> p x) t) = {src, dst}"
    using assms distinct_map_eqD [OF assms(1)] by auto
  moreover have "distinct (filter (\<lambda>x. acc_id x \<in> {acc_id src, acc_id dst} \<and> p x) t)"
    using assms(1) by (simp add: distinct_map)
  ultimately have "length (filter (\<lambda>x. acc_id x \<in> {acc_id src, acc_id dst} \<and> p x) t) = card {src, dst}"
    by (metis distinct_card)
  moreover have "src \<noteq> dst" using assms(4) by auto
  ultimately show ?thesis by (simp add: select_where_def)
qed

text \<open>What a transfer needs of the identifiers drawn for it, and of the receiving balance.\<close>

definition fresh_ids :: "uuid \<Rightarrow> uuid list \<Rightarrow> uuid \<Rightarrow> db \<Rightarrow> bool" where
  "fresh_ids tid eids evid s \<longleftrightarrow>
    length tid \<le> 36 \<and> tid \<notin> lt_id ` set (ledger_transactions s) \<and>
    ''transfer:'' @ tid \<notin> lt_reference ` set (ledger_transactions s) \<and>
    tid \<notin> tr_id ` set (transfers s) \<and> length eids = 2 \<and> distinct eids \<and>
    set eids \<inter> je_id ` set (journal_entries s) = {} \<and> evid \<notin> ob_id ` set (outbox_events s)"

lemma insert_ledger_transaction_ok:
  "lt_type r \<in> {''funding'', ''transfer''} \<Longrightarrow> length (lt_reference r) \<le> 128 \<Longrightarrow>
    currency_ok (lt_currency r) \<Longrightarrow> lt_id r \<notin> lt_id ` set (ledger_transactions s) \<Longrightarrow>
    lt_reference r \<notin> lt_reference ` set (ledger_transactions s) \<Longrightarrow>
    insert_ledger_transaction r s = Inr ((), s\<lparr>ledger_transactions := ledger_transactions s @ [r]\<rparr>)"
  by (auto simp: insert_ledger_transaction_def tx_eval)

lemma insert_journal_entry_ok:
  "\<forall>t\<in>set (ledger_transactions s). lt_id t = je_transaction_id r \<longrightarrow> \<not> lt_finalized t \<Longrightarrow>
    0 < je_amount_minor r \<Longrightarrow> je_id r \<notin> je_id ` set (journal_entries s) \<Longrightarrow>
    (je_transaction_id r, je_currency r) \<in> (\<lambda>t. (lt_id t, lt_currency t)) ` set (ledger_transactions s) \<Longrightarrow>
    (je_account_id r, je_currency r) \<in> (\<lambda>a. (acc_id a, acc_currency a)) ` set (accounts s) \<Longrightarrow>
    insert_journal_entry r s = Inr ((), s\<lparr>journal_entries := journal_entries s @ [r]\<rparr>)"
  by (auto simp: insert_journal_entry_def tx_eval)

lemma update_balances_ok:
  assumes "\<forall>a\<in>set (accounts s). acc_id a \<in> fst ` set es \<longrightarrow> balance_error (post_delta now es a) = None"
  shows "update_balances now es s = Inr ((), s\<lparr>accounts :=
    update_where (\<lambda>a. acc_id a \<in> fst ` set es) (post_delta now es) (accounts s)\<rparr>)"
proof -
  have "first_error balance_error (select_where (\<lambda>a. acc_id a \<in> fst ` set es)
      (update_where (\<lambda>a. acc_id a \<in> fst ` set es) (post_delta now es) (accounts s))) = None"
    using assms unfolding first_error_None
    by (subst select_update_where) (auto simp: select_where_def)
  then show ?thesis by (simp add: update_balances_def tx_eval Let_def)
qed

lemma post_pair_ok:
  assumes ids: "distinct (map acc_id (accounts s))" and src: "src \<in> set (accounts s)"
    and dst: "dst \<in> set (accounts s)" and differ: "acc_id src \<noteq> acc_id dst"
    and active: "acc_status src = Account_active" "acc_status dst = Account_active"
    and cur: "acc_currency dst = acc_currency src" "currency_ok (acc_currency src)"
    and ty: "ty \<in> {''funding'', ''transfer''}" and ref: "length ref \<le> 128"
      "ref \<notin> lt_reference ` set (ledger_transactions s)"
    and tid: "tid \<notin> lt_id ` set (ledger_transactions s)"
    and eids: "e1 \<noteq> e2" "{e1, e2} \<inter> je_id ` set (journal_entries s) = {}" and m: "0 < m"
    and bal: "balance_error (src\<lparr>acc_balance_minor := acc_balance_minor src - m, acc_updated_at := now\<rparr>) = None"
      "balance_error (dst\<lparr>acc_balance_minor := acc_balance_minor dst + m, acc_updated_at := now\<rparr>) = None"
  shows "\<exists>row s'. post_ledger_transaction now tid ty ref [e1, e2] [acc_id src, acc_id dst]
    [Credit, Debit] [m, m] s = Inr (row, s')"
proof -
  let ?aids = "[acc_id src, acc_id dst]"
  let ?es = "[(acc_id src, Credit, m), (acc_id dst, Debit, m)]"
  have only: "x = src \<or> x = dst" if "x \<in> set (accounts s)" "acc_id x \<in> {acc_id src, acc_id dst}" for x
    using that distinct_map_eqD [OF ids that(1)] src dst by blast
  have act: "length (active_posting_accounts ?aids (accounts s)) = card (set ?aids)"
  proof -
    have "\<forall>x\<in>set (accounts s). acc_id x \<in> {acc_id src, acc_id dst} \<longrightarrow> acc_status x = Account_active"
      using only active by blast
    from card_two_accounts [OF ids src dst differ this] differ show ?thesis
      by (simp add: active_posting_accounts_def)
  qed
  have set_act: "set (active_posting_accounts ?aids (accounts s)) = {src, dst}"
    using only src dst active by (auto simp: active_posting_accounts_def set_select_where)
  have curs: "acc_currency ` set (posting_accounts ?aids (accounts s)) = {acc_currency src}"
    using only src dst cur by (auto simp: posting_accounts_def set_select_where)
  define c where "c = min_list (map acc_currency (active_posting_accounts ?aids (accounts s)))"
  have "map acc_currency (active_posting_accounts ?aids (accounts s)) \<noteq> []" using set_act by auto
  then have "c \<in> acc_currency ` {src, dst}"
    unfolding c_def set_act [symmetric] set_map [symmetric] by (simp add: min_list_Min)
  then have c: "c = acc_currency src" using cur by auto
  define s1 where "s1 = s\<lparr>ledger_transactions := ledger_transactions s @
    [\<lparr>lt_id = tid, lt_type = ty, lt_reference = ref, lt_currency = acc_currency src,
      lt_finalized = False, lt_created_at = now\<rparr>]\<rparr>"
  have ins: "insert_ledger_transaction \<lparr>lt_id = tid, lt_type = ty, lt_reference = ref,
      lt_currency = acc_currency src, lt_finalized = False, lt_created_at = now\<rparr> s = Inr ((), s1)"
    unfolding s1_def using ty ref tid cur(2) by (subst insert_ledger_transaction_ok) simp_all
  define s2 where "s2 = s1\<lparr>journal_entries := journal_entries s1 @ [entry_row now tid (acc_currency src) (e1, acc_id src, Credit, m)]\<rparr>"
  define s3 where "s3 = s2\<lparr>journal_entries := journal_entries s2 @ [entry_row now tid (acc_currency src) (e2, acc_id dst, Debit, m)]\<rparr>"
  have j1: "insert_journal_entry (entry_row now tid (acc_currency src) (e1, acc_id src, Credit, m)) s1 = Inr ((), s2)"
    unfolding s2_def using tid eids m src by (intro insert_journal_entry_ok) (auto simp: s1_def)
  have j2: "insert_journal_entry (entry_row now tid (acc_currency src) (e2, acc_id dst, Debit, m)) s2 = Inr ((), s3)"
    unfolding s3_def
  proof (rule insert_journal_entry_ok)
    have "(acc_id dst, acc_currency src) = (acc_id dst, acc_currency dst)" using cur(1) by simp
    then show "(je_account_id (entry_row now tid (acc_currency src) (e2, acc_id dst, Debit, m)),
        je_currency (entry_row now tid (acc_currency src) (e2, acc_id dst, Debit, m))) \<in>
        (\<lambda>a. (acc_id a, acc_currency a)) ` set (accounts s2)"
      using dst by (auto simp: s2_def s1_def)
  qed (use tid eids m in \<open>auto simp: s1_def s2_def\<close>)
  have s3_acc: "accounts s3 = accounts s" by (simp add: s3_def s2_def s1_def)
  have "balance_error (post_delta now ?es src) = None" "balance_error (post_delta now ?es dst) = None"
    using bal differ by (simp_all add: post_delta_def entry_delta_def signed_amount_def)
  then have "balance_error (post_delta now ?es a) = None"
    if "a \<in> set (accounts s3)" "acc_id a \<in> fst ` set ?es" for a
    using only [of a] that unfolding s3_acc by auto
  then have upd: "update_balances now ?es s3 = Inr ((), s3\<lparr>accounts :=
      update_where (\<lambda>a. acc_id a \<in> fst ` set ?es) (post_delta now ?es) (accounts s3)\<rparr>)"
    by (intro update_balances_ok ballI impI)
  show ?thesis
    using m act curs j1 j2 upd
    by (simp add: post_ledger_transaction_def tx_eval Let_def c_def [symmetric] c ins
        debit_total_def credit_total_def finalize_transaction_def)
qed

section \<open>The locked reads\<close>

definition canonical_accounts :: "db \<Rightarrow> bool" where
  "canonical_accounts s \<longleftrightarrow>
    (\<forall>a\<in>set (accounts s). uuid_in (acc_id a) = acc_id a \<and> currency_ok (acc_currency a))"

definition account_of :: "uuid \<Rightarrow> db \<Rightarrow> account_row option" where
  "account_of aid s = select_first (\<lambda>a. acc_id a = aid) (accounts s)"

lemma account_of_Some:
  "distinct (map acc_id (accounts s)) \<Longrightarrow> account_of aid s = Some a \<longleftrightarrow> a \<in> set (accounts s) \<and> acc_id a = aid"
  by (simp add: account_of_def select_first_Some_iff)

lemma find_locked:
  assumes ids: "distinct (map acc_id (accounts s))" and canon: "canonical_accounts s" and k: "k \<in> set ks"
  shows "find (\<lambda>a. lk_id a = k) (map toLocked (sort_key acc_id
      (select_where (\<lambda>a. acc_id a \<in> uuid_in ` set ks) (accounts s)))) =
    map_option toLocked (account_of k s)"
proof -
  let ?t = "sort_key acc_id (select_where (\<lambda>a. acc_id a \<in> uuid_in ` set ks) (accounts s))"
  have d: "distinct (map acc_id ?t)" using ids by (auto simp: select_where_def distinct_map inj_on_def)
  have "find (\<lambda>a. acc_id a = k) ?t = account_of k s"
  proof (cases "account_of k s")
    case None
    then have "k \<notin> acc_id ` set (accounts s)" by (simp add: account_of_def select_first_None_iff)
    then have "k \<notin> acc_id ` set ?t" by (auto simp: set_select_where)
    with None show ?thesis by (simp add: find_key_None)
  next
    case (Some a)
    then have a: "a \<in> set (accounts s)" "acc_id a = k" using account_of_Some [OF ids] by auto
    then have "acc_id a \<in> uuid_in ` set ks" using k canon by (force simp: canonical_accounts_def)
    with a have "a \<in> set ?t" by (simp add: set_select_where)
    with a Some show ?thesis using find_key_eq [OF d] by simp
  qed
  moreover have "find (\<lambda>a. lk_id a = k) (map toLocked u) = map_option toLocked (find (\<lambda>a. acc_id a = k) u)" for u
    by (induction u) auto
  ultimately show ?thesis by simp
qed

text \<open>Why a transfer between two accounts is refused, if it is.\<close>

definition transfer_verdict :: "Money \<Rightarrow> uuid \<Rightarrow> account_row option \<Rightarrow> account_row option \<Rightarrow> js_error option" where
  "transfer_verdict amount pid source destination =
    (case (source, destination) of
       (Some src, Some dst) \<Rightarrow>
         if acc_is_treasury src \<or> acc_is_treasury dst \<or> acc_owner_principal_id src \<noteq> Some pid
         then Some (transfer_error ''ACCOUNT_NOT_FOUND'' ''Account not found'')
         else if acc_status src \<noteq> Account_active \<or> acc_status dst \<noteq> Account_active
         then Some (transfer_error ''ACCOUNT_NOT_ACTIVE'' ''Both accounts must be active'')
         else if acc_currency src \<noteq> acc_currency dst
         then Some (transfer_error ''CURRENCY_MISMATCH'' ''Source and destination currencies must match'')
         else if acc_balance_minor src < minor amount
         then Some (transfer_error ''INSUFFICIENT_FUNDS'' ''Source account has insufficient funds'')
         else None
     | _ \<Rightarrow> Some (transfer_error ''ACCOUNT_NOT_FOUND'' ''Account not found''))"

lemma transfer_checks_verdict:
  assumes "find (\<lambda>a. lk_id a = ct_sourceAccountId input) locked = map_option toLocked source"
    and "find (\<lambda>a. lk_id a = ct_destinationAccountId input) locked = map_option toLocked destination"
  shows "transfer_checks amount input pid locked =
    (case transfer_verdict amount pid source destination of
       Some e \<Rightarrow> Inl e
     | None \<Rightarrow> Inr (toLocked (the source), toLocked (the destination)))"
  using assms by (cases source; cases destination) (auto simp: transfer_checks_def transfer_verdict_def Let_def)

lemma order_set: "set (deterministicAccountOrder a b) = {a, b}"
  by (auto simp: deterministicAccountOrder_def)

lemma transfer_work_verdict:
  fixes input :: CreateTransferInput and s :: db
  assumes ids: "distinct (map acc_id (accounts s))" and canon: "canonical_accounts s"
  defines "source \<equiv> account_of (ct_sourceAccountId input) s"
    and "destination \<equiv> account_of (ct_destinationAccountId input) s"
  shows "transfer_work outbox now eids evid amount input pid tid key s =
    (case transfer_verdict amount pid source destination of
       Some e \<Rightarrow> Inl e
     | None \<Rightarrow> postTransfer outbox now eids evid
        \<lparr>px_amountMinor = Money_toString amount, px_currency = acc_currency (the source),
         px_destinationAccountId = acc_id (the destination), px_id = tid,
         px_reference = ''transfer:'' @ tid, px_sourceAccountId = acc_id (the source),
         px_idempotency = map_option (\<lambda>k. (k, ''transfer'', pid)) key\<rparr> s)"
proof -
  let ?order = "deterministicAccountOrder (ct_sourceAccountId input) (ct_destinationAccountId input)"
  let ?locked = "map toLocked (sort_key acc_id
      (select_where (\<lambda>a. acc_id a \<in> uuid_in ` set ?order) (accounts s)))"
  have "find (\<lambda>a. lk_id a = ct_sourceAccountId input) ?locked = map_option toLocked source"
    "find (\<lambda>a. lk_id a = ct_destinationAccountId input) ?locked = map_option toLocked destination"
    unfolding source_def destination_def by (intro find_locked [OF ids canon]; simp add: order_set)+
  note checks = transfer_checks_verdict [OF this, of amount pid]
  show ?thesis
    unfolding transfer_work_def lockAccounts_def tx_bind_def tx_get_def
    using checks by (simp add: tx_lift_def split: option.split)
qed

section \<open>The decision\<close>

lemma verdict_None:
  "transfer_verdict amount pid source destination = None \<Longrightarrow>
    \<exists>src dst. source = Some src \<and> destination = Some dst \<and>
      (acc_id src \<noteq> acc_id dst \<longrightarrow> may_transfer amount pid src dst)"
  by (auto simp: transfer_verdict_def may_transfer_def split: option.splits if_splits)

definition key_claimed :: "uuid \<Rightarrow> string option \<Rightarrow> db \<Rightarrow> bool" where
  "key_claimed pid key s \<longleftrightarrow>
    (case key of
       None \<Rightarrow> True
     | Some k \<Rightarrow> (\<exists>r. claim_of (pid, k, ''transfer'') s = Some r \<and> ir_status r = In_progress))"

lemma complete_claim_ok:
  assumes "distinct (map row_key (idempotency_records s))"
    and "claim_of (pid, key, operation) s = Some r" and "ir_status r = In_progress"
  shows "\<exists>s'. complete_claim now key operation pid body status s = Inr ((), s')"
proof -
  obtain n s' where c: "complete now key operation pid body status s = Inr (n, s')"
    by (simp add: complete_eq)
  with complete_count(2) [OF assms(1) c] assms(2,3) have "n = 1" by auto
  with c show ?thesis by (simp add: complete_claim_def tx_eval)
qed

lemma postTransfer_ok:
  assumes inv: "db_inv s" and src: "src \<in> set (accounts s)" and dst: "dst \<in> set (accounts s)"
    and may: "may_transfer amount pid src dst" and amount: "in_money_range (minor amount)"
    and fresh: "fresh_ids tid eids evid s" and cur: "currency_ok (acc_currency src)"
    and room: "acc_balance_minor dst + minor amount \<le> bigint_max" and key: "key_claimed pid key s"
  shows "\<exists>t s'. postTransfer outbox now eids evid
      \<lparr>px_amountMinor = Money_toString amount, px_currency = acc_currency src,
       px_destinationAccountId = acc_id dst, px_id = tid, px_reference = ''transfer:'' @ tid,
       px_sourceAccountId = acc_id src,
       px_idempotency = map_option (\<lambda>k. (k, ''transfer'', pid)) key\<rparr> s = Inr (t, s')"
proof -
  have m: "0 < minor amount" "minor amount \<le> bigint_max"
    using amount by (simp_all add: in_money_range_def maximumMoneyMinor_def bigint_max_def)
  have ids: "distinct (map acc_id (accounts s))" and sound: "\<forall>a\<in>set (accounts s). account_sound s a"
    using inv db_inv_keys(1) by (auto simp: db_inv_def ledger_inv_def)
  have bal: "in_bigint (acc_balance_minor src)" "in_bigint (acc_balance_minor dst)"
      "0 \<le> acc_balance_minor dst" "minor amount \<le> acc_balance_minor src"
    using sound src dst may by (auto simp: account_sound_def account_row_ok_def may_transfer_def)
  obtain e1 e2 where eids: "eids = [e1, e2]"
    using fresh by (cases eids; cases "tl eids") (auto simp: fresh_ids_def)
  have "\<exists>row s1. post_ledger_transaction now tid ''transfer'' (''transfer:'' @ tid) [e1, e2]
      [acc_id src, acc_id dst] [Credit, Debit] [minor amount, minor amount] s = Inr (row, s1)"
  proof (rule post_pair_ok [OF ids src dst])
    show "balance_error (src\<lparr>acc_balance_minor := acc_balance_minor src - minor amount, acc_updated_at := now\<rparr>) = None"
      "balance_error (dst\<lparr>acc_balance_minor := acc_balance_minor dst + minor amount, acc_updated_at := now\<rparr>) = None"
      using bal m room may by (simp_all add: balance_error_def in_bigint_def account_row_ok_def)
  qed (use may fresh cur m in \<open>auto simp: may_transfer_def fresh_ids_def eids\<close>)
  then obtain row s1 where post: "post_ledger_transaction now tid ''transfer'' (''transfer:'' @ tid) eids
      [acc_id src, acc_id dst] [Credit, Debit] [minor amount, minor amount] s = Inr (row, s1)"
    unfolding eids by blast
  have differ: "acc_id src \<noteq> acc_id dst" using may by (simp add: may_transfer_def)
  obtain e1' e2' where row: "lt_id row = tid" "lt_type row = ''transfer''"
    and s1: "s1 = s\<lparr>ledger_transactions := ledger_transactions s @ [row],
            journal_entries := journal_entries s @
              [entry_row now tid (lt_currency row) (e1', acc_id src, Credit, minor amount),
               entry_row now tid (lt_currency row) (e2', acc_id dst, Debit, minor amount)],
            accounts := pair_moved now (acc_id src) (signed_amount Credit (minor amount))
              (acc_id dst) (signed_amount Debit (minor amount)) (accounts s)\<rparr>"
    and cur_row: "(acc_id src, lt_currency row) \<in> (\<lambda>x. (acc_id x, acc_currency x)) ` set (accounts s)"
    by (rule posting_pair [OF post differ]) blast
  have row_cur: "lt_currency row = acc_currency src" using cur_row distinct_map_eqD [OF ids src] by auto
  let ?tr = "\<lparr>tr_id = tid, tr_source_account_id = acc_id src, tr_destination_account_id = acc_id dst,
      tr_amount_minor = minor amount, tr_currency = acc_currency src\<rparr>"
  have pairs: "(\<lambda>a. (acc_id a, acc_currency a)) ` set (accounts s1) =
      (\<lambda>a. (acc_id a, acc_currency a)) ` set (accounts s)"
    unfolding s1 by (simp add: pair_moved_identities)
  have "insert_transfer ?tr s1 = Inr ((), s1\<lparr>transfers := transfers s1 @ [?tr]\<rparr>)"
  proof -
    have "(acc_id src, acc_currency src) \<in> (\<lambda>a. (acc_id a, acc_currency a)) ` set (accounts s1)"
      "(acc_id dst, acc_currency src) \<in> (\<lambda>a. (acc_id a, acc_currency a)) ` set (accounts s1)"
      unfolding pairs using src dst may by (auto simp: may_transfer_def image_iff)
    then show ?thesis
      using m cur differ fresh row row_cur
      by (simp add: insert_transfer_def tx_eval fresh_ids_def s1 image_iff)
  qed
  moreover have "evid \<notin> ob_id ` set (outbox_events s)" using fresh by (simp add: fresh_ids_def)
  moreover have "complete_claim now k ''transfer'' pid body 201 u = Inl e \<longleftrightarrow> False"
    if "key = Some k" "idempotency_records u = idempotency_records s" for k body u e
  proof -
    have "claim_of k' u = claim_of k' s" for k' by (simp add: claim_of_def that(2))
    with key that(1) obtain r where "claim_of (pid, k, ''transfer'') u = Some r" "ir_status r = In_progress"
      by (auto simp: key_claimed_def)
    with complete_claim_ok [of u pid k "''transfer''" r now body 201] db_inv_keys(2) [OF inv] that(2)
    show ?thesis by auto
  qed
  ultimately show ?thesis
    using post
    by (cases key; cases outbox)
      (auto simp: postTransfer_def tx_eval bigint_in_amount bigint_in_Money amount Let_def s1
        outbox_insert_def new_event_row_def transfer_event_def outboxCurrentEventVersion_def
        split: sum.splits)
qed

lemma verdict_not_retryable: "transfer_verdict amount pid source destination = Some e \<Longrightarrow> \<not> retryable e"
  by (auto simp: transfer_verdict_def retryable_def retryableDatabaseCodes_def split: option.splits if_splits)

definition calm_attempt :: "attempt_env \<Rightarrow> bool" where
  "calm_attempt env \<longleftrightarrow> at_tx env = calm \<and> (\<forall>s. at_before env s = s)"

lemma create_one_attempt:
  assumes "fromMinor (StringArg (ct_amountMinor input)) = Inr amount"
    and "ct_sourceAccountId input \<noteq> ct_destinationAccountId input" and "1 \<le> tc_maxAttempts cfg"
  shows "create cfg envs tid t0 input pid key w =
    create_attempts cfg envs amount input pid tid key t0 1 (Suc (tc_maxAttempts cfg - 1)) w"
  using assms by (simp add: create_def)

lemma create_decided:
  assumes inv: "db_inv (tw_db w)" and canon: "canonical_accounts (tw_db w)"
    and amount: "fromMinor (StringArg (ct_amountMinor input)) = Inr amount"
    and differ: "ct_sourceAccountId input \<noteq> ct_destinationAccountId input"
    and fresh: "fresh_ids tid (at_entryIds (envs 1)) (at_eventId (envs 1)) (tw_db w)"
    and room: "\<forall>a\<in>set (accounts (tw_db w)). acc_id a = ct_destinationAccountId input \<longrightarrow>
      acc_balance_minor a + minor amount \<le> bigint_max"
    and key: "key_claimed pid key (tw_db w)" and calm: "calm_attempt (envs 1)"
    and attempts: "1 \<le> tc_maxAttempts cfg"
  shows "case transfer_verdict amount pid (account_of (ct_sourceAccountId input) (tw_db w))
        (account_of (ct_destinationAccountId input) (tw_db w)) of
      Some e \<Rightarrow> fst (create cfg envs tid t0 input pid key w) = Inl e \<and>
        tw_db (snd (create cfg envs tid t0 input pid key w)) = tw_db w
    | None \<Rightarrow> \<exists>t. fst (create cfg envs tid t0 input pid key w) = Inr t"
proof -
  note One_nat_def [simp del]
  define s where "s = tw_db w"
  let ?src = "account_of (ct_sourceAccountId input) s" and ?dst = "account_of (ct_destinationAccountId input) s"
  let ?work = "transfer_work (tc_outbox cfg) (at_now (envs 1)) (at_entryIds (envs 1)) (at_eventId (envs 1))
      amount input pid tid key"
  have ids: "distinct (map acc_id (accounts s))" using db_inv_keys(1) [OF inv] by (simp add: s_def)
  have outcome: "attempt_outcome cfg (envs 1) amount input pid tid key s =
      withTransaction calm serializable_begin deferred_constraints ?work s"
    using calm by (simp add: attempt_outcome_def runSerializable_def calm_attempt_def)
  note one = create_one_attempt [OF amount differ attempts]
  note work = transfer_work_verdict [OF ids canon [folded s_def], of "tc_outbox cfg" "at_now (envs 1)"
      "at_entryIds (envs 1)" "at_eventId (envs 1)" amount input pid tid key]
  show ?thesis
  proof (cases "transfer_verdict amount pid ?src ?dst")
    case (Some e)
    then have res: "out_result (attempt_outcome cfg (envs 1) amount input pid tid key s) = Inl e"
      "out_state (attempt_outcome cfg (envs 1) amount input pid tid key s) = s"
      using work by (simp_all add: outcome withTransaction_calm)
    from create_attempts_failed [where envs = envs and attempt = 1 and w = w and left = "tc_maxAttempts cfg - 1"
        and ?t0.0 = t0, OF res(1) [unfolded s_def]] verdict_not_retryable [OF Some] res(2)
    have "create cfg envs tid t0 input pid key w = (Inl e, w\<lparr>tw_db := s\<rparr>)"
      by (simp add: one s_def)
    with Some show ?thesis by (simp add: s_def)
  next
    case None
    from verdict_None [OF None] obtain src dst where sd: "?src = Some src" "?dst = Some dst"
      and may: "acc_id src \<noteq> acc_id dst \<longrightarrow> may_transfer amount pid src dst" by blast
    then have src: "src \<in> set (accounts s)" "acc_id src = ct_sourceAccountId input"
      and dst: "dst \<in> set (accounts s)" "acc_id dst = ct_destinationAccountId input"
      using account_of_Some [OF ids] by auto
    have may': "may_transfer amount pid src dst" using may differ src dst by simp
    have cur: "currency_ok (acc_currency src)" using canon src by (simp add: canonical_accounts_def s_def)
    have fit: "acc_balance_minor dst + minor amount \<le> bigint_max" using room dst by (simp add: s_def)
    from postTransfer_ok [OF inv [folded s_def] src(1) dst(1) may' fromMinor_range [OF amount]
        fresh [folded s_def] cur fit key [folded s_def], of "tc_outbox cfg" "at_now (envs 1)"] work None sd
    obtain t s' where ok: "?work s = Inr (t, s')" by auto
    have "ledger_inv s'" using tx_keepsD [OF transfer_work_db_inv inv [folded s_def] ok] by (simp add: db_inv_def)
    then have res: "out_result (attempt_outcome cfg (envs 1) amount input pid tid key s) = Inr t"
      by (simp add: outcome withTransaction_calm ok ledger_inv_deferred)
    from create_attempts_returned [where envs = envs and attempt = 1 and w = w
        and left = "tc_maxAttempts cfg - 1" and ?t0.0 = t0, OF res [unfolded s_def]] None
    show ?thesis by (simp add: one s_def)
  qed
qed

text \<open>
  C14.  Which transfers are refused, and that all others go through.  With a calm server, fresh
  identifiers, the key (if any) claimed and room in the receiving balance, \<open>create\<close> refuses a
  request exactly for the first of these reasons - a missing, treasury or foreign account, an
  inactive one, different currencies, insufficient funds - and then changes nothing in the
  database; every other transfer succeeds: no check of the database, trigger or deferred
  constraint ever rejects what the service let through.
\<close>

theorem transfer_decision:
  assumes inv: "db_inv (tw_db w)" and canon: "canonical_accounts (tw_db w)"
    and amount: "fromMinor (StringArg (ct_amountMinor input)) = Inr amount"
    and differ: "ct_sourceAccountId input \<noteq> ct_destinationAccountId input"
    and fresh: "fresh_ids tid (at_entryIds (envs 1)) (at_eventId (envs 1)) (tw_db w)"
    and room: "\<forall>a\<in>set (accounts (tw_db w)). acc_id a = ct_destinationAccountId input \<longrightarrow>
      acc_balance_minor a + minor amount \<le> bigint_max"
    and key: "key_claimed pid key (tw_db w)" and calm: "calm_attempt (envs 1)"
    and attempts: "1 \<le> tc_maxAttempts cfg"
  shows "case transfer_verdict amount pid (account_of (ct_sourceAccountId input) (tw_db w))
        (account_of (ct_destinationAccountId input) (tw_db w)) of
      Some e \<Rightarrow> fst (create cfg envs tid t0 input pid key w) = Inl e \<and>
        tw_db (snd (create cfg envs tid t0 input pid key w)) = tw_db w
    | None \<Rightarrow> \<exists>t. fst (create cfg envs tid t0 input pid key w) = Inr t"
  by (rule create_decided [where envs = envs, OF assms])

end
