(* ===== verification/Funding.thy ===== *)
theory Funding
  imports Transfer_Theorems
begin

text \<open>
  What \<open>validatePosting\<close> accepts, what a funding moves, and that a keyed funding stores its
  answer with the money.
\<close>

section \<open>validatePosting\<close>

lemma add_entries_totals:
  "add_entries es (d, c) =
    (d + debit_total (map (\<lambda>e. (en_direction e, minor (en_amount e))) es),
     c + credit_total (map (\<lambda>e. (en_direction e, minor (en_amount e))) es))"
proof (induction es arbitrary: d c)
  case (Cons e es)
  then show ?case by (cases "en_direction e") (simp_all add: debit_total_def credit_total_def)
qed (simp add: debit_total_def credit_total_def)

text \<open>
  The service accepts a posting exactly when it has at least two entries, all of one currency,
  and equal totals of debits and credits - the same three conditions, by the same sums, the
  database function enforces - and names the first one that fails.
\<close>

theorem validatePosting_spec:
  "let es = map (\<lambda>e. (en_direction e, minor (en_amount e))) (po_entries input);
       one_currency = (\<exists>c. en_currency ` set (po_entries input) = {c}) in
    (validatePosting input = None \<longleftrightarrow>
      2 \<le> length es \<and> one_currency \<and> debit_total es = credit_total es) \<and>
    (case validatePosting input of None \<Rightarrow> True
     | Some e \<Rightarrow> (\<exists>msg code. e = CodedError LedgerError code msg \<and>
        code = (if length es < 2 then ''INVALID_POSTING''
                else if \<not> one_currency then ''MIXED_CURRENCY_POSTING''
                else ''UNBALANCED_POSTING'')))"
  by (auto simp: validatePosting_def Let_def add_entries_totals card_1_singleton_iff)

section \<open>One funding\<close>

text \<open>The tables a committed funding leaves.\<close>

definition funded ::
    "bool \<Rightarrow> instant \<Rightarrow> uuid list \<Rightarrow> uuid \<Rightarrow> Money \<Rightarrow> uuid \<Rightarrow> (string \<times> uuid) option
      \<Rightarrow> uuid \<Rightarrow> uuid \<Rightarrow> PostedTransaction \<Rightarrow> db \<Rightarrow> db \<Rightarrow> bool" where
  "funded outbox now eids evid amount tid idem account treasury posted s s' \<longleftrightarrow>
    (let body = funding_json (funding_result amount account posted);
         entry = (\<lambda>eid aid d. entry_row now tid (pt_currency posted) (eid, aid, d, minor amount)) in
     accounts s' = pair_moved now account (minor amount) treasury (- minor amount) (accounts s) \<and>
     ledger_transactions s' = ledger_transactions s @
       [\<lparr>lt_id = tid, lt_type = ''funding'', lt_reference = ''funding:'' @ tid,
         lt_currency = pt_currency posted, lt_finalized = True, lt_created_at = now\<rparr>] \<and>
     (\<exists>e1 e2. eids = [e1, e2] \<and> journal_entries s' = journal_entries s @
       [entry e1 account Debit, entry e2 treasury Credit]) \<and>
     transfers s' = transfers s \<and>
     length (outbox_events s') = length (outbox_events s) + (if outbox then 1 else 0) \<and>
     (case idem of
        None \<Rightarrow> idempotency_records s' = idempotency_records s
      | Some (key, pid) \<Rightarrow> claim_settled now ''funding'' pid (Some key) body s s'))"

lemma funding_posting_simps [simp]:
  "po_id (funding_posting tid amount account treasury cur) = tid"
  "po_type (funding_posting tid amount account treasury cur) = ''funding''"
  "po_reference (funding_posting tid amount account treasury cur) = ''funding:'' @ tid"
  "map en_accountId (po_entries (funding_posting tid amount account treasury cur)) = [account, treasury]"
  "map en_direction (po_entries (funding_posting tid amount account treasury cur)) = [Debit, Credit]"
  "map (\<lambda>e. Money_toString (en_amount e)) (po_entries (funding_posting tid amount account treasury cur)) =
    [Money_toString amount, Money_toString amount]"
  by (simp_all add: funding_posting_def)

lemma post_work_funding_InrD:
  assumes run: "post_work outbox now eids evid (funding_posting tid amount account treasury cur)
      (funding_claim amount account idem) s = Inr (posted, s')"
    and amount: "in_money_range (minor amount)" and differ: "account \<noteq> treasury"
    and keys: "distinct (map row_key (idempotency_records s))"
  shows "funded outbox now eids evid amount tid idem account treasury posted s s' \<and>
    pt_id posted = tid \<and> pt_createdAt posted = toISOString now \<and>
    (account, pt_currency posted) \<in> (\<lambda>x. (acc_id x, acc_currency x)) ` set (accounts s)"
proof -
  from run obtain row s1 u2 s2 u3 where
    post: "post_ledger_transaction now tid ''funding'' (''funding:'' @ tid) eids
        [account, treasury] [Debit, Credit] [minor amount, minor amount] s = Inr (row, s1)"
    and posted: "posted = toPosted row"
    and box: "(if outbox then outbox_insert now evid (posting_event
        (funding_posting tid amount account treasury cur) posted) else tx_return ()) s1 = Inr (u2, s2)"
    and idem: "(case idem of None \<Rightarrow> tx_return () | Some (key, pid) \<Rightarrow>
        complete_claim now key ''funding'' pid (funding_json (funding_result amount account posted)) 201) s2
        = Inr (u3, s')"
    using amount
    by (cases idem) (auto simp: post_work_def postWith_def tx_simps bigint_in_amount funding_claim_def
        fundingIdempotencyOperation_def simp del: bigints_in.simps)
  obtain e1 e2 where eids: "eids = [e1, e2]"
    and row: "lt_id row = tid" "lt_type row = ''funding''" "lt_reference row = ''funding:'' @ tid"
      "lt_finalized row" "lt_created_at row = now"
    and s1: "s1 = s\<lparr>ledger_transactions := ledger_transactions s @ [row],
            journal_entries := journal_entries s @
              [entry_row now tid (lt_currency row) (e1, account, Debit, minor amount),
               entry_row now tid (lt_currency row) (e2, treasury, Credit, minor amount)],
            accounts := pair_moved now account (signed_amount Debit (minor amount))
              treasury (signed_amount Credit (minor amount)) (accounts s)\<rparr>"
    and cur: "(account, lt_currency row) \<in> (\<lambda>x. (acc_id x, acc_currency x)) ` set (accounts s)"
    by (rule posting_pair [OF post differ]) blast
  have row_eq: "row = \<lparr>lt_id = tid, lt_type = ''funding'', lt_reference = ''funding:'' @ tid,
      lt_currency = lt_currency row, lt_finalized = True, lt_created_at = now\<rparr>"
    using row by simp
  have s2: "s2 = s1\<lparr>outbox_events := outbox_events s1 @ (if outbox then [new_event_row now evid
      (posting_event (funding_posting tid amount account treasury cur) posted)] else [])\<rparr>"
    using box by (auto simp: tx_return_apply dest: outbox_insert_InrD split: if_splits)
  have keys2: "distinct (map row_key (idempotency_records s2))"
    and recs2: "idempotency_records s2 = idempotency_records s" using keys by (simp_all add: s1 s2)
  have same: "claim_of k s2 = claim_of k s" for k by (simp add: claim_of_def recs2)
  have settled: "(case idem of
        None \<Rightarrow> idempotency_records s' = idempotency_records s
      | Some (key, pid) \<Rightarrow> claim_settled now ''funding'' pid (Some key)
          (funding_json (funding_result amount account posted)) s s') \<and>
      (accounts s', ledger_transactions s', journal_entries s', transfers s', outbox_events s') =
      (accounts s2, ledger_transactions s2, journal_entries s2, transfers s2, outbox_events s2)"
  proof (cases idem)
    case None
    with idem recs2 show ?thesis by (simp add: tx_return_apply)
  next
    case (Some kp)
    obtain key pid where kp: "kp = (key, pid)" by (cases kp)
    with idem Some have c: "complete_claim now key ''funding'' pid
        (funding_json (funding_result amount account posted)) 201 s2 = Inr (u3, s')" by simp
    from claim_settled_complete [OF keys2 c] complete_claim_InrD [OF keys2 c] Some kp show ?thesis
      by (auto simp: claim_settled_def same)
  qed
  have p: "pt_currency posted = lt_currency row" "pt_id posted = tid" "pt_createdAt posted = toISOString now"
    by (simp_all add: posted toPosted_def row)
  with settled eids row_eq cur show ?thesis
    unfolding funded_def Let_def p by (simp add: s2 s1 signed_amount_def)
qed

lemma post_work_plain:
  "post_work False now eids evid input None s = Inr (posted, s') \<longleftrightarrow>
    postWith now eids input s = Inr (posted, s')"
  by (auto simp: post_work_def tx_simps)

lemma store_post_InrD:
  "out_result (store_post env outbox now eids evid input idem s) = Inr posted \<Longrightarrow>
    post_work outbox now eids evid input idem s =
      Inr (posted, out_state (store_post env outbox now eids evid input idem s))"
  using single_statement_InrD [of env deferred_constraints "postWith now eids input" s posted]
    withTransaction_InrD [of env default_begin deferred_constraints "post_work outbox now eids evid input idem" s posted]
  by (auto simp: store_post_def post_work_plain split: if_splits)

lemma store_post_keeps:
  assumes "db_inv s"
  shows "db_inv (out_state (store_post env outbox now eids evid input idem s))"
proof (cases "\<not> outbox \<and> idem = None")
  case True
  then have "out_state (store_post env outbox now eids evid input idem s) = s \<or>
      (\<exists>a. postWith now eids input s = Inr (a, out_state (store_post env outbox now eids evid input idem s)))"
    using single_statement_state [of env deferred_constraints "postWith now eids input" s]
    by (auto simp: store_post_def)
  with assms tx_keepsD [OF postWith_db_inv assms] show ?thesis by metis
next
  case False
  then have "store_post env outbox now eids evid input idem s =
      withTransaction env default_begin deferred_constraints (post_work outbox now eids evid input idem) s"
    by (auto simp: store_post_def)
  with post_tx.transaction_keeps [OF assms] show ?thesis by simp
qed

text \<open>
  What other clients keep: the invariant, and - by the trigger of migrations/001 - the identity,
  currency and kind of every account.
\<close>

definition identities_kept :: "db \<Rightarrow> db \<Rightarrow> bool" where
  "identities_kept s s' \<longleftrightarrow>
    (\<forall>a\<in>set (accounts s). \<exists>a'\<in>set (accounts s'). acc_id a' = acc_id a \<and>
      acc_currency a' = acc_currency a \<and> acc_is_treasury a' = acc_is_treasury a)"

definition fund_fair :: "fund_env \<Rightarrow> bool" where
  "fund_fair env \<longleftrightarrow>
    (\<forall>s. db_inv s \<longrightarrow> db_inv (fe_before_treasury env s) \<and> identities_kept s (fe_before_treasury env s) \<and>
      db_inv (fe_before_post env s) \<and> identities_kept s (fe_before_post env s))"

lemma post_keeps: "io_keeps db_inv (post env outbox now eids evid input idem)"
  unfolding post_def
  by (auto split: option.split intro!: keeps_intros)
    (auto simp: io_keeps_def run_outcome_def Let_def store_post_keeps)

text \<open>A funding keeps the books whether it returns or throws.\<close>

theorem fundAccount_keeps_invariant:
  assumes "db_inv s" and "fund_fair env"
  shows "db_inv (snd (fundAccount outbox env input idem s))"
proof -
  have m: "io_keeps db_inv (io_modify (fe_before_treasury env))" "io_keeps db_inv (io_modify (fe_before_post env))"
    using assms(2) by (auto simp: io_keeps_def io_simps fund_fair_def)
  have "io_keeps db_inv (fundAccount outbox env input idem)"
    unfolding fundAccount_def
    by (intro keeps_intros m; auto split: option.split intro!: keeps_intros m post_keeps)
  then show ?thesis using assms(1) by (rule io_keepsD)
qed


end
