(* ===== verification/Auth.thy ===== *)
theory Auth
  imports Complex_Main Idempotency
begin

text \<open>
  src/modules/auth: principals, API keys and external identities.  SHA-256, the random bytes of
  a new key and Unicode normalization (NFC) are arguments.
\<close>

section \<open>auth-domain.ts\<close>

record Principal =
  p_createdAt :: string
  p_id :: uuid
  p_name :: string
  p_status :: principal_status

record ApiKeyRecord =
  kr_createdAt :: string
  kr_id :: uuid
  kr_keyPrefix :: string
  kr_principalId :: uuid
  kr_revokedAt :: "string option"

record IssuedApiKey =
  ik_record :: ApiKeyRecord
  ik_key :: string

record ApiKeyCandidate =
  cd_keyHash :: string
  cd_keyId :: uuid
  cd_principal :: Principal

definition administratorPrincipalId :: uuid where
  "administratorPrincipalId = ''00000000-0000-4000-8000-0000000000ad''"

definition apiKeyTag :: string where
  "apiKeyTag = ''pl_live_''"

definition apiKeyPrefixLength :: nat where
  "apiKeyPrefixLength = 12"

definition principalNameMaxLength :: nat where
  "principalNameMaxLength = 128"

definition starts_with :: "string \<Rightarrow> string \<Rightarrow> bool" where
  "starts_with s tag \<longleftrightarrow> take (length tag) s = tag"

definition apiKeyPrefixOf :: "string \<Rightarrow> string option" where
  "apiKeyPrefixOf secret =
    (if \<not> starts_with secret apiKeyTag then None
     else let body = drop (length apiKeyTag) secret in
       if length body < apiKeyPrefixLength then None else Some (take apiKeyPrefixLength body))"

abbreviation auth_error :: "string \<Rightarrow> string \<Rightarrow> js_error" where
  "auth_error code msg \<equiv> CodedError AuthError code msg"

section \<open>Provider text\<close>

text \<open>
  A JavaScript string as UTF-16 code units.  \<open>Array.from\<close> splits it into code points; a
  surrogate that is not part of a pair stays alone.
\<close>

definition high_surrogate :: "nat \<Rightarrow> bool" where
  "high_surrogate u \<longleftrightarrow> 0xD800 \<le> u \<and> u \<le> 0xDBFF"

definition low_surrogate :: "nat \<Rightarrow> bool" where
  "low_surrogate u \<longleftrightarrow> 0xDC00 \<le> u \<and> u \<le> 0xDFFF"

fun code_points :: "nat list \<Rightarrow> nat list" where
  "code_points (u # v # us) =
    (if high_surrogate u \<and> low_surrogate v
     then (0x10000 + (u - 0xD800) * 0x400 + (v - 0xDC00)) # code_points us
     else u # code_points (v # us))"
| "code_points us = us"

text \<open>\<open>[\p{Cc}\p{Cs}]\<close>: the control characters and the surrogates.\<close>

definition control_or_surrogate :: "nat \<Rightarrow> bool" where
  "control_or_surrogate c \<longleftrightarrow> c < 0x20 \<or> (0x7F \<le> c \<and> c \<le> 0x9F) \<or> (0xD800 \<le> c \<and> c \<le> 0xDFFF)"

text \<open>What \<open>String.prototype.trim\<close> removes: white space and line terminators.\<close>

definition js_space :: "nat \<Rightarrow> bool" where
  "js_space c \<longleftrightarrow> (9 \<le> c \<and> c \<le> 13) \<or> (0x2000 \<le> c \<and> c \<le> 0x200A) \<or>
    c \<in> {0x20, 0xA0, 0x1680, 0x2028, 0x2029, 0x202F, 0x205F, 0x3000, 0xFEFF}"

definition trim_points :: "nat list \<Rightarrow> nat list" where
  "trim_points s = rev (dropWhile js_space (rev (dropWhile js_space s)))"

text \<open>
  The text of code points: trimming it before or after they are joined is the same, as no white
  space lies outside the basic plane.
\<close>

definition sanitizeProviderText ::
    "(nat list \<Rightarrow> nat list) \<Rightarrow> nat list option \<Rightarrow> nat \<Rightarrow> nat list option" where
  "sanitizeProviderText nfc v maxLength =
    (case v of
       None \<Rightarrow> None
     | Some s \<Rightarrow>
         (let cleaned = trim_points
                (take maxLength (filter (\<lambda>c. \<not> control_or_surrogate c) (code_points (nfc s))))
          in if 0 < length cleaned then Some cleaned else None))"

text \<open>The same text in the database: UTF-8.\<close>

definition utf8_point :: "nat \<Rightarrow> string" where
  "utf8_point c =
    (if c < 0x80 then [char_of c]
     else if c < 0x800 then [char_of (0xC0 + c div 0x40), char_of (0x80 + c mod 0x40)]
     else if c < 0x10000 then
       [char_of (0xE0 + c div 0x1000), char_of (0x80 + c div 0x40 mod 0x40), char_of (0x80 + c mod 0x40)]
     else
       [char_of (0xF0 + c div 0x40000), char_of (0x80 + c div 0x1000 mod 0x40),
        char_of (0x80 + c div 0x40 mod 0x40), char_of (0x80 + c mod 0x40)])"

definition utf8 :: "nat list \<Rightarrow> string" where
  "utf8 s = concat (map utf8_point s)"

definition char_length :: "string \<Rightarrow> nat" where
  "char_length s = length (filter (\<lambda>c. \<not> (128 \<le> (of_char c :: nat) \<and> (of_char c :: nat) < 192)) s)"

record ExternalIdentity =
  xi_displayName :: "nat list option"
  xi_email :: "nat list option"
  xi_emailVerified :: bool
  xi_provider :: string
  xi_subject :: string

definition identityEmailMaxLength :: nat where
  "identityEmailMaxLength = 320"

definition principalNameFor :: "(nat list \<Rightarrow> nat list) \<Rightarrow> ExternalIdentity \<Rightarrow> string" where
  "principalNameFor nfc i =
    (case sanitizeProviderText nfc (xi_displayName i) principalNameMaxLength of
       Some n \<Rightarrow> utf8 n
     | None \<Rightarrow>
         (case sanitizeProviderText nfc (xi_email i) principalNameMaxLength of
            Some n \<Rightarrow> utf8 n
          | None \<Rightarrow> take principalNameMaxLength (xi_provider i @ '':'' @ xi_subject i)))"

section \<open>auth-repository.ts\<close>

definition toPrincipal :: "principal_row \<Rightarrow> Principal" where
  "toPrincipal r =
    \<lparr>p_createdAt = toISOString (pr_created_at r), p_id = pr_id r, p_name = pr_name r, p_status = pr_status r\<rparr>"

definition toApiKeyRecord :: "api_key_row \<Rightarrow> ApiKeyRecord" where
  "toApiKeyRecord r =
    \<lparr>kr_createdAt = toISOString (ak_created_at r), kr_id = ak_id r, kr_keyPrefix = ak_key_prefix r,
     kr_principalId = ak_principal_id r, kr_revokedAt = map_option toISOString (ak_revoked_at r)\<rparr>"

definition createPrincipal :: "instant \<Rightarrow> uuid \<Rightarrow> string \<Rightarrow> Principal db_tx" where
  "createPrincipal now pid name =
    (let row = \<lparr>pr_id = pid, pr_name = name, pr_status = Principal_active, pr_created_at = now\<rparr> in
    tx_bind (tx_require (1 \<le> char_length name \<and> char_length name \<le> 128)
      (check_violation ''principals_name_check'')) (\<lambda>_.
    tx_bind (tx_get principals) (\<lambda>t.
    tx_bind (tx_require (pid \<notin> pr_id ` set t) (unique_violation ''principals_pkey'')) (\<lambda>_.
    tx_bind (tx_modify (\<lambda>s. s\<lparr>principals := t @ [row]\<rparr>)) (\<lambda>_.
    tx_return (toPrincipal row))))))"

definition findPrincipalById :: "string \<Rightarrow> db \<Rightarrow> Principal option" where
  "findPrincipalById pid s = map_option toPrincipal (select_first (\<lambda>r. pr_id r = uuid_in pid) (principals s))"

text \<open>The join: the live key with this prefix, and its principal.\<close>

definition findKeyCandidateByPrefix :: "string \<Rightarrow> db \<Rightarrow> ApiKeyCandidate option" where
  "findKeyCandidateByPrefix keyPrefix s =
    (case select_first (\<lambda>k. ak_key_prefix k = keyPrefix \<and> ak_revoked_at k = None) (api_keys s) of
       None \<Rightarrow> None
     | Some k \<Rightarrow>
         map_option (\<lambda>r. \<lparr>cd_keyHash = ak_key_hash k, cd_keyId = ak_id k, cd_principal = toPrincipal r\<rparr>)
           (select_first (\<lambda>r. pr_id r = ak_principal_id k) (principals s)))"

definition insertApiKey :: "instant \<Rightarrow> uuid \<Rightarrow> string \<Rightarrow> string \<Rightarrow> uuid \<Rightarrow> ApiKeyRecord db_tx" where
  "insertApiKey now kid keyHash keyPrefix principalId =
    (let row = \<lparr>ak_id = kid, ak_principal_id = principalId, ak_key_prefix = keyPrefix,
                ak_key_hash = keyHash, ak_created_at = now, ak_revoked_at = None\<rparr> in
    tx_bind (tx_require (length keyPrefix = 12) (check_violation ''api_keys_key_prefix_check'')) (\<lambda>_.
    tx_bind (tx_require (length keyHash = 64) (check_violation ''api_keys_key_hash_check'')) (\<lambda>_.
    tx_bind (tx_get (\<lambda>s. s)) (\<lambda>s.
    tx_bind (tx_require (kid \<notin> ak_id ` set (api_keys s)) (unique_violation ''api_keys_pkey'')) (\<lambda>_.
    tx_bind (tx_require (keyPrefix \<notin> ak_key_prefix ` set (api_keys s))
      (unique_violation ''api_keys_key_prefix_key'')) (\<lambda>_.
    tx_bind (tx_require (principalId \<in> pr_id ` set (principals s))
      (foreign_key_violation ''api_keys_principal_id_fkey'')) (\<lambda>_.
    tx_bind (tx_modify (\<lambda>s. s\<lparr>api_keys := api_keys s @ [row]\<rparr>)) (\<lambda>_.
    tx_return (toApiKeyRecord row)))))))))"

definition store_revokeApiKey :: "instant \<Rightarrow> string \<Rightarrow> bool db_tx" where
  "store_revokeApiKey now kid =
    tx_bind (tx_get api_keys) (\<lambda>t.
    tx_bind (tx_modify (\<lambda>s. s\<lparr>api_keys := update_where (\<lambda>k. ak_id k = uuid_in kid)
        (\<lambda>k. k\<lparr>ak_revoked_at := (case ak_revoked_at k of None \<Rightarrow> Some now | Some r \<Rightarrow> Some r)\<rparr>) t\<rparr>)) (\<lambda>_.
    tx_return (0 < count_where (\<lambda>k. ak_id k = uuid_in kid) t)))"

definition findPrincipalByIdentity :: "string \<Rightarrow> string \<Rightarrow> db \<Rightarrow> Principal option" where
  "findPrincipalByIdentity provider subject s =
    (case select_first (\<lambda>i. pid_provider i = provider \<and> pid_subject i = subject) (principal_identities s) of
       None \<Rightarrow> None
     | Some i \<Rightarrow> map_option toPrincipal (select_first (\<lambda>r. pr_id r = pid_principal_id i) (principals s)))"

definition identity_key :: "identity_row \<Rightarrow> string \<times> string" where
  "identity_key i = (pid_provider i, pid_subject i)"

text \<open>INSERT INTO principal_identities ... ON CONFLICT DO NOTHING, with its \<open>rowCount\<close>.\<close>

definition insert_identity :: "identity_row \<Rightarrow> nat db_tx" where
  "insert_identity i =
    tx_bind (tx_require (pid_provider i = ''firebase'') (check_violation ''principal_identities_provider_check'')) (\<lambda>_.
    tx_bind (tx_require (1 \<le> char_length (pid_subject i) \<and> char_length (pid_subject i) \<le> 128)
      (check_violation ''principal_identities_subject_check'')) (\<lambda>_.
    tx_bind (tx_get principal_identities) (\<lambda>t.
    case insert_unique identity_key i t of
      None \<Rightarrow> tx_return 0
    | Some t' \<Rightarrow>
        tx_bind (tx_require (pid_principal_id i \<notin> pid_principal_id ` set t)
          (unique_violation ''principal_identities_principal_id_key'')) (\<lambda>_.
        tx_bind (tx_modify (\<lambda>s. s\<lparr>principal_identities := t'\<rparr>)) (\<lambda>_. tx_return 1)))))"

definition provision_work :: "instant \<Rightarrow> uuid \<Rightarrow> string \<Rightarrow> string \<Rightarrow> string option \<Rightarrow> string \<Rightarrow> Principal db_tx" where
  "provision_work now pid provider subject email name =
    tx_bind (createPrincipal now pid name) (\<lambda>principal.
    tx_bind (insert_identity
      \<lparr>pid_provider = provider, pid_subject = subject, pid_principal_id = pid, pid_email = email,
       pid_created_at = now\<rparr>) (\<lambda>rowCount.
    tx_bind (tx_require (rowCount = 1) IdentityAlreadyMapped) (\<lambda>_.
    tx_return principal)))"

text \<open>\<open>before_reread\<close> is what other clients do between the rolled-back attempt and the second read.\<close>

record provision_env =
  pv_tx :: tx_env
  pv_now :: instant
  pv_id :: uuid
  pv_before_reread :: "db \<Rightarrow> db"

definition createPrincipalForIdentity ::
    "provision_env \<Rightarrow> string \<Rightarrow> string \<Rightarrow> string option \<Rightarrow> string \<Rightarrow> Principal db_io" where
  "createPrincipalForIdentity env provider subject email name = (\<lambda>s.
    let r = withTransaction (pv_tx env) default_begin deferred_constraints
              (provision_work (pv_now env) (pv_id env) provider subject email name) s
    in case out_result r of
         Inr created \<Rightarrow> (Inr created, out_state r)
       | Inl e \<Rightarrow>
           if e \<noteq> IdentityAlreadyMapped then (Inl e, out_state r)
           else
             (let s' = pv_before_reread env (out_state r) in
              case findPrincipalByIdentity provider subject s' of
                None \<Rightarrow> (Inl (PlainError ''identity mapping vanished after a conflicting insert''), s')
              | Some winner \<Rightarrow> (Inr winner, s')))"

section \<open>auth-service.ts\<close>

text \<open>\<open>sha256_hex\<close> is node's SHA-256 in hexadecimal; \<open>random_body\<close> the base64url text of 32 bytes.\<close>

definition generateApiKey :: "(string \<Rightarrow> string) \<Rightarrow> string \<Rightarrow> string \<times> string \<times> string" where
  "generateApiKey sha256_hex random_body =
    (let secret = apiKeyTag @ random_body in
     (sha256_hex secret, take apiKeyPrefixLength (drop (length apiKeyTag) secret), secret))"

definition hashesMatch :: "string \<Rightarrow> string \<Rightarrow> bool" where
  "hashesMatch l r \<longleftrightarrow> length l = length r \<and> list_all2 (=) l r"

definition authenticate :: "(string \<Rightarrow> string) \<Rightarrow> string \<Rightarrow> Principal db_io" where
  "authenticate sha256_hex secret =
    (case apiKeyPrefixOf secret of
       None \<Rightarrow> io_throw (auth_error ''UNAUTHORIZED'' ''Invalid API key'')
     | Some prefix \<Rightarrow>
         io_bind (io_get (findKeyCandidateByPrefix prefix)) (\<lambda>candidate.
         case candidate of
           None \<Rightarrow> io_throw (auth_error ''UNAUTHORIZED'' ''Invalid API key'')
         | Some c \<Rightarrow>
             if \<not> hashesMatch (cd_keyHash c) (sha256_hex secret)
             then io_throw (auth_error ''UNAUTHORIZED'' ''Invalid API key'')
             else if p_status (cd_principal c) \<noteq> Principal_active
             then io_throw (auth_error ''UNAUTHORIZED'' ''Invalid API key'')
             else io_return (cd_principal c)))"

definition authenticateIdentity ::
    "(nat list \<Rightarrow> nat list) \<Rightarrow> (db \<Rightarrow> db) \<Rightarrow> provision_env \<Rightarrow> ExternalIdentity \<Rightarrow> Principal db_io" where
  "authenticateIdentity nfc between env i =
    (if \<not> xi_emailVerified i then
       io_throw (auth_error ''EMAIL_NOT_VERIFIED'' ''Verify your email address before signing in'')
     else
       io_bind (io_get (findPrincipalByIdentity (xi_provider i) (xi_subject i))) (\<lambda>found.
       io_bind (case found of
           Some p \<Rightarrow> io_return p
         | None \<Rightarrow>
             io_bind (io_modify between) (\<lambda>_.
             createPrincipalForIdentity env (xi_provider i) (xi_subject i)
               (map_option utf8 (sanitizeProviderText nfc (xi_email i) identityEmailMaxLength))
               (principalNameFor nfc i))) (\<lambda>principal.
       if p_status principal \<noteq> Principal_active
       then io_throw (auth_error ''UNAUTHORIZED'' ''Invalid credentials'')
       else io_return principal)))"

definition issueApiKey ::
    "(string \<Rightarrow> string) \<Rightarrow> (db \<Rightarrow> db) \<Rightarrow> instant \<Rightarrow> uuid \<Rightarrow> string \<Rightarrow> string \<Rightarrow> IssuedApiKey db_io" where
  "issueApiKey sha256_hex between now kid random_body principalId =
    io_bind (io_get (findPrincipalById principalId)) (\<lambda>found.
    case found of
      None \<Rightarrow> io_throw (auth_error ''PRINCIPAL_NOT_FOUND'' ''Principal not found'')
    | Some _ \<Rightarrow>
        (case generateApiKey sha256_hex random_body of (keyHash, keyPrefix, secret) \<Rightarrow>
          io_bind (io_modify between) (\<lambda>_.
          io_bind (auto_commit (insertApiKey now kid keyHash keyPrefix (uuid_in principalId))) (\<lambda>record.
          io_return \<lparr>ik_record = record, ik_key = secret\<rparr>))))"

definition revokeApiKey :: "instant \<Rightarrow> string \<Rightarrow> unit db_io" where
  "revokeApiKey now kid =
    io_bind (auto_commit (store_revokeApiKey now kid)) (\<lambda>revoked.
    io_require revoked (auth_error ''API_KEY_NOT_FOUND'' ''API key not found''))"

end
