(* ===== verification/Sample.thy ===== *)
theory Sample
  imports Transfer_Success Transfer_Theorems Funding Auth
begin

text \<open>
  A concrete database on which the theorems' hypotheses hold: a customer who was funded once, a
  second customer, claims and outbox events in each of their states, one consumed event, one
  API key and one external identity.  The whole-database invariant is proved of it.
\<close>

section \<open>Identifiers and rows\<close>

definition t0 :: instant where
  "t0 = 1700000000000000"

definition alice :: uuid where
  "alice = ''00000000-0000-4000-8000-0000000000a1''"

definition bob :: uuid where
  "bob = ''00000000-0000-4000-8000-0000000000b1''"

definition alice_account :: uuid where
  "alice_account = ''10000000-0000-4000-8000-0000000000a1''"

definition bob_account :: uuid where
  "bob_account = ''10000000-0000-4000-8000-0000000000b1''"

definition inr_treasury :: uuid where
  "inr_treasury = ''00000000-0000-4000-8000-000000000001''"

definition funding_id :: uuid where
  "funding_id = ''20000000-0000-4000-8000-000000000001''"

definition customer_row :: "uuid \<Rightarrow> uuid \<Rightarrow> int \<Rightarrow> account_row" where
  "customer_row aid owner balance =
    \<lparr>acc_id = aid, acc_currency = ''INR'', acc_status = Account_active, acc_balance_minor = balance,
     acc_is_treasury = False, acc_owner_principal_id = Some owner, acc_created_at = t0,
     acc_updated_at = t0\<rparr>"

definition sample_claim :: "uuid \<Rightarrow> string \<Rightarrow> string \<Rightarrow> instant \<Rightarrow> idempotency_row" where
  "sample_claim pid key fp created =
    \<lparr>ir_principal_id = pid, ir_key = key, ir_operation = ''transfer'', ir_request_fingerprint = fp,
     ir_status = In_progress, ir_response_status_code = None, ir_response_body = None,
     ir_created_at = created, ir_completed_at = None\<rparr>"

definition sample_event :: "string \<Rightarrow> outbox_status \<Rightarrow> attempt_time option \<Rightarrow> outbox_row" where
  "sample_event eid status next =
    \<lparr>ob_id = eid, ob_aggregate_id = funding_id, ob_aggregate_type = ''funding'',
     ob_event_type = ''funding.created'', ob_event_version = 1, ob_payload = JObject [],
     ob_status = status, ob_attempts = (if next = None then 0 else 5), ob_last_error = None,
     ob_next_attempt_at = next, ob_processed_at = (if status = Processed then Some t0 else None),
     ob_created_at = t0\<rparr>"

definition due_event :: uuid where "due_event = ''30000000-0000-4000-8000-000000000001''"

definition parked_event :: uuid where "parked_event = ''30000000-0000-4000-8000-000000000002''"

definition done_event :: uuid where "done_event = ''30000000-0000-4000-8000-000000000003''"

definition leased_event :: uuid where "leased_event = ''30000000-0000-4000-8000-000000000004''"

definition alice_key_hash :: string where
  "alice_key_hash = replicate 64 (CHR ''a'')"

definition sample_db :: db where
  "sample_db =
    \<lparr>accounts =
       [treasury_row t0 ''00000000-0000-4000-8000-000000000002'' ''USD'',
        (treasury_row t0 inr_treasury ''INR'')\<lparr>acc_balance_minor := - 1000\<rparr>,
        customer_row alice_account alice 1000, customer_row bob_account bob 0],
     ledger_transactions =
       [\<lparr>lt_id = funding_id, lt_type = ''funding'', lt_reference = ''funding:'' @ funding_id,
         lt_currency = ''INR'', lt_finalized = True, lt_created_at = t0\<rparr>],
     journal_entries =
       [\<lparr>je_id = ''e1'', je_transaction_id = funding_id, je_account_id = alice_account,
         je_currency = ''INR'', je_direction = Debit, je_amount_minor = 1000, je_created_at = t0\<rparr>,
        \<lparr>je_id = ''e2'', je_transaction_id = funding_id, je_account_id = inr_treasury,
         je_currency = ''INR'', je_direction = Credit, je_amount_minor = 1000, je_created_at = t0\<rparr>],
     transfers = [],
     idempotency_records =
       [sample_claim alice ''pay-1'' ''fp1'' t0, sample_claim bob ''pay-2'' ''fp2'' 0,
        (sample_claim alice ''pay-0'' ''fp0'' 0)\<lparr>ir_status := Completed,
          ir_response_status_code := Some 201, ir_response_body := Some (JObject []),
          ir_completed_at := Some 5000\<rparr>],
     outbox_events =
       [sample_event due_event Pending None, sample_event parked_event Failed (Some Infinity_time),
        sample_event done_event Processed None, sample_event leased_event Processing (Some (At t0))],
     consumer_inbox =
       [\<lparr>in_consumer_name = auditConsumerName, in_event_id = done_event, in_processed_at = t0\<rparr>],
     audit_effects =
       [\<lparr>ae_id = ''x1'', ae_event_id = done_event, ae_aggregate_id = funding_id,
         ae_aggregate_type = ''funding'', ae_event_type = ''funding.created'',
         ae_payload = JObject [], ae_created_at = t0\<rparr>],
     principals =
       principals (initial_db t0) @
       [\<lparr>pr_id = alice, pr_name = ''Alice'', pr_status = Principal_active, pr_created_at = t0\<rparr>,
        \<lparr>pr_id = bob, pr_name = ''Bob'', pr_status = Principal_active, pr_created_at = t0\<rparr>],
     api_keys =
       [\<lparr>ak_id = ''k1'', ak_principal_id = alice, ak_key_prefix = ''AAAAAAAAAAAA'',
         ak_key_hash = alice_key_hash, ak_created_at = t0, ak_revoked_at = None\<rparr>],
     principal_identities =
       [\<lparr>pid_provider = ''firebase'', pid_subject = ''alice-uid'', pid_principal_id = alice,
         pid_email = None, pid_created_at = t0\<rparr>]\<rparr>"

lemmas sample_defs =
  sample_db_def t0_def alice_def bob_def alice_account_def bob_account_def inr_treasury_def
  funding_id_def customer_row_def sample_claim_def sample_event_def due_event_def parked_event_def
  done_event_def leased_event_def alice_key_hash_def treasury_row_def initial_db_def
  admin_principal_id_def

section \<open>It is a state of the service\<close>

lemma sample_ledger_keys: "ledger_keys sample_db"
  by code_simp

lemma sample_ledger: "ledger_inv sample_db"
  unfolding ledger_inv_def
  by (intro conjI sample_ledger_keys) (code_simp)+

lemma sample_idem: "idem_inv sample_db"
  by code_simp

lemma sample_outbox: "outbox_inv sample_db"
  by code_simp

lemma sample_audit: "audit_inv sample_db"
  unfolding audit_inv_def by (auto simp: sample_db_def inbox_key_def)

lemma sample_inv: "db_inv sample_db"
  unfolding db_inv_def
  using sample_ledger sample_idem sample_outbox sample_audit by (simp add: sample_db_def)

end
