(* ===== verification/Reconciliation.thy ===== *)
theory Reconciliation
  imports Ledger_Invariant
begin

text \<open>
  src/modules/reconciliation: recomputing every balance from the journal and reporting where the
  cached one differs.  The query's rows are the accounts joined (FULL OUTER JOIN) with the sums
  of the journal per account and currency, ordered by account id.
\<close>

section \<open>reconciliation-domain.ts\<close>

datatype issue_type = Mismatched | Missing | Unexpected

record ReconciliationIssue =
  is_accountId :: uuid
  is_cachedBalanceMinor :: "string option"
  is_computedBalanceMinor :: string
  is_currency :: string
  is_type :: issue_type

record ReconciliationReport =
  rp_accountsChecked :: nat
  rp_generatedAt :: string
  rp_issues :: "ReconciliationIssue list"
  rp_ok :: bool

section \<open>reconciliation-repository.ts: the query\<close>

text \<open>GROUP BY account_id, currency: one group per pair that occurs, with its sum.\<close>

definition journal_groups :: "journal_entry_row list \<Rightarrow> (uuid \<times> string) list" where
  "journal_groups t = remdups (map (\<lambda>e. (je_account_id e, je_currency e)) t)"

definition group_sum :: "journal_entry_row list \<Rightarrow> uuid \<times> string \<Rightarrow> int" where
  "group_sum t g =
    sum_list (map (\<lambda>e. if (je_account_id e, je_currency e) = g
                       then signed_amount (je_direction e) (je_amount_minor e) else 0) t)"

record reconciliation_row =
  rr_account_id :: uuid
  rr_cached_balance :: "string option"
  rr_computed_balance :: string
  rr_currency :: string
  rr_no_journal_support :: bool
  rr_unexpected :: bool

definition matched_row :: "account_row \<Rightarrow> (uuid \<times> string) option \<Rightarrow> journal_entry_row list \<Rightarrow> reconciliation_row" where
  "matched_row a g t =
    \<lparr>rr_account_id = acc_id a, rr_cached_balance = Some (bigint_text (acc_balance_minor a)),
     rr_computed_balance = bigint_text (case g of None \<Rightarrow> 0 | Some g' \<Rightarrow> group_sum t g'),
     rr_currency = acc_currency a, rr_no_journal_support = (g = None), rr_unexpected = False\<rparr>"

definition orphan_row :: "uuid \<times> string \<Rightarrow> journal_entry_row list \<Rightarrow> reconciliation_row" where
  "orphan_row g t =
    \<lparr>rr_account_id = fst g, rr_cached_balance = None, rr_computed_balance = bigint_text (group_sum t g),
     rr_currency = snd g, rr_no_journal_support = False, rr_unexpected = True\<rparr>"

definition account_rows :: "db \<Rightarrow> account_row \<Rightarrow> reconciliation_row list" where
  "account_rows s a =
    (let gs = filter (\<lambda>g. fst g = acc_id a) (journal_groups (journal_entries s)) in
     if gs = [] then [matched_row a None (journal_entries s)]
     else map (\<lambda>g. matched_row a (Some g) (journal_entries s)) gs)"

definition orphan_rows :: "db \<Rightarrow> reconciliation_row list" where
  "orphan_rows s =
    map (\<lambda>g. orphan_row g (journal_entries s))
      (filter (\<lambda>g. fst g \<notin> acc_id ` set (accounts s)) (journal_groups (journal_entries s)))"

definition reconciliation_rows :: "db \<Rightarrow> reconciliation_row list" where
  "reconciliation_rows s =
    sort_key rr_account_id (concat (map (account_rows s) (accounts s)) @ orphan_rows s)"

section \<open>The report\<close>

definition issue_of :: "reconciliation_row \<Rightarrow> ReconciliationIssue option" where
  "issue_of row =
    (if rr_unexpected row then
       Some \<lparr>is_accountId = rr_account_id row, is_cachedBalanceMinor = None,
             is_computedBalanceMinor = rr_computed_balance row, is_currency = rr_currency row,
             is_type = Unexpected\<rparr>
     else if rr_no_journal_support row \<and> rr_cached_balance row \<noteq> Some ''0'' then
       Some \<lparr>is_accountId = rr_account_id row, is_cachedBalanceMinor = rr_cached_balance row,
             is_computedBalanceMinor = ''0'', is_currency = rr_currency row, is_type = Missing\<rparr>
     else if rr_cached_balance row \<noteq> Some (rr_computed_balance row) then
       Some \<lparr>is_accountId = rr_account_id row, is_cachedBalanceMinor = rr_cached_balance row,
             is_computedBalanceMinor = rr_computed_balance row, is_currency = rr_currency row,
             is_type = Mismatched\<rparr>
     else None)"

text \<open>The loop: an issue is pushed for each row that has one.\<close>

fun collect_issues :: "reconciliation_row list \<Rightarrow> ReconciliationIssue list \<Rightarrow> ReconciliationIssue list" where
  "collect_issues [] issues = issues"
| "collect_issues (row # rows) issues =
    (case issue_of row of
       None \<Rightarrow> collect_issues rows issues
     | Some i \<Rightarrow> collect_issues rows (issues @ [i]))"

text \<open>
  The two statements run one after the other: the accounts are counted in \<open>s\<close>, the rows read
  in \<open>s'\<close>.
\<close>

definition reconcile :: "int \<Rightarrow> db \<Rightarrow> db \<Rightarrow> ReconciliationReport" where
  "reconcile now_ms s s' =
    (let issues = collect_issues (reconciliation_rows s') [] in
     \<lparr>rp_accountsChecked = length (accounts s), rp_generatedAt = iso_of_ms now_ms,
      rp_issues = issues, rp_ok = (issues = [])\<rparr>)"

text \<open>reconcile-cli.ts: the lines it prints after the report, and the exit code.\<close>

datatype cli_line = Stdout string | Stderr string

definition reconcile_cli :: "ReconciliationReport \<Rightarrow> cli_line \<times> nat" where
  "reconcile_cli report =
    (if rp_ok report then
       (Stdout (''Reconciliation clean: '' @ nat_text (rp_accountsChecked report) @
          '' account(s) checked, 0 issues''), 0)
     else
       (Stderr (''Reconciliation found '' @ nat_text (length (rp_issues report)) @ '' issue(s)''), 1))"

section \<open>What a clean report means\<close>

lemma collect_issues_eq:
  "collect_issues rows issues = issues @ map (\<lambda>r. the (issue_of r)) (filter (\<lambda>r. issue_of r \<noteq> None) rows)"
  by (induction rows arbitrary: issues) (auto split: option.splits)

lemma bigint_text_0: "bigint_text 0 = ''0''"
  by code_simp

lemma bigint_text_eq_0: "bigint_text i = ''0'' \<longleftrightarrow> i = 0"
  by (metis bigint_text_0 bigint_text_inject)

lemma set_journal_groups: "set (journal_groups t) = (\<lambda>e. (je_account_id e, je_currency e)) ` set t"
  by (simp add: journal_groups_def)

lemma issue_of_matched:
  "issue_of (matched_row a g t) = None \<longleftrightarrow>
    acc_balance_minor a = (case g of None \<Rightarrow> 0 | Some g' \<Rightarrow> group_sum t g')"
  by (auto simp: issue_of_def matched_row_def bigint_text_0 bigint_text_eq_0 split: option.splits)

lemma issue_of_orphan: "issue_of (orphan_row g t) \<noteq> None"
  by (simp add: issue_of_def orphan_row_def)

lemma group_sum_balance:
  assumes "\<forall>e\<in>set t. je_account_id e = aid \<longrightarrow> je_currency e = c"
  shows "group_sum t (aid, c) = journal_balance t aid"
  unfolding group_sum_def journal_balance_def
  by (intro sum_list_map_cong_set) (use assms in auto)

lemma journal_balance_none: "\<forall>e\<in>set t. je_account_id e \<noteq> aid \<Longrightarrow> journal_balance t aid = 0"
  unfolding journal_balance_def by (intro sum_list_map_zero) auto

lemma account_rows_clean:
  assumes one: "\<forall>e\<in>set (journal_entries s). je_account_id e = acc_id a \<longrightarrow> je_currency e = acc_currency a"
  shows "(\<forall>r\<in>set (account_rows s a). issue_of r = None) \<longleftrightarrow>
    acc_balance_minor a = journal_balance (journal_entries s) (acc_id a)"
proof (cases "\<exists>e\<in>set (journal_entries s). je_account_id e = acc_id a")
  case True
  let ?gs = "filter (\<lambda>g. fst g = acc_id a) (journal_groups (journal_entries s))"
  have "set ?gs = {(acc_id a, acc_currency a)}"
  proof
    show "set ?gs \<subseteq> {(acc_id a, acc_currency a)}" using one by (auto simp: set_journal_groups)
    obtain e where e: "e \<in> set (journal_entries s)" "je_account_id e = acc_id a" using True by blast
    have "je_currency e = acc_currency a" using one e by blast
    with e have "(acc_id a, acc_currency a) \<in> set (journal_groups (journal_entries s))"
      unfolding set_journal_groups by (intro image_eqI [of _ _ e]) simp_all
    then show "{(acc_id a, acc_currency a)} \<subseteq> set ?gs" by simp
  qed
  then have gs: "set ?gs = {(acc_id a, acc_currency a)}" "?gs \<noteq> []" by (simp, metis empty_iff insertI1 set_empty)
  have "account_rows s a = map (\<lambda>g. matched_row a (Some g) (journal_entries s)) ?gs"
    unfolding account_rows_def Let_def using gs(2) by (rule if_not_P)
  then have "set (account_rows s a) = {matched_row a (Some (acc_id a, acc_currency a)) (journal_entries s)}"
    by (simp only: set_map gs(1) image_insert image_empty)
  then show ?thesis
    using group_sum_balance [OF one] by (simp add: issue_of_matched)
next
  case False
  then have "filter (\<lambda>g. fst g = acc_id a) (journal_groups (journal_entries s)) = []"
    by (auto simp: filter_empty_conv set_journal_groups)
  then show ?thesis
    using False by (simp add: account_rows_def issue_of_matched journal_balance_none)
qed

lemma reconcile_ok_iff:
  assumes "\<forall>e\<in>set (journal_entries s).
    (je_account_id e, je_currency e) \<in> (\<lambda>a. (acc_id a, acc_currency a)) ` set (accounts s)"
    and ids: "distinct (map acc_id (accounts s))"
  shows "(rp_ok (reconcile now_ms s s) \<longleftrightarrow>
      (\<forall>a\<in>set (accounts s). acc_balance_minor a = journal_balance (journal_entries s) (acc_id a))) \<and>
    rp_accountsChecked (reconcile now_ms s s) = length (accounts s)"
proof -
  have no_orphans: "orphan_rows s = []"
    using assms(1) by (force simp: orphan_rows_def filter_empty_conv set_journal_groups)
  have one: "je_currency e = acc_currency a"
    if "e \<in> set (journal_entries s)" "a \<in> set (accounts s)" "je_account_id e = acc_id a" for e a
  proof -
    note e_in = that(1) and a_in = that(2) and same = that(3)
    obtain a' where "a' \<in> set (accounts s)" "je_account_id e = acc_id a'" "je_currency e = acc_currency a'"
      using bspec [OF assms(1) e_in] by auto
    with distinct_map_eqD [OF ids _ a_in] same show ?thesis by metis
  qed
  have "rp_ok (reconcile now_ms s s) \<longleftrightarrow> (\<forall>r\<in>set (reconciliation_rows s). issue_of r = None)"
    by (auto simp: reconcile_def Let_def collect_issues_eq filter_empty_conv)
  also have "\<dots> \<longleftrightarrow> (\<forall>a\<in>set (accounts s). \<forall>r\<in>set (account_rows s a). issue_of r = None)"
    by (simp add: reconciliation_rows_def no_orphans)
  also have "\<dots> \<longleftrightarrow> (\<forall>a\<in>set (accounts s). acc_balance_minor a = journal_balance (journal_entries s) (acc_id a))"
    using one by (intro ball_cong refl account_rows_clean) auto
  finally show ?thesis by (simp add: reconcile_def Let_def)
qed

text \<open>
  C38.  The report is right both ways.  When journal entries refer to existing accounts in the
  account's currency (the composite foreign key), the report is clean exactly when every cached
  balance equals the sum of its journal entries; and it counts every account.
\<close>

theorem reconciliation_detects_drift:
  assumes "\<forall>e\<in>set (journal_entries s).
    (je_account_id e, je_currency e) \<in> (\<lambda>a. (acc_id a, acc_currency a)) ` set (accounts s)"
    and ids: "distinct (map acc_id (accounts s))"
  shows "(rp_ok (reconcile now_ms s s) \<longleftrightarrow>
      (\<forall>a\<in>set (accounts s). acc_balance_minor a = journal_balance (journal_entries s) (acc_id a))) \<and>
    rp_accountsChecked (reconcile now_ms s s) = length (accounts s)"
  by (rule reconcile_ok_iff [OF assms])

text \<open>
  The ledger never drifts: in any state that keeps the ledger's invariant - which every
  operation of the service does - reconciliation reports no issue, and the command line exits 0.
\<close>

theorem reconciliation_clean:
  assumes "ledger_inv s"
  shows "rp_ok (reconcile now_ms s s) \<and> rp_issues (reconcile now_ms s s) = [] \<and>
    snd (reconcile_cli (reconcile now_ms s s)) = 0"
proof -
  have "\<forall>e\<in>set (journal_entries s).
      (je_account_id e, je_currency e) \<in> (\<lambda>a. (acc_id a, acc_currency a)) ` set (accounts s)"
    "distinct (map acc_id (accounts s))"
    "\<forall>a\<in>set (accounts s). acc_balance_minor a = journal_balance (journal_entries s) (acc_id a)"
    using assms by (auto simp: ledger_inv_def ledger_keys_def entry_grounded_def account_sound_def)
  with reconcile_ok_iff [of s now_ms] have "rp_ok (reconcile now_ms s s)" by blast
  then show ?thesis by (simp add: reconcile_cli_def) (simp add: reconcile_def Let_def)
qed

end
