(* ===== verification/Witnesses.thy ===== *)
theory Witnesses
  imports Sample Reconciliation Audit_Consumer Outbox_Delivery
begin

text \<open>
  The theorems at work: each one that has hypotheses, applied to the concrete database of Sample,
  where they hold, with the values it then speaks of.
\<close>

section \<open>Claims\<close>

definition pay1 :: claim_params where
  "pay1 = \<lparr>cp_fingerprint = ''fp1'', cp_key = ''pay-1'', cp_operation = ''transfer'',
    cp_principalId = alice, cp_staleTimeoutMs = 30000\<rparr>"

definition pay2 :: claim_params where
  "pay2 = \<lparr>cp_fingerprint = ''fp2'', cp_key = ''pay-2'', cp_operation = ''transfer'',
    cp_principalId = bob, cp_staleTimeoutMs = 30000\<rparr>"

lemma sample_claims:
  "claim_of (params_key pay1) sample_db = Some (sample_claim alice ''pay-1'' ''fp1'' t0)"
  "claim_of (params_key pay2) sample_db = Some (sample_claim bob ''pay-2'' ''fp2'' 0)"
  by code_simp+

lemma claim_decision_witness:
  "claim (\<lambda>_. quiet_env t0 1700000000001 t0) pay1 sample_db = (Inl idempotency_in_progress, sample_db)"
  using claim_decision [of sample_db pay1 t0 1700000000001 t0] db_inv_keys(2) [OF sample_inv]
  by (simp add: sample_claims)
    (simp add: pay1_def sample_claim_def t0_def key_ok_def operation_ok_def)

lemma claim_outcome_witness:
  "idem_inv (snd (claim (\<lambda>_. quiet_env t0 1700000000000 t0) pay2 sample_db)) \<and>
   (case fst (claim (\<lambda>_. quiet_env t0 1700000000000 t0) pay2 sample_db) of
      Inl e \<Rightarrow> claim_error e
    | Inr c \<Rightarrow> claim_answered pay2 c (snd (claim (\<lambda>_. quiet_env t0 1700000000000 t0) pay2 sample_db)))"
  using claim_outcome [OF sample_idem, of "\<lambda>_. quiet_env t0 1700000000000 t0" pay2]
  by (simp add: env_keeps_def quiet_env_def)

lemma reclaim_exclusive_witness:
  "\<exists>row s1. reclaim t0 pay2 1699999970000 sample_db = Inr (Some row, s1) \<and>
    reclaim (t0 + 1) pay2 1699999970001 s1 = Inr (None, s1)"
proof -
  have d: "distinct (map row_key (idempotency_records sample_db))" using db_inv_keys(2) [OF sample_inv] .
  have "reclaimable pay2 1699999970000 (sample_claim bob ''pay-2'' ''fp2'' 0)" by code_simp
  then obtain row s1 where r: "reclaim t0 pay2 1699999970000 sample_db = Inr (Some row, s1)"
    by (auto simp: reclaim_eq select_first_reclaimable [OF d] sample_claims)
  from reclaim_exclusive [OF d r refl, of 1699999970001 "t0 + 1"] r show ?thesis by (auto simp: t0_def)
qed

section \<open>The outbox\<close>

lemma sample_events: "distinct (map ob_id (outbox_events sample_db))"
  by (rule db_inv_keys(3) [OF sample_inv])

lemma claim_leases_due_events_witness:
  "\<exists>batch s'. claim_work t0 300 {} 10 sample_db = Inr (batch, s') \<and>
    length batch = min 10 (count_where (\<lambda>r. claimable t0 r \<and> ob_id r \<notin> {}) (outbox_events sample_db))"
proof -
  obtain batch s' where c: "claim_work t0 300 {} 10 sample_db = Inr (batch, s')"
    by (simp add: claim_work_eq Let_def)
  from claim_leases_due_events [OF sample_events c] c show ?thesis by blast
qed


definition quiet_event :: event_env where
  "quiet_event = \<lparr>ev_processed_now = t0, ev_mark_fault = None, ev_failed_ms = 1700000000000,
    ev_random = 1 / 2, ev_fail_fault = None\<rparr>"

definition quiet_poll :: poll_env where
  "quiet_poll = \<lparr>pe_tx = calm, pe_now = t0, pe_locked = {}, pe_started_ms = 0, pe_finished_ms = 1,
    pe_events = (\<lambda>_. quiet_event)\<rparr>"

definition failing_handler :: "OutboxRecord \<Rightarrow> unit db_io" where
  "failing_handler _ = io_throw (PlainError ''down'')"

lemma poll_leaves_settled_events_witness:
  "sample_event parked_event Failed (Some Infinity_time) \<in>
    set (outbox_events (snd (poll 300 10 12 failing_handler quiet_poll sample_db)))"
  by (rule poll_leaves_settled_events [OF sample_events])
    (simp_all add: failing_handler_def io_eval settled_event_def parked_def sample_event_def,
     simp add: sample_db_def sample_event_def)

lemma failed_event_is_rescheduled_witness:
  "\<exists>r'\<in>set (outbox_events (snd (processEvent 12 failing_handler quiet_event
      (toOutboxRecord (sample_event leased_event Processing (Some (At t0)))) sample_db))).
    ob_id r' = leased_event \<and> ob_status r' = Failed \<and> ob_last_error r' = Some ''down''"
proof -
  let ?r = "sample_event leased_event Processing (Some (At t0))"
  have r: "?r \<in> set (outbox_events sample_db)" by (simp add: sample_db_def)
  have h: "failing_handler (toOutboxRecord ?r) sample_db = (Inl (PlainError ''down''), sample_db)"
    by (simp add: failing_handler_def io_eval)
  have p: "in_processing (oe_id (toOutboxRecord ?r)) ?r"
    by (simp add: in_processing_def toOutboxRecord_def sample_event_def)
  from failed_event_is_rescheduled [where handler = failing_handler and m = 12 and env = quiet_event, OF h _ _ _ r p] show ?thesis
    by (auto simp: quiet_event_def sample_event_def)
qed

lemma replay_unparks_witness:
  "\<exists>s'. replay parked_event sample_db = Inr (True, s')"
proof -
  have "\<exists>r\<in>set (outbox_events sample_db). ob_id r = parked_event \<and> parked r"
    by (simp add: sample_db_def) (simp add: sample_event_def parked_def)
  with replay_unparks [OF sample_events, of parked_event] show ?thesis by auto
qed

lemma outbox_retention_witness:
  "purgeProcessedBefore 1700000000001 (Some 2) sample_db =
    Some (1, sample_db\<lparr>outbox_events :=
      delete_where (event_purgeable 1700000000001) (outbox_events sample_db)\<rparr>)"
proof -
  have "count_where (event_purgeable 1700000000001) (outbox_events sample_db) = 1" by code_simp
  with outbox_retention [OF sample_events, of 1700000000001 "Some 2"] show ?thesis by simp
qed

lemma idempotency_retention_witness:
  "Idempotency.purgeCompletedBefore 6 500 sample_db =
    Some (1, sample_db\<lparr>idempotency_records :=
      delete_where (purgeable 6) (idempotency_records sample_db)\<rparr>)"
proof -
  have "count_where (purgeable 6) (idempotency_records sample_db) = 1" by code_simp
  with idempotency_retention [OF db_inv_keys(2) [OF sample_inv], of 500 6] show ?thesis by simp
qed

section \<open>The audit consumer\<close>

definition due_consumption :: AuditConsumeInput where
  "due_consumption = \<lparr>ac_aggregateId = funding_id, ac_aggregateType = ''funding'',
    ac_eventId = due_event, ac_eventType = ''funding.created'', ac_payload = JObject []\<rparr>"

lemma audit_effect_once_witness:
  "audit_inv (out_state (consume calm t0 ''x2'' due_consumption sample_db)) \<and>
   length (effects_of due_event (out_state (consume calm t0 ''x2'' due_consumption sample_db))) \<le> 1"
  using audit_effect_once [OF sample_audit, of calm t0 "''x2''" due_consumption]
  by (simp add: due_consumption_def)

section \<open>A transfer\<close>

definition quiet_attempt :: attempt_env where
  "quiet_attempt = \<lparr>at_before = (\<lambda>s. s), at_tx = calm, at_now = t0 + 1000000,
    at_entryIds = [''e3'', ''e4''], at_eventId = ''30000000-0000-4000-8000-000000000009'',
    at_clock = 1700000001000, at_jitter = 0\<rparr>"

definition sample_transfer_id :: uuid where
  "sample_transfer_id = ''40000000-0000-4000-8000-000000000001''"

definition sample_request :: CreateTransferInput where
  "sample_request = \<lparr>ct_amountMinor = ''250'', ct_destinationAccountId = bob_account,
    ct_sourceAccountId = alice_account\<rparr>"

definition sample_world :: transfer_world where
  "sample_world = \<lparr>tw_db = sample_db, tw_metrics = no_transfers, tw_events = [], tw_slept = []\<rparr>"

definition sample_run :: "(js_error + Transfer) \<times> transfer_world" where
  "sample_run = create default_transfer_config (\<lambda>_. quiet_attempt) sample_transfer_id 1700000000000
    sample_request alice (Some ''pay-1'') sample_world"

lemma sample_world_inv: "db_inv (tw_db sample_world)"
  by (simp add: sample_world_def sample_inv)

lemma quiet_attempts_fair: "attempts_fair (\<lambda>_. quiet_attempt)"
  by (simp add: attempts_fair_def quiet_attempt_def)

definition pay1_amount :: Money where
  "pay1_amount = Money 250"

lemma sample_request_facts:
  "fromMinor (StringArg (ct_amountMinor sample_request)) = Inr pay1_amount"
  "ct_sourceAccountId sample_request \<noteq> ct_destinationAccountId sample_request"
  "canonical_accounts sample_db"
  "fresh_ids sample_transfer_id [''e3'', ''e4''] ''30000000-0000-4000-8000-000000000009'' sample_db"
  "\<forall>a\<in>set (accounts sample_db). acc_id a = ct_destinationAccountId sample_request \<longrightarrow>
    acc_balance_minor a + minor pay1_amount \<le> bigint_max"
  "transfer_verdict pay1_amount alice (account_of (ct_sourceAccountId sample_request) sample_db)
    (account_of (ct_destinationAccountId sample_request) sample_db) = None"
  "1 \<le> tc_maxAttempts default_transfer_config"
  by code_simp+

lemma sample_key_claimed: "key_claimed alice (Some ''pay-1'') sample_db"
  using sample_claims(1) by (simp add: key_claimed_def params_key_def pay1_def sample_claim_def)

lemma quiet_attempt_simps [simp]:
  "at_entryIds quiet_attempt = [''e3'', ''e4'']"
  "at_eventId quiet_attempt = ''30000000-0000-4000-8000-000000000009''"
  "calm_attempt quiet_attempt" "tw_db sample_world = sample_db"
  by (simp_all add: quiet_attempt_def calm_attempt_def sample_world_def)

lemma sample_run_returns: "\<exists>t. fst sample_run = Inr t"
  unfolding sample_run_def
  using create_decided [of sample_world sample_request pay1_amount sample_transfer_id
      "\<lambda>_. quiet_attempt" alice "Some ''pay-1''" default_transfer_config 1700000000000]
    sample_request_facts sample_key_claimed sample_inv by simp

lemma transfer_decision_witness: "\<exists>t. fst sample_run = Inr t"
  unfolding sample_run_def
  using transfer_decision [of sample_world sample_request pay1_amount sample_transfer_id
      "\<lambda>_. quiet_attempt" alice "Some ''pay-1''" default_transfer_config 1700000000000]
    sample_request_facts sample_key_claimed sample_inv by simp

lemma sample_run_result: obtains t w' where "create default_transfer_config (\<lambda>_. quiet_attempt)
    sample_transfer_id 1700000000000 sample_request alice (Some ''pay-1'') sample_world = (Inr t, w')"
  using sample_run_returns unfolding sample_run_def by (metis prod.collapse)

lemma transfer_moves_exactly_the_amount_witness:
  "\<exists>t w' src dst i s. sample_run = (Inr t, w') \<and>
    transferred True (at_now quiet_attempt) (at_entryIds quiet_attempt) (at_eventId quiet_attempt)
      (Money 250) alice sample_transfer_id (Some ''pay-1'') src dst s (tw_db w') \<and>
    acc_id src = alice_account \<and> acc_id dst = bob_account \<and> may_transfer (Money 250) alice src dst"
proof -
  obtain t w' where run: "create default_transfer_config (\<lambda>_. quiet_attempt) sample_transfer_id
      1700000000000 sample_request alice (Some ''pay-1'') sample_world = (Inr t, w')"
    by (rule sample_run_result)
  from transfer_moves_exactly_the_amount [OF sample_world_inv quiet_attempts_fair run]
  show ?thesis
    using run sample_request_facts(1)
    by (auto simp: sample_run_def default_transfer_config_def pay1_amount_def sample_request_def
        simp del: quiet_attempt_simps)
qed

lemma create_keeps_invariant_witness: "db_inv (tw_db (snd sample_run))"
  unfolding sample_run_def
  by (rule create_keeps_invariant [OF sample_world_inv quiet_attempts_fair])


lemma create_spends_only_own_money_witness: "others_kept alice sample_db (tw_db (snd sample_run))"
  using create_spends_only_own_money [OF sample_world_inv, of "\<lambda>_. quiet_attempt" alice
      default_transfer_config sample_transfer_id 1700000000000 sample_request "Some ''pay-1''"]
  by (simp add: sample_run_def quiet_attempt_def)

lemma keyed_transfer_replays_witness:
  "\<exists>t w' p c. sample_run = (Inr t, w') \<and> params_key p = (alice, ''pay-1'', ''transfer'') \<and>
    claim (\<lambda>_. quiet_env t0 0 t0) p (tw_db w') = (Inr c, tw_db w') \<and> cr_action c = Replay \<and>
    cr_response c = Some \<lparr>rsp_body = transfer_json t, rsp_status = Some 201\<rparr>"
proof -
  obtain t w' where run: "create default_transfer_config (\<lambda>_. quiet_attempt) sample_transfer_id
      1700000000000 sample_request alice (Some ''pay-1'') sample_world = (Inr t, w')"
    by (rule sample_run_result)
  obtain row where row: "claim_of (alice, ''pay-1'', ''transfer'') (tw_db w') = Some row"
    using create_Inr [OF sample_world_inv quiet_attempts_fair run]
    by (auto simp: transferred_def Let_def claim_settled_def)
  let ?p = "pay1\<lparr>cp_fingerprint := ir_request_fingerprint row\<rparr>"
  have p: "params_key ?p = (alice, ''pay-1'', ''transfer'')" by (simp add: params_key_def pay1_def)
  from keyed_transfer_replays [OF sample_world_inv quiet_attempts_fair run p, of row t0 0 t0] row p
  obtain c where "claim (\<lambda>_. quiet_env t0 0 t0) ?p (tw_db w') = (Inr c, tw_db w')" "cr_action c = Replay"
    "cr_response c = Some \<lparr>rsp_body = transfer_json t, rsp_status = Some 201\<rparr>" by auto
  with run p show ?thesis unfolding sample_run_def by blast
qed

section \<open>A funding\<close>

text \<open>The migrated database with one customer account, under short identifiers.\<close>

definition opened_db :: db where
  "opened_db = (initial_db t0)\<lparr>
    accounts := [treasury_row t0 ''t'' ''INR'', customer_row ''a'' ''p'' 0]\<rparr>"

lemma opened_inv: "db_inv opened_db"
  unfolding db_inv_def ledger_inv_def
  by (intro conjI) (code_simp, code_simp, code_simp, code_simp, code_simp, code_simp,
    simp add: audit_inv_def opened_db_def initial_db_def, code_simp)

definition quiet_funding :: fund_env where
  "quiet_funding = \<lparr>fe_tx = calm, fe_now = 5, fe_id = ''f'', fe_entryIds = [''d'', ''c''],
    fe_eventId = ''v'', fe_before_treasury = (\<lambda>s. s), fe_before_post = (\<lambda>s. s)\<rparr>"

definition funding_run :: "(js_error + FundingResult) \<times> db" where
  "funding_run = fundAccount True quiet_funding \<lparr>fa_accountId = ''a'', fa_amountMinor = ''7''\<rparr> None opened_db"

lemma quiet_funding_fair: "fund_fair quiet_funding"
  by (auto simp: fund_fair_def quiet_funding_def identities_kept_def)

lemma funding_run_returns: "\<not> isl (fst funding_run)"
  by code_simp

lemma fundAccount_keeps_invariant_witness: "db_inv (snd funding_run)"
  unfolding funding_run_def by (rule fundAccount_keeps_invariant [OF opened_inv quiet_funding_fair])


section \<open>Reconciliation\<close>

text \<open>A balance that was tampered with.\<close>

definition drifted_db :: db where
  "drifted_db = opened_db\<lparr>accounts :=
    [treasury_row t0 ''t'' ''INR'', customer_row ''a'' ''p'' 3]\<rparr>"

lemma reconciliation_detects_drift_witness:
  "\<not> rp_ok (reconcile 0 drifted_db drifted_db) \<and> rp_accountsChecked (reconcile 0 drifted_db drifted_db) = 2"
proof -
  have e: "journal_entries drifted_db = []" "length (accounts drifted_db) = 2"
    "distinct (map acc_id (accounts drifted_db))"
    "\<not> (\<forall>a\<in>set (accounts drifted_db). acc_balance_minor a = journal_balance [] (acc_id a))"
    by (simp_all add: drifted_db_def opened_db_def initial_db_def treasury_row_def customer_row_def
        journal_balance_def)
  with reconciliation_detects_drift [of drifted_db 0] show ?thesis by simp
qed

lemma reconciliation_clean_witness:
  "rp_ok (reconcile 0 sample_db sample_db) \<and> snd (reconcile_cli (reconcile 0 sample_db sample_db)) = 0"
  using reconciliation_clean [OF sample_ledger, of 0] by blast

end
