(* ===== verification/Auth_Theorems.thy ===== *)
theory Auth_Theorems
  imports Auth
begin

text \<open>
  What authentication promises: exactly the live keys of active principals open the door, a
  revoked key never does again, an issued key does at once, an identity is provisioned once, and
  whatever text a provider sends can be stored.
\<close>

section \<open>The tables' invariant\<close>

text \<open>The keys and foreign keys of migrations/009 and 012.\<close>

definition auth_inv :: "db \<Rightarrow> bool" where
  "auth_inv s \<longleftrightarrow>
    distinct (map pr_id (principals s)) \<and> distinct (map ak_id (api_keys s)) \<and>
    distinct (map ak_key_prefix (api_keys s)) \<and> distinct (map identity_key (principal_identities s)) \<and>
    distinct (map pid_principal_id (principal_identities s)) \<and>
    ak_principal_id ` set (api_keys s) \<subseteq> pr_id ` set (principals s) \<and>
    pid_principal_id ` set (principal_identities s) \<subseteq> pr_id ` set (principals s)"

abbreviation invalid_key :: js_error where
  "invalid_key \<equiv> auth_error ''UNAUTHORIZED'' ''Invalid API key''"

lemma toPrincipal_simps [simp]:
  "p_id (toPrincipal r) = pr_id r" "p_status (toPrincipal r) = pr_status r"
  by (simp_all add: toPrincipal_def)

lemma hashesMatch_iff [simp]: "hashesMatch l r \<longleftrightarrow> l = r"
  unfolding hashesMatch_def list.rel_eq by auto

section \<open>Who may enter\<close>

text \<open>The reference: some live key has this secret's prefix and hash and an active principal.\<close>

definition key_opens :: "(string \<Rightarrow> string) \<Rightarrow> string \<Rightarrow> db \<Rightarrow> Principal \<Rightarrow> bool" where
  "key_opens sha256_hex secret s p \<longleftrightarrow>
    (\<exists>k\<in>set (api_keys s). \<exists>r\<in>set (principals s).
      apiKeyPrefixOf secret = Some (ak_key_prefix k) \<and> ak_revoked_at k = None \<and>
      ak_key_hash k = sha256_hex secret \<and> pr_id r = ak_principal_id k \<and>
      pr_status r = Principal_active \<and> p = toPrincipal r)"

lemma candidate_eq:
  assumes "auth_inv s"
  shows "findKeyCandidateByPrefix prefix s = Some c \<longleftrightarrow>
    (\<exists>k\<in>set (api_keys s). \<exists>r\<in>set (principals s). ak_key_prefix k = prefix \<and> ak_revoked_at k = None \<and>
      pr_id r = ak_principal_id k \<and>
      c = \<lparr>cd_keyHash = ak_key_hash k, cd_keyId = ak_id k, cd_principal = toPrincipal r\<rparr>)"
proof -
  have prefixes: "distinct (map ak_key_prefix (api_keys s))" and ids: "distinct (map pr_id (principals s))"
    using assms by (simp_all add: auth_inv_def)
  have principal: "select_first (\<lambda>r. pr_id r = i) (principals s) = Some r \<longleftrightarrow> r \<in> set (principals s) \<and> pr_id r = i"
    for i r by (rule select_first_Some_iff [OF ids])
  show ?thesis
  proof (cases "select_first (\<lambda>k. ak_key_prefix k = prefix \<and> ak_revoked_at k = None) (api_keys s)")
    case None
    with select_first_NoneD [OF None] show ?thesis by (auto simp: findKeyCandidateByPrefix_def)
  next
    case (Some k)
    note k = select_first_SomeD [OF Some]
    have only: "k' = k" if "k' \<in> set (api_keys s)" "ak_key_prefix k' = prefix" for k'
      using distinct_map_eqD [OF prefixes that(1) conjunct1 [OF k]] that(2) k by simp
    obtain r where r: "r \<in> set (principals s)" "pr_id r = ak_principal_id k"
      using assms k by (force simp: auth_inv_def)
    with principal have sel: "select_first (\<lambda>r. pr_id r = ak_principal_id k) (principals s) = Some r" by blast
    have only_r: "r' = r" if "r' \<in> set (principals s)" "pr_id r' = ak_principal_id k" for r'
      using distinct_map_eqD [OF ids that(1) r(1)] that(2) r(2) by simp
    have "findKeyCandidateByPrefix prefix s =
        Some \<lparr>cd_keyHash = ak_key_hash k, cd_keyId = ak_id k, cd_principal = toPrincipal r\<rparr>"
      by (simp add: findKeyCandidateByPrefix_def Some sel)
    with k r only only_r show ?thesis by (metis option.inject)
  qed
qed

lemma authenticate_state [simp]: "snd (authenticate sha256_hex secret s) = s"
  by (auto simp: authenticate_def io_eval split: option.split)

text \<open>
  An API key opens exactly when it should: \<open>authenticate\<close> returns a principal if and only if
  some live key has the secret's prefix and the secret's hash and belongs to that principal, and
  the principal is active.  In every other case - no such prefix, a wrong secret, a revoked key, a
  disabled principal - the caller sees one and the same error, and nothing is written.
\<close>

theorem authenticate_exactly_live_keys:
  assumes "auth_inv s"
  shows "snd (authenticate sha256_hex secret s) = s \<and>
    (fst (authenticate sha256_hex secret s) = Inr p \<longleftrightarrow> key_opens sha256_hex secret s p) \<and>
    (fst (authenticate sha256_hex secret s) = Inl invalid_key \<longleftrightarrow>
      \<not> (\<exists>q. key_opens sha256_hex secret s q))"
proof (cases "apiKeyPrefixOf secret")
  case None
  then show ?thesis by (simp add: authenticate_def io_eval key_opens_def)
next
  case (Some prefix)
  show ?thesis
  proof (cases "findKeyCandidateByPrefix prefix s")
    case None
    then have "\<not> key_opens sha256_hex secret s q" for q
      using Some candidate_eq [OF assms, of prefix] by (fastforce simp: key_opens_def)
    with Some None show ?thesis by (simp add: authenticate_def io_eval)
  next
    case cand: (Some c)
    then obtain k r where kr: "k \<in> set (api_keys s)" "r \<in> set (principals s)" "ak_key_prefix k = prefix"
      "ak_revoked_at k = None" "pr_id r = ak_principal_id k"
      and c: "c = \<lparr>cd_keyHash = ak_key_hash k, cd_keyId = ak_id k, cd_principal = toPrincipal r\<rparr>"
      using candidate_eq [OF assms] by blast
    have "k' = k" if "k' \<in> set (api_keys s)" "ak_key_prefix k' = prefix" for k'
      using assms that kr by (auto simp: auth_inv_def dest: distinct_map_eqD)
    moreover have "r' = r" if "r' \<in> set (principals s)" "pr_id r' = ak_principal_id k" for r'
      using assms that kr by (auto simp: auth_inv_def dest: distinct_map_eqD)
    ultimately have "key_opens sha256_hex secret s q \<longleftrightarrow>
        ak_key_hash k = sha256_hex secret \<and> pr_status r = Principal_active \<and> q = toPrincipal r" for q
      using kr Some unfolding key_opens_def by (metis option.inject)
    with Some cand c show ?thesis by (auto simp: authenticate_def io_eval)
  qed
qed

section \<open>The tables across operations\<close>

text \<open>
  What later states keep of the keys: every key is still there with its prefix, hash and
  principal, and a revocation keeps its time.
\<close>

definition keys_kept :: "db \<Rightarrow> db \<Rightarrow> bool" where
  "keys_kept s s' \<longleftrightarrow>
    (\<forall>k\<in>set (api_keys s). \<exists>k'\<in>set (api_keys s'). ak_id k' = ak_id k \<and> ak_key_prefix k' = ak_key_prefix k \<and>
      ak_key_hash k' = ak_key_hash k \<and> ak_principal_id k' = ak_principal_id k \<and>
      (ak_revoked_at k \<noteq> None \<longrightarrow> ak_revoked_at k' = ak_revoked_at k))"

lemma keys_kept_refl [simp]: "keys_kept s s"
  by (auto simp: keys_kept_def)

lemma keys_kept_trans: "keys_kept s s' \<Longrightarrow> keys_kept s' s'' \<Longrightarrow> keys_kept s s''"
  unfolding keys_kept_def by (metis (no_types, lifting))

lemma keys_kept_same: "api_keys s' = api_keys s \<Longrightarrow> keys_kept s s'"
  by (auto simp: keys_kept_def)

text \<open>Between the statements of an operation other clients do no more than the operations do.\<close>

definition auth_fair :: "(db \<Rightarrow> db) \<Rightarrow> bool" where
  "auth_fair f \<longleftrightarrow> (\<forall>s. auth_inv s \<longrightarrow> auth_inv (f s) \<and> keys_kept s (f s))"

definition auth_sound :: "db \<Rightarrow> db \<Rightarrow> bool" where
  "auth_sound s s' \<longleftrightarrow> auth_inv s' \<and> keys_kept s s'"

lemma auth_sound_trans: "auth_sound s s' \<Longrightarrow> auth_sound s' s'' \<Longrightarrow> auth_sound s s''"
  by (auto simp: auth_sound_def intro: keys_kept_trans)

lemma createPrincipal_InrD:
  "createPrincipal now pid name s = Inr (p, s') \<Longrightarrow>
    pid \<notin> pr_id ` set (principals s) \<and> 1 \<le> char_length name \<and>
    (\<exists>row. pr_id row = pid \<and> pr_name row = name \<and> pr_status row = Principal_active \<and> p = toPrincipal row \<and>
      s' = s\<lparr>principals := principals s @ [row]\<rparr>)"
  by (auto simp: createPrincipal_def tx_simps Let_def intro!: exI)

lemma createPrincipal_sound:
  "createPrincipal now pid name s = Inr (p, s') \<Longrightarrow> auth_inv s \<Longrightarrow> auth_sound s s'"
  by (auto dest!: createPrincipal_InrD simp: auth_sound_def auth_inv_def image_subset_iff intro: keys_kept_same)

lemma insertApiKey_InrD:
  "insertApiKey now kid keyHash keyPrefix pid s = Inr (record, s') \<Longrightarrow>
    length keyPrefix = 12 \<and> kid \<notin> ak_id ` set (api_keys s) \<and> keyPrefix \<notin> ak_key_prefix ` set (api_keys s) \<and>
    pid \<in> pr_id ` set (principals s) \<and>
    s' = s\<lparr>api_keys := api_keys s @ [\<lparr>ak_id = kid, ak_principal_id = pid, ak_key_prefix = keyPrefix,
      ak_key_hash = keyHash, ak_created_at = now, ak_revoked_at = None\<rparr>]\<rparr>"
  by (auto simp: insertApiKey_def tx_simps Let_def)

lemma insertApiKey_sound:
  "insertApiKey now kid keyHash keyPrefix pid s = Inr (record, s') \<Longrightarrow> auth_inv s \<Longrightarrow> auth_sound s s'"
  by (auto dest!: insertApiKey_InrD simp: auth_sound_def auth_inv_def keys_kept_def image_subset_iff)

definition revoked_once :: "instant \<Rightarrow> api_key_row \<Rightarrow> api_key_row" where
  "revoked_once now k = k\<lparr>ak_revoked_at := (case ak_revoked_at k of None \<Rightarrow> Some now | Some r \<Rightarrow> Some r)\<rparr>"

lemma revoked_once_simps [simp]:
  "ak_id (revoked_once now k) = ak_id k" "ak_key_prefix (revoked_once now k) = ak_key_prefix k"
  "ak_key_hash (revoked_once now k) = ak_key_hash k"
  "ak_principal_id (revoked_once now k) = ak_principal_id k"
  "ak_revoked_at (revoked_once now k) = (case ak_revoked_at k of None \<Rightarrow> Some now | Some r \<Rightarrow> Some r)"
  by (simp_all add: revoked_once_def)

lemma store_revokeApiKey_eq:
  "store_revokeApiKey now kid s =
    Inr (\<exists>k\<in>set (api_keys s). ak_id k = uuid_in kid,
      s\<lparr>api_keys := update_where (\<lambda>k. ak_id k = uuid_in kid) (revoked_once now) (api_keys s)\<rparr>)"
  by (auto simp: store_revokeApiKey_def tx_eval revoked_once_def [abs_def] count_where_def filter_empty_conv)

lemma store_revokeApiKey_sound:
  assumes "store_revokeApiKey now kid s = Inr (b, s')" and "auth_inv s"
  shows "auth_sound s s'"
proof -
  let ?u = "update_where (\<lambda>k. ak_id k = uuid_in kid) (revoked_once now) (api_keys s)"
  have s': "s' = s\<lparr>api_keys := ?u\<rparr>" using assms(1) by (simp add: store_revokeApiKey_eq)
  have maps: "map ak_id ?u = map ak_id (api_keys s)" "map ak_key_prefix ?u = map ak_key_prefix (api_keys s)"
    "map ak_principal_id ?u = map ak_principal_id (api_keys s)"
    by (simp_all add: map_key_update_where)
  then have "ak_principal_id ` set ?u = ak_principal_id ` set (api_keys s)" by (metis list.set_map)
  note maps = this maps
  have "auth_inv s'" using assms(2) unfolding auth_inv_def s' by (simp add: maps)
  moreover have "keys_kept s s'"
    unfolding keys_kept_def
  proof
    fix k assume k: "k \<in> set (api_keys s)"
    let ?k = "if ak_id k = uuid_in kid then revoked_once now k else k"
    have "?k \<in> set (api_keys s')" unfolding s' using k by (auto simp: set_update_where)
    then show "\<exists>k'\<in>set (api_keys s'). ak_id k' = ak_id k \<and> ak_key_prefix k' = ak_key_prefix k \<and>
        ak_key_hash k' = ak_key_hash k \<and> ak_principal_id k' = ak_principal_id k \<and>
        (ak_revoked_at k \<noteq> None \<longrightarrow> ak_revoked_at k' = ak_revoked_at k)"
      by (rule bexI [rotated]) auto
  qed
  ultimately show ?thesis by (simp add: auth_sound_def)
qed

lemma auto_commit_sound:
  assumes "auth_inv s" and "\<And>a s'. m s = Inr (a, s') \<Longrightarrow> auth_sound s s'"
  shows "auth_sound s (snd (auto_commit m s))"
  using assms by (auto simp: auto_commit_def auth_sound_def split: sum.split)

lemma insert_identity_InrD:
  "insert_identity i s = Inr (n, s') \<Longrightarrow>
    n = 0 \<and> s' = s \<and> identity_key i \<in> identity_key ` set (principal_identities s) \<or>
    n = 1 \<and> s' = s\<lparr>principal_identities := principal_identities s @ [i]\<rparr> \<and>
      identity_key i \<notin> identity_key ` set (principal_identities s) \<and>
      pid_principal_id i \<notin> pid_principal_id ` set (principal_identities s)"
  by (auto simp: insert_identity_def tx_simps insert_unique_def split: if_splits)

lemma provision_work_InrD:
  assumes "provision_work now pid provider subject email name s = Inr (p, s')"
  obtains row i where "p = toPrincipal row" "pr_id row = pid" "pr_status row = Principal_active"
    "pid \<notin> pr_id ` set (principals s)" "identity_key i = (provider, subject)" "pid_principal_id i = pid"
    "(provider, subject) \<notin> identity_key ` set (principal_identities s)"
    "pid \<notin> pid_principal_id ` set (principal_identities s)"
    "s' = s\<lparr>principals := principals s @ [row],
      principal_identities := principal_identities s @ [i]\<rparr>"
proof -
  let ?i = "\<lparr>pid_provider = provider, pid_subject = subject, pid_principal_id = pid, pid_email = email,
      pid_created_at = now\<rparr>"
  from assms obtain s1 n where c: "createPrincipal now pid name s = Inr (p, s1)"
    and n: "insert_identity ?i s1 = Inr (n, s')" and one: "n = 1"
    by (auto simp: provision_work_def tx_simps)
  from createPrincipal_InrD [OF c] obtain row where row: "pr_id row = pid"
    "pr_status row = Principal_active" "p = toPrincipal row" "pid \<notin> pr_id ` set (principals s)"
    and s1: "s1 = s\<lparr>principals := principals s @ [row]\<rparr>" by blast
  from insert_identity_InrD [OF n] one s1 that [of row ?i] row show ?thesis
    by (simp add: identity_key_def)
qed

lemma provision_work_sound:
  assumes run: "provision_work now pid provider subject email name s = Inr (p, s')" and inv: "auth_inv s"
  shows "auth_sound s s'"
proof -
  from provision_work_InrD [OF run] obtain row i where "pr_id row = pid" "pid \<notin> pr_id ` set (principals s)"
    "identity_key i = (provider, subject)" "pid_principal_id i = pid"
    "(provider, subject) \<notin> identity_key ` set (principal_identities s)"
    "pid \<notin> pid_principal_id ` set (principal_identities s)"
    "s' = s\<lparr>principals := principals s @ [row],
      principal_identities := principal_identities s @ [i]\<rparr>" by metis
  with inv show ?thesis by (simp add: auth_sound_def auth_inv_def keys_kept_same image_subset_iff)
qed

lemma provision_state:
  "out_state (withTransaction env b deferred_constraints
      (provision_work now pid provider subject email name) s) = s \<or>
   (\<exists>p. provision_work now pid provider subject email name s =
      Inr (p, out_state (withTransaction env b deferred_constraints
        (provision_work now pid provider subject email name) s)))"
  using withTransaction_state by metis

lemma provision_sound:
  assumes "auth_inv s"
  shows "auth_sound s (out_state (withTransaction env b deferred_constraints
    (provision_work now pid provider subject email name) s))"
  using provision_state [of env b now pid provider subject email name s] provision_work_sound assms
  by (metis auth_sound_def keys_kept_refl)

lemma createPrincipalForIdentity_sound:
  assumes inv: "auth_inv s" and fair: "auth_fair (pv_before_reread env)"
  shows "auth_sound s (snd (createPrincipalForIdentity env provider subject email name s))"
proof -
  let ?s = "out_state (withTransaction (pv_tx env) default_begin deferred_constraints
    (provision_work (pv_now env) (pv_id env) provider subject email name) s)"
  have one: "auth_sound s ?s" by (rule provision_sound [OF inv])
  then have "auth_sound ?s (pv_before_reread env ?s)" using fair by (auto simp: auth_fair_def auth_sound_def)
  with one show ?thesis
    by (auto simp: createPrincipalForIdentity_def Let_def split: sum.split option.split
        intro: auth_sound_trans)
qed

lemma auth_sound_refl: "auth_inv s \<Longrightarrow> auth_sound s s"
  by (simp add: auth_sound_def)

lemma authenticateIdentity_snd:
  "snd (authenticateIdentity nfc between env i s) =
    (if \<not> xi_emailVerified i then s
     else case findPrincipalByIdentity (xi_provider i) (xi_subject i) s of
       Some p \<Rightarrow> s
     | None \<Rightarrow> snd (createPrincipalForIdentity env (xi_provider i) (xi_subject i)
         (map_option utf8 (sanitizeProviderText nfc (xi_email i) identityEmailMaxLength))
         (principalNameFor nfc i) (between s)))"
proof -
  have tail: "snd (io_bind m (\<lambda>p. if p_status p \<noteq> Principal_active then io_throw e else io_return p) s') =
      snd (m s')" for m e s'
    by (rule snd_io_bind_tail) (simp add: io_eval)
  show ?thesis
    unfolding authenticateIdentity_def
    by (simp add: io_steps io_apply tail split: option.split)
qed

lemma authenticateIdentity_sound:
  assumes inv: "auth_inv s" and fair: "auth_fair between" "auth_fair (pv_before_reread env)"
  shows "auth_sound s (snd (authenticateIdentity nfc between env i s))"
proof -
  have between: "auth_sound s (between s)" "auth_inv (between s)"
    using inv fair by (auto simp: auth_fair_def auth_sound_def)
  note made = createPrincipalForIdentity_sound [OF between(2) fair(2)]
  show ?thesis
    using auth_sound_refl [OF inv] auth_sound_trans [OF between(1) made] by (auto simp: authenticateIdentity_snd split: option.split)
qed

lemma issueApiKey_sound:
  assumes inv: "auth_inv s" and fair: "auth_fair between"
  shows "auth_sound s (snd (issueApiKey sha256_hex between now kid body pid s))"
proof -
  have between: "auth_sound s (between s)" "auth_inv (between s)"
    using inv fair by (auto simp: auth_fair_def auth_sound_def)
  have "auth_sound s (snd (auto_commit (insertApiKey now kid h x p) (between s)))" for h x p
    by (rule auth_sound_trans [OF between(1) auto_commit_sound [OF between(2)]])
      (rule insertApiKey_sound [OF _ between(2)])
  then show ?thesis
    using auth_sound_refl [OF inv]
    by (auto simp: issueApiKey_def generateApiKey_def Let_def io_steps io_apply snd_io_bind_tail split: option.split)
qed

lemma revokeApiKey_sound:
  "auth_inv s \<Longrightarrow> auth_sound s (snd (revokeApiKey now kid s))"
  using store_revokeApiKey_sound [of now kid s]
  by (auto simp: revokeApiKey_def io_eval store_revokeApiKey_eq)

section \<open>Runs of the service\<close>

text \<open>Any operation of the service, by any client, with other clients acting inside it.\<close>

inductive auth_step :: "(string \<Rightarrow> string) \<Rightarrow> (nat list \<Rightarrow> nat list) \<Rightarrow> db \<Rightarrow> db \<Rightarrow> bool"
  for sha256_hex nfc where
  step_create: "auth_step sha256_hex nfc s (snd (auto_commit (createPrincipal now pid name) s))"
| step_issue: "auth_fair between \<Longrightarrow>
    auth_step sha256_hex nfc s (snd (issueApiKey sha256_hex between now kid body pid s))"
| step_revoke: "auth_step sha256_hex nfc s (snd (revokeApiKey now kid s))"
| step_identity: "auth_fair between \<Longrightarrow> auth_fair (pv_before_reread env) \<Longrightarrow>
    auth_step sha256_hex nfc s (snd (authenticateIdentity nfc between env i s))"

inductive_cases auth_step_cases: "auth_step sha256_hex nfc s s'"

lemma auth_step_sound: "auth_step sha256_hex nfc s s' \<Longrightarrow> auth_inv s \<Longrightarrow> auth_sound s s'"
proof (induction rule: auth_step.induct)
  case (step_create s now pid name)
  then show ?case by (intro auto_commit_sound) (auto intro: createPrincipal_sound)
qed (simp_all add: issueApiKey_sound revokeApiKey_sound authenticateIdentity_sound)

lemma auth_run_sound: "(auth_step sha256_hex nfc)\<^sup>*\<^sup>* s s' \<Longrightarrow> auth_inv s \<Longrightarrow> auth_sound s s'"
proof (induction rule: rtranclp_induct)
  case (step s' s'')
  with auth_step_sound [OF step.hyps(2)] show ?case using auth_sound_trans by (metis auth_sound_def)
qed (simp add: auth_sound_refl)

text \<open>
  C39.  Revocation is final.  Once \<open>revokeApiKey\<close> has returned for a key, no secret with that key's
  prefix authenticates in any state the service can reach from there, whatever keys and
  principals are created, issued or revoked afterwards; and the key keeps the time it was first
  revoked at.
\<close>

theorem revocation_is_final:
  assumes inv: "auth_inv s" and revoked: "revokeApiKey now kid s = (Inr u, s1)"
    and k: "k \<in> set (api_keys s)" "ak_id k = uuid_in kid"
    and run: "(auth_step sha256_hex nfc)\<^sup>*\<^sup>* s1 s2"
    and secret: "apiKeyPrefixOf secret = Some (ak_key_prefix k)"
  shows "authenticate sha256_hex secret s2 = (Inl invalid_key, s2) \<and>
    (\<exists>k'\<in>set (api_keys s2). ak_id k' = ak_id k \<and>
      ak_revoked_at k' = (case ak_revoked_at k of None \<Rightarrow> Some now | Some t \<Rightarrow> Some t))"
proof -
  have s1: "s1 = s\<lparr>api_keys := update_where (\<lambda>k. ak_id k = uuid_in kid) (revoked_once now) (api_keys s)\<rparr>"
    using revoked by (auto simp: revokeApiKey_def io_eval store_revokeApiKey_eq split: if_splits)
  have inv1: "auth_inv s1" using revokeApiKey_sound [OF inv, of now kid] revoked by (simp add: auth_sound_def)
  have inv2: "auth_inv s2" and kept: "keys_kept s1 s2"
    using auth_run_sound [OF run inv1] by (simp_all add: auth_sound_def)
  have "revoked_once now k \<in> set (api_keys s1)" using k by (auto simp: s1 set_update_where)
  with kept obtain k' where k': "k' \<in> set (api_keys s2)" "ak_id k' = ak_id k"
    "ak_key_prefix k' = ak_key_prefix k" "ak_revoked_at k' = ak_revoked_at (revoked_once now k)"
    unfolding keys_kept_def by (fastforce split: option.splits)
  have "findKeyCandidateByPrefix (ak_key_prefix k) s2 = None"
  proof (cases "findKeyCandidateByPrefix (ak_key_prefix k) s2")
    case (Some c)
    then obtain k2 where k2: "k2 \<in> set (api_keys s2)" "ak_key_prefix k2 = ak_key_prefix k"
      "ak_revoked_at k2 = None" using candidate_eq [OF inv2] by blast
    have "distinct (map ak_key_prefix (api_keys s2))" using inv2 by (simp add: auth_inv_def)
    from distinct_map_eqD [OF this k2(1) k'(1)] k2 k' show ?thesis by (simp split: option.splits)
  qed
  with secret k' show ?thesis by (auto simp: authenticate_def io_eval)
qed

section \<open>Issuing\<close>

lemma prefix_of_secret:
  "12 \<le> length body \<Longrightarrow> apiKeyPrefixOf (apiKeyTag @ body) = Some (take 12 body)"
  by (simp add: apiKeyPrefixOf_def starts_with_def apiKeyPrefixLength_def)


section \<open>External identities\<close>

text \<open>The principals that no identity maps to.\<close>

definition unmapped :: "db \<Rightarrow> uuid set" where
  "unmapped s = pr_id ` set (principals s) - pid_principal_id ` set (principal_identities s)"

definition sign_in_fair :: "(db \<Rightarrow> db) \<Rightarrow> bool" where
  "sign_in_fair f \<longleftrightarrow> (\<forall>s. auth_inv s \<longrightarrow> auth_inv (f s) \<and> unmapped (f s) \<subseteq> unmapped s)"

text \<open>The principal an identity is mapped to, in a state.\<close>

definition identity_of :: "string \<times> string \<Rightarrow> Principal \<Rightarrow> db \<Rightarrow> bool" where
  "identity_of key p s \<longleftrightarrow>
    (\<exists>x\<in>set (principal_identities s). \<exists>r\<in>set (principals s).
      identity_key x = key \<and> pid_principal_id x = pr_id r \<and> p = toPrincipal r)"

lemma findPrincipalByIdentity_SomeD:
  "findPrincipalByIdentity provider subject s = Some p \<Longrightarrow> identity_of (provider, subject) p s"
  by (auto simp: findPrincipalByIdentity_def identity_of_def identity_key_def split: option.splits
      dest!: select_first_SomeD) metis

definition provisioned :: "string \<times> string \<Rightarrow> db \<Rightarrow> (js_error + Principal) \<times> db \<Rightarrow> bool" where
  "provisioned key s o' \<longleftrightarrow> auth_inv (snd o') \<and> unmapped (snd o') \<subseteq> unmapped s \<and>
    (case fst o' of Inl e \<Rightarrow> True | Inr p \<Rightarrow> identity_of key p (snd o'))"

lemma createPrincipalForIdentity_provisioned:
  assumes inv: "auth_inv s" and fair: "sign_in_fair (pv_before_reread env)"
  shows "provisioned (provider, subject) s (createPrincipalForIdentity env provider subject email name s)"
proof -
  let ?work = "provision_work (pv_now env) (pv_id env) provider subject email name"
  let ?r = "withTransaction (pv_tx env) default_begin deferred_constraints ?work s"
  have mapped: "auth_inv s' \<and> unmapped s' \<subseteq> unmapped s \<and> identity_of (provider, subject) p s'"
    if run: "?work s = Inr (p, s')" for p s'
  proof -
    from provision_work_InrD [OF run] obtain row i where d: "p = toPrincipal row" "pr_id row = pv_id env"
      "identity_key i = (provider, subject)" "pid_principal_id i = pv_id env"
      "s' = s\<lparr>principals := principals s @ [row], principal_identities := principal_identities s @ [i]\<rparr>"
      by metis
    then show ?thesis
      using provision_work_sound [OF run inv]
      by (auto simp: auth_sound_def unmapped_def identity_of_def)
  qed
  have kept: "auth_inv (out_state ?r) \<and> unmapped (out_state ?r) \<subseteq> unmapped s"
    using provision_state [of "pv_tx env" default_begin "pv_now env" "pv_id env" provider subject email name s]
      mapped inv by auto
  show ?thesis
  proof (cases "out_result ?r")
    case (Inr p)
    from withTransaction_InrD [OF Inr] have "?work s = Inr (p, out_state ?r)" by blast
    from mapped [OF this] Inr show ?thesis
      by (simp add: createPrincipalForIdentity_def Let_def provisioned_def)
  next
    case (Inl e)
    have "auth_inv (pv_before_reread env (out_state ?r))"
      "unmapped (pv_before_reread env (out_state ?r)) \<subseteq> unmapped s"
      using kept fair by (auto simp: sign_in_fair_def)
    with Inl kept show ?thesis
      by (auto simp: createPrincipalForIdentity_def Let_def provisioned_def split: option.split
          dest: findPrincipalByIdentity_SomeD)
  qed
qed

text \<open>
  Sign-in through an identity provider.  An unverified address is refused before anything is
  read or written.  Otherwise, whatever the server does to the provisioning transaction and
  whatever other sign-ins do meanwhile: a principal that is returned is active and is the one the
  identity is mapped to in the state left; the tables stay sound - one principal per identity, one
  identity per principal - and no principal is left behind that no identity maps to.
\<close>

theorem sign_in_provisions_once:
  assumes inv: "auth_inv s" and fair: "sign_in_fair between" "sign_in_fair (pv_before_reread env)"
  shows "case authenticateIdentity nfc between env i s of (r, s') \<Rightarrow>
    (if \<not> xi_emailVerified i
     then r = Inl (auth_error ''EMAIL_NOT_VERIFIED'' ''Verify your email address before signing in'') \<and> s' = s
     else provisioned (xi_provider i, xi_subject i) s (r, s') \<and>
       (case r of Inl e \<Rightarrow> True | Inr p \<Rightarrow> p_status p = Principal_active))"
proof -
  let ?key = "(xi_provider i, xi_subject i)"
  let ?found = "findPrincipalByIdentity (xi_provider i) (xi_subject i) s"
  let ?lookup = "(case ?found of
       Some p \<Rightarrow> io_return p
     | None \<Rightarrow> io_bind (io_modify between) (\<lambda>_. createPrincipalForIdentity env (xi_provider i) (xi_subject i)
         (map_option utf8 (sanitizeProviderText nfc (xi_email i) identityEmailMaxLength))
         (principalNameFor nfc i)))"
  have between: "auth_inv (between s)" "unmapped (between s) \<subseteq> unmapped s"
    using inv fair by (auto simp: sign_in_fair_def)
  have "provisioned ?key s (?lookup s)"
  proof (cases ?found)
    case (Some p)
    with findPrincipalByIdentity_SomeD [OF Some] inv show ?thesis by (simp add: provisioned_def io_apply)
  next
    case None
    have "provisioned ?key (between s) (?lookup s)"
      using createPrincipalForIdentity_provisioned [OF between(1) fair(2)] None by (simp add: io_steps)
    with between show ?thesis by (auto simp: provisioned_def)
  qed
  moreover obtain r1 s1 where l: "?lookup s = (r1, s1)" by (cases "?lookup s")
  ultimately have prov: "provisioned ?key s (r1, s1)" by simp
  show ?thesis
  proof (cases "xi_emailVerified i")
    case True
    have "authenticateIdentity nfc between env i s = (case r1 of
        Inl e \<Rightarrow> (Inl e, s1)
      | Inr p \<Rightarrow> (if p_status p \<noteq> Principal_active
          then Inl (auth_error ''UNAUTHORIZED'' ''Invalid credentials'') else Inr p, s1))"
      using True l by (simp add: authenticateIdentity_def io_steps io_bind_def io_apply split: sum.split)
    with prov True show ?thesis by (auto simp: provisioned_def split: sum.split)
  qed (simp add: authenticateIdentity_def io_apply)
qed

section \<open>Provider text\<close>

text \<open>A JavaScript string is a list of 16-bit units.\<close>

definition js_string :: "nat list \<Rightarrow> bool" where
  "js_string s \<longleftrightarrow> (\<forall>u\<in>set s. u < 65536)"

lemma code_points_range: "js_string s \<Longrightarrow> c \<in> set (code_points s) \<Longrightarrow> c < 0x110000"
  by (induction s rule: code_points.induct)
    (auto simp: js_string_def high_surrogate_def low_surrogate_def split: if_splits)

definition is_continuation :: "char \<Rightarrow> bool" where
  "is_continuation c \<longleftrightarrow> 128 \<le> (of_char c :: nat) \<and> (of_char c :: nat) < 192"

lemma char_length_alt: "char_length s = length (filter (\<lambda>c. \<not> is_continuation c) s)"
  by (simp add: char_length_def is_continuation_def)

lemma continuation_byte: "is_continuation (char_of (0x80 + n mod 0x40 :: nat))"
proof -
  have "n mod 0x40 < 0x40" by simp
  then show ?thesis unfolding is_continuation_def by simp
qed

lemma leading_byte: "n < 128 \<or> 192 \<le> n \<Longrightarrow> n < 256 \<Longrightarrow> \<not> is_continuation (char_of (n :: nat))"
  by (auto simp: is_continuation_def)

lemma utf8_point_length: "c < 0x110000 \<Longrightarrow> char_length (utf8_point c) = 1"
proof -
  assume c: "c < 0x110000"
  consider "c < 0x80" | "0x80 \<le> c" "c < 0x800" | "0x800 \<le> c" "c < 0x10000" | "0x10000 \<le> c" by linarith
  then show ?thesis
  proof cases
    case 1
    with leading_byte [of c] show ?thesis by (simp add: utf8_point_def char_length_alt)
  next
    case 2
    then have "\<not> is_continuation (char_of (0xC0 + c div 0x40))" by (intro leading_byte) auto
    with 2 show ?thesis by (simp add: utf8_point_def char_length_alt continuation_byte)
  next
    case 3
    then have "\<not> is_continuation (char_of (0xE0 + c div 0x1000))" by (intro leading_byte) auto
    with 3 show ?thesis by (simp add: utf8_point_def char_length_alt continuation_byte)
  next
    case 4
    with c have "\<not> is_continuation (char_of (0xF0 + c div 0x40000))" by (intro leading_byte) auto
    with 4 show ?thesis by (simp add: utf8_point_def char_length_alt continuation_byte)
  qed
qed

lemma char_length_append: "char_length (s @ t) = char_length s + char_length t"
  by (simp add: char_length_def)

lemma utf8_length: "\<forall>c\<in>set w. c < 0x110000 \<Longrightarrow> char_length (utf8 w) = length w"
  by (induction w) (simp_all add: utf8_def char_length_append utf8_point_length, simp add: char_length_def)

lemma sanitize_SomeD:
  assumes "sanitizeProviderText nfc v n = Some w" and "\<And>s. js_string s \<Longrightarrow> js_string (nfc s)"
    and "\<And>s. v = Some s \<Longrightarrow> js_string s"
  shows "1 \<le> length w \<and> length w \<le> n \<and> (\<forall>c\<in>set w. c < 0x110000 \<and> \<not> control_or_surrogate c) \<and>
    \<not> js_space (hd w) \<and> \<not> js_space (last w)"
proof -
  from assms(1) obtain s where v: "v = Some s" by (cases v) (auto simp: sanitizeProviderText_def)
  define pts where "pts = take n (filter (\<lambda>c. \<not> control_or_surrogate c) (code_points (nfc s)))"
  have w: "w = trim_points pts" "w \<noteq> []"
    using assms(1) v by (auto simp: sanitizeProviderText_def pts_def Let_def split: if_splits)
  have sub: "set (trim_points pts) \<subseteq> set pts"
    by (auto simp: trim_points_def dest!: set_dropWhileD)
  have len: "length (trim_points pts) \<le> length pts"
    unfolding trim_points_def by (metis length_dropWhile_le length_rev order_trans)
  have pts: "c < 0x110000 \<and> \<not> control_or_surrogate c" if "c \<in> set pts" for c
    using that code_points_range [OF assms(2) [OF assms(3) [OF v]], of c]
    by (auto simp: pts_def dest!: in_set_takeD)
  let ?front = "dropWhile js_space (rev (dropWhile js_space pts))"
  have front: "?front \<noteq> []" using w by (auto simp: trim_points_def)
  have "last w = hd ?front" using front by (simp add: w(1) trim_points_def last_rev)
  then have last: "\<not> js_space (last w)" using hd_dropWhile [OF front] by simp
  obtain ys where ys: "rev (dropWhile js_space pts) = ys @ ?front"
    by (metis takeWhile_dropWhile_id)
  then have "dropWhile js_space pts = rev ?front @ rev ys" by (metis rev_append rev_rev_ident)
  moreover have "rev ?front \<noteq> []" using front by simp
  ultimately have "hd (rev ?front) = hd (dropWhile js_space pts)" by (metis hd_append2)
  then have "hd w = hd (dropWhile js_space pts)" by (simp add: w(1) trim_points_def)
  moreover have "dropWhile js_space pts \<noteq> []" using front by (metis dropWhile.simps(1) rev.simps(1))
  ultimately have "\<not> js_space (hd w)" using hd_dropWhile by metis
  moreover have "length pts \<le> n" by (simp add: pts_def)
  ultimately show ?thesis
    using w(2) len last sub pts unfolding w(1) by (auto simp: Suc_le_eq)
qed

text \<open>
  Whatever a provider's profile holds, the principal it provisions has a name the database
  takes: between 1 and 128 characters, with no control character and no half of a surrogate pair
  when it comes from the profile; and an e-mail that is kept has between 1 and 320.
\<close>

theorem provider_text_is_storable:
  assumes nfc: "\<And>s. js_string s \<Longrightarrow> js_string (nfc s)"
    and units: "\<And>s. xi_displayName i = Some s \<or> xi_email i = Some s \<Longrightarrow> js_string s"
    and provider: "xi_provider i = ''firebase''"
  shows "1 \<le> char_length (principalNameFor nfc i) \<and> char_length (principalNameFor nfc i) \<le> 128 \<and>
    (case sanitizeProviderText nfc (xi_displayName i) principalNameMaxLength of
       None \<Rightarrow> True
     | Some w \<Rightarrow> principalNameFor nfc i = utf8 w \<and> (\<forall>c\<in>set w. \<not> control_or_surrogate c)) \<and>
    (case sanitizeProviderText nfc (xi_email i) identityEmailMaxLength of
       None \<Rightarrow> True
     | Some w \<Rightarrow> 1 \<le> char_length (utf8 w) \<and> char_length (utf8 w) \<le> 320)"
proof -
  note limits = principalNameMaxLength_def identityEmailMaxLength_def
  have clean: "1 \<le> char_length (utf8 w) \<and> char_length (utf8 w) \<le> n \<and> (\<forall>c\<in>set w. \<not> control_or_surrogate c)"
    if "sanitizeProviderText nfc v n = Some w" "v = xi_displayName i \<or> v = xi_email i" for v n w
    using sanitize_SomeD [OF that(1) nfc] units that(2) utf8_length [of w] by auto
  let ?fallback = "take 128 (xi_provider i @ '':'' @ xi_subject i)"
  have "char_length ?fallback \<le> length ?fallback" unfolding char_length_def by (rule length_filter_le)
  then have fallback: "char_length ?fallback \<le> 128" by simp
  have "CHR ''f'' \<in> set (filter (\<lambda>c. \<not> is_continuation c) ?fallback)"
    by (simp add: provider is_continuation_def)
  then have "1 \<le> char_length ?fallback" unfolding char_length_alt
    by (metis One_nat_def Suc_leI length_pos_if_in_set)
  with fallback clean show ?thesis
    unfolding principalNameFor_def limits by (auto split: option.split)
qed

end
