(* ===== verification/Auth_Witnesses.thy ===== *)
theory Auth_Witnesses
  imports Sample Auth_Theorems
begin

text \<open>
  The theorems on authentication at concrete inputs: the sample database with its one API key and
  its one external identity.
\<close>

lemma sample_auth: "auth_inv sample_db"
  by code_simp

lemma fair_id: "auth_fair (\<lambda>s. s)" "sign_in_fair (\<lambda>s. s)"
  by (simp_all add: auth_fair_def sign_in_fair_def keys_kept_same)

section \<open>API keys\<close>

text \<open>A hash that is good enough to tell Alice's key from the others.\<close>

definition sample_hash :: "string \<Rightarrow> string" where
  "sample_hash s = replicate 64 (if s = ''pl_live_'' @ replicate 43 (CHR ''A'') then CHR ''a'' else CHR ''0'')"

definition alice_secret :: string where
  "alice_secret = ''pl_live_'' @ replicate 43 (CHR ''A'')"

lemma alice_opens:
  "key_opens sample_hash alice_secret sample_db
    \<lparr>p_createdAt = toISOString t0, p_id = alice, p_name = ''Alice'', p_status = Principal_active\<rparr>"
  unfolding key_opens_def by code_simp

lemma authenticate_exactly_live_keys_witness:
  "fst (authenticate sample_hash alice_secret sample_db) =
    Inr \<lparr>p_createdAt = toISOString t0, p_id = alice, p_name = ''Alice'', p_status = Principal_active\<rparr>"
  using authenticate_exactly_live_keys [OF sample_auth] alice_opens by metis

definition alice_key :: api_key_row where
  "alice_key = \<lparr>ak_id = ''k1'', ak_principal_id = alice, ak_key_prefix = ''AAAAAAAAAAAA'',
     ak_key_hash = alice_key_hash, ak_created_at = t0, ak_revoked_at = None\<rparr>"

definition revoked_db :: db where
  "revoked_db = sample_db\<lparr>api_keys := [alice_key\<lparr>ak_revoked_at := Some 9\<rparr>]\<rparr>"

lemma revoked_db: "revokeApiKey 9 ''k1'' sample_db = (Inr (), revoked_db)"
  by code_simp

lemma revocation_is_final_witness:
  "authenticate sample_hash alice_secret revoked_db = (Inl invalid_key, revoked_db)"
proof -
  have key: "alice_key \<in> set (api_keys sample_db)" "ak_id alice_key = uuid_in ''k1''"
    "apiKeyPrefixOf alice_secret = Some (ak_key_prefix alice_key)"
    by (simp add: sample_db_def alice_key_def) code_simp+
  from revocation_is_final [OF sample_auth revoked_db key(1,2) rtranclp.rtrancl_refl [of _ revoked_db] key(3)]
  show ?thesis by (rule conjunct1)
qed


section \<open>Sign-in\<close>

definition new_identity :: ExternalIdentity where
  "new_identity = \<lparr>xi_displayName = Some [0x20, 0x42, 0xE9, 0xD83D, 0xDE00, 0x7], xi_email = None,
    xi_emailVerified = True, xi_provider = ''firebase'', xi_subject = ''carol-uid''\<rparr>"

definition quiet_provision :: provision_env where
  "quiet_provision = \<lparr>pv_tx = calm, pv_now = 9, pv_id = ''c1'', pv_before_reread = (\<lambda>s. s)\<rparr>"

lemma new_identity_texts:
  "sanitizeProviderText (\<lambda>s. s) (xi_displayName new_identity) principalNameMaxLength = Some [66, 233, 128512]"
  "sanitizeProviderText (\<lambda>s. s) (xi_email new_identity) identityEmailMaxLength = None"
  by (simp_all add: sanitizeProviderText_def new_identity_def principalNameMaxLength_def high_surrogate_def
      low_surrogate_def control_or_surrogate_def trim_points_def js_space_def)

lemma new_identity_name: "principalNameFor (\<lambda>s. s) new_identity = utf8 [66, 233, 128512]"
  by (simp add: principalNameFor_def new_identity_texts)

lemma new_identity_unknown: "findPrincipalByIdentity ''firebase'' ''carol-uid'' sample_db = None"
  by code_simp

lemma deferred_no_posting:
  "ledger_transactions s' = ledger_transactions s \<Longrightarrow> journal_entries s' = journal_entries s \<Longrightarrow>
    deferred_constraints s s' = None"
  by (simp add: deferred_constraints_def)

lemma provision_work_run:
  "\<exists>p s'. p_status p = Principal_active \<and>
    ledger_transactions s' = ledger_transactions sample_db \<and> journal_entries s' = journal_entries sample_db \<and>
    provision_work 9 ''c1'' ''firebase'' ''carol-uid'' None (utf8 [66, 233, 128512]) sample_db = Inr (p, s')"
proof -
  have name: "char_length (utf8 [66, 233, 128512]) = 3" by (simp add: utf8_length)
  have subject: "char_length ''carol-uid'' = 9" by code_simp
  have fresh: "''c1'' \<notin> pr_id ` set (principals sample_db)"
    "''c1'' \<notin> pid_principal_id ` set (principal_identities sample_db)"
    "(''firebase'', ''carol-uid'') \<notin> identity_key ` set (principal_identities sample_db)"
    by code_simp+
  show ?thesis
    by (simp add: provision_work_def createPrincipal_def insert_identity_def insert_unique_def tx_eval
        name subject fresh identity_key_def [of "identity_row.make _ _ _ _ _", unfolded identity_row.make_def]
        Let_def)
qed

lemma provision_run:
  "\<exists>p. p_status p = Principal_active \<and>
    out_result (withTransaction (pv_tx quiet_provision) default_begin deferred_constraints
      (provision_work (pv_now quiet_provision) (pv_id quiet_provision) ''firebase'' ''carol-uid'' None
        (utf8 [66, 233, 128512])) sample_db) = Inr p"
  using provision_work_run deferred_no_posting
  by (auto simp: quiet_provision_def withTransaction_calm)

lemma sign_in_run:
  "\<not> isl (fst (authenticateIdentity (\<lambda>s. s) (\<lambda>s. s) quiet_provision new_identity sample_db))"
proof -
  have i: "xi_emailVerified new_identity" "xi_provider new_identity = ''firebase''"
    "xi_subject new_identity = ''carol-uid''"
    by (simp_all add: new_identity_def)
  show ?thesis
    unfolding authenticateIdentity_def new_identity_texts new_identity_name createPrincipalForIdentity_def i
    using provision_run i(1) by (auto simp: io_eval new_identity_unknown)
qed

lemma sign_in_provisions_once_witness:
  "case authenticateIdentity (\<lambda>s. s) (\<lambda>s. s) quiet_provision new_identity sample_db of (r, s') \<Rightarrow>
    provisioned (''firebase'', ''carol-uid'') sample_db (r, s') \<and> \<not> isl r"
proof -
  have fair: "sign_in_fair (pv_before_reread quiet_provision)" by (simp add: quiet_provision_def fair_id)
  from sign_in_run sign_in_provisions_once [where nfc = "\<lambda>s. s" and i = new_identity, OF sample_auth fair_id(2) fair]
  show ?thesis by (auto simp: new_identity_def split: prod.splits)
qed

lemma provider_text_is_storable_witness:
  "principalNameFor (\<lambda>s. s) new_identity = utf8 [66, 233, 128512] \<and>
    char_length (principalNameFor (\<lambda>s. s) new_identity) \<le> 128"
proof -
  have "\<And>s. xi_displayName new_identity = Some s \<or> xi_email new_identity = Some s \<Longrightarrow> js_string s"
    by (auto simp: new_identity_def js_string_def)
  then show ?thesis
    using provider_text_is_storable [of "\<lambda>s. s" new_identity]
    by (simp add: new_identity_name) (simp add: new_identity_def)
qed

end
