(* ===== verification/Canonical_Json.thy ===== *)
theory Canonical_Json
  imports Money_Domain
begin

text \<open>
  The canonical serialization of a request body (src/modules/idempotency/idempotency-domain.ts)
  and the fingerprint built on it: keys sorted at every object depth, then \<open>JSON.stringify\<close>.
  An object is the list of its own properties in insertion order, its keys distinct.  What
  JavaScript adds to that is modelled as it is: array-index keys are enumerated first and in
  numeric order, assigning \<open>__proto__\<close> creates no property, and arrays are not descended.
\<close>

section \<open>Objects\<close>

definition is_array_index :: "string \<Rightarrow> bool" where
  "is_array_index s \<longleftrightarrow> s = ''0'' \<or> is_positive_text s \<and> digits_value s < 4294967295"

text \<open>The order in which own properties are enumerated.\<close>

definition enumeration :: "(string \<times> 'a) list \<Rightarrow> (string \<times> 'a) list" where
  "enumeration kvs =
    sort_key (\<lambda>kv. digits_value (fst kv)) (filter (\<lambda>kv. is_array_index (fst kv)) kvs) @
    filter (\<lambda>kv. \<not> is_array_index (fst kv)) kvs"

definition js_assign :: "(string \<times> 'a) list \<Rightarrow> string \<times> 'a \<Rightarrow> (string \<times> 'a) list" where
  "js_assign acc kv =
    (if fst kv = ''__proto__'' then acc
     else if fst kv \<in> fst ` set acc
     then map (\<lambda>x. if fst x = fst kv then kv else x) acc
     else acc @ [kv])"

fun sortKeysDeep :: "json \<Rightarrow> json" where
  "sortKeysDeep (JObject kvs) =
    JObject (foldl js_assign [] (sort_key fst (map (\<lambda>kv. (fst kv, sortKeysDeep (snd kv))) kvs)))"
| "sortKeysDeep v = v"

section \<open>JSON.stringify\<close>

definition hex_digit :: "nat \<Rightarrow> char" where
  "hex_digit d = (if d < 10 then char_of (48 + d) else char_of (87 + d))"

definition quote_char :: "char \<Rightarrow> string" where
  "quote_char c =
    (let n = (of_char c :: nat) in
     if n = 34 then [CHR 0x5C, CHR 0x22]
     else if n = 92 then [CHR 0x5C, CHR 0x5C]
     else if n = 8 then [CHR 0x5C, CHR ''b'']
     else if n = 9 then [CHR 0x5C, CHR ''t'']
     else if n = 10 then [CHR 0x5C, CHR ''n'']
     else if n = 12 then [CHR 0x5C, CHR ''f'']
     else if n = 13 then [CHR 0x5C, CHR ''r'']
     else if n < 32 then [CHR 0x5C, CHR ''u'', CHR ''0'', CHR ''0'', hex_digit (n div 16), hex_digit (n mod 16)]
     else [c])"

definition quote :: "string \<Rightarrow> string" where
  "quote s = [CHR 0x22] @ concat (map quote_char s) @ [CHR 0x22]"

fun comma_separated :: "string list \<Rightarrow> string" where
  "comma_separated [] = []"
| "comma_separated [s] = s"
| "comma_separated (s # ss) = s @ '','' @ comma_separated ss"

fun stringify :: "json \<Rightarrow> string" where
  "stringify JNull = ''null''"
| "stringify (JBool b) = (if b then ''true'' else ''false'')"
| "stringify (JNumber n) = (if n \<in> {''Infinity'', ''-Infinity'', ''NaN''} then ''null'' else n)"
| "stringify (JString s) = quote s"
| "stringify (JArray vs) = ''['' @ comma_separated (map stringify vs) @ '']''"
| "stringify (JObject kvs) =
    ''{'' @ comma_separated (map (\<lambda>kv. quote (fst kv) @ '':'' @ snd kv)
              (enumeration (map (\<lambda>kv. (fst kv, stringify (snd kv))) kvs))) @ ''}''"

definition canonicalSerialize :: "json \<Rightarrow> string" where
  "canonicalSerialize body = stringify (sortKeysDeep body)"

text \<open>\<open>sha256_hex\<close> is node's \<open>createHash('sha256').update(s).digest('hex')\<close>.\<close>

definition computeCanonicalFingerprint :: "(string \<Rightarrow> string) \<Rightarrow> json \<Rightarrow> string" where
  "computeCanonicalFingerprint sha256_hex body = sha256_hex (canonicalSerialize body)"

section \<open>Key order does not matter\<close>

fun json_wf :: "json \<Rightarrow> bool" where
  "json_wf (JObject kvs) \<longleftrightarrow> distinct (map fst kvs) \<and> (\<forall>kv\<in>set kvs. json_wf (snd kv))"
| "json_wf (JArray vs) \<longleftrightarrow> (\<forall>v\<in>set vs. json_wf v)"
| "json_wf _ \<longleftrightarrow> True"

text \<open>The same value with the properties of its objects (not inside arrays) in another order.\<close>

inductive same_body :: "json \<Rightarrow> json \<Rightarrow> bool" where
  same_value: "same_body v v"
| same_object:
    "list_all2 (\<lambda>x y. fst x = fst y \<and> same_body (snd x) (snd y)) kvs kvs' \<Longrightarrow>
     set kvs' = set kvs'' \<Longrightarrow> distinct (map fst kvs'') \<Longrightarrow> same_body (JObject kvs) (JObject kvs'')"

lemma sort_key_same_set:
  assumes "distinct (map fst xs)" and "distinct (map fst ys)" and "set xs = set ys"
  shows "sort_key fst xs = sort_key fst ys"
proof (rule map_sorted_distinct_set_unique)
  show "inj_on fst (set (sort_key fst xs) \<union> set (sort_key fst ys))"
    using assms by (simp add: distinct_map)
qed (use assms in \<open>simp_all add: distinct_map\<close>)

lemma same_body_sorted: "same_body a b \<Longrightarrow> json_wf a \<Longrightarrow> sortKeysDeep a = sortKeysDeep b"
proof (induction rule: same_body.induct)
  case (same_object kvs kvs' kvs'')
  let ?deep = "map (\<lambda>kv. (fst kv, sortKeysDeep (snd kv)))"
  have eq: "?deep kvs = ?deep kvs'"
    using same_object.IH same_object.prems
    by (auto simp: list_all2_conv_all_nth intro!: nth_equalityI)
  have keys: "map fst kvs = map fst kvs'"
    using same_object.IH by (auto simp: list_all2_conv_all_nth intro!: nth_equalityI)
  have "sort_key fst (?deep kvs') = sort_key fst (?deep kvs'')"
  proof (rule sort_key_same_set)
    show "distinct (map fst (?deep kvs'))" using same_object.prems keys by (simp add: comp_def)
    show "distinct (map fst (?deep kvs''))" using same_object.hyps by (simp add: comp_def)
    show "set (?deep kvs') = set (?deep kvs'')" using same_object.hyps by simp
  qed
  then show ?case by (simp add: eq)
qed simp

text \<open>
  C29.  Two request bodies that differ only in the order of their objects' properties, at any depth
  outside arrays, have the same fingerprint, so a client may serialize its retry differently
  and still replay.
\<close>

theorem fingerprint_ignores_key_order:
  assumes "same_body a b" and "json_wf a"
  shows "computeCanonicalFingerprint sha256_hex a = computeCanonicalFingerprint sha256_hex b"
  using same_body_sorted [OF assms] by (simp add: computeCanonicalFingerprint_def canonicalSerialize_def)

theorem fingerprint_ignores_key_order_witness:
  "computeCanonicalFingerprint rev
      (JObject [(''amountMinor'', JString ''5''), (''accountId'', JObject [(''b'', JNull), (''a'', JBool True)])]) =
   computeCanonicalFingerprint rev
      (JObject [(''accountId'', JObject [(''a'', JBool True), (''b'', JNull)]), (''amountMinor'', JString ''5'')])"
proof (rule fingerprint_ignores_key_order)
  have inner: "same_body (JObject [(''b'', JNull), (''a'', JBool True)])
      (JObject [(''a'', JBool True), (''b'', JNull)])"
    by (rule same_object [of _ "[(''b'', JNull), (''a'', JBool True)]"]) (auto intro: same_value)
  show "same_body
      (JObject [(''amountMinor'', JString ''5''), (''accountId'', JObject [(''b'', JNull), (''a'', JBool True)])])
      (JObject [(''accountId'', JObject [(''a'', JBool True), (''b'', JNull)]), (''amountMinor'', JString ''5'')])"
    by (rule same_object [of _ "[(''amountMinor'', JString ''5''),
          (''accountId'', JObject [(''a'', JBool True), (''b'', JNull)])]"])
      (auto intro: same_value inner)
qed simp

end
