(* ===== verification/Paging.thy ===== *)
theory Paging
  imports Complex_Main Database Canonical_Json
begin

text \<open>
  Keyset pagination, as src/modules/ledger/ledger-repository.ts and
  src/modules/accounts/account-repository.ts both write it, and the opaque cursors of
  ledger-domain.ts and account-domain.ts.
\<close>

section \<open>One page\<close>

text \<open>
  SELECT ... WHERE own AND key > cursor ORDER BY key LIMIT limit + 1; the extra row only tells
  whether another page exists, and the next cursor is the key of the last row kept.
\<close>

definition after_cursor :: "'k::linorder option \<Rightarrow> 'k \<Rightarrow> bool" where
  "after_cursor cursor k = (case cursor of None \<Rightarrow> True | Some c \<Rightarrow> c < k)"

definition keyset_rows ::
    "('r \<Rightarrow> bool) \<Rightarrow> ('r \<Rightarrow> 'k::linorder) \<Rightarrow> 'k option \<Rightarrow> nat \<Rightarrow> 'r list \<Rightarrow> 'r list" where
  "keyset_rows own key cursor limit t =
    select_page (\<lambda>r. own r \<and> after_cursor cursor (key r)) key (limit + 1) t"

definition cut_page :: "nat \<Rightarrow> 'r list \<Rightarrow> 'r list \<times> 'r option" where
  "cut_page limit rows =
    (let hasMore = limit < length rows;
         page = (if hasMore then take limit rows else rows)
     in (page, if hasMore \<and> page \<noteq> [] then Some (last page) else None))"

definition keyset_page ::
    "('r \<Rightarrow> bool) \<Rightarrow> ('r \<Rightarrow> 'k::linorder) \<Rightarrow> 'k option \<Rightarrow> nat \<Rightarrow> 'r list \<Rightarrow> 'r list \<times> 'k option" where
  "keyset_page own key cursor limit t =
    (let (page, lastRow) = cut_page limit (keyset_rows own key cursor limit t)
     in (page, map_option key lastRow))"

section \<open>Following the cursors\<close>

text \<open>Reading page after page, at most \<open>pages\<close> of them, each from the cursor of the one before.\<close>

fun follow_pages ::
    "('k option \<Rightarrow> 'a list \<times> 'k option) \<Rightarrow> nat \<Rightarrow> 'k option \<Rightarrow> 'a list" where
  "follow_pages page 0 cursor = []"
| "follow_pages page (Suc pages) cursor =
    (case page cursor of
       (rows, None) \<Rightarrow> rows
     | (rows, Some c) \<Rightarrow> rows @ follow_pages page pages (Some c))"

text \<open>What a paginated listing promises: the pages cut the rows after the cursor, in key order.\<close>

locale keyset_listing =
  fixes page :: "'t \<Rightarrow> nat \<Rightarrow> 'k::linorder option \<Rightarrow> 'a list \<times> 'k option"
    and contents :: "'t \<Rightarrow> ('k \<times> 'a) list"
    and well_keyed :: "'t \<Rightarrow> bool"
  assumes contents_sorted: "well_keyed t \<Longrightarrow> sorted_wrt (<) (map fst (contents t))"
    and page_rows: "well_keyed t \<Longrightarrow> fst (page t n cursor) =
      map snd (take n (filter (\<lambda>x. after_cursor cursor (fst x)) (contents t)))"
    and page_next: "well_keyed t \<Longrightarrow> snd (page t n cursor) =
      (let rest = filter (\<lambda>x. after_cursor cursor (fst x)) (contents t) in
       if 0 < n \<and> n < length rest then Some (fst (rest ! (n - 1))) else None)"
begin

lemma rest_after:
  assumes "sorted_wrt (<) (map fst xs)" and "0 < n" and "n \<le> length xs"
  shows "filter (\<lambda>x. after_cursor (Some (fst (xs ! (n - 1)))) (fst x)) xs = drop n xs"
  using assms
proof (induction xs arbitrary: n)
  case (Cons x xs)
  show ?case
  proof (cases "n = 1")
    case True
    with Cons.prems show ?thesis
      by (auto simp: after_cursor_def filter_id_conv)
  next
    case False
    then obtain m where m: "n = Suc (Suc m)" using Cons.prems(2) by (metis One_nat_def not0_implies_Suc not_gr_zero)
    then have "fst x < fst (xs ! m)" using Cons.prems by simp
    with Cons.IH [of "Suc m"] Cons.prems m show ?thesis by (auto simp: after_cursor_def dest: less_asym)
  qed
qed simp

lemma filter_after_filter:
  "sorted_wrt (<) (map fst xs) \<Longrightarrow> rest = filter (\<lambda>x. after_cursor cursor (fst x)) xs \<Longrightarrow>
    0 < n \<Longrightarrow> n \<le> length rest \<Longrightarrow>
    filter (\<lambda>x. after_cursor (Some (fst (rest ! (n - 1)))) (fst x)) xs = drop n rest"
proof -
  assume sorted: "sorted_wrt (<) (map fst xs)" and rest: "rest = filter (\<lambda>x. after_cursor cursor (fst x)) xs"
    and n: "0 < n" "n \<le> length rest"
  let ?k = "fst (rest ! (n - 1))"
  have sorted_rest: "sorted_wrt (<) (map fst rest)"
    unfolding rest using sorted by (simp add: sorted_wrt_map sorted_wrt_filter)
  have "rest ! (n - 1) \<in> set rest" using n by simp
  then have "after_cursor cursor ?k" unfolding rest by simp
  then have "filter (\<lambda>x. after_cursor (Some ?k) (fst x)) xs =
      filter (\<lambda>x. after_cursor (Some ?k) (fst x)) rest"
    unfolding rest by (auto simp: after_cursor_def intro!: filter_cong split: option.splits)
  with rest_after [OF sorted_rest n] show ?thesis by simp
qed

lemma follow_take:
  assumes "well_keyed t" and "0 < n"
  shows "follow_pages (page t n) pages cursor =
    map snd (take (pages * n) (filter (\<lambda>x. after_cursor cursor (fst x)) (contents t)))"
proof (induction pages arbitrary: cursor)
  case (Suc pages)
  note One_nat_def [simp del]
  define rest where "rest = filter (\<lambda>x. after_cursor cursor (fst x)) (contents t)"
  note rows = page_rows [OF assms(1), of n cursor, folded rest_def]
  note nxt = page_next [OF assms(1), of n cursor, folded rest_def, unfolded Let_def]
  show ?case
  proof (cases "n < length rest")
    case False
    then have "page t n cursor = (map snd rest, None)"
      using rows nxt by (simp add: prod_eq_iff)
    with False show ?thesis by (simp add: rest_def [symmetric])
  next
    case True
    let ?k = "fst (rest ! (n - 1))"
    have p: "page t n cursor = (map snd (take n rest), Some ?k)"
      using rows nxt True assms(2) by (simp add: prod_eq_iff)
    have drop: "filter (\<lambda>x. after_cursor (Some ?k) (fst x)) (contents t) = drop n rest"
      using True assms(2) by (intro filter_after_filter [OF contents_sorted [OF assms(1)] rest_def]) auto
    have "follow_pages (page t n) pages (Some ?k) = map snd (take (pages * n) (drop n rest))"
      using Suc.IH [of "Some ?k"] by (simp add: drop)
    then show ?thesis by (simp add: p rest_def [symmetric] take_add)
  qed
qed simp

lemma follow_all:
  assumes "well_keyed t" and "0 < n" and "length (contents t) \<le> pages * n" and "0 < pages"
  shows "follow_pages (page t n) pages None = map snd (contents t)"
  using follow_take [OF assms(1,2), of pages None] assms(3,4) by (simp add: after_cursor_def)

end

text \<open>The generic page is such a listing, for any rows with distinct keys.\<close>

definition keyset_contents :: "('r \<Rightarrow> bool) \<Rightarrow> ('r \<Rightarrow> 'k::linorder) \<Rightarrow> ('r \<Rightarrow> 'a) \<Rightarrow> 'r list \<Rightarrow> ('k \<times> 'a) list" where
  "keyset_contents own key view t = map (\<lambda>r. (key r, view r)) (sort_key key (filter own t))"

lemma filter_sort_key: "filter p (sort_key k xs) = sort_key k (filter p xs)"
  by (rule filter_sort)

lemma keyset_rows_eq:
  "keyset_rows own key cursor limit t =
    take (limit + 1) (filter (\<lambda>r. after_cursor cursor (key r)) (sort_key key (filter own t)))"
  unfolding keyset_rows_def select_page_def filter_sort_key by (simp add: conj_commute)

lemma cut_page_take:
  "cut_page n (take (n + 1) rows) =
    (take n rows, if 0 < n \<and> n < length rows then Some (rows ! (n - 1)) else None)"
proof (cases "n < length rows")
  case True
  then have "take n (take (n + 1) rows) = take n rows" by simp
  moreover have "last (take n rows) = rows ! (n - 1)" if "0 < n"
    using that True by (subst last_conv_nth) auto
  ultimately show ?thesis using True by (cases "n = 0") (auto simp: cut_page_def Let_def)
next
  case False
  then show ?thesis by (simp add: cut_page_def Let_def)
qed

lemma keyset_page_rows:
  "map view (fst (keyset_page own key cursor n t)) =
    map snd (take n (filter (\<lambda>x. after_cursor cursor (fst x)) (keyset_contents own key view t)))"
  unfolding keyset_page_def keyset_rows_eq cut_page_take keyset_contents_def
  by (simp add: filter_map comp_def take_map)

lemma keyset_page_next:
  "snd (keyset_page own key cursor n t) =
    (let rest = filter (\<lambda>x. after_cursor cursor (fst x)) (keyset_contents own key view t) in
     if 0 < n \<and> n < length rest then Some (fst (rest ! (n - 1))) else None)"
  unfolding keyset_page_def keyset_rows_eq cut_page_take keyset_contents_def
  by (auto simp: filter_map comp_def Let_def)

lemma keyset_contents_sorted:
  assumes "distinct (map key (filter own t))"
  shows "sorted_wrt (<) (map fst (keyset_contents own key view t))"
proof -
  have "map fst (keyset_contents own key view t) = map key (sort_key key (filter own t))"
    by (simp add: keyset_contents_def comp_def)
  moreover have "distinct (map key (sort_key key (filter own t)))" using assms by (simp add: distinct_map)
  ultimately show ?thesis by (simp add: strict_sorted_iff)
qed

section \<open>Cursors\<close>

text \<open>
  The timestamp a cursor carries is PostgreSQL's
  \<open>to_char(created_at AT TIME ZONE 'UTC', 'YYYY-MM-DD"T"HH24:MI:SS.US"Z"')\<close>.
\<close>

definition cursor_timestamp :: "instant \<Rightarrow> string" where
  "cursor_timestamp t =
    (let (y, mo, d) = civil_from_days (t div 86400000000);
         r = t mod 86400000000
     in pad_left 4 (bigint_text y) @ ''-'' @ two_digits mo @ ''-'' @ two_digits d @ ''T'' @
        two_digits (r div 3600000000) @ '':'' @ two_digits (r div 60000000 mod 60) @ '':'' @
        two_digits (r div 1000000 mod 60) @ ''.'' @ pad_left 6 (bigint_text (r mod 1000000)) @ ''Z'')"

text \<open>
  What the cursors use of Node and PostgreSQL: \<open>Buffer\<close>'s base64url both ways, \<open>JSON.parse\<close>,
  whether \<open>Date.parse\<close> gives a number, and the cast to \<open>timestamptz\<close>.
\<close>

record cursor_codec =
  to_base64url :: "string \<Rightarrow> string"
  from_base64url :: "string \<Rightarrow> string"
  json_parse :: "string \<Rightarrow> json option"
  date_parses :: "string \<Rightarrow> bool"
  timestamptz_in :: "string \<Rightarrow> instant option"

record keyset_cursor =
  cu_createdAt :: string
  cu_id :: string

definition is_hex_digit :: "char \<Rightarrow> bool" where
  "is_hex_digit c \<longleftrightarrow> is_digit c \<or> (CHR ''a'' \<le> c \<and> c \<le> CHR ''f'') \<or> (CHR ''A'' \<le> c \<and> c \<le> CHR ''F'')"

text \<open>The pattern \<open>^[0-9a-f]{8}-[0-9a-f]{4}-[0-9a-f]{4}-[0-9a-f]{4}-[0-9a-f]{12}$\<close>, any case.\<close>

definition is_uuid_text :: "string \<Rightarrow> bool" where
  "is_uuid_text s \<longleftrightarrow> length s = 36 \<and>
    (\<forall>i<36. if i \<in> {8, 13, 18, 23} then s ! i = CHR ''-'' else is_hex_digit (s ! i))"

definition encode_cursor :: "cursor_codec \<Rightarrow> keyset_cursor \<Rightarrow> string" where
  "encode_cursor codec c =
    to_base64url codec (stringify
      (JObject [(''createdAt'', JString (cu_createdAt c)), (''id'', JString (cu_id c))]))"

definition json_field :: "json \<Rightarrow> string \<Rightarrow> json option" where
  "json_field v key = (case v of JObject kvs \<Rightarrow> map_of kvs key | _ \<Rightarrow> None)"

definition decode_cursor :: "cursor_codec \<Rightarrow> js_error \<Rightarrow> string \<Rightarrow> js_error + keyset_cursor" where
  "decode_cursor codec malformed raw =
    (case json_parse codec (from_base64url codec raw) of
       None \<Rightarrow> Inl malformed
     | Some parsed \<Rightarrow>
         (case (json_field parsed ''createdAt'', json_field parsed ''id'') of
            (Some (JString createdAt), Some (JString cid)) \<Rightarrow>
              if \<not> date_parses codec createdAt \<or> \<not> is_uuid_text cid then Inl malformed
              else Inr \<lparr>cu_createdAt = createdAt, cu_id = cid\<rparr>
          | _ \<Rightarrow> Inl malformed))"

definition decodeJournalEntryCursor :: "cursor_codec \<Rightarrow> string \<Rightarrow> js_error + keyset_cursor" where
  "decodeJournalEntryCursor codec =
    decode_cursor codec (CodedError LedgerError ''INVALID_CURSOR'' ''Cursor is malformed'')"

definition decodeOwnedAccountsCursor :: "cursor_codec \<Rightarrow> string \<Rightarrow> js_error + keyset_cursor" where
  "decodeOwnedAccountsCursor codec =
    decode_cursor codec (CodedError AccountError ''INVALID_CURSOR'' ''Cursor is malformed'')"

text \<open>The comparison value a cursor gives the query; a timestamp PostgreSQL rejects is its error.\<close>

definition cursor_position :: "cursor_codec \<Rightarrow> keyset_cursor \<Rightarrow> js_error + instant \<times> uuid" where
  "cursor_position codec c =
    (case timestamptz_in codec (cu_createdAt c) of
       None \<Rightarrow> Inl (pg_error ''22007'' ''invalid input syntax for type timestamp with time zone'')
     | Some t \<Rightarrow> Inr (t, uuid_in (cu_id c)))"

definition position_cursor :: "instant \<times> uuid \<Rightarrow> keyset_cursor" where
  "position_cursor p = \<lparr>cu_createdAt = cursor_timestamp (fst p), cu_id = snd p\<rparr>"

text \<open>What is documented of them, at a row's position.\<close>

definition cursor_json :: "instant \<times> uuid \<Rightarrow> json" where
  "cursor_json p = JObject [(''createdAt'', JString (cursor_timestamp (fst p))), (''id'', JString (snd p))]"

definition codec_reads :: "cursor_codec \<Rightarrow> instant \<times> uuid \<Rightarrow> bool" where
  "codec_reads c p \<longleftrightarrow>
    (let text = stringify (cursor_json p) in
     to_base64url c text \<noteq> [] \<and> from_base64url c (to_base64url c text) = text \<and>
     json_parse c text = Some (cursor_json p) \<and>
     date_parses c (cursor_timestamp (fst p)) \<and> timestamptz_in c (cursor_timestamp (fst p)) = Some (fst p))"

text \<open>A row's own cursor comes back as the row's position, to the microsecond.\<close>

lemma cursor_roundtrip:
  assumes "codec_reads codec p" and "is_uuid_text (snd p)"
  shows "decode_cursor codec e (encode_cursor codec (position_cursor p)) = Inr (position_cursor p)"
    and "encode_cursor codec (position_cursor p) \<noteq> []"
  using assms
  by (simp_all add: decode_cursor_def encode_cursor_def codec_reads_def json_field_def position_cursor_def
      cursor_json_def Let_def del: stringify.simps)

lemma position_roundtrip:
  "codec_reads codec p \<Longrightarrow> uuid_in (snd p) = snd p \<Longrightarrow> cursor_position codec (position_cursor p) = Inr p"
  by (simp add: cursor_position_def position_cursor_def codec_reads_def Let_def)

end
