(* ===== verification/Json_Schema.thy ===== *)
theory Json_Schema
  imports Paging Auth
begin

text \<open>
  The part of JSON Schema the routes' schemas are written in.  The schemas are the source's data;
  what they mean is JSON Schema's own definition of the keywords they use.  Fastify's validator
  (ajv) is not modelled: it is an argument of the routes, and \<open>validator_ok\<close> is what it promises.
\<close>

section \<open>Schemas\<close>

text \<open>The three patterns are \<open>^[1-9][0-9]*$\<close>, \<open>^-?[0-9]+$\<close> and \<open>^[A-Z]{3}$\<close>.\<close>

datatype string_rule =
    Format_uuid
  | Format_date_time
  | Pattern_positive
  | Pattern_integer
  | Pattern_currency
  | Min_length nat
  | Max_length nat
  | Enum "string list"

text \<open>\<open>additionalProperties\<close> is \<open>false\<close> in every object schema of the source.\<close>

datatype schema =
    Sch_string "string_rule list"
  | Sch_integer "int option" "int option"
  | Sch_boolean
  | Sch_true
  | Sch_nullable schema
  | Sch_array schema
  | Sch_object "string list" "(string \<times> schema) list"

definition is_integer_text :: "string \<Rightarrow> bool" where
  "is_integer_text s \<longleftrightarrow>
    (case s of
       [] \<Rightarrow> False
     | c # cs \<Rightarrow> if c = CHR ''-'' then cs \<noteq> [] \<and> list_all is_digit cs else list_all is_digit s)"

text \<open>The date-times the service writes: those of \<open>Date.prototype.toISOString\<close>.\<close>

definition is_date_time :: "string \<Rightarrow> bool" where
  "is_date_time s \<longleftrightarrow> length s = 24 \<and>
    (\<forall>i<24. if i = 4 \<or> i = 7 then s ! i = CHR ''-''
             else if i = 10 then s ! i = CHR ''T''
             else if i = 13 \<or> i = 16 then s ! i = CHR '':''
             else if i = 19 then s ! i = CHR ''.''
             else if i = 23 then s ! i = CHR ''Z''
             else is_digit (s ! i))"

fun string_rule_ok :: "string_rule \<Rightarrow> string \<Rightarrow> bool" where
  "string_rule_ok Format_uuid s = is_uuid_text s"
| "string_rule_ok Format_date_time s = is_date_time s"
| "string_rule_ok Pattern_positive s = is_positive_text s"
| "string_rule_ok Pattern_integer s = is_integer_text s"
| "string_rule_ok Pattern_currency s = currency_ok s"
| "string_rule_ok (Min_length n) s = (n \<le> char_length s)"
| "string_rule_ok (Max_length n) s = (char_length s \<le> n)"
| "string_rule_ok (Enum vs) s = (s \<in> set vs)"

text \<open>A number is carried by its text.\<close>

definition integer_ok :: "int option \<Rightarrow> int option \<Rightarrow> string \<Rightarrow> bool" where
  "integer_ok lo hi s \<longleftrightarrow> is_integer_text s \<and>
    (case lo of None \<Rightarrow> True | Some l \<Rightarrow> l \<le> bigint_value s) \<and>
    (case hi of None \<Rightarrow> True | Some h \<Rightarrow> bigint_value s \<le> h)"

lemma size_element [termination_simp]: "v \<in> set vs \<Longrightarrow> size (v::json) < Suc (size_list size vs)"
  by (induction vs) auto

lemma size_property [termination_simp]:
  "f \<in> set kvs \<Longrightarrow> size (snd f :: json) < Suc (size_list (size_prod (\<lambda>_. 0) size) kvs)"
  by (induction kvs) (auto split: prod.splits)

fun conforms :: "schema \<Rightarrow> json \<Rightarrow> bool" where
  "conforms (Sch_string rules) (JString s) = list_all (\<lambda>r. string_rule_ok r s) rules"
| "conforms (Sch_integer lo hi) (JNumber s) = integer_ok lo hi s"
| "conforms Sch_boolean (JBool b) = True"
| "conforms Sch_true (JBool b) = b"
| "conforms (Sch_nullable sch) JNull = True"
| "conforms (Sch_nullable sch) v = conforms sch v"
| "conforms (Sch_array sch) (JArray vs) = (\<forall>v\<in>set vs. conforms sch v)"
| "conforms (Sch_object required props) (JObject kvs) =
    (set required \<subseteq> fst ` set kvs \<and> distinct (map fst kvs) \<and>
     (\<forall>f\<in>set kvs. case map_of props (fst f) of None \<Rightarrow> False | Some sch \<Rightarrow> conforms sch (snd f)))"
| "conforms _ _ = False"

end
