(* ===== verification/Http.thy ===== *)
theory Http
  imports Json_Schema
begin

text \<open>
  src/infrastructure/http: a request as the routes see it, the two guards, the verification of
  a Firebase ID token, and the log redaction.  Fastify and jose are third-party: the validator
  of a schema and \<open>jwtVerify\<close> are arguments.
\<close>

section \<open>Requests\<close>

text \<open>
  \<open>hq_body\<close> is what Fastify's content-type parser makes of the body: an error of its own or a
  value.  \<open>hq_principalId\<close> is set by the customer guard.
\<close>

record http_request =
  hq_authorization :: header
  hq_admin_key :: header
  hq_idempotency_key :: header
  hq_request_id :: header
  hq_params :: json
  hq_query :: json
  hq_body :: "js_error + json"
  hq_principalId :: "uuid option"

text \<open>\<open>genReqId\<close> of app.ts; \<open>random\<close> is what \<open>randomUUID\<close> gives.\<close>

definition genReqId :: "uuid \<Rightarrow> header \<Rightarrow> string" where
  "genReqId random suppliedId =
    (case suppliedId of One_header s \<Rightarrow> if length s \<le> 128 then s else random | _ \<Rightarrow> random)"

text \<open>A validator returns the value a schema accepts, after the conversions it makes.\<close>

type_synonym validator = "schema \<Rightarrow> json \<Rightarrow> json option"

definition validator_ok :: "validator \<Rightarrow> bool" where
  "validator_ok ajv \<longleftrightarrow> (\<forall>sch v v'. ajv sch v = Some v' \<longrightarrow> conforms sch v')"

definition validated :: "validator \<Rightarrow> schema \<Rightarrow> json \<Rightarrow> js_error + json" where
  "validated ajv sch v =
    (case ajv sch v of None \<Rightarrow> Inl (ValidationError ''request'') | Some v' \<Rightarrow> Inr v')"

lemma validated_ok: "validator_ok ajv \<Longrightarrow> validated ajv sch v = Inr v' \<Longrightarrow> conforms sch v'"
  by (auto simp: validator_ok_def validated_def split: option.splits)

section \<open>admin-auth.ts\<close>

text \<open>\<open>Buffer.from(s, 'utf8')\<close> of a text whose characters are below 256, as header texts are.\<close>

definition buffer_from :: "string \<Rightarrow> string" where
  "buffer_from s = utf8 (map of_char s)"

definition timingSafeEqual :: "string \<Rightarrow> string \<Rightarrow> bool" where
  "timingSafeEqual a b = list_all2 (=) a b"

definition requireAdminApiKey :: "string \<Rightarrow> header \<Rightarrow> js_error + unit" where
  "requireAdminApiKey expectedKey provided =
    (case provided of
       One_header p \<Rightarrow>
         if length p = 0 then Inl (AppError ''UNAUTHORIZED'' 401 ''Missing admin API key'')
         else
           (let expected = buffer_from expectedKey; providedBuffer = buffer_from p in
            if \<not> (length providedBuffer = length expected \<and> timingSafeEqual providedBuffer expected)
            then Inl (AppError ''UNAUTHORIZED'' 401 ''Invalid admin API key'')
            else Inr ())
     | _ \<Rightarrow> Inl (AppError ''UNAUTHORIZED'' 401 ''Missing admin API key''))"

lemma utf8_Cons: "utf8 (c # cs) = utf8_point c @ utf8 cs"
  by (simp add: utf8_def)

lemma byte_char_inj: "m < 256 \<Longrightarrow> n < 256 \<Longrightarrow> char_of (m::nat) = (char_of n :: char) \<longleftrightarrow> m = n"
  by (metis mod_less of_char_of)

lemma utf8_byte_inj:
  assumes "a < 256" and "b < 256" and "utf8_point a @ xs = utf8_point b @ ys"
  shows "a = b \<and> xs = ys"
proof -
  define lead where "lead c = (if c < 0x80 then c else 0xC0 + c div 0x40)" for c :: nat
  have small: "lead c < 256" if "c < 256" for c using that by (auto simp: lead_def)
  have head: "hd (utf8_point c @ zs) = char_of (lead c)" if "c < 256" for c zs
    using that by (simp add: utf8_point_def lead_def)
  have "char_of (lead a) = (char_of (lead b) :: char)"
    using head [OF assms(1)] head [OF assms(2)] assms(3) by metis
  then have "lead a = lead b" using byte_char_inj [OF small small] assms(1,2) by blast
  then consider "a < 0x80" "a = b" | "0x80 \<le> a" "0x80 \<le> b" "a div 0x40 = b div 0x40"
    using assms(1,2) by (auto simp: lead_def split: if_splits)
  then show ?thesis
  proof cases
    case 1
    with assms(3) show ?thesis by simp
  next
    case 2
    with assms have "char_of (0x80 + a mod 0x40) = (char_of (0x80 + b mod 0x40) :: char)" "xs = ys"
      by (simp_all add: utf8_point_def)
    moreover have "a mod 0x40 < 0x40" "b mod 0x40 < 0x40" by simp_all
    ultimately have "a mod 0x40 = b mod 0x40"
      using byte_char_inj [of "0x80 + a mod 0x40" "0x80 + b mod 0x40"] by simp
    with 2 \<open>xs = ys\<close> show ?thesis by (metis div_mult_mod_eq)
  qed
qed

lemma utf8_nonempty: "utf8_point c \<noteq> []"
  by (simp add: utf8_point_def)

lemma utf8_inj: "\<forall>c\<in>set s. c < 256 \<Longrightarrow> \<forall>c\<in>set t. c < 256 \<Longrightarrow> utf8 s = utf8 t \<Longrightarrow> s = t"
proof (induction s arbitrary: t)
  case Nil
  then show ?case by (cases t) (simp_all add: utf8_def utf8_nonempty)
next
  case (Cons c s)
  show ?case
  proof (cases t)
    case Nil
    with Cons.prems show ?thesis by (simp add: utf8_Cons utf8_nonempty) (simp add: utf8_def utf8_nonempty)
  next
    case (Cons d t')
    with Cons.prems have "utf8_point c @ utf8 s = utf8_point d @ utf8 t'" "c < 256" "d < 256"
      by (simp_all add: utf8_Cons)
    with utf8_byte_inj have "c = d" "utf8 s = utf8 t'" by blast+
    with Cons.IH [of t'] Cons.prems Cons show ?thesis by simp
  qed
qed

lemma buffer_from_inj: "buffer_from s = buffer_from t \<longleftrightarrow> s = t"
proof
  assume "buffer_from s = buffer_from t"
  then have "map of_char s = (map of_char t :: nat list)"
    unfolding buffer_from_def by (intro utf8_inj) auto
  then have "map char_of (map of_char s :: nat list) = (map char_of (map of_char t :: nat list) :: string)" by simp
  then show "s = t" by (simp add: comp_def)
qed simp

lemma requireAdminApiKey_ok:
  "requireAdminApiKey expectedKey provided = Inr () \<longleftrightarrow> provided = One_header expectedKey \<and> expectedKey \<noteq> []"
  by (auto simp: requireAdminApiKey_def Let_def timingSafeEqual_def list_all2_eq [symmetric] buffer_from_inj
      list.rel_eq split: header.split)

section \<open>api-key-auth.ts\<close>

definition js_trim :: "string \<Rightarrow> string" where
  "js_trim s = rev (dropWhile (js_space \<circ> of_char) (rev (dropWhile (js_space \<circ> of_char) s)))"

text \<open>\<open>/^Bearer (.+)$/\<close>: a dot is any character but a line terminator.\<close>

definition line_terminator :: "char \<Rightarrow> bool" where
  "line_terminator c \<longleftrightarrow> c = CHR 0x0A \<or> c = CHR 0x0D"

definition bearer_match :: "string \<Rightarrow> string option" where
  "bearer_match s =
    (let rest = drop 7 s in
     if starts_with s ''Bearer '' \<and> rest \<noteq> [] \<and> list_all (\<lambda>c. \<not> line_terminator c) rest
     then Some rest else None)"

definition extractBearerToken :: "header \<Rightarrow> string option" where
  "extractBearerToken h =
    (case h of
       One_header s \<Rightarrow>
         (case bearer_match (js_trim s) of
            None \<Rightarrow> None
          | Some m \<Rightarrow> if js_trim m = [] then None else Some (js_trim m))
     | _ \<Rightarrow> None)"

text \<open>The guard returns the request with the principal set; \<open>resolve\<close> is the composition root's.\<close>

definition requireApiKey ::
    "(string \<Rightarrow> ('s, js_error, Principal) io) \<Rightarrow> http_request \<Rightarrow> ('s, js_error, http_request) io" where
  "requireApiKey resolve req =
    (case extractBearerToken (hq_authorization req) of
       None \<Rightarrow> io_throw (AppError ''UNAUTHORIZED'' 401 ''Missing or malformed Authorization header'')
     | Some secret \<Rightarrow>
         io_bind (resolve secret) (\<lambda>principal.
         io_return (req\<lparr>hq_principalId := Some (p_id principal)\<rparr>)))"

definition principalOf :: "http_request \<Rightarrow> js_error + uuid" where
  "principalOf req =
    (case hq_principalId req of
       None \<Rightarrow> Inl (AppError ''UNAUTHORIZED'' 401 ''Authentication required'')
     | Some pid \<Rightarrow> if pid = [] then Inl (AppError ''UNAUTHORIZED'' 401 ''Authentication required'') else Inr pid)"

section \<open>firebase-id-token.ts\<close>

text \<open>What the verifier asks of \<open>jwtVerify\<close>, what it reads of a payload, and jose's errors.\<close>

record jwt_options =
  jo_algorithms :: "string list"
  jo_audience :: string
  jo_clockTolerance :: int
  jo_issuer :: string
  jo_requiredClaims :: "string list"

text \<open>A claim that is absent or of another type than the verifier wants is \<open>None\<close>.\<close>

record jwt_payload =
  jp_iat :: "rat option"
  jp_auth_time :: "rat option"
  jp_sub :: "string option"
  jp_name :: "nat list option"
  jp_email :: "nat list option"
  jp_email_verified :: "bool option"

datatype jose_error =
    JOSEAlgNotAllowed | JOSENotSupported | JWKSMultipleMatchingKeys | JWKSNoMatchingKey
  | JWSInvalid | JWSSignatureVerificationFailed | JWTClaimValidationFailed | JWTExpired
  | JWTInvalid | Other_jose_error

definition tokenErrorTypes :: "jose_error list" where
  "tokenErrorTypes =
    [JOSEAlgNotAllowed, JOSENotSupported, JWKSMultipleMatchingKeys, JWKSNoMatchingKey, JWSInvalid,
     JWSSignatureVerificationFailed, JWTClaimValidationFailed, JWTExpired, JWTInvalid]"

definition isTokenError :: "jose_error \<Rightarrow> bool" where
  "isTokenError e \<longleftrightarrow> e \<in> set tokenErrorTypes"

definition invalidToken :: js_error where
  "invalidToken = AppError ''UNAUTHORIZED'' 401 ''Invalid or expired ID token''"

definition maxSubjectLength :: nat where
  "maxSubjectLength = 128"

definition firebase_options :: "string \<Rightarrow> int \<Rightarrow> jwt_options" where
  "firebase_options projectId clockTolerance =
    \<lparr>jo_algorithms = [''RS256''], jo_audience = projectId, jo_clockTolerance = clockTolerance,
     jo_issuer = ''https://securetoken.google.com/'' @ projectId,
     jo_requiredClaims = [''sub'', ''iat'', ''exp'', ''auth_time'']\<rparr>"

definition verifyFirebaseToken ::
    "(jwt_options \<Rightarrow> string \<Rightarrow> jose_error + jwt_payload) \<Rightarrow> string \<Rightarrow> int \<Rightarrow> int \<Rightarrow> string
      \<Rightarrow> js_error + ExternalIdentity" where
  "verifyFirebaseToken jwtVerify projectId clockTolerance nowMs token =
    (case jwtVerify (firebase_options projectId clockTolerance) token of
       Inl e \<Rightarrow>
         Inl (if isTokenError e then invalidToken
              else AppError ''AUTH_PROVIDER_UNAVAILABLE'' 503
                     ''Identity provider keys are unavailable; retry shortly'')
     | Inr payload \<Rightarrow>
         (let nowSeconds = nowMs div 1000 in
          case first_error (\<lambda>claim. case claim of
                 None \<Rightarrow> Some invalidToken
               | Some t \<Rightarrow> if of_int (nowSeconds + clockTolerance) < t then Some invalidToken else None)
               [jp_iat payload, jp_auth_time payload] of
            Some e \<Rightarrow> Inl e
          | None \<Rightarrow>
              (case jp_sub payload of
                 None \<Rightarrow> Inl invalidToken
               | Some subject \<Rightarrow>
                   if length subject = 0 \<or> maxSubjectLength < length subject then Inl invalidToken
                   else Inr \<lparr>xi_displayName = jp_name payload, xi_email = jp_email payload,
                             xi_emailVerified = (jp_email_verified payload = Some True),
                             xi_provider = ''firebase'', xi_subject = subject\<rparr>)))"

definition defaultClockToleranceSeconds :: int where
  "defaultClockToleranceSeconds = 5"

section \<open>logging.ts\<close>

definition sensitiveHeaderRedactPaths :: "string list" where
  "sensitiveHeaderRedactPaths =
    [''req.headers.authorization'', ''req.headers[\"x-admin-api-key\"]'', ''req.headers.cookie'',
     ''res.headers[\"set-cookie\"]'']"

text \<open>An object's properties: writing one that exists keeps its place.\<close>

fun set_property :: "string \<Rightarrow> json \<Rightarrow> (string \<times> json) list \<Rightarrow> (string \<times> json) list" where
  "set_property k v [] = [(k, v)]"
| "set_property k v (p # ps) = (if fst p = k then (k, v) # ps else p # set_property k v ps)"

definition withRedaction :: "(string \<times> json) list \<Rightarrow> (string \<times> json) list" where
  "withRedaction base =
    set_property ''redact''
      (JObject [(''paths'', JArray (map JString sensitiveHeaderRedactPaths)),
                (''censor'', JString ''[REDACTED]'')]) base"

end
