(* ===== verification/Metrics.thy ===== *)
theory Metrics
  imports Transfers Money_Domain
begin

text \<open>
  src/infrastructure/http/metrics.ts: the Prometheus text exposition of the transfer counters and
  the outbox depth, and the property that a label value, escaped, is read back as itself.
\<close>

record MetricsSnapshot =
  ms_outbox :: "outbox_stats option"
  ms_transfers :: TransferMetrics

definition prometheusContentType :: string where
  "prometheusContentType = ''text/plain; version=0.0.4; charset=utf-8''"

datatype metric_type = Counter | Gauge

record metric_sample =
  sm_labels :: "(string \<times> string) list option"
  sm_value :: nat

record MetricFamily =
  mf_help :: string
  mf_name :: string
  mf_samples :: "metric_sample list"
  mf_type :: metric_type

text \<open>\<open>s.replace(/c/g, t)\<close> and \<open>parts.join(sep)\<close>.\<close>

definition replace_all :: "char \<Rightarrow> string \<Rightarrow> string \<Rightarrow> string" where
  "replace_all c t s = concat (map (\<lambda>d. if d = c then t else [d]) s)"

fun join :: "string \<Rightarrow> string list \<Rightarrow> string" where
  "join sep [] = []"
| "join sep [s] = s"
| "join sep (s # ss) = s @ sep @ join sep ss"

definition backslash :: char where "backslash = CHR 0x5C"

definition newline :: char where "newline = CHR 0x0A"

definition escape_label :: "string \<Rightarrow> string" where
  "escape_label v =
    replace_all newline [backslash, CHR ''n'']
      (replace_all (CHR 0x22) [backslash, CHR 0x22] (replace_all backslash [backslash, backslash] v))"

definition renderLabels :: "(string \<times> string) list option \<Rightarrow> string" where
  "renderLabels labels =
    (case labels of
       None \<Rightarrow> []
     | Some ls \<Rightarrow>
         ''{'' @ join '','' (map (\<lambda>(k, v). k @ ''='' @ [CHR 0x22] @ escape_label v @ [CHR 0x22]) ls) @ ''}'')"

definition type_text :: "metric_type \<Rightarrow> string" where
  "type_text t = (case t of Counter \<Rightarrow> ''counter'' | Gauge \<Rightarrow> ''gauge'')"

definition renderFamily :: "MetricFamily \<Rightarrow> string" where
  "renderFamily f =
    join [newline]
      ([''# HELP '' @ mf_name f @ '' '' @ mf_help f, ''# TYPE '' @ mf_name f @ '' '' @ type_text (mf_type f)] @
       map (\<lambda>s. mf_name f @ renderLabels (sm_labels s) @ '' '' @ nat_text (sm_value s)) (mf_samples f))"

definition metric_families :: "MetricsSnapshot \<Rightarrow> MetricFamily list" where
  "metric_families snapshot =
    [\<lparr>mf_help = ''Transfers committed since process start.'',
      mf_name = ''pulseledger_transfers_completed_total'',
      mf_samples = [\<lparr>sm_labels = None, sm_value = tm_completed (ms_transfers snapshot)\<rparr>],
      mf_type = Counter\<rparr>,
     \<lparr>mf_help = ''Transfer attempts retried after a serialization failure or deadlock.'',
      mf_name = ''pulseledger_transfer_retries_total'',
      mf_samples = [\<lparr>sm_labels = None, sm_value = tm_retries (ms_transfers snapshot)\<rparr>],
      mf_type = Counter\<rparr>,
     \<lparr>mf_help = ''Transfers that exhausted their bounded retry budget and returned 503.'',
      mf_name = ''pulseledger_transfer_retry_exhausted_total'',
      mf_samples = [\<lparr>sm_labels = None, sm_value = tm_exhausted (ms_transfers snapshot)\<rparr>],
      mf_type = Counter\<rparr>] @
    (case ms_outbox snapshot of
       None \<Rightarrow> []
     | Some o' \<Rightarrow>
         [\<lparr>mf_help = ''Outbox events by delivery status. A rising pending or failed count means the worker is behind or stuck.'',
           mf_name = ''pulseledger_outbox_events'',
           mf_samples =
             [\<lparr>sm_labels = Some [(''status'', ''pending'')], sm_value = os_pending o'\<rparr>,
              \<lparr>sm_labels = Some [(''status'', ''processing'')], sm_value = os_processing o'\<rparr>,
              \<lparr>sm_labels = Some [(''status'', ''failed'')], sm_value = os_failed o'\<rparr>],
           mf_type = Gauge\<rparr>])"

definition renderPrometheusMetrics :: "MetricsSnapshot \<Rightarrow> string" where
  "renderPrometheusMetrics snapshot =
    join [newline, newline] (map renderFamily (metric_families snapshot)) @ [newline]"

section \<open>Escaping\<close>

text \<open>The escape the exposition format asks for, character by character, and its reader.\<close>

definition escape_char :: "char \<Rightarrow> string" where
  "escape_char c =
    (if c = backslash then [backslash, backslash]
     else if c = CHR 0x22 then [backslash, CHR 0x22]
     else if c = newline then [backslash, CHR ''n'']
     else [c])"

fun unescape_label :: "string \<Rightarrow> string" where
  "unescape_label (c # d # cs) =
    (if c = backslash then (if d = CHR ''n'' then newline else d) # unescape_label cs
     else c # unescape_label (d # cs))"
| "unescape_label cs = cs"

lemma replace_all_append: "replace_all c t (xs @ ys) = replace_all c t xs @ replace_all c t ys"
  by (simp add: replace_all_def)

text \<open>Replacing in the source's order never escapes an escape again.\<close>

lemma escape_label_eq: "escape_label v = concat (map escape_char v)"
proof (induction v)
  case Nil
  show ?case by (simp add: escape_label_def replace_all_def)
next
  case (Cons c v)
  have "escape_label (c # v) = escape_label [c] @ escape_label v"
    unfolding escape_label_def by (metis append_Cons append_Nil replace_all_append)
  moreover have "escape_label [c] = escape_char c"
    by (simp add: escape_label_def escape_char_def replace_all_def backslash_def newline_def)
  ultimately show ?case using Cons.IH by simp
qed

lemma unescape_plain: "c \<noteq> backslash \<Longrightarrow> unescape_label (c # s) = c # unescape_label s"
  by (cases s) simp_all

lemma unescape_escape: "unescape_label (concat (map escape_char v)) = v"
proof (induction v)
  case (Cons c v)
  then show ?case
    by (cases "c = backslash \<or> c = CHR 0x22 \<or> c = newline")
      (auto simp: escape_char_def unescape_plain backslash_def newline_def)
qed simp

text \<open>
  Whatever text a label value is, a reader of the exposition format gets it back from its
  rendering, which holds no line break.
\<close>

theorem label_escape_roundtrip:
  "unescape_label (escape_label v) = v \<and> newline \<notin> set (escape_label v)"
  unfolding escape_label_eq
  by (simp add: unescape_escape) (auto simp: escape_char_def backslash_def newline_def)

end
