(* ===== verification/Accounts.thy ===== *)
theory Accounts
  imports Paging Ledger Funding
begin

text \<open>
  src/modules/accounts, and the journal listing of src/modules/ledger: creating an account,
  reading one's own, and the two paginated listings of a principal's data.
\<close>

section \<open>account-domain.ts and account-repository.ts\<close>

record Account =
  ac_balanceMinor :: string
  ac_createdAt :: string
  ac_currency :: string
  ac_id :: uuid
  ac_status :: account_status

definition supportedCurrencies :: "string list" where
  "supportedCurrencies = [''INR'', ''USD'']"

definition ownedAccountsDefaultLimit :: nat where
  "ownedAccountsDefaultLimit = 100"

definition ownedAccountsMaxLimit :: nat where
  "ownedAccountsMaxLimit = 100"

definition account_view :: "account_row \<Rightarrow> Account" where
  "account_view r =
    \<lparr>ac_balanceMinor = bigint_text (acc_balance_minor r), ac_createdAt = toISOString (acc_created_at r),
     ac_currency = acc_currency r, ac_id = acc_id r, ac_status = acc_status r\<rparr>"

text \<open>INSERT INTO accounts with the column defaults; the checks and keys of migrations/001 and 009.\<close>

definition new_account_row :: "instant \<Rightarrow> uuid \<Rightarrow> string \<Rightarrow> uuid \<Rightarrow> account_row" where
  "new_account_row now aid currency owner =
    \<lparr>acc_id = aid, acc_currency = currency, acc_status = Account_active, acc_balance_minor = 0,
     acc_is_treasury = False, acc_owner_principal_id = Some owner, acc_created_at = now,
     acc_updated_at = now\<rparr>"

definition createAccount :: "instant \<Rightarrow> uuid \<Rightarrow> string \<Rightarrow> uuid \<Rightarrow> Account db_tx" where
  "createAccount now aid currency owner =
    tx_bind (tx_require (currency_ok currency) (check_violation ''accounts_currency_check'')) (\<lambda>_.
    tx_bind (tx_get (\<lambda>s. s)) (\<lambda>s.
    tx_bind (tx_require (aid \<notin> acc_id ` set (accounts s)) (unique_violation ''accounts_pkey'')) (\<lambda>_.
    tx_bind (tx_require (owner \<in> pr_id ` set (principals s))
      (foreign_key_violation ''accounts_owner_principal_id_fkey'')) (\<lambda>_.
    tx_bind (tx_modify (\<lambda>s. s\<lparr>accounts := accounts s @ [new_account_row now aid currency owner]\<rparr>)) (\<lambda>_.
    tx_return (account_view (new_account_row now aid currency owner)))))))"

definition owned_by :: "uuid \<Rightarrow> account_row \<Rightarrow> bool" where
  "owned_by owner r \<longleftrightarrow> acc_owner_principal_id r = Some owner \<and> \<not> acc_is_treasury r"

definition findOwnedById :: "string \<Rightarrow> uuid \<Rightarrow> db \<Rightarrow> Account option" where
  "findOwnedById aid owner s =
    map_option account_view (select_first (\<lambda>r. acc_id r = uuid_in aid \<and> owned_by owner r) (accounts s))"

definition account_key :: "account_row \<Rightarrow> instant \<times> uuid" where
  "account_key r = (acc_created_at r, acc_id r)"

definition store_listOwned ::
    "uuid \<Rightarrow> (instant \<times> uuid) option \<Rightarrow> nat \<Rightarrow> db \<Rightarrow> Account list \<times> keyset_cursor option" where
  "store_listOwned owner cursor limit s =
    (let (rows, lastKey) = keyset_page (owned_by owner) account_key cursor limit (accounts s)
     in (map account_view rows, map_option position_cursor lastKey))"

section \<open>account-service.ts\<close>

text \<open>A requested limit is any JavaScript number; \<open>None\<close> is \<open>undefined\<close>.\<close>

definition is_integer :: "rat \<Rightarrow> bool" where
  "is_integer x \<longleftrightarrow> of_int \<lfloor>x\<rfloor> = x"

definition clamp_limit :: "nat \<Rightarrow> nat \<Rightarrow> rat option \<Rightarrow> nat" where
  "clamp_limit default_limit max_limit requested =
    (case requested of
       None \<Rightarrow> default_limit
     | Some r \<Rightarrow> if \<not> is_integer r \<or> r < 1 then default_limit else min (nat \<lfloor>r\<rfloor>) max_limit)"

text \<open>A cursor option that is absent or the empty string is no cursor.\<close>

definition optional_cursor ::
    "cursor_codec \<Rightarrow> (string \<Rightarrow> js_error + keyset_cursor) \<Rightarrow> string option
      \<Rightarrow> js_error + (instant \<times> uuid) option" where
  "optional_cursor codec decode cursor =
    (case cursor of
       None \<Rightarrow> Inr None
     | Some raw \<Rightarrow>
         if raw = [] then Inr None
         else (case decode raw of
                 Inl e \<Rightarrow> Inl e
               | Inr c \<Rightarrow> (case cursor_position codec c of Inl e \<Rightarrow> Inl e | Inr p \<Rightarrow> Inr (Some p))))"

definition listOwned ::
    "cursor_codec \<Rightarrow> uuid \<Rightarrow> string option \<Rightarrow> rat option \<Rightarrow> (Account list \<times> string option) db_io" where
  "listOwned codec owner cursor limit =
    io_bind (io_lift (optional_cursor codec (decodeOwnedAccountsCursor codec) cursor)) (\<lambda>position.
    io_bind (io_get (store_listOwned owner position
        (clamp_limit ownedAccountsDefaultLimit ownedAccountsMaxLimit limit))) (\<lambda>(rows, nextCursor).
    io_return (rows, map_option (encode_cursor codec) nextCursor)))"

section \<open>The journal listing of ledger-service.ts and ledger-repository.ts\<close>

record JournalEntry =
  jn_accountId :: uuid
  jn_amountMinor :: string
  jn_createdAt :: string
  jn_currency :: string
  jn_direction :: direction
  jn_id :: uuid
  jn_transactionId :: uuid

definition journalEntriesDefaultLimit :: nat where
  "journalEntriesDefaultLimit = 20"

definition journalEntriesMaxLimit :: nat where
  "journalEntriesMaxLimit = 100"

definition resolveLimit :: "rat option \<Rightarrow> nat" where
  "resolveLimit requested = clamp_limit journalEntriesDefaultLimit journalEntriesMaxLimit requested"

definition toJournalEntry :: "journal_entry_row \<Rightarrow> JournalEntry" where
  "toJournalEntry r =
    \<lparr>jn_accountId = je_account_id r, jn_amountMinor = bigint_text (je_amount_minor r),
     jn_createdAt = toISOString (je_created_at r), jn_currency = je_currency r,
     jn_direction = je_direction r, jn_id = je_id r, jn_transactionId = je_transaction_id r\<rparr>"

definition entry_key :: "journal_entry_row \<Rightarrow> instant \<times> uuid" where
  "entry_key r = (je_created_at r, je_id r)"

definition store_listJournalEntries ::
    "cursor_codec \<Rightarrow> uuid \<Rightarrow> (instant \<times> uuid) option \<Rightarrow> nat \<Rightarrow> db \<Rightarrow> JournalEntry list \<times> string option" where
  "store_listJournalEntries codec aid cursor limit s =
    (let (rows, lastKey) = keyset_page (\<lambda>r. je_account_id r = uuid_in aid) entry_key cursor limit
           (journal_entries s)
     in (map toJournalEntry rows, map_option (\<lambda>p. encode_cursor codec (position_cursor p)) lastKey))"

definition listJournalEntries ::
    "cursor_codec \<Rightarrow> string \<Rightarrow> uuid \<Rightarrow> string option \<Rightarrow> rat option
      \<Rightarrow> (JournalEntry list \<times> string option) db_io" where
  "listJournalEntries codec aid owner cursor limit =
    io_bind (io_get (findAccount aid)) (\<lambda>found.
    case found of
      None \<Rightarrow> io_throw (CodedError LedgerError ''ACCOUNT_NOT_FOUND'' ''Account not found'')
    | Some account \<Rightarrow>
        if la_isTreasury account \<or> la_ownerPrincipalId account \<noteq> Some owner
        then io_throw (CodedError LedgerError ''ACCOUNT_NOT_FOUND'' ''Account not found'')
        else
          io_bind (io_lift (optional_cursor codec (decodeJournalEntryCursor codec) cursor)) (\<lambda>position.
          io_get (store_listJournalEntries codec aid position (resolveLimit limit))))"

section \<open>Pages lose and repeat nothing\<close>

lemma clamp_limit_bounds:
  "1 \<le> default_limit \<Longrightarrow> default_limit \<le> max_limit \<Longrightarrow>
    1 \<le> clamp_limit default_limit max_limit r \<and> clamp_limit default_limit max_limit r \<le> max_limit"
  by (auto simp: clamp_limit_def le_nat_iff le_floor_iff split: option.split)

definition owned_page :: "uuid \<Rightarrow> db \<Rightarrow> nat \<Rightarrow> (instant \<times> uuid) option \<Rightarrow> Account list \<times> (instant \<times> uuid) option" where
  "owned_page owner s n cursor =
    (let (rows, k) = keyset_page (owned_by owner) account_key cursor n (accounts s)
     in (map account_view rows, k))"

definition owned_contents :: "uuid \<Rightarrow> db \<Rightarrow> ((instant \<times> uuid) \<times> Account) list" where
  "owned_contents owner s = keyset_contents (owned_by owner) account_key account_view (accounts s)"

definition journal_page :: "uuid \<Rightarrow> db \<Rightarrow> nat \<Rightarrow> (instant \<times> uuid) option \<Rightarrow> JournalEntry list \<times> (instant \<times> uuid) option" where
  "journal_page aid s n cursor =
    (let (rows, k) = keyset_page (\<lambda>r. je_account_id r = aid) entry_key cursor n (journal_entries s)
     in (map toJournalEntry rows, k))"

definition journal_contents :: "uuid \<Rightarrow> db \<Rightarrow> ((instant \<times> uuid) \<times> JournalEntry) list" where
  "journal_contents aid s =
    keyset_contents (\<lambda>r. je_account_id r = aid) entry_key toJournalEntry (journal_entries s)"

lemma distinct_pair_key:
  "distinct (map k t) \<Longrightarrow> (\<And>r. snd (f r) = k r) \<Longrightarrow> distinct (map f (filter p t))"
  by (auto simp: distinct_map inj_on_def) metis

interpretation owned_listing: keyset_listing "owned_page owner" "owned_contents owner"
    "\<lambda>s. distinct (map acc_id (accounts s))"
  for owner
proof
  fix t :: db assume "distinct (map acc_id (accounts t))"
  then have "distinct (map account_key (filter (owned_by owner) (accounts t)))"
    by (rule distinct_pair_key) (simp add: account_key_def)
  then show "sorted_wrt (<) (map fst (owned_contents owner t))"
    unfolding owned_contents_def by (rule keyset_contents_sorted)
  fix n cursor
  show "fst (owned_page owner t n cursor) =
      map snd (take n (filter (\<lambda>x. after_cursor cursor (fst x)) (owned_contents owner t)))"
    using keyset_page_rows [of account_view "owned_by owner" account_key cursor n "accounts t"]
    by (simp add: owned_page_def owned_contents_def split_def)
  show "snd (owned_page owner t n cursor) =
      (let rest = filter (\<lambda>x. after_cursor cursor (fst x)) (owned_contents owner t) in
       if 0 < n \<and> n < length rest then Some (fst (rest ! (n - 1))) else None)"
    using keyset_page_next [of "owned_by owner" account_key cursor n "accounts t" account_view]
    by (simp add: owned_page_def owned_contents_def split_def)
qed

interpretation journal_listing: keyset_listing "journal_page aid" "journal_contents aid"
    "\<lambda>s. distinct (map je_id (journal_entries s))"
  for aid
proof
  fix t :: db assume "distinct (map je_id (journal_entries t))"
  then have "distinct (map entry_key (filter (\<lambda>r. je_account_id r = aid) (journal_entries t)))"
    by (rule distinct_pair_key) (simp add: entry_key_def)
  then show "sorted_wrt (<) (map fst (journal_contents aid t))"
    unfolding journal_contents_def by (rule keyset_contents_sorted)
  fix n cursor
  show "fst (journal_page aid t n cursor) =
      map snd (take n (filter (\<lambda>x. after_cursor cursor (fst x)) (journal_contents aid t)))"
    using keyset_page_rows [of toJournalEntry "\<lambda>r. je_account_id r = aid" entry_key cursor n "journal_entries t"]
    by (simp add: journal_page_def journal_contents_def split_def)
  show "snd (journal_page aid t n cursor) =
      (let rest = filter (\<lambda>x. after_cursor cursor (fst x)) (journal_contents aid t) in
       if 0 < n \<and> n < length rest then Some (fst (rest ! (n - 1))) else None)"
    using keyset_page_next [of "\<lambda>r. je_account_id r = aid" entry_key cursor n "journal_entries t" toJournalEntry]
    by (simp add: journal_page_def journal_contents_def split_def)
qed

end
