(* ===== verification/Routes.thy ===== *)
theory Routes
  imports Http Metrics Canonical_Json Accounts Reconciliation
begin

text \<open>
  The handlers of the route files: src/modules/transfers/transfer-routes.ts, ledger-routes.ts,
  account-routes.ts, auth-routes.ts, reconciliation-routes.ts, health-routes.ts and the two
  metrics routes of src/app.ts.  A handler runs over the service's state and the log; an error it
  throws is answered by the error handler (see App).
\<close>

section \<open>The state and the environment of a request\<close>

record app_world =
  aw_transfers :: transfer_world
  aw_log :: "log_line list"

type_synonym 'a app_io = "(app_world, js_error, 'a) io"

abbreviation app_db :: "app_world \<Rightarrow> db" where
  "app_db w \<equiv> tw_db (aw_transfers w)"

definition on_transfers :: "(transfer_world, js_error, 'a) io \<Rightarrow> 'a app_io" where
  "on_transfers m = (\<lambda>w. let (r, t) = m (aw_transfers w) in (r, w\<lparr>aw_transfers := t\<rparr>))"

definition on_db :: "'a db_io \<Rightarrow> 'a app_io" where
  "on_db m = on_transfers (\<lambda>t. let (r, s) = m (tw_db t) in (r, t\<lparr>tw_db := s\<rparr>))"

definition write_log :: "log_line \<Rightarrow> unit app_io" where
  "write_log l = io_modify (\<lambda>w. w\<lparr>aw_log := aw_log w @ [l]\<rparr>)"

text \<open>
  What the application is built with (\<open>BuildAppOptions\<close>), and the third-party functions its
  components use.  \<open>op_verify\<close> is the token verifier at a given time, if one is configured.
\<close>

record app_options =
  op_adminApiKey :: string
  op_verify :: "(int \<Rightarrow> string \<Rightarrow> js_error + ExternalIdentity) option"
  op_outbox :: bool
  op_ajv :: validator
  op_sha256_hex :: "string \<Rightarrow> string"
  op_nfc :: "nat list \<Rightarrow> nat list"
  op_codec :: cursor_codec

text \<open>
  What one request meets: other clients between its statements, clocks, identifiers drawn and
  connections that fail.  \<open>rv_clock\<close> is the application's clock in milliseconds.
\<close>

record request_env =
  rv_random_id :: uuid
  rv_clock :: int
  rv_now :: instant
  rv_id :: uuid
  rv_key_body :: string
  rv_between :: "db \<Rightarrow> db"
  rv_provision :: provision_env
  rv_before :: "db \<Rightarrow> db"
  rv_claims :: "nat \<Rightarrow> claim_env"
  rv_attempts :: "nat \<Rightarrow> attempt_env"
  rv_fund :: fund_env
  rv_before_settle :: "db \<Rightarrow> db"
  rv_settle_fault :: "js_error option"
  rv_read_fault :: "js_error option"

datatype reply_body = Json_body json | Text_body string string

record http_reply =
  hr_status :: nat
  hr_body :: reply_body

definition send_json :: "nat \<Rightarrow> json \<Rightarrow> http_reply" where
  "send_json status body = \<lparr>hr_status = status, hr_body = Json_body body\<rparr>"

text \<open>The text property of a validated body, and a limit: a number or \<open>undefined\<close>.\<close>

definition text_property :: "json \<Rightarrow> string \<Rightarrow> string" where
  "text_property v k = (case json_field v k of Some (JString s) \<Rightarrow> s | _ \<Rightarrow> [])"

definition optional_text :: "json \<Rightarrow> string \<Rightarrow> string option" where
  "optional_text v k = (case json_field v k of Some (JString s) \<Rightarrow> Some s | _ \<Rightarrow> None)"

definition optional_number :: "json \<Rightarrow> string \<Rightarrow> rat option" where
  "optional_number v k =
    (case json_field v k of Some (JNumber s) \<Rightarrow> Some (of_int (bigint_value s)) | _ \<Rightarrow> None)"

section \<open>Requests that may be retried\<close>

text \<open>
  The two routes that move money share this shape: claim the key or replay its answer, run the
  command, and settle the claim when it fails.  A stored status that is not a number cannot be
  sent: Fastify throws.
\<close>

definition key_of_header :: "header \<Rightarrow> js_error + string option" where
  "key_of_header h =
    (case idempotencyKeyFrom h of
       Key_undefined \<Rightarrow> Inr None
     | Key_null \<Rightarrow> Inl (AppError ''VALIDATION_ERROR'' 400 ''Idempotency-Key must be 1-256 characters'')
     | Key k \<Rightarrow> Inr (Some k))"

definition send_replay :: "StoredIdempotentResponse \<Rightarrow> http_reply app_io" where
  "send_replay stored =
    (case rsp_status stored of
       None \<Rightarrow> io_throw (FrameworkError 500 ''called reply with an invalid status code'')
     | Some status \<Rightarrow> io_return (send_json status (rsp_body stored)))"

definition claim_or_replay ::
    "app_options \<Rightarrow> request_env \<Rightarrow> string option \<Rightarrow> string \<Rightarrow> uuid \<Rightarrow> json
      \<Rightarrow> StoredIdempotentResponse option app_io" where
  "claim_or_replay opts env key operation principalId body =
    (case key of
       None \<Rightarrow> io_return None
     | Some k \<Rightarrow>
         on_db (claimOrReplay (computeCanonicalFingerprint (op_sha256_hex opts)) default_stale_timeout_ms
           (rv_claims env) k operation principalId body))"

text \<open>The catch clause: settle unless the claim is no longer this request's, log, and rethrow.\<close>

definition settle_and_rethrow ::
    "request_env \<Rightarrow> string \<Rightarrow> string option \<Rightarrow> string \<Rightarrow> uuid \<Rightarrow> js_error \<Rightarrow> 'a app_io" where
  "settle_and_rethrow env requestId key operation principalId error =
    io_bind
      (case key of
         Some k \<Rightarrow>
           if \<not> is_idempotency_error error then
             io_catch
               (io_bind (on_db (io_modify (rv_before_settle env))) (\<lambda>_.
                on_db (query_or_fail (rv_settle_fault env)
                  (settleFailure (rv_now env) k operation principalId
                    (map_option (\<lambda>(b, status). (error_json b, status)) (replayableFailure error requestId))))))
               (\<lambda>settleError. write_log (Log_error ''failed to settle idempotency claim''))
           else io_return ()
       | None \<Rightarrow> io_return ()) (\<lambda>_.
    io_throw error)"

section \<open>transfer-routes.ts\<close>

definition transferResponseSchema :: schema where
  "transferResponseSchema =
    Sch_object
      [''id'', ''sourceAccountId'', ''destinationAccountId'', ''amountMinor'', ''currency'', ''status'',
       ''reference'', ''createdAt'']
      [(''id'', Sch_string [Format_uuid]), (''sourceAccountId'', Sch_string [Format_uuid]),
       (''destinationAccountId'', Sch_string [Format_uuid]),
       (''amountMinor'', Sch_string [Pattern_positive]), (''currency'', Sch_string [Pattern_currency]),
       (''status'', Sch_string [Enum [''completed'']]), (''reference'', Sch_string []),
       (''createdAt'', Sch_string [Format_date_time])]"

definition transferBodySchema :: schema where
  "transferBodySchema =
    Sch_object [''sourceAccountId'', ''destinationAccountId'', ''amountMinor'']
      [(''sourceAccountId'', Sch_string [Format_uuid]),
       (''destinationAccountId'', Sch_string [Format_uuid]),
       (''amountMinor'', Sch_string [Pattern_positive])]"

definition transfer_input :: "json \<Rightarrow> CreateTransferInput" where
  "transfer_input body =
    \<lparr>ct_amountMinor = text_property body ''amountMinor'',
     ct_destinationAccountId = text_property body ''destinationAccountId'',
     ct_sourceAccountId = text_property body ''sourceAccountId''\<rparr>"

definition transfer_config_of :: "app_options \<Rightarrow> transfer_config" where
  "transfer_config_of opts = default_transfer_config\<lparr>tc_outbox := op_outbox opts\<rparr>"

definition post_transfer :: "app_options \<Rightarrow> request_env \<Rightarrow> string \<Rightarrow> http_request \<Rightarrow> json \<Rightarrow> http_reply app_io" where
  "post_transfer opts env requestId req body =
    io_bind (io_lift (principalOf req)) (\<lambda>principalId.
    io_bind (io_lift (key_of_header (hq_idempotency_key req))) (\<lambda>key.
    io_bind (claim_or_replay opts env key ''transfer'' principalId body) (\<lambda>replay.
    case replay of
      Some r \<Rightarrow> send_replay r
    | None \<Rightarrow>
        io_catch
          (io_bind (on_transfers (create (transfer_config_of opts) (rv_attempts env) (rv_id env)
              (rv_clock env) (transfer_input body) principalId key)) (\<lambda>transfer.
           io_return (send_json 201 (transfer_json transfer))))
          (settle_and_rethrow env requestId key ''transfer'' principalId))))"

definition get_transfer :: "http_request \<Rightarrow> json \<Rightarrow> http_reply app_io" where
  "get_transfer req params =
    io_bind (io_lift (principalOf req)) (\<lambda>principalId.
    io_bind (on_db (findById (text_property params ''id'') principalId)) (\<lambda>transfer.
    io_return (send_json 200 (transfer_json transfer))))"

text \<open>The schema of a route's single path parameter.\<close>

definition idParamSchema :: schema where
  "idParamSchema = Sch_object [''id''] [(''id'', Sch_string [Format_uuid])]"

section \<open>ledger-routes.ts\<close>

definition fundingResponseSchema :: schema where
  "fundingResponseSchema =
    Sch_object [''id'', ''type'', ''reference'', ''currency'', ''createdAt'', ''amountMinor'', ''fundedAccountId'']
      [(''id'', Sch_string [Format_uuid]), (''type'', Sch_string [Enum [''funding'']]),
       (''reference'', Sch_string []), (''currency'', Sch_string [Pattern_currency]),
       (''createdAt'', Sch_string [Format_date_time]), (''amountMinor'', Sch_string [Pattern_positive]),
       (''fundedAccountId'', Sch_string [Format_uuid])]"

definition fundBodySchema :: schema where
  "fundBodySchema =
    Sch_object [''accountId'', ''amountMinor'']
      [(''accountId'', Sch_string [Format_uuid]), (''amountMinor'', Sch_string [Pattern_positive])]"

definition post_fund :: "app_options \<Rightarrow> request_env \<Rightarrow> string \<Rightarrow> http_request \<Rightarrow> json \<Rightarrow> http_reply app_io" where
  "post_fund opts env requestId req body =
    io_bind (io_lift (key_of_header (hq_idempotency_key req))) (\<lambda>key.
    io_bind (claim_or_replay opts env key fundingIdempotencyOperation administratorPrincipalId body) (\<lambda>replay.
    case replay of
      Some r \<Rightarrow> send_replay r
    | None \<Rightarrow>
        io_catch
          (io_bind (on_db (fundAccount (op_outbox opts) (rv_fund env)
              \<lparr>fa_accountId = text_property body ''accountId'', fa_amountMinor = text_property body ''amountMinor''\<rparr>
              (map_option (\<lambda>k. (k, administratorPrincipalId)) key))) (\<lambda>result.
           io_return (send_json 201 (funding_json result))))
          (settle_and_rethrow env requestId key fundingIdempotencyOperation administratorPrincipalId)))"

section \<open>account-routes.ts\<close>

definition account_status_text :: "account_status \<Rightarrow> string" where
  "account_status_text st =
    (case st of Account_active \<Rightarrow> ''active'' | Account_frozen \<Rightarrow> ''frozen'' | Account_closed \<Rightarrow> ''closed'')"

definition account_json :: "Account \<Rightarrow> json" where
  "account_json a =
    JObject [(''balanceMinor'', JString (ac_balanceMinor a)), (''createdAt'', JString (ac_createdAt a)),
             (''currency'', JString (ac_currency a)), (''id'', JString (ac_id a)),
             (''status'', JString (account_status_text (ac_status a)))]"

definition journal_entry_json :: "JournalEntry \<Rightarrow> json" where
  "journal_entry_json e =
    JObject [(''accountId'', JString (jn_accountId e)), (''amountMinor'', JString (jn_amountMinor e)),
             (''createdAt'', JString (jn_createdAt e)), (''currency'', JString (jn_currency e)),
             (''direction'', JString (direction_text (jn_direction e))), (''id'', JString (jn_id e)),
             (''transactionId'', JString (jn_transactionId e))]"

definition nullable_text :: "string option \<Rightarrow> json" where
  "nullable_text v = (case v of None \<Rightarrow> JNull | Some s \<Rightarrow> JString s)"

definition accountResponseSchema :: schema where
  "accountResponseSchema =
    Sch_object [''id'', ''currency'', ''status'', ''balanceMinor'', ''createdAt'']
      [(''id'', Sch_string [Format_uuid]), (''currency'', Sch_string [Enum supportedCurrencies]),
       (''status'', Sch_string [Enum [''active'', ''frozen'', ''closed'']]),
       (''balanceMinor'', Sch_string [Pattern_integer]), (''createdAt'', Sch_string [Format_date_time])]"

definition accountListResponseSchema :: schema where
  "accountListResponseSchema =
    Sch_object [''accounts'', ''nextCursor'']
      [(''accounts'', Sch_array accountResponseSchema), (''nextCursor'', Sch_nullable (Sch_string []))]"

definition pageQuerySchema :: "nat \<Rightarrow> schema" where
  "pageQuerySchema maximum =
    Sch_object []
      [(''cursor'', Sch_string [Min_length 1]), (''limit'', Sch_integer (Some 1) (Some (int maximum)))]"

definition accountBodySchema :: schema where
  "accountBodySchema = Sch_object [''currency''] [(''currency'', Sch_string [Enum supportedCurrencies])]"

definition list_accounts :: "app_options \<Rightarrow> http_request \<Rightarrow> json \<Rightarrow> http_reply app_io" where
  "list_accounts opts req query =
    io_bind (io_lift (principalOf req)) (\<lambda>principalId.
    io_bind (on_db (listOwned (op_codec opts) principalId (optional_text query ''cursor'')
        (optional_number query ''limit''))) (\<lambda>(accounts, nextCursor).
    io_return (send_json 200 (JObject
      [(''accounts'', JArray (map account_json accounts)), (''nextCursor'', nullable_text nextCursor)]))))"

definition open_account :: "request_env \<Rightarrow> http_request \<Rightarrow> json \<Rightarrow> http_reply app_io" where
  "open_account env req body =
    io_bind (io_lift (principalOf req)) (\<lambda>principalId.
    io_bind (on_db (auto_commit (createAccount (rv_now env) (rv_id env) (text_property body ''currency'')
        principalId))) (\<lambda>account.
    io_return (send_json 201 (account_json account))))"

definition get_account :: "http_request \<Rightarrow> json \<Rightarrow> http_reply app_io" where
  "get_account req params =
    io_bind (io_lift (principalOf req)) (\<lambda>principalId.
    io_bind (on_db (io_get (findOwnedById (text_property params ''id'') principalId))) (\<lambda>account.
    case account of
      None \<Rightarrow> io_throw (AppError ''ACCOUNT_NOT_FOUND'' 404 ''Account not found'')
    | Some a \<Rightarrow> io_return (send_json 200 (account_json a))))"

definition list_entries :: "app_options \<Rightarrow> http_request \<Rightarrow> json \<Rightarrow> json \<Rightarrow> http_reply app_io" where
  "list_entries opts req params query =
    io_bind (io_lift (principalOf req)) (\<lambda>principalId.
    io_bind (on_db (listJournalEntries (op_codec opts) (text_property params ''id'') principalId
        (optional_text query ''cursor'') (optional_number query ''limit''))) (\<lambda>(entries, nextCursor).
    io_return (send_json 200 (JObject
      [(''entries'', JArray (map journal_entry_json entries)), (''nextCursor'', nullable_text nextCursor)]))))"

section \<open>auth-routes.ts\<close>

definition principal_status_text :: "principal_status \<Rightarrow> string" where
  "principal_status_text st = (case st of Principal_active \<Rightarrow> ''active'' | Principal_disabled \<Rightarrow> ''disabled'')"

definition principal_json :: "Principal \<Rightarrow> json" where
  "principal_json p =
    JObject [(''createdAt'', JString (p_createdAt p)), (''id'', JString (p_id p)),
             (''name'', JString (p_name p)), (''status'', JString (principal_status_text (p_status p)))]"

definition issued_json :: "IssuedApiKey \<Rightarrow> json" where
  "issued_json k =
    (let r = ik_record k in
     JObject [(''createdAt'', JString (kr_createdAt r)), (''id'', JString (kr_id r)),
              (''keyPrefix'', JString (kr_keyPrefix r)), (''principalId'', JString (kr_principalId r)),
              (''revokedAt'', nullable_text (kr_revokedAt r)), (''key'', JString (ik_key k))])"

definition principalResponseSchema :: schema where
  "principalResponseSchema =
    Sch_object [''id'', ''name'', ''status'', ''createdAt'']
      [(''id'', Sch_string [Format_uuid]), (''name'', Sch_string []),
       (''status'', Sch_string [Enum [''active'', ''disabled'']]),
       (''createdAt'', Sch_string [Format_date_time])]"

definition issuedApiKeyResponseSchema :: schema where
  "issuedApiKeyResponseSchema =
    Sch_object [''id'', ''principalId'', ''keyPrefix'', ''key'', ''createdAt'', ''revokedAt'']
      [(''id'', Sch_string [Format_uuid]), (''principalId'', Sch_string [Format_uuid]),
       (''keyPrefix'', Sch_string []), (''key'', Sch_string []),
       (''createdAt'', Sch_string [Format_date_time]),
       (''revokedAt'', Sch_nullable (Sch_string [Format_date_time]))]"

definition principalBodySchema :: schema where
  "principalBodySchema =
    Sch_object [''name''] [(''name'', Sch_string [Min_length 1, Max_length 128])]"

definition post_principal :: "request_env \<Rightarrow> json \<Rightarrow> http_reply app_io" where
  "post_principal env body =
    io_bind (on_db (auto_commit (createPrincipal (rv_now env) (rv_id env) (text_property body ''name'')))) (\<lambda>principal.
    io_return (send_json 201 (principal_json principal)))"

definition post_api_key :: "app_options \<Rightarrow> request_env \<Rightarrow> json \<Rightarrow> http_reply app_io" where
  "post_api_key opts env params =
    io_bind (on_db (issueApiKey (op_sha256_hex opts) (rv_between env) (rv_now env) (rv_id env)
        (rv_key_body env) (text_property params ''id''))) (\<lambda>issued.
    io_return (send_json 201 (issued_json issued)))"

definition post_revoke :: "request_env \<Rightarrow> json \<Rightarrow> http_reply app_io" where
  "post_revoke env params =
    io_bind (on_db (revokeApiKey (rv_now env) (text_property params ''id''))) (\<lambda>_.
    io_return (send_json 200 (JObject
      [(''id'', JString (text_property params ''id'')), (''revoked'', JBool True)])))"

section \<open>reconciliation-routes.ts\<close>

definition issue_type_text :: "issue_type \<Rightarrow> string" where
  "issue_type_text t =
    (case t of Mismatched \<Rightarrow> ''mismatched'' | Missing \<Rightarrow> ''missing'' | Unexpected \<Rightarrow> ''unexpected'')"

definition issue_json :: "ReconciliationIssue \<Rightarrow> json" where
  "issue_json i =
    JObject [(''accountId'', JString (is_accountId i)),
             (''cachedBalanceMinor'', nullable_text (is_cachedBalanceMinor i)),
             (''computedBalanceMinor'', JString (is_computedBalanceMinor i)),
             (''currency'', JString (is_currency i)), (''type'', JString (issue_type_text (is_type i)))]"

definition report_json :: "ReconciliationReport \<Rightarrow> json" where
  "report_json r =
    JObject [(''accountsChecked'', JNumber (nat_text (rp_accountsChecked r))),
             (''generatedAt'', JString (rp_generatedAt r)),
             (''issues'', JArray (map issue_json (rp_issues r))), (''ok'', JBool (rp_ok r))]"

definition reconciliationReportSchema :: schema where
  "reconciliationReportSchema =
    Sch_object [''ok'', ''accountsChecked'', ''generatedAt'', ''issues'']
      [(''ok'', Sch_boolean), (''accountsChecked'', Sch_integer None None),
       (''generatedAt'', Sch_string [Format_date_time]),
       (''issues'', Sch_array (Sch_object
          [''accountId'', ''type'', ''cachedBalanceMinor'', ''computedBalanceMinor'', ''currency'']
          [(''accountId'', Sch_string [Format_uuid]),
           (''type'', Sch_string [Enum [''mismatched'', ''missing'', ''unexpected'']]),
           (''cachedBalanceMinor'', Sch_nullable (Sch_string [Pattern_integer])),
           (''computedBalanceMinor'', Sch_string [Pattern_integer]),
           (''currency'', Sch_nullable (Sch_string []))]))]"

definition post_reconcile :: "request_env \<Rightarrow> http_reply app_io" where
  "post_reconcile env =
    io_bind (on_db (io_get (\<lambda>s. s))) (\<lambda>counted.
    io_bind (on_db (io_modify (rv_between env))) (\<lambda>_.
    io_bind (on_db (io_get (reconcile (rv_clock env) counted))) (\<lambda>report.
    io_return (send_json 200 (report_json report)))))"

section \<open>health-routes.ts and the metrics of app.ts\<close>

definition stats_json :: "outbox_stats \<Rightarrow> json" where
  "stats_json st =
    JObject [(''failed'', JNumber (nat_text (os_failed st))), (''pending'', JNumber (nat_text (os_pending st))),
             (''processing'', JNumber (nat_text (os_processing st)))]"

definition get_live :: "http_reply app_io" where
  "get_live = io_return (send_json 200 (JObject [(''status'', JString ''ok'')]))"

text \<open>\<open>rv_read_fault\<close> tells whether a read fails to reach the database.\<close>

definition read_stats :: "request_env \<Rightarrow> outbox_stats app_io" where
  "read_stats env =
    (case rv_read_fault env of Some e \<Rightarrow> io_throw e | None \<Rightarrow> on_db (io_get stats))"

definition get_ready :: "app_options \<Rightarrow> request_env \<Rightarrow> http_reply app_io" where
  "get_ready opts env =
    io_catch
      (io_bind (case rv_read_fault env of Some e \<Rightarrow> io_throw e | None \<Rightarrow> io_return ()) (\<lambda>_.
       if op_outbox opts then
         io_bind (read_stats env) (\<lambda>st.
         io_return (send_json 200 (JObject [(''status'', JString ''ready''), (''outbox'', stats_json st)])))
       else io_return (send_json 200 (JObject [(''status'', JString ''ready'')]))))
      (\<lambda>_. io_return (send_json 503 (JObject [(''status'', JString ''unavailable'')])))"

definition transfers_json :: "TransferMetrics \<Rightarrow> json" where
  "transfers_json m =
    JObject [(''completed'', JNumber (nat_text (tm_completed m))),
             (''exhausted'', JNumber (nat_text (tm_exhausted m))),
             (''retries'', JNumber (nat_text (tm_retries m)))]"

definition get_metrics_json :: "http_reply app_io" where
  "get_metrics_json =
    io_bind (io_get (\<lambda>w. tw_metrics (aw_transfers w))) (\<lambda>m.
    io_return (send_json 200 (JObject [(''transfers'', transfers_json m)])))"

definition get_metrics_text :: "app_options \<Rightarrow> request_env \<Rightarrow> http_reply app_io" where
  "get_metrics_text opts env =
    io_bind (if op_outbox opts then io_bind (read_stats env) (\<lambda>st. io_return (Some st)) else io_return None) (\<lambda>outbox.
    io_bind (io_get (\<lambda>w. tw_metrics (aw_transfers w))) (\<lambda>m.
    io_return \<lparr>hr_status = 200, hr_body = Text_body prometheusContentType
      (renderPrometheusMetrics \<lparr>ms_outbox = outbox, ms_transfers = m\<rparr>)\<rparr>))"

end
