(* ===== verification/App.thy ===== *)
theory App
  imports Routes
begin

text \<open>
  src/app.ts: the composition root.  Which guard stands before which routes, what is validated,
  and how an error becomes a response.  Fastify's part is its documented life cycle: the
  onRequest hooks, then the body parser, then validation, then the handler; an error at any point
  goes to the error handler.
\<close>

section \<open>Routes\<close>

datatype route =
    Live | Ready
  | List_accounts | Open_account | Get_account | List_entries | Post_transfer | Get_transfer
  | Fund | Create_principal | Issue_key | Revoke_key | Run_reconciliation | Metrics_json | Metrics_text
  | Unmatched

datatype scope = Public | Customer | Admin

text \<open>The encapsulated contexts the route files are registered in.\<close>

fun scope_of :: "route \<Rightarrow> scope" where
  "scope_of Live = Public" | "scope_of Ready = Public" | "scope_of Unmatched = Public"
| "scope_of List_accounts = Customer" | "scope_of Open_account = Customer"
| "scope_of Get_account = Customer" | "scope_of List_entries = Customer"
| "scope_of Post_transfer = Customer" | "scope_of Get_transfer = Customer"
| "scope_of Fund = Admin" | "scope_of Create_principal = Admin" | "scope_of Issue_key = Admin"
| "scope_of Revoke_key = Admin" | "scope_of Run_reconciliation = Admin"
| "scope_of Metrics_json = Admin" | "scope_of Metrics_text = Admin"

section \<open>The guards\<close>

text \<open>One bearer slot, two credential kinds.\<close>

definition resolve_bearer :: "app_options \<Rightarrow> request_env \<Rightarrow> string \<Rightarrow> Principal app_io" where
  "resolve_bearer opts env secret =
    (case op_verify opts of
       None \<Rightarrow> on_db (authenticate (op_sha256_hex opts) secret)
     | Some verify \<Rightarrow>
         if starts_with secret apiKeyTag then on_db (authenticate (op_sha256_hex opts) secret)
         else
           io_bind (io_lift (verify (rv_clock env) secret)) (\<lambda>identity.
           on_db (authenticateIdentity (op_nfc opts) (rv_between env) (rv_provision env) identity)))"

definition guard :: "app_options \<Rightarrow> request_env \<Rightarrow> scope \<Rightarrow> http_request \<Rightarrow> http_request app_io" where
  "guard opts env sc req =
    (case sc of
       Public \<Rightarrow> io_return req
     | Customer \<Rightarrow> requireApiKey (resolve_bearer opts env) req
     | Admin \<Rightarrow>
         io_bind (io_lift (requireAdminApiKey (op_adminApiKey opts) (hq_admin_key req))) (\<lambda>_. io_return req))"

section \<open>Dispatch\<close>

definition parsed_body :: "app_options \<Rightarrow> schema \<Rightarrow> http_request \<Rightarrow> json app_io" where
  "parsed_body opts sch req =
    io_bind (io_lift (hq_body req)) (\<lambda>body. io_lift (validated (op_ajv opts) sch body))"

text \<open>A body is parsed before the handler even where no schema asks for one.\<close>

definition body_parsed :: "http_request \<Rightarrow> unit app_io" where
  "body_parsed req = io_bind (io_lift (hq_body req)) (\<lambda>_. io_return ())"

definition parsed_params :: "app_options \<Rightarrow> http_request \<Rightarrow> json app_io" where
  "parsed_params opts req = io_lift (validated (op_ajv opts) idParamSchema (hq_params req))"

text \<open>\<open>requestId\<close> is the request's id; an unmatched path is the not-found handler's.\<close>

definition serve :: "app_options \<Rightarrow> request_env \<Rightarrow> string \<Rightarrow> route \<Rightarrow> http_request \<Rightarrow> http_reply app_io" where
  "serve opts env requestId route req =
    (case route of
       Live \<Rightarrow> get_live
     | Ready \<Rightarrow> get_ready opts env
     | Unmatched \<Rightarrow>
         io_return (send_json 404 (error_json
           \<lparr>eb_code = ''ROUTE_NOT_FOUND'', eb_message = ''Route not found'', eb_requestId = requestId\<rparr>))
     | List_accounts \<Rightarrow>
         io_bind (io_lift (validated (op_ajv opts) (pageQuerySchema ownedAccountsMaxLimit) (hq_query req)))
           (list_accounts opts req)
     | Open_account \<Rightarrow> io_bind (parsed_body opts accountBodySchema req) (open_account env req)
     | Get_account \<Rightarrow> io_bind (parsed_params opts req) (get_account req)
     | List_entries \<Rightarrow>
         io_bind (parsed_params opts req) (\<lambda>params.
         io_bind (io_lift (validated (op_ajv opts) (pageQuerySchema journalEntriesMaxLimit) (hq_query req)))
           (list_entries opts req params))
     | Post_transfer \<Rightarrow> io_bind (parsed_body opts transferBodySchema req) (post_transfer opts env requestId req)
     | Get_transfer \<Rightarrow> io_bind (parsed_params opts req) (get_transfer req)
     | Fund \<Rightarrow> io_bind (parsed_body opts fundBodySchema req) (post_fund opts env requestId req)
     | Create_principal \<Rightarrow> io_bind (parsed_body opts principalBodySchema req) (post_principal env)
     | Issue_key \<Rightarrow> io_bind (body_parsed req) (\<lambda>_. io_bind (parsed_params opts req) (post_api_key opts env))
     | Revoke_key \<Rightarrow> io_bind (body_parsed req) (\<lambda>_. io_bind (parsed_params opts req) (post_revoke env))
     | Run_reconciliation \<Rightarrow> io_bind (body_parsed req) (\<lambda>_. post_reconcile env)
     | Metrics_json \<Rightarrow> get_metrics_json
     | Metrics_text \<Rightarrow> get_metrics_text opts env)"

text \<open>An error is answered by the error handler, which may log a line.\<close>

definition respond :: "string \<Rightarrow> http_reply app_io \<Rightarrow> app_world \<Rightarrow> http_reply \<times> app_world" where
  "respond requestId m w =
    (case m w of
       (Inr reply, w') \<Rightarrow> (reply, w')
     | (Inl e, w') \<Rightarrow>
         (case errorHandler e requestId of
            (status, body, line) \<Rightarrow>
              (send_json status (error_json body),
               w'\<lparr>aw_log := aw_log w' @ (case line of None \<Rightarrow> [] | Some l \<Rightarrow> [l])\<rparr>)))"

definition handle :: "app_options \<Rightarrow> request_env \<Rightarrow> route \<Rightarrow> http_request \<Rightarrow> app_world \<Rightarrow> http_reply \<times> app_world" where
  "handle opts env route req =
    (let requestId = genReqId (rv_random_id env) (hq_request_id req) in
     respond requestId
       (io_bind (guard opts env (scope_of route) req) (\<lambda>req'.
        io_bind (on_db (io_modify (rv_before env))) (\<lambda>_.
        serve opts env requestId route req'))))"

end
