(* ===== verification/Request_Invariants.thy ===== *)
theory Request_Invariants
  imports App Transfer_Theorems Auth_Theorems
begin

text \<open>
  What every statement of the service keeps, every request keeps.  The locale's laws are about
  the transactions and statements of the repositories; its lemmas carry them through the services,
  the route handlers, the guards and the error handler, whatever fails on the way and whatever
  other clients do between two statements, as long as they keep it too.
\<close>

section \<open>Lifting a method to the application's state\<close>

lemma io_keeps_on_transfers: "io_keeps (\<lambda>t. P (tw_db t)) m \<Longrightarrow> io_keeps (\<lambda>w. P (app_db w)) (on_transfers m)"
  by (simp add: io_keeps_def on_transfers_def Let_def split_beta)

lemma io_keeps_on_db [keeps_intros]: "io_keeps P m \<Longrightarrow> io_keeps (\<lambda>w. P (app_db w)) (on_db m)"
  unfolding on_db_def
  by (rule io_keeps_on_transfers) (simp add: io_keeps_def Let_def split_beta)

lemma io_keeps_modify: "(\<And>s. P s \<Longrightarrow> P (f s)) \<Longrightarrow> io_keeps P (io_modify f)"
  by (simp add: io_keeps_def io_simps)

lemma io_keeps_query_or_fail [keeps_intros]: "tx_keeps P m \<Longrightarrow> io_keeps P (query_or_fail fault m)"
  unfolding query_or_fail_def by (auto split: option.split intro: keeps_intros)

lemma io_keeps_lift_bind: "(\<And>a. r = Inr a \<Longrightarrow> io_keeps P (k a)) \<Longrightarrow> io_keeps P (io_bind (io_lift r) k)"
  by (cases r) (auto simp: io_keeps_def io_steps)

lemma io_keeps_log: "io_keeps (\<lambda>w. P (app_db w)) (write_log l)"
  by (simp add: write_log_def io_keeps_def io_simps)

section \<open>Environments that keep a property\<close>

text \<open>Everything other clients do during a request: between two of its statements.\<close>

definition interferences :: "request_env \<Rightarrow> (db \<Rightarrow> db) set" where
  "interferences env =
    {rv_between env, rv_before env, rv_before_settle env, pv_before_reread (rv_provision env),
     fe_before_treasury (rv_fund env), fe_before_post (rv_fund env)} \<union>
    range (\<lambda>i. ce_before_find (rv_claims env i)) \<union> range (\<lambda>i. ce_before_reclaim (rv_claims env i)) \<union>
    range (\<lambda>i. ce_before_reread (rv_claims env i)) \<union> range (\<lambda>i. at_before (rv_attempts env i))"

definition claims_keep :: "(db \<Rightarrow> bool) \<Rightarrow> (nat \<Rightarrow> claim_env) \<Rightarrow> bool" where
  "claims_keep P envs \<longleftrightarrow> (\<forall>i. env_keeps P (envs i))"

definition env_fair :: "(db \<Rightarrow> bool) \<Rightarrow> request_env \<Rightarrow> bool" where
  "env_fair P env \<longleftrightarrow> (\<forall>f\<in>interferences env. \<forall>s. P s \<longrightarrow> P (f s))"

lemma env_fairD:
  assumes "env_fair P env"
  shows "P s \<Longrightarrow> P (rv_between env s)" "P s \<Longrightarrow> P (rv_before env s)" "P s \<Longrightarrow> P (rv_before_settle env s)"
    "P s \<Longrightarrow> P (pv_before_reread (rv_provision env) s)" "P s \<Longrightarrow> P (fe_before_treasury (rv_fund env) s)"
    "P s \<Longrightarrow> P (fe_before_post (rv_fund env) s)" "P s \<Longrightarrow> P (at_before (rv_attempts env i) s)"
    "claims_keep P (rv_claims env)"
  using assms by (auto simp: env_fair_def interferences_def claims_keep_def env_keeps_def)

section \<open>What the statements beside the money keep\<close>

locale statement_invariant =
  fixes P :: "db \<Rightarrow> bool"
  assumes on_insert: "tx_keeps P (insert_claim now p)"
    and on_reclaim: "tx_keeps P (reclaim now p threshold)"
    and on_failure: "400 \<le> status \<Longrightarrow> tx_keeps P (complete now key' operation pid' (error_json failure) status)"
    and on_release: "tx_keeps P (release key' operation pid')"
    and on_principal: "tx_keeps P (createPrincipal now pid' name)"
    and on_key: "tx_keeps P (insertApiKey now kid hash prefix pid')"
    and on_revoke: "tx_keeps P (store_revokeApiKey now kid)"
    and on_provision: "tx_keeps P (provision_work now pid' provider subject email name)"
begin

lemmas statements = on_insert on_reclaim on_release on_principal on_key on_revoke on_provision

lemma transaction_state:
  "tx_keeps P work \<Longrightarrow> P s \<Longrightarrow> P (out_state (withTransaction env b d work s))"
  using withTransaction_state [of env b d work s] tx_keepsD by metis

lemma single_state: "tx_keeps P work \<Longrightarrow> P s \<Longrightarrow> P (out_state (single_statement env d work s))"
  using single_statement_state [of env d work s] tx_keepsD by metis

lemma settle_keeps:
  "tx_keeps P (settleFailure now key operation pid
    (map_option (\<lambda>(b, status). (error_json b, status)) (replayableFailure e rid)))"
  unfolding settleFailure_def
  by (auto split: option.split dest: replayableFailure_SomeD(1) intro!: keeps_intros statements on_failure)

lemma tryClaim_keeps: "env_keeps P env \<Longrightarrow> io_keeps P (tryClaim env p)"
  unfolding tryClaim_def Let_def
  by (intro keeps_intros statements; auto simp: env_keeps_def split: option.split
      intro!: keeps_intros statements io_keeps_modify)
    
lemma claim_keeps: "claims_keep P envs \<Longrightarrow> io_keeps P (claim envs p)"
proof -
  assume keep: "claims_keep P envs"
  have "io_keeps P (claim_attempts envs p attempt left)" for attempt left
  proof (induction left arbitrary: attempt)
    case (Suc left)
    show ?case using keep Suc.IH
      by (auto simp: claims_keep_def split: option.split intro!: keeps_intros tryClaim_keeps)
  qed (simp add: keeps_intros)
  then show ?thesis by (simp add: claim_def)
qed

lemma claimOrReplay_keeps: "claims_keep P envs \<Longrightarrow> io_keeps P (claimOrReplay fp timeout envs key operation pid body)"
  unfolding claimOrReplay_def
  by (intro keeps_intros claim_keeps) (auto split: option.split intro!: keeps_intros)

lemma authenticate_keeps: "io_keeps P (authenticate sha secret)"
  by (simp add: io_keeps_def)

lemma identity_keeps:
  assumes "\<And>s. P s \<Longrightarrow> P (between s)" and "\<And>s. P s \<Longrightarrow> P (pv_before_reread penv s)"
  shows "io_keeps P (authenticateIdentity nfc between penv i)"
proof -
  have "io_keeps P (createPrincipalForIdentity penv provider subject email name)" for provider subject email name
    unfolding io_keeps_def createPrincipalForIdentity_def Let_def
    using transaction_state [OF on_provision] assms(2)
    by (auto split: sum.split option.split)
  then show ?thesis
    unfolding authenticateIdentity_def
    by (auto split: option.split intro!: keeps_intros io_keeps_modify assms(1))
qed

lemma issue_keeps: "(\<And>s. P s \<Longrightarrow> P (between s)) \<Longrightarrow> io_keeps P (issueApiKey sha between now kid body pid)"
  unfolding issueApiKey_def
  by (auto split: option.split prod.split intro!: keeps_intros io_keeps_modify statements)

lemma revoke_keeps: "io_keeps P (revokeApiKey now kid)"
  unfolding revokeApiKey_def by (intro keeps_intros statements)

section \<open>Route handlers\<close>

abbreviation app_keeps :: "'a app_io \<Rightarrow> bool" where
  "app_keeps m \<equiv> io_keeps (\<lambda>w. P (app_db w)) m"

lemma settle_and_rethrow_keeps:
  assumes fair: "env_fair P env"
  shows "app_keeps (settle_and_rethrow env rid key operation pid e)"
  unfolding settle_and_rethrow_def
  by (auto split: option.split intro!: keeps_intros io_keeps_modify io_keeps_log settle_keeps env_fairD [OF fair])

lemma claim_or_replay_keeps:
  assumes fair: "env_fair P env"
  shows "app_keeps (claim_or_replay opts env key operation pid body)"
  unfolding claim_or_replay_def
  by (auto split: option.split intro!: keeps_intros claimOrReplay_keeps env_fairD [OF fair])

lemma send_replay_keeps: "app_keeps (send_replay r)"
  unfolding send_replay_def by (auto split: option.split intro!: keeps_intros)

lemma read_stats_keeps: "app_keeps (read_stats env)"
  unfolding read_stats_def by (auto split: option.split intro!: keeps_intros)

lemma other_handlers_keep:
  assumes "env_fair P env"
  shows "app_keeps (get_transfer req params)" "app_keeps (list_accounts opts req query)"
    "app_keeps (get_account req params)"
    "app_keeps (list_entries opts req params query)" "app_keeps (post_principal env body)"
    "app_keeps (post_api_key opts env params)" "app_keeps (post_revoke env params)"
    "app_keeps (post_reconcile env)" "app_keeps get_live" "app_keeps (get_ready opts env)"
    "app_keeps get_metrics_json" "app_keeps (get_metrics_text opts env)"
  unfolding get_transfer_def findById_def list_accounts_def listOwned_def get_account_def
    list_entries_def listJournalEntries_def post_principal_def post_api_key_def post_revoke_def
    post_reconcile_def get_live_def get_ready_def get_metrics_json_def get_metrics_text_def
  by (auto split: option.split prod.split
      intro!: keeps_intros statements issue_keeps revoke_keeps read_stats_keeps io_keeps_modify env_fairD [OF assms])

lemma guard_keeps:
  assumes fair: "env_fair P env"
  shows "app_keeps (guard opts env sc req)"
  unfolding guard_def requireApiKey_def resolve_bearer_def
  by (auto split: scope.split option.split intro!: keeps_intros authenticate_keeps identity_keeps env_fairD [OF fair])

lemma respond_state: "app_db (snd (respond rid m w)) = app_db (snd (m w))"
  by (auto simp: respond_def split: prod.split sum.split)

end

section \<open>Whole requests\<close>

text \<open>\<open>allowed\<close> restricts the transfers the law speaks of: principal, transfer id and key.\<close>

locale request_invariant = statement_invariant +
  fixes allowed :: "uuid \<Rightarrow> uuid \<Rightarrow> string option \<Rightarrow> bool"
  assumes on_transfer: "in_money_range (minor amount) \<Longrightarrow>
      ct_sourceAccountId input \<noteq> ct_destinationAccountId input \<Longrightarrow> allowed pid tid key \<Longrightarrow>
      tx_keeps P (transfer_work outbox now eids evid amount input pid tid key)"
    and on_post: "tx_keeps P (post_work outbox now eids evid posting idem)"
    and on_account: "tx_keeps P (createAccount now aid currency owner)"
begin

lemma create_keeps:
  assumes "\<And>i s. P s \<Longrightarrow> P (at_before (envs i) s)" and "allowed pid tid key"
  shows "io_keeps (\<lambda>w. P (tw_db w)) (create cfg envs tid startedAt input pid key)"
  unfolding io_keeps_def
proof (intro allI impI)
  fix w :: transfer_world assume w: "P (tw_db w)"
  show "P (tw_db (snd (create cfg envs tid startedAt input pid key w)))"
  proof (cases "(\<exists>e. fromMinor (StringArg (ct_amountMinor input)) = Inl e) \<or>
      ct_sourceAccountId input = ct_destinationAccountId input")
    case True
    with w show ?thesis by (auto simp: create_def split: sum.split)
  next
    case False
    then obtain amount where amount: "fromMinor (StringArg (ct_amountMinor input)) = Inr amount"
      by (cases "fromMinor (StringArg (ct_amountMinor input))") auto
    have "tx_keeps P (transfer_work outbox now eids evid amount input pid tid key)" for outbox now eids evid
      by (rule on_transfer [OF fromMinor_range [OF amount] _ assms(2)]) (use False in simp)
    note reach = create_attempts_reach [where envs = envs and P = P, OF _ this w]
    obtain r w' where run: "create_attempts cfg envs amount input pid tid key startedAt 1 (tc_maxAttempts cfg) w = (r, w')"
      by (cases "create_attempts cfg envs amount input pid tid key startedAt 1 (tc_maxAttempts cfg) w")
    have "P (tw_db w')" by (rule conjunct1 [OF reach [OF _ run]]) (rule assms(1))
    with run amount False show ?thesis by (simp add: create_def)
  qed
qed

lemma on_post_with: "tx_keeps P (postWith now eids posting)"
  using on_post [of False now eids undefined posting None] by (auto simp: tx_keeps_def post_work_plain)

lemma store_post_state: "P s \<Longrightarrow> P (out_state (store_post env outbox now eids evid posting idem s))"
  by (simp add: store_post_def transaction_state [OF on_post] single_state [OF on_post_with])

lemma post_state: "io_keeps P (post env outbox now eids evid posting idem)"
  unfolding post_def by (auto split: option.split intro!: keeps_intros)
    (auto simp: io_keeps_def run_outcome_def Let_def store_post_state)

lemma fundAccount_keeps:
  assumes "\<And>s. P s \<Longrightarrow> P (fe_before_treasury env s)" and "\<And>s. P s \<Longrightarrow> P (fe_before_post env s)"
  shows "io_keeps P (fundAccount outbox env input idem)"
  unfolding fundAccount_def
  by (intro keeps_intros; auto split: option.split intro!: keeps_intros io_keeps_modify assms post_state)

lemma post_transfer_keeps:
  assumes "env_fair P env" and "\<And>pid key. principalOf req = Inr pid \<Longrightarrow>
    key_of_header (hq_idempotency_key req) = Inr key \<Longrightarrow> allowed pid (rv_id env) key"
  shows "app_keeps (post_transfer opts env rid req body)"
  unfolding post_transfer_def
proof (intro io_keeps_lift_bind keeps_intros claim_or_replay_keeps assms(1))
  fix pid key replay assume req: "principalOf req = Inr pid" "key_of_header (hq_idempotency_key req) = Inr key"
  show "app_keeps (case replay of
      None \<Rightarrow> io_catch
          (io_bind (on_transfers (create (transfer_config_of opts) (rv_attempts env) (rv_id env) (rv_clock env)
              (transfer_input body) pid key)) (\<lambda>transfer. io_return (send_json 201 (transfer_json transfer))))
          (settle_and_rethrow env rid key ''transfer'' pid)
    | Some r \<Rightarrow> send_replay r)"
    by (auto split: option.split intro!: keeps_intros send_replay_keeps settle_and_rethrow_keeps assms
        io_keeps_on_transfers create_keeps env_fairD [OF assms(1)] req)
qed

lemma post_fund_keeps:
  assumes "env_fair P env"
  shows "app_keeps (post_fund opts env rid req body)"
  unfolding post_fund_def
  by (intro keeps_intros claim_or_replay_keeps assms)
    (auto split: option.split
      intro!: keeps_intros send_replay_keeps settle_and_rethrow_keeps fundAccount_keeps assms env_fairD [OF assms])

lemma open_account_keeps: "app_keeps (open_account env req body)"
  unfolding open_account_def by (intro keeps_intros on_account)

lemma serve_keeps:
  assumes "env_fair P env" and "\<And>pid key. route = Post_transfer \<Longrightarrow> principalOf req = Inr pid \<Longrightarrow>
    key_of_header (hq_idempotency_key req) = Inr key \<Longrightarrow> allowed pid (rv_id env) key"
  shows "app_keeps (serve opts env rid route req)"
proof (cases "route = Post_transfer")
  case True
  with assms show ?thesis
    by (auto simp: serve_def parsed_body_def intro!: keeps_intros post_transfer_keeps)
next
  case False
  note kept = other_handlers_keep [OF assms(1)] open_account_keeps post_fund_keeps [OF assms(1)]
  from False show ?thesis
    by (cases route) (auto simp: serve_def parsed_body_def parsed_params_def body_parsed_def
        intro!: keeps_intros kept)
qed

lemma handle_keeps:
  assumes fair: "env_fair P env" and inv: "P (app_db w)"
    and admitted: "\<And>req' w' pid key. route = Post_transfer \<Longrightarrow> guard opts env Customer req w = (Inr req', w') \<Longrightarrow>
      principalOf req' = Inr pid \<Longrightarrow> key_of_header (hq_idempotency_key req') = Inr key \<Longrightarrow>
      allowed pid (rv_id env) key"
  shows "P (app_db (snd (handle opts env route req w)))"
proof -
  let ?rid = "genReqId (rv_random_id env) (hq_request_id req)"
  have guarded: "P (app_db (snd (guard opts env (scope_of route) req w)))"
    by (rule io_keepsD [OF guard_keeps [OF fair]]) (rule inv)
  obtain r w1 where g: "guard opts env (scope_of route) req w = (r, w1)"
    by (cases "guard opts env (scope_of route) req w")
  show ?thesis
  proof (cases r)
    case (Inl e)
    with g guarded show ?thesis by (simp add: handle_def Let_def respond_state io_bind_def)
  next
    case (Inr req')
    have "app_keeps (serve opts env ?rid route req')"
      by (rule serve_keeps [OF fair]) (use admitted g Inr in auto)
    moreover have "app_keeps (on_db (io_modify (rv_before env)))"
      using env_fairD(2) [OF fair] by (auto intro!: keeps_intros io_keeps_modify)
    ultimately have "app_keeps (io_bind (on_db (io_modify (rv_before env))) (\<lambda>_. serve opts env ?rid route req'))"
      by (intro io_keeps_bind)
    then have "P (app_db (snd (io_bind (on_db (io_modify (rv_before env))) (\<lambda>_. serve opts env ?rid route req') w1)))"
      by (rule io_keepsD) (use guarded g in simp)
    with g Inr show ?thesis by (simp add: handle_def Let_def respond_state io_bind_def)
  qed
qed

end

end
