(* ===== verification/Service_Runs.thy ===== *)
theory Service_Runs
  imports Request_Invariants Outbox_Worker
begin

text \<open>
  The service as a transition system over its database and its process state: requests of any
  kind, polls of the outbox worker, an operator's replay and the retention sweeps, in any order,
  with any failures and with other clients acting between two statements.  The invariants of the
  components hold in every state the service can reach from the migrated database.
\<close>

section \<open>The laws of a running service\<close>

locale service_invariant = request_invariant +
  assumes on_claim_events: "tx_keeps P (claim_work now lease locked n)"
    and on_processed: "tx_keeps P (markProcessed now eid)"
    and on_failed: "tx_keeps P (markFailed eid msg retry_at)"
    and on_consume: "tx_keeps P (consume_work now eid input')"
    and on_replay: "(\<And>r. p' r \<Longrightarrow> parked r) \<Longrightarrow> tx_keeps P (replay_where p')"
    and on_purge_claims: "P s \<Longrightarrow> purgeCompletedBefore cutoff n s = Some (k, s') \<Longrightarrow> P s'"
    and on_purge_events: "P s \<Longrightarrow> purgeProcessedBefore cutoff limit s = Some (k, s') \<Longrightarrow> P s'"
begin

lemma processEvent_keeps: "io_keeps P (handler event) \<Longrightarrow> io_keeps P (processEvent m handler env event)"
  unfolding processEvent_def Let_def
  by (auto intro!: keeps_intros on_processed on_failed)

lemma process_batch_keeps:
  assumes "\<And>e. io_keeps P (handler e)"
  shows "P s \<Longrightarrow> P (snd (snd (process_batch m handler envs i events s)))"
proof (induction events arbitrary: i s)
  case (Cons event events)
  have one: "P (snd (processEvent m handler (envs i) event s))"
    by (rule io_keepsD [OF processEvent_keeps [OF assms] Cons.prems])
  show ?case
  proof (cases "processEvent m handler (envs i) event s")
    case (Pair r s')
    with one Cons.IH [of s' "i + 1"] show ?thesis
      by (cases r) (auto split: prod.split)
  qed
qed simp

lemma poll_keeps:
  assumes handler: "\<And>e. io_keeps P (handler e)" and inv: "P s"
  shows "P (snd (poll lease n m handler env s))"
proof -
  let ?claimed = "claimBatch (pe_tx env) (pe_now env) lease (pe_locked env) n s"
  have state: "P (out_state ?claimed)"
    unfolding claimBatch_def by (rule transaction_state [OF on_claim_events inv])
  show ?thesis
  proof (cases "out_result ?claimed")
    case (Inl e)
    with state show ?thesis by (simp add: poll_def Let_def)
  next
    case (Inr batch)
    from process_batch_keeps [where handler = handler and m = m and envs = "pe_events env" and i = 0 and events = batch,
        OF handler state] Inr show ?thesis
      by (auto simp: poll_def Let_def split: prod.split option.split)
  qed
qed

lemma audit_handle_keeps: "io_keeps P (audit_handle env now eid event)"
  using transaction_state [OF on_consume]
  by (auto simp: audit_handle_def io_keeps_def io_bind_def Let_def consume_def io_apply split: sum.split)

end

section \<open>Runs\<close>

text \<open>
  Each step is one thing the processes of the deployment do: serve a request, poll the outbox
  (handling each event with the audit consumer), replay parked events, purge.  What other clients
  do inside a request is a run itself.
\<close>

inductive service_run :: "app_options \<Rightarrow> db \<Rightarrow> db \<Rightarrow> bool" for opts where
  run_done: "service_run opts s s"
| run_request: "service_run opts s (app_db w) \<Longrightarrow>
    (\<forall>f s'. f \<in> interferences env \<longrightarrow> service_run opts s' (f s')) \<Longrightarrow>
    service_run opts s (app_db (snd (handle opts env route req w)))"
| run_poll: "service_run opts s s' \<Longrightarrow>
    service_run opts s (snd (poll lease n m (\<lambda>e. audit_handle (txs e) (nows e) (ids e) e) penv s'))"
| run_replay: "service_run opts s s' \<Longrightarrow> service_run opts s (snd (query_or_fail fault (replay eid) s'))"
| run_replay_all: "service_run opts s s' \<Longrightarrow> service_run opts s (snd (query_or_fail fault replayAllParked s'))"
| run_purge_claims: "service_run opts s s' \<Longrightarrow> purgeCompletedBefore cutoff n s' = Some (k, s'') \<Longrightarrow>
    service_run opts s s''"
| run_purge_events: "service_run opts s s' \<Longrightarrow> purgeProcessedBefore cutoff limit s' = Some (k, s'') \<Longrightarrow>
    service_run opts s s''"

context service_invariant
begin

lemma run_keeps:
  assumes everyone: "\<And>pid tid key. allowed pid tid key"
  shows "service_run opts s s' \<Longrightarrow> P s \<Longrightarrow> P s'"
proof (induction rule: service_run.induct)
  case (run_request s w env route req)
  then have "env_fair P env" by (auto simp: env_fair_def)
  with run_request show ?case by (intro handle_keeps everyone) auto
next
  case (run_poll s s' lease n m txs nows ids penv)
  then show ?case by (intro poll_keeps audit_handle_keeps) auto
next
  case (run_replay s s' fault eid)
  have "io_keeps P (query_or_fail fault (replay eid))"
    unfolding replay_def by (intro keeps_intros on_replay) simp
  with run_replay show ?case by (auto intro: io_keepsD)
next
  case (run_replay_all s s' fault)
  have "io_keeps P (query_or_fail fault replayAllParked)"
    unfolding replayAllParked_def by (intro keeps_intros on_replay)
  with run_replay_all show ?case by (auto intro: io_keepsD)
qed (auto intro: on_purge_claims on_purge_events)

end

section \<open>The invariant of the database\<close>

lemma db_inv_frame [simp]:
  "db_inv (s\<lparr>principal_identities := ids\<rparr>) = db_inv s"
  "db_inv (s\<lparr>api_keys := keys\<rparr>) = db_inv s"
  by (simp_all add: db_inv_def)

lemma db_inv_principals:
  assumes "db_inv s"
  shows "db_inv (s\<lparr>principals := principals s @ ps\<rparr>)"
proof -
  have "idem_inv (s\<lparr>principals := principals s @ ps\<rparr>)"
    using assms by (auto simp: db_inv_def idem_inv_def idem_row_ok_def)
  with assms show ?thesis by (simp add: db_inv_def)
qed

lemma db_inv_records:
  "db_inv s \<Longrightarrow> idem_inv (s\<lparr>idempotency_records := t\<rparr>) \<Longrightarrow> db_inv (s\<lparr>idempotency_records := t\<rparr>)"
  by (simp add: db_inv_def)

lemma db_inv_events:
  "db_inv s \<Longrightarrow> outbox_inv (s\<lparr>outbox_events := t\<rparr>) \<Longrightarrow> db_inv (s\<lparr>outbox_events := t\<rparr>)"
  by (simp add: db_inv_def)

text \<open>A statement that changes one table only keeps the whole when it keeps that table's part.\<close>

lemma db_inv_by_records:
  assumes "tx_keeps idem_inv m" and "\<And>s a s'. m s = Inr (a, s') \<Longrightarrow> \<exists>t. s' = s\<lparr>idempotency_records := t\<rparr>"
  shows "tx_keeps db_inv m"
  unfolding tx_keeps_def
proof (intro allI impI)
  fix s a s' assume inv: "db_inv s" and run: "m s = Inr (a, s')"
  have "idem_inv s'" using inv tx_keepsD [OF assms(1) _ run] by (simp add: db_inv_def)
  with inv assms(2) [OF run] show "db_inv s'" by (auto intro: db_inv_records)
qed

lemma db_inv_by_events:
  assumes "tx_keeps outbox_inv m" and "\<And>s a s'. m s = Inr (a, s') \<Longrightarrow> \<exists>t. s' = s\<lparr>outbox_events := t\<rparr>"
  shows "tx_keeps db_inv m"
  unfolding tx_keeps_def
proof (intro allI impI)
  fix s a s' assume inv: "db_inv s" and run: "m s = Inr (a, s')"
  have "outbox_inv s'" using inv tx_keepsD [OF assms(1) _ run] by (simp add: db_inv_def)
  with inv assms(2) [OF run] show "db_inv s'" by (auto intro: db_inv_events)
qed

lemma records_only:
  "insert_claim now p s = Inr (x, s') \<Longrightarrow> \<exists>t. s' = s\<lparr>idempotency_records := t\<rparr>"
  "reclaim now p threshold s = Inr (y, s') \<Longrightarrow> \<exists>t. s' = s\<lparr>idempotency_records := t\<rparr>"
  "release key operation pid s = Inr (u, s') \<Longrightarrow> \<exists>t. s' = s\<lparr>idempotency_records := t\<rparr>"
  by (auto simp: insert_claim_def reclaim_eq release_def tx_simps intro: exI [of _ "idempotency_records s"]
      split: option.splits)

lemma events_only:
  "claim_work now lease locked n s = Inr (x, s') \<Longrightarrow> \<exists>t. s' = s\<lparr>outbox_events := t\<rparr>"
  "markProcessed now eid s = Inr (u, s') \<Longrightarrow> \<exists>t. s' = s\<lparr>outbox_events := t\<rparr>"
  "markFailed eid msg a s = Inr (u, s') \<Longrightarrow> \<exists>t. s' = s\<lparr>outbox_events := t\<rparr>"
  "replay_where p s = Inr (k, s') \<Longrightarrow> \<exists>t. s' = s\<lparr>outbox_events := t\<rparr>"
  by (auto simp: claim_work_eq Let_def markProcessed_def markFailed_def replay_where_def tx_simps)

lemma createAccount_db_inv: "tx_keeps db_inv (createAccount now aid currency owner)"
  unfolding tx_keeps_def
proof (intro allI impI)
  fix s a s' assume inv: "db_inv s" and run: "createAccount now aid currency owner s = Inr (a, s')"
  let ?row = "new_account_row now aid currency owner"
  have s': "s' = s\<lparr>accounts := accounts s @ [?row]\<rparr>" and fresh: "aid \<notin> acc_id ` set (accounts s)"
    and cur: "currency_ok currency"
    using run by (auto simp: createAccount_def tx_simps)
  have ledger: "ledger_inv s" using inv by (simp add: db_inv_def)
  then have ground: "\<And>e. e \<in> set (journal_entries s) \<Longrightarrow> entry_grounded s e" by (simp add: ledger_inv_def)
  have "je_account_id e \<noteq> aid" if "e \<in> set (journal_entries s)" for e
    using ground [OF that] fresh by (auto simp: entry_grounded_def)
  then have zero: "journal_balance (journal_entries s) aid = 0"
    unfolding journal_balance_def by (intro sum_list_map_zero) simp
  have "ledger_inv s'"
    using ledger fresh zero cur unfolding s'
    by (auto simp: ledger_inv_def ledger_keys_def account_sound_def new_account_row_def account_row_ok_def
        in_bigint_def bigint_max_def transaction_settled_def entry_grounded_def)
  then show "db_inv s'" using inv unfolding s' by (simp add: db_inv_def)
qed

lemma audit_effects_only:
  assumes "consume_work now eid i s = Inr (r, s')"
  shows "\<exists>t u. s' = s\<lparr>consumer_inbox := t, audit_effects := u\<rparr>"
proof (cases "(auditConsumerName, ac_eventId i) \<in> inbox_key ` set (consumer_inbox s)")
  case True
  with consume_work_InrD [OF assms] have "s' = s\<lparr>consumer_inbox := consumer_inbox s, audit_effects := audit_effects s\<rparr>"
    by simp
  then show ?thesis by blast
next
  case False
  with consume_work_InrD [OF assms] show ?thesis by auto
qed

lemma consume_db_inv: "tx_keeps db_inv (consume_work now eid i)"
  unfolding tx_keeps_def
proof (intro allI impI)
  fix s r s' assume inv: "db_inv s" and run: "consume_work now eid i s = Inr (r, s')"
  have "audit_inv s'" using inv tx_keepsD [OF consume_work_keeps _ run] by (simp add: db_inv_def)
  with inv audit_effects_only [OF run] show "db_inv s'" by (auto simp: db_inv_def)
qed

text \<open>A purge that ends, whatever its batch size, has only deleted rows.\<close>

lemma purge_loop_keeps:
  assumes run: "purge_loop sweep n removed t = Some (k, t')" and start: "Q t"
    and step: "\<And>t. Q t \<Longrightarrow> Q (snd (sweep t))"
  shows "Q t'"
proof -
  have "sweep' = sweep \<longrightarrow> Q u \<longrightarrow> Q (snd r)" if "purge_loop sweep' m c u = Some r" for sweep' m c u r
    by (rule purge_loop.raw_induct [OF _ that, where P = "\<lambda>sweep' m c u r. sweep' = sweep \<longrightarrow> Q u \<longrightarrow> Q (snd r)"])
      (use step in \<open>auto simp: Let_def split: if_splits\<close>)
  with run start show ?thesis by fastforce
qed

lemma idem_inv_delete:
  "idem_inv (s\<lparr>idempotency_records := t\<rparr>) \<Longrightarrow> idem_inv (s\<lparr>idempotency_records := delete_where p t\<rparr>)"
  by (auto simp: idem_inv_def idem_row_ok_def delete_where_def distinct_map_filter)

lemma outbox_inv_delete:
  "outbox_inv (s\<lparr>outbox_events := t\<rparr>) \<Longrightarrow> outbox_inv (s\<lparr>outbox_events := delete_where p t\<rparr>)"
  by (auto simp: outbox_inv_def delete_where_def distinct_map_filter)

lemma purge_claims_db_inv:
  assumes "db_inv s" and run: "purgeCompletedBefore cutoff n s = Some (k, s')"
  shows "db_inv s'"
proof -
  from run obtain t where t: "purge_loop (purge_batch cutoff n) n 0 (idempotency_records s) = Some (k, t)"
    and s': "s' = s\<lparr>idempotency_records := t\<rparr>"
    by (auto simp: purgeCompletedBefore_def)
  have "idem_inv (s\<lparr>idempotency_records := t\<rparr>)"
    by (rule purge_loop_keeps [where Q = "\<lambda>t. idem_inv (s\<lparr>idempotency_records := t\<rparr>)", OF t])
      (use assms(1) in \<open>auto simp: db_inv_def purge_batch_def delete_batch_def Let_def intro: idem_inv_delete\<close>)
  then show ?thesis unfolding s' by (rule db_inv_records [OF assms(1)])
qed

lemma purge_events_db_inv:
  assumes "db_inv s" and run: "purgeProcessedBefore cutoff limit s = Some (k, s')"
  shows "db_inv s'"
proof -
  from run obtain n t where t: "purge_loop (event_purge_batch cutoff n) n 0 (outbox_events s) = Some (k, t)"
    and s': "s' = s\<lparr>outbox_events := t\<rparr>"
    by (auto simp: purgeProcessedBefore_def store_purgeProcessedBefore_def)
  have "outbox_inv (s\<lparr>outbox_events := t\<rparr>)"
    by (rule purge_loop_keeps [where Q = "\<lambda>t. outbox_inv (s\<lparr>outbox_events := t\<rparr>)", OF t])
      (use assms(1) in \<open>auto simp: db_inv_def event_purge_batch_def delete_batch_def Let_def intro: outbox_inv_delete\<close>)
  then show ?thesis unfolding s' by (rule db_inv_events [OF assms(1)])
qed

lemma createPrincipal_db_inv: "tx_keeps db_inv (createPrincipal now pid name)"
  unfolding tx_keeps_def by (auto dest!: createPrincipal_InrD intro: db_inv_principals)

lemma provision_db_inv: "tx_keeps db_inv (provision_work now pid provider subject email name)"
  unfolding tx_keeps_def
proof (intro allI impI)
  fix s p s' assume inv: "db_inv s" and run: "provision_work now pid provider subject email name s = Inr (p, s')"
  from provision_work_InrD [OF run] obtain row i where
    "s' = s\<lparr>principals := principals s @ [row], principal_identities := principal_identities s @ [i]\<rparr>" .
  with db_inv_principals [OF inv] show "db_inv s'" by simp
qed

lemma keys_db_inv:
  "tx_keeps db_inv (insertApiKey now kid hash prefix pid)" "tx_keeps db_inv (store_revokeApiKey now kid)"
  unfolding tx_keeps_def by (auto dest!: insertApiKey_InrD simp: store_revokeApiKey_eq)

lemma records_db_inv:
  "tx_keeps db_inv (insert_claim now p)" "tx_keeps db_inv (reclaim now p threshold)"
  "tx_keeps db_inv (release key operation pid)"
  by (rule db_inv_by_records, rule insert_claim_keeps reclaim_keeps release_keeps, erule records_only)+

lemma events_db_inv:
  "tx_keeps db_inv (claim_work now lease locked n)" "tx_keeps db_inv (markProcessed now eid)"
  "tx_keeps db_inv (markFailed eid msg a)"
  by (rule db_inv_by_events, rule claim_work_keeps markProcessed_keeps markFailed_keeps, erule events_only)+

lemma replay_db_inv: "(\<And>r. p r \<Longrightarrow> parked r) \<Longrightarrow> tx_keeps db_inv (replay_where p)"
  by (rule db_inv_by_events, rule replay_where_keeps, assumption, erule events_only)

interpretation books: service_invariant db_inv "\<lambda>_ _ _. True"
  by unfold_locales
    (rule transfer_work_db_inv post_work_db_inv createAccount_db_inv records_db_inv complete_db_inv
      createPrincipal_db_inv keys_db_inv provision_db_inv events_db_inv consume_db_inv replay_db_inv
      purge_claims_db_inv purge_events_db_inv; assumption)+

section \<open>The invariant of the credentials\<close>

lemma auth_inv_frame [simp]:
  "auth_inv (s\<lparr>accounts := x1\<rparr>) = auth_inv s" "auth_inv (s\<lparr>ledger_transactions := x2\<rparr>) = auth_inv s"
  "auth_inv (s\<lparr>journal_entries := x3\<rparr>) = auth_inv s" "auth_inv (s\<lparr>transfers := x4\<rparr>) = auth_inv s"
  "auth_inv (s\<lparr>idempotency_records := x5\<rparr>) = auth_inv s" "auth_inv (s\<lparr>outbox_events := x6\<rparr>) = auth_inv s"
  "auth_inv (s\<lparr>consumer_inbox := x7\<rparr>) = auth_inv s" "auth_inv (s\<lparr>audit_effects := x8\<rparr>) = auth_inv s"
  by (simp_all add: auth_inv_def)

interpretation credential_posting: transfer_posting auth_inv
proof unfold_locales
  fix now tid ty ref eids aids ds ms
  show "tx_keeps auth_inv (post_ledger_transaction now tid ty ref eids aids ds ms)"
    unfolding tx_keeps_def
  proof (intro allI impI)
    fix s row s' assume inv: "auth_inv s" and post: "post_ledger_transaction now tid ty ref eids aids ds ms s = Inr (row, s')"
    obtain rows where "s' = posted_state now row rows (zip aids (zip ds ms)) s"
      by (rule post_ledger_transaction_InrD [OF post]) blast
    with inv show "auth_inv s'" by (simp add: posted_state_def)
  qed
qed (auto simp: tx_keeps_def complete_eq dest!: insert_transfer_InrD outbox_insert_InrD)

lemma records_auth_inv:
  "tx_keeps auth_inv (insert_claim now p)" "tx_keeps auth_inv (reclaim now p threshold)"
  "tx_keeps auth_inv (complete now key operation pid b st)" "tx_keeps auth_inv (release key operation pid)"
  by (auto simp: tx_keeps_def complete_eq dest!: records_only)

lemma events_auth_inv:
  "tx_keeps auth_inv (claim_work now lease locked n)" "tx_keeps auth_inv (markProcessed now eid)"
  "tx_keeps auth_inv (markFailed eid msg a)" "tx_keeps auth_inv (replay_where q)"
  by (auto simp: tx_keeps_def dest!: events_only)

lemma credentials_auth_inv:
  "tx_keeps auth_inv (createPrincipal now pid name)" "tx_keeps auth_inv (insertApiKey now kid hash prefix pid)"
  "tx_keeps auth_inv (store_revokeApiKey now kid)"
  "tx_keeps auth_inv (provision_work now pid provider subject email name)"
  using createPrincipal_sound insertApiKey_sound store_revokeApiKey_sound provision_work_sound
  by (auto simp: tx_keeps_def auth_sound_def)

lemma others_auth_inv:
  "tx_keeps auth_inv (createAccount now aid currency owner)" "tx_keeps auth_inv (consume_work now eid i)"
  "auth_inv s \<Longrightarrow> purgeCompletedBefore cutoff n s = Some (k, s') \<Longrightarrow> auth_inv s'"
  "auth_inv s \<Longrightarrow> purgeProcessedBefore cutoff limit s = Some (k, s') \<Longrightarrow> auth_inv s'"
  by (auto simp: tx_keeps_def createAccount_def tx_simps purgeCompletedBefore_def purgeProcessedBefore_def
      store_purgeProcessedBefore_def dest!: audit_effects_only)

interpretation credentials: service_invariant auth_inv "\<lambda>_ _ _. True"
  by unfold_locales
    (rule credential_posting.transfer_work_keeps credential_posting.post_work_keeps records_auth_inv
      events_auth_inv credentials_auth_inv others_auth_inv; assumption)+

section \<open>Every reachable state\<close>

lemma initial_db_inv: "db_inv (initial_db t)"
  unfolding db_inv_def ledger_inv_def
  by (intro conjI; simp add: initial_db_def ledger_keys_def treasury_row_def account_sound_def journal_balance_def
      account_row_ok_def in_bigint_def bigint_max_def idem_inv_def outbox_inv_def audit_inv_def)

lemma initial_auth_inv: "auth_inv (initial_db t)"
  by (simp add: auth_inv_def initial_db_def)

text \<open>
  C2.  The books are sound in every state the service can reach from the migrated database, by any
  requests, sign-ins, worker polls, replays and purges, in any order, with any failed connections,
  rejected or lost commits, and any interference of other clients: every posting is balanced and
  final, every cached balance is the sum of its journal entries, no customer account is
  overdrawn, the balances of a currency add up to zero, claims, outbox, inbox and credentials
  are consistent.
\<close>

theorem reachable_states_are_sound:
  assumes "service_run opts (initial_db t) s"
  shows "db_inv s \<and> auth_inv s \<and> (\<forall>currency. currency_total s currency = 0) \<and>
    (\<forall>a\<in>set (accounts s). acc_is_treasury a \<or> 0 \<le> acc_balance_minor a)"
proof -
  have "db_inv s" by (rule books.run_keeps [OF TrueI assms initial_db_inv])
  moreover have "auth_inv s" by (rule credentials.run_keeps [OF TrueI assms initial_auth_inv])
  ultimately show ?thesis
    by (auto simp: db_inv_def ledger_inv_currency_total) (auto simp: ledger_inv_def account_sound_def account_row_ok_def)
qed

end
