(* ===== verification/Access_Control.thy ===== *)
theory Access_Control
  imports App Auth_Theorems
begin

text \<open>
  Who may do what over HTTP: the guards stand before every route but health and the not-found
  reply, a refused request has no effect, and a customer's reads show that customer's data only.
\<close>

section \<open>Requests past a guard\<close>

abbreviation request_id :: "request_env \<Rightarrow> http_request \<Rightarrow> string" where
  "request_id env req \<equiv> genReqId (rv_random_id env) (hq_request_id req)"

text \<open>What a request that was let in does, and how one that was not is answered.\<close>

definition let_in :: "app_options \<Rightarrow> request_env \<Rightarrow> route \<Rightarrow> http_request \<Rightarrow> http_request \<Rightarrow> app_world \<Rightarrow> http_reply \<times> app_world" where
  "let_in opts env route req req' w =
    respond (request_id env req)
      (io_bind (on_db (io_modify (rv_before env))) (\<lambda>_. serve opts env (request_id env req) route req')) w"

definition refused :: "request_env \<Rightarrow> http_request \<Rightarrow> string \<Rightarrow> app_world \<Rightarrow> http_reply \<times> app_world" where
  "refused env req msg w =
    (send_json 401 (error_json
       \<lparr>eb_code = ''UNAUTHORIZED'', eb_message = msg, eb_requestId = request_id env req\<rparr>), w)"

lemma handle_guarded:
  "handle opts env route req w =
    (case guard opts env (scope_of route) req w of
       (Inl e, w') \<Rightarrow> respond (request_id env req) (io_throw e) w'
     | (Inr req', w') \<Rightarrow> let_in opts env route req req' w')"
  by (simp add: handle_def let_in_def Let_def respond_def io_bind_def io_throw_def
      split: prod.split sum.split)

lemma respond_unauthorized:
  "knownError e = Some (''UNAUTHORIZED'', msg, 401) \<Longrightarrow> respond (request_id env req) (io_throw e) w = refused env req msg w"
  by (simp add: respond_def refused_def io_throw_def errorHandler_def)

lemma on_db_same: "m (app_db w) = (r, app_db w) \<Longrightarrow> on_db m w = (r, w)"
  by (simp add: on_db_def on_transfers_def)

lemma admin_admission:
  assumes "scope_of route = Admin"
  shows "if hq_admin_key req = One_header (op_adminApiKey opts) \<and> op_adminApiKey opts \<noteq> []
    then handle opts env route req w = let_in opts env route req req w
    else \<exists>msg. handle opts env route req w = refused env req msg w"
proof (cases "requireAdminApiKey (op_adminApiKey opts) (hq_admin_key req)")
  case (Inl e)
  then obtain msg where e: "knownError e = Some (''UNAUTHORIZED'', msg, 401)"
    by (auto simp: requireAdminApiKey_def Let_def split: header.splits if_splits)
  have "handle opts env route req w = refused env req msg w"
    unfolding handle_guarded assms guard_def using Inl respond_unauthorized [OF e]
    by (simp add: io_steps)
  moreover have "\<not> (hq_admin_key req = One_header (op_adminApiKey opts) \<and> op_adminApiKey opts \<noteq> [])"
    using Inl requireAdminApiKey_ok [of "op_adminApiKey opts" "hq_admin_key req"] by auto
  ultimately show ?thesis by auto
next
  case (Inr u)
  then have "hq_admin_key req = One_header (op_adminApiKey opts) \<and> op_adminApiKey opts \<noteq> []"
    using requireAdminApiKey_ok [of "op_adminApiKey opts" "hq_admin_key req"] by simp
  with Inr show ?thesis
    unfolding handle_guarded assms guard_def by (simp add: io_steps io_apply)
qed

text \<open>
  C10.  An administrative route is reached with the administrator's key and only with it: the header
  must be the configured key, byte for byte, which must not be empty.  Any other request to it is
  answered 401, and neither the database nor the counters nor the log change.
\<close>

theorem admin_routes_need_the_key:
  assumes "scope_of route = Admin"
  shows "if hq_admin_key req = One_header (op_adminApiKey opts) \<and> op_adminApiKey opts \<noteq> []
    then handle opts env route req w = let_in opts env route req req w
    else \<exists>msg. handle opts env route req w = refused env req msg w"
  using assms by (rule admin_admission)

lemma resolve_as_key:
  "op_verify opts = None \<or> starts_with secret apiKeyTag \<Longrightarrow>
    resolve_bearer opts env secret = on_db (authenticate (op_sha256_hex opts) secret)"
  by (auto simp: resolve_bearer_def split: option.split)

lemma on_db_authenticate:
  "on_db (authenticate sha secret) w = (fst (authenticate sha secret (app_db w)), w)"
  by (rule on_db_same) (metis authenticate_state prod.collapse)

text \<open>A key's secret resolves to the principal whose live key it opens.\<close>

lemma resolve_key_owner:
  assumes inv: "auth_inv (app_db w)"
    and kind: "op_verify opts = None \<or> starts_with secret apiKeyTag"
    and run: "resolve_bearer opts env secret w = (Inr p, w')"
  shows "key_opens (op_sha256_hex opts) secret (app_db w) p"
  using run authenticate_exactly_live_keys [OF inv, of "op_sha256_hex opts" secret p]
  by (auto simp add: resolve_as_key [OF kind] on_db_authenticate)

lemma customer_admission:
  assumes inv: "auth_inv (app_db w)" and scope: "scope_of route = Customer"
    and kind: "case extractBearerToken (hq_authorization req) of
      None \<Rightarrow> True | Some secret \<Rightarrow> op_verify opts = None \<or> starts_with secret apiKeyTag"
  shows "case extractBearerToken (hq_authorization req) of
      None \<Rightarrow> handle opts env route req w = refused env req ''Missing or malformed Authorization header'' w
    | Some secret \<Rightarrow>
        if \<exists>p. key_opens (op_sha256_hex opts) secret (app_db w) p
        then \<exists>p. key_opens (op_sha256_hex opts) secret (app_db w) p \<and>
          handle opts env route req w = let_in opts env route req (req\<lparr>hq_principalId := Some (p_id p)\<rparr>) w
        else handle opts env route req w = refused env req ''Invalid API key'' w"
proof (cases "extractBearerToken (hq_authorization req)")
  case None
  then show ?thesis
    unfolding handle_guarded scope guard_def
    by (simp add: requireApiKey_def io_throw_def respond_unauthorized [symmetric])
      (simp add: respond_def refused_def errorHandler_def io_throw_def)
next
  case (Some secret)
  have resolve: "resolve_bearer opts env secret = on_db (authenticate (op_sha256_hex opts) secret)"
    using kind Some by (simp add: resolve_as_key)
  note opens = authenticate_exactly_live_keys [OF inv, of "op_sha256_hex opts" secret, THEN conjunct2, THEN conjunct1]
    authenticate_exactly_live_keys [OF inv, of "op_sha256_hex opts" secret, THEN conjunct2, THEN conjunct2]
  obtain r where r: "authenticate (op_sha256_hex opts) secret (app_db w) = (r, app_db w)"
    by (metis authenticate_state prod.collapse)
  have ran: "on_db (authenticate (op_sha256_hex opts) secret) w = (r, w)" by (rule on_db_same) (rule r)
  show ?thesis
  proof (cases r)
    case (Inl e)
    have e: "e = invalid_key"
      using r Inl by (auto simp: authenticate_def io_bind_def io_apply io_get_def io_throw_def io_return_def
          split: option.splits if_splits)
    with opens(2) r Inl have "\<not> (\<exists>p. key_opens (op_sha256_hex opts) secret (app_db w) p)" by simp
    with e show ?thesis using Some Inl ran
      unfolding handle_guarded scope guard_def
      by (simp add: requireApiKey_def resolve io_bind_def respond_def refused_def errorHandler_def io_throw_def domainErrorStatus_def)
  next
    case (Inr p)
    with opens(1) [of p] r have "key_opens (op_sha256_hex opts) secret (app_db w) p" by simp
    with Some Inr ran show ?thesis
      unfolding handle_guarded scope guard_def
      by (auto simp: requireApiKey_def resolve io_bind_def io_return_def)
  qed
qed

text \<open>
  C11.  A customer route runs as the owner of the API key, or not at all.  With a bearer credential of
  the key's kind - or any, when no identity provider is configured - the request is served with
  the principal of the one live key the secret opens; if there is none, or no credential, the
  answer is 401, with the same words for an unknown, a revoked and a disabled one, and nothing
  changes.
\<close>

theorem customer_routes_run_as_the_key_owner:
  assumes inv: "auth_inv (app_db w)" and scope: "scope_of route = Customer"
    and kind: "case extractBearerToken (hq_authorization req) of
      None \<Rightarrow> True | Some secret \<Rightarrow> op_verify opts = None \<or> starts_with secret apiKeyTag"
  shows "case extractBearerToken (hq_authorization req) of
      None \<Rightarrow> handle opts env route req w = refused env req ''Missing or malformed Authorization header'' w
    | Some secret \<Rightarrow>
        if \<exists>p. key_opens (op_sha256_hex opts) secret (app_db w) p
        then \<exists>p. key_opens (op_sha256_hex opts) secret (app_db w) p \<and>
          handle opts env route req w = let_in opts env route req (req\<lparr>hq_principalId := Some (p_id p)\<rparr>) w
        else handle opts env route req w = refused env req ''Invalid API key'' w"
  using assms by (rule customer_admission)

section \<open>What a customer can read\<close>

lemma keyset_page_set: "set (fst (keyset_page p key cursor n t)) \<subseteq> {r \<in> set t. p r}"
  unfolding keyset_page_def keyset_rows_eq cut_page_take by (auto dest!: in_set_takeD)

lemma findAccount_SomeD:
  "findAccount aid s = Some a \<Longrightarrow> \<exists>r\<in>set (accounts s). a = toAccount r \<and> acc_id r = uuid_in aid"
  by (auto simp: findAccount_def dest!: select_first_SomeD)

definition owns :: "uuid \<Rightarrow> uuid \<Rightarrow> db \<Rightarrow> bool" where
  "owns pid aid s \<longleftrightarrow> (\<exists>a\<in>set (accounts s). acc_id a = aid \<and> acc_owner_principal_id a = Some pid)"

text \<open>
  C13.  A customer reads only what is theirs.  The accounts listed for a principal, and the one found
  by id, are that principal's; journal entries are returned for an account only to its owner, and
  are that account's; a transfer is returned only to the owner of one of its two accounts.  The
  treasuries are never shown.
\<close>

theorem reads_are_scoped_to_the_caller:
  "(\<forall>cursor limit page next. listOwned codec pid cursor limit s = (Inr (page, next), s) \<longrightarrow>
      (\<forall>a\<in>set page. owns pid (ac_id a) s)) \<and>
   (\<forall>aid a. findOwnedById aid pid s = Some a \<longrightarrow> owns pid (ac_id a) s \<and> ac_id a = uuid_in aid) \<and>
   (\<forall>aid cursor limit page next. listJournalEntries codec aid pid cursor limit s = (Inr (page, next), s) \<longrightarrow>
      owns pid (uuid_in aid) s \<and> (\<forall>e\<in>set page. jn_accountId e = uuid_in aid)) \<and>
   (\<forall>tid t. findById tid pid s = (Inr t, s) \<longrightarrow>
      t_id t = uuid_in tid \<and> (owns pid (t_sourceAccountId t) s \<or> owns pid (t_destinationAccountId t) s))"
proof (intro conjI allI impI)
  fix cursor limit page "next"
  assume "listOwned codec pid cursor limit s = (Inr (page, next), s)"
  then obtain n position where "page = map account_view (fst (keyset_page (owned_by pid) account_key position n (accounts s)))"
    by (auto simp: listOwned_def io_bind_eq_Inr io_apply store_listOwned_def Let_def split_beta)
  with keyset_page_set [of "owned_by pid" account_key position n "accounts s"]
  show "\<forall>a\<in>set page. owns pid (ac_id a) s"
    by (auto simp: owns_def owned_by_def account_view_def)
next
  fix aid a assume "findOwnedById aid pid s = Some a"
  then show "owns pid (ac_id a) s" "ac_id a = uuid_in aid"
    by (auto simp: findOwnedById_def owns_def owned_by_def account_view_def dest!: select_first_SomeD)
next
  fix aid cursor limit page "next"
  assume run: "listJournalEntries codec aid pid cursor limit s = (Inr (page, next), s)"
  then obtain account n position where account: "findAccount aid s = Some account"
      "la_ownerPrincipalId account = Some pid"
    and page: "page = map toJournalEntry (fst (keyset_page (\<lambda>r. je_account_id r = uuid_in aid) entry_key position n (journal_entries s)))"
    by (auto simp: listJournalEntries_def io_bind_eq_Inr io_apply store_listJournalEntries_def Let_def
        split_beta split: option.splits if_splits)
  from account findAccount_SomeD show "owns pid (uuid_in aid) s"
    by (fastforce simp: owns_def toAccount_def)
  from page keyset_page_set [of "\<lambda>r. je_account_id r = uuid_in aid" entry_key position n "journal_entries s"]
  show "\<forall>e\<in>set page. jn_accountId e = uuid_in aid" by (auto simp: toJournalEntry_def)
next
  fix tid t assume "findById tid pid s = (Inr t, s)"
  then have t: "findVisibleById tid pid s = Some t"
    by (auto simp: findById_def io_bind_eq_Inr io_apply split: option.splits)
  then show "t_id t = uuid_in tid" "owns pid (t_sourceAccountId t) s \<or> owns pid (t_destinationAccountId t) s"
    by (auto simp: findVisibleById_def owns_def split: option.splits dest!: select_first_SomeD)
qed

end
