(* ===== verification/Retry_Safety.thy ===== *)
theory Retry_Safety
  imports Service_Runs Access_Control
begin

text \<open>
  Retrying a transfer with its idempotency key.  A rely/guarantee argument: the number of transfers
  posted under the ids drawn for one key, plus one while the key has no stored answer, never
  grows, and a stored answer never changes - through any request, if whatever happens between its
  statements behaves the same way.
\<close>

section \<open>The budget of a key\<close>

definition answer_of :: "claim_key \<Rightarrow> db \<Rightarrow> idempotency_row option" where
  "answer_of k s =
    (case claim_of k s of None \<Rightarrow> None | Some r \<Rightarrow> if ir_status r = Completed then Some r else None)"

definition posted_under :: "uuid set \<Rightarrow> db \<Rightarrow> nat" where
  "posted_under ids s = count_where (\<lambda>t. tr_id t \<in> ids) (transfers s)"

definition budget :: "uuid set \<Rightarrow> claim_key \<Rightarrow> db \<Rightarrow> nat" where
  "budget ids k s = posted_under ids s + (if answer_of k s = None then 1 else 0)"

text \<open>A state within the budget \<open>n\<close> that still has the stored answer \<open>a\<close>, if there was one.\<close>

definition once :: "uuid set \<Rightarrow> claim_key \<Rightarrow> idempotency_row option \<Rightarrow> nat \<Rightarrow> db \<Rightarrow> bool" where
  "once ids k a n s \<longleftrightarrow> db_inv s \<and> (a \<noteq> None \<longrightarrow> answer_of k s = a) \<and> budget ids k s \<le> n"

lemma answer_of_Some: "answer_of k s = Some r \<longleftrightarrow> claim_of k s = Some r \<and> ir_status r = Completed"
  by (auto simp: answer_of_def split: option.splits)

lemma answer_kept_budget:
  assumes "transfers s' = transfers s" and "\<And>r. answer_of k s = Some r \<Longrightarrow> answer_of k s' = Some r"
  shows "budget ids k s' \<le> budget ids k s"
  using assms by (cases "answer_of k s") (auto simp: budget_def posted_under_def)

lemma once_frame:
  assumes "once ids k a n s" and "db_inv s'" and "transfers s' = transfers s"
    and "\<And>r. answer_of k s = Some r \<Longrightarrow> answer_of k s' = Some r"
  shows "once ids k a n s'"
  using assms answer_kept_budget [OF assms(3,4), of ids] by (cases a) (auto simp: once_def)

lemma once_same:
  "once ids k a n s \<Longrightarrow> db_inv s' \<Longrightarrow> transfers s' = transfers s \<Longrightarrow>
    idempotency_records s' = idempotency_records s \<Longrightarrow> once ids k a n s'"
  by (rule once_frame) (simp_all add: answer_of_def claim_of_def)

text \<open>A statement that keeps the invariant and touches neither table keeps the budget.\<close>

lemma once_tx_same:
  assumes "tx_keeps db_inv m"
    and "\<And>s x s'. m s = Inr (x, s') \<Longrightarrow> transfers s' = transfers s \<and> idempotency_records s' = idempotency_records s"
  shows "tx_keeps (once ids k a n) m"
  unfolding tx_keeps_def
proof (intro allI impI)
  fix s x s' assume o1: "once ids k a n s" and run: "m s = Inr (x, s')"
  then have "db_inv s" by (simp add: once_def)
  with o1 show "once ids k a n s'" using tx_keepsD [OF assms(1) _ run] assms(2) [OF run] by (simp add: once_same)
qed

lemma once_tx_claims:
  assumes "tx_keeps db_inv m" and "\<And>s x s'. m s = Inr (x, s') \<Longrightarrow> \<exists>t. s' = s\<lparr>idempotency_records := t\<rparr>"
    and "\<And>s x s' r. m s = Inr (x, s') \<Longrightarrow> db_inv s \<Longrightarrow> answer_of k s = Some r \<Longrightarrow> answer_of k s' = Some r"
  shows "tx_keeps (once ids k a n) m"
  unfolding tx_keeps_def
proof (intro allI impI)
  fix s x s' assume o1: "once ids k a n s" and run: "m s = Inr (x, s')"
  then have inv: "db_inv s" by (simp add: once_def)
  from assms(2) [OF run] have "transfers s' = transfers s" by auto
  then show "once ids k a n s'"
    by (rule once_frame [OF o1 tx_keepsD [OF assms(1) inv run]]) (rule assms(3) [OF run inv])
qed

section \<open>The statements on claims\<close>

lemma insert_claim_answer:
  assumes "insert_claim now p s = Inr (x, s')" and "answer_of k s = Some r"
  shows "answer_of k s' = Some r"
proof (cases x)
  case None
  with insert_claim_InrD [OF assms(1)] assms(2) show ?thesis by simp
next
  case (Some row)
  with insert_claim_InrD [OF assms(1)] have "s' = s\<lparr>idempotency_records := idempotency_records s @ [row]\<rparr>" by simp
  with assms(2) claim_of_append [of k "idempotency_records s" row] show ?thesis
    by (auto simp: answer_of_Some claim_of_def)
qed

lemma reclaim_answer:
  "reclaim now p threshold s = Inr (x, s') \<Longrightarrow> answer_of k s = Some r \<Longrightarrow> answer_of k s' = Some r"
  using claim_of_reclaim [where k = k] by (auto simp: answer_of_Some reclaimable_iff)

lemma complete_answer:
  "complete now key operation pid b st s = Inr (x, s') \<Longrightarrow> answer_of k s = Some r \<Longrightarrow> answer_of k s' = Some r"
  using claim_of_complete [where k = k] by (auto simp: answer_of_Some unfinished_iff)

lemma release_answer:
  "release key operation pid s = Inr (x, s') \<Longrightarrow> db_inv s \<Longrightarrow> answer_of k s = Some r \<Longrightarrow> answer_of k s' = Some r"
  using claim_of_release [OF db_inv_keys(2), where k = k] by (auto simp: answer_of_Some unfinished_iff)

lemma complete_only: "complete now key operation pid b st s = Inr (x, s') \<Longrightarrow> \<exists>t. s' = s\<lparr>idempotency_records := t\<rparr>"
  by (auto simp: complete_eq)

lemma claims_once:
  "tx_keeps (once ids k a n) (insert_claim now p)"
  "tx_keeps (once ids k a n) (reclaim now p threshold)"
  "tx_keeps (once ids k a n) (complete now key operation pid b st)"
  "tx_keeps (once ids k a n) (release key operation pid)"
     apply (rule once_tx_claims [OF records_db_inv(1)], erule records_only, erule insert_claim_answer, assumption)
    apply (rule once_tx_claims [OF records_db_inv(2)], erule records_only, erule reclaim_answer, assumption)
   apply (rule once_tx_claims [OF complete_db_inv], erule complete_only, erule complete_answer, assumption)
  apply (rule once_tx_claims [OF records_db_inv(3)], erule records_only, erule release_answer, assumption+)
  done

section \<open>The statements that post\<close>

lemma ledger_once: "tx_keeps (once ids k a n) (post_ledger_transaction now tid ty ref eids aids ds ms)"
proof (rule once_tx_same [OF post_ledger_transaction_db_inv])
  fix s row s' assume post: "post_ledger_transaction now tid ty ref eids aids ds ms s = Inr (row, s')"
  obtain rows where "s' = posted_state now row rows (zip aids (zip ds ms)) s"
    by (rule post_ledger_transaction_InrD [OF post]) blast
  then show "transfers s' = transfers s \<and> idempotency_records s' = idempotency_records s"
    by (simp add: posted_state_def)
qed

lemma event_once: "tx_keeps (once ids k a n) (outbox_insert now eid e)"
  by (rule once_tx_same [OF outbox_insert_db_inv]) (auto dest: outbox_insert_InrD)

interpretation once_posting: posting_invariant "once ids k a n" for ids k a n
  by unfold_locales (rule ledger_once event_once claims_once)+

lemma account_once: "tx_keeps (once ids k a n) (createAccount now aid currency owner)"
  by (rule once_tx_same [OF createAccount_db_inv]) (auto simp: createAccount_def tx_simps)

lemma credentials_once:
  "tx_keeps (once ids k a n) (createPrincipal now pid name)"
  "tx_keeps (once ids k a n) (insertApiKey now kid hash prefix pid)"
  "tx_keeps (once ids k a n) (store_revokeApiKey now kid)"
  "tx_keeps (once ids k a n) (provision_work now pid provider subject email name)"
     apply (rule once_tx_same [OF createPrincipal_db_inv], fastforce dest: createPrincipal_InrD)
    apply (rule once_tx_same [OF keys_db_inv(1)], fastforce dest: insertApiKey_InrD)
   apply (rule once_tx_same [OF keys_db_inv(2)], fastforce simp: store_revokeApiKey_eq)
  apply (rule once_tx_same [OF provision_db_inv], fastforce elim: provision_work_InrD)
  done

text \<open>
  A transfer spends the budget when it is posted under one of the key's ids, and then stores the
  key's answer, which there was not.
\<close>

definition may_draw :: "uuid set \<Rightarrow> claim_key \<Rightarrow> uuid \<Rightarrow> uuid \<Rightarrow> string option \<Rightarrow> bool" where
  "may_draw ids k pid tid key \<longleftrightarrow>
    (case key of None \<Rightarrow> False | Some key' \<Rightarrow> k = (pid, key', ''transfer'')) \<or> tid \<notin> ids"

lemma posted_under_append:
  "transfers s' = transfers s @ [r] \<Longrightarrow>
    posted_under ids s' = posted_under ids s + (if tr_id r \<in> ids then 1 else 0)"
  by (simp add: posted_under_def count_where_def)

lemma transfer_once:
  assumes amount: "in_money_range (minor amount)"
    and differ: "ct_sourceAccountId input \<noteq> ct_destinationAccountId input"
    and draw: "may_draw ids k pid tid key"
  shows "tx_keeps (once ids k a n) (transfer_work outbox now eids evid amount input pid tid key)"
  unfolding tx_keeps_def
proof (intro allI impI)
  fix s t s'
  assume o1: "once ids k a n s"
    and run: "transfer_work outbox now eids evid amount input pid tid key s = Inr (t, s')"
  then have inv: "db_inv s" by (simp add: once_def)
  have inv': "db_inv s'" by (rule tx_keepsD [OF transfer_work_db_inv inv run])
  from transfer_work_InrD [OF run amount differ db_inv_keys(2,1) [OF inv]] obtain src dst where
    moved: "transferred outbox now eids evid amount pid tid key src dst s s'" by blast
  then have posted: "posted_under ids s' = posted_under ids s + (if tid \<in> ids then 1 else 0)"
    using posted_under_append [of s' s] by (simp add: transferred_def Let_def)
  have claims: "claim_settled now ''transfer'' pid key (transfer_json (transfer_of now amount tid src dst)) s s'"
    using moved by (simp add: transferred_def Let_def)
  show "once ids k a n s'"
  proof (cases "\<exists>key'. key = Some key' \<and> k = (pid, key', ''transfer'')")
    case True
    with claims have "answer_of k s = None" "answer_of k s' \<noteq> None"
      by (auto simp: claim_settled_def answer_of_def completed_with_def)
    with o1 posted inv' show ?thesis by (auto simp: once_def budget_def split: if_splits)
  next
    case False
    have "claim_of k s' = claim_of k s"
    proof (cases key)
      case None
      with claims show ?thesis by (simp add: claim_settled_def claim_of_def)
    next
      case (Some key')
      with False have "k \<noteq> (pid, key', ''transfer'')" by simp
      with claims Some show ?thesis by (simp only: claim_settled_def option.case) blast
    qed
    moreover have "tid \<notin> ids" using False draw by (auto simp: may_draw_def split: option.splits)
    ultimately show ?thesis using o1 posted inv' by (simp add: once_def budget_def answer_of_def)
  qed
qed

interpretation retries: request_invariant "once ids k a n" "may_draw ids k" for ids k a n
  by unfold_locales
    (rule transfer_once once_posting.post_work_keeps account_once claims_once credentials_once; assumption)+

section \<open>Credentials that stay whose they are\<close>

text \<open>Every secret of the set has the prefix of some API key of the principal, live or revoked.\<close>

definition credentialed :: "string set \<Rightarrow> uuid \<Rightarrow> db \<Rightarrow> bool" where
  "credentialed secrets pid s \<longleftrightarrow> auth_inv s \<and>
    (\<forall>secret\<in>secrets. \<exists>k\<in>set (api_keys s).
      apiKeyPrefixOf secret = Some (ak_key_prefix k) \<and> ak_principal_id k = pid)"

lemma credentialed_kept: "credentialed secrets pid s \<Longrightarrow> auth_sound s s' \<Longrightarrow> credentialed secrets pid s'"
  unfolding credentialed_def auth_sound_def keys_kept_def by metis

lemma credentialed_same:
  "tx_keeps auth_inv m \<Longrightarrow> (\<And>s x s'. m s = Inr (x, s') \<Longrightarrow> api_keys s' = api_keys s) \<Longrightarrow>
    tx_keeps (credentialed secrets pid) m"
  unfolding tx_keeps_def credentialed_def by metis

lemma credentialed_owner:
  assumes "credentialed secrets pid s" and "secret \<in> secrets" and "key_opens sha secret s p"
  shows "p_id p = pid"
proof -
  from assms(3) obtain k r where k: "k \<in> set (api_keys s)" "apiKeyPrefixOf secret = Some (ak_key_prefix k)"
    "pr_id r = ak_principal_id k" "p = toPrincipal r"
    by (auto simp: key_opens_def)
  from assms(1,2) obtain k' where k': "k' \<in> set (api_keys s)" "apiKeyPrefixOf secret = Some (ak_key_prefix k')"
    "ak_principal_id k' = pid" and "distinct (map ak_key_prefix (api_keys s))"
    by (auto simp: credentialed_def auth_inv_def)
  then have "k' = k" using k distinct_map_eqD [of ak_key_prefix "api_keys s" k' k] by simp
  with k k' show ?thesis by simp
qed

lemma credentialed_posting:
  "tx_keeps (credentialed secrets pid) (post_ledger_transaction now tid ty ref eids aids ds ms)"
proof (rule credentialed_same [OF credential_posting.on_ledger])
  fix s row s' assume post: "post_ledger_transaction now tid ty ref eids aids ds ms s = Inr (row, s')"
  obtain rows where "s' = posted_state now row rows (zip aids (zip ds ms)) s"
    by (rule post_ledger_transaction_InrD [OF post]) blast
  then show "api_keys s' = api_keys s" by (simp add: posted_state_def)
qed

interpretation owner_posting: transfer_posting "credentialed secrets pid" for secrets pid
proof unfold_locales
  show "tx_keeps (credentialed secrets pid) (outbox_insert now eid e)" for now eid e
    by (rule credentialed_same [OF credential_posting.on_event]) (auto dest: outbox_insert_InrD)
  show "tx_keeps (credentialed secrets pid) (complete now key operation pid' b st)" for now key operation pid' b st
    by (rule credentialed_same [OF records_auth_inv(3)]) (auto dest: complete_only)
  show "tx_keeps (credentialed secrets pid) (insert_transfer r)" for r
    by (rule credentialed_same [OF credential_posting.on_transfer_row]) (auto dest: insert_transfer_InrD)
qed (rule credentialed_posting)

lemma claims_credentialed:
  "tx_keeps (credentialed secrets pid) (insert_claim now p)"
  "tx_keeps (credentialed secrets pid) (reclaim now p threshold)"
  "tx_keeps (credentialed secrets pid) (release key operation pid')"
    apply (rule credentialed_same [OF records_auth_inv(1)], drule records_only, force)
   apply (rule credentialed_same [OF records_auth_inv(2)], drule records_only, force)
  apply (rule credentialed_same [OF records_auth_inv(4)], drule records_only, force)
  done

lemma account_credentialed: "tx_keeps (credentialed secrets pid) (createAccount now aid currency owner)"
  by (rule credentialed_same [OF others_auth_inv(1)]) (auto simp: createAccount_def tx_simps)

lemma auth_credentialed:
  "tx_keeps (credentialed secrets pid) (createPrincipal now pid' name)"
  "tx_keeps (credentialed secrets pid) (insertApiKey now kid hash prefix pid')"
  "tx_keeps (credentialed secrets pid) (store_revokeApiKey now kid)"
  "tx_keeps (credentialed secrets pid) (provision_work now pid' provider subject email name)"
  unfolding tx_keeps_def
  using createPrincipal_sound insertApiKey_sound store_revokeApiKey_sound provision_work_sound
  by (auto intro: credentialed_kept simp: credentialed_def [THEN iffD1, THEN conjunct1])

interpretation owners: request_invariant "credentialed secrets pid" "\<lambda>_ _ _. True" for secrets pid
  by unfold_locales
    (rule owner_posting.transfer_work_keeps owner_posting.post_work_keeps account_credentialed claims_credentialed
      owner_posting.on_settle auth_credentialed; assumption)+

section \<open>Any number of requests\<close>

text \<open>Requests served one after the other, each with what it meets.\<close>

type_synonym request = "request_env \<times> route \<times> http_request"

fun serve_all :: "app_options \<Rightarrow> request list \<Rightarrow> app_world \<Rightarrow> http_reply list \<times> app_world" where
  "serve_all opts [] w = ([], w)"
| "serve_all opts ((env, route, req) # requests) w =
    (let (reply, w') = handle opts env route req w;
         (replies, w'') = serve_all opts requests w'
     in (reply # replies, w''))"

text \<open>
  A request draws one of the ids only if it is no transfer, or a transfer sent with one of the
  secrets and with the key.
\<close>

definition draws_for :: "uuid set \<Rightarrow> string set \<Rightarrow> string \<Rightarrow> app_options \<Rightarrow> request \<Rightarrow> bool" where
  "draws_for ids secrets key opts r =
    (case r of (env, route, req) \<Rightarrow>
      route \<noteq> Post_transfer \<or> rv_id env \<notin> ids \<or>
      (\<exists>secret\<in>secrets. extractBearerToken (hq_authorization req) = Some secret \<and>
         (op_verify opts = None \<or> starts_with secret apiKeyTag)) \<and>
      key_of_header (hq_idempotency_key req) = Inr (Some key))"

text \<open>What happens between the statements of a request behaves the same way.\<close>

definition spares :: "uuid set \<Rightarrow> string set \<Rightarrow> uuid \<Rightarrow> string \<Rightarrow> request_env \<Rightarrow> bool" where
  "spares ids secrets pid key env \<longleftrightarrow>
    env_fair (credentialed secrets pid) env \<and> (\<forall>a n. env_fair (once ids (pid, key, ''transfer'') a n) env)"

lemma admitted_draw:
  assumes owner: "credentialed secrets pid (app_db w)" and draw: "draws_for ids secrets key opts (env, Post_transfer, req)"
    and guard: "guard opts env Customer req w = (Inr req', w')" and who: "principalOf req' = Inr pid'"
    and header: "key_of_header (hq_idempotency_key req') = Inr key'"
  shows "may_draw ids (pid, key, ''transfer'') pid' (rv_id env) key'"
proof (cases "rv_id env \<in> ids")
  case True
  with draw obtain secret where secret: "secret \<in> secrets" "extractBearerToken (hq_authorization req) = Some secret"
    "op_verify opts = None \<or> starts_with secret apiKeyTag" and key: "key_of_header (hq_idempotency_key req) = Inr (Some key)"
    by (auto simp: draws_for_def)
  obtain p where p: "resolve_bearer opts env secret w = (Inr p, w')" "req' = req\<lparr>hq_principalId := Some (p_id p)\<rparr>"
    using guard secret(2)
    by (auto simp: guard_def requireApiKey_def io_bind_def io_return_def split: prod.splits sum.splits)
  have "key_opens (op_sha256_hex opts) secret (app_db w) p"
    using resolve_key_owner [OF _ secret(3) p(1)] owner by (simp add: credentialed_def)
  then have "p_id p = pid" by (rule credentialed_owner [OF owner secret(1)])
  with p(2) who header key show ?thesis by (auto simp: may_draw_def principalOf_def split: if_splits)
qed (simp add: may_draw_def split: option.split)

lemma handle_once:
  assumes spares: "spares ids secrets pid key env" and draw: "draws_for ids secrets key opts (env, route, req)"
    and owner: "credentialed secrets pid (app_db w)" and state: "once ids (pid, key, ''transfer'') a n (app_db w)"
  shows "credentialed secrets pid (app_db (snd (handle opts env route req w))) \<and>
    once ids (pid, key, ''transfer'') a n (app_db (snd (handle opts env route req w)))"
proof
  show "credentialed secrets pid (app_db (snd (handle opts env route req w)))"
    by (rule owners.handle_keeps) (use spares owner in \<open>simp_all add: spares_def\<close>)
  show "once ids (pid, key, ''transfer'') a n (app_db (snd (handle opts env route req w)))"
  proof (rule retries.handle_keeps)
    show "env_fair (once ids (pid, key, ''transfer'') a n) env" using spares by (simp add: spares_def)
    show "may_draw ids (pid, key, ''transfer'') pid' (rv_id env) key'"
      if "route = Post_transfer" "guard opts env Customer req w = (Inr req', w')" "principalOf req' = Inr pid'"
        "key_of_header (hq_idempotency_key req') = Inr key'" for req' w' pid' key'
      using admitted_draw [OF owner _ that(2-4)] draw that(1) by simp
  qed (rule state)
qed

lemma serve_all_once:
  "\<forall>r\<in>set requests. spares ids secrets pid key (fst r) \<and> draws_for ids secrets key opts r \<Longrightarrow>
    credentialed secrets pid (app_db w) \<Longrightarrow> once ids (pid, key, ''transfer'') a n (app_db w) \<Longrightarrow>
    once ids (pid, key, ''transfer'') a n (app_db (snd (serve_all opts requests w)))"
proof (induction requests arbitrary: w)
  case (Cons r requests)
  obtain env route req where r: "r = (env, route, req)" by (cases r)
  obtain reply w' where handled: "handle opts env route req w = (reply, w')" by (cases "handle opts env route req w")
  have "credentialed secrets pid (app_db w') \<and> once ids (pid, key, ''transfer'') a n (app_db w')"
    using handle_once [of ids secrets pid key env opts route req w a n] Cons.prems r handled by simp
  with Cons.IH [of w'] Cons.prems(1) r handled show ?case by (simp add: split_beta)
qed simp


end
