(* ===== verification/Retry_Answers.thy ===== *)
theory Retry_Answers
  imports Retry_Safety
begin

text \<open>
  What a client that repeats a keyed transfer is told: the stored answer of the first request,
  whatever that was, or a fresh run when the first one failed for no fault of its own.
\<close>

section \<open>The state of a key\<close>

definition held :: "claim_key \<Rightarrow> string \<Rightarrow> db \<Rightarrow> bool" where
  "held k fp s \<longleftrightarrow> (\<exists>row. claim_of k s = Some row \<and> ir_status row = In_progress \<and> ir_request_fingerprint row = fp)"

definition answered :: "claim_key \<Rightarrow> string \<Rightarrow> nat \<Rightarrow> json \<Rightarrow> db \<Rightarrow> bool" where
  "answered k fp status body s \<longleftrightarrow>
    (\<exists>row. claim_of k s = Some row \<and> ir_status row = Completed \<and> ir_request_fingerprint row = fp \<and>
      ir_response_status_code row = Some status \<and> ir_response_body row = Some body)"

lemma completed_with_answers:
  assumes "claim_of k s = Some row" and "ir_request_fingerprint row = fp" and "body \<noteq> JNull"
    and "claim_of k s' = Some (completed_with now body status row)"
  shows "answered k fp status body s'"
  using assms by (cases body) (auto simp: answered_def completed_with_def json_param_def)

lemma complete_held:
  assumes "held (pid, key, operation) fp s" and "body \<noteq> JNull"
    and "complete now key operation pid body status s = Inr (n, s')"
  shows "answered (pid, key, operation) fp status body s'"
proof -
  from assms(1) obtain row where row: "claim_of (pid, key, operation) s = Some row"
    "ir_status row = In_progress" "ir_request_fingerprint row = fp"
    by (auto simp: held_def)
  then have "unfinished key operation pid row" using claim_of_SomeD by (fastforce simp: unfinished_iff)
  with claim_of_complete [OF assms(3), of "(pid, key, operation)"] row
  have "claim_of (pid, key, operation) s' = Some (completed_with now body status row)" by simp
  with row assms(2) show ?thesis by (intro completed_with_answers)
qed

lemma release_held:
  assumes "held (pid, key, operation) fp s" and "distinct (map row_key (idempotency_records s))"
    and "release key operation pid s = Inr (u, s')"
  shows "claim_of (pid, key, operation) s' = None"
  using assms(1) claim_of_release [OF assms(2,3), of "(pid, key, operation)"] claim_of_SomeD
  by (fastforce simp: held_def unfinished_iff)

lemma settled_key_unchanged:
  assumes "answered (pid, key, operation) fp st b s" and "distinct (map row_key (idempotency_records s))"
    and "settleFailure now key operation pid failure s = Inr (u, s')"
  shows "answered (pid, key, operation) fp st b s'"
proof -
  from assms(1) obtain row where row: "claim_of (pid, key, operation) s = Some row"
    "ir_status row = Completed" by (auto simp: answered_def)
  then have free: "\<not> unfinished key operation pid row" by (simp add: unfinished_iff)
  have "claim_of (pid, key, operation) s' = Some row"
  proof (cases failure)
    case None
    with assms(3) have "release key operation pid s = Inr (u, s')" by (simp add: settleFailure_def)
    from claim_of_release [OF assms(2) this] row free show ?thesis by simp
  next
    case (Some f)
    obtain body status where f: "f = (body, status)" by (cases f)
    with Some assms(3) obtain n where "complete now key operation pid body status s = Inr (n, s')"
      by (auto simp: settleFailure_def tx_simps)
    from claim_of_complete [OF this, of "(pid, key, operation)"] row free show ?thesis by simp
  qed
  with assms(1) row show ?thesis by (auto simp: answered_def)
qed

section \<open>The claim and the command\<close>

text \<open>Nobody takes the key's claim away while the request runs.\<close>

definition undisturbed :: "claim_key \<Rightarrow> request_env \<Rightarrow> bool" where
  "undisturbed k env \<longleftrightarrow>
    (\<forall>i s. claim_of k (at_before (rv_attempts env i) s) = claim_of k s) \<and>
    (\<forall>s. claim_of k (rv_before_settle env s) = claim_of k s) \<and> rv_settle_fault env = None"

abbreviation fingerprint_of :: "app_options \<Rightarrow> json \<Rightarrow> string" where
  "fingerprint_of opts body \<equiv> computeCanonicalFingerprint (op_sha256_hex opts) body"

lemma proceeding_holds:
  assumes inv: "db_inv (app_db w)" and fair: "env_fair db_inv env"
    and idem: "\<forall>i. env_keeps idem_inv (rv_claims env i)"
    and run: "claim_or_replay opts env (Some key) operation pid body w = (Inr None, w1)"
  shows "db_inv (app_db w1) \<and> held (pid, key, operation) (fingerprint_of opts body) (app_db w1)"
proof -
  let ?p = "\<lparr>cp_fingerprint = fingerprint_of opts body, cp_key = key, cp_operation = operation,
      cp_principalId = pid, cp_staleTimeoutMs = default_stale_timeout_ms\<rparr>"
  have "db_inv (app_db w1)"
    using io_keepsD [OF books.claim_or_replay_keeps [OF fair], of w opts "Some key" operation pid body] inv run
    by simp
  moreover obtain c where c: "claim (rv_claims env) ?p (app_db w) = (Inr c, app_db w1)" "cr_action c \<noteq> Replay"
    using run by (auto simp: claim_or_replay_def on_db_def on_transfers_def claimOrReplay_def io_bind_def
        io_return_def io_throw_def Let_def split: prod.splits sum.splits if_splits option.splits)
  moreover have "claim_answered ?p c (app_db w1)"
    using claim_attempts_outcome [where envs = "rv_claims env" and p = ?p, OF _ _ c(1) [unfolded claim_def]] inv idem
    by (simp add: db_inv_def)
  ultimately show ?thesis
    by (cases "cr_action c") (auto simp: claim_answered_def held_def params_key_def)
qed

definition pending_or_posted :: "claim_key \<Rightarrow> string \<Rightarrow> db \<Rightarrow> bool" where
  "pending_or_posted k fp s \<longleftrightarrow>
    db_inv s \<and> (held k fp s \<or> (\<exists>t. answered k fp 201 (transfer_json t) s))"

lemma transfer_json_not_null [simp]: "transfer_json t \<noteq> JNull" "error_json b \<noteq> JNull"
  by (simp_all add: transfer_json_def error_json_def)

lemma transfer_answers:
  assumes state: "pending_or_posted (pid, key, ''transfer'') fp s"
    and amount: "in_money_range (minor amount)"
    and differ: "ct_sourceAccountId input \<noteq> ct_destinationAccountId input"
    and run: "transfer_work outbox now eids evid amount input pid tid (Some key) s = Inr (t, s')"
  shows "db_inv s' \<and> answered (pid, key, ''transfer'') fp 201 (transfer_json t) s'"
proof -
  have inv: "db_inv s" using state by (simp add: pending_or_posted_def)
  from transfer_work_InrD [OF run amount differ db_inv_keys(2,1) [OF inv]] obtain src dst where
    t: "t = transfer_of now amount tid src dst" and
    moved: "transferred outbox now eids evid amount pid tid (Some key) src dst s s'" by blast
  then obtain row where row: "claim_of (pid, key, ''transfer'') s = Some row" "ir_status row = In_progress"
    "claim_of (pid, key, ''transfer'') s' = Some (completed_with now (transfer_json t) 201 row)"
    by (auto simp: transferred_def Let_def claim_settled_def)
  have "ir_request_fingerprint row = fp"
    using state row(1,2) by (auto simp: pending_or_posted_def held_def answered_def)
  with row completed_with_answers tx_keepsD [OF transfer_work_db_inv inv run] show ?thesis by simp
qed

lemma create_answers:
  assumes state: "pending_or_posted (pid, key, ''transfer'') fp (tw_db w)"
    and fair: "\<And>i s. db_inv s \<Longrightarrow> db_inv (at_before (envs i) s)"
    and calm: "\<And>i s. claim_of (pid, key, ''transfer'') (at_before (envs i) s) = claim_of (pid, key, ''transfer'') s"
    and run: "create cfg envs tid startedAt input pid (Some key) w = (r, w')"
  shows "pending_or_posted (pid, key, ''transfer'') fp (tw_db w') \<and>
    (case r of Inl e \<Rightarrow> True | Inr t \<Rightarrow> answered (pid, key, ''transfer'') fp 201 (transfer_json t) (tw_db w'))"
proof (cases "(\<exists>e. fromMinor (StringArg (ct_amountMinor input)) = Inl e) \<or>
    ct_sourceAccountId input = ct_destinationAccountId input")
  case True
  with state run show ?thesis by (auto simp: create_def split: sum.splits if_splits)
next
  case False
  let ?P = "pending_or_posted (pid, key, ''transfer'') fp"
  from False obtain amount where amount: "fromMinor (StringArg (ct_amountMinor input)) = Inr amount"
    by (cases "fromMinor (StringArg (ct_amountMinor input))") auto
  note range = fromMinor_range [OF amount]
  have work: "tx_keeps ?P (transfer_work outbox now eids evid amount input pid tid (Some key))"
    for outbox now eids evid
    unfolding tx_keeps_def
  proof (intro allI impI)
    fix s t s' assume "?P s" "transfer_work outbox now eids evid amount input pid tid (Some key) s = Inr (t, s')"
    from transfer_answers [OF this(1) range _ this(2)] False show "?P s'" by (auto simp: pending_or_posted_def)
  qed
  have before: "?P s \<Longrightarrow> ?P (at_before (envs i) s)" for i s
    using fair [of s i] by (simp add: pending_or_posted_def held_def answered_def calm)
  have loop: "create_attempts cfg envs amount input pid tid (Some key) startedAt 1 (tc_maxAttempts cfg) w = (r, w')"
    using run amount False by (simp add: create_def)
  have reach: "?P (tw_db w') \<and> (\<forall>t. r = Inr t \<longrightarrow> (\<exists>i s0. ?P s0 \<and>
      transfer_work (tc_outbox cfg) (at_now (envs i)) (at_entryIds (envs i)) (at_eventId (envs i))
        amount input pid tid (Some key) s0 = Inr (t, tw_db w')))"
    by (rule create_attempts_reach [where P = ?P and envs = envs, OF _ work state loop]) (rule before)
  show ?thesis
  proof (cases r)
    case (Inl e)
    with reach show ?thesis by simp
  next
    case (Inr t)
    with reach obtain i s0 where "?P s0"
      "transfer_work (tc_outbox cfg) (at_now (envs i)) (at_entryIds (envs i)) (at_eventId (envs i))
        amount input pid tid (Some key) s0 = Inr (t, tw_db w')" by blast
    from transfer_answers [OF this(1) range _ this(2)] False Inr reach show ?thesis by simp
  qed
qed

section \<open>The settlement\<close>

lemma app_db_update [simp]: "app_db (w\<lparr>aw_transfers := (aw_transfers w)\<lparr>tw_db := s\<rparr>\<rparr>) = s"
  by simp

lemma settle_outcome:
  assumes state: "pending_or_posted (pid, key, operation) fp (app_db w)"
    and fair: "env_fair db_inv env" and calm: "undisturbed (pid, key, operation) env"
    and foreign: "\<not> is_idempotency_error e"
    and run: "settle_and_rethrow env rid (Some key) operation pid e w = (r, w1)"
  shows "r = Inl e \<and>
    ((\<exists>t. answered (pid, key, operation) fp 201 (transfer_json t) (app_db w1)) \<or>
     (case replayableFailure e rid of
        Some (b, status) \<Rightarrow> answered (pid, key, operation) fp status (error_json b) (app_db w1)
      | None \<Rightarrow> claim_of (pid, key, operation) (app_db w1) = None))"
proof -
  let ?k = "(pid, key, operation)"
  let ?failure = "map_option (\<lambda>(b, status). (error_json b, status)) (replayableFailure e rid)"
  define s0 where "s0 = rv_before_settle env (app_db w)"
  have s0: "pending_or_posted ?k fp s0"
    using state env_fairD(3) [OF fair] calm
    by (auto simp: s0_def pending_or_posted_def undisturbed_def held_def answered_def)
  then have keys: "distinct (map row_key (idempotency_records s0))"
    by (simp add: pending_or_posted_def db_inv_keys)
  obtain u s1 where settle: "settleFailure (rv_now env) key operation pid ?failure s0 = Inr (u, s1)"
    by (cases ?failure) (auto simp: settleFailure_def tx_simps complete_eq release_def)
  have w1: "r = Inl e" "app_db w1 = s1"
    using run foreign calm settle
    by (auto simp: settle_and_rethrow_def undisturbed_def query_or_fail_def io_catch_def io_bind_def io_apply
        on_db_def on_transfers_def auto_commit_def s0_def [symmetric] Let_def)
  consider "held ?k fp s0" | t where "answered ?k fp 201 (transfer_json t) s0"
    using s0 by (auto simp: pending_or_posted_def)
  then show ?thesis
  proof cases
    case 1
    show ?thesis
    proof (cases "replayableFailure e rid")
      case None
      with settle have "release key operation pid s0 = Inr (u, s1)" by (simp add: settleFailure_def)
      from release_held [OF 1 keys this] None w1 show ?thesis by simp
    next
      case (Some f)
      obtain b status where f: "f = (b, status)" by (cases f)
      with Some settle obtain n where "complete (rv_now env) key operation pid (error_json b) status s0 = Inr (n, s1)"
        by (auto simp: settleFailure_def tx_simps)
      from complete_held [OF 1 _ this] Some f w1 show ?thesis by simp
    qed
  next
    case 2
    from settled_key_unchanged [OF 2 keys settle] w1 show ?thesis by blast
  qed
qed

section \<open>The retry\<close>

text \<open>A request whose claim nobody interferes with.\<close>

definition quiet_claims :: "request_env \<Rightarrow> bool" where
  "quiet_claims env \<longleftrightarrow> (\<exists>ins app upd. rv_claims env = (\<lambda>_. quiet_env ins app upd))"

lemma answered_replays:
  assumes ans: "answered (pid, key, operation) (fingerprint_of opts body) status b (app_db w)"
    and inv: "idem_inv (app_db w)" and quiet: "quiet_claims env"
  shows "claim_or_replay opts env (Some key) operation pid body w =
    (Inr (Some \<lparr>rsp_body = b, rsp_status = Some status\<rparr>), w)"
proof -
  let ?p = "\<lparr>cp_fingerprint = fingerprint_of opts body, cp_key = key, cp_operation = operation,
      cp_principalId = pid, cp_staleTimeoutMs = default_stale_timeout_ms\<rparr>"
  from ans obtain row where row: "claim_of (params_key ?p) (app_db w) = Some row" "ir_status row = Completed"
    "ir_request_fingerprint row = cp_fingerprint ?p" "ir_response_status_code row = Some status"
    "ir_response_body row = Some b"
    by (auto simp: answered_def params_key_def)
  have "row \<in> set (idempotency_records (app_db w))" "row_key row = (pid, key, operation)"
    using claim_of_SomeD [OF row(1)] by (simp_all add: params_key_def)
  then have ok: "key_ok (cp_key ?p)" "operation_ok (cp_operation ?p)"
    using inv by (auto simp: idem_inv_def idem_row_ok_def row_key_def)
  obtain ins app upd where env: "rv_claims env = (\<lambda>_. quiet_env ins app upd)"
    using quiet by (auto simp: quiet_claims_def)
  from claim_completed [OF ok row(1,3,2), of ins app upd] row
  show ?thesis
    by (simp add: claim_or_replay_def on_db_def on_transfers_def claimOrReplay_def env io_bind_def io_return_def
        replay_of_def toResponse_def toRecord_def)
qed

lemma answered_transfer:
  assumes who: "principalOf req = Inr pid" "key_of_header (hq_idempotency_key req) = Inr (Some key)"
    and ans: "answered (pid, key, ''transfer'') (fingerprint_of opts body) status b (app_db w)"
    and inv: "db_inv (app_db w)" and quiet: "quiet_claims env"
  shows "post_transfer opts env rid req body w = (Inr (send_json status b), w)"
  using answered_replays [OF ans _ quiet] inv who
  by (simp add: post_transfer_def io_steps io_bind_def send_replay_def io_return_def db_inv_def io_lift_def)


end
