(* ===== verification/Bank_Refinement.thy ===== *)
theory Bank_Refinement
  imports Service_Runs
begin

text \<open>
  The service refines a bank: an abstract machine of accounts with an owner, a currency and a
  balance, which knows nothing of requests, claims, transactions, retries or events, and has two
  steps - opening an account and posting balanced double entries.
\<close>

section \<open>The bank\<close>

record holder =
  ho_currency :: string
  ho_owner :: "uuid option"
  ho_treasury :: bool
  ho_balance :: int

type_synonym bank = "uuid \<Rightarrow> holder option"

definition credited :: "(uuid \<times> int) list \<Rightarrow> uuid \<Rightarrow> int" where
  "credited es aid = sum_list (map (\<lambda>(a, x). if a = aid then x else 0) es)"

definition posted_to :: "(uuid \<times> int) list \<Rightarrow> bank \<Rightarrow> bank" where
  "posted_to es b = (\<lambda>aid. map_option (\<lambda>h. h\<lparr>ho_balance := ho_balance h + credited es aid\<rparr>) (b aid))"

inductive bank_step :: "bank \<Rightarrow> bank \<Rightarrow> bool" where
  opened: "b aid = None \<Longrightarrow> currency_ok currency \<Longrightarrow>
    bank_step b (b(aid \<mapsto> \<lparr>ho_currency = currency, ho_owner = Some owner, ho_treasury = False, ho_balance = 0\<rparr>))"
| posting: "2 \<le> length es \<Longrightarrow> (\<forall>(aid, x)\<in>set es. x \<noteq> 0) \<Longrightarrow> sum_list (map snd es) = 0 \<Longrightarrow>
    (\<forall>aid\<in>fst ` set es. \<exists>h. b aid = Some h \<and> ho_currency h = currency) \<Longrightarrow>
    (\<forall>aid\<in>fst ` set es. \<forall>h. posted_to es b aid = Some h \<longrightarrow> ho_treasury h \<or> 0 \<le> ho_balance h) \<Longrightarrow>
    bank_step b (posted_to es b)"

inductive_cases bank_stepE: "bank_step b b'"

text \<open>An account is for ever, and its owner, currency and kind never change.\<close>

definition accounts_stay :: "bank \<Rightarrow> bank \<Rightarrow> bool" where
  "accounts_stay b b' \<longleftrightarrow>
    (\<forall>aid h. b aid = Some h \<longrightarrow> (\<exists>h'. b' aid = Some h' \<and> ho_currency h' = ho_currency h \<and>
      ho_owner h' = ho_owner h \<and> ho_treasury h' = ho_treasury h))"

lemma bank_step_stays: "bank_step b b' \<Longrightarrow> accounts_stay b b'"
  by (erule bank_stepE) (auto simp: accounts_stay_def posted_to_def)

lemma bank_run_stays: "bank_step\<^sup>*\<^sup>* b b' \<Longrightarrow> accounts_stay b b'"
proof (induction rule: rtranclp_induct)
  case (step b' b'')
  then show ?case using bank_step_stays [OF step.hyps(2)] unfolding accounts_stay_def by metis
qed (simp add: accounts_stay_def)

section \<open>The abstraction\<close>

definition holder_of :: "account_row \<Rightarrow> holder" where
  "holder_of a = \<lparr>ho_currency = acc_currency a, ho_owner = acc_owner_principal_id a,
    ho_treasury = acc_is_treasury a, ho_balance = acc_balance_minor a\<rparr>"

definition bank_of :: "db \<Rightarrow> bank" where
  "bank_of s aid = map_option holder_of (select_first (\<lambda>a. acc_id a = aid) (accounts s))"

lemma bank_of_Some:
  "distinct (map acc_id (accounts s)) \<Longrightarrow>
    bank_of s aid = Some h \<longleftrightarrow> (\<exists>a\<in>set (accounts s). acc_id a = aid \<and> h = holder_of a)"
  by (auto simp: bank_of_def table_simps)

lemma bank_of_append:
  "acc_id a \<notin> acc_id ` set (accounts s) \<Longrightarrow>
    bank_of (s\<lparr>accounts := accounts s @ [a]\<rparr>) = (bank_of s)(acc_id a \<mapsto> holder_of a)"
proof
  fix aid
  assume fresh: "acc_id a \<notin> acc_id ` set (accounts s)"
  have app: "select_first p (xs @ [x]) = (case select_first p xs of None \<Rightarrow> if p x then Some x else None | Some y \<Rightarrow> Some y)"
    for p and x :: account_row and xs
    unfolding select_first_def by (induction xs) auto
  show "bank_of (s\<lparr>accounts := accounts s @ [a]\<rparr>) aid = ((bank_of s)(acc_id a \<mapsto> holder_of a)) aid"
  proof (cases "aid = acc_id a")
    case True
    with fresh have "select_first (\<lambda>a. acc_id a = aid) (accounts s) = None" by (simp add: table_simps)
    with True show ?thesis by (simp add: bank_of_def app)
  next
    case False
    then show ?thesis by (auto simp: bank_of_def app split: option.split)
  qed
qed

lemma bank_of_update:
  assumes "\<And>a. acc_id (f a) = acc_id a" and "\<And>a. a \<in> set (accounts s) \<Longrightarrow> p a \<Longrightarrow> holder_of (f a) = g (acc_id a) (holder_of a)"
    and "\<And>a. a \<in> set (accounts s) \<Longrightarrow> \<not> p a \<Longrightarrow> g (acc_id a) (holder_of a) = holder_of a"
  shows "bank_of (s\<lparr>accounts := update_where p f (accounts s)\<rparr>) aid = map_option (g aid) (bank_of s aid)"
proof -
  have "map_option holder_of (select_first (\<lambda>a. acc_id a = aid) (update_where p f t)) =
      map_option (g aid) (map_option holder_of (select_first (\<lambda>a. acc_id a = aid) t))"
    if "set t \<subseteq> set (accounts s)" for t
    using that by (induction t) (use assms in \<open>auto simp: update_where_def select_first_def\<close>)
  then show ?thesis by (simp add: bank_of_def)
qed

section \<open>Postings\<close>

definition signed_entries :: "(uuid \<times> direction \<times> int) list \<Rightarrow> (uuid \<times> int) list" where
  "signed_entries es = map (\<lambda>(aid, d, m). (aid, signed_amount d m)) es"

lemma credited_signed: "credited (signed_entries es) aid = entry_delta es aid"
  unfolding credited_def signed_entries_def entry_delta_def by (induction es) auto

lemma fst_signed: "fst ` set (signed_entries es) = fst ` set es"
  by (force simp: signed_entries_def)

lemma posting_refines:
  assumes inv: "db_inv s" and post: "post_ledger_transaction now tid ty ref eids aids ds ms s = Inr (row, s')"
  shows "bank_step (bank_of s) (bank_of s')"
proof -
  let ?es = "zip aids (zip ds ms)"
  let ?se = "signed_entries ?es"
  obtain rows where rows: "rows = map (entry_row now tid (lt_currency row)) (zip eids ?es)"
    and s': "s' = posted_state now row rows ?es s"
    and len: "2 \<le> length eids" "length aids = length eids" "length ds = length eids" "length ms = length eids"
    and pos: "list_all (\<lambda>m. 0 < m) ms" and bal: "debit_total (zip ds ms) = credit_total (zip ds ms)"
    and grounded: "\<forall>r\<in>set rows. entry_grounded (s\<lparr>ledger_transactions := ledger_transactions s @ [row]\<rparr>) r"
    and ok: "\<forall>a\<in>set (accounts s). acc_id a \<in> fst ` set ?es \<longrightarrow>
      in_bigint (acc_balance_minor (post_delta now ?es a)) \<and> account_row_ok (post_delta now ?es a)"
    by (rule post_ledger_transaction_InrD [OF post]) blast
  have keys: "distinct (map acc_id (accounts s))" by (rule db_inv_keys(1) [OF inv])
  have idle: "entry_delta es aid = 0" if "aid \<notin> fst ` set es" for es aid
    unfolding entry_delta_def using that by (intro sum_list_map_zero) force
  have state: "bank_of s' = posted_to ?se (bank_of s)"
  proof
    fix aid
    have "bank_of s' aid = bank_of (s\<lparr>accounts := update_where (\<lambda>a. acc_id a \<in> fst ` set ?es) (post_delta now ?es) (accounts s)\<rparr>) aid"
      by (simp add: s' posted_state_def bank_of_def)
    also have "\<dots> = map_option (\<lambda>h. h\<lparr>ho_balance := ho_balance h + entry_delta ?es aid\<rparr>) (bank_of s aid)"
      by (rule bank_of_update [where g = "\<lambda>aid h. h\<lparr>ho_balance := ho_balance h + entry_delta ?es aid\<rparr>"])
        (simp_all add: post_delta_def holder_of_def idle)
    finally show "bank_of s' aid = posted_to ?se (bank_of s) aid"
      by (simp add: posted_to_def credited_signed)
  qed
  have "bank_step (bank_of s) (posted_to ?se (bank_of s))"
  proof (rule posting)
    show "2 \<le> length ?se" using len by (simp add: signed_entries_def)
    show "\<forall>(aid, x)\<in>set ?se. x \<noteq> 0"
      using pos by (auto simp: signed_entries_def signed_amount_def list_all_iff split: direction.splits dest!: set_zip_rightD)
    have "map snd ?se = map (\<lambda>(d, m). signed_amount d m) (zip ds ms)"
      using len by (intro nth_equalityI) (simp_all add: signed_entries_def)
    then show "sum_list (map snd ?se) = 0" using bal debit_minus_credit [of "zip ds ms"] by simp
    show "\<forall>aid\<in>fst ` set ?se. \<exists>h. bank_of s aid = Some h \<and> ho_currency h = lt_currency row"
    proof
      fix aid assume "aid \<in> fst ` set ?se"
      then obtain d m where "(aid, d, m) \<in> set ?es" by (auto simp: fst_signed)
      then obtain i where i: "i < length ?es" "?es ! i = (aid, d, m)" by (metis in_set_conv_nth)
      with len have "(eids ! i, aid, d, m) \<in> set (zip eids ?es)"
        by (metis in_set_conv_nth length_zip min.idem nth_zip)
      then have "entry_row now tid (lt_currency row) (eids ! i, aid, d, m) \<in> set rows" by (simp add: rows)
      with grounded obtain a where "a \<in> set (accounts s)" "acc_id a = aid" "acc_currency a = lt_currency row"
        by (fastforce simp: entry_grounded_def entry_row_def)
      then show "\<exists>h. bank_of s aid = Some h \<and> ho_currency h = lt_currency row"
        unfolding bank_of_Some [OF keys] by (auto simp: holder_of_def)
    qed
    show "\<forall>aid\<in>fst ` set ?se. \<forall>h. posted_to ?se (bank_of s) aid = Some h \<longrightarrow> ho_treasury h \<or> 0 \<le> ho_balance h"
    proof (intro ballI allI impI)
      fix aid h assume "aid \<in> fst ` set ?se" "posted_to ?se (bank_of s) aid = Some h"
      then obtain a where "a \<in> set (accounts s)" "acc_id a = aid" "aid \<in> fst ` set ?es"
          "h = (holder_of a)\<lparr>ho_balance := acc_balance_minor a + entry_delta ?es aid\<rparr>"
        by (auto simp: posted_to_def credited_signed fst_signed bank_of_Some [OF keys] holder_of_def)
      with ok show "ho_treasury h \<or> 0 \<le> ho_balance h"
        by (auto simp: account_row_ok_def post_delta_def holder_of_def)
    qed
  qed
  with state show ?thesis by simp
qed

lemma opening_refines:
  assumes "createAccount now aid currency owner s = Inr (a, s')"
  shows "bank_step (bank_of s) (bank_of s')"
proof -
  let ?row = "new_account_row now aid currency owner"
  have s': "s' = s\<lparr>accounts := accounts s @ [?row]\<rparr>" and fresh: "aid \<notin> acc_id ` set (accounts s)"
    and cur: "currency_ok currency"
    using assms by (auto simp: createAccount_def tx_simps)
  have row: "acc_id ?row = aid" "holder_of ?row = \<lparr>ho_currency = currency, ho_owner = Some owner, ho_treasury = False, ho_balance = 0\<rparr>"
    by (simp_all add: new_account_row_def holder_of_def)
  have "bank_of s aid = None" using fresh by (simp add: bank_of_def table_simps)
  from opened [where b = "bank_of s" and aid = aid and owner = owner, OF this cur] show ?thesis
    unfolding s' using bank_of_append [of ?row s] fresh row by simp
qed

section \<open>Every step of the service is a run of the bank\<close>

definition reached :: "bank \<Rightarrow> db \<Rightarrow> bool" where
  "reached b s \<longleftrightarrow> db_inv s \<and> bank_step\<^sup>*\<^sup>* b (bank_of s)"

lemma reached_same: "reached b s \<Longrightarrow> db_inv s' \<Longrightarrow> accounts s' = accounts s \<Longrightarrow> reached b s'"
  by (simp add: reached_def bank_of_def [abs_def])

lemma reached_tx_same:
  assumes "tx_keeps db_inv m" and "\<And>s x s'. m s = Inr (x, s') \<Longrightarrow> accounts s' = accounts s"
  shows "tx_keeps (reached b) m"
  unfolding tx_keeps_def
proof (intro allI impI)
  fix s x s' assume r: "reached b s" and run: "m s = Inr (x, s')"
  then have "db_inv s" by (simp add: reached_def)
  with r show "reached b s'" using tx_keepsD [OF assms(1) _ run] assms(2) [OF run] by (simp add: reached_same)
qed

lemma reached_tx_step:
  assumes "tx_keeps db_inv m" and "\<And>s x s'. db_inv s \<Longrightarrow> m s = Inr (x, s') \<Longrightarrow> bank_step (bank_of s) (bank_of s')"
  shows "tx_keeps (reached b) m"
  unfolding tx_keeps_def
proof (intro allI impI)
  fix s x s' assume r: "reached b s" and run: "m s = Inr (x, s')"
  then have inv: "db_inv s" by (simp add: reached_def)
  have "bank_step\<^sup>*\<^sup>* b (bank_of s')"
    by (rule rtranclp.rtrancl_into_rtrancl [where b = "bank_of s"])
      (use r assms(2) [OF inv run] in \<open>simp_all add: reached_def\<close>)
  with tx_keepsD [OF assms(1) inv run] show "reached b s'" by (simp add: reached_def)
qed

interpretation bank_posting: transfer_posting "reached b" for b
proof unfold_locales
  show "tx_keeps (reached b) (post_ledger_transaction now tid ty ref eids aids ds ms)" for now tid ty ref eids aids ds ms
    by (rule reached_tx_step [OF books_posting.on_ledger]) (rule posting_refines)
  show "tx_keeps (reached b) (outbox_insert now eid e)" for now eid e
    by (rule reached_tx_same [OF books_posting.on_event]) (auto dest: outbox_insert_InrD)
  show "tx_keeps (reached b) (complete now key operation pid body st)" for now key operation pid body st
    by (rule reached_tx_same [OF books_posting.on_settle]) (auto simp: complete_eq)
  show "tx_keeps (reached b) (insert_transfer r)" for r
    by (rule reached_tx_same [OF books_posting.on_transfer_row]) (auto dest: insert_transfer_InrD)
qed

lemma reached_statements:
  "tx_keeps (reached b) (createAccount now aid currency owner)"
  "tx_keeps (reached b) (insert_claim now p)" "tx_keeps (reached b) (reclaim now p threshold)"
  "tx_keeps (reached b) (release key operation pid)"
  "tx_keeps (reached b) (createPrincipal now pid name)"
  "tx_keeps (reached b) (insertApiKey now kid hash prefix pid)"
  "tx_keeps (reached b) (store_revokeApiKey now kid)"
  "tx_keeps (reached b) (provision_work now pid provider subject email name)"
  "tx_keeps (reached b) (claim_work now lease locked n)" "tx_keeps (reached b) (markProcessed now eid)"
  "tx_keeps (reached b) (markFailed eid msg a)" "tx_keeps (reached b) (consume_work now eid i)"
  "(\<And>r. p' r \<Longrightarrow> parked r) \<Longrightarrow> tx_keeps (reached b) (replay_where p')"
             apply (rule reached_tx_step [OF createAccount_db_inv], erule opening_refines)
            apply (rule reached_tx_same [OF records_db_inv(1)], drule records_only, force)
           apply (rule reached_tx_same [OF records_db_inv(2)], drule records_only, force)
          apply (rule reached_tx_same [OF records_db_inv(3)], drule records_only, force)
         apply (rule reached_tx_same [OF createPrincipal_db_inv], fastforce dest: createPrincipal_InrD)
        apply (rule reached_tx_same [OF keys_db_inv(1)], fastforce dest: insertApiKey_InrD)
       apply (rule reached_tx_same [OF keys_db_inv(2)], fastforce simp: store_revokeApiKey_eq)
      apply (rule reached_tx_same [OF provision_db_inv], fastforce elim: provision_work_InrD)
     apply (rule reached_tx_same [OF events_db_inv(1)], drule events_only, force)
    apply (rule reached_tx_same [OF events_db_inv(2)], drule events_only, force)
   apply (rule reached_tx_same [OF events_db_inv(3)], drule events_only, force)
  apply (rule reached_tx_same [OF consume_db_inv], drule audit_effects_only, force)
  apply (rule reached_tx_same [OF replay_db_inv], assumption, drule events_only, force)
  done

lemma reached_purges:
  assumes "reached b s"
  shows "purgeCompletedBefore cutoff n s = Some (k, s') \<Longrightarrow> reached b s'"
    and "purgeProcessedBefore cutoff limit s = Some (k, s') \<Longrightarrow> reached b s'"
proof -
  have inv: "db_inv s" using assms by (simp add: reached_def)
  show "reached b s'" if run: "purgeCompletedBefore cutoff n s = Some (k, s')"
    by (rule reached_same [OF assms purge_claims_db_inv [OF inv run]])
      (use run in \<open>auto simp: purgeCompletedBefore_def\<close>)
  show "reached b s'" if run: "purgeProcessedBefore cutoff limit s = Some (k, s')"
    by (rule reached_same [OF assms purge_events_db_inv [OF inv run]])
      (use run in \<open>auto simp: purgeProcessedBefore_def store_purgeProcessedBefore_def\<close>)
qed

interpretation banking: service_invariant "reached b" "\<lambda>_ _ _. True" for b
  by unfold_locales
    (rule bank_posting.transfer_work_keeps bank_posting.post_work_keeps bank_posting.on_settle reached_statements
      reached_purges; assumption)+

text \<open>
  C3.  The service refines the bank.  Whatever requests, polls, replays and purges take a sound
  database from one state to another, with any failures and interference, the bank of the second
  is reached from that of the first by opening accounts and posting balanced entries in one
  currency that overdraw no customer; so no account is ever lost, or changes hands or currency.
\<close>

theorem service_refines_the_bank:
  assumes "service_run opts s s'" and "db_inv s"
  shows "bank_step\<^sup>*\<^sup>* (bank_of s) (bank_of s') \<and> accounts_stay (bank_of s) (bank_of s')"
proof -
  have "reached (bank_of s) s" using assms(2) by (simp add: reached_def)
  then have "reached (bank_of s) s'" by (rule banking.run_keeps [OF TrueI assms(1)])
  then show ?thesis by (simp add: reached_def bank_run_stays)
qed

end
