(* ===== verification/Append_Only.thy ===== *)
theory Append_Only
  imports Bank_Refinement "HOL-Library.Sublist"
begin

text \<open>
  The history is append-only.  No statement of the service changes or deletes a row of the ledger's
  transactions, of the journal, of the transfers, of the consumer inbox or of the audit effects -
  which is what the triggers of migrations/002, 003 and 008 enforce - so no request, poll, replay
  or purge does, and the movement of a balance is the sum of the entries that were appended.
\<close>

section \<open>One state's history is the beginning of another's\<close>

definition history_grows :: "db \<Rightarrow> db \<Rightarrow> bool" where
  "history_grows s s' \<longleftrightarrow>
    prefix (ledger_transactions s) (ledger_transactions s') \<and>
    prefix (journal_entries s) (journal_entries s') \<and> prefix (transfers s) (transfers s') \<and>
    prefix (consumer_inbox s) (consumer_inbox s') \<and> prefix (audit_effects s) (audit_effects s')"

lemma history_refl: "history_grows s s"
  by (simp add: history_grows_def)

lemma history_frame [simp]:
  "history_grows s (t\<lparr>accounts := x1\<rparr>) = history_grows s t"
  "history_grows s (t\<lparr>idempotency_records := x2\<rparr>) = history_grows s t"
  "history_grows s (t\<lparr>outbox_events := x3\<rparr>) = history_grows s t"
  "history_grows s (t\<lparr>principals := x4\<rparr>) = history_grows s t"
  "history_grows s (t\<lparr>api_keys := x5\<rparr>) = history_grows s t"
  "history_grows s (t\<lparr>principal_identities := x6\<rparr>) = history_grows s t"
  by (simp_all add: history_grows_def)

interpretation history_posting: transfer_posting "history_grows s0" for s0
proof unfold_locales
  fix now tid ty ref eids aids ds ms
  show "tx_keeps (history_grows s0) (post_ledger_transaction now tid ty ref eids aids ds ms)"
    unfolding tx_keeps_def
  proof (intro allI impI)
    fix s row s' assume grows: "history_grows s0 s"
      and post: "post_ledger_transaction now tid ty ref eids aids ds ms s = Inr (row, s')"
    obtain rows where "s' = posted_state now row rows (zip aids (zip ds ms)) s"
      by (rule post_ledger_transaction_InrD [OF post]) blast
    with grows show "history_grows s0 s'" by (simp add: posted_state_def history_grows_def)
  qed
qed (auto simp: tx_keeps_def complete_eq history_grows_def dest!: insert_transfer_InrD outbox_insert_InrD)

lemma history_statements:
  "tx_keeps (history_grows s0) (insert_claim now p)" "tx_keeps (history_grows s0) (reclaim now p threshold)"
  "tx_keeps (history_grows s0) (complete now key operation pid b st)"
  "tx_keeps (history_grows s0) (release key operation pid)"
  "tx_keeps (history_grows s0) (claim_work now lease locked n)"
  "tx_keeps (history_grows s0) (markProcessed now eid)" "tx_keeps (history_grows s0) (markFailed eid msg a)"
  "tx_keeps (history_grows s0) (replay_where q)"
  "tx_keeps (history_grows s0) (createAccount now aid currency owner)"
  "tx_keeps (history_grows s0) (createPrincipal now pid name)"
  "tx_keeps (history_grows s0) (insertApiKey now kid hash prefix' pid)"
  "tx_keeps (history_grows s0) (store_revokeApiKey now kid)"
  by (auto simp: tx_keeps_def complete_eq createAccount_def tx_simps store_revokeApiKey_eq
      dest!: records_only events_only createPrincipal_InrD insertApiKey_InrD)

lemma history_provision: "tx_keeps (history_grows s0) (provision_work now pid provider subject email name)"
  unfolding tx_keeps_def by (auto elim!: provision_work_InrD)

lemma history_consume: "tx_keeps (history_grows s0) (consume_work now eid i)"
  unfolding tx_keeps_def by (auto dest!: consume_work_InrD simp: history_grows_def split: if_splits)

lemma history_purges:
  "history_grows s0 s \<Longrightarrow> purgeCompletedBefore cutoff n s = Some (k, s') \<Longrightarrow> history_grows s0 s'"
  "history_grows s0 s \<Longrightarrow> purgeProcessedBefore cutoff limit s = Some (k, s') \<Longrightarrow> history_grows s0 s'"
  by (auto simp: purgeCompletedBefore_def purgeProcessedBefore_def store_purgeProcessedBefore_def)

interpretation history: service_invariant "history_grows s0" "\<lambda>_ _ _. True" for s0
  by unfold_locales
    (rule history_posting.transfer_work_keeps history_posting.post_work_keeps history_statements
      history_provision history_consume history_purges; assumption)+

section \<open>Balances move by the entries that are appended\<close>

lemma balance_of_account:
  assumes "db_inv s" "a \<in> set (accounts s)"
  shows "acc_balance_minor a = journal_balance (journal_entries s) (acc_id a)"
  using assms by (simp add: db_inv_def ledger_inv_def account_sound_def)

lemma account_kept:
  assumes "service_run opts s s'" "db_inv s" "a \<in> set (accounts s)"
  obtains a' where "a' \<in> set (accounts s')" "acc_id a' = acc_id a"
proof -
  have "reached (bank_of s) s" using assms(2) by (simp add: reached_def)
  then have r: "reached (bank_of s) s'" by (rule banking.run_keeps [OF TrueI assms(1)])
  then have stays: "accounts_stay (bank_of s) (bank_of s')" by (simp add: reached_def bank_run_stays)
  have "bank_of s (acc_id a) = Some (holder_of a)"
    using assms(3) bank_of_Some [OF db_inv_keys(1) [OF assms(2)]] by blast
  with stays obtain h where "bank_of s' (acc_id a) = Some h" unfolding accounts_stay_def by blast
  with bank_of_Some [OF db_inv_keys(1)] r that show ?thesis unfolding reached_def by blast
qed

text \<open>
  C4.  The books are append-only.  Whatever requests, polls, replays and purges take a sound database
  from one state to another, with any failures and interference, every transaction, journal entry,
  transfer, consumed event and audit effect of the first state is in the second, unchanged and in its
  place; no account is lost; and every balance has moved by exactly the sum of the entries appended.
\<close>

theorem history_is_append_only:
  assumes "service_run opts s s'" and "db_inv s"
  shows "history_grows s s' \<and>
    (\<exists>new. journal_entries s' = journal_entries s @ new \<and>
      (\<forall>a\<in>set (accounts s). \<exists>a'\<in>set (accounts s'). acc_id a' = acc_id a \<and>
        acc_balance_minor a' = acc_balance_minor a + journal_balance new (acc_id a)))"
proof -
  have grows: "history_grows s s'" by (rule history.run_keeps [OF TrueI assms(1) history_refl])
  then obtain new where new: "journal_entries s' = journal_entries s @ new"
    by (auto simp: history_grows_def prefix_def)
  have inv: "db_inv s'" by (rule books.run_keeps [OF TrueI assms])
  have "\<exists>a'\<in>set (accounts s'). acc_id a' = acc_id a \<and>
      acc_balance_minor a' = acc_balance_minor a + journal_balance new (acc_id a)"
    if a: "a \<in> set (accounts s)" for a
  proof -
    obtain a' where a': "a' \<in> set (accounts s')" "acc_id a' = acc_id a" by (rule account_kept [OF assms a])
    have "acc_balance_minor a' = acc_balance_minor a + journal_balance new (acc_id a)"
      using balance_of_account [OF inv a'(1)] balance_of_account [OF assms(2) a] a'(2)
      by (simp add: new journal_balance_append)
    with a' show ?thesis by blast
  qed
  with grows new show ?thesis by blast
qed

end
