(* ===== verification/Js_Number.thy ===== *)
theory Js_Number
  imports Http "HOL-Library.Log_Nat"
begin

text \<open>
  JavaScript's \<open>Number(text)\<close>, which reads the environment and the command lines: the grammar of
  numeric literals in a text and the double the exact value is rounded to.
\<close>

section \<open>Doubles\<close>

datatype js_number = Finite rat | Infinite bool | Not_a_number

definition pow2 :: "int \<Rightarrow> rat" where
  "pow2 k = (if 0 \<le> k then 2 ^ nat k else 1 / 2 ^ nat (- k))"

text \<open>The exponent of a positive value: \<open>2 ^ k\<close> is the largest power of two not above it.\<close>

definition log2_floor :: "rat \<Rightarrow> int" where
  "log2_floor x =
    (case quotient_of x of (n, d) \<Rightarrow>
      let k = int (floorlog 2 (nat n)) - int (floorlog 2 (nat d)) in
      if pow2 k \<le> x then k else k - 1)"

definition round_even :: "rat \<Rightarrow> int" where
  "round_even x =
    (let f = \<lfloor>x\<rfloor>; r = x - of_int f in
     if r < 1 / 2 \<or> (r = 1 / 2 \<and> even f) then f else f + 1)"

text \<open>Round to nearest, ties to even, with 53 bits; too large a value is an infinity.\<close>

definition double_of :: "rat \<Rightarrow> js_number" where
  "double_of x =
    (if x = 0 then Finite 0
     else
       (let u = pow2 (max (log2_floor \<bar>x\<bar> - 52) (- 1074));
            r = of_int (round_even (\<bar>x\<bar> / u)) * u
        in if pow2 1024 \<le> r then Infinite (x < 0) else Finite (sgn x * r)))"

section \<open>Numeric literals\<close>

definition pow10 :: "int \<Rightarrow> rat" where
  "pow10 k = (if 0 \<le> k then 10 ^ nat k else 1 / 10 ^ nat (- k))"

text \<open>A sign and what follows it.\<close>

definition split_sign :: "string \<Rightarrow> bool \<times> string" where
  "split_sign s =
    (case s of
       c # cs \<Rightarrow> if c = CHR ''-'' then (True, cs) else if c = CHR ''+'' then (False, cs) else (False, s)
     | [] \<Rightarrow> (False, []))"

text \<open>Nothing, or \<open>e\<close> with a signed run of digits.\<close>

definition exponent_part :: "string \<Rightarrow> int option" where
  "exponent_part s =
    (case s of
       [] \<Rightarrow> Some 0
     | c # cs \<Rightarrow>
         (case split_sign cs of (negative, ds) \<Rightarrow>
            if (c = CHR ''e'' \<or> c = CHR ''E'') \<and> ds \<noteq> [] \<and> list_all is_digit ds
            then Some (if negative then - int (digits_value ds) else int (digits_value ds))
            else None))"

definition unsigned_decimal :: "string \<Rightarrow> rat option" where
  "unsigned_decimal s =
    (let whole = takeWhile is_digit s; rest = dropWhile is_digit s;
         point = starts_with rest ''.'';
         frac = (if point then takeWhile is_digit (tl rest) else []);
         rest' = (if point then dropWhile is_digit (tl rest) else rest)
     in if whole = [] \<and> frac = [] then None
        else map_option (\<lambda>e. of_nat (digits_value (whole @ frac)) * pow10 (e - int (length frac)))
               (exponent_part rest'))"

definition radix_digit :: "char \<Rightarrow> nat option" where
  "radix_digit c =
    (if is_digit c then Some (digit_value c)
     else if CHR ''a'' \<le> c \<and> c \<le> CHR ''f'' then Some (of_char c - 87)
     else if CHR ''A'' \<le> c \<and> c \<le> CHR ''F'' then Some (of_char c - 55)
     else None)"

definition radix_literal :: "nat \<Rightarrow> string \<Rightarrow> nat option" where
  "radix_literal base s =
    (if s \<noteq> [] \<and> list_all (\<lambda>c. case radix_digit c of None \<Rightarrow> False | Some d \<Rightarrow> d < base) s
     then Some (foldl (\<lambda>n c. base * n + the (radix_digit c)) 0 s) else None)"

definition number_of_radix :: "nat \<Rightarrow> string \<Rightarrow> js_number" where
  "number_of_radix base s =
    (case radix_literal base s of None \<Rightarrow> Not_a_number | Some n \<Rightarrow> double_of (of_nat n))"

text \<open>A literal with a radix takes no sign; white space around the text is ignored; nothing is 0.\<close>

definition js_Number :: "string \<Rightarrow> js_number" where
  "js_Number s =
    (let t = js_trim s; prefix = take 2 t in
     if t = [] then Finite 0
     else if prefix = ''0x'' \<or> prefix = ''0X'' then number_of_radix 16 (drop 2 t)
     else if prefix = ''0o'' \<or> prefix = ''0O'' then number_of_radix 8 (drop 2 t)
     else if prefix = ''0b'' \<or> prefix = ''0B'' then number_of_radix 2 (drop 2 t)
     else
       (case split_sign t of (negative, u) \<Rightarrow>
          if u = ''Infinity'' then Infinite negative
          else
            (case unsigned_decimal u of
               None \<Rightarrow> Not_a_number
             | Some x \<Rightarrow> double_of (if negative then - x else x))))"

text \<open>\<open>Number.isInteger(value) && value >= 1\<close>, with the value.\<close>

definition positive_integer :: "js_number \<Rightarrow> nat option" where
  "positive_integer v =
    (case v of
       Finite q \<Rightarrow> if of_int \<lfloor>q\<rfloor> = q \<and> 1 \<le> q then Some (nat \<lfloor>q\<rfloor>) else None
     | _ \<Rightarrow> None)"

section \<open>Decimal texts of whole numbers\<close>

lemma round_even_int: "round_even (of_int i) = i"
  by (simp add: round_even_def)

lemma log2_floor_nat:
  assumes "0 < n" "n < 2 ^ 53"
  shows "log2_floor (of_nat n) \<le> 52"
proof -
  have q: "quotient_of (of_nat n) = (int n, 1)"
    using quotient_of_int [of "int n"] by (simp add: Rat.of_int_def)
  have "floorlog 2 n \<le> 53"
    using assms by (simp add: floorlog_le_iff)
  moreover have "floorlog 2 1 = 1" by (simp add: floorlog_def)
  ultimately show ?thesis by (simp add: log2_floor_def q Let_def)
qed

lemma double_of_nat:
  assumes "n < 2 ^ 53"
  shows "double_of (of_nat n) = Finite (of_nat n)"
proof (cases "n = 0")
  case False
  let ?e = "max (log2_floor (of_nat n) - 52) (- 1074)"
  have e: "?e \<le> 0" using log2_floor_nat [of n] False assms by simp
  then have u: "pow2 ?e = 1 / 2 ^ nat (- ?e)" by (cases "?e = 0") (simp_all add: pow2_def)
  have scaled: "of_nat n / pow2 ?e = of_int (int n * 2 ^ nat (- ?e))" by (simp add: u)
  have "of_int (round_even (of_nat n / pow2 ?e)) * pow2 ?e = of_nat n"
    unfolding scaled round_even_int by (simp add: u)
  moreover have "of_nat n < pow2 1024"
  proof -
    have "n < 2 ^ 1024" using assms less_le_trans power_increasing [of 53 1024 "2::nat"] by fastforce
    then have "(of_nat n :: rat) < of_nat (2 ^ 1024)" by (rule of_nat_less_iff [THEN iffD2])
    then show ?thesis by (simp add: pow2_def)
  qed
  ultimately show ?thesis using False by (simp add: double_of_def Let_def)
qed (simp add: double_of_def)

text \<open>The text of a number has no white space, sign, point or exponent: it is read as the number.\<close>

lemma digit_no_space: "is_digit c \<Longrightarrow> \<not> js_space (of_char c)"
  by (auto simp: is_digit_def less_eq_char_def js_space_def)

lemma digits_not_special:
  "is_digit c \<Longrightarrow> c \<noteq> CHR ''-'' \<and> c \<noteq> CHR ''+'' \<and> c \<noteq> CHR ''x'' \<and> c \<noteq> CHR ''X'' \<and> c \<noteq> CHR ''o'' \<and>
    c \<noteq> CHR ''O'' \<and> c \<noteq> CHR ''b'' \<and> c \<noteq> CHR ''B'' \<and> c \<noteq> CHR ''I''"
  by (auto simp: is_digit_def less_eq_char_def)

lemma js_trim_id:
  assumes "s \<noteq> []" and "\<not> js_space (of_char (hd s))" and "\<not> js_space (of_char (last s))"
  shows "js_trim s = s"
proof -
  have same: "dropWhile p t = t" if "t \<noteq> []" "\<not> p (hd t)" for p :: "char \<Rightarrow> bool" and t
    using that by (cases t) simp_all
  show ?thesis
    using assms by (simp add: js_trim_def same hd_rev)
qed

lemma nat_text_trim: "js_trim (nat_text n) = nat_text n"
proof -
  have "\<forall>c\<in>set (nat_text n). is_digit c" using nat_text_digits [of n] by (simp add: list_all_iff)
  then have "is_digit (hd (nat_text n))" "is_digit (last (nat_text n))" by simp_all
  then show ?thesis by (intro js_trim_id nat_text_not_Nil digit_no_space)
qed

lemma nat_text_prefix: "take 2 (nat_text n) \<notin> {''0x'', ''0X'', ''0o'', ''0O'', ''0b'', ''0B''}"
proof
  assume "take 2 (nat_text n) \<in> {''0x'', ''0X'', ''0o'', ''0O'', ''0b'', ''0B''}"
  then have "\<exists>c\<in>set (take 2 (nat_text n)). c \<in> {CHR ''x'', CHR ''X'', CHR ''o'', CHR ''O'', CHR ''b'', CHR ''B''}"
    by (elim insertE emptyE) simp_all
  then obtain c where c: "c \<in> set (take 2 (nat_text n))"
    "c \<in> {CHR ''x'', CHR ''X'', CHR ''o'', CHR ''O'', CHR ''b'', CHR ''B''}"
    by blast
  have "is_digit c" using c(1) in_set_takeD nat_text_digits [of n] by (fastforce simp: list_all_iff)
  from digits_not_special [OF this] c(2) show False by simp
qed

lemma nat_text_hd: "is_digit (hd (nat_text n))"
  using nat_text_digits [of n] by (simp add: list_all_iff)

lemma nat_text_sign: "split_sign (nat_text n) = (False, nat_text n)"
  using nat_text_hd [of n] digits_not_special [of "hd (nat_text n)"] by (cases "nat_text n") (auto simp: split_sign_def)

lemma js_Number_nat_text:
  assumes "n < 2 ^ 53"
  shows "js_Number (nat_text n) = Finite (of_nat n)"
proof -
  let ?t = "nat_text n"
  have digits: "\<forall>c\<in>set ?t. is_digit c" using nat_text_digits [of n] by (simp add: list_all_iff)
  have all: "takeWhile is_digit ?t = ?t" "dropWhile is_digit ?t = []" using digits by auto
  have "?t \<noteq> ''Infinity''"
    using nat_text_hd [of n] digits_not_special [of "hd ?t"] by auto
  moreover have "unsigned_decimal ?t = Some (of_nat n)"
    by (simp add: unsigned_decimal_def all starts_with_def exponent_part_def pow10_def)
  ultimately show ?thesis
    using nat_text_prefix [of n] by (simp add: js_Number_def nat_text_trim Let_def nat_text_sign double_of_nat [OF assms])
qed

lemma positive_integer_text: "n < 2 ^ 53 \<Longrightarrow> positive_integer (js_Number (nat_text n)) = (if n = 0 then None else Some n)"
  by (simp add: js_Number_nat_text positive_integer_def)

lemma positive_integer_ge: "positive_integer v = Some n \<Longrightarrow> 1 \<le> n"
  by (auto simp: positive_integer_def le_floor_iff nat_le_iff split: js_number.splits if_splits)

end
