(* ===== verification/Config.thy ===== *)
theory Config
  imports Js_Number Outbox
begin

text \<open>
  src/config.ts: what the environment variables must be for the service to start, in the order
  they are read, and the configuration it then runs with.
\<close>

type_synonym environment = "string \<Rightarrow> string option"

record OutboxConfig =
  oc_batchSize :: nat
  oc_claimLeaseSeconds :: nat
  oc_maxAttempts :: nat
  oc_pollIntervalMs :: nat

record RequestLimitsConfig =
  rl_bodyLimitBytes :: nat
  rl_connectionTimeoutMs :: nat
  rl_keepAliveTimeoutMs :: nat
  rl_requestTimeoutMs :: nat

record AppConfig =
  cf_adminApiKey :: string
  cf_databaseUrl :: string
  cf_firebaseProjectId :: "string option"
  cf_host :: string
  cf_logLevel :: string
  cf_nodeEnv :: string
  cf_outbox :: OutboxConfig
  cf_port :: nat
  cf_requestLimits :: RequestLimitsConfig

definition validNodeEnvironments :: "string list" where
  "validNodeEnvironments = [''development'', ''test'', ''production'']"

definition validLogLevels :: "string list" where
  "validLogLevels = [''fatal'', ''error'', ''warn'', ''info'', ''debug'', ''trace'', ''silent'']"

definition minimumAdminApiKeyLength :: nat where
  "minimumAdminApiKeyLength = 16"

text \<open>Throwing, or going on with a value.\<close>

definition and_then :: "'e + 'a \<Rightarrow> ('a \<Rightarrow> 'e + 'b) \<Rightarrow> 'e + 'b" where
  "and_then r k = (case r of Inl e \<Rightarrow> Inl e | Inr a \<Rightarrow> k a)"

definition throw_unless :: "bool \<Rightarrow> string \<Rightarrow> js_error + unit" where
  "throw_unless b msg = (if b then Inr () else Inl (PlainError msg))"

definition or_default :: "string option \<Rightarrow> string \<Rightarrow> string" where
  "or_default v d = (case v of None \<Rightarrow> d | Some s \<Rightarrow> s)"

definition readPort :: "string option \<Rightarrow> js_error + nat" where
  "readPort raw =
    (case positive_integer (js_Number (or_default raw ''3000'')) of
       Some n \<Rightarrow>
         if n \<le> 65535 then Inr n else Inl (PlainError ''PORT must be an integer between 1 and 65535'')
     | None \<Rightarrow> Inl (PlainError ''PORT must be an integer between 1 and 65535''))"

definition readPositiveInt :: "string option \<Rightarrow> nat \<Rightarrow> string \<Rightarrow> js_error + nat" where
  "readPositiveInt raw fallback name =
    (case raw of
       None \<Rightarrow> Inr fallback
     | Some s \<Rightarrow>
         (case positive_integer (js_Number s) of
            Some n \<Rightarrow> Inr n
          | None \<Rightarrow> Inl (PlainError (name @ '' must be a positive integer''))))"

text \<open>\<open>/^[a-z][a-z0-9-]{4,28}[a-z0-9]$/\<close>\<close>

definition is_lower :: "char \<Rightarrow> bool" where
  "is_lower c \<longleftrightarrow> CHR ''a'' \<le> c \<and> c \<le> CHR ''z''"

definition is_project_id :: "string \<Rightarrow> bool" where
  "is_project_id s \<longleftrightarrow>
    6 \<le> length s \<and> length s \<le> 30 \<and> is_lower (hd s) \<and>
    list_all (\<lambda>c. is_lower c \<or> is_digit c \<or> c = CHR ''-'') (butlast (tl s)) \<and>
    (is_lower (last s) \<or> is_digit (last s))"

text \<open>\<open>environment.FIREBASE_PROJECT_ID?.trim() || null\<close>\<close>

definition trimmed_or_null :: "string option \<Rightarrow> string option" where
  "trimmed_or_null v =
    (case v of None \<Rightarrow> None | Some s \<Rightarrow> if js_trim s = [] then None else Some (js_trim s))"

definition required :: "string option \<Rightarrow> (string \<Rightarrow> bool) \<Rightarrow> string \<Rightarrow> js_error + string" where
  "required v ok msg =
    (case v of
       None \<Rightarrow> Inl (PlainError msg)
     | Some s \<Rightarrow> if s = [] \<or> \<not> ok s then Inl (PlainError msg) else Inr s)"

definition loadConfig :: "environment \<Rightarrow> js_error + AppConfig" where
  "loadConfig environment =
    and_then (required (environment ''DATABASE_URL'') (\<lambda>_. True) ''DATABASE_URL is required'') (\<lambda>databaseUrl.
    and_then (required (environment ''ADMIN_API_KEY'') (\<lambda>s. minimumAdminApiKeyLength \<le> length s)
      (''ADMIN_API_KEY is required and must be at least '' @ nat_text minimumAdminApiKeyLength @ '' characters''))
      (\<lambda>adminApiKey.
    let nodeEnv = or_default (environment ''NODE_ENV'') ''development'' in
    and_then (throw_unless (nodeEnv \<in> set validNodeEnvironments)
      ''NODE_ENV must be development, test, or production'') (\<lambda>_.
    let logLevel = or_default (environment ''LOG_LEVEL'') ''info'' in
    and_then (throw_unless (logLevel \<in> set validLogLevels) ''LOG_LEVEL is invalid'') (\<lambda>_.
    and_then (readPositiveInt (environment ''OUTBOX_BATCH_SIZE'') 10 ''OUTBOX_BATCH_SIZE'') (\<lambda>batchSize.
    and_then (readPositiveInt (environment ''OUTBOX_CLAIM_LEASE_SECONDS'') 300 ''OUTBOX_CLAIM_LEASE_SECONDS'')
      (\<lambda>claimLeaseSeconds.
    and_then (readPositiveInt (environment ''OUTBOX_MAX_ATTEMPTS'') 12 ''OUTBOX_MAX_ATTEMPTS'') (\<lambda>maxAttempts.
    and_then (readPositiveInt (environment ''OUTBOX_POLL_INTERVAL_MS'') 1000 ''OUTBOX_POLL_INTERVAL_MS'')
      (\<lambda>pollIntervalMs.
    and_then (readPositiveInt (environment ''REQUEST_BODY_LIMIT_BYTES'') (16 * 1024) ''REQUEST_BODY_LIMIT_BYTES'')
      (\<lambda>bodyLimitBytes.
    and_then (readPositiveInt (environment ''CONNECTION_TIMEOUT_MS'') 10000 ''CONNECTION_TIMEOUT_MS'')
      (\<lambda>connectionTimeoutMs.
    and_then (readPositiveInt (environment ''KEEP_ALIVE_TIMEOUT_MS'') 5000 ''KEEP_ALIVE_TIMEOUT_MS'')
      (\<lambda>keepAliveTimeoutMs.
    and_then (readPositiveInt (environment ''REQUEST_TIMEOUT_MS'') 30000 ''REQUEST_TIMEOUT_MS'')
      (\<lambda>requestTimeoutMs.
    let firebaseProjectId = trimmed_or_null (environment ''FIREBASE_PROJECT_ID'') in
    and_then (throw_unless (case firebaseProjectId of None \<Rightarrow> True | Some s \<Rightarrow> is_project_id s)
      ''FIREBASE_PROJECT_ID is not a valid Firebase project ID'') (\<lambda>_.
    and_then (readPort (environment ''PORT'')) (\<lambda>port.
    Inr \<lparr>cf_adminApiKey = adminApiKey, cf_databaseUrl = databaseUrl, cf_firebaseProjectId = firebaseProjectId,
      cf_host = or_default (environment ''HOST'') ''0.0.0.0'', cf_logLevel = logLevel, cf_nodeEnv = nodeEnv,
      cf_outbox = \<lparr>oc_batchSize = batchSize, oc_claimLeaseSeconds = claimLeaseSeconds,
        oc_maxAttempts = maxAttempts, oc_pollIntervalMs = pollIntervalMs\<rparr>,
      cf_port = port,
      cf_requestLimits = \<lparr>rl_bodyLimitBytes = bodyLimitBytes, rl_connectionTimeoutMs = connectionTimeoutMs,
        rl_keepAliveTimeoutMs = keepAliveTimeoutMs, rl_requestTimeoutMs = requestTimeoutMs\<rparr>\<rparr>))))))))))))))"

text \<open>What app.ts assumes when it is built without limits.\<close>

definition defaultRequestLimits :: RequestLimitsConfig where
  "defaultRequestLimits =
    \<lparr>rl_bodyLimitBytes = 16 * 1024, rl_connectionTimeoutMs = 10000, rl_keepAliveTimeoutMs = 5000,
     rl_requestTimeoutMs = 30000\<rparr>"

section \<open>What a loaded configuration is\<close>

lemma and_then_Inr: "and_then r k = Inr b \<longleftrightarrow> (\<exists>a. r = Inr a \<and> k a = Inr b)"
  by (auto simp: and_then_def split: sum.split)

lemma and_then_Inl: "and_then r k = Inl e \<longleftrightarrow> r = Inl e \<or> (\<exists>a. r = Inr a \<and> k a = Inl e)"
  by (auto simp: and_then_def split: sum.split)

lemma throw_unless_Inr: "throw_unless b msg = Inr u \<longleftrightarrow> b"
  by (simp add: throw_unless_def)

lemma required_Inr: "required v ok msg = Inr s \<longleftrightarrow> v = Some s \<and> s \<noteq> [] \<and> ok s"
  by (auto simp: required_def split: option.splits)

lemma readPort_Inr: "readPort raw = Inr n \<Longrightarrow> 1 \<le> n \<and> n \<le> 65535"
  by (auto simp: readPort_def dest: positive_integer_ge split: option.splits if_splits)

lemma readPositiveInt_Inr: "readPositiveInt raw fallback name = Inr n \<Longrightarrow> 1 \<le> fallback \<Longrightarrow> 1 \<le> n"
  by (auto simp: readPositiveInt_def dest: positive_integer_ge split: option.splits)

text \<open>The positive settings, each with its variable and its default.\<close>

definition settings :: "AppConfig \<Rightarrow> (string \<times> nat \<times> nat) list" where
  "settings c =
    [(''OUTBOX_BATCH_SIZE'', 10, oc_batchSize (cf_outbox c)),
     (''OUTBOX_CLAIM_LEASE_SECONDS'', 300, oc_claimLeaseSeconds (cf_outbox c)),
     (''OUTBOX_MAX_ATTEMPTS'', 12, oc_maxAttempts (cf_outbox c)),
     (''OUTBOX_POLL_INTERVAL_MS'', 1000, oc_pollIntervalMs (cf_outbox c)),
     (''REQUEST_BODY_LIMIT_BYTES'', 16384, rl_bodyLimitBytes (cf_requestLimits c)),
     (''CONNECTION_TIMEOUT_MS'', 10000, rl_connectionTimeoutMs (cf_requestLimits c)),
     (''KEEP_ALIVE_TIMEOUT_MS'', 5000, rl_keepAliveTimeoutMs (cf_requestLimits c)),
     (''REQUEST_TIMEOUT_MS'', 30000, rl_requestTimeoutMs (cf_requestLimits c))]"

text \<open>A variable that is not set gives the default, the decimal text of a number that number.\<close>

definition reads_as :: "string option \<Rightarrow> nat \<Rightarrow> nat \<Rightarrow> bool" where
  "reads_as raw fallback n \<longleftrightarrow>
    1 \<le> n \<and> (raw = None \<longrightarrow> n = fallback) \<and> (\<forall>k < 2 ^ 53. raw = Some (nat_text k) \<longrightarrow> n = k)"

lemma readPositiveInt_reads:
  "readPositiveInt raw fallback name = Inr n \<Longrightarrow> 1 \<le> fallback \<Longrightarrow> reads_as raw fallback n"
  by (auto simp: reads_as_def readPositiveInt_def positive_integer_text dest: positive_integer_ge
      split: option.splits if_splits)

lemma readPort_reads: "readPort raw = Inr n \<Longrightarrow> reads_as raw 3000 n \<and> n \<le> 65535"
proof -
  assume run: "readPort raw = Inr n"
  have "''3000'' = nat_text 3000" by code_simp
  then show ?thesis
    using run by (auto simp: reads_as_def readPort_def or_default_def positive_integer_text
        dest: positive_integer_ge split: option.splits if_splits)
qed

lemma project_id_text:
  assumes "is_project_id pid"
  shows "6 \<le> length pid \<and> length pid \<le> 30 \<and> (\<forall>ch\<in>set pid. is_lower ch \<or> is_digit ch \<or> ch = CHR ''-'')"
proof -
  have "ch = hd pid \<or> ch \<in> set (butlast (tl pid)) \<or> ch = last pid" if "ch \<in> set pid" for ch
  proof -
    have "pid = hd pid # butlast (tl pid) @ [last pid]"
      using assms by (cases pid) (auto simp: is_project_id_def)
    with that show ?thesis by (metis Un_iff empty_iff insert_iff list.set(1,2) set_append)
  qed
  with assms show ?thesis by (auto simp: is_project_id_def list_all_iff)
qed

text \<open>
  C34.  The service starts only with a usable configuration.  The administrator's key has at least
  16 characters, so the admin guard is never open; the port is a port; every size, count, lease
  and timeout is at least 1, is the documented default when its variable is not set and the
  number the variable holds when that is a decimal text; the project id spliced into the token
  issuer has lower-case letters, digits and hyphens only.
\<close>

theorem loaded_config_is_usable:
  assumes "loadConfig environment = Inr c"
  shows "environment ''ADMIN_API_KEY'' = Some (cf_adminApiKey c) \<and> 16 \<le> length (cf_adminApiKey c) \<and>
    environment ''DATABASE_URL'' = Some (cf_databaseUrl c) \<and> cf_databaseUrl c \<noteq> [] \<and>
    (\<forall>(name, fallback, n) \<in> set (settings c). reads_as (environment name) fallback n) \<and>
    reads_as (environment ''PORT'') 3000 (cf_port c) \<and> cf_port c \<le> 65535 \<and>
    (case cf_firebaseProjectId c of
       None \<Rightarrow> True
     | Some pid \<Rightarrow> 6 \<le> length pid \<and> length pid \<le> 30 \<and>
         (\<forall>ch\<in>set pid. is_lower ch \<or> is_digit ch \<or> ch = CHR ''-''))"
proof -
  note steps = assms [unfolded loadConfig_def Let_def and_then_Inr throw_unless_Inr required_Inr]
  have reads: "readPositiveInt (environment ''OUTBOX_BATCH_SIZE'') 10 ''OUTBOX_BATCH_SIZE'' = Inr (oc_batchSize (cf_outbox c)) \<and>
    readPositiveInt (environment ''OUTBOX_CLAIM_LEASE_SECONDS'') 300 ''OUTBOX_CLAIM_LEASE_SECONDS'' =
      Inr (oc_claimLeaseSeconds (cf_outbox c)) \<and>
    readPositiveInt (environment ''OUTBOX_MAX_ATTEMPTS'') 12 ''OUTBOX_MAX_ATTEMPTS'' = Inr (oc_maxAttempts (cf_outbox c)) \<and>
    readPositiveInt (environment ''OUTBOX_POLL_INTERVAL_MS'') 1000 ''OUTBOX_POLL_INTERVAL_MS'' =
      Inr (oc_pollIntervalMs (cf_outbox c)) \<and>
    readPositiveInt (environment ''REQUEST_BODY_LIMIT_BYTES'') (16 * 1024) ''REQUEST_BODY_LIMIT_BYTES'' =
      Inr (rl_bodyLimitBytes (cf_requestLimits c)) \<and>
    readPositiveInt (environment ''CONNECTION_TIMEOUT_MS'') 10000 ''CONNECTION_TIMEOUT_MS'' =
      Inr (rl_connectionTimeoutMs (cf_requestLimits c)) \<and>
    readPositiveInt (environment ''KEEP_ALIVE_TIMEOUT_MS'') 5000 ''KEEP_ALIVE_TIMEOUT_MS'' =
      Inr (rl_keepAliveTimeoutMs (cf_requestLimits c)) \<and>
    readPositiveInt (environment ''REQUEST_TIMEOUT_MS'') 30000 ''REQUEST_TIMEOUT_MS'' =
      Inr (rl_requestTimeoutMs (cf_requestLimits c))"
    using steps by (elim exE conjE) (drule sum.inject(2) [THEN iffD1], hypsubst, simp)
  have texts: "environment ''ADMIN_API_KEY'' = Some (cf_adminApiKey c) \<and> minimumAdminApiKeyLength \<le> length (cf_adminApiKey c) \<and>
    environment ''DATABASE_URL'' = Some (cf_databaseUrl c) \<and> cf_databaseUrl c \<noteq> [] \<and>
    readPort (environment ''PORT'') = Inr (cf_port c) \<and>
    (case cf_firebaseProjectId c of None \<Rightarrow> True | Some s \<Rightarrow> is_project_id s)"
    using steps by (elim exE conjE) (drule sum.inject(2) [THEN iffD1], hypsubst, simp)
  have "\<forall>(name, fallback, n) \<in> set (settings c). reads_as (environment name) fallback n"
    using reads readPositiveInt_reads by (fastforce simp: settings_def)
  moreover have "6 \<le> length pid \<and> length pid \<le> 30 \<and> (\<forall>ch\<in>set pid. is_lower ch \<or> is_digit ch \<or> ch = CHR ''-'')"
    if "cf_firebaseProjectId c = Some pid" for pid
    by (rule project_id_text) (use texts that in simp)
  ultimately show ?thesis
    using texts readPort_reads [of "environment ''PORT''" "cf_port c"]
    by (auto simp: minimumAdminApiKeyLength_def split: option.split)
qed

text \<open>An environment the service starts with.\<close>

definition sample_environment :: environment where
  "sample_environment name =
    (if name = ''DATABASE_URL'' then Some ''postgres://db''
     else if name = ''ADMIN_API_KEY'' then Some (replicate 16 (CHR ''k''))
     else if name = ''OUTBOX_BATCH_SIZE'' then Some (nat_text 25)
     else if name = ''PORT'' then Some (nat_text 8080) else None)"

lemma sample_environment_loads: "\<exists>c. loadConfig sample_environment = Inr c \<and> cf_firebaseProjectId c = None"
proof -
  have texts: "readPositiveInt (Some (nat_text 25)) 10 name = Inr 25" for name
    by (simp add: readPositiveInt_def positive_integer_text)
  have port: "readPort (Some (nat_text 8080)) = Inr 8080"
    by (simp add: readPort_def or_default_def positive_integer_text)
  show ?thesis
    by (simp add: loadConfig_def sample_environment_def and_then_def required_def throw_unless_def or_default_def
        validNodeEnvironments_def validLogLevels_def minimumAdminApiKeyLength_def texts port trimmed_or_null_def
        readPositiveInt_def [of None])
qed

lemma loaded_config_is_usable_witness:
  "\<exists>c. loadConfig sample_environment = Inr c \<and> oc_batchSize (cf_outbox c) = 25 \<and> cf_port c = 8080 \<and>
    oc_maxAttempts (cf_outbox c) = 12 \<and> cf_firebaseProjectId c = None"
proof -
  obtain c where c: "loadConfig sample_environment = Inr c" "cf_firebaseProjectId c = None"
    using sample_environment_loads by blast
  from loaded_config_is_usable [OF c(1)] c show ?thesis
    by (auto simp: settings_def sample_environment_def reads_as_def)
qed

text \<open>The limits assumed are those of an environment that names none.\<close>

lemma default_limits_agree:
  assumes "loadConfig environment = Inr cfg" and "environment ''REQUEST_BODY_LIMIT_BYTES'' = None"
    and "environment ''CONNECTION_TIMEOUT_MS'' = None" and "environment ''KEEP_ALIVE_TIMEOUT_MS'' = None"
    and "environment ''REQUEST_TIMEOUT_MS'' = None"
  shows "cf_requestLimits cfg = defaultRequestLimits"
  using assms
  by (auto simp: loadConfig_def Let_def and_then_Inr readPositiveInt_def defaultRequestLimits_def)

end
