(* ===== verification/Server.thy ===== *)
theory Server
  imports Outbox_Worker Config App
begin

text \<open>
  src/server.ts and src/infrastructure/database/pool.ts: how the process is wired, how it starts and
  how it stops.  From the moment its signal handlers are in place the process is a step relation:
  \<open>listen\<close> settles, signals arrive, the worker's timer and polls go on, and each shutdown resumes
  when what it awaits has settled.  Fastify and the pool are third-party code: whether and when
  \<open>listen\<close>, \<open>close\<close> and \<open>end\<close> settle, and with what, is left open.
\<close>

section \<open>The pool\<close>

record pool_settings =
  ps_connectionString :: string
  ps_max :: nat
  ps_connectionTimeoutMillis :: nat
  ps_idleTimeoutMillis :: nat

definition createPool :: "string \<Rightarrow> pool_settings" where
  "createPool databaseUrl =
    \<lparr>ps_connectionString = databaseUrl, ps_max = 10, ps_connectionTimeoutMillis = 5000,
     ps_idleTimeoutMillis = 30000\<rparr>"

section \<open>Wiring\<close>

text \<open>
  jose's \<open>jwtVerify\<close> with Google's keys at a time in milliseconds, the validator, the hash and the
  codecs are the third parties'.  An empty project id is falsy: no verifier.
\<close>

definition server_options ::
    "AppConfig \<Rightarrow> (int \<Rightarrow> jwt_options \<Rightarrow> string \<Rightarrow> jose_error + jwt_payload) \<Rightarrow> validator \<Rightarrow> (string \<Rightarrow> string)
      \<Rightarrow> (nat list \<Rightarrow> nat list) \<Rightarrow> cursor_codec \<Rightarrow> app_options" where
  "server_options cfg jwtVerify ajv sha256_hex nfc codec =
    \<lparr>op_adminApiKey = cf_adminApiKey cfg,
     op_verify =
       (case cf_firebaseProjectId cfg of
          None \<Rightarrow> None
        | Some projectId \<Rightarrow> 
            if projectId = [] then None
            else Some (\<lambda>now. verifyFirebaseToken (jwtVerify now) projectId defaultClockToleranceSeconds now)),
     op_outbox = True, op_ajv = ajv, op_sha256_hex = sha256_hex, op_nfc = nfc, op_codec = codec\<rparr>"

definition server_poll :: "AppConfig \<Rightarrow> (OutboxRecord \<Rightarrow> 'h db_io) \<Rightarrow> poll_env \<Rightarrow> db \<Rightarrow> worker_telemetry list \<times> db" where
  "server_poll cfg handler =
    (let outbox = cf_outbox cfg in
     poll (int (oc_claimLeaseSeconds outbox)) (oc_batchSize outbox) (oc_maxAttempts outbox) handler)"

section \<open>The process\<close>

datatype signal = SIGINT | SIGTERM

datatype startup = Listen_pending | Serving | Closing_pool | Failed_start

text \<open>
  A shutdown awaits the worker (the poll \<open>stop\<close> found in flight), then the app, then the pool.
\<close>

datatype shutdown_stage = Stopping_worker "nat option" | Closing_app | Ending_pool | Shut_down

datatype server_line =
    Signal_received signal
  | Worker_line worker_telemetry
  | Start_failed js_error
  | Idle_client_dropped js_error

record server =
  sv_startup :: startup
  sv_worker :: worker
  sv_signals :: "signal set"
  sv_shutdowns :: "shutdown_stage list"
  sv_pool_ends :: nat
  sv_log :: "server_line list"
  sv_exitCode :: "nat option"
  sv_crashed :: bool

definition new_server :: server where
  "new_server =
    \<lparr>sv_startup = Listen_pending, sv_worker = new_worker, sv_signals = {}, sv_shutdowns = [],
     sv_pool_ends = 0, sv_log = [], sv_exitCode = None, sv_crashed = False\<rparr>"

definition listening :: "server \<Rightarrow> server" where
  "listening sv = sv\<lparr>sv_startup := Serving, sv_worker := start (sv_worker sv)\<rparr>"

definition listen_failed :: "js_error \<Rightarrow> server \<Rightarrow> server" where
  "listen_failed e sv =
    sv\<lparr>sv_startup := Closing_pool, sv_log := sv_log sv @ [Start_failed e], sv_pool_ends := sv_pool_ends sv + 1\<rparr>"

text \<open>\<open>shutdown\<close> up to its first \<open>await\<close>; \<open>once\<close> unregisters the signal's handler.\<close>

definition shutdown :: "signal \<Rightarrow> server \<Rightarrow> server" where
  "shutdown sg sv =
    (case stop (sv_worker sv) of (worker, lines, awaited) \<Rightarrow>
       sv\<lparr>sv_signals := insert sg (sv_signals sv), sv_worker := worker,
          sv_log := sv_log sv @ Signal_received sg # map Worker_line lines,
          sv_shutdowns := sv_shutdowns sv @ [Stopping_worker awaited]\<rparr>)"

text \<open>The poll a shutdown awaits has settled when it is no longer the one in flight.\<close>

definition worker_stopped :: "nat option \<Rightarrow> server \<Rightarrow> bool" where
  "worker_stopped awaited sv \<longleftrightarrow> awaited = None \<or> wk_inFlight (sv_worker sv) \<noteq> awaited"

definition at_stage :: "nat \<Rightarrow> shutdown_stage \<Rightarrow> server \<Rightarrow> server" where
  "at_stage i stage sv = sv\<lparr>sv_shutdowns := (sv_shutdowns sv)[i := stage]\<rparr>"

datatype server_label =
    Listening
  | Listen_failed js_error
  | Signal signal
  | Worker worker_label
  | Idle_error js_error
  | Failed_pool_ended
  | Worker_stopped nat
  | App_closed nat
  | Pool_ended nat
  | Rejected

text \<open>
  A rejection nobody handles ends the process: an \<open>await\<close> of the failed start at the top level, or a
  shutdown's, which the handlers \<open>void\<close>.
\<close>

definition awaiting :: "server \<Rightarrow> bool" where
  "awaiting sv \<longleftrightarrow> sv_startup sv = Closing_pool \<or> Closing_app \<in> set (sv_shutdowns sv) \<or>
    Ending_pool \<in> set (sv_shutdowns sv)"

inductive server_step :: "server \<Rightarrow> server_label \<Rightarrow> server \<Rightarrow> bool" where
  sv_listening: "\<not> sv_crashed sv \<Longrightarrow> sv_startup sv = Listen_pending \<Longrightarrow> server_step sv Listening (listening sv)"
| sv_listen_failed: "\<not> sv_crashed sv \<Longrightarrow> sv_startup sv = Listen_pending \<Longrightarrow>
    server_step sv (Listen_failed e) (listen_failed e sv)"
| sv_signal: "\<not> sv_crashed sv \<Longrightarrow> sg \<notin> sv_signals sv \<Longrightarrow> server_step sv (Signal sg) (shutdown sg sv)"
| sv_timer: "\<not> sv_crashed sv \<Longrightarrow> wk_timer (sv_worker sv) \<Longrightarrow>
    server_step sv (Worker Timer_fires) (sv\<lparr>sv_worker := timer_fires (sv_worker sv)\<rparr>)"
| sv_settles: "\<not> sv_crashed sv \<Longrightarrow> wk_inFlight (sv_worker sv) \<noteq> None \<Longrightarrow>
    server_step sv (Worker Poll_settles) (sv\<lparr>sv_worker := poll_settles (sv_worker sv)\<rparr>)"
| sv_idle: "\<not> sv_crashed sv \<Longrightarrow>
    server_step sv (Idle_error e) (sv\<lparr>sv_log := sv_log sv @ [Idle_client_dropped e]\<rparr>)"
| sv_failed: "\<not> sv_crashed sv \<Longrightarrow> sv_startup sv = Closing_pool \<Longrightarrow>
    server_step sv Failed_pool_ended (sv\<lparr>sv_startup := Failed_start, sv_exitCode := Some 1\<rparr>)"
| sv_stopped: "\<not> sv_crashed sv \<Longrightarrow> i < length (sv_shutdowns sv) \<Longrightarrow>
    sv_shutdowns sv ! i = Stopping_worker awaited \<Longrightarrow> worker_stopped awaited sv \<Longrightarrow>
    server_step sv (Worker_stopped i) (at_stage i Closing_app sv)"
| sv_closed: "\<not> sv_crashed sv \<Longrightarrow> i < length (sv_shutdowns sv) \<Longrightarrow> sv_shutdowns sv ! i = Closing_app \<Longrightarrow>
    server_step sv (App_closed i) ((at_stage i Ending_pool sv)\<lparr>sv_pool_ends := sv_pool_ends sv + 1\<rparr>)"
| sv_ended: "\<not> sv_crashed sv \<Longrightarrow> i < length (sv_shutdowns sv) \<Longrightarrow> sv_shutdowns sv ! i = Ending_pool \<Longrightarrow>
    server_step sv (Pool_ended i) (at_stage i Shut_down sv)"
| sv_rejected: "\<not> sv_crashed sv \<Longrightarrow> awaiting sv \<Longrightarrow> server_step sv Rejected (sv\<lparr>sv_crashed := True\<rparr>)"

text \<open>The step as a function.\<close>

definition stage_at :: "server \<Rightarrow> nat \<Rightarrow> shutdown_stage option" where
  "stage_at sv i = (if i < length (sv_shutdowns sv) then Some (sv_shutdowns sv ! i) else None)"

fun server_next :: "server_label \<Rightarrow> server \<Rightarrow> server option" where
  "server_next Listening sv = (if sv_startup sv = Listen_pending then Some (listening sv) else None)"
| "server_next (Listen_failed e) sv = (if sv_startup sv = Listen_pending then Some (listen_failed e sv) else None)"
| "server_next (Signal sg) sv = (if sg \<in> sv_signals sv then None else Some (shutdown sg sv))"
| "server_next (Worker Timer_fires) sv =
    (if wk_timer (sv_worker sv) then Some (sv\<lparr>sv_worker := timer_fires (sv_worker sv)\<rparr>) else None)"
| "server_next (Worker Poll_settles) sv =
    (if wk_inFlight (sv_worker sv) = None then None else Some (sv\<lparr>sv_worker := poll_settles (sv_worker sv)\<rparr>))"
| "server_next (Worker _) sv = None"
| "server_next (Idle_error e) sv = Some (sv\<lparr>sv_log := sv_log sv @ [Idle_client_dropped e]\<rparr>)"
| "server_next Failed_pool_ended sv =
    (if sv_startup sv = Closing_pool then Some (sv\<lparr>sv_startup := Failed_start, sv_exitCode := Some 1\<rparr>) else None)"
| "server_next (Worker_stopped i) sv =
    (case stage_at sv i of
       Some (Stopping_worker awaited) \<Rightarrow> if worker_stopped awaited sv then Some (at_stage i Closing_app sv) else None
     | _ \<Rightarrow> None)"
| "server_next (App_closed i) sv =
    (case stage_at sv i of
       Some Closing_app \<Rightarrow> Some ((at_stage i Ending_pool sv)\<lparr>sv_pool_ends := sv_pool_ends sv + 1\<rparr>)
     | _ \<Rightarrow> None)"
| "server_next (Pool_ended i) sv =
    (case stage_at sv i of Some Ending_pool \<Rightarrow> Some (at_stage i Shut_down sv) | _ \<Rightarrow> None)"
| "server_next Rejected sv = (if awaiting sv then Some (sv\<lparr>sv_crashed := True\<rparr>) else None)"

lemma server_next_step: "\<not> sv_crashed sv \<Longrightarrow> server_next l sv = Some sv' \<Longrightarrow> server_step sv l sv'"
  by (induction l sv rule: server_next.induct)
    (auto simp: stage_at_def simp del: One_nat_def intro!: server_step.intros split: if_splits option.splits shutdown_stage.splits)

lemma server_step_next: "server_step sv l sv' \<Longrightarrow> \<not> sv_crashed sv \<and> server_next l sv = Some sv'"
  by (induction rule: server_step.induct) (auto simp: stage_at_def)

fun server_exec :: "server_label list \<Rightarrow> server \<Rightarrow> server option" where
  "server_exec [] sv = Some sv"
| "server_exec (l # ls) sv =
    (if sv_crashed sv then None else case server_next l sv of None \<Rightarrow> None | Some sv' \<Rightarrow> server_exec ls sv')"

inductive server_run :: "server \<Rightarrow> server_label list \<Rightarrow> server \<Rightarrow> bool" where
  sv_nil: "server_run sv [] sv"
| sv_cons: "server_step sv l sv' \<Longrightarrow> server_run sv' ls sv'' \<Longrightarrow> server_run sv (l # ls) sv''"

inductive_cases server_stepE: "server_step sv l sv'"
inductive_simps server_run_simps: "server_run sv [] sv''" "server_run sv (l # ls) sv''"

lemma server_exec_run: "server_exec ls sv = Some sv' \<Longrightarrow> server_run sv ls sv'"
proof (induction ls arbitrary: sv)
  case (Cons l ls)
  then show ?case by (auto split: if_splits option.splits intro: sv_cons server_next_step)
qed (simp add: sv_nil)

text \<open>No signal arrives while \<open>listen\<close> is pending.\<close>

fun listen_first :: "server_label list \<Rightarrow> bool" where
  "listen_first [] = True"
| "listen_first (l # ls) =
    (case l of Listening \<Rightarrow> True | Listen_failed e \<Rightarrow> True | Signal sg \<Rightarrow> False | _ \<Rightarrow> listen_first ls)"

section \<open>What a shutdown waits for\<close>

definition worker_quiet :: "worker \<Rightarrow> bool" where
  "worker_quiet w \<longleftrightarrow> \<not> wk_running w \<and> \<not> wk_timer w"

lemma quiet_steps [simp]:
  "worker_quiet (fst (stop w))" "worker_quiet w \<Longrightarrow> worker_quiet (poll_settles w)"
  "worker_quiet w \<Longrightarrow> \<not> wk_timer w" "worker_quiet new_worker"
  by (simp_all add: worker_quiet_def stop_def poll_settles_def schedulePoll_def new_worker_def)

text \<open>What a shutdown at a stage knows of the worker.\<close>

fun stage_ok :: "worker \<Rightarrow> shutdown_stage \<Rightarrow> bool" where
  "stage_ok w (Stopping_worker awaited) = (wk_inFlight w = None \<or> wk_inFlight w = awaited)"
| "stage_ok w _ = (wk_inFlight w = None)"

definition past_app :: "shutdown_stage \<Rightarrow> bool" where
  "past_app stage \<longleftrightarrow> stage \<in> {Ending_pool, Shut_down}"

text \<open>Once \<open>listen\<close> has settled.\<close>

definition shutdown_inv :: "server \<Rightarrow> bool" where
  "shutdown_inv sv \<longleftrightarrow> sv_startup sv \<noteq> Listen_pending \<and>
    (sv_startup sv \<noteq> Serving \<longrightarrow> worker_quiet (sv_worker sv) \<and> wk_inFlight (sv_worker sv) = None) \<and>
    (sv_shutdowns sv \<noteq> [] \<longrightarrow> worker_quiet (sv_worker sv)) \<and>
    (\<forall>stage\<in>set (sv_shutdowns sv). stage_ok (sv_worker sv) stage) \<and>
    (sv_pool_ends sv \<noteq> 0 \<longrightarrow> sv_startup sv \<noteq> Serving \<or> (\<exists>stage\<in>set (sv_shutdowns sv). past_app stage))"

lemma stages_settled: "\<forall>stage\<in>set stages. stage_ok w stage \<Longrightarrow> \<forall>stage\<in>set stages. stage_ok (poll_settles w) stage"
  if "worker_quiet w" for w
proof
  fix stage assume all: "\<forall>stage\<in>set stages. stage_ok w stage" and "stage \<in> set stages"
  have "wk_inFlight (poll_settles w) = None"
    using that by (simp add: poll_settles_def schedulePoll_def worker_quiet_def)
  then show "stage_ok (poll_settles w) stage" by (cases stage) auto
qed

lemma stop_inFlight: "stop w = (w', lines, awaited) \<Longrightarrow> wk_inFlight w' = wk_inFlight w \<and> awaited = wk_inFlight w \<and> worker_quiet w'"
  by (auto simp: stop_def worker_quiet_def)

lemma stage_ok_same: "wk_inFlight w' = wk_inFlight w \<Longrightarrow> stage_ok w' stage = stage_ok w stage"
  by (cases stage) auto

lemma set_list_update_cases: "x \<in> set (xs[i := y]) \<Longrightarrow> x = y \<or> x \<in> set xs"
  using set_update_subset_insert [of xs i y] by blast

lemma stage_update:
  assumes "\<forall>s\<in>set stages. stage_ok w s" "stage_ok w stage"
  shows "\<forall>s\<in>set (stages[i := stage]). stage_ok w s"
  using assms by (auto dest: set_list_update_cases)

lemma past_app_update:
  assumes "\<exists>s\<in>set stages. past_app s" "i < length stages" "past_app stage \<or> \<not> past_app (stages ! i)"
  shows "\<exists>s\<in>set (stages[i := stage]). past_app s"
proof -
  from assms(1) obtain j where j: "j < length stages" "past_app (stages ! j)" by (auto simp: in_set_conv_nth)
  show ?thesis
  proof (cases "i = j")
    case True
    with assms j show ?thesis by (auto simp: set_update_memI intro!: bexI [of _ stage])
  next
    case False
    with j show ?thesis by (metis length_list_update nth_list_update_neq nth_mem)
  qed
qed

lemma shutdown_step_inv: "server_step sv l sv' \<Longrightarrow> shutdown_inv sv \<Longrightarrow> shutdown_inv sv'"
proof (induction rule: server_step.induct)
  case (sv_signal sv sg)
  obtain w' lines awaited where st: "stop (sv_worker sv) = (w', lines, awaited)" by (cases "stop (sv_worker sv)")
  note w' = stop_inFlight [OF st]
  have after: "shutdown sg sv = sv\<lparr>sv_signals := insert sg (sv_signals sv), sv_worker := w',
      sv_log := sv_log sv @ Signal_received sg # map Worker_line lines,
      sv_shutdowns := sv_shutdowns sv @ [Stopping_worker awaited]\<rparr>"
    by (simp add: shutdown_def st)
  have "stage_ok w' stage = stage_ok (sv_worker sv) stage" for stage by (rule stage_ok_same) (use w' in simp)
  with w' sv_signal.prems show ?case unfolding shutdown_inv_def after by auto
next
  case (sv_timer sv)
  then show ?case by (auto simp: shutdown_inv_def dest: quiet_steps(3))
next
  case (sv_settles sv)
  let ?w = "sv_worker sv"
  have quiet: "sv_startup sv \<noteq> Serving \<or> sv_shutdowns sv \<noteq> [] \<Longrightarrow> worker_quiet ?w"
    and stages: "\<forall>s\<in>set (sv_shutdowns sv). stage_ok ?w s"
    using sv_settles.prems by (auto simp: shutdown_inv_def)
  have settled: "worker_quiet ?w \<Longrightarrow> wk_inFlight (poll_settles ?w) = None"
    by (simp add: poll_settles_def schedulePoll_def worker_quiet_def)
  have "\<forall>s\<in>set (sv_shutdowns sv). stage_ok (poll_settles ?w) s"
    using stages_settled [OF quiet stages] by (cases "sv_shutdowns sv = []") auto
  with quiet settled sv_settles.prems show ?case by (auto simp: shutdown_inv_def)
next
  case (sv_stopped sv i awaited)
  have ok: "\<forall>s\<in>set (sv_shutdowns sv). stage_ok (sv_worker sv) s" using sv_stopped.prems by (simp add: shutdown_inv_def)
  have "sv_shutdowns sv ! i \<in> set (sv_shutdowns sv)" by (rule nth_mem) (rule sv_stopped.hyps)
  with ok sv_stopped.hyps have "stage_ok (sv_worker sv) Closing_app" by (fastforce simp: worker_stopped_def)
  note updated = stage_update [OF ok this] past_app_update [where i = i and stage = Closing_app and stages = "sv_shutdowns sv"]
  show ?case
    using sv_stopped.prems sv_stopped.hyps updated by (auto simp: shutdown_inv_def at_stage_def past_app_def)
next
  case (sv_closed sv i)
  have ok: "\<forall>s\<in>set (sv_shutdowns sv). stage_ok (sv_worker sv) s" using sv_closed.prems by (simp add: shutdown_inv_def)
  have "sv_shutdowns sv ! i \<in> set (sv_shutdowns sv)" by (rule nth_mem) (rule sv_closed.hyps)
  with ok sv_closed.hyps have "stage_ok (sv_worker sv) Ending_pool" by fastforce
  note updated = stage_update [OF ok this]
  have "Ending_pool \<in> set ((sv_shutdowns sv)[i := Ending_pool])" using sv_closed.hyps by (simp add: set_update_memI)
  then have "\<exists>s\<in>set ((sv_shutdowns sv)[i := Ending_pool]). past_app s" by (auto simp: past_app_def)
  with sv_closed.prems sv_closed.hyps updated show ?case by (auto simp: shutdown_inv_def at_stage_def)
next
  case (sv_ended sv i)
  have ok: "\<forall>s\<in>set (sv_shutdowns sv). stage_ok (sv_worker sv) s" using sv_ended.prems by (simp add: shutdown_inv_def)
  have "sv_shutdowns sv ! i \<in> set (sv_shutdowns sv)" by (rule nth_mem) (rule sv_ended.hyps)
  with ok sv_ended.hyps have "stage_ok (sv_worker sv) Shut_down" by fastforce
  note updated = stage_update [OF ok this] past_app_update [where i = i and stage = Shut_down and stages = "sv_shutdowns sv"]
  show ?case
    using sv_ended.prems sv_ended.hyps updated by (auto simp: shutdown_inv_def at_stage_def past_app_def)
qed (auto simp: shutdown_inv_def)

definition pending_inv :: "server \<Rightarrow> bool" where
  "pending_inv sv \<longleftrightarrow> sv_startup sv = Listen_pending \<and> sv_shutdowns sv = [] \<and> sv_pool_ends sv = 0 \<and>
    worker_quiet (sv_worker sv) \<and> wk_inFlight (sv_worker sv) = None"

lemma pending_step:
  "server_step sv l sv' \<Longrightarrow> pending_inv sv \<Longrightarrow>
    case l of Listening \<Rightarrow> shutdown_inv sv' | Listen_failed e \<Rightarrow> shutdown_inv sv' | Signal sg \<Rightarrow> True
    | _ \<Rightarrow> pending_inv sv'"
  by (induction rule: server_step.induct)
    (auto simp: pending_inv_def shutdown_inv_def listening_def listen_failed_def awaiting_def
      at_stage_def dest: quiet_steps(3))

lemma run_inv: "server_run sv ls sv' \<Longrightarrow> shutdown_inv sv \<Longrightarrow> shutdown_inv sv'"
  by (induction rule: server_run.induct) (auto intro: shutdown_step_inv)

lemma listen_first_inv: "server_run sv ls sv' \<Longrightarrow> pending_inv sv \<Longrightarrow> listen_first ls \<Longrightarrow> pending_inv sv' \<or> shutdown_inv sv'"
proof (induction rule: server_run.induct)
  case (sv_cons sv l sv' ls sv'')
  from pending_step [OF sv_cons.hyps(1) sv_cons.prems(1)] sv_cons show ?case
    by (cases l) (auto intro: run_inv)
qed simp

text \<open>
  C37.  A shutdown never pulls the pool from under the worker.  However signals, timers, polls and the
  answers of the server and the pool interleave, once the pool has been told to end - because the
  server could not listen, or by a shutdown - the worker is stopped: it has no timer and no poll in
  flight; and a server that was listening has closed the app first.  The one proviso is that no
  signal arrives while \<open>listen\<close> is still pending.
\<close>

theorem pool_outlives_the_worker:
  assumes "server_run new_server ls sv" and "listen_first ls" and "sv_pool_ends sv \<noteq> 0"
  shows "\<not> wk_running (sv_worker sv) \<and> \<not> wk_timer (sv_worker sv) \<and> wk_inFlight (sv_worker sv) = None \<and>
    (sv_startup sv = Serving \<longrightarrow> Ending_pool \<in> set (sv_shutdowns sv) \<or> Shut_down \<in> set (sv_shutdowns sv))"
proof -
  have "pending_inv new_server"
    by (simp add: pending_inv_def new_server_def) (simp add: new_worker_def)
  from listen_first_inv [OF assms(1) this assms(2)] assms(3) have inv: "shutdown_inv sv"
    by (auto simp: pending_inv_def)
  show ?thesis
  proof (cases "sv_startup sv = Serving")
    case True
    with inv assms(3) obtain stage where stage: "stage \<in> set (sv_shutdowns sv)" "past_app stage"
      unfolding shutdown_inv_def by blast
    with inv have "stage_ok (sv_worker sv) stage" "worker_quiet (sv_worker sv)"
      unfolding shutdown_inv_def by auto
    with stage show ?thesis by (auto simp: past_app_def worker_quiet_def)
  next
    case False
    with inv show ?thesis by (auto simp: shutdown_inv_def worker_quiet_def)
  qed
qed

text \<open>A signal during a poll: the shutdown waits for it, closes the app, and ends the pool.\<close>

lemma pool_outlives_the_worker_witness:
  "\<exists>sv. server_run new_server [Listening, Worker Timer_fires, Signal SIGTERM, Worker Poll_settles,
      Worker_stopped 0, App_closed 0] sv \<and> sv_pool_ends sv = 1 \<and> wk_inFlight (sv_worker sv) = None"
proof -
  let ?ls = "[Listening, Worker Timer_fires, Signal SIGTERM, Worker Poll_settles, Worker_stopped 0, App_closed 0]"
  have "map_option sv_pool_ends (server_exec ?ls new_server) = Some 1" by code_simp
  then obtain sv where "server_exec ?ls new_server = Some sv" "sv_pool_ends sv = 1" by auto
  moreover from this have run: "server_run new_server ?ls sv" by (intro server_exec_run)
  moreover have "wk_inFlight (sv_worker sv) = None"
    using pool_outlives_the_worker [OF run] \<open>sv_pool_ends sv = 1\<close> by simp
  ultimately show ?thesis by blast
qed

section \<open>What goes wrong\<close>

text \<open>
  A signal while \<open>listen\<close> is pending: the shutdown finds a worker that has not started, ends the
  pool, and then \<open>listen\<close> settles and starts the worker, which polls a pool that has ended.
\<close>

theorem early_signal_starts_a_worker_on_an_ended_pool:
  "map_option (\<lambda>sv. (sv_pool_ends sv, wk_running (sv_worker sv), wk_inFlight (sv_worker sv)))
    (server_exec [Signal SIGTERM, Worker_stopped 0, App_closed 0, Pool_ended 0, Listening, Worker Timer_fires] new_server) =
    Some (1, True, Some 0)"
  by code_simp

text \<open>Two signals are two shutdowns, and each tells the pool to end.\<close>

theorem two_signals_end_the_pool_twice:
  "map_option sv_pool_ends (server_exec
    [Listening, Signal SIGINT, Signal SIGTERM, Worker_stopped 0, Worker_stopped 1, App_closed 0, App_closed 1] new_server) =
    Some 2"
  by code_simp

end
