(* ===== verification/Token_Access.thy ===== *)
theory Token_Access
  imports Access_Control Server
begin

text \<open>
  The second kind of bearer credential: what a Firebase ID token opens on a server that is wired for a
  project, from the claims of the token to the principal the request runs as.
\<close>

text \<open>A token that jose and the checks of the verifier accept, for a subject with a verified e-mail.\<close>

definition token_accepted ::
    "(int \<Rightarrow> jwt_options \<Rightarrow> string \<Rightarrow> jose_error + jwt_payload) \<Rightarrow> string \<Rightarrow> int \<Rightarrow> string \<Rightarrow> string \<Rightarrow> bool" where
  "token_accepted jwtVerify projectId now token subject \<longleftrightarrow>
    (case jwtVerify now
        \<lparr>jo_algorithms = [''RS256''], jo_audience = projectId, jo_clockTolerance = 5,
         jo_issuer = ''https://securetoken.google.com/'' @ projectId,
         jo_requiredClaims = [''sub'', ''iat'', ''exp'', ''auth_time'']\<rparr> token of
       Inl e \<Rightarrow> False
     | Inr payload \<Rightarrow>
         jp_sub payload = Some subject \<and> subject \<noteq> [] \<and> length subject \<le> 128 \<and>
         jp_email_verified payload = Some True \<and>
         (case jp_iat payload of None \<Rightarrow> False | Some t \<Rightarrow> t \<le> of_int (now div 1000 + 5)) \<and>
         (case jp_auth_time payload of None \<Rightarrow> False | Some t \<Rightarrow> t \<le> of_int (now div 1000 + 5)))"

lemma verified_token:
  "verifyFirebaseToken (jwtVerify now) projectId defaultClockToleranceSeconds now token = Inr i \<Longrightarrow>
    xi_provider i = ''firebase'' \<and>
    (xi_emailVerified i \<longrightarrow> token_accepted jwtVerify projectId now token (xi_subject i))"
  by (auto simp: verifyFirebaseToken_def firebase_options_def token_accepted_def defaultClockToleranceSeconds_def maxSubjectLength_def Let_def
      split: sum.splits option.splits if_splits)

lemma accepted_token:
  "token_accepted jwtVerify projectId now token subject \<Longrightarrow>
    \<exists>i. verifyFirebaseToken (jwtVerify now) projectId defaultClockToleranceSeconds now token = Inr i \<and>
      xi_provider i = ''firebase'' \<and> xi_subject i = subject \<and> xi_emailVerified i"
  by (auto simp: verifyFirebaseToken_def firebase_options_def token_accepted_def defaultClockToleranceSeconds_def maxSubjectLength_def Let_def
      split: sum.splits option.splits)

lemma on_db_run: "on_db m w = (r, w') \<Longrightarrow> m (app_db w) = (r, app_db w')"
  by (auto simp: on_db_def on_transfers_def Let_def split_beta)

lemma bearer_token:
  assumes "op_verify opts = Some verify" "\<not> starts_with token apiKeyTag"
  shows "resolve_bearer opts env token w =
    (case verify (rv_clock env) token of
       Inl e \<Rightarrow> (Inl e, w)
     | Inr i \<Rightarrow> on_db (authenticateIdentity (op_nfc opts) (rv_between env) (rv_provision env) i) w)"
  using assms by (auto simp: resolve_bearer_def io_bind_def io_apply split: sum.split)

text \<open>
  C12.  An ID token signs in its subject.  On a server wired for a Firebase project, a customer request
  whose bearer credential is not shaped like an API key is served only if the token passes jose's
  RS256 verification for that project as issuer and audience, names a subject of 1 to 128 characters with a verified e-mail
  address, and was issued and authenticated no later than now, give or take five seconds; and then it
  is served as the active principal that subject is mapped to - or refused, with the credentials as
  sound as before and no principal left without its identity.  Any other token is answered with an
  error, and nothing changes.
\<close>

theorem id_token_signs_in_its_subject:
  assumes inv: "auth_inv (app_db w)" and scope: "scope_of route = Customer"
    and wired: "cf_firebaseProjectId cfg = Some projectId" "projectId \<noteq> []"
      "opts = server_options cfg jwtVerify ajv sha256_hex nfc codec"
    and bearer: "extractBearerToken (hq_authorization req) = Some token" "\<not> starts_with token apiKeyTag"
    and fair: "sign_in_fair (rv_between env)" "sign_in_fair (pv_before_reread (rv_provision env))"
  shows "if \<exists>subject. token_accepted jwtVerify projectId (rv_clock env) token subject
    then (\<exists>e w1. handle opts env route req w = respond (request_id env req) (io_throw e) w1 \<and>
        auth_inv (app_db w1) \<and> unmapped (app_db w1) \<subseteq> unmapped (app_db w)) \<or>
      (\<exists>subject p w1. token_accepted jwtVerify projectId (rv_clock env) token subject \<and>
        identity_of (''firebase'', subject) p (app_db w1) \<and> p_status p = Principal_active \<and>
        handle opts env route req w = let_in opts env route req (req\<lparr>hq_principalId := Some (p_id p)\<rparr>) w1)
    else \<exists>e. handle opts env route req w = respond (request_id env req) (io_throw e) w"
proof -
  let ?verify = "\<lambda>now. verifyFirebaseToken (jwtVerify now) projectId defaultClockToleranceSeconds now"
  have opts: "op_verify opts = Some ?verify" using wired by (simp add: server_options_def)
  have served: "handle opts env route req w = (case resolve_bearer opts env token w of
      (Inl e, w1) \<Rightarrow> respond (request_id env req) (io_throw e) w1
    | (Inr p, w1) \<Rightarrow> let_in opts env route req (req\<lparr>hq_principalId := Some (p_id p)\<rparr>) w1)"
    unfolding handle_guarded scope guard_def
    by (simp add: requireApiKey_def bearer io_bind_def io_apply split: prod.split sum.split)
  show ?thesis
  proof (cases "?verify (rv_clock env) token")
    case (Inl e)
    then have "\<not> (\<exists>subject. token_accepted jwtVerify projectId (rv_clock env) token subject)"
      by (auto dest!: accepted_token)
    with Inl show ?thesis by (auto simp: served bearer_token [OF opts bearer(2)])
  next
    case (Inr i)
    from verified_token [where jwtVerify = jwtVerify and now = "rv_clock env" and projectId = projectId and token = token and i = i] Inr
    have i: "xi_provider i = ''firebase''"
      "xi_emailVerified i \<Longrightarrow> token_accepted jwtVerify projectId (rv_clock env) token (xi_subject i)" by auto
    obtain r w1 where run: "on_db (authenticateIdentity (op_nfc opts) (rv_between env) (rv_provision env) i) w = (r, w1)"
      by (cases "on_db (authenticateIdentity (op_nfc opts) (rv_between env) (rv_provision env) i) w")
    note sign_in = sign_in_provisions_once [OF inv fair, where nfc = "op_nfc opts" and i = i, unfolded on_db_run [OF run]]
    have resolved: "resolve_bearer opts env token w = (r, w1)"
      using Inr run by (simp add: bearer_token [OF opts bearer(2)])
    show ?thesis
    proof (cases "xi_emailVerified i")
      case True
      show ?thesis
      proof (cases r)
        case (Inl e)
        with sign_in True i resolved show ?thesis by (auto simp: served provisioned_def)
      next
        case (Inr p)
        with sign_in True i have "identity_of (''firebase'', xi_subject i) p (app_db w1)" "p_status p = Principal_active"
          by (auto simp: provisioned_def)
        moreover have "handle opts env route req w = let_in opts env route req (req\<lparr>hq_principalId := Some (p_id p)\<rparr>) w1"
          using resolved Inr by (simp add: served)
        moreover have "\<exists>subject. token_accepted jwtVerify projectId (rv_clock env) token subject" using i(2) [OF True] by blast
        ultimately show ?thesis using i(2) [OF True] by (subst if_P) blast+
      qed
    next
      case False
      have "\<not> (\<exists>subject. token_accepted jwtVerify projectId (rv_clock env) token subject)"
        using False Inr by (auto dest!: accepted_token)
      moreover have "authenticateIdentity nfc' between penv i s = (Inl (auth_error ''EMAIL_NOT_VERIFIED'' ''Verify your email address before signing in''), s)"
        for nfc' between penv s using False by (simp add: authenticateIdentity_def io_apply)
      then have "resolve_bearer opts env token w = (Inl (auth_error ''EMAIL_NOT_VERIFIED'' ''Verify your email address before signing in''), w)"
        using Inr by (simp add: bearer_token [OF opts bearer(2)] on_db_same)
      ultimately show ?thesis by (auto simp: served)
    qed
  qed
qed

end
