(* ===== verification/Seed_Script.thy ===== *)
theory Seed_Script
  imports Service_Runs Js_Number
begin

text \<open>
  scripts/seed.ts: a data set built by driving the services - one principal that owns everything, funded
  accounts, and transfers between them.  \<open>Math.random()\<close> is a stream of numbers in [0, 1), consumed
  in order; a draw times a range below 2^53 never rounds up to the range.  The script runs after
  the migrations (Migrations), on the database they leave.
\<close>

section \<open>Settings and draws\<close>

definition seed_readPositiveInt :: "string option \<Rightarrow> nat \<Rightarrow> nat" where
  "seed_readPositiveInt raw fallback =
    (case raw of
       None \<Rightarrow> fallback
     | Some text \<Rightarrow>
         if text = [] then fallback
         else (case positive_integer (js_Number text) of None \<Rightarrow> fallback | Some n \<Rightarrow> n))"

definition seed_currencies :: "string list" where
  "seed_currencies = [''INR'', ''USD'']"

definition randomInt :: "int \<Rightarrow> int \<Rightarrow> rat \<Rightarrow> int" where
  "randomInt lo hi draw = \<lfloor>draw * of_int (hi - lo + 1)\<rfloor> + lo"

definition pick :: "'a list \<Rightarrow> rat \<Rightarrow> 'a" where
  "pick items draw = items ! nat (randomInt 0 (int (length items) - 1) draw)"

lemma randomInt_bounds:
  assumes "0 \<le> draw" "draw < 1" "lo \<le> hi"
  shows "lo \<le> randomInt lo hi draw" "randomInt lo hi draw \<le> hi"
proof -
  have "0 \<le> draw * of_int (hi - lo + 1)" using assms by simp
  then show "lo \<le> randomInt lo hi draw" by (simp add: randomInt_def)
  have "draw * of_int (hi - lo + 1) < 1 * of_int (hi - lo + 1)"
    by (rule mult_strict_right_mono) (use assms in simp_all)
  then have "\<lfloor>draw * of_int (hi - lo + 1)\<rfloor> < hi - lo + 1" by (simp only: floor_less_iff mult_1)
  then show "randomInt lo hi draw \<le> hi" by (simp add: randomInt_def)
qed

lemma pick_member:
  assumes "0 \<le> draw" "draw < 1" "items \<noteq> []"
  shows "pick items draw \<in> set items"
proof -
  have "0 \<le> int (length items) - 1" using assms(3) by (cases items) simp_all
  from randomInt_bounds [OF assms(1,2) this] have "nat (randomInt 0 (int (length items) - 1) draw) < length items"
    using assms(3) by (cases items) simp_all
  then show ?thesis by (simp add: pick_def)
qed

text \<open>The loop that draws a destination until it differs from the source, from a draw on.\<close>

partial_function (option) pick_other :: "(nat \<Rightarrow> rat) \<Rightarrow> 'a list \<Rightarrow> 'a \<Rightarrow> nat \<Rightarrow> ('a \<times> nat) option" where
  "pick_other draws items source k =
    (if pick items (draws k) = source then pick_other draws items source (k + 1)
     else Some (pick items (draws k), k + 1))"

section \<open>main\<close>

text \<open>The services' world, the next draw, and the lines printed.\<close>

record seed_world =
  sd_world :: transfer_world
  sd_draw :: nat
  sd_printed :: "string list"

abbreviation seed_db :: "seed_world \<Rightarrow> db" where
  "seed_db w \<equiv> tw_db (sd_world w)"

type_synonym 'a seed_io = "(seed_world, js_error, 'a) io"

definition on_service :: "(transfer_world, js_error, 'a) io \<Rightarrow> 'a seed_io" where
  "on_service m = (\<lambda>w. let r = m (sd_world w) in (fst r, w\<lparr>sd_world := snd r\<rparr>))"

definition on_store :: "'a db_io \<Rightarrow> 'a seed_io" where
  "on_store m =
    on_service (\<lambda>t. let r = m (tw_db t) in (fst r, t\<lparr>tw_db := snd r\<rparr>))"

definition draw_with :: "(nat \<Rightarrow> rat) \<Rightarrow> (rat \<Rightarrow> 'a) \<Rightarrow> 'a seed_io" where
  "draw_with draws f = (\<lambda>w. (Inr (f (draws (sd_draw w))), w\<lparr>sd_draw := sd_draw w + 1\<rparr>))"

definition console_log :: "string \<Rightarrow> unit seed_io" where
  "console_log line = io_modify (\<lambda>w. w\<lparr>sd_printed := sd_printed w @ [line]\<rparr>)"

text \<open>What the script meets: clocks, identifiers and connections, by the number of the iteration.\<close>

record seed_env =
  se_accountCount :: nat
  se_transferCount :: nat
  se_draws :: "nat \<Rightarrow> rat"
  se_now :: instant
  se_principal_id :: uuid
  se_key_id :: uuid
  se_key_body :: string
  se_between :: "db \<Rightarrow> db"
  se_account_now :: "nat \<Rightarrow> instant"
  se_account_id :: "nat \<Rightarrow> uuid"
  se_fund :: "nat \<Rightarrow> fund_env"
  se_attempts :: "nat \<Rightarrow> nat \<Rightarrow> attempt_env"
  se_transfer_id :: "nat \<Rightarrow> uuid"
  se_clock :: "nat \<Rightarrow> int"

text \<open>No outbox store is injected.\<close>

definition seed_transfer_config :: transfer_config where
  "seed_transfer_config = default_transfer_config\<lparr>tc_outbox := False\<rparr>"

definition progress_line :: "nat \<Rightarrow> nat \<Rightarrow> nat \<Rightarrow> string \<Rightarrow> unit seed_io" where
  "progress_line step i count what =
    (if (i + 1) mod step = 0
     then console_log (''  '' @ nat_text (i + 1) @ ''/'' @ nat_text count @ what) else io_return ())"

text \<open>The accounts from iteration \<open>i\<close> on; \<open>byCurrency\<close> is \<open>accountsByCurrency\<close>.\<close>

fun seed_accounts ::
    "seed_env \<Rightarrow> uuid \<Rightarrow> nat \<Rightarrow> nat \<Rightarrow> (string \<Rightarrow> uuid list) \<Rightarrow> (string \<Rightarrow> uuid list) seed_io" where
  "seed_accounts env owner i 0 byCurrency = io_return byCurrency"
| "seed_accounts env owner i (Suc left) byCurrency =
    io_bind (draw_with (se_draws env) (pick seed_currencies)) (\<lambda>currency.
    io_bind (on_store (auto_commit (createAccount (se_account_now env i) (se_account_id env i) currency owner)))
      (\<lambda>account.
    io_bind (draw_with (se_draws env) (randomInt 10000 1000000)) (\<lambda>amount.
    io_bind (on_store (fundAccount False (se_fund env i)
        \<lparr>fa_accountId = ac_id account, fa_amountMinor = bigint_text amount\<rparr> None)) (\<lambda>_.
    io_bind (progress_line 50 i (se_accountCount env) '' accounts funded'') (\<lambda>_.
    seed_accounts env owner (i + 1) left
      (byCurrency(currency := byCurrency currency @ [ac_id account])))))))"

text \<open>One transfer that is attempted: whether it succeeded.  \<open>catch\<close> takes every error.\<close>

definition seed_transfer :: "seed_env \<Rightarrow> uuid \<Rightarrow> nat \<Rightarrow> uuid \<Rightarrow> uuid \<Rightarrow> bool seed_io" where
  "seed_transfer env owner i source destination =
    io_bind (draw_with (se_draws env) (randomInt 1 5000)) (\<lambda>amount.
    io_catch
      (io_bind (on_service (create seed_transfer_config (se_attempts env i) (se_transfer_id env i) (se_clock env i)
          \<lparr>ct_amountMinor = bigint_text amount, ct_destinationAccountId = destination,
           ct_sourceAccountId = source\<rparr> owner None)) (\<lambda>_. io_return True))
      (\<lambda>_. io_return False))"

text \<open>
  The transfers from iteration \<open>i\<close> on, with the counts so far; \<open>None\<close> when a draw of destinations
  never ends.  \<open>continue\<close> skips the progress line.
\<close>

fun seed_transfers ::
    "seed_env \<Rightarrow> uuid \<Rightarrow> (string \<Rightarrow> uuid list) \<Rightarrow> nat \<Rightarrow> nat \<Rightarrow> nat \<times> nat \<Rightarrow> seed_world \<Rightarrow> ((nat \<times> nat) \<times> seed_world) option" where
  "seed_transfers env owner byCurrency i 0 counts w = Some (counts, w)"
| "seed_transfers env owner byCurrency i (Suc left) counts w =
    (let candidates = byCurrency (pick seed_currencies (se_draws env (sd_draw w)));
         source = pick candidates (se_draws env (sd_draw w + 1))
     in if length candidates < 2
        then seed_transfers env owner byCurrency (i + 1) left counts (w\<lparr>sd_draw := sd_draw w + 1\<rparr>)
        else
          (case pick_other (se_draws env) candidates source (sd_draw w + 2) of
             None \<Rightarrow> None
           | Some (destination, k) \<Rightarrow>
               (case seed_transfer env owner i source destination (w\<lparr>sd_draw := k\<rparr>) of
                  (r, w1) \<Rightarrow>
                    seed_transfers env owner byCurrency (i + 1) left
                      (if r = Inr True then (fst counts + 1, snd counts) else (fst counts, snd counts + 1))
                      (snd (progress_line 200 i (se_transferCount env) '' transfers attempted'' w1)))))"

definition seed_start :: "(string \<Rightarrow> string) \<Rightarrow> seed_env \<Rightarrow> (uuid \<times> (string \<Rightarrow> uuid list)) seed_io" where
  "seed_start sha256_hex env =
    io_bind (on_store (auto_commit (createPrincipal (se_now env) (se_principal_id env)
        (''seed-'' @ toISOString (se_now env))))) (\<lambda>principal.
    io_bind (on_store (issueApiKey sha256_hex (se_between env) (se_now env) (se_key_id env) (se_key_body env)
        (p_id principal))) (\<lambda>issued.
    io_bind (console_log (''Seed principal: '' @ p_id principal)) (\<lambda>_.
    io_bind (console_log (''Seed API key:   '' @ ik_key issued)) (\<lambda>_.
    io_bind (console_log (''Seeding '' @ nat_text (se_accountCount env) @ '' accounts...'')) (\<lambda>_.
    io_bind (seed_accounts env (p_id principal) 0 (se_accountCount env) (\<lambda>_. [])) (\<lambda>byCurrency.
    io_bind (console_log (''Posting '' @ nat_text (se_transferCount env) @ '' transfers...'')) (\<lambda>_.
    io_return (p_id principal, byCurrency))))))))"

definition seed_main ::
    "(string \<Rightarrow> string) \<Rightarrow> seed_env \<Rightarrow> int \<Rightarrow> seed_world \<Rightarrow> ((js_error + nat \<times> nat) \<times> seed_world) option" where
  "seed_main sha256_hex env elapsedMs w =
    (case seed_start sha256_hex env w of
       (Inl e, w1) \<Rightarrow> Some (Inl e, w1)
     | (Inr (owner, byCurrency), w1) \<Rightarrow>
         (case seed_transfers env owner byCurrency 0 (se_transferCount env) (0, 0) w1 of
            None \<Rightarrow> None
          | Some ((succeeded, failed), w2) \<Rightarrow>
              Some (Inr (succeeded, failed), snd (console_log
                (''Seed complete: '' @ nat_text (se_accountCount env) @ '' accounts, '' @ nat_text succeeded @
                 '' transfers succeeded, '' @ nat_text failed @ '' rejected, '' @ bigint_text elapsedMs @
                 ''ms elapsed'') w2))))"

section \<open>The draw of a destination\<close>

lemma pick_other_SomeD:
  assumes "pick_other draws items source k = Some (d, k')"
  shows "d \<noteq> source \<and> k < k'"
proof -
  have "fst r \<noteq> source \<and> k < snd r" if "pick_other draws items source k = Some r" for r
    by (rule pick_other.raw_induct [OF _ that, where P = "\<lambda>draws items source k r. fst r \<noteq> source \<and> k < snd r"])
      (fastforce split: if_splits)
  from this [OF assms] show ?thesis by simp
qed

lemma pick_other_ends: "pick items (draws (k + j)) \<noteq> source \<Longrightarrow> \<exists>d k'. pick_other draws items source k = Some (d, k')"
proof (induction j arbitrary: k)
  case 0
  then show ?case by (simp add: pick_other.simps)
next
  case (Suc j)
  then show ?case
    by (cases "pick items (draws k) = source") (simp_all add: pick_other.simps)
qed

text \<open>Draws in range that, whatever the number of items, never settle on one of them for ever.\<close>

definition draws_vary :: "(nat \<Rightarrow> rat) \<Rightarrow> bool" where
  "draws_vary draws \<longleftrightarrow> (\<forall>k. 0 \<le> draws k \<and> draws k < 1) \<and>
    (\<forall>n k x. 2 \<le> n \<longrightarrow> (\<exists>j. randomInt 0 (int n - 1) (draws (k + j)) \<noteq> x))"

lemma draws_vary_pick:
  assumes "draws_vary draws" "distinct items" "2 \<le> length items"
  shows "\<exists>j. pick items (draws (k + j)) \<noteq> source"
proof -
  let ?r = "\<lambda>j. randomInt 0 (int (length items) - 1) (draws (k + j))"
  have "items \<noteq> []" using assms(3) by auto
  then have bounds: "0 \<le> ?r j" "nat (?r j) < length items" for j
    using randomInt_bounds [of "draws (k + j)" 0 "int (length items) - 1"] assms by (auto simp: draws_vary_def nat_less_iff)
  obtain j where j: "?r j \<noteq> ?r 0" using assms(1,3) unfolding draws_vary_def by blast
  then have "nat (?r j) \<noteq> nat (?r 0)" using bounds(1) [of j] bounds(1) [of 0] by simp
  then have "items ! nat (?r j) \<noteq> items ! nat (?r 0)"
    using nth_eq_iff_index_eq [OF assms(2) bounds(2) [of j] bounds(2) [of 0]] by simp
  then show ?thesis unfolding pick_def by metis
qed

section \<open>What the script keeps\<close>

text \<open>What other clients do between two statements keeps a property.\<close>

definition others_keep :: "(db \<Rightarrow> bool) \<Rightarrow> seed_env \<Rightarrow> bool" where
  "others_keep P env \<longleftrightarrow>
    (\<forall>s. P s \<longrightarrow> P (se_between env s)) \<and>
    (\<forall>i s. P s \<longrightarrow> P (fe_before_treasury (se_fund env i) s) \<and> P (fe_before_post (se_fund env i) s)) \<and>
    (\<forall>i j s. P s \<longrightarrow> P (at_before (se_attempts env i j) s))"

locale seed_invariant =
  fixes P :: "db \<Rightarrow> bool"
  assumes on_ledger: "tx_keeps P (post_ledger_transaction now tid ty ref eids aids ds ms)"
    and on_settle: "tx_keeps P (complete now key operation pid b st)"
    and on_transfer_row: "tx_keeps P (insert_transfer r)"
    and on_account: "tx_keeps P (createAccount now aid currency owner)"
    and on_principal: "tx_keeps P (createPrincipal now pid name)"
    and on_key: "tx_keeps P (insertApiKey now kid hash prefix pid)"
begin

lemma quiet_transfer: "tx_keeps P (transfer_work False now eids evid amount input pid tid key)"
proof -
  have "tx_keeps P (complete_claim now key operation pid b st)" for now key operation pid b st
    unfolding complete_claim_def by (intro keeps_intros on_settle)
  then have "tx_keeps P (postTransfer False now eids evid i)" for i
    unfolding postTransfer_def Let_def
    by (intro keeps_intros on_ledger on_transfer_row) (auto split: option.split prod.split intro!: keeps_intros)
  then show ?thesis
    unfolding transfer_work_def lockAccounts_def by (auto split: prod.split intro!: keeps_intros)
qed

lemma quiet_create:
  assumes "\<And>j s. P s \<Longrightarrow> P (at_before (envs j) s)"
  shows "io_keeps (\<lambda>w. P (tw_db w)) (create seed_transfer_config envs tid startedAt input pid key)"
  unfolding io_keeps_def
proof (intro allI impI)
  fix w :: transfer_world assume w: "P (tw_db w)"
  have kept: "P (tw_db w')" if "create_attempts seed_transfer_config envs amount input pid tid key startedAt a left w = (r, w')"
    for amount a left r w'
    by (rule conjunct1 [OF create_attempts_reach [where P = P and envs = envs, OF _ _ w that]])
      (use assms quiet_transfer in \<open>simp_all add: seed_transfer_config_def\<close>)
  show "P (tw_db (snd (create seed_transfer_config envs tid startedAt input pid key w)))"
    using w kept by (auto simp: create_def split: sum.split) (metis prod.collapse)
qed

lemma quiet_fund:
  assumes "\<And>s. P s \<Longrightarrow> P (fe_before_treasury env s) \<and> P (fe_before_post env s)"
  shows "io_keeps P (fundAccount False env input None)"
proof -
  have work: "tx_keeps P (postWith now eids posting)" for now eids posting
    unfolding postWith_def by (intro keeps_intros on_ledger)
  have "P s \<Longrightarrow> P (out_state (store_post tx False now eids evid posting None s))" for tx now eids evid posting s
    using single_statement_state [of tx deferred_constraints "postWith now eids posting" s] tx_keepsD [OF work]
    by (auto simp: store_post_def)
  then have "io_keeps P (post tx False now eids evid posting None)" for tx now eids evid posting
    unfolding post_def by (auto split: option.split intro!: keeps_intros) (auto simp: io_keeps_def run_outcome_def Let_def)
  then show ?thesis
    unfolding fundAccount_def funding_claim_def
    by (intro keeps_intros; auto split: option.split intro!: keeps_intros io_keeps_modify simp: assms)
qed

abbreviation seed_keeps :: "'a seed_io \<Rightarrow> bool" where
  "seed_keeps m \<equiv> io_keeps (\<lambda>w. P (seed_db w)) m"

lemma steps_keep:
  "io_keeps (\<lambda>t. P (tw_db t)) m \<Longrightarrow> seed_keeps (on_service m)" "io_keeps P m' \<Longrightarrow> seed_keeps (on_store m')"
  "seed_keeps (draw_with draws f)" "seed_keeps (console_log line)"
  by (simp_all add: io_keeps_def on_service_def on_store_def draw_with_def console_log_def io_simps Let_def split_beta)

lemma progress_keeps: "seed_keeps (progress_line step i count what)"
  unfolding progress_line_def by (simp add: steps_keep keeps_intros)

lemma accounts_keep:
  assumes "others_keep P env"
  shows "seed_keeps (seed_accounts env owner i left byCurrency)"
proof (induction left arbitrary: i byCurrency)
  case (Suc left)
  show ?case
    unfolding seed_accounts.simps
    by (intro keeps_intros steps_keep progress_keeps on_account quiet_fund Suc.IH)
      (use assms in \<open>simp add: others_keep_def\<close>)
qed (simp add: keeps_intros)

lemma start_keeps:
  assumes "others_keep P env"
  shows "seed_keeps (seed_start sha256_hex env)"
  unfolding seed_start_def issueApiKey_def
  by (intro keeps_intros steps_keep accounts_keep assms on_principal)
    (use assms in \<open>auto simp: others_keep_def split: option.split prod.split
      intro!: keeps_intros steps_keep accounts_keep on_key io_keeps_modify\<close>)

lemma transfer_keeps:
  assumes "others_keep P env"
  shows "seed_keeps (seed_transfer env owner i source destination)"
  unfolding seed_transfer_def
  by (intro keeps_intros steps_keep quiet_create) (use assms in \<open>simp add: others_keep_def\<close>)

lemma transfers_keep:
  assumes "others_keep P env"
  shows "seed_transfers env owner byCurrency i left counts w = Some (counts', w') \<Longrightarrow> P (seed_db w) \<Longrightarrow>
    P (seed_db w') \<and> fst counts' + snd counts' \<le> fst counts + snd counts + left"
proof (induction left arbitrary: i counts w)
  case (Suc left)
  let ?candidates = "byCurrency (pick seed_currencies (se_draws env (sd_draw w)))"
  let ?source = "pick ?candidates (se_draws env (sd_draw w + 1))"
  show ?case
  proof (cases "length ?candidates < 2")
    case True
    with Suc.prems Suc.IH [of "i + 1" counts "w\<lparr>sd_draw := sd_draw w + 1\<rparr>"] show ?thesis by simp
  next
    case False
    with Suc.prems(1) obtain destination k where k: "pick_other (se_draws env) ?candidates ?source (sd_draw w + 2) = Some (destination, k)"
      by (auto simp: Let_def split: option.splits)
    obtain r w1 where one: "seed_transfer env owner i ?source destination (w\<lparr>sd_draw := k\<rparr>) = (r, w1)"
      by (cases "seed_transfer env owner i ?source destination (w\<lparr>sd_draw := k\<rparr>)")
    let ?counts = "if r = Inr True then (fst counts + 1, snd counts) else (fst counts, snd counts + 1)"
    let ?w2 = "snd (progress_line 200 i (se_transferCount env) '' transfers attempted'' w1)"
    have "P (seed_db w1)" using io_keepsD [OF transfer_keeps [OF assms], of "w\<lparr>sd_draw := k\<rparr>"] Suc.prems(2) one
      by (metis (no_types, lifting) seed_world.select_convs(1) seed_world.surjective seed_world.update_convs(2) snd_conv)
    then have "P (seed_db ?w2)" by (rule io_keepsD [OF progress_keeps])
    moreover have "seed_transfers env owner byCurrency (i + 1) left ?counts ?w2 = Some (counts', w')"
      using Suc.prems(1) False k one by (simp add: Let_def)
    ultimately show ?thesis using Suc.IH [of "i + 1" ?counts ?w2] by (auto split: if_splits)
  qed
qed simp

lemma main_keeps:
  assumes "others_keep P env" "seed_main sha256_hex env elapsedMs w = Some (r, w')" "P (seed_db w)"
  shows "P (seed_db w') \<and> (\<forall>n m. r = Inr (n, m) \<longrightarrow> n + m \<le> se_transferCount env)"
proof -
  have start: "P (seed_db (snd (seed_start sha256_hex env w)))"
    by (rule io_keepsD [OF start_keeps [OF assms(1)]]) (rule assms(3))
  have logged: "seed_db (snd (console_log line v)) = seed_db v" for line v
    by (simp add: console_log_def io_simps)
  show ?thesis
    using start assms(2)
    by (auto simp: seed_main_def logged split: prod.splits sum.splits option.splits
        dest!: transfers_keep [OF assms(1)])
qed

end

section \<open>Sound books, and no events\<close>

abbreviation sound_without_events :: "outbox_row list \<Rightarrow> db \<Rightarrow> bool" where
  "sound_without_events t s \<equiv> db_inv s \<and> outbox_events s = t"

lemma tx_keeps_both:
  assumes "tx_keeps P m" and "\<And>s a s'. m s = Inr (a, s') \<Longrightarrow> f s' = f s"
  shows "tx_keeps (\<lambda>s. P s \<and> f s = t) m"
  using assms unfolding tx_keeps_def by metis

interpretation seeding: seed_invariant "sound_without_events t" for t
proof unfold_locales
  show "tx_keeps (sound_without_events t) (post_ledger_transaction now tid ty ref eids aids ds ms)" for now tid ty ref eids aids ds ms
    by (rule tx_keeps_both [OF books_posting.on_ledger])
      (auto elim!: post_ledger_transaction_InrD simp: posted_state_def)
  show "tx_keeps (sound_without_events t) (complete now key operation pid b st)" for now key operation pid b st
    by (rule tx_keeps_both [OF books_posting.on_settle]) (auto simp: complete_eq)
  show "tx_keeps (sound_without_events t) (insert_transfer r)" for r
    by (rule tx_keeps_both [OF books_posting.on_transfer_row]) (auto dest: insert_transfer_InrD)
  show "tx_keeps (sound_without_events t) (createAccount now aid currency owner)" for now aid currency owner
    by (rule tx_keeps_both [OF createAccount_db_inv]) (auto simp: createAccount_def tx_simps)
  show "tx_keeps (sound_without_events t) (createPrincipal now pid name)" for now pid name
    by (rule tx_keeps_both [OF createPrincipal_db_inv]) (fastforce dest: createPrincipal_InrD)
  show "tx_keeps (sound_without_events t) (insertApiKey now kid hash prefix' pid)" for now kid hash prefix' pid
    by (rule tx_keeps_both [OF keys_db_inv(1)]) (fastforce dest: insertApiKey_InrD)
qed

section \<open>The script ends\<close>

text \<open>The accounts of a currency, in the order of their ids' draws.\<close>

lemma account_id_kept: "on_store (auto_commit (createAccount now aid currency owner)) w = (Inr a, w') \<Longrightarrow> ac_id a = aid"
  by (auto simp: on_store_def on_service_def auto_commit_def Let_def createAccount_def tx_simps account_view_def
      new_account_row_def split: sum.splits prod.splits)

lemma seed_accounts_distinct:
  assumes "distinct (map (se_account_id env) [0..<n])"
  shows "seed_accounts env owner i left byCurrency w = (Inr byCurrency', w') \<Longrightarrow> i + left = n \<Longrightarrow>
    (\<forall>c. distinct (byCurrency c) \<and> set (byCurrency c) \<subseteq> se_account_id env ` {0..<i}) \<Longrightarrow>
    distinct (byCurrency' c)"
proof (induction left arbitrary: i byCurrency w)
  case (Suc left)
  obtain currency and a :: Account and w1 where step:
    "seed_accounts env owner (i + 1) left (byCurrency(currency := byCurrency currency @ [ac_id a])) w1 = (Inr byCurrency', w')"
    and aid: "ac_id a = se_account_id env i"
  proof -
    from Suc.prems(1) obtain currency a v u w1 where
      made: "on_store (auto_commit (createAccount (se_account_now env i) (se_account_id env i) currency owner)) v = (Inr a, u)"
      and rest: "seed_accounts env owner (i + 1) left (byCurrency(currency := byCurrency currency @ [ac_id a])) w1 = (Inr byCurrency', w')"
      unfolding seed_accounts.simps io_bind_eq_Inr by blast
    show thesis by (rule that [OF rest account_id_kept [OF made]])
  qed
  have inj: "inj_on (se_account_id env) {0..<n}" using assms by (simp add: distinct_map)
  have fresh: "se_account_id env i \<notin> se_account_id env ` {0..<i}"
  proof
    assume "se_account_id env i \<in> se_account_id env ` {0..<i}"
    then obtain j where "j < i" "se_account_id env j = se_account_id env i" by auto
    with inj_onD [OF inj, of j i] Suc.prems(2) show False by simp
  qed
  let ?more = "byCurrency(currency := byCurrency currency @ [ac_id a])"
  have "distinct (?more c) \<and> set (?more c) \<subseteq> se_account_id env ` {0..<i + 1}" for c
  proof -
    have "distinct (byCurrency c)" "set (byCurrency c) \<subseteq> se_account_id env ` {0..<i}" using Suc.prems(3) by blast+
    moreover have "se_account_id env ` {0..<i + 1} = insert (se_account_id env i) (se_account_id env ` {0..<i})"
      by (simp add: atLeast0_lessThan_Suc)
    ultimately show ?thesis using fresh aid by (cases "c = currency") auto
  qed
  moreover have "i + 1 + left = n" using Suc.prems(2) by simp
  ultimately show ?case by (intro Suc.IH [OF step]) blast+
qed (simp add: io_apply)

lemma seed_transfers_end:
  assumes "draws_vary (se_draws env)" "\<forall>c. distinct (byCurrency c)"
  shows "\<exists>counts' w'. seed_transfers env owner byCurrency i left counts w = Some (counts', w')"
proof (induction left arbitrary: i counts w)
  case (Suc left)
  let ?candidates = "byCurrency (pick seed_currencies (se_draws env (sd_draw w)))"
  let ?source = "pick ?candidates (se_draws env (sd_draw w + 1))"
  show ?case
  proof (cases "length ?candidates < 2")
    case True
    with Suc.IH show ?thesis by (simp add: Let_def)
  next
    case False
    with draws_vary_pick [OF assms(1), of ?candidates "sd_draw w + 2" ?source] assms(2)
    obtain j where "pick ?candidates (se_draws env (sd_draw w + 2 + j)) \<noteq> ?source" by auto
    with pick_other_ends [where items = ?candidates and draws = "se_draws env" and k = "sd_draw w + 2" and j = j]
    obtain d k where
      "pick_other (se_draws env) ?candidates ?source (sd_draw w + 2) = Some (d, k)" by blast
    with False Suc.IH show ?thesis
      by (cases "seed_transfer env owner i ?source d (w\<lparr>sd_draw := k\<rparr>)") (simp add: Let_def)
  qed
qed simp

text \<open>
  Seeding ends, and its data obeys the rules of production.  If the draws vary and the ids of the
  accounts are distinct, the script ends - the loop that looks for another destination always finds
  one - and however its calls fail, and whatever sound clients do meanwhile, the books are sound
  afterwards and the outbox is what it was; no more transfers are counted than were asked for.
\<close>

theorem seeding_ends_soundly:
  assumes "draws_vary (se_draws env)" and "distinct (map (se_account_id env) [0..<se_accountCount env])"
    and "others_keep (sound_without_events (outbox_events (seed_db w))) env" and "db_inv (seed_db w)"
  shows "\<exists>r w'. seed_main sha256_hex env elapsedMs w = Some (r, w') \<and>
    db_inv (seed_db w') \<and> outbox_events (seed_db w') = outbox_events (seed_db w) \<and>
    (\<forall>succeeded failed. r = Inr (succeeded, failed) \<longrightarrow> succeeded + failed \<le> se_transferCount env)"
proof -
  have "\<exists>r w'. seed_main sha256_hex env elapsedMs w = Some (r, w')"
  proof (cases "seed_start sha256_hex env w")
    case (Pair r1 w1)
    show ?thesis
    proof (cases r1)
      case (Inl e)
      with Pair show ?thesis by (simp add: seed_main_def)
    next
      case (Inr started)
      obtain owner byCurrency where started: "started = (owner, byCurrency)" by (cases started)
      with Pair Inr obtain w0 w2 where
        "seed_accounts env owner 0 (se_accountCount env) (\<lambda>_. []) w0 = (Inr byCurrency, w2)"
        by (auto simp: seed_start_def io_bind_eq_Inr io_apply)
      from seed_accounts_distinct [OF assms(2) this] have "\<forall>c. distinct (byCurrency c)" by simp
      from seed_transfers_end [OF assms(1) this] obtain counts w3 where
        "seed_transfers env owner byCurrency 0 (se_transferCount env) (0, 0) w1 = Some (counts, w3)" by blast
      with Pair Inr started show ?thesis by (cases counts) (simp add: seed_main_def)
    qed
  qed
  then obtain r w' where run: "seed_main sha256_hex env elapsedMs w = Some (r, w')" by blast
  from seeding.main_keeps [OF assms(3) run] assms(4) run show ?thesis by auto
qed

end
