(* ===== verification/Http_Witnesses.thy ===== *)
theory Http_Witnesses
  imports Witnesses Auth_Witnesses Retry_Answers Append_Only Token_Access Seed_Script
begin

text \<open>
  The theorems on whole requests at concrete inputs: the sample database behind an application
  with an administrator's key and the hash of Auth_Witnesses, and requests nothing interferes with.
\<close>

section \<open>An application and its requests\<close>

definition plain_codec :: cursor_codec where
  "plain_codec = \<lparr>to_base64url = (\<lambda>s. s), from_base64url = (\<lambda>s. s), json_parse = (\<lambda>s. None),
    date_parses = (\<lambda>s. False), timestamptz_in = (\<lambda>s. None)\<rparr>"

definition sample_options :: app_options where
  "sample_options = \<lparr>op_adminApiKey = ''admin'', op_verify = None, op_outbox = True,
    op_ajv = (\<lambda>sch v. if conforms sch v then Some v else None), op_sha256_hex = sample_hash, op_nfc = (\<lambda>s. s), op_codec = plain_codec\<rparr>"

definition quiet_request :: request_env where
  "quiet_request = \<lparr>rv_random_id = ''r'', rv_clock = 1700000000000, rv_now = t0, rv_id = sample_transfer_id,
    rv_key_body = replicate 43 (CHR ''B''), rv_between = (\<lambda>s. s), rv_provision = quiet_provision,
    rv_before = (\<lambda>s. s), rv_claims = (\<lambda>_. quiet_env t0 0 t0), rv_attempts = (\<lambda>_. quiet_attempt),
    rv_fund = quiet_funding, rv_before_settle = (\<lambda>s. s), rv_settle_fault = None, rv_read_fault = None\<rparr>"

definition keyed_request :: http_request where
  "keyed_request = \<lparr>hq_authorization = One_header (''Bearer '' @ alice_secret), hq_admin_key = No_header,
    hq_idempotency_key = One_header ''pay-9'', hq_request_id = No_header, hq_params = JObject [],
    hq_query = JObject [], hq_body = Inr (JObject []), hq_principalId = Some alice\<rparr>"

definition service_world :: app_world where
  "service_world = \<lparr>aw_transfers = sample_world, aw_log = []\<rparr>"

lemma service_world_db: "app_db service_world = sample_db"
  by (simp add: service_world_def sample_world_def)

text \<open>Nothing happens between the statements of \<open>quiet_request\<close>.\<close>

lemma quiet_parts:
  "rv_between quiet_request = (\<lambda>s. s)" "rv_before quiet_request = (\<lambda>s. s)"
  "rv_before_settle quiet_request = (\<lambda>s. s)" "rv_claims quiet_request = (\<lambda>_. quiet_env t0 0 t0)"
  "rv_attempts quiet_request = (\<lambda>_. quiet_attempt)" "rv_fund quiet_request = quiet_funding"
  "rv_provision quiet_request = quiet_provision" "rv_settle_fault quiet_request = None"
  by (simp_all only: quiet_request_def request_env.simps)

lemma quiet_within:
  "pv_before_reread quiet_provision = (\<lambda>s. s)" "fe_before_treasury quiet_funding = (\<lambda>s. s)"
  "fe_before_post quiet_funding = (\<lambda>s. s)" "at_before quiet_attempt = (\<lambda>s. s)"
  "ce_before_find (quiet_env a b c) = (\<lambda>s. s)" "ce_before_reclaim (quiet_env a b c) = (\<lambda>s. s)"
  "ce_before_reread (quiet_env a b c) = (\<lambda>s. s)"
  by (simp_all add: quiet_provision_def quiet_funding_def quiet_attempt_def quiet_env_def)

lemma quiet_interferences: "interferences quiet_request = {\<lambda>s. s}"
  unfolding interferences_def quiet_parts quiet_within by simp

lemma quiet_fair: "env_fair P quiet_request"
  by (simp add: env_fair_def quiet_interferences)

lemma keyed_secret: "extractBearerToken (hq_authorization keyed_request) = Some alice_secret"
proof -
  have letters: "\<not> js_space (of_char CHR ''B'')" "\<not> js_space (of_char CHR ''p'')" "\<not> js_space (of_char CHR ''A'')"
    by (simp_all add: js_space_def)
  have secret: "alice_secret \<noteq> []" "hd alice_secret = CHR ''p''" "last alice_secret = CHR ''A''"
    by (simp_all add: alice_secret_def)
  have "js_trim (''Bearer '' @ alice_secret) = ''Bearer '' @ alice_secret"
    by (rule js_trim_id) (use letters secret in \<open>simp_all del: of_char_of\<close>)
  moreover have "bearer_match (''Bearer '' @ alice_secret) = Some alice_secret"
    by code_simp
  moreover have "js_trim alice_secret = alice_secret"
    by (rule js_trim_id) (use letters secret in \<open>simp_all del: of_char_of\<close>)
  ultimately show ?thesis
    using secret by (simp add: extractBearerToken_def keyed_request_def)
qed

lemma keyed_key: "key_of_header (hq_idempotency_key keyed_request) = Inr (Some ''pay-9'')"
  by code_simp

lemma keyed_principal: "principalOf keyed_request = Inr alice"
  by code_simp

lemma sample_option_parts:
  "op_sha256_hex sample_options = sample_hash" "op_verify sample_options = None"
  by (simp_all add: sample_options_def)

section \<open>Access\<close>

lemma admin_routes_need_the_key_witness:
  "\<exists>msg. handle sample_options quiet_request Issue_key keyed_request service_world =
    refused quiet_request keyed_request msg service_world"
  using admin_routes_need_the_key [where route = Issue_key and req = keyed_request and opts = sample_options
      and env = quiet_request and w = service_world]
  by (simp add: keyed_request_def)

lemma alice_id: "p_id p = alice"
  if "key_opens sample_hash alice_secret sample_db p"
  using that unfolding key_opens_def by (auto simp: sample_db_def toPrincipal_def)

lemma customer_routes_run_as_the_key_owner_witness:
  "handle sample_options quiet_request List_accounts keyed_request service_world =
    let_in sample_options quiet_request List_accounts keyed_request
      (keyed_request\<lparr>hq_principalId := Some alice\<rparr>) service_world"
proof -
  have "auth_inv (app_db service_world)" by (simp add: service_world_db sample_auth)
  from customer_routes_run_as_the_key_owner [OF this, where route = List_accounts and req = keyed_request
      and opts = sample_options and env = quiet_request]
    alice_opens alice_id
  show ?thesis
    by (auto simp: keyed_secret service_world_db sample_option_parts split: if_splits)
qed

text \<open>A server wired for a project, whose one token is Alice's.\<close>

definition project_config :: AppConfig where
  "project_config = \<lparr>cf_adminApiKey = ''admin'', cf_databaseUrl = ''postgres://db'', cf_firebaseProjectId = Some ''pulse'',
    cf_host = ''0.0.0.0'', cf_logLevel = ''info'', cf_nodeEnv = ''test'',
    cf_outbox = \<lparr>oc_batchSize = 10, oc_claimLeaseSeconds = 300, oc_maxAttempts = 12, oc_pollIntervalMs = 1000\<rparr>,
    cf_port = 3000, cf_requestLimits = \<lparr>rl_bodyLimitBytes = 16384, rl_connectionTimeoutMs = 10000,
      rl_keepAliveTimeoutMs = 5000, rl_requestTimeoutMs = 30000\<rparr>\<rparr>"

definition alice_claims :: jwt_payload where
  "alice_claims = \<lparr>jp_iat = Some 1699999990, jp_auth_time = Some 1699999980, jp_sub = Some ''alice-uid'',
    jp_name = None, jp_email = None, jp_email_verified = Some True\<rparr>"

definition sample_jose :: "int \<Rightarrow> jwt_options \<Rightarrow> string \<Rightarrow> jose_error + jwt_payload" where
  "sample_jose now options token =
    (if token = ''BA'' \<and> jo_audience options = ''pulse'' then Inr alice_claims else Inl JWTInvalid)"

definition token_request :: http_request where
  "token_request = keyed_request\<lparr>hq_authorization := One_header ''Bearer BA''\<rparr>"

lemma token_bearer: "extractBearerToken (hq_authorization token_request) = Some ''BA''"
proof -
  have letters: "\<not> js_space (of_char CHR ''B'')" "\<not> js_space (of_char CHR ''A'')"
    by (simp_all add: js_space_def)
  have "js_trim ''Bearer BA'' = ''Bearer BA''" "js_trim ''BA'' = ''BA''"
    by (rule js_trim_id; use letters in \<open>simp del: of_char_of\<close>)+
  moreover have "bearer_match ''Bearer BA'' = Some ''BA''" by code_simp
  ultimately show ?thesis by (simp add: extractBearerToken_def token_request_def)
qed

lemma alice_token: "token_accepted sample_jose ''pulse'' 1700000000000 ''BA'' ''alice-uid''"
  by (simp add: token_accepted_def sample_jose_def alice_claims_def)

lemma token_of_alice: "token_accepted sample_jose ''pulse'' now ''BA'' subject \<Longrightarrow> subject = ''alice-uid''"
  by (auto simp: token_accepted_def sample_jose_def alice_claims_def)

lemma id_token_signs_in_its_subject_witness:
  "let opts = server_options project_config sample_jose (\<lambda>sch v. Some v) sample_hash (\<lambda>s. s) plain_codec in
    (\<exists>e w1. handle opts quiet_request List_accounts token_request service_world =
      respond (request_id quiet_request token_request) (io_throw e) w1 \<and> auth_inv (app_db w1)) \<or>
    (\<exists>p w1. identity_of (''firebase'', ''alice-uid'') p (app_db w1) \<and> p_status p = Principal_active \<and>
      handle opts quiet_request List_accounts token_request service_world =
        let_in opts quiet_request List_accounts token_request (token_request\<lparr>hq_principalId := Some (p_id p)\<rparr>) w1)"
proof -
  have fair: "sign_in_fair (rv_between quiet_request)" "sign_in_fair (pv_before_reread (rv_provision quiet_request))"
    by (simp_all add: quiet_parts quiet_within fair_id)
  have clock: "rv_clock quiet_request = 1700000000000" by (simp add: quiet_request_def)
  have inv: "auth_inv (app_db service_world)" by (simp add: service_world_db sample_auth)
  have project: "cf_firebaseProjectId project_config = Some ''pulse''" by (simp add: project_config_def)
  have kind: "\<not> starts_with ''BA'' apiKeyTag" by code_simp
  have scope: "scope_of List_accounts = Customer" and some: "''pulse'' \<noteq> []" by simp_all
  have accepted: "\<exists>subject. token_accepted sample_jose ''pulse'' (rv_clock quiet_request) ''BA'' subject"
    using alice_token by (auto simp: clock)
  from id_token_signs_in_its_subject [where route = List_accounts and jwtVerify = sample_jose,
      OF inv scope project some refl token_bearer kind fair, where ajv = "\<lambda>sch v. Some v" and sha256_hex = sample_hash and
      nfc = "\<lambda>s. s" and codec = plain_codec, unfolded if_P [OF accepted]]
  show ?thesis unfolding Let_def
    by (elim disjE exE conjE) (auto dest!: token_of_alice simp only: simp_thms)
qed

lemma reads_are_scoped_to_the_caller_witness:
  "findOwnedById bob_account alice sample_db = None \<and>
   (\<exists>a. findOwnedById alice_account alice sample_db = Some a \<and> owns alice (ac_id a) sample_db)"
proof -
  have "findOwnedById bob_account alice sample_db = None" by code_simp
  moreover have "findOwnedById alice_account alice sample_db \<noteq> None" by code_simp
  ultimately show ?thesis
    using reads_are_scoped_to_the_caller [where codec = plain_codec and pid = alice and s = sample_db] by blast
qed

section \<open>Runs and retries\<close>

text \<open>A run of one request from the migrated database.\<close>

definition first_world :: app_world where
  "first_world = \<lparr>aw_transfers = sample_world\<lparr>tw_db := initial_db t0\<rparr>, aw_log = []\<rparr>"

definition first_run :: db where
  "first_run = app_db (snd (handle sample_options quiet_request Create_principal
    (keyed_request\<lparr>hq_admin_key := One_header ''admin''\<rparr>) first_world))"

lemma first_run: "service_run sample_options (initial_db t0) first_run"
proof -
  have "service_run sample_options s' (f s')" if "f \<in> interferences quiet_request" for f s'
    using that by (simp add: quiet_interferences run_done)
  moreover have "service_run sample_options (initial_db t0) (app_db first_world)"
    by (simp add: first_world_def run_done)
  ultimately show ?thesis unfolding first_run_def by (intro run_request) blast+
qed

lemma reachable_states_are_sound_witness: "db_inv first_run \<and> auth_inv first_run"
  using reachable_states_are_sound [OF first_run] by blast

lemma service_refines_the_bank_witness: "bank_step\<^sup>*\<^sup>* (bank_of (initial_db t0)) (bank_of first_run)"
  using service_refines_the_bank [OF first_run initial_db_inv] by (rule conjunct1)

text \<open>A run of one transfer from the sample database.\<close>

lemma sample_transfer_run: "service_run sample_options sample_db
  (app_db (snd (handle sample_options quiet_request Post_transfer keyed_request service_world)))"
proof -
  have "service_run sample_options s' (f s')" if "f \<in> interferences quiet_request" for f s'
    using that by (simp add: quiet_interferences run_done)
  moreover have "service_run sample_options sample_db (app_db service_world)"
    by (simp add: service_world_db run_done)
  ultimately show ?thesis by (intro run_request) blast+
qed

lemma history_is_append_only_witness:
  "\<exists>new. journal_entries (app_db (snd (handle sample_options quiet_request Post_transfer keyed_request service_world))) =
    journal_entries sample_db @ new"
  using history_is_append_only [OF sample_transfer_run sample_inv] by blast


text \<open>Alice's first request with a new key, and a retry of it.\<close>

definition sample_body :: json where
  "sample_body = JObject [(''amountMinor'', JString ''250''), (''destinationAccountId'', JString bob_account),
    (''sourceAccountId'', JString alice_account)]"

lemma new_key_proceeds:
  "fst (claim_or_replay sample_options quiet_request (Some ''pay-9'') ''transfer'' alice sample_body service_world) = Inr None"
proof -
  have "fst (claimOrReplay (computeCanonicalFingerprint sample_hash) default_stale_timeout_ms
      (\<lambda>_. quiet_env t0 0 t0) ''pay-9'' ''transfer'' alice sample_body sample_db) = Inr None"
    by code_simp
  then show ?thesis
    by (simp add: claim_or_replay_def on_db_def on_transfers_def Let_def split_beta sample_option_parts quiet_parts
        service_world_db)
qed


section \<open>Seeding\<close>

text \<open>Two accounts and two transfers, with draws that alternate between the halves of the range.\<close>

definition alternating :: "nat \<Rightarrow> rat" where
  "alternating k = (if even k then 0 else 1 / 2)"

lemma alternating_vary: "draws_vary alternating"
  unfolding draws_vary_def
proof (intro conjI allI impI)
  fix n k :: nat and x :: int assume n: "2 \<le> n"
  have zero: "randomInt 0 (int n - 1) (alternating m) = 0" if "even m" for m
    using that by (simp add: randomInt_def alternating_def)
  have "(1::rat) \<le> of_nat n / 2" using n by simp
  then have half: "randomInt 0 (int n - 1) (alternating m) \<noteq> 0" if "odd m" for m
    using that by (simp add: randomInt_def alternating_def floor_eq_iff)
  have "randomInt 0 (int n - 1) (alternating (k + 0)) \<noteq> randomInt 0 (int n - 1) (alternating (k + 1))"
    using zero [of k] half [of "k + 1"] half [of k] zero [of "k + 1"] by (cases "even k") auto
  then show "\<exists>j. randomInt 0 (int n - 1) (alternating (k + j)) \<noteq> x" by metis
qed (simp_all add: alternating_def)

definition sample_seed :: seed_env where
  "sample_seed = \<lparr>se_accountCount = 2, se_transferCount = 2, se_draws = alternating, se_now = t0,
    se_principal_id = ''p9'', se_key_id = ''k9'', se_key_body = replicate 43 (CHR ''C''), se_between = (\<lambda>s. s),
    se_account_now = (\<lambda>i. t0), se_account_id = nat_text, se_fund = (\<lambda>i. quiet_funding),
    se_attempts = (\<lambda>i j. quiet_attempt), se_transfer_id = (\<lambda>i. sample_transfer_id), se_clock = (\<lambda>i. 0)\<rparr>"

definition seed_before :: seed_world where
  "seed_before = \<lparr>sd_world = sample_world, sd_draw = 0, sd_printed = []\<rparr>"

lemma seeding_ends_soundly_witness:
  "\<exists>r w'. seed_main sample_hash sample_seed 0 seed_before = Some (r, w') \<and> db_inv (seed_db w') \<and>
    outbox_events (seed_db w') = outbox_events sample_db"
proof -
  have before: "seed_db seed_before = sample_db" by (simp add: seed_before_def)
  have vary: "draws_vary (se_draws sample_seed)" by (simp add: sample_seed_def alternating_vary)
  have ids: "distinct (map (se_account_id sample_seed) [0..<se_accountCount sample_seed])" by code_simp
  have others: "others_keep P sample_seed" for P
    by (simp add: others_keep_def sample_seed_def quiet_within)
  from seeding_ends_soundly [OF vary ids others, where w = seed_before and sha256_hex = sample_hash and elapsedMs = 0]
  show ?thesis by (auto simp: before sample_inv)
qed

end
