(* ===== verification/Command_Lines.thy ===== *)
theory Command_Lines
  imports Config Canonical_Json Reconciliation Outbox_Worker
begin

text \<open>
  The operator's command lines: src/retention-cli.ts, the sweep of the two tables that may be
  swept, and src/modules/outbox/outbox-cli.ts, inspection and replay of parked events.
\<close>

section \<open>A command's run\<close>

text \<open>
  What a command meets: the environment variables, the clock at each reading in milliseconds, what
  PostgreSQL makes of the text of a uuid, what it answers to a value its types do not hold, and
  the connections that fail, per query.
\<close>

record cli_env =
  cl_variables :: environment
  cl_clock :: "nat \<Rightarrow> int"
  cl_uuid_in :: "string \<Rightarrow> uuid option"
  cl_refused :: js_error
  cl_faults :: "nat \<Rightarrow> js_error option"

text \<open>An error outside the try block ends the process; else: the lines, the exit code, the database.\<close>

datatype cli_result = Crashed js_error | Finished "cli_line list" nat db

text \<open>\<open>JSON.stringify(value, null, 2)\<close>\<close>

definition pretty_line :: "nat \<Rightarrow> string" where
  "pretty_line depth = CHR 0x0A # replicate (2 * depth) (CHR '' '')"

fun pretty_items :: "nat \<Rightarrow> string list \<Rightarrow> string" where
  "pretty_items depth [] = []"
| "pretty_items depth [s] = pretty_line depth @ s"
| "pretty_items depth (s # ss) = pretty_line depth @ s @ '','' @ pretty_items depth ss"

fun pretty :: "nat \<Rightarrow> json \<Rightarrow> string" where
  "pretty depth (JArray vs) =
    (if vs = [] then ''[]''
     else ''['' @ pretty_items (depth + 1) (map (pretty (depth + 1)) vs) @ pretty_line depth @ '']'')"
| "pretty depth (JObject kvs) =
    (if kvs = [] then ''{}''
     else ''{'' @ pretty_items (depth + 1) (map (\<lambda>kv. quote (fst kv) @ '': '' @ snd kv)
       (enumeration (map (\<lambda>kv. (fst kv, pretty (depth + 1) (snd kv))) kvs))) @ pretty_line depth @ ''}'')"
| "pretty depth v = stringify v"

section \<open>retention-cli.ts\<close>

definition defaultOutboxRetentionDays :: nat where
  "defaultOutboxRetentionDays = 30"

definition defaultIdempotencyRetentionDays :: nat where
  "defaultIdempotencyRetentionDays = 7"

text \<open>The argument after \<open>name\<close>, if \<open>name\<close> is there at all.\<close>

fun argument_after :: "string \<Rightarrow> string list \<Rightarrow> string option option" where
  "argument_after name [] = None"
| "argument_after name (a # as) =
    (if a = name then Some (case as of [] \<Rightarrow> None | b # _ \<Rightarrow> Some b) else argument_after name as)"

definition read_number :: "string list \<Rightarrow> string \<Rightarrow> nat \<Rightarrow> js_error + nat" where
  "read_number args name fallback =
    (case argument_after name args of
       None \<Rightarrow> Inr fallback
     | Some arg \<Rightarrow>
         (case positive_integer (case arg of None \<Rightarrow> Not_a_number | Some s \<Rightarrow> js_Number s) of
            Some n \<Rightarrow> Inr n
          | None \<Rightarrow> Inl (PlainError (name @ '' must be a positive integer''))))"

definition readOption :: "string list \<Rightarrow> string \<Rightarrow> nat \<Rightarrow> js_error + nat" where
  "readOption args name fallback = read_number args (''--'' @ name) fallback"

definition cutoffFor :: "int \<Rightarrow> nat \<Rightarrow> int" where
  "cutoffFor now days = now - int days * 24 * 60 * 60 * 1000"

text \<open>
  A query's parameters: \<open>toISOString\<close> throws outside the range of a \<open>Date\<close>, PostgreSQL has no
  year 0, and LIMIT is a \<open>bigint\<close>.
\<close>

definition sendable :: "cli_env \<Rightarrow> nat \<Rightarrow> int \<Rightarrow> nat \<Rightarrow> js_error + unit" where
  "sendable env query cutoff limit =
    (if 8640000000000000 < \<bar>cutoff\<bar> then Inl (PlainError ''Invalid time value'')
     else
       (case cl_faults env query of
          Some e \<Rightarrow> Inl e
        | None \<Rightarrow> if cutoff < - 62135596800000 \<or> bigint_max < int limit then Inl (cl_refused env) else Inr ()))"

definition sweep_json :: "int \<Rightarrow> string \<Rightarrow> nat \<Rightarrow> nat \<Rightarrow> json" where
  "sweep_json cutoff name n days =
    JObject [(''cutoff'', JString (iso_of_ms cutoff)), (name, JNumber (nat_text n)),
             (''retentionDays'', JNumber (nat_text days))]"

definition report_line :: "bool \<Rightarrow> json \<Rightarrow> json \<Rightarrow> cli_line" where
  "report_line dryRun idempotencyRecords outboxEvents =
    Stdout (pretty 0 (JObject [(''dryRun'', JBool dryRun), (''idempotencyRecords'', idempotencyRecords),
      (''outboxEvents'', outboxEvents)]))"

definition sweep_line :: "nat \<Rightarrow> nat \<Rightarrow> cli_line" where
  "sweep_line outboxRemoved idempotencyRemoved =
    Stdout (''Retention sweep complete: '' @ nat_text outboxRemoved @ '' outbox event(s), '' @
      nat_text idempotencyRemoved @ '' idempotency record(s) removed. '' @
      ''consumer_inbox and audit_effects are never swept (see ADR-006).'')"

definition failed_run :: "js_error \<Rightarrow> db \<Rightarrow> cli_result" where
  "failed_run e s = Finished [Stderr (error_message e)] 1 s"

definition retention_options :: "environment \<Rightarrow> string list \<Rightarrow> js_error + nat \<times> nat \<times> nat" where
  "retention_options variables args =
    and_then (readOption args ''outbox-days'' defaultOutboxRetentionDays) (\<lambda>outboxDays.
    and_then (readOption args ''idempotency-days'' defaultIdempotencyRetentionDays) (\<lambda>idempotencyDays.
    and_then (readOption args ''batch-size'' (nat outboxDefaultPurgeBatchSize)) (\<lambda>batchSize.
    and_then (loadConfig variables) (\<lambda>_. Inr (outboxDays, idempotencyDays, batchSize)))))"

text \<open>The dry run counts with the predicates the deletes use.\<close>

definition dry_run :: "cli_env \<Rightarrow> nat \<times> int \<Rightarrow> nat \<times> int \<Rightarrow> db \<Rightarrow> cli_result" where
  "dry_run env outbox idempotency s =
    (case outbox of (outboxDays, outboxCutoff) \<Rightarrow> case idempotency of (idempotencyDays, idempotencyCutoff) \<Rightarrow>
      (case and_then (sendable env 0 outboxCutoff 0) (\<lambda>_. sendable env 1 idempotencyCutoff 0) of
         Inl e \<Rightarrow> failed_run e s
       | Inr _ \<Rightarrow>
           (let outboxCount = count_where (event_purgeable outboxCutoff) (outbox_events s);
                idempotencyCount = count_where (purgeable idempotencyCutoff) (idempotency_records s)
            in Finished
                 [report_line True (sweep_json idempotencyCutoff ''eligible'' idempotencyCount idempotencyDays)
                    (sweep_json outboxCutoff ''eligible'' outboxCount outboxDays)] 0 s)))"

text \<open>The sweep; \<open>None\<close> if a purge's loop did not end.\<close>

definition sweep :: "cli_env \<Rightarrow> nat \<Rightarrow> nat \<times> int \<Rightarrow> nat \<times> int \<Rightarrow> db \<Rightarrow> cli_result option" where
  "sweep env batchSize outbox idempotency s =
    (case outbox of (outboxDays, outboxCutoff) \<Rightarrow> case idempotency of (idempotencyDays, idempotencyCutoff) \<Rightarrow>
      (case sendable env 0 outboxCutoff batchSize of
         Inl e \<Rightarrow> Some (failed_run e s)
       | Inr _ \<Rightarrow>
           (case purgeProcessedBefore outboxCutoff (Some (of_nat batchSize)) s of
              None \<Rightarrow> None
            | Some (outboxRemoved, s1) \<Rightarrow>
                (case sendable env 1 idempotencyCutoff batchSize of
                   Inl e \<Rightarrow> Some (failed_run e s1)
                 | Inr _ \<Rightarrow>
                     (case purgeCompletedBefore idempotencyCutoff batchSize s1 of
                        None \<Rightarrow> None
                      | Some (idempotencyRemoved, s2) \<Rightarrow>
                          Some (Finished
                            [report_line False
                               (sweep_json idempotencyCutoff ''removed'' idempotencyRemoved idempotencyDays)
                               (sweep_json outboxCutoff ''removed'' outboxRemoved outboxDays),
                             sweep_line outboxRemoved idempotencyRemoved] 0 s2))))))"

definition retention_cli :: "cli_env \<Rightarrow> string list \<Rightarrow> db \<Rightarrow> cli_result option" where
  "retention_cli env args s =
    (case retention_options (cl_variables env) args of
       Inl e \<Rightarrow> Some (Crashed e)
     | Inr (outboxDays, idempotencyDays, batchSize) \<Rightarrow>
         (let outbox = (outboxDays, cutoffFor (cl_clock env 0) outboxDays);
              idempotency = (idempotencyDays, cutoffFor (cl_clock env 1) idempotencyDays)
          in if ''--dry-run'' \<in> set args then Some (dry_run env outbox idempotency s)
             else sweep env batchSize outbox idempotency s))"

section \<open>outbox-cli.ts\<close>

definition usage :: string where
  "usage = ''Usage:'' @ CHR 0x0A # ''  npm run outbox list [--limit N]'' @ CHR 0x0A #
    ''  npm run outbox show <event-id>'' @ CHR 0x0A # ''  npm run outbox replay <event-id>'' @ CHR 0x0A #
    ''  npm run outbox replay --all''"

definition readLimit :: "string list \<Rightarrow> js_error + nat" where
  "readLimit args = read_number args ''--limit'' (nat outboxDefaultListLimit)"

definition summarize :: "OutboxRecord \<Rightarrow> string" where
  "summarize event =
    (let error = (case oe_lastError event of
           None \<Rightarrow> ''(no error recorded)''
         | Some e \<Rightarrow> if e = [] then ''(no error recorded)'' else takeWhile (\<lambda>c. c \<noteq> CHR 0x0A) e)
     in oe_id event @ ''  '' @ oe_eventType event @ ''  aggregate='' @ oe_aggregateId event @ ''  attempts='' @
        nat_text (oe_attempts event) @ CHR 0x0A # ''    created '' @ oe_createdAt event @
        CHR 0x0A # ''    last error: '' @ error)"

definition event_status_text :: "outbox_status \<Rightarrow> string" where
  "event_status_text st =
    (case st of Pending \<Rightarrow> ''pending'' | Processing \<Rightarrow> ''processing'' | Failed \<Rightarrow> ''failed'' | Processed \<Rightarrow> ''processed'')"

definition nullable_json :: "string option \<Rightarrow> json" where
  "nullable_json v = (case v of None \<Rightarrow> JNull | Some s \<Rightarrow> JString s)"

definition event_json :: "OutboxRecord \<Rightarrow> json" where
  "event_json e = JObject
    [(''aggregateId'', JString (oe_aggregateId e)), (''aggregateType'', JString (oe_aggregateType e)),
     (''attempts'', JNumber (nat_text (oe_attempts e))), (''createdAt'', JString (oe_createdAt e)),
     (''eventType'', JString (oe_eventType e)), (''eventVersion'', JNumber (nat_text (oe_eventVersion e))),
     (''id'', JString (oe_id e)), (''lastError'', nullable_json (oe_lastError e)),
     (''nextAttemptAt'', nullable_json (oe_nextAttemptAt e)), (''payload'', oe_payload e),
     (''processedAt'', nullable_json (oe_processedAt e)),
     (''status'', JString (event_status_text (oe_status e)))]"

text \<open>A command's methods: the database, the lines so far and \<open>process.exitCode\<close>.\<close>

record cli_state =
  cs_db :: db
  cs_lines :: "cli_line list"
  cs_exit :: nat

type_synonym 'a cli_io = "(cli_state, js_error, 'a) io"

definition print :: "cli_line \<Rightarrow> unit cli_io" where
  "print l = io_modify (\<lambda>w. w\<lparr>cs_lines := cs_lines w @ [l]\<rparr>)"

definition fail_with :: "nat \<Rightarrow> unit cli_io" where
  "fail_with n = io_modify (\<lambda>w. w\<lparr>cs_exit := n\<rparr>)"

definition run_query :: "cli_env \<Rightarrow> nat \<Rightarrow> 'a db_tx \<Rightarrow> 'a cli_io" where
  "run_query env i m =
    (\<lambda>w. case query_or_fail (cl_faults env i) m (cs_db w) of (r, s) \<Rightarrow> (r, w\<lparr>cs_db := s\<rparr>))"

text \<open>A query about the event the operator names: PostgreSQL reads the text as a uuid first.\<close>

definition uuid_query :: "cli_env \<Rightarrow> nat \<Rightarrow> string \<Rightarrow> (uuid \<Rightarrow> 'a db_tx) \<Rightarrow> 'a cli_io" where
  "uuid_query env i text m =
    run_query env i (case cl_uuid_in env text of None \<Rightarrow> tx_throw (cl_refused env) | Some eid \<Rightarrow> m eid)"

definition required_id :: "string list \<Rightarrow> string \<Rightarrow> js_error + string" where
  "required_id args msg =
    (case args of
       [] \<Rightarrow> Inl (PlainError msg)
     | eid # _ \<Rightarrow> if eid = [] then Inl (PlainError msg) else Inr eid)"

fun print_all :: "cli_line list \<Rightarrow> unit cli_io" where
  "print_all [] = io_return ()"
| "print_all (l # ls) = io_bind (print l) (\<lambda>_. print_all ls)"

definition list_command :: "cli_env \<Rightarrow> string list \<Rightarrow> unit cli_io" where
  "list_command env args =
    io_bind (io_lift (readLimit args)) (\<lambda>limit.
    io_bind (run_query env 0 (if bigint_max < int limit then tx_throw (cl_refused env)
      else tx_get (listParked (Some (of_nat limit))))) (\<lambda>events.
    io_bind (run_query env 1 (tx_get countParked)) (\<lambda>total.
    if length events = 0
    then print (Stdout ''No parked events. The outbox has nothing waiting on a human.'')
    else
      io_bind (print (Stdout (nat_text total @ '' parked event(s); showing '' @ nat_text (length events) @
        '':'' @ [CHR 0x0A]))) (\<lambda>_.
      io_bind (print_all (map (\<lambda>e. Stdout (summarize e @ '' '' @ [CHR 0x0A])) events)) (\<lambda>_.
      print (Stdout ''Replay one with:  npm run outbox replay <event-id>''))))))"

definition show_command :: "cli_env \<Rightarrow> string list \<Rightarrow> unit cli_io" where
  "show_command env args =
    io_bind (io_lift (required_id args ''show requires an event id'')) (\<lambda>eid.
    io_bind (uuid_query env 0 eid (\<lambda>i. tx_get (findEventById i))) (\<lambda>event.
    case event of
      None \<Rightarrow> io_bind (print (Stderr (''No outbox event with id '' @ eid))) (\<lambda>_. fail_with 1)
    | Some e \<Rightarrow> print (Stdout (pretty 0 (event_json e)))))"

definition replay_command :: "cli_env \<Rightarrow> string list \<Rightarrow> unit cli_io" where
  "replay_command env args =
    (if args \<noteq> [] \<and> hd args = ''--all''
     then
       io_bind (run_query env 0 replayAllParked) (\<lambda>n.
       print (Stdout (''Returned '' @ nat_text n @ '' parked event(s) to the queue.'')))
     else
       io_bind (io_lift (required_id args ''replay requires an event id, or --all'')) (\<lambda>eid.
       io_bind (uuid_query env 0 eid replay) (\<lambda>done_it.
       if done_it then print (Stdout (''Event '' @ eid @ '' is pending again with a fresh attempt budget.''))
       else
         io_bind (uuid_query env 1 eid (\<lambda>i. tx_get (findEventById i))) (\<lambda>event.
         io_bind (print (Stderr (case event of
           Some e \<Rightarrow> ''Event '' @ eid @ '' is '' @ CHR 0x27 # event_status_text (oe_status e) @
             CHR 0x27 # '', not parked. Only an event that exhausted its attempts can be replayed.''
         | None \<Rightarrow> ''No outbox event with id '' @ eid))) (\<lambda>_. fail_with 1)))))"

definition outbox_command :: "cli_env \<Rightarrow> string option \<Rightarrow> string list \<Rightarrow> unit cli_io" where
  "outbox_command env command args =
    (if command = Some ''list'' then list_command env args
     else if command = Some ''show'' then show_command env args
     else if command = Some ''replay'' then replay_command env args
     else io_bind (print (Stderr usage)) (\<lambda>_. fail_with 1))"

definition outbox_cli :: "cli_env \<Rightarrow> string list \<Rightarrow> db \<Rightarrow> cli_result" where
  "outbox_cli env argv s =
    (case loadConfig (cl_variables env) of
       Inl e \<Rightarrow> Crashed e
     | Inr _ \<Rightarrow>
         (let command = (case argv of [] \<Rightarrow> None | c # _ \<Rightarrow> Some c);
              w = snd (io_catch (outbox_command env command (tl argv))
                (\<lambda>error.
                  io_bind (print (Stderr (error_message error))) (\<lambda>_.
                  io_bind (print (Stderr (CHR 0x0A # usage))) (\<lambda>_. fail_with 1)))
                \<lparr>cs_db = s, cs_lines = [], cs_exit = 0\<rparr>)
          in Finished (cs_lines w) (cs_exit w) (cs_db w)))"

end
