(* ===== verification/Command_Line_Theorems.thy ===== *)
theory Command_Line_Theorems
  imports Command_Lines Outbox_Delivery Witnesses
begin

text \<open>
  What the operator can rely on: a dry run tells what the sweep would do, the sweep ends and
  deletes nothing else, and the outbox command's exit code says whether an event was replayed.
\<close>

section \<open>The retention sweep\<close>

lemma readOption_dry_run: "readOption (''--dry-run'' # args) name fallback = readOption args name fallback"
  if "name \<in> {''outbox-days'', ''idempotency-days'', ''batch-size''}"
  using that by (auto simp: readOption_def read_number_def)

lemma retention_options_dry_run: "retention_options variables (''--dry-run'' # args) = retention_options variables args"
  by (simp add: retention_options_def readOption_dry_run)

lemma readOption_ge: "readOption args name fallback = Inr n \<Longrightarrow> 1 \<le> fallback \<Longrightarrow> 1 \<le> n"
  by (auto simp: readOption_def read_number_def dest: positive_integer_ge split: option.splits)

lemma retention_options_ge:
  assumes "retention_options variables args = Inr (outboxDays, idempotencyDays, batchSize)"
  shows "1 \<le> outboxDays \<and> 1 \<le> idempotencyDays \<and> 1 \<le> batchSize"
  using assms by (auto simp: retention_options_def and_then_Inr defaultOutboxRetentionDays_def
      defaultIdempotencyRetentionDays_def outboxDefaultPurgeBatchSize_def dest: readOption_ge)

lemma at_least_one_nat: "1 \<le> n \<Longrightarrow> at_least_one (of_nat n) = n"
  by (simp add: at_least_one_def)

lemma sendable_limit:
  "cl_faults env i = None \<Longrightarrow> int n \<le> bigint_max \<Longrightarrow> sendable env i cutoff n = sendable env i cutoff 0"
  by (simp add: sendable_def bigint_max_def)

text \<open>The state after the sweep of the outbox, and after both sweeps.\<close>

definition swept_outbox :: "int \<Rightarrow> db \<Rightarrow> db" where
  "swept_outbox cutoff s = s\<lparr>outbox_events := delete_where (event_purgeable cutoff) (outbox_events s)\<rparr>"

definition swept :: "int \<Rightarrow> int \<Rightarrow> db \<Rightarrow> db" where
  "swept cutoff cutoff' s = (swept_outbox cutoff s)\<lparr>idempotency_records :=
    delete_where (purgeable cutoff') (idempotency_records s)\<rparr>"

lemma purges_swept:
  assumes "db_inv s" and "1 \<le> n"
  shows "purgeProcessedBefore cutoff (Some (of_nat n)) s =
      Some (count_where (event_purgeable cutoff) (outbox_events s), swept_outbox cutoff s)"
    and "purgeCompletedBefore cutoff' n (swept_outbox cutoff s) =
      Some (count_where (purgeable cutoff') (idempotency_records s), swept cutoff cutoff' s)"
proof -
  have "0 < at_least_one (of_nat n)" using assms(2) by (simp add: at_least_one_nat)
  from outbox_purge.loop_cleans [OF this, where t = "outbox_events s" and removed = 0] db_inv_keys(3) [OF assms(1)]
  show "purgeProcessedBefore cutoff (Some (of_nat n)) s =
      Some (count_where (event_purgeable cutoff) (outbox_events s), swept_outbox cutoff s)"
    by (simp add: purgeProcessedBefore_def store_purgeProcessedBefore_def swept_outbox_def)
  have "0 < n" using assms(2) by simp
  from idempotency_purge.loop_cleans [OF this, where t = "idempotency_records s" and removed = 0]
    db_inv_keys(2) [OF assms(1)]
  show "purgeCompletedBefore cutoff' n (swept_outbox cutoff s) =
      Some (count_where (purgeable cutoff') (idempotency_records s), swept cutoff cutoff' s)"
    by (simp add: purgeCompletedBefore_def swept_def swept_outbox_def)
qed

text \<open>
  C33.  A dry run tells what the sweep will do.  With the same arguments, clock and database, and
  queries that get through: if the dry run finishes, it has changed nothing, and the sweep ends
  too, removes exactly the numbers of rows the dry run announced, which are the processed events
  and the completed records older than their cutoffs, and leaves every other row and table alone;
  if the dry run is refused, so is the sweep.
\<close>

theorem dry_run_predicts_the_sweep:
  assumes inv: "db_inv s" and through: "\<forall>i. cl_faults env i = None" and wet: "''--dry-run'' \<notin> set args"
    and batch: "\<forall>a b n. retention_options (cl_variables env) args = Inr (a, b, n) \<longrightarrow> int n \<le> bigint_max"
  shows "case retention_cli env (''--dry-run'' # args) s of
      None \<Rightarrow> False
    | Some (Crashed e) \<Rightarrow> retention_cli env args s = Some (Crashed e)
    | Some (Finished printed code s') \<Rightarrow> s' = s \<and>
        (if code = 0
         then \<exists>outboxDays idempotencyDays batchSize.
           let outboxCutoff = cutoffFor (cl_clock env 0) outboxDays;
               idempotencyCutoff = cutoffFor (cl_clock env 1) idempotencyDays;
               n = count_where (event_purgeable outboxCutoff) (outbox_events s);
               k = count_where (purgeable idempotencyCutoff) (idempotency_records s) in
           retention_options (cl_variables env) args = Inr (outboxDays, idempotencyDays, batchSize) \<and>
           printed = [report_line True (sweep_json idempotencyCutoff ''eligible'' k idempotencyDays)
             (sweep_json outboxCutoff ''eligible'' n outboxDays)] \<and>
           retention_cli env args s = Some (Finished
             [report_line False (sweep_json idempotencyCutoff ''removed'' k idempotencyDays)
                (sweep_json outboxCutoff ''removed'' n outboxDays), sweep_line n k] 0
             (swept outboxCutoff idempotencyCutoff s))
         else \<exists>s''. retention_cli env args s = Some (Finished printed code s'') \<and>
           (s'' = s \<or> (\<exists>cutoff. s'' = swept_outbox cutoff s)))"
proof (cases "retention_options (cl_variables env) args")
  case (Inl e)
  then show ?thesis by (simp add: retention_cli_def retention_options_dry_run)
next
  case (Inr options)
  obtain outboxDays idempotencyDays n where opts: "options = (outboxDays, idempotencyDays, n)" by (cases options)
  let ?oc = "cutoffFor (cl_clock env 0) outboxDays" and ?ic = "cutoffFor (cl_clock env 1) idempotencyDays"
  have n: "1 \<le> n" "int n \<le> bigint_max"
    using Inr batch opts retention_options_ge by blast+
  have send: "sendable env i c n = sendable env i c 0" for i c
    by (rule sendable_limit) (use through n in simp_all)
  have dry: "retention_cli env (''--dry-run'' # args) s =
      Some (dry_run env (outboxDays, ?oc) (idempotencyDays, ?ic) s)"
    and real: "retention_cli env args s = sweep env n (outboxDays, ?oc) (idempotencyDays, ?ic) s"
    using Inr opts wet by (simp_all add: retention_cli_def retention_options_dry_run)
  show ?thesis
  proof (cases "and_then (sendable env 0 ?oc 0) (\<lambda>_. sendable env 1 ?ic 0)")
    case (Inl e)
    then show ?thesis
      using dry real purges_swept [OF inv n(1)]
      by (auto simp: dry_run_def sweep_def send and_then_def failed_run_def split: sum.splits)
  next
    case (Inr u)
    then show ?thesis
      using dry real opts \<open>retention_options _ _ = Inr options\<close> purges_swept [OF inv n(1)]
      by (auto simp: dry_run_def sweep_def send and_then_def Let_def split: sum.splits)
  qed
qed

text \<open>The migrated database behind the sample environment: nothing to sweep, and the sweep says so.\<close>

definition sample_cli :: cli_env where
  "sample_cli = \<lparr>cl_variables = sample_environment, cl_clock = (\<lambda>_. 1700000000000), cl_uuid_in = Some,
    cl_refused = PlainError ''refused'', cl_faults = (\<lambda>_. None)\<rparr>"

lemma sample_cli_parts:
  "cl_variables sample_cli = sample_environment" "cl_clock sample_cli i = 1700000000000"
  "cl_uuid_in sample_cli text = Some text" "cl_faults sample_cli i = None"
  by (simp_all add: sample_cli_def)

lemma sample_retention_options:
  "retention_options sample_environment [''--outbox-days'', nat_text 10] = Inr (10, 7, 1000)"
proof -
  obtain c where "loadConfig sample_environment = Inr c" using sample_environment_loads by blast
  moreover have "argument_after name [''--outbox-days'', nat_text 10] =
      (if name = ''--outbox-days'' then Some (Some (nat_text 10)) else if name = nat_text 10 then Some None else None)" for name
    by simp
  moreover have "hd (nat_text 10) = CHR ''1''" by code_simp
  ultimately show ?thesis
    by (auto simp: retention_options_def readOption_def read_number_def positive_integer_text and_then_def
        defaultIdempotencyRetentionDays_def outboxDefaultPurgeBatchSize_def)
qed

lemma dry_run_predicts_the_sweep_witness:
  "\<exists>printed s'. retention_cli sample_cli [''--outbox-days'', nat_text 10] sample_db = Some (Finished printed 0 s') \<and>
    s' = swept (cutoffFor 1700000000000 10) (cutoffFor 1700000000000 7) sample_db"
proof -
  let ?args = "[''--outbox-days'', nat_text 10]"
  have wet: "''--dry-run'' \<notin> set ?args"
  proof -
    have "nat_text 10 \<noteq> ''--dry-run''" by code_simp
    then show ?thesis by simp
  qed
  have through: "\<forall>i. cl_faults sample_cli i = None" by (simp add: sample_cli_parts)
  have options: "retention_options (cl_variables sample_cli) ?args = Inr (10, 7, 1000)"
    by (simp add: sample_cli_parts sample_retention_options)
  then have batch: "\<forall>a b n. retention_options (cl_variables sample_cli) ?args = Inr (a, b, n) \<longrightarrow> int n \<le> bigint_max"
    by (simp add: bigint_max_def)
  have "sendable sample_cli i (cutoffFor 1700000000000 10) n = Inr ()" "sendable sample_cli i (cutoffFor 1700000000000 7) n = Inr ()"
    if "n \<le> 1000" for i n
    using that by (simp_all add: sendable_def sample_cli_parts cutoffFor_def bigint_max_def)
  then have "retention_cli sample_cli (''--dry-run'' # ?args) sample_db =
      Some (Finished
        [report_line True
          (sweep_json (cutoffFor 1700000000000 7) ''eligible''
            (count_where (purgeable (cutoffFor 1700000000000 7)) (idempotency_records sample_db)) 7)
          (sweep_json (cutoffFor 1700000000000 10) ''eligible''
            (count_where (event_purgeable (cutoffFor 1700000000000 10)) (outbox_events sample_db)) 10)] 0 sample_db)"
    using options
    by (simp add: retention_cli_def retention_options_dry_run dry_run_def and_then_def sample_cli_parts Let_def)
  with dry_run_predicts_the_sweep [OF sample_inv through wet batch] options show ?thesis
    by (auto simp: Let_def sample_cli_parts)
qed

section \<open>Replaying from the command line\<close>

lemma run_query_Some: "cl_faults env i = Some e \<Longrightarrow> run_query env i m w = (Inl e, w)"
  by (simp add: run_query_def query_or_fail_def io_throw_def)

lemma run_query_None:
  "cl_faults env i = None \<Longrightarrow> m (cs_db w) = Inr (a, s) \<Longrightarrow> run_query env i m w = (Inr a, w\<lparr>cs_db := s\<rparr>)"
  by (simp add: run_query_def query_or_fail_def auto_commit_def)

lemma run_query_throws: "m (cs_db w) = Inl e \<Longrightarrow> \<exists>e'. run_query env i m w = (Inl e', w)"
  by (cases "cl_faults env i") (simp_all add: run_query_def query_or_fail_def auto_commit_def io_throw_def)

text \<open>A query that only reads leaves the database, whether it is answered or not.\<close>

lemma run_query_reads: "\<exists>r. run_query env i (tx_get f) w = (r, w)"
  by (cases "cl_faults env i") (simp_all add: run_query_def query_or_fail_def auto_commit_def io_throw_def tx_get_def)

text \<open>
  C32.  The replay command's exit code is the truth.  It is 0 exactly when the text names an event
  that is parked, and the query got through; then that event, and no other, is pending again,
  claimable at once with a fresh budget.  Otherwise - a typing error, an event the worker still
  has, a database that cannot be reached - it is 1 and the database is as it was.
\<close>

theorem operator_replay_tells_the_truth:
  assumes "loadConfig (cl_variables env) = Inr c" and "text \<noteq> []" and "text \<noteq> ''--all''"
  shows "\<exists>printed code s'. outbox_cli env [''replay'', text] s = Finished printed code s' \<and> printed \<noteq> [] \<and>
    (if cl_faults env 0 = None \<and>
        (\<exists>r\<in>set (outbox_events s). Some (ob_id r) = cl_uuid_in env text \<and> parked r)
     then code = 0 \<and>
       s' = s\<lparr>outbox_events := update_where (\<lambda>r. Some (ob_id r) = cl_uuid_in env text \<and> parked r) replayed
         (outbox_events s)\<rparr> \<and>
       (\<forall>r now. claimable now (replayed r) \<and> ob_attempts (replayed r) = 0)
     else code = 1 \<and> s' = s)"
proof -
  let ?w = "\<lparr>cs_db = s, cs_lines = [], cs_exit = 0\<rparr>"
  have run: "outbox_cli env [''replay'', text] s =
      (let w = snd (io_catch (replay_command env [text])
          (\<lambda>error. io_bind (print (Stderr (error_message error))) (\<lambda>_.
            io_bind (print (Stderr (CHR 0x0A # usage))) (\<lambda>_. fail_with 1))) ?w)
       in Finished (cs_lines w) (cs_exit w) (cs_db w))"
    using assms(1) by (simp add: outbox_cli_def outbox_command_def)
  have cmd: "replay_command env [text] ?w =
      io_bind (uuid_query env 0 text replay) (\<lambda>done_it.
        if done_it then print (Stdout (''Event '' @ text @ '' is pending again with a fresh attempt budget.''))
        else io_bind (uuid_query env 1 text (\<lambda>i. tx_get (findEventById i))) (\<lambda>event.
          io_bind (print (Stderr (case event of
            Some e \<Rightarrow> ''Event '' @ text @ '' is '' @ CHR 0x27 # event_status_text (oe_status e) @
              CHR 0x27 # '', not parked. Only an event that exhausted its attempts can be replayed.''
          | None \<Rightarrow> ''No outbox event with id '' @ text))) (\<lambda>_. fail_with 1))) ?w"
    using assms(2,3) by (simp add: replay_command_def required_id_def io_steps)
  have fresh: "claimable now (replayed r) \<and> ob_attempts (replayed r) = 0" for r now
    by (simp add: replayed_def claimable_def due_def)
  show ?thesis
  proof (cases "\<exists>e. uuid_query env 0 text replay ?w = (Inl e, ?w)")
    case True
    then have "\<not> (cl_faults env 0 = None \<and> (\<exists>r\<in>set (outbox_events s). Some (ob_id r) = cl_uuid_in env text \<and> parked r))"
      by (cases "cl_uuid_in env text") (auto simp: uuid_query_def run_query_def query_or_fail_def auto_commit_def replay_eq)
    with True show ?thesis
      unfolding run io_catch_def cmd by (auto simp: io_catch_def io_bind_def print_def fail_with_def io_modify_def)
  next
    case False
    have known: "cl_uuid_in env text \<noteq> None"
    proof
      assume "cl_uuid_in env text = None"
      then have "\<exists>e. uuid_query env 0 text replay ?w = (Inl e, ?w)"
        using run_query_throws [of "tx_throw (cl_refused env)" ?w "cl_refused env" env 0]
        by (simp add: uuid_query_def tx_throw_def)
      with False show False ..
    qed
    then obtain eid where eid: "cl_uuid_in env text = Some eid" by blast
    have through: "cl_faults env 0 = None"
      using False run_query_Some [of env 0 _ _ ?w] by (cases "cl_faults env 0") (auto simp: uuid_query_def)
    let ?hit = "\<exists>r\<in>set (outbox_events s). ob_id r = eid \<and> parked r"
    let ?s' = "s\<lparr>outbox_events := update_where (\<lambda>r. ob_id r = eid \<and> parked r) replayed (outbox_events s)\<rparr>"
    have first: "uuid_query env 0 text replay ?w = (Inr ?hit, ?w\<lparr>cs_db := ?s'\<rparr>)"
      unfolding uuid_query_def eid option.case by (rule run_query_None [OF through]) (simp add: replay_eq)
    show ?thesis
    proof (cases ?hit)
      case True
      then show ?thesis
        unfolding run io_catch_def cmd using first through eid fresh
        by (simp add: io_catch_def io_bind_def print_def io_modify_def)
    next
      case False
      then have same: "?s' = s" by (simp add: update_where_none)
      obtain r where second: "uuid_query env 1 text (\<lambda>i. tx_get (findEventById i)) ?w = (r, ?w)"
        using run_query_reads [of env 1 "findEventById eid" ?w] by (auto simp: uuid_query_def eid)
      show ?thesis
        unfolding run io_catch_def cmd using first False same second eid
        by (cases r) (auto simp: io_catch_def io_bind_def print_def fail_with_def io_modify_def)
    qed
  qed
qed

lemma operator_replay_tells_the_truth_witness:
  "\<exists>printed s'. outbox_cli sample_cli [''replay'', parked_event] sample_db = Finished printed 0 s'"
proof -
  obtain c where "loadConfig (cl_variables sample_cli) = Inr c"
    using sample_environment_loads by (auto simp: sample_cli_parts)
  moreover have "parked_event \<noteq> []" "parked_event \<noteq> ''--all''" by (simp_all add: parked_event_def)
  moreover have "\<exists>r\<in>set (outbox_events sample_db). ob_id r = parked_event \<and> parked r"
    by (simp add: sample_db_def) (simp add: sample_event_def parked_def)
  ultimately show ?thesis
    using operator_replay_tells_the_truth [of sample_cli c parked_event sample_db] by (auto simp: sample_cli_parts)
qed

end
