(* ===== verification/Web_Money.thy ===== *)
theory Web_Money
  imports Js_Number
begin

text \<open>
  web/src/lib/money.ts: money between the customer's eye and the wire.  What is shown is UTF-8
  text (the rupee sign and the minus are not ASCII); what is typed is a text of single characters.
\<close>

section \<open>Showing\<close>

definition minorDigits :: nat where
  "minorDigits = 2"

definition symbols :: "string \<Rightarrow> string option" where
  "symbols currency =
    (if currency = ''INR'' then Some (utf8 [0x20B9]) else if currency = ''USD'' then Some ''$'' else None)"

text \<open>
  \<open>BigInt(text)\<close>: decimal with an optional sign, or one of the radix prefixes, between white space;
  \<open>None\<close> is the SyntaxError.
\<close>

definition js_BigInt :: "string \<Rightarrow> int option" where
  "js_BigInt s =
    (let t = js_trim s; prefix = take 2 t in
     if t = [] then Some 0
     else if prefix = ''0x'' \<or> prefix = ''0X'' then map_option int (radix_literal 16 (drop 2 t))
     else if prefix = ''0o'' \<or> prefix = ''0O'' then map_option int (radix_literal 8 (drop 2 t))
     else if prefix = ''0b'' \<or> prefix = ''0B'' then map_option int (radix_literal 2 (drop 2 t))
     else
       (case split_sign t of (negative, ds) \<Rightarrow>
          if ds \<noteq> [] \<and> list_all is_digit ds
          then Some (if negative then - int (digits_value ds) else int (digits_value ds)) else None))"

text \<open>
  \<open>toLocaleString\<close>: the digits in groups, from the right; the first of three, the others of three or,
  in en-IN, of two.
\<close>

function grouped_rev :: "nat \<Rightarrow> nat \<Rightarrow> string \<Rightarrow> string" where
  "grouped_rev n m ds =
    (if n = 0 \<or> length ds \<le> n then ds else take n ds @ CHR '','' # grouped_rev m m (drop n ds))"
  by auto
termination by (relation "measure (\<lambda>(n, m, ds). length ds)") auto

declare grouped_rev.simps [simp del]

definition toLocaleString :: "nat \<Rightarrow> int \<Rightarrow> string" where
  "toLocaleString m i =
    (if i < 0 then [CHR ''-''] else []) @ rev (grouped_rev 3 m (rev (nat_text (nat \<bar>i\<bar>))))"

text \<open>\<open>formatMinor\<close>; \<open>None\<close> when \<open>BigInt\<close> throws.\<close>

definition formatMinor :: "string \<Rightarrow> string \<Rightarrow> string option" where
  "formatMinor amountMinor currency =
    (let negative = starts_with amountMinor ''-'';
         digits = pad_left (minorDigits + 1) (if negative then drop 1 amountMinor else amountMinor);
         major = take (length digits - minorDigits) digits;
         minor = drop (length digits - minorDigits) digits
     in map_option (\<lambda>i.
          (if negative then utf8 [0x2212] else []) @
          (case symbols currency of Some s \<Rightarrow> s | None \<Rightarrow> currency @ '' '') @
          toLocaleString (if currency = ''INR'' then 2 else 3) i @ ''.'' @ minor) (js_BigInt major))"

section \<open>Reading\<close>

definition pad_right :: "nat \<Rightarrow> string \<Rightarrow> string" where
  "pad_right n s = s @ replicate (n - length s) (CHR ''0'')"

definition parseMajorToMinor :: "string \<Rightarrow> string option" where
  "parseMajorToMinor input =
    (let cleaned = filter (\<lambda>c. c \<noteq> CHR '','' \<and> \<not> js_space (of_char c)) input;
         whole = takeWhile is_digit cleaned; rest = dropWhile is_digit cleaned;
         result = (\<lambda>cents.
           let minor = digits_value whole * 100 + digits_value (pad_right minorDigits cents)
           in if 0 < minor then Some (nat_text minor) else None)
     in if whole = [] then None
        else
          (case rest of
             [] \<Rightarrow> result []
           | c # cents \<Rightarrow>
               if c = CHR ''.'' \<and> list_all is_digit cents \<and> (length cents = 1 \<or> length cents = 2)
               then result cents else None))"

section \<open>What is shown is read back\<close>

lemma filter_grouped_rev: "CHR '','' \<notin> set ds \<Longrightarrow> filter (\<lambda>c. c \<noteq> CHR '','') (grouped_rev n m ds) = ds"
proof (induction n m ds rule: grouped_rev.induct)
  case (1 n m ds)
  have keep: "filter (\<lambda>c. c \<noteq> CHR '','') xs = xs" if "CHR '','' \<notin> set xs" for xs
    using that by (induction xs) auto
  show ?case
  proof (cases "n = 0 \<or> length ds \<le> n")
    case True
    then show ?thesis using 1 keep by (simp add: grouped_rev.simps [of n m ds])
  next
    case False
    moreover have "CHR '','' \<notin> set (drop n ds)" "CHR '','' \<notin> set (take n ds)"
      using 1(2) in_set_dropD in_set_takeD by metis+
    ultimately show ?thesis
      using 1 keep by (simp add: grouped_rev.simps [of n m ds])
  qed
qed

lemma set_grouped_rev: "set (grouped_rev n m ds) \<subseteq> insert (CHR '','') (set ds)"
proof (induction n m ds rule: grouped_rev.induct)
  case (1 n m ds)
  then show ?case
    by (cases "n = 0 \<or> length ds \<le> n")
      (auto simp: grouped_rev.simps [of n m ds] dest: in_set_takeD in_set_dropD)
qed

lemma digit_not_comma: "is_digit c \<Longrightarrow> c \<noteq> CHR '','' \<and> \<not> js_space (of_char c)"
  by (auto simp: is_digit_def less_eq_char_def js_space_def)

lemma nat_text_small: "n < 10 \<Longrightarrow> nat_text n = [digit_char n]"
  by (simp add: nat_text.simps [of n])

lemma nat_text_big: "10 \<le> n \<Longrightarrow> nat_text n = nat_text (n div 10) @ [digit_char (n mod 10)]"
  by (simp add: nat_text.simps [of n])

lemma digit_char_0: "digit_char 0 = CHR ''0''"
  by code_simp

lemma nat_text_hundreds:
  "pad_left 3 (nat_text n) = nat_text (n div 100) @ [digit_char (n div 10 mod 10), digit_char (n mod 10)]"
proof -
  have div: "n div 10 div 10 = n div 100" by (simp add: div_mult2_eq [symmetric])
  consider "n < 10" | "10 \<le> n" "n < 100" | "100 \<le> n" by linarith
  then show ?thesis
  proof cases
    case 1
    then show ?thesis by (simp add: nat_text_small pad_left_def digit_char_0 numeral_2_eq_2)
  next
    case 2
    then have "nat_text n = [digit_char (n div 10), digit_char (n mod 10)]"
      by (simp add: nat_text_big [of n] nat_text_small)
    with 2 show ?thesis by (simp add: nat_text_small [of 0] pad_left_def digit_char_0)
  next
    case 3
    then have "nat_text n = nat_text (n div 100) @ [digit_char (n div 10 mod 10), digit_char (n mod 10)]"
      using nat_text_big [of n] nat_text_big [of "n div 10"] div by simp
    moreover have "Suc 0 \<le> length (nat_text (n div 100))" by (simp add: Suc_le_eq)
    ultimately show ?thesis by (simp add: pad_left_def)
  qed
qed

lemma js_BigInt_nat_text: "js_BigInt (nat_text n) = Some (int n)"
proof -
  let ?t = "nat_text n"
  have digits: "\<forall>c\<in>set ?t. is_digit c" using nat_text_digits [of n] by (simp add: list_all_iff)
  have all: "list_all is_digit ?t" by (rule nat_text_digits)
  show ?thesis
    using nat_text_prefix [of n] nat_text_trim [of n] nat_text_sign [of n] all
    by (simp add: js_BigInt_def Let_def)
qed

lemma parse_shown:
  "parseMajorToMinor (toLocaleString m (int (n div 100)) @ ''.'' @ [digit_char (n div 10 mod 10), digit_char (n mod 10)]) =
    (if 0 < n then Some (nat_text n) else None)"
proof -
  let ?cents = "[digit_char (n div 10 mod 10), digit_char (n mod 10)]"
  let ?major = "nat_text (n div 100)"
  let ?shown = "rev (grouped_rev 3 m (rev ?major))"
  have digits: "\<forall>c\<in>set ?major. is_digit c" using nat_text_digits by (simp add: list_all_iff)
  have cents: "\<forall>c\<in>set ?cents. is_digit c" by simp
  have plain: "\<forall>c\<in>set ?shown. c = CHR '','' \<or> is_digit c"
    using set_grouped_rev [of 3 m "rev ?major"] digits by auto
  have no_comma: "CHR '','' \<notin> set (rev ?major)" using digits digit_not_comma by auto
  have cleaned: "filter (\<lambda>c. c \<noteq> CHR '','' \<and> \<not> js_space (of_char c)) (?shown @ ''.'' @ ?cents) = ?major @ ''.'' @ ?cents"
  proof -
    have "filter (\<lambda>c. c \<noteq> CHR '','' \<and> \<not> js_space (of_char c)) ?shown = filter (\<lambda>c. c \<noteq> CHR '','') ?shown"
      using plain digit_not_comma by (intro filter_cong) auto
    also have "\<dots> = ?major"
      using filter_grouped_rev [OF no_comma, of 3 m] by (simp add: rev_filter [symmetric])
    finally have "filter (\<lambda>c. c \<noteq> CHR '','' \<and> \<not> js_space (of_char c)) ?shown = ?major" .
    moreover have "filter (\<lambda>c. c \<noteq> CHR '','' \<and> \<not> js_space (of_char c)) ?cents = ?cents"
      using cents digit_not_comma by simp
    moreover have "\<not> js_space (of_char CHR ''.'')" by (simp add: js_space_def)
    ultimately show ?thesis by simp
  qed
  have split: "takeWhile is_digit (?major @ ''.'' @ ?cents) = ?major" "dropWhile is_digit (?major @ ''.'' @ ?cents) = ''.'' @ ?cents"
    using digits by (simp_all add: takeWhile_append2 dropWhile_append2 is_digit_def less_eq_char_def)
  have "digits_value ?cents = n mod 100"
  proof -
    have "digits_value ?cents = 10 * (n div 10 mod 10) + n mod 10" by (simp add: digits_value_def)
    also have "\<dots> = n mod 100" using mod_mult2_eq [of n 10 10] by simp
    finally show ?thesis .
  qed
  then have "digits_value ?major * 100 + digits_value (pad_right minorDigits ?cents) = n"
    by (simp add: pad_right_def minorDigits_def)
  then show ?thesis
    unfolding parseMajorToMinor_def Let_def toLocaleString_def
    by (simp add: cleaned [simplified] split [simplified])
qed

lemma minus_is_no_digit: "\<not> starts_with (nat_text n) ''-''"
  using nat_text_hd [of n] digits_not_special [of "hd (nat_text n)"] by (cases "nat_text n") (auto simp: starts_with_def)

lemma formatMinor_nat_text:
  "formatMinor (nat_text n) currency =
    Some ((case symbols currency of Some s \<Rightarrow> s | None \<Rightarrow> currency @ '' '') @
      toLocaleString (if currency = ''INR'' then 2 else 3) (int (n div 100)) @ ''.'' @
      [digit_char (n div 10 mod 10), digit_char (n mod 10)])"
  using minus_is_no_digit [of n] nat_text_hundreds [of n]
  by (simp add: formatMinor_def minorDigits_def Let_def js_BigInt_nat_text)

text \<open>
  What the page shows of an amount is what the customer can type to get it.  Every amount is
  shown as the currency's sign and a text that, typed into the form, is read as the same amount;
  and whatever is typed, what the form sends is the canonical text of a positive amount - one the
  server's own parser accepts exactly when it fits its column.
\<close>

theorem shown_money_is_read_back:
  "(\<exists>text. formatMinor (nat_text n) currency =
      Some ((case symbols currency of Some s \<Rightarrow> s | None \<Rightarrow> currency @ '' '') @ text) \<and>
    parseMajorToMinor text = (if 0 < n then Some (nat_text n) else None)) \<and>
   (case parseMajorToMinor input of
      None \<Rightarrow> True
    | Some amount \<Rightarrow> \<exists>k. 0 < k \<and> amount = nat_text k \<and>
        fromMinor (StringArg amount) = (if int k \<le> maximumMoneyMinor then Inr (Money (int k))
          else Inl (invalid_amount ''Amount is outside the supported range'')))"
proof
  show "\<exists>text. formatMinor (nat_text n) currency =
      Some ((case symbols currency of Some s \<Rightarrow> s | None \<Rightarrow> currency @ '' '') @ text) \<and>
    parseMajorToMinor text = (if 0 < n then Some (nat_text n) else None)"
    using formatMinor_nat_text [of n currency] parse_shown by blast
next
  have parsed: "\<exists>k. 0 < k \<and> amount = nat_text k" if "parseMajorToMinor input = Some amount" for amount
    using that by (auto simp: parseMajorToMinor_def Let_def split: if_splits list.splits)
  have accepted: "fromMinor (StringArg (nat_text k)) = (if int k \<le> maximumMoneyMinor then Inr (Money (int k))
      else Inl (invalid_amount ''Amount is outside the supported range''))" if "0 < k" for k
    using that by (simp add: fromMinor_def is_positive_nat_text Let_def)
  show "case parseMajorToMinor input of
      None \<Rightarrow> True
    | Some amount \<Rightarrow> \<exists>k. 0 < k \<and> amount = nat_text k \<and>
        fromMinor (StringArg amount) = (if int k \<le> maximumMoneyMinor then Inr (Money (int k))
          else Inl (invalid_amount ''Amount is outside the supported range''))"
  proof (cases "parseMajorToMinor input")
    case (Some amount)
    with parsed obtain k where "0 < k" "amount = nat_text k" by blast
    with Some accepted show ?thesis by (auto intro!: exI [of _ k] simp del: of_nat_le_iff)
  qed simp
qed

end
