(* ===== verification/Web_Client.thy ===== *)
theory Web_Client
  imports Web_Money Canonical_Json Paging
begin

text \<open>
  The browser's side of the API: web/src/lib/session.ts, the credentials kept in the tab;
  web/src/lib/api.ts, the requests and what becomes of their answers; web/src/lib/use-async.ts,
  the loads of a page; and the decisions of web/src/lib/firebase.ts around the Firebase SDK.
\<close>

section \<open>session.ts\<close>

datatype slot = CustomerKey | AdminKey

text \<open>\<open>sessionStorage\<close> and the listeners, each with how often it was called.\<close>

record session =
  ss_storage :: "string \<Rightarrow> string option"
  ss_listeners :: "(nat \<times> nat) list"

definition storageKey :: "slot \<Rightarrow> string" where
  "storageKey s = ''pulseledger.'' @ (case s of CustomerKey \<Rightarrow> ''customerKey'' | AdminKey \<Rightarrow> ''adminKey'')"

definition readCredential :: "slot \<Rightarrow> session \<Rightarrow> string option" where
  "readCredential s w = ss_storage w (storageKey s)"

definition writeCredential :: "slot \<Rightarrow> string option \<Rightarrow> session \<Rightarrow> session" where
  "writeCredential s v w =
    w\<lparr>ss_storage := (ss_storage w)(storageKey s :=
        (case v of None \<Rightarrow> None | Some t \<Rightarrow> if t = [] then None else Some t)),
      ss_listeners := map (\<lambda>(l, n). (l, n + 1)) (ss_listeners w)\<rparr>"

text \<open>\<open>useCredential\<close>: subscribing, unsubscribing and the snapshot.\<close>

definition subscribe :: "nat \<Rightarrow> session \<Rightarrow> session" where
  "subscribe l w =
    (if l \<in> fst ` set (ss_listeners w) then w else w\<lparr>ss_listeners := ss_listeners w @ [(l, 0)]\<rparr>)"

definition unsubscribe :: "nat \<Rightarrow> session \<Rightarrow> session" where
  "unsubscribe l w = w\<lparr>ss_listeners := filter (\<lambda>x. fst x \<noteq> l) (ss_listeners w)\<rparr>"

lemma storageKey_inj [simp]: "storageKey s = storageKey s' \<longleftrightarrow> s = s'"
  by (cases s; cases s') (simp_all add: storageKey_def)

lemma read_write [simp]:
  "readCredential s (writeCredential s' v w) =
    (if s = s' then (case v of None \<Rightarrow> None | Some t \<Rightarrow> if t = [] then None else Some t) else readCredential s w)"
  by (simp add: readCredential_def writeCredential_def)

section \<open>Errors\<close>

text \<open>
  What a call can throw: an \<open>ApiError\<close>, or anything else - a broken body, an identity provider's
  error with its code, a plain error.
\<close>

datatype web_error =
    ApiError int json string "json option"
  | Other_error "string option" string

fun error_status :: "web_error \<Rightarrow> int option" where
  "error_status (ApiError status _ _ _) = Some status"
| "error_status (Other_error _ _) = None"

definition retryable_code :: "json \<Rightarrow> bool" where
  "retryable_code code \<longleftrightarrow> code = JString ''TRANSFER_RETRY_EXHAUSTED'' \<or> code = JString ''IDEMPOTENCY_IN_PROGRESS''"

text \<open>The getters, and \<open>caught instanceof ApiError && ...\<close>.\<close>

fun is_retryable :: "web_error \<Rightarrow> bool" where
  "is_retryable (ApiError _ code _ _) = retryable_code code"
| "is_retryable (Other_error _ _) = False"

fun isFinalAnswer :: "web_error \<Rightarrow> bool" where
  "isFinalAnswer (ApiError status code _ _) = (400 \<le> status \<and> status < 500 \<and> \<not> retryable_code code)"
| "isFinalAnswer (Other_error _ _) = False"

section \<open>request\<close>

datatype auth = Customer_auth | Admin_auth | No_auth

datatype http_method = GET | POST

record call_options =
  co_auth :: auth
  co_body :: "json option"
  co_headers :: "(string \<times> string) list"
  co_credential :: "string option"

record http_call =
  hc_method :: http_method
  hc_path :: string
  hc_headers :: "(string \<times> string) list"
  hc_body :: "string option"

datatype fetched =
    Unreachable
  | Responded int string string
  | Body_lost string

text \<open>Setting a property of the headers object.\<close>

definition set_header :: "string \<Rightarrow> string \<Rightarrow> (string \<times> string) list \<Rightarrow> (string \<times> string) list" where
  "set_header k v hs = (if k \<in> fst ` set hs then map (\<lambda>h. if fst h = k then (k, v) else h) hs else hs @ [(k, v)])"

text \<open>Which stored API key is used; the argument's credential, if any, wins over it.\<close>

definition chosen_key :: "slot \<Rightarrow> call_options \<Rightarrow> session \<Rightarrow> string option" where
  "chosen_key s options w =
    (case co_credential options of Some c \<Rightarrow> Some c | None \<Rightarrow> readCredential s w)"

definition used_api_key :: "call_options \<Rightarrow> session \<Rightarrow> bool" where
  "used_api_key options w \<longleftrightarrow>
    co_auth options = Customer_auth \<and> chosen_key CustomerKey options w \<noteq> None \<and> co_credential options = None"

text \<open>The call that is sent; \<open>token\<close> is what \<open>currentIdToken\<close> gives, which may throw.\<close>

definition outgoing ::
    "(web_error + string option) \<Rightarrow> http_method \<Rightarrow> string \<Rightarrow> call_options \<Rightarrow> session \<Rightarrow> web_error + http_call" where
  "outgoing token meth path options w =
    (let headers = (if co_body options = None then co_headers options
           else set_header ''content-type'' ''application/json'' (co_headers options));
         call = (\<lambda>hs. \<lparr>hc_method = meth, hc_path = path, hc_headers = hs,
           hc_body = map_option stringify (co_body options)\<rparr>)
     in case co_auth options of
          No_auth \<Rightarrow> Inr (call headers)
        | Admin_auth \<Rightarrow>
            Inr (call (set_header ''x-admin-api-key''
              (case chosen_key AdminKey options w of None \<Rightarrow> [] | Some k \<Rightarrow> k) headers))
        | Customer_auth \<Rightarrow>
            (case chosen_key CustomerKey options w of
               Some k \<Rightarrow> Inr (call (set_header ''authorization'' (''Bearer '' @ k) headers))
             | None \<Rightarrow>
                 (case token of
                    Inl e \<Rightarrow> Inl e
                  | Inr t \<Rightarrow> Inr (call (set_header ''authorization''
                      (''Bearer '' @ (case t of None \<Rightarrow> [] | Some s \<Rightarrow> s)) headers)))))"

text \<open>\<open>String(value)\<close>, which a message that is no text goes through.\<close>

fun js_String :: "json \<Rightarrow> string" where
  "js_String (JString s) = s"
| "js_String (JNumber n) = n"
| "js_String (JBool b) = (if b then ''true'' else ''false'')"
| "js_String JNull = ''null''"
| "js_String (JArray vs) = comma_separated (map (\<lambda>v. if v = JNull then [] else js_String v) vs)"
| "js_String (JObject kvs) = ''[object Object]''"

text \<open>\<open>envelope?.field\<close>, and \<open>??\<close> on it.\<close>

definition envelope_field :: "json option \<Rightarrow> string \<Rightarrow> json option" where
  "envelope_field payload name =
    (case payload of
       None \<Rightarrow> None
     | Some v \<Rightarrow>
         (case json_field v ''error'' of
            None \<Rightarrow> None
          | Some envelope \<Rightarrow> (case json_field envelope name of Some JNull \<Rightarrow> None | r \<Rightarrow> r)))"

text \<open>
  The answer; \<open>parse\<close> is \<open>JSON.parse\<close>, and \<open>usedApiKey\<close> was fixed when the call was sent.
\<close>

definition incoming ::
    "(string \<Rightarrow> json option) \<Rightarrow> call_options \<Rightarrow> bool \<Rightarrow> fetched \<Rightarrow> session \<Rightarrow> (web_error + json option) \<times> session" where
  "incoming parse options usedApiKey response w =
    (case response of
       Unreachable \<Rightarrow>
         (Inl (ApiError 0 (JString ''NETWORK_ERROR'') ''Cannot reach the PulseLedger API. Is it running?'' None), w)
     | Body_lost msg \<Rightarrow> (Inl (Other_error None msg), w)
     | Responded status statusText text \<Rightarrow>
         (let payload = (if text = [] then None else parse text) in
          if 200 \<le> status \<and> status < 300 then (Inr payload, w)
          else
            (let w' = (if status = 401 \<and> co_credential options = None \<and> (co_auth options = Admin_auth \<or> usedApiKey)
                   then writeCredential (if co_auth options = Customer_auth then CustomerKey else AdminKey) None w
                   else w)
             in (Inl (ApiError status
                   (case envelope_field payload ''code'' of
                      None \<Rightarrow> JString (''HTTP_'' @ bigint_text status) | Some v \<Rightarrow> v)
                   (case envelope_field payload ''message'' of
                      None \<Rightarrow> if statusText = [] then ''Request failed'' else statusText | Some v \<Rightarrow> js_String v)
                   (envelope_field payload ''requestId'')), w'))))"

text \<open>A whole request: another tab event may change the session while the answer is awaited.\<close>

definition web_request ::
    "(string \<Rightarrow> json option) \<Rightarrow> (web_error + string option) \<Rightarrow> (http_call \<Rightarrow> fetched) \<Rightarrow> (session \<Rightarrow> session)
      \<Rightarrow> http_method \<Rightarrow> string \<Rightarrow> call_options \<Rightarrow> session \<Rightarrow> (web_error + json option) \<times> session" where
  "web_request parse token fetch between meth path options w =
    (case outgoing token meth path options w of
       Inl e \<Rightarrow> (Inl e, w)
     | Inr call \<Rightarrow> incoming parse options (used_api_key options w) (fetch call) (between w))"

section \<open>api\<close>

definition unreserved :: "char \<Rightarrow> bool" where
  "unreserved c \<longleftrightarrow> is_digit c \<or> (CHR ''a'' \<le> c \<and> c \<le> CHR ''z'') \<or> (CHR ''A'' \<le> c \<and> c \<le> CHR ''Z'') \<or>
    c \<in> set ''-_.!~*()'' \<or> c = CHR 0x27"

definition upper_hex :: "nat \<Rightarrow> char" where
  "upper_hex d = (if d < 10 then char_of (48 + d) else char_of (55 + d))"

definition encodeURIComponent :: "string \<Rightarrow> string" where
  "encodeURIComponent s =
    concat (map (\<lambda>c. if unreserved c then [c]
      else [CHR 0x25, upper_hex (of_char c div 16), upper_hex (of_char c mod 16)]) (utf8 (map of_char s)))"

definition plain_options :: "auth \<Rightarrow> call_options" where
  "plain_options a = \<lparr>co_auth = a, co_body = None, co_headers = [], co_credential = None\<rparr>"

text \<open>Each method of \<open>api\<close> as its verb, path and options.\<close>

type_synonym api_call = "http_method \<times> string \<times> call_options"

definition list_accounts_call :: "string option \<Rightarrow> api_call" where
  "list_accounts_call cursor =
    (GET, ''/v1/accounts'' @ (case cursor of None \<Rightarrow> [] | Some c \<Rightarrow>
       if c = [] then [] else ''?cursor='' @ encodeURIComponent c), plain_options Customer_auth)"

definition create_account_call :: "string \<Rightarrow> api_call" where
  "create_account_call currency =
    (POST, ''/v1/accounts'', (plain_options Customer_auth)\<lparr>co_body := Some (JObject [(''currency'', JString currency)])\<rparr>)"

definition get_account_call :: "string \<Rightarrow> api_call" where
  "get_account_call aid = (GET, ''/v1/accounts/'' @ encodeURIComponent aid, plain_options Customer_auth)"

definition list_entries_call :: "string \<Rightarrow> string option \<Rightarrow> nat \<Rightarrow> (string \<Rightarrow> string) \<Rightarrow> api_call" where
  "list_entries_call aid cursor limit form_encode =
    (GET, ''/v1/accounts/'' @ encodeURIComponent aid @ ''/entries?limit='' @ nat_text limit @
       (case cursor of None \<Rightarrow> [] | Some c \<Rightarrow> if c = [] then [] else ''&cursor='' @ form_encode c),
     plain_options Customer_auth)"

definition transfer_body :: "string \<Rightarrow> string \<Rightarrow> string \<Rightarrow> json" where
  "transfer_body source destination amountMinor =
    JObject [(''sourceAccountId'', JString source), (''destinationAccountId'', JString destination),
             (''amountMinor'', JString amountMinor)]"

definition create_transfer_call :: "json \<Rightarrow> string \<Rightarrow> api_call" where
  "create_transfer_call input idempotencyKey =
    (POST, ''/v1/transfers'',
     (plain_options Customer_auth)\<lparr>co_body := Some input, co_headers := [(''idempotency-key'', idempotencyKey)]\<rparr>)"

definition get_transfer_call :: "string \<Rightarrow> api_call" where
  "get_transfer_call tid = (GET, ''/v1/transfers/'' @ encodeURIComponent tid, plain_options Customer_auth)"

definition create_principal_call :: "string \<Rightarrow> api_call" where
  "create_principal_call name =
    (POST, ''/v1/admin/principals'', (plain_options Admin_auth)\<lparr>co_body := Some (JObject [(''name'', JString name)])\<rparr>)"

definition issue_api_key_call :: "string \<Rightarrow> api_call" where
  "issue_api_key_call pid =
    (POST, ''/v1/admin/principals/'' @ encodeURIComponent pid @ ''/api-keys'', plain_options Admin_auth)"

definition revoke_api_key_call :: "string \<Rightarrow> api_call" where
  "revoke_api_key_call kid =
    (POST, ''/v1/admin/api-keys/'' @ encodeURIComponent kid @ ''/revoke'', plain_options Admin_auth)"

definition fund_call :: "string \<Rightarrow> string \<Rightarrow> string \<Rightarrow> api_call" where
  "fund_call accountId amountMinor idempotencyKey =
    (POST, ''/v1/admin/fund'',
     (plain_options Admin_auth)\<lparr>co_body :=
        Some (JObject [(''accountId'', JString accountId), (''amountMinor'', JString amountMinor)]),
      co_headers := [(''idempotency-key'', idempotencyKey)]\<rparr>)"

definition reconcile_call :: api_call where
  "reconcile_call = (POST, ''/v1/admin/reconcile'', plain_options Admin_auth)"

definition metrics_call :: api_call where
  "metrics_call = (GET, ''/v1/admin/metrics'', plain_options Admin_auth)"

definition verify_customer_key_call :: "string \<Rightarrow> api_call" where
  "verify_customer_key_call key = (GET, ''/v1/accounts'', (plain_options Customer_auth)\<lparr>co_credential := Some key\<rparr>)"

definition verify_admin_key_call :: "string \<Rightarrow> api_call" where
  "verify_admin_key_call key = (GET, ''/v1/admin/metrics'', (plain_options Admin_auth)\<lparr>co_credential := Some key\<rparr>)"

text \<open>
  \<open>listAccounts\<close>: at most 50 pages; \<open>fetch\<close> is a request for the page after a cursor, which may
  throw.  An empty cursor ends the loop as \<open>null\<close> does.
\<close>

fun list_accounts_loop ::
    "(string option \<Rightarrow> web_error + 'a list \<times> string option) \<Rightarrow> nat \<Rightarrow> string option \<Rightarrow> 'a list \<Rightarrow> web_error + 'a list" where
  "list_accounts_loop fetch 0 cursor found = Inr found"
| "list_accounts_loop fetch (Suc pages) cursor found =
    (case fetch cursor of
       Inl e \<Rightarrow> Inl e
     | Inr (page, nextCursor) \<Rightarrow>
         (case nextCursor of
            None \<Rightarrow> Inr (found @ page)
          | Some c \<Rightarrow>
              if c = [] then Inr (found @ page) else list_accounts_loop fetch pages (Some c) (found @ page)))"

definition listAccounts :: "(string option \<Rightarrow> web_error + 'a list \<times> string option) \<Rightarrow> web_error + 'a list" where
  "listAccounts fetch = list_accounts_loop fetch 50 None []"

text \<open>\<open>ready\<close>: a 503 is an answer.\<close>

definition ready_answer :: "web_error + json option \<Rightarrow> web_error + json option" where
  "ready_answer r =
    (case r of
       Inr v \<Rightarrow> Inr v
     | Inl e \<Rightarrow>
         if error_status e = Some 503 then Inr (Some (JObject [(''status'', JString ''unavailable'')])) else Inl e)"

section \<open>use-async.ts\<close>

text \<open>
  A load and its effect: mounting, a changed dependency or \<open>reload\<close> starts a run and cancels the one
  before; a run that settles after it was cancelled changes nothing.
\<close>

record 'a async =
  as_data :: "'a option"
  as_error :: "web_error option"
  as_loading :: bool
  as_run :: nat

definition async_initial :: "'a async" where
  "async_initial = \<lparr>as_data = None, as_error = None, as_loading = True, as_run = 0\<rparr>"

definition async_start :: "'a async \<Rightarrow> 'a async" where
  "async_start st = st\<lparr>as_loading := True, as_run := as_run st + 1\<rparr>"

definition async_settle :: "nat \<Rightarrow> web_error + 'a \<Rightarrow> 'a async \<Rightarrow> 'a async" where
  "async_settle run r st =
    (if run \<noteq> as_run st then st
     else
       (case r of
          Inr d \<Rightarrow> st\<lparr>as_data := Some d, as_error := None, as_loading := False\<rparr>
        | Inl e \<Rightarrow> st\<lparr>as_data := None, as_error := Some e, as_loading := False\<rparr>))"

section \<open>firebase.ts\<close>

definition friendlyMessages :: "(string \<times> string) list" where
  "friendlyMessages =
    [(''auth/email-already-in-use'', ''An account with this email already exists. Sign in instead.''),
     (''auth/invalid-credential'', ''Email or password is incorrect.''),
     (''auth/invalid-email'', ''That doesn'' @ utf8 [0x2019] @ ''t look like a valid email address.''),
     (''auth/missing-password'', ''Enter your password.''),
     (''auth/weak-password'', ''Choose a password of at least 6 characters.''),
     (''auth/too-many-requests'', ''Too many attempts. Wait a moment and try again.''),
     (''auth/popup-closed-by-user'', ''The Google sign-in window was closed before finishing.''),
     (''auth/popup-blocked'', ''Your browser blocked the Google sign-in popup. Allow popups and retry.''),
     (''auth/account-exists-with-different-credential'',
        ''This email is already registered with another sign-in method.''),
     (''auth/network-request-failed'', ''Network error reaching Firebase. Check your connection.''),
     (''auth/operation-not-allowed'', ''This sign-in method is not enabled in the Firebase console.''),
     (''auth/unauthorized-domain'', ''This domain is not authorized in Firebase Authentication settings.'')]"

fun firebaseErrorMessage :: "web_error \<Rightarrow> string" where
  "firebaseErrorMessage (Other_error code msg) =
    (case code of
       None \<Rightarrow> msg
     | Some c \<Rightarrow> (case map_of friendlyMessages c of Some text \<Rightarrow> text | None \<Rightarrow> msg))"
| "firebaseErrorMessage (ApiError _ code msg _) =
    (case code of
       JString c \<Rightarrow> (case map_of friendlyMessages c of Some text \<Rightarrow> text | None \<Rightarrow> msg)
     | _ \<Rightarrow> msg)"

text \<open>
  The SDK's state as far as the code reads it: whether it is configured, the signed-in user, and
  what its methods answer.
\<close>

record firebase_sdk =
  fb_configured :: bool
  fb_user :: "bool option"
  fb_reload :: "web_error + bool"
  fb_token :: "web_error + string"
  fb_fresh_token :: "web_error + string"

text \<open>\<open>user\<close> is whether the e-mail of the signed-in user is verified.\<close>

definition requireAuth :: "firebase_sdk \<Rightarrow> web_error + unit" where
  "requireAuth sdk = (if fb_configured sdk then Inr () else Inl (Other_error None ''Firebase is not configured''))"

definition refreshVerification :: "firebase_sdk \<Rightarrow> web_error + bool" where
  "refreshVerification sdk =
    (case requireAuth sdk of
       Inl e \<Rightarrow> Inl e
     | Inr _ \<Rightarrow>
         (case fb_user sdk of
            None \<Rightarrow> Inr False
          | Some _ \<Rightarrow>
              (case fb_reload sdk of
                 Inl e \<Rightarrow> Inl e
               | Inr verified \<Rightarrow>
                   if verified then (case fb_fresh_token sdk of Inl e \<Rightarrow> Inl e | Inr _ \<Rightarrow> Inr True) else Inr False)))"

definition currentIdToken :: "firebase_sdk \<Rightarrow> web_error + string option" where
  "currentIdToken sdk =
    (if \<not> fb_configured sdk then Inr None
     else
       (case fb_user sdk of
          None \<Rightarrow> Inr None
        | Some _ \<Rightarrow> (case fb_token sdk of Inl e \<Rightarrow> Inl e | Inr t \<Rightarrow> Inr (Some t))))"

end
