(* ===== verification/Web_Forms.thy ===== *)
theory Web_Forms
  imports Web_Client
begin

text \<open>
  The forms of the web client that move money, as state machines: \<open>SendMoney\<close> and \<open>History\<close> of
  web/src/pages/AccountDetail.tsx and \<open>Fund\<close> of web/src/pages/Admin.tsx.  An event is what the
  browser delivers - an edit, a submission, the answer to a call in flight, new props - with the
  \<open>crypto.randomUUID()\<close> its handler draws, if it draws one.  React runs a handler, renders, and runs
  the effects before the next event.
\<close>

section \<open>SendMoney\<close>

record web_account =
  wa_id :: uuid
  wa_currency :: string
  wa_balanceMinor :: string
  wa_status :: string
  wa_createdAt :: string

datatype destination_mode = Own_account | Other_account

text \<open>
  The component's props and state; the calls in flight, and all calls it ever made, each with its key
  and its body.
\<close>

record send_form =
  sm_source :: web_account
  sm_own :: "web_account list"
  sm_mode :: destination_mode
  sm_destination :: string
  sm_amount :: string
  sm_busy :: bool
  sm_error :: "web_error option"
  sm_receipt :: "(json \<times> string) option"
  sm_key :: string
  sm_flights :: "(string \<times> json) list"
  sm_sent :: "(string \<times> json) list"

definition candidates :: "send_form \<Rightarrow> web_account list" where
  "candidates st =
    filter (\<lambda>a. wa_id a \<noteq> wa_id (sm_source st) \<and> wa_currency a = wa_currency (sm_source st)) (sm_own st)"

text \<open>The effect that keeps one of the own accounts selected.\<close>

definition settle_destination :: "send_form \<Rightarrow> send_form" where
  "settle_destination st =
    (if sm_mode st = Own_account \<and> sm_destination st \<notin> wa_id ` set (candidates st)
     then st\<lparr>sm_destination := (case candidates st of [] \<Rightarrow> [] | a # _ \<Rightarrow> wa_id a)\<rparr> else st)"

definition send_edit :: "(send_form \<Rightarrow> send_form) \<Rightarrow> string \<Rightarrow> send_form \<Rightarrow> send_form" where
  "send_edit apply_edit key st = (apply_edit st)\<lparr>sm_key := key, sm_error := None\<rparr>"

text \<open>The body a submission would send; \<open>None\<close> when the form cannot be submitted.\<close>

definition send_body :: "send_form \<Rightarrow> json option" where
  "send_body st =
    (case parseMajorToMinor (sm_amount st) of
       None \<Rightarrow> None
     | Some amountMinor \<Rightarrow>
         if sm_destination st = [] then None
         else Some (transfer_body (wa_id (sm_source st)) (js_trim (sm_destination st)) amountMinor))"

definition send_submit :: "send_form \<Rightarrow> send_form" where
  "send_submit st =
    (case send_body st of
       None \<Rightarrow> st
     | Some body \<Rightarrow>
         st\<lparr>sm_busy := True, sm_error := None, sm_flights := sm_flights st @ [(sm_key st, body)],
            sm_sent := sm_sent st @ [(sm_key st, body)]\<rparr>)"

definition send_answered :: "nat \<Rightarrow> web_error + json \<Rightarrow> string \<Rightarrow> send_form \<Rightarrow> send_form" where
  "send_answered i answer key st =
    (if i < length (sm_flights st) then
       (let st' = st\<lparr>sm_busy := False, sm_flights := take i (sm_flights st) @ drop (Suc i) (sm_flights st)\<rparr> in
        case answer of
          Inr transfer \<Rightarrow>
            st'\<lparr>sm_receipt := Some (transfer, fst (sm_flights st ! i)), sm_amount := [], sm_key := key\<rparr>
        | Inl caught \<Rightarrow>
            st'\<lparr>sm_key := (if isFinalAnswer caught then key else sm_key st), sm_error := Some caught\<rparr>)
     else st)"

datatype send_event =
    Choose_mode destination_mode string
  | Type_destination string string
  | Type_amount string string
  | Submit_transfer
  | Transfer_answered nat "web_error + json" string
  | Send_props web_account "web_account list"

definition send_handler :: "send_event \<Rightarrow> send_form \<Rightarrow> send_form" where
  "send_handler ev st =
    (case ev of
       Choose_mode mode key \<Rightarrow> send_edit (\<lambda>st. st\<lparr>sm_mode := mode, sm_destination := []\<rparr>) key st
     | Type_destination text key \<Rightarrow> send_edit (\<lambda>st. st\<lparr>sm_destination := text\<rparr>) key st
     | Type_amount text key \<Rightarrow> send_edit (\<lambda>st. st\<lparr>sm_amount := text\<rparr>) key st
     | Submit_transfer \<Rightarrow> send_submit st
     | Transfer_answered i answer key \<Rightarrow> send_answered i answer key st
     | Send_props source own \<Rightarrow> st\<lparr>sm_source := source, sm_own := own\<rparr>)"

definition send_step :: "send_event \<Rightarrow> send_form \<Rightarrow> send_form" where
  "send_step ev st = settle_destination (send_handler ev st)"

definition send_mounted :: "web_account \<Rightarrow> web_account list \<Rightarrow> string \<Rightarrow> send_form" where
  "send_mounted source own key = settle_destination
    \<lparr>sm_source = source, sm_own = own, sm_mode = Own_account, sm_destination = [], sm_amount = [],
     sm_busy = False, sm_error = None, sm_receipt = None, sm_key = key, sm_flights = [], sm_sent = []\<rparr>"

text \<open>What is rendered: the chooser, the hint, the error, the one button, the key's first characters.\<close>

datatype destination_view = No_own_account | Own_select "uuid list" string | Destination_field string

datatype button_view = Retry_button bool string | Send_button bool string

record send_view =
  sv_chooser :: destination_view
  sv_hint :: "string option"
  sv_error :: "web_error option"
  sv_button :: button_view
  sv_key :: string
  sv_receipt :: "json option"

definition render_send :: "send_form \<Rightarrow> send_view" where
  "render_send st =
    \<lparr>sv_chooser =
       (case sm_mode st of
          Own_account \<Rightarrow>
            if candidates st = [] then No_own_account
            else Own_select (map wa_id (candidates st)) (sm_destination st)
        | Other_account \<Rightarrow> Destination_field (sm_destination st)),
     sv_hint =
       (if sm_amount st \<noteq> [] \<and> parseMajorToMinor (sm_amount st) = None
        then Some ''Enter a positive amount with up to two decimals.'' else None),
     sv_error = sm_error st,
     sv_button =
       (if (case sm_error st of None \<Rightarrow> False | Some e \<Rightarrow> is_retryable e)
        then Retry_button (sm_busy st)
          (if sm_busy st then ''Retrying'' @ utf8 [0x2026] else ''Retry safely (same idempotency key)'')
        else Send_button
          (sm_busy st \<or> parseMajorToMinor (sm_amount st) = None \<or> sm_destination st = [])
          (if sm_busy st then ''Sending'' @ utf8 [0x2026] else ''Send'')),
     sv_key = take 8 (sm_key st),
     sv_receipt = map_option fst (sm_receipt st)\<rparr>"

section \<open>History\<close>

text \<open>
  The first page is loaded on mount and whenever the account or the version changes, and a load that
  was overtaken is dropped; \<open>loadMore\<close> appends its page whenever it comes.
\<close>

record history =
  hi_account :: uuid
  hi_entries :: "json list"
  hi_cursor :: "string option"
  hi_loading :: bool
  hi_error :: "web_error option"
  hi_run :: nat
  hi_more :: "(uuid \<times> string) list"

datatype history_event =
    History_props uuid
  | First_page nat "web_error + json list \<times> string option"
  | Load_more
  | More_answered nat "web_error + json list \<times> string option"

definition history_step :: "history_event \<Rightarrow> history \<Rightarrow> history" where
  "history_step ev st =
    (case ev of
       History_props accountId \<Rightarrow>
         st\<lparr>hi_account := accountId, hi_loading := True, hi_error := None, hi_run := hi_run st + 1\<rparr>
     | First_page run answer \<Rightarrow>
         if run \<noteq> hi_run st then st
         else
           (case answer of
              Inr (page, nextCursor) \<Rightarrow>
                st\<lparr>hi_entries := page, hi_cursor := nextCursor, hi_loading := False\<rparr>
            | Inl caught \<Rightarrow> st\<lparr>hi_error := Some caught, hi_loading := False\<rparr>)
     | Load_more \<Rightarrow>
         (case hi_cursor st of
            None \<Rightarrow> st
          | Some c \<Rightarrow>
              if c = [] then st
              else st\<lparr>hi_loading := True, hi_error := None, hi_more := hi_more st @ [(hi_account st, c)]\<rparr>)
     | More_answered i answer \<Rightarrow>
         if i < length (hi_more st) then
           (let st' = st\<lparr>hi_more := take i (hi_more st) @ drop (Suc i) (hi_more st), hi_loading := False\<rparr> in
            case answer of
              Inr (page, nextCursor) \<Rightarrow> st'\<lparr>hi_entries := hi_entries st @ page, hi_cursor := nextCursor\<rparr>
            | Inl caught \<Rightarrow> st'\<lparr>hi_error := Some caught\<rparr>)
         else st)"

section \<open>Fund\<close>

record fund_form =
  ff_account :: string
  ff_amount :: string
  ff_busy :: bool
  ff_error :: "web_error option"
  ff_result :: "json option"
  ff_key :: string
  ff_flights :: "(string \<times> json) list"
  ff_sent :: "(string \<times> json) list"

datatype fund_event =
    Type_account string string
  | Type_fund_amount string string
  | Submit_funding
  | Funding_answered nat "web_error + json" string

definition fund_body :: "fund_form \<Rightarrow> json option" where
  "fund_body st =
    map_option (\<lambda>amountMinor.
      JObject [(''accountId'', JString (js_trim (ff_account st))), (''amountMinor'', JString amountMinor)])
      (parseMajorToMinor (ff_amount st))"

definition fund_submit :: "fund_form \<Rightarrow> fund_form" where
  "fund_submit st =
    (case fund_body st of
       None \<Rightarrow> st
     | Some body \<Rightarrow>
         st\<lparr>ff_busy := True, ff_error := None, ff_result := None,
            ff_flights := ff_flights st @ [(ff_key st, body)], ff_sent := ff_sent st @ [(ff_key st, body)]\<rparr>)"

definition fund_answered :: "nat \<Rightarrow> web_error + json \<Rightarrow> string \<Rightarrow> fund_form \<Rightarrow> fund_form" where
  "fund_answered i answer key st =
    (if i < length (ff_flights st) then
       (let st' = st\<lparr>ff_busy := False, ff_flights := take i (ff_flights st) @ drop (Suc i) (ff_flights st)\<rparr> in
        case answer of
          Inr result \<Rightarrow> st'\<lparr>ff_result := Some result, ff_key := key\<rparr>
        | Inl caught \<Rightarrow>
            st'\<lparr>ff_key := (if isFinalAnswer caught then key else ff_key st), ff_error := Some caught\<rparr>)
     else st)"

definition fund_step :: "fund_event \<Rightarrow> fund_form \<Rightarrow> fund_form" where
  "fund_step ev st =
    (case ev of
       Type_account text key \<Rightarrow> st\<lparr>ff_account := text, ff_key := key\<rparr>
     | Type_fund_amount text key \<Rightarrow> st\<lparr>ff_amount := text, ff_key := key\<rparr>
     | Submit_funding \<Rightarrow> fund_submit st
     | Funding_answered i answer key \<Rightarrow> fund_answered i answer key st)"

definition fund_mounted :: "string \<Rightarrow> fund_form" where
  "fund_mounted key =
    \<lparr>ff_account = [], ff_amount = [], ff_busy = False, ff_error = None, ff_result = None, ff_key = key,
     ff_flights = [], ff_sent = []\<rparr>"

definition render_fund_hint :: "fund_form \<Rightarrow> string" where
  "render_fund_hint st =
    (if ff_amount st \<noteq> [] \<and> parseMajorToMinor (ff_amount st) = None
     then ''Enter a positive amount with up to two decimals.''
     else ''Posts debit customer / credit treasury, balanced.'')"

definition fund_button_disabled :: "fund_form \<Rightarrow> bool" where
  "fund_button_disabled st \<longleftrightarrow>
    ff_busy st \<or> parseMajorToMinor (ff_amount st) = None \<or> js_trim (ff_account st) = []"

section \<open>A form with an intent\<close>

text \<open>Events one after the other, each admitted in the state it meets.\<close>

fun admitted_run :: "('e \<Rightarrow> 's \<Rightarrow> 's) \<Rightarrow> ('e \<Rightarrow> 's \<Rightarrow> bool) \<Rightarrow> 'e list \<Rightarrow> 's \<Rightarrow> bool" where
  "admitted_run step ok [] s = True"
| "admitted_run step ok (e # es) s = (ok e s \<and> admitted_run step ok es (step e s))"

text \<open>
  What makes a key stand for one request: a call carries the current key and body, and while a key
  that was sent stays, so does the body.
\<close>

locale intent_form =
  fixes key_of :: "'s \<Rightarrow> string" and body_of :: "'s \<Rightarrow> json option" and sent_of :: "'s \<Rightarrow> (string \<times> json) list"
    and step :: "'e \<Rightarrow> 's \<Rightarrow> 's" and drawn :: "'e \<Rightarrow> string list" and ok :: "'e \<Rightarrow> 's \<Rightarrow> bool"
  assumes sends: "ok e s \<Longrightarrow> sent_of (step e s) = sent_of s \<or>
      (\<exists>b. body_of s = Some b \<and> sent_of (step e s) = sent_of s @ [(key_of s, b)] \<and> key_of (step e s) = key_of s)"
    and keeps: "ok e s \<Longrightarrow> key_of (step e s) = key_of s \<Longrightarrow> key_of s \<notin> set (drawn e) \<Longrightarrow>
      key_of s \<in> fst ` set (sent_of (step e s)) \<Longrightarrow> body_of (step e s) = body_of s"
    and draws: "ok e s \<Longrightarrow> key_of (step e s) = key_of s \<or> key_of (step e s) \<in> set (drawn e)"
begin

definition one_body :: "string set \<Rightarrow> 's \<Rightarrow> bool" where
  "one_body used s \<longleftrightarrow>
    key_of s \<in> used \<and> fst ` set (sent_of s) \<subseteq> used \<and>
    (\<forall>k b b'. (k, b) \<in> set (sent_of s) \<longrightarrow> (k, b') \<in> set (sent_of s) \<longrightarrow> b = b') \<and>
    (\<forall>b. (key_of s, b) \<in> set (sent_of s) \<longrightarrow> body_of s = Some b)"

lemma step_one_body:
  assumes ok: "ok e s" and one: "one_body used s" and fresh: "set (drawn e) \<inter> used = {}"
  shows "one_body (used \<union> set (drawn e)) (step e s)"
proof -
  have key: "key_of s \<in> used" and old: "fst ` set (sent_of s) \<subseteq> used"
    and same: "\<And>k b b'. (k, b) \<in> set (sent_of s) \<Longrightarrow> (k, b') \<in> set (sent_of s) \<Longrightarrow> b = b'"
    and cur: "\<And>b. (key_of s, b) \<in> set (sent_of s) \<Longrightarrow> body_of s = Some b"
    using one unfolding one_body_def by blast+
  have sent: "sent_of (step e s) = sent_of s \<or>
      (\<exists>b. body_of s = Some b \<and> sent_of (step e s) = sent_of s @ [(key_of s, b)] \<and> key_of (step e s) = key_of s)"
    by (rule sends [OF ok])
  then have kept: "(k, b) \<in> set (sent_of (step e s)) \<Longrightarrow>
      (k, b) \<in> set (sent_of s) \<or> (k = key_of s \<and> body_of s = Some b)" for k b by auto
  have keys: "key_of (step e s) \<in> used \<union> set (drawn e)"
    using draws [OF ok] key by auto
  have sub: "fst ` set (sent_of (step e s)) \<subseteq> used"
    using sent by (elim disjE exE conjE) (use old key in simp_all)
  have unique: "b = b'" if "(k, b) \<in> set (sent_of (step e s))" "(k, b') \<in> set (sent_of (step e s))" for k b b'
    using kept [OF that(1)] kept [OF that(2)] same cur by (metis option.inject)
  have now: "body_of (step e s) = Some b" if s': "(key_of (step e s), b) \<in> set (sent_of (step e s))" for b
  proof -
    have "key_of (step e s) \<in> used" using sub s' by force
    then have "key_of (step e s) \<notin> set (drawn e)" using fresh by blast
    then have k: "key_of (step e s) = key_of s" using draws [OF ok] by blast
    have "key_of s \<notin> set (drawn e)" using key fresh by blast
    moreover have "key_of s \<in> fst ` set (sent_of (step e s))" using s' k by force
    ultimately have "body_of (step e s) = body_of s" by (rule keeps [OF ok k])
    moreover have "body_of s = Some b" using kept [OF s' [unfolded k]] cur by blast
    ultimately show ?thesis by simp
  qed
  show ?thesis unfolding one_body_def using keys sub unique now by blast
qed

lemma run_one_body:
  "admitted_run step ok es s \<Longrightarrow> one_body used s \<Longrightarrow> distinct (concat (map drawn es)) \<Longrightarrow>
    set (concat (map drawn es)) \<inter> used = {} \<Longrightarrow> one_body (used \<union> set (concat (map drawn es))) (fold step es s)"
proof (induction es arbitrary: s used)
  case (Cons e es)
  have "one_body (used \<union> set (drawn e)) (step e s)"
    by (rule step_one_body) (use Cons.prems in auto)
  moreover have "set (concat (map drawn es)) \<inter> (used \<union> set (drawn e)) = {}"
    using Cons.prems(3,4) by auto
  ultimately have "one_body ((used \<union> set (drawn e)) \<union> set (concat (map drawn es))) (fold step es (step e s))"
    by (intro Cons.IH) (use Cons.prems in auto)
  then show ?case by (simp add: Un_assoc)
qed simp

lemma one_key_one_body:
  assumes "admitted_run step ok es s" and "sent_of s = []" and "distinct (key_of s # concat (map drawn es))"
    and "(k, b) \<in> set (sent_of (fold step es s))" and "(k, b') \<in> set (sent_of (fold step es s))"
  shows "b = b'"
proof -
  have "one_body {key_of s} s" using assms(2) by (simp add: one_body_def)
  from run_one_body [OF assms(1) this] assms(3-) show ?thesis
    by (auto simp: one_body_def)
qed

end

end
