(* ===== verification/Web_Pages.thy ===== *)
theory Web_Pages
  imports Web_Client Database
begin

text \<open>
  The pages around the forms: the routes and guards of web/src/App.tsx, and how a visitor signs in -
  AdminLogin.tsx, UserLogin.tsx and VerifyEmail.tsx of web/src/pages.
\<close>

section \<open>App.tsx\<close>

text \<open>\<open>useFirebaseUser\<close>: unknown while the SDK restores a session, then nobody or a user.\<close>

datatype firebase_user = Restoring | Signed_out | Signed_in bool

definition initial_user :: "bool \<Rightarrow> firebase_user" where
  "initial_user configured = (if configured then Restoring else Signed_out)"

record visitor =
  vi_customerKey :: "string option"
  vi_adminKey :: "string option"
  vi_user :: firebase_user

datatype page =
    Landing_page | User_login_page | Admin_login_page
  | Restoring_page | Verify_email_page | Dashboard_page | Account_page string | Admin_page

text \<open>What a location renders: a page, or a \<open>Navigate\<close>.  A location is the path's segments.\<close>

type_synonym location = "string list"

datatype rendered = Render page | Navigate location

definition truthy_key :: "string option \<Rightarrow> bool" where
  "truthy_key k \<longleftrightarrow> (case k of None \<Rightarrow> False | Some s \<Rightarrow> s \<noteq> [])"

definition customer_page :: "visitor \<Rightarrow> page \<Rightarrow> rendered" where
  "customer_page v children =
    (if truthy_key (vi_customerKey v) then Render children
     else
       (case vi_user v of
          Restoring \<Rightarrow> Render Restoring_page
        | Signed_out \<Rightarrow> Navigate [''login'', ''user'']
        | Signed_in verified \<Rightarrow> if verified then Render children else Render Verify_email_page))"

definition admin_only :: "visitor \<Rightarrow> page \<Rightarrow> rendered" where
  "admin_only v children =
    (if truthy_key (vi_adminKey v) then Render children else Navigate [''login'', ''admin''])"

definition user_login :: "visitor \<Rightarrow> rendered" where
  "user_login v =
    (if truthy_key (vi_customerKey v) \<or> (case vi_user v of Signed_in verified \<Rightarrow> True | _ \<Rightarrow> False)
     then Navigate [''app''] else Render User_login_page)"

definition admin_login :: "visitor \<Rightarrow> rendered" where
  "admin_login v = (if truthy_key (vi_adminKey v) then Navigate [''admin''] else Render Admin_login_page)"

text \<open>Static segments are compared without regard to case, and \<open>:id\<close> takes any segment.\<close>

definition render_location :: "visitor \<Rightarrow> location \<Rightarrow> rendered" where
  "render_location v path =
    (case path of
       [] \<Rightarrow> Render Landing_page
     | [a] \<Rightarrow>
         if uuid_in a = ''app'' then customer_page v Dashboard_page
         else if uuid_in a = ''admin'' then admin_only v Admin_page
         else Navigate []
     | [a, b] \<Rightarrow>
         if uuid_in a = ''login'' \<and> uuid_in b = ''user'' then user_login v
         else if uuid_in a = ''login'' \<and> uuid_in b = ''admin'' then admin_login v
         else Navigate []
     | [a, b, c] \<Rightarrow>
         if uuid_in a = ''app'' \<and> uuid_in b = ''accounts'' then customer_page v (Account_page c) else Navigate []
     | _ \<Rightarrow> Navigate [])"

text \<open>The router follows redirects until a page is rendered, if ever.\<close>

partial_function (option) visit :: "visitor \<Rightarrow> location \<Rightarrow> page option" where
  "visit v path = (case render_location v path of Render p \<Rightarrow> Some p | Navigate to \<Rightarrow> visit v to)"

section \<open>Signing in with a key\<close>

text \<open>The form of AdminLogin.tsx or \<open>ApiKeySignIn\<close>; \<open>kf_flights\<close> are the candidates being verified.\<close>

record key_form =
  kf_key :: string
  kf_busy :: bool
  kf_error :: "string option"
  kf_flights :: "string list"

definition key_form_mounted :: key_form where
  "key_form_mounted = \<lparr>kf_key = [], kf_busy = False, kf_error = None, kf_flights = []\<rparr>"

datatype key_event =
    Type_key string
  | Submit_key
  | Key_answered nat "web_error + json option"

fun describe_admin :: "web_error \<Rightarrow> string" where
  "describe_admin (ApiError status code msg requestId) =
    (if status = 401 then ''That admin key was rejected. Check it matches ADMIN_API_KEY on the server.''
     else if code = JString ''NETWORK_ERROR'' then ''Cannot reach the ledger API. Is the server running on port 3000?''
     else msg @ '' ('' @ js_String code @ '')'')"
| "describe_admin (Other_error code msg) = ''Something went wrong. Try again.''"

fun describe_customer :: "web_error \<Rightarrow> string" where
  "describe_customer (ApiError status code msg requestId) =
    (if status = 401 then ''That API key is invalid or has been revoked.''
     else if code = JString ''NETWORK_ERROR'' then ''Cannot reach the ledger API. Is the server running?''
     else ''Something went wrong. Try again.'')"
| "describe_customer (Other_error code msg) = ''Something went wrong. Try again.''"

text \<open>What the two forms refuse before they ask the server.\<close>

definition admin_refusal :: "string \<Rightarrow> string option" where
  "admin_refusal candidate = (if candidate = [] then Some ''Enter the admin API key.'' else None)"

definition customer_refusal :: "string \<Rightarrow> string option" where
  "customer_refusal candidate =
    (if take 8 candidate \<noteq> ''pl_live_''
     then Some (''Customer API keys start with '' @ utf8 [0x201C] @ ''pl_live_'' @ utf8 [0x201D] @ ''.'') else None)"

definition key_form_step ::
    "slot \<Rightarrow> (string \<Rightarrow> string option) \<Rightarrow> (web_error \<Rightarrow> string) \<Rightarrow> key_event \<Rightarrow> key_form \<times> session \<Rightarrow> key_form \<times> session" where
  "key_form_step s refusal describe ev = (\<lambda>(st, w).
    (case ev of
       Type_key text \<Rightarrow> (st\<lparr>kf_key := text, kf_error := None\<rparr>, w)
     | Submit_key \<Rightarrow>
         (let candidate = js_trim (kf_key st) in
          case refusal candidate of
            Some msg \<Rightarrow> (st\<lparr>kf_error := Some msg\<rparr>, w)
          | None \<Rightarrow> (st\<lparr>kf_busy := True, kf_error := None, kf_flights := kf_flights st @ [candidate]\<rparr>, w))
     | Key_answered i answer \<Rightarrow>
         if i < length (kf_flights st) then
           (let st' = st\<lparr>kf_flights := take i (kf_flights st) @ drop (Suc i) (kf_flights st)\<rparr> in
            case answer of
              Inr _ \<Rightarrow> (st', writeCredential s (Some (kf_flights st ! i)) w)
            | Inl caught \<Rightarrow> (st'\<lparr>kf_error := Some (describe caught), kf_busy := False\<rparr>, w))
         else (st, w)))"

definition admin_login_step :: "key_event \<Rightarrow> key_form \<times> session \<Rightarrow> key_form \<times> session" where
  "admin_login_step = key_form_step AdminKey admin_refusal describe_admin"

definition customer_login_step :: "key_event \<Rightarrow> key_form \<times> session \<Rightarrow> key_form \<times> session" where
  "customer_login_step = key_form_step CustomerKey customer_refusal describe_customer"

text \<open>Where AdminLogin.tsx shows its error: at the field while that is empty, else below it.\<close>

definition admin_error_place :: "key_form \<Rightarrow> string option \<times> string option" where
  "admin_error_place st =
    (case kf_error st of
       None \<Rightarrow> (None, None)
     | Some e \<Rightarrow> if e = [] then (None, None) else if js_trim (kf_key st) = [] then (Some e, None) else (None, Some e))"

section \<open>Signing in with Firebase\<close>

text \<open>The functions of web/src/lib/firebase.ts that sign somebody in, over what the SDK's own answer.\<close>

definition with_auth :: "firebase_sdk \<Rightarrow> web_error + unit \<Rightarrow> web_error + unit" where
  "with_auth sdk r = (case requireAuth sdk of Inl e \<Rightarrow> Inl e | Inr _ \<Rightarrow> r)"

definition signUpWithEmail :: "firebase_sdk \<Rightarrow> web_error + unit \<Rightarrow> web_error + unit \<Rightarrow> web_error + unit" where
  "signUpWithEmail sdk created mailed =
    with_auth sdk (case created of Inl e \<Rightarrow> Inl e | Inr _ \<Rightarrow> mailed)"

definition resendVerification :: "firebase_sdk \<Rightarrow> web_error + unit \<Rightarrow> web_error + unit" where
  "resendVerification sdk mailed =
    with_auth sdk (case fb_user sdk of None \<Rightarrow> Inr () | Some _ \<Rightarrow> mailed)"

datatype email_mode = Mode_signin | Mode_signup | Mode_reset

datatype sign_in_kind = With_google | With_email

datatype firebase_action =
    Google_popup
  | Send_reset string
  | Sign_up string string
  | Sign_in string string

record email_form =
  ef_mode :: email_mode
  ef_email :: string
  ef_password :: string
  ef_busy :: "sign_in_kind option"
  ef_error :: "string option"
  ef_notice :: "string option"
  ef_flights :: "firebase_action list"
  ef_navigated :: "location option"

definition email_form_mounted :: email_form where
  "email_form_mounted = \<lparr>ef_mode = Mode_signin, ef_email = [], ef_password = [], ef_busy = None, ef_error = None,
    ef_notice = None, ef_flights = [], ef_navigated = None\<rparr>"

text \<open>\<open>run\<close> until its action is awaited: an API key of the tab is dropped first.\<close>

definition email_run :: "sign_in_kind \<Rightarrow> firebase_action \<Rightarrow> email_form \<times> session \<Rightarrow> email_form \<times> session" where
  "email_run kind action = (\<lambda>(st, w).
    (st\<lparr>ef_busy := Some kind, ef_error := None, ef_notice := None, ef_flights := ef_flights st @ [action]\<rparr>,
     writeCredential CustomerKey None w))"

definition email_submit :: "email_form \<times> session \<Rightarrow> email_form \<times> session" where
  "email_submit = (\<lambda>(st, w).
    (let email = js_trim (ef_email st) in
     if email = [] then (st\<lparr>ef_error := Some ''Enter your email address.''\<rparr>, w)
     else if ef_mode st = Mode_reset then email_run With_email (Send_reset email) (st, w)
     else if ef_password st = [] then (st\<lparr>ef_error := Some ''Enter your password.''\<rparr>, w)
     else if ef_mode st = Mode_signup then email_run With_email (Sign_up email (ef_password st)) (st, w)
     else email_run With_email (Sign_in email (ef_password st)) (st, w)))"

definition email_settled :: "firebase_action \<Rightarrow> web_error + unit \<Rightarrow> email_form \<Rightarrow> email_form" where
  "email_settled action answer st =
    (case answer of
       Inl caught \<Rightarrow> st\<lparr>ef_error := Some (firebaseErrorMessage caught), ef_busy := None\<rparr>
     | Inr _ \<Rightarrow>
         (case action of
            Send_reset email \<Rightarrow>
              st\<lparr>ef_notice := Some ''If an account exists for that address, a reset link is on its way.'',
                 ef_mode := Mode_signin, ef_busy := None\<rparr>
          | _ \<Rightarrow> st\<lparr>ef_navigated := Some [''app''], ef_busy := None\<rparr>))"

datatype email_event =
    Choose_email_mode email_mode
  | Type_email string
  | Type_password string
  | Click_google
  | Submit_email
  | Firebase_settled nat "web_error + unit"

definition email_step :: "email_event \<Rightarrow> email_form \<times> session \<Rightarrow> email_form \<times> session" where
  "email_step ev = (\<lambda>(st, w).
    (case ev of
       Choose_email_mode mode \<Rightarrow> (st\<lparr>ef_mode := mode\<rparr>, w)
     | Type_email text \<Rightarrow> (st\<lparr>ef_email := text\<rparr>, w)
     | Type_password text \<Rightarrow> (st\<lparr>ef_password := text\<rparr>, w)
     | Click_google \<Rightarrow> email_run With_google Google_popup (st, w)
     | Submit_email \<Rightarrow> email_submit (st, w)
     | Firebase_settled i answer \<Rightarrow>
         if i < length (ef_flights st) then
           (email_settled (ef_flights st ! i) answer
              (st\<lparr>ef_flights := take i (ef_flights st) @ drop (Suc i) (ef_flights st)\<rparr>), w)
         else (st, w)))"

section \<open>VerifyEmail.tsx\<close>

datatype tone = Ok_tone | Error_tone

datatype verify_action = Check_verified | Resend_link

record verify_form =
  ve_busy :: bool
  ve_message :: "(tone \<times> string) option"
  ve_verified :: nat

definition verify_started :: "verify_form \<Rightarrow> verify_form" where
  "verify_started st = st\<lparr>ve_busy := True, ve_message := None\<rparr>"

text \<open>\<open>answer\<close> is what \<open>refreshVerification\<close> or \<open>resendVerification\<close> gave; \<open>ve_verified\<close> counts \<open>onVerified\<close>.\<close>

definition verify_settled :: "verify_action \<Rightarrow> web_error + bool \<Rightarrow> verify_form \<Rightarrow> verify_form" where
  "verify_settled action answer st =
    (case answer of
       Inl caught \<Rightarrow> st\<lparr>ve_message := Some (Error_tone, firebaseErrorMessage caught), ve_busy := False\<rparr>
     | Inr verified \<Rightarrow>
         (case action of
            Check_verified \<Rightarrow>
              if verified then st\<lparr>ve_verified := ve_verified st + 1, ve_busy := False\<rparr>
              else st\<lparr>ve_message := Some (Error_tone, ''Not verified yet. Check your inbox (and spam folder).''),
                ve_busy := False\<rparr>
          | Resend_link \<Rightarrow> st\<lparr>ve_message := Some (Ok_tone, ''Sent another link.''), ve_busy := False\<rparr>))"

end
