(* ===== verification/Web_Console.thy ===== *)
theory Web_Console
  imports Web_Forms Web_Pages
begin

text \<open>
  The remaining pages of the web client as state machines: Dashboard.tsx, the page around the forms
  of AccountDetail.tsx, and onboarding, reconciliation, metrics and revocation of Admin.tsx; the badge
  of Layout.tsx and the decisions of ui.tsx.
\<close>

section \<open>ui.tsx\<close>

record banner =
  bn_code :: "string option"
  bn_message :: string
  bn_request :: "string option"

fun render_error :: "web_error \<Rightarrow> banner" where
  "render_error (ApiError status code msg requestId) =
    \<lparr>bn_code = Some (js_String code), bn_message = msg,
     bn_request = (case requestId of
        None \<Rightarrow> None
      | Some v \<Rightarrow> if js_String v = [] then None else Some (js_String v))\<rparr>"
| "render_error (Other_error code msg) = \<lparr>bn_code = None, bn_message = msg, bn_request = None\<rparr>"

datatype pill = Emerald | Amber | Rose

definition status_tone :: "string \<Rightarrow> pill" where
  "status_tone status =
    (if status \<in> {''active'', ''ready'', ''completed''} then Emerald
     else if status = ''frozen'' then Amber else Rose)"

text \<open>\<open>CopyText\<close>: its label, while the last copy is shown or not.\<close>

definition copy_label :: "bool \<Rightarrow> bool \<Rightarrow> string \<Rightarrow> string" where
  "copy_label copied short value =
    (if copied then ''copied '' @ utf8 [0x2713]
     else if short then take 8 value @ utf8 [0x2026] else value)"

section \<open>Dashboard.tsx\<close>

record dashboard =
  da_accounts :: "web_account list async"
  da_currency :: string
  da_creating :: bool
  da_createError :: "web_error option"

datatype dashboard_event =
    Choose_currency string
  | Open_account_clicked
  | Account_opened "web_error + json"
  | Accounts_settled nat "web_error + web_account list"

definition dashboard_mounted :: dashboard where
  "dashboard_mounted = \<lparr>da_accounts = async_start async_initial, da_currency = ''INR'', da_creating = False,
    da_createError = None\<rparr>"

definition dashboard_step :: "dashboard_event \<Rightarrow> dashboard \<Rightarrow> dashboard" where
  "dashboard_step ev st =
    (case ev of
       Choose_currency c \<Rightarrow> st\<lparr>da_currency := c\<rparr>
     | Open_account_clicked \<Rightarrow> st\<lparr>da_creating := True, da_createError := None\<rparr>
     | Account_opened answer \<Rightarrow>
         (case answer of
            Inr _ \<Rightarrow> st\<lparr>da_accounts := async_start (da_accounts st), da_creating := False\<rparr>
          | Inl caught \<Rightarrow> st\<lparr>da_createError := Some caught, da_creating := False\<rparr>)
     | Accounts_settled run answer \<Rightarrow> st\<lparr>da_accounts := async_settle run answer (da_accounts st)\<rparr>)"

datatype account_list_view = List_loading | List_empty | List_of "web_account list"

definition shown_accounts :: "dashboard \<Rightarrow> web_account list" where
  "shown_accounts st = (case as_data (da_accounts st) of None \<Rightarrow> [] | Some l \<Rightarrow> l)"

definition account_list :: "dashboard \<Rightarrow> account_list_view" where
  "account_list st =
    (if as_loading (da_accounts st) \<and> as_data (da_accounts st) = None then List_loading
     else if shown_accounts st = [] then List_empty else List_of (shown_accounts st))"

text \<open>Who is signed in; \<open>user\<close> gives the Firebase user's display name and e-mail, if there is one.\<close>

definition signed_in_as :: "session \<Rightarrow> (string option \<times> string option) option \<Rightarrow> string option" where
  "signed_in_as w user =
    (if readCredential CustomerKey w \<noteq> None then Some ''API key''
     else
       (case user of
          None \<Rightarrow> None
        | Some (displayName, email) \<Rightarrow> (case displayName of Some n \<Rightarrow> Some n | None \<Rightarrow> email)))"

definition customer_sign_out :: "session \<Rightarrow> session" where
  "customer_sign_out w = writeCredential CustomerKey None w"

section \<open>The page of an account\<close>

record account_page =
  ap_account :: "web_account async"
  ap_owned :: "web_account list async"
  ap_historyVersion :: nat

datatype account_page_view = Page_error web_error | Page_loading | Page_detail web_account "web_account list" nat

definition account_page_view :: "account_page \<Rightarrow> account_page_view" where
  "account_page_view st =
    (case as_error (ap_account st) of
       Some e \<Rightarrow> Page_error e
     | None \<Rightarrow>
         (case as_data (ap_account st) of
            None \<Rightarrow> Page_loading
          | Some current \<Rightarrow>
              Page_detail current (case as_data (ap_owned st) of None \<Rightarrow> [] | Some l \<Rightarrow> l) (ap_historyVersion st)))"

definition on_sent :: "account_page \<Rightarrow> account_page" where
  "on_sent st = st\<lparr>ap_account := async_start (ap_account st), ap_owned := async_start (ap_owned st),
    ap_historyVersion := ap_historyVersion st + 1\<rparr>"

text \<open>A line of the history: a debit adds to the customer's balance.\<close>

definition shown_amount :: "string \<Rightarrow> string \<Rightarrow> string \<Rightarrow> string option" where
  "shown_amount direction amountMinor currency =
    map_option (\<lambda>t. (if direction = ''debit'' then ''+'' else utf8 [0x2212]) @ t) (formatMinor amountMinor currency)"

datatype history_view = No_entries | Entry_table nat

definition history_view :: "history \<Rightarrow> history_view \<times> bool \<times> bool" where
  "history_view st =
    (if hi_entries st = [] \<and> \<not> hi_loading st then No_entries else Entry_table (length (hi_entries st)),
     hi_loading st,
     (case hi_cursor st of None \<Rightarrow> False | Some c \<Rightarrow> c \<noteq> []) \<and> \<not> hi_loading st)"

section \<open>Onboarding\<close>

text \<open>A principal, and an issued key, as far as the page reads them.\<close>

record web_principal =
  wp_id :: string
  wp_name :: string

record web_key =
  wk_id :: string
  wk_key :: string

text \<open>What is awaited: the new principal, its first key, or another key.\<close>

datatype onboard_flight = Creating_principal string | First_key web_principal | Another_key web_principal

record onboard =
  on_name :: string
  on_busy :: bool
  on_error :: "web_error option"
  on_issued :: "(web_principal \<times> web_key) list"
  on_flights :: "onboard_flight list"

datatype onboard_event =
    Type_name string
  | Submit_onboard
  | Issue_another web_principal
  | Principal_answered nat "web_error + web_principal"
  | Key_issued nat "web_error + web_key"

definition drop_flight :: "nat \<Rightarrow> onboard \<Rightarrow> onboard" where
  "drop_flight i st = st\<lparr>on_flights := take i (on_flights st) @ drop (Suc i) (on_flights st)\<rparr>"

definition onboard_step :: "onboard_event \<Rightarrow> onboard \<Rightarrow> onboard" where
  "onboard_step ev st =
    (case ev of
       Type_name text \<Rightarrow> st\<lparr>on_name := text\<rparr>
     | Submit_onboard \<Rightarrow>
         st\<lparr>on_busy := True, on_error := None, on_flights := on_flights st @ [Creating_principal (js_trim (on_name st))]\<rparr>
     | Issue_another who \<Rightarrow> st\<lparr>on_error := None, on_flights := on_flights st @ [Another_key who]\<rparr>
     | Principal_answered i answer \<Rightarrow>
         if i < length (on_flights st) then
           (case on_flights st ! i of
              Creating_principal name \<Rightarrow>
                (case answer of
                   Inl caught \<Rightarrow> (drop_flight i st)\<lparr>on_error := Some caught, on_busy := False\<rparr>
                 | Inr who \<Rightarrow> st\<lparr>on_flights := (on_flights st)[i := First_key who]\<rparr>)
            | _ \<Rightarrow> st)
         else st
     | Key_issued i answer \<Rightarrow>
         if i < length (on_flights st) then
           (case on_flights st ! i of
              First_key who \<Rightarrow>
                (case answer of
                   Inl caught \<Rightarrow> (drop_flight i st)\<lparr>on_error := Some caught, on_busy := False\<rparr>
                 | Inr key \<Rightarrow>
                     (drop_flight i st)\<lparr>on_issued := (who, key) # on_issued st, on_name := [], on_busy := False\<rparr>)
            | Another_key who \<Rightarrow>
                (case answer of
                   Inl caught \<Rightarrow> (drop_flight i st)\<lparr>on_error := Some caught\<rparr>
                 | Inr key \<Rightarrow> (drop_flight i st)\<lparr>on_issued := (who, key) # on_issued st\<rparr>)
            | _ \<Rightarrow> st)
         else st)"

definition onboard_disabled :: "onboard \<Rightarrow> bool" where
  "onboard_disabled st \<longleftrightarrow> on_busy st \<or> js_trim (on_name st) = []"

text \<open>Opening the customer's app with a key that was just issued.\<close>

definition open_customer_app :: "web_key \<Rightarrow> session \<Rightarrow> session \<times> location" where
  "open_customer_app key w = (writeCredential CustomerKey (Some (wk_key key)) w, [''app''])"

definition admin_sign_out :: "session \<Rightarrow> session" where
  "admin_sign_out w = writeCredential AdminKey None w"

section \<open>Reconciliation, metrics and revocation\<close>

record 'a panel =
  pn_input :: string
  pn_busy :: bool
  pn_error :: "web_error option"
  pn_result :: "'a option"

datatype 'a panel_event = Panel_type string | Panel_run | Panel_answered "web_error + 'a"

text \<open>A reconciliation keeps the last report while it runs; a revocation clears its field and message.\<close>

definition reconcile_step :: "'a panel_event \<Rightarrow> 'a panel \<Rightarrow> 'a panel" where
  "reconcile_step ev st =
    (case ev of
       Panel_type text \<Rightarrow> st
     | Panel_run \<Rightarrow> st\<lparr>pn_busy := True, pn_error := None\<rparr>
     | Panel_answered answer \<Rightarrow>
         (case answer of
            Inr report \<Rightarrow> st\<lparr>pn_result := Some report, pn_busy := False\<rparr>
          | Inl caught \<Rightarrow> st\<lparr>pn_error := Some caught, pn_busy := False\<rparr>))"

definition revoke_step :: "string panel_event \<Rightarrow> string panel \<Rightarrow> string panel" where
  "revoke_step ev st =
    (case ev of
       Panel_type text \<Rightarrow> st\<lparr>pn_input := text\<rparr>
     | Panel_run \<Rightarrow> st\<lparr>pn_busy := True, pn_error := None, pn_result := None\<rparr>
     | Panel_answered answer \<Rightarrow>
         (case answer of
            Inr keyId \<Rightarrow> st\<lparr>pn_result := Some keyId, pn_input := [], pn_busy := False\<rparr>
          | Inl caught \<Rightarrow> st\<lparr>pn_error := Some caught, pn_busy := False\<rparr>))"

text \<open>One figure of the metrics card: its text, and whether it is shown as a warning.\<close>

definition stat :: "nat option \<Rightarrow> bool \<Rightarrow> string \<times> bool" where
  "stat value warn =
    ((case value of None \<Rightarrow> utf8 [0x2014] | Some n \<Rightarrow> nat_text n),
     warn \<and> (case value of None \<Rightarrow> False | Some n \<Rightarrow> n \<noteq> 0))"

section \<open>Layout.tsx\<close>

record readiness =
  re_status :: string
  re_outbox :: "(nat \<times> nat \<times> nat) option"

definition health_label :: "readiness async \<Rightarrow> string" where
  "health_label st =
    (if as_error st \<noteq> None then ''API unreachable''
     else
       (case as_data st of
          None \<Rightarrow> ''checking'' @ utf8 [0x2026]
        | Some d \<Rightarrow> if re_status d = ''ready'' then ''API ready'' else ''DB unavailable''))"

definition failed_events :: "readiness async \<Rightarrow> nat option" where
  "failed_events st =
    (case as_data st of
       None \<Rightarrow> None
     | Some d \<Rightarrow> (case re_outbox d of None \<Rightarrow> None | Some (pending, processing, failed) \<Rightarrow> if 0 < failed then Some failed else None))"

end
