(* ===== verification/Web_Theorems.thy ===== *)
theory Web_Theorems
  imports Web_Forms Http_Witnesses
begin

text \<open>
  What the web client and the service guarantee together: a key the forms draw stands for one
  request, so a customer who retries pays at most once.
\<close>

section \<open>The forms are intent forms\<close>

definition settled :: "send_form \<Rightarrow> bool" where
  "settled st \<longleftrightarrow> settle_destination st = st"

lemma settle_parts [simp]:
  "sm_key (settle_destination st) = sm_key st" "sm_sent (settle_destination st) = sm_sent st"
  "sm_source (settle_destination st) = sm_source st" "sm_amount (settle_destination st) = sm_amount st"
  "candidates (settle_destination st) = candidates st"
  by (simp_all add: settle_destination_def candidates_def)

lemma settle_settled: "settled (settle_destination st)"
  by (auto simp: settled_def settle_destination_def candidates_def split: list.splits)

lemma settled_step: "settled (send_step ev st)"
  unfolding send_step_def by (rule settle_settled)

lemma settled_cong:
  assumes "settled st" and "sm_mode st' = sm_mode st" "sm_destination st' = sm_destination st"
    and "sm_source st' = sm_source st" "sm_own st' = sm_own st"
  shows "settle_destination st' = st'"
proof -
  have "candidates st' = candidates st" using assms(4,5) by (simp add: candidates_def)
  moreover have "sm_destination (settle_destination st) = sm_destination st"
    using assms(1) by (simp add: settled_def)
  ultimately show ?thesis
    using assms(2,3) by (auto simp: settle_destination_def split: if_splits)
qed

text \<open>The identifiers an event's handler may draw.\<close>

fun send_drawn :: "send_event \<Rightarrow> string list" where
  "send_drawn (Choose_mode mode key) = [key]"
| "send_drawn (Type_destination text key) = [key]"
| "send_drawn (Type_amount text key) = [key]"
| "send_drawn Submit_transfer = []"
| "send_drawn (Transfer_answered i answer key) = [key]"
| "send_drawn (Send_props source own) = []"

fun fund_drawn :: "fund_event \<Rightarrow> string list" where
  "fund_drawn (Type_account text key) = [key]"
| "fund_drawn (Type_fund_amount text key) = [key]"
| "fund_drawn Submit_funding = []"
| "fund_drawn (Funding_answered i answer key) = [key]"

text \<open>
  New props are those of the same account, and keep the destination selectable while a call that
  was sent may still be repeated.
\<close>

definition send_admits :: "send_event \<Rightarrow> send_form \<Rightarrow> bool" where
  "send_admits ev st \<longleftrightarrow>
    (case ev of
       Send_props source own \<Rightarrow>
         wa_id source = wa_id (sm_source st) \<and>
         (sm_key st \<in> fst ` set (sm_sent st) \<longrightarrow> sm_destination (send_step ev st) = sm_destination st)
     | _ \<Rightarrow> True)"

definition send_ok :: "send_event \<Rightarrow> send_form \<Rightarrow> bool" where
  "send_ok ev st \<longleftrightarrow> settled st \<and> send_admits ev st"

lemma admitted_settled: "admitted_run send_step send_admits es st \<Longrightarrow> settled st \<Longrightarrow> admitted_run send_step send_ok es st"
  by (induction es arbitrary: st) (auto simp: send_ok_def settled_step)

lemma submit_settled: "settled st \<Longrightarrow> send_step Submit_transfer st = send_submit st"
  unfolding send_step_def send_handler_def
  by (simp, rule settled_cong [of st]) (auto simp: send_submit_def split: option.split)

lemma refused_settled:
  "settled st \<Longrightarrow> \<not> isFinalAnswer caught \<Longrightarrow>
    send_step (Transfer_answered i (Inl caught) key) st = send_answered i (Inl caught) key st"
  unfolding send_step_def send_handler_def
  by (simp, rule settled_cong [of st]) (auto simp: send_answered_def Let_def)

interpretation sending: intent_form sm_key send_body sm_sent send_step send_drawn send_ok
proof
  fix ev st assume ok: "send_ok ev st"
  then have settled: "settled st" by (simp add: send_ok_def)
  show "sm_sent (send_step ev st) = sm_sent st \<or>
      (\<exists>b. send_body st = Some b \<and> sm_sent (send_step ev st) = sm_sent st @ [(sm_key st, b)] \<and>
        sm_key (send_step ev st) = sm_key st)"
    by (cases ev) (auto simp: send_step_def send_handler_def send_edit_def send_submit_def send_answered_def Let_def
        split: option.splits sum.splits)
  show "sm_key (send_step ev st) = sm_key st \<or> sm_key (send_step ev st) \<in> set (send_drawn ev)"
    by (cases ev) (auto simp: send_step_def send_handler_def send_edit_def send_submit_def send_answered_def Let_def
        split: option.splits sum.splits)
  assume key: "sm_key (send_step ev st) = sm_key st" "sm_key st \<notin> set (send_drawn ev)"
    and sent: "sm_key st \<in> fst ` set (sm_sent (send_step ev st))"
  show "send_body (send_step ev st) = send_body st"
  proof (cases ev)
    case Submit_transfer
    then show ?thesis
      by (simp add: submit_settled [OF settled]) (simp add: send_submit_def send_body_def split: option.splits)
  next
    case (Transfer_answered i answer k)
    show ?thesis
    proof (cases "i < length (sm_flights st)")
      case False
      with settled show ?thesis
        by (simp add: Transfer_answered send_step_def send_handler_def send_answered_def settled_def)
    next
      case True
      with key Transfer_answered have "\<exists>caught. answer = Inl caught \<and> \<not> isFinalAnswer caught"
        by (cases answer) (auto simp: send_step_def send_handler_def send_answered_def Let_def split: if_splits)
      then show ?thesis
        by (elim exE conjE) (simp add: Transfer_answered refused_settled [OF settled] send_answered_def send_body_def Let_def split: option.split)
    qed
  next
    case (Send_props source own)
    then have "sm_sent (send_step ev st) = sm_sent st" "sm_amount (send_step ev st) = sm_amount st"
      "sm_source (send_step ev st) = source"
      by (simp_all add: send_step_def send_handler_def)
    with ok Send_props sent show ?thesis
      by (simp add: send_ok_def send_admits_def send_body_def split: option.split)
  qed (use key in \<open>simp_all add: send_step_def send_handler_def send_edit_def\<close>)
qed

interpretation funding: intent_form ff_key fund_body ff_sent fund_step fund_drawn "\<lambda>_ _. True"
proof
  fix ev st
  show "ff_sent (fund_step ev st) = ff_sent st \<or>
      (\<exists>b. fund_body st = Some b \<and> ff_sent (fund_step ev st) = ff_sent st @ [(ff_key st, b)] \<and>
        ff_key (fund_step ev st) = ff_key st)"
    by (cases ev) (auto simp: fund_step_def fund_submit_def fund_answered_def Let_def split: option.splits sum.splits)
  show "ff_key (fund_step ev st) = ff_key st \<or> ff_key (fund_step ev st) \<in> set (fund_drawn ev)"
    by (cases ev) (auto simp: fund_step_def fund_submit_def fund_answered_def Let_def split: option.splits sum.splits)
  assume "ff_key (fund_step ev st) = ff_key st" "ff_key st \<notin> set (fund_drawn ev)"
  then show "fund_body (fund_step ev st) = fund_body st"
    by (cases ev) (auto simp: fund_step_def fund_submit_def fund_answered_def fund_body_def Let_def
        split: option.splits sum.splits)
qed

section \<open>From the tab to the service\<close>

text \<open>
  What HTTP does to a call: a header's value loses the white space around it, and Fastify's parser
  (\<open>parse_body\<close>) reads the body's text.
\<close>

definition http_space :: "char \<Rightarrow> bool" where
  "http_space c \<longleftrightarrow> c \<in> {CHR 0x09, CHR 0x0A, CHR 0x0D, CHR 0x20}"

definition received :: "http_call \<Rightarrow> string \<Rightarrow> header" where
  "received call name =
    (case map_of (hc_headers call) name of
       None \<Rightarrow> No_header
     | Some v \<Rightarrow> One_header (rev (dropWhile http_space (rev (dropWhile http_space v)))))"

definition carries :: "(string option \<Rightarrow> js_error + json) \<Rightarrow> http_call \<Rightarrow> http_request \<Rightarrow> bool" where
  "carries parse_body call req \<longleftrightarrow>
    hq_authorization req = received call ''authorization'' \<and> hq_admin_key req = received call ''x-admin-api-key'' \<and>
    hq_idempotency_key req = received call ''idempotency-key'' \<and> hq_body req = parse_body (hc_body call)"

text \<open>A request that carries the transfer call with this key and body, sent from the tab.\<close>

definition transfer_request ::
    "(string option \<Rightarrow> js_error + json) \<Rightarrow> (web_error + string option) \<Rightarrow> session \<Rightarrow> string \<Rightarrow> json \<Rightarrow> http_request \<Rightarrow> bool" where
  "transfer_request parse_body token tab key body req =
    (case create_transfer_call body key of
       (meth, path, options) \<Rightarrow>
         (case outgoing token meth path options tab of Inl e \<Rightarrow> False | Inr call \<Rightarrow> carries parse_body call req))"

definition base64url_char :: "char \<Rightarrow> bool" where
  "base64url_char c \<longleftrightarrow> is_digit c \<or> (CHR ''a'' \<le> c \<and> c \<le> CHR ''z'') \<or> (CHR ''A'' \<le> c \<and> c \<le> CHR ''Z'') \<or>
    c = CHR ''-'' \<or> c = CHR ''_''"

text \<open>The shape of the secrets \<open>issueApiKey\<close> gives out.\<close>

definition issued_secret :: "string \<Rightarrow> bool" where
  "issued_secret secret \<longleftrightarrow>
    starts_with secret apiKeyTag \<and> list_all base64url_char (drop (length apiKeyTag) secret) \<and>
    length apiKeyTag < length secret"

lemma dropWhile_both:
  assumes "s \<noteq> []" and "\<not> p (hd s)" and "\<not> p (last s)"
  shows "rev (dropWhile p (rev (dropWhile p s))) = s"
proof -
  have "dropWhile p s = s" using assms(1,2) by (cases s) simp_all
  moreover have "dropWhile p (rev s) = rev s" using assms(1,3) by (cases s rule: rev_cases) simp_all
  ultimately show ?thesis by simp
qed

lemma base64url_plain:
  assumes "base64url_char c"
  shows "\<not> js_space (of_char c)" and "\<not> http_space c" and "\<not> line_terminator c"
proof -
  have range: "of_char c \<in> {48..57::nat} \<union> {97..122} \<union> {65..90} \<union> {45, 95}"
    using assms by (auto simp: base64url_char_def is_digit_def less_eq_char_def)
  show "\<not> js_space (of_char c)" using range by (auto simp: js_space_def)
  have "of_char c \<notin> {9, 10, 13, 32::nat}" using range by auto
  then show "\<not> http_space c" "\<not> line_terminator c"
    by (auto simp: http_space_def line_terminator_def)
qed

lemma hex_plain: "is_hex_digit c \<Longrightarrow> base64url_char c"
  by (auto simp: is_hex_digit_def base64url_char_def less_eq_char_def)

lemma uuid_ends: "is_uuid_text s \<Longrightarrow> s \<noteq> [] \<and> base64url_char (hd s) \<and> base64url_char (last s)"
proof (intro conjI)
  assume s: "is_uuid_text s"
  then show "s \<noteq> []" by (auto simp: is_uuid_text_def)
  have "is_hex_digit (s ! 0)" "is_hex_digit (s ! 35)" using s by (simp_all add: is_uuid_text_def)
  with \<open>s \<noteq> []\<close> s show "base64url_char (hd s)" "base64url_char (last s)"
    by (simp_all add: hex_plain hd_conv_nth last_conv_nth is_uuid_text_def)
qed

lemma secret_parts:
  assumes "issued_secret secret"
  shows "secret \<noteq> []" and "hd secret = CHR ''p''" and "base64url_char (last secret)"
    and "list_all (\<lambda>c. \<not> line_terminator c) secret"
proof -
  let ?body = "drop (length apiKeyTag) secret"
  have secret: "secret = apiKeyTag @ ?body"
    using assms by (metis append_take_drop_id issued_secret_def starts_with_def)
  have body: "?body \<noteq> []" "list_all base64url_char ?body" using assms by (simp_all add: issued_secret_def)
  show "secret \<noteq> []" using body(1) by auto
  show "hd secret = CHR ''p''" by (subst secret) (simp add: apiKeyTag_def)
  have "last secret = last ?body" using body(1) by (subst secret) simp
  then show "base64url_char (last secret)" using body last_in_set by (metis list_all_iff)
  have "list_all base64url_char apiKeyTag" by code_simp
  then have "list_all base64url_char secret" using body(2) by (subst secret) simp
  then show "list_all (\<lambda>c. \<not> line_terminator c) secret"
    by (auto simp: list_all_iff base64url_plain)
qed

lemma letter_plain:
  "\<not> http_space CHR ''B''" "\<not> js_space (of_char CHR ''B'')" "\<not> js_space (of_char CHR ''p'')"
  by (simp_all add: http_space_def js_space_def)

text \<open>The service reads the tab's secret and the form's key, as they are.\<close>

lemma transfer_request_read:
  assumes "transfer_request parse_body token tab key body req"
    and "readCredential CustomerKey tab = Some secret" and "issued_secret secret" and "is_uuid_text key"
  shows "extractBearerToken (hq_authorization req) = Some secret"
    and "key_of_header (hq_idempotency_key req) = Inr (Some key)"
    and "hq_body req = parse_body (Some (stringify body))"
proof -
  note secret = secret_parts [OF assms(3)]
  note uuid = uuid_ends [OF assms(4), THEN conjunct1] uuid_ends [OF assms(4), THEN conjunct2]
  have bearer: "''Bearer '' @ secret \<noteq> []" "hd (''Bearer '' @ secret) = CHR ''B''" "last (''Bearer '' @ secret) = last secret"
    using secret(1) by simp_all
  have "hq_authorization req = One_header (rev (dropWhile http_space (rev (dropWhile http_space (''Bearer '' @ secret)))))"
    and "hq_idempotency_key req = One_header (rev (dropWhile http_space (rev (dropWhile http_space key))))"
    and "hq_body req = parse_body (Some (stringify body))"
    using assms(1,2)
    by (simp_all add: transfer_request_def create_transfer_call_def outgoing_def plain_options_def set_header_def
        chosen_key_def carries_def received_def Let_def)
  then have header: "hq_authorization req = One_header (''Bearer '' @ secret)" "hq_idempotency_key req = One_header key"
    and same: "hq_body req = parse_body (Some (stringify body))"
    using dropWhile_both [OF bearer(1), of http_space] dropWhile_both [OF uuid(1), of http_space] bearer uuid secret
      base64url_plain(2) letter_plain by simp_all
  show "hq_body req = parse_body (Some (stringify body))" by (rule same)
  have "js_trim (''Bearer '' @ secret) = ''Bearer '' @ secret"
    by (rule js_trim_id) (use bearer secret base64url_plain(1) letter_plain in \<open>simp_all del: of_char_of\<close>)
  moreover have "js_trim secret = secret"
    by (rule js_trim_id) (use secret base64url_plain(1) letter_plain in \<open>simp_all del: of_char_of\<close>)
  moreover have "bearer_match (''Bearer '' @ secret) = Some secret"
    using secret(1,4) by (simp add: bearer_match_def starts_with_def)
  ultimately show "extractBearerToken (hq_authorization req) = Some secret"
    using secret(1) by (simp add: extractBearerToken_def header)
  show "key_of_header (hq_idempotency_key req) = Inr (Some key)"
    using assms(4) by (simp add: header key_of_header_def idempotencyKeyFrom_def is_uuid_text_def
        idempotencyKeyMaxLength_def)
qed

section \<open>One intent, one request, one payment\<close>

lemma send_mounted_settled: "settled (send_mounted source own key)"
  unfolding send_mounted_def by (rule settle_settled)

lemma send_mounted_parts: "sm_sent (send_mounted source own key) = []" "sm_key (send_mounted source own key) = key"
  by (simp_all add: send_mounted_def)

lemma fund_admits: "admitted_run fund_step (\<lambda>_ _. True) es st"
  by (induction es arbitrary: st) simp_all

lemma send_one_body:
  assumes "admitted_run send_step send_admits es (send_mounted source own key)"
    and "distinct (key # concat (map send_drawn es))"
    and "(k, b) \<in> set (sm_sent (fold send_step es (send_mounted source own key)))"
    and "(k, b') \<in> set (sm_sent (fold send_step es (send_mounted source own key)))"
  shows "b = b'"
  using sending.one_key_one_body [OF admitted_settled [OF assms(1) send_mounted_settled]] assms(2-)
  by (simp add: send_mounted_parts)



section \<open>A customer at work\<close>

definition draw :: "nat \<Rightarrow> string" where
  "draw n = ''00000000-0000-4000-8000-00000000000'' @ nat_text n"

text \<open>A transfer is typed in, sent, its answer is lost, and it is sent again.\<close>

definition sample_events :: "send_event list" where
  "sample_events = [Choose_mode Other_account (draw 1), Type_destination bob_account (draw 2), Type_amount ''2.50'' (draw 3),
    Submit_transfer, Transfer_answered 0 (Inl (ApiError 0 (JString ''NETWORK_ERROR'') [] None)) (draw 4), Submit_transfer]"

definition sample_source :: web_account where
  "sample_source = \<lparr>wa_id = alice_account, wa_currency = ''INR'', wa_balanceMinor = ''10000'',
    wa_status = ''active'', wa_createdAt = ''2026-01-01T00:00:00.000Z''\<rparr>"

lemma draw_texts: "draw 0 = ''00000000-0000-4000-8000-000000000000''" "draw 1 = ''00000000-0000-4000-8000-000000000001''"
  "draw 2 = ''00000000-0000-4000-8000-000000000002''" "draw 3 = ''00000000-0000-4000-8000-000000000003''"
  "draw 4 = ''00000000-0000-4000-8000-000000000004''"
  by code_simp+

lemma bob_account_nonempty: "bob_account \<noteq> []"
  by (simp add: bob_account_def)

lemma bob_trim: "js_trim bob_account = bob_account"
  by (rule js_trim_id) (simp_all add: bob_account_def js_space_def)

lemma amount_parsed: "parseMajorToMinor ''2.50'' = Some ''250''"
proof -
  have cleaned: "filter (\<lambda>c. c \<noteq> CHR '','' \<and> \<not> js_space (of_char c)) ''2.50'' = ''2.50''"
    by (simp add: js_space_def)
  show ?thesis unfolding parseMajorToMinor_def cleaned by code_simp
qed

lemma sample_sent:
  "sm_sent (fold send_step sample_events (send_mounted sample_source [] (draw 0))) =
    [(draw 3, transfer_body alice_account bob_account ''250''), (draw 3, transfer_body alice_account bob_account ''250'')]"
  by (simp add: sample_events_def send_step_def send_handler_def send_edit_def send_submit_def send_answered_def
     send_body_def amount_parsed settle_destination_def candidates_def send_mounted_def bob_trim bob_account_nonempty sample_source_def Let_def)


definition sample_tab :: session where
  "sample_tab = writeCredential CustomerKey (Some alice_secret) \<lparr>ss_storage = (\<lambda>_. None), ss_listeners = []\<rparr>"

definition sample_request :: http_request where
  "sample_request = keyed_request\<lparr>hq_idempotency_key := One_header (draw 3)\<rparr>"

definition no_token :: "web_error + string option" where
  "no_token = Inr None"

lemma draw_uuid: "is_uuid_text (draw 3)"
  unfolding draw_texts by code_simp

lemma alice_issued: "issued_secret alice_secret"
  by code_simp

lemma sample_tab_key: "readCredential CustomerKey sample_tab = Some alice_secret"
  by (simp add: sample_tab_def alice_secret_def)

lemma sample_carries:
  "transfer_request (\<lambda>_. Inr (JObject [])) no_token sample_tab (draw 3) body sample_request"
proof -
  have "alice_secret \<noteq> []" "last (''Bearer '' @ alice_secret) = CHR ''A''" by (simp_all add: alice_secret_def)
  then have "rev (dropWhile http_space (rev (dropWhile http_space (''Bearer '' @ alice_secret)))) = ''Bearer '' @ alice_secret"
    by (intro dropWhile_both) (simp_all add: http_space_def)
  moreover have "rev (dropWhile http_space (rev (dropWhile http_space (draw 3)))) = draw 3"
    unfolding draw_texts by code_simp
  ultimately show ?thesis
    by (simp add: transfer_request_def create_transfer_call_def outgoing_def plain_options_def set_header_def
        chosen_key_def sample_tab_key carries_def received_def Let_def sample_request_def keyed_request_def)
qed

lemma sample_admitted: "admitted_run send_step send_admits sample_events st"
  by (simp add: sample_events_def send_admits_def)

lemma sample_distinct: "distinct (draw 0 # concat (map send_drawn sample_events))"
  by (simp add: sample_events_def draw_texts del: One_nat_def)



end
