(* ===== verification/Web_Answers.thy ===== *)
theory Web_Answers
  imports Web_Theorems
begin

text \<open>
  What the client makes of the service's replies: its errors, and the pages of a listing.
\<close>

section \<open>What the client takes for an answer\<close>

text \<open>A reply of the service as the browser receives it; \<open>statusText\<close> is the network's.\<close>

definition reply_received :: "string \<Rightarrow> http_reply \<Rightarrow> fetched" where
  "reply_received statusText reply =
    Responded (int (hr_status reply)) statusText
      (case hr_body reply of Json_body v \<Rightarrow> stringify v | Text_body kind text \<Rightarrow> text)"

definition error_reply :: "js_error \<Rightarrow> string \<Rightarrow> http_reply" where
  "error_reply e requestId =
    (case errorHandler e requestId of (status, body, line) \<Rightarrow> send_json status (error_json body))"

text \<open>Failures that are no domain error and are the request's fault: they are answered before a claim is made.\<close>

definition rejected_request :: "js_error \<Rightarrow> bool" where
  "rejected_request e \<longleftrightarrow> knownError e = None \<and>
    (has_validation e \<or> (case frameworkStatus e of None \<Rightarrow> False | Some status \<Rightarrow> 400 \<le> status \<and> status < 500))"

lemma errorHandler_cases:
  "errorHandler e requestId = (status, body, line) \<Longrightarrow> 400 \<le> int status \<and> int status < 500 \<longleftrightarrow>
    replayableFailure e requestId \<noteq> None \<or> rejected_request e"
  "errorHandler e requestId = (status, body, line) \<Longrightarrow> eb_requestId body = requestId"
  by (auto simp: errorHandler_def replayableFailure_def rejected_request_def split: option.splits if_splits)

lemma error_envelope:
  "envelope_field (Some (error_json b)) ''code'' = Some (JString (eb_code b))"
  "envelope_field (Some (error_json b)) ''message'' = Some (JString (eb_message b))"
  "envelope_field (Some (error_json b)) ''requestId'' = Some (JString (eb_requestId b))"
  by (simp_all add: envelope_field_def error_json_def json_field_def)

text \<open>
  C23.  The client understands the service's errors.  An error reply, whatever raised it, is thrown as
  an \<open>ApiError\<close> with the status, code, message and request id the error handler put in it.  The
  form takes it for the final answer of its key exactly when the failure is of a kind the service may
  store as a key's result, or a rejected request, and the code does not ask for a retry.
\<close>

theorem client_reads_error_replies:
  assumes "errorHandler e requestId = (status, body, line)"
    and "parse (stringify (error_json body)) = Some (error_json body)" and "status < 200 \<or> 300 \<le> status"
  shows "\<exists>caught. fst (incoming parse options usedApiKey (reply_received statusText (error_reply e requestId)) tab) = Inl caught \<and>
    caught = ApiError (int status) (JString (eb_code body)) (eb_message body) (Some (JString requestId)) \<and>
    (isFinalAnswer caught \<longleftrightarrow>
      (replayableFailure e requestId \<noteq> None \<or> rejected_request e) \<and> \<not> is_retryable caught)"
proof -
  have "stringify (error_json body) \<noteq> []" by (simp add: error_json_def)
  then have "fst (incoming parse options usedApiKey (reply_received statusText (error_reply e requestId)) tab) =
      Inl (ApiError (int status) (JString (eb_code body)) (eb_message body) (Some (JString requestId)))"
    using assms(2,3) errorHandler_cases(2) [OF assms(1)]
    by (simp add: incoming_def reply_received_def error_reply_def assms(1) send_json_def error_envelope Let_def) auto
  with errorHandler_cases(1) [OF assms(1)] show ?thesis by auto
qed

text \<open>
  A refused credential is such a rejection: nothing was claimed, nothing stored, and yet the form
  gives the key up.
\<close>

lemma refused_is_final:
  "isFinalAnswer (ApiError 401 (JString ''UNAUTHORIZED'') msg rid) \<and> snd (refused env req msg w) = w"
  by (simp add: refused_def retryable_code_def)

lemma client_reads_error_replies_witness:
  "\<exists>caught. fst (incoming (\<lambda>_. Some (error_json \<lparr>eb_code = ''UNAUTHORIZED'', eb_message = ''Invalid API key'', eb_requestId = ''r''\<rparr>))
      (plain_options Customer_auth) True
      (reply_received [] (error_reply (CodedError AuthError ''UNAUTHORIZED'' ''Invalid API key'') ''r'')) sample_tab) = Inl caught \<and>
    isFinalAnswer caught"
proof -
  let ?body = "\<lparr>eb_code = ''UNAUTHORIZED'', eb_message = ''Invalid API key'', eb_requestId = ''r''\<rparr>"
  have handled: "errorHandler (CodedError AuthError ''UNAUTHORIZED'' ''Invalid API key'') ''r'' = (401, ?body, None)"
    by code_simp
  have stored: "replayableFailure (CodedError AuthError ''UNAUTHORIZED'' ''Invalid API key'') ''r'' \<noteq> None"
    by code_simp
  show ?thesis
    using client_reads_error_replies [OF handled, where parse = "\<lambda>_. Some (error_json ?body)"
        and options = "plain_options Customer_auth" and usedApiKey = True and statusText = "[]" and tab = sample_tab] stored
    by (simp add: retryable_code_def)
qed

text \<open>
  So a form whose answer was lost and whose next attempt was refused for its credential asks for the
  same transfer again under another key, which the service has no reason to refuse.
\<close>

lemma lost_answer_then_401:
  "sm_sent (fold send_step
      [Choose_mode Other_account (draw 1), Type_destination bob_account (draw 2), Type_amount ''2.50'' (draw 3),
       Submit_transfer, Transfer_answered 0 (Inl (ApiError 0 (JString ''NETWORK_ERROR'') [] None)) (draw 4),
       Submit_transfer, Transfer_answered 0 (Inl (ApiError 401 (JString ''UNAUTHORIZED'') [] None)) (draw 5), Submit_transfer]
      (send_mounted sample_source [] (draw 0))) =
    [(draw 3, transfer_body alice_account bob_account ''250''), (draw 3, transfer_body alice_account bob_account ''250''),
     (draw 5, transfer_body alice_account bob_account ''250'')]"
  by (simp add: send_step_def send_handler_def send_edit_def send_submit_def send_answered_def retryable_code_def
     send_body_def amount_parsed settle_destination_def candidates_def send_mounted_def bob_trim bob_account_nonempty
     sample_source_def Let_def)

section \<open>Every account\<close>

text \<open>
  The page after a cursor as the service answers it, without a limit in the query.
\<close>

definition accounts_page :: "cursor_codec \<Rightarrow> uuid \<Rightarrow> db \<Rightarrow> string option \<Rightarrow> web_error + Account list \<times> string option" where
  "accounts_page codec owner s cursor =
    (case fst (listOwned codec owner cursor None s) of
       Inl e \<Rightarrow> Inl (ApiError 400 JNull [] None)
     | Inr page \<Rightarrow> Inr page)"

definition owned_accounts :: "uuid \<Rightarrow> db \<Rightarrow> account_row list" where
  "owned_accounts owner s = sort_key account_key (filter (owned_by owner) (accounts s))"

text \<open>The cursors of these accounts survive the trip, and their identifiers are in canonical form.\<close>

definition cursors_travel :: "cursor_codec \<Rightarrow> uuid \<Rightarrow> db \<Rightarrow> bool" where
  "cursors_travel codec owner s \<longleftrightarrow>
    (\<forall>r\<in>set (accounts s). owned_by owner r \<longrightarrow>
      codec_reads codec (account_key r) \<and> is_uuid_text (acc_id r) \<and> uuid_in (acc_id r) = acc_id r)"

abbreviation page_at :: "cursor_codec \<Rightarrow> string option \<Rightarrow> (instant \<times> uuid) option \<Rightarrow> bool" where
  "page_at codec cursor position \<equiv> optional_cursor codec (decodeOwnedAccountsCursor codec) cursor = Inr position"

lemma accounts_page_at:
  "page_at codec cursor position \<Longrightarrow> accounts_page codec owner s cursor =
    Inr (fst (owned_page owner s 100 position),
         map_option (encode_cursor codec \<circ> position_cursor) (snd (owned_page owner s 100 position)))"
  by (simp add: accounts_page_def listOwned_def io_steps io_bind_def io_lift_def io_return_def io_get_def owned_page_def
      store_listOwned_def clamp_limit_def ownedAccountsDefaultLimit_def split_def Let_def option.map_comp)

lemma next_key_owned:
  assumes "distinct (map acc_id (accounts s))" and "snd (owned_page owner s n position) = Some k"
  shows "\<exists>r\<in>set (accounts s). owned_by owner r \<and> account_key r = k"
proof -
  let ?rest = "filter (\<lambda>x. after_cursor position (fst x)) (owned_contents owner s)"
  have "0 < n \<and> n < length ?rest \<and> k = fst (?rest ! (n - 1))"
    using owned_listing.page_next [OF assms(1), of owner n position] assms(2) by (simp add: Let_def split: if_splits)
  then have "k = fst (?rest ! (n - 1))" "?rest ! (n - 1) \<in> set ?rest" by (blast, intro nth_mem, linarith)
  then have "k \<in> fst ` set ?rest" by (metis image_eqI)
  then show ?thesis by (auto simp: owned_contents_def keyset_contents_def)
qed

lemma next_page_at:
  assumes "cursors_travel codec owner s" and "r \<in> set (accounts s)" and "owned_by owner r"
  shows "page_at codec (Some (encode_cursor codec (position_cursor (account_key r)))) (Some (account_key r))"
    and "encode_cursor codec (position_cursor (account_key r)) \<noteq> []"
proof -
  have travel: "codec_reads codec (account_key r)" "is_uuid_text (snd (account_key r))"
    "uuid_in (snd (account_key r)) = snd (account_key r)"
    using assms by (simp_all add: cursors_travel_def account_key_def)
  note there = cursor_roundtrip [OF travel(1,2)]
  show "encode_cursor codec (position_cursor (account_key r)) \<noteq> []" by (rule there(2))
  then show "page_at codec (Some (encode_cursor codec (position_cursor (account_key r)))) (Some (account_key r))"
    using there(1) position_roundtrip [OF travel(1,3)]
    by (simp add: optional_cursor_def decodeOwnedAccountsCursor_def)
qed

lemma loop_follows:
  assumes distinct: "distinct (map acc_id (accounts s))" and travel: "cursors_travel codec owner s"
  shows "page_at codec cursor position \<Longrightarrow>
    list_accounts_loop (accounts_page codec owner s) pages cursor found =
      Inr (found @ follow_pages (owned_page owner s 100) pages position)"
proof (induction pages arbitrary: cursor position found)
  case (Suc pages)
  show ?case
  proof (cases "snd (owned_page owner s 100 position)")
    case None
    then show ?thesis
      by (simp add: accounts_page_at [OF Suc.prems]) (simp add: split_def)
  next
    case (Some k)
    from next_key_owned [OF distinct Some] obtain r where r: "r \<in> set (accounts s)" "owned_by owner r" "account_key r = k"
      by blast
    note n = next_page_at [OF travel r(1,2), unfolded r(3)]
    show ?thesis
      using Some n(2) Suc.IH [OF n(1)] by (simp add: accounts_page_at [OF Suc.prems] split_def)
  qed
qed simp

lemma all_accounts_listed:
  assumes "distinct (map acc_id (accounts s))" and "cursors_travel codec owner s"
  shows "listAccounts (accounts_page codec owner s) = Inr (take 5000 (map account_view (owned_accounts owner s)))"
proof -
  have "page_at codec None None" by (simp add: optional_cursor_def)
  from loop_follows [OF assms this] have
    "listAccounts (accounts_page codec owner s) = Inr (follow_pages (owned_page owner s 100) 50 None)"
    by (simp add: listAccounts_def)
  also have "follow_pages (owned_page owner s 100) 50 None = map snd (take (50 * 100) (owned_contents owner s))"
    using owned_listing.follow_take [OF assms(1), where n = 100 and cursor = None and owner = owner] by (simp add: after_cursor_def)
  finally show ?thesis
    by (simp add: owned_contents_def keyset_contents_def owned_accounts_def take_map comp_def)
qed

text \<open>
  C21.  The client shows every account, up to the bound it stops at.  Following the service's cursors
  from page to page, \<open>listAccounts\<close> ends after at most 50 requests with the owner's accounts, each
  once, in the order they were opened - all of them if there are at most 5000, and otherwise the first
  5000 and no sign of the others.
\<close>

theorem client_lists_every_account:
  assumes "distinct (map acc_id (accounts s))" and "cursors_travel codec owner s"
  shows "listAccounts (accounts_page codec owner s) = Inr (take 5000 (map account_view (owned_accounts owner s)))"
  by (rule all_accounts_listed [OF assms])

text \<open>Alice's one account, over cursors that are plain text.\<close>

definition reading_codec :: "instant \<times> uuid \<Rightarrow> cursor_codec" where
  "reading_codec p = \<lparr>to_base64url = (\<lambda>s. s), from_base64url = (\<lambda>s. s), json_parse = (\<lambda>s. Some (cursor_json p)),
    date_parses = (\<lambda>s. True), timestamptz_in = (\<lambda>s. Some (fst p))\<rparr>"

lemma sample_cursors_travel: "cursors_travel (reading_codec (t0, alice_account)) alice sample_db"
proof -
  have "is_uuid_text alice_account" "uuid_in alice_account = alice_account" by code_simp+
  moreover have "\<forall>r\<in>set (accounts sample_db). owned_by alice r \<longrightarrow> account_key r = (t0, alice_account)"
    by code_simp
  ultimately show ?thesis
    by (auto simp: cursors_travel_def account_key_def codec_reads_def reading_codec_def Let_def cursor_json_def)
qed

lemma client_lists_every_account_witness:
  "listAccounts (accounts_page (reading_codec (t0, alice_account)) alice sample_db) =
    Inr (take 5000 (map account_view (owned_accounts alice sample_db)))"
proof -
  have "distinct (map acc_id (accounts sample_db))" by code_simp
  then show ?thesis by (rule client_lists_every_account [OF _ sample_cursors_travel])
qed

end
