(* ===== verification/Web_Access.thy ===== *)
theory Web_Access
  imports Web_Console Web_Answers
begin

text \<open>
  Who gets to which page of the web client, and what a key that is kept in a tab has proved.
\<close>

section \<open>Redirects\<close>

definition customer_admitted :: "visitor \<Rightarrow> bool" where
  "customer_admitted v \<longleftrightarrow> truthy_key (vi_customerKey v) \<or> vi_user v = Signed_in True"

definition page_allowed :: "visitor \<Rightarrow> page \<Rightarrow> bool" where
  "page_allowed v p \<longleftrightarrow>
    (case p of
       Dashboard_page \<Rightarrow> customer_admitted v
     | Account_page i \<Rightarrow> customer_admitted v
     | Admin_page \<Rightarrow> truthy_key (vi_adminKey v)
     | Restoring_page \<Rightarrow> vi_user v = Restoring
     | Verify_email_page \<Rightarrow> vi_user v = Signed_in False
     | User_login_page \<Rightarrow> \<not> truthy_key (vi_customerKey v) \<and> vi_user v \<in> {Signed_out, Restoring}
     | Admin_login_page \<Rightarrow> \<not> truthy_key (vi_adminKey v)
     | Landing_page \<Rightarrow> True)"

abbreviation arrives :: "visitor \<Rightarrow> location \<Rightarrow> bool" where
  "arrives v path \<equiv> (\<exists>p. visit v path = Some p \<and> page_allowed v p)"

lemma visit_render: "render_location v path = Render p \<Longrightarrow> page_allowed v p \<Longrightarrow> arrives v path"
  by (subst visit.simps) simp

lemma visit_navigate: "render_location v path = Navigate to \<Longrightarrow> arrives v to \<Longrightarrow> arrives v path"
  by (subst visit.simps) simp

lemma arrives_root: "arrives v []"
  by (rule visit_render [where p = Landing_page]) (simp_all add: render_location_def page_allowed_def)

lemma static_segments: "uuid_in ''app'' = ''app''" "uuid_in ''admin'' = ''admin''" "uuid_in ''login'' = ''login''" "uuid_in ''user'' = ''user''"
  by code_simp+

lemma arrives_user_login:
  assumes "\<not> truthy_key (vi_customerKey v)" and "vi_user v \<in> {Signed_out, Restoring}"
  shows "arrives v [''login'', ''user'']"
  by (rule visit_render [where p = User_login_page])
    (use assms in \<open>auto simp: render_location_def static_segments user_login_def page_allowed_def\<close>)

lemma arrives_admin_login: "\<not> truthy_key (vi_adminKey v) \<Longrightarrow> arrives v [''login'', ''admin'']"
  by (rule visit_render [where p = Admin_login_page])
    (auto simp: render_location_def static_segments admin_login_def page_allowed_def)

lemma arrives_customer:
  assumes "render_location v path = customer_page v p" and "customer_admitted v \<Longrightarrow> page_allowed v p"
  shows "arrives v path"
proof (cases "customer_admitted v \<or> vi_user v = Restoring \<or> vi_user v = Signed_in False")
  case True
  show ?thesis
    by (rule visit_render [where p = "if customer_admitted v then p else if vi_user v = Restoring then Restoring_page else Verify_email_page"])
      (use True assms in \<open>auto simp: customer_page_def customer_admitted_def page_allowed_def split: firebase_user.splits\<close>)
next
  case False
  then have out: "\<not> truthy_key (vi_customerKey v)" "vi_user v = Signed_out"
    by (cases "vi_user v"; auto simp: customer_admitted_def)+
  show ?thesis
    by (rule visit_navigate [OF _ arrives_user_login]) (use out assms(1) in \<open>simp_all add: customer_page_def\<close>)
qed

lemma arrives_admin:
  assumes "render_location v path = admin_only v Admin_page"
  shows "arrives v path"
proof (cases "truthy_key (vi_adminKey v)")
  case True
  then show ?thesis
    by (intro visit_render [where p = Admin_page]) (simp_all add: assms admin_only_def page_allowed_def)
next
  case False
  then show ?thesis
    by (intro visit_navigate [OF _ arrives_admin_login]) (simp_all add: assms admin_only_def)
qed

lemma arrives_login:
  assumes "render_location v path = user_login v \<or> render_location v path = admin_login v"
  shows "arrives v path"
proof -
  have app: "arrives v [''app'']"
    by (rule arrives_customer [where p = Dashboard_page]) (simp_all add: render_location_def static_segments page_allowed_def)
  have admin: "arrives v [''admin'']"
    by (rule arrives_admin) (simp add: render_location_def static_segments)
  show ?thesis
  proof (cases "render_location v path")
    case (Render p)
    with assms have "page_allowed v p"
      by (auto simp: user_login_def admin_login_def page_allowed_def split: if_splits firebase_user.splits)
    with Render show ?thesis by (rule visit_render)
  next
    case (Navigate to)
    with assms have "to = [''app''] \<or> to = [''admin'']"
      by (auto simp: user_login_def admin_login_def split: if_splits)
    with app admin Navigate show ?thesis by (blast intro: visit_navigate)
  qed
qed

text \<open>
  C26.  Every visit ends on a page the visitor may see.  Whatever the path and the credentials, the
  guards and the login pages never send a visitor in a circle: the redirects end.  The pages of a
  customer are shown only with an API key in the tab or to a Firebase user with a verified e-mail,
  the console only with an admin key, and a login page only to somebody who has not signed in.
\<close>

theorem every_visit_ends: "\<exists>p. visit v path = Some p \<and> page_allowed v p"
proof -
  have "render_location v path = Render Landing_page \<or> render_location v path = Navigate [] \<or>
      (\<exists>p. render_location v path = customer_page v p \<and> (customer_admitted v \<longrightarrow> page_allowed v p)) \<or>
      render_location v path = admin_only v Admin_page \<or>
      render_location v path = user_login v \<or> render_location v path = admin_login v"
  proof -
    have "path = [] \<or> (\<exists>a. path = [a]) \<or> (\<exists>a b. path = [a, b]) \<or> (\<exists>a b c. path = [a, b, c]) \<or>
        (\<exists>a b c d ds. path = a # b # c # d # ds)"
      by (metis neq_Nil_conv)
    then show ?thesis
      by (elim disjE exE) (auto simp: render_location_def page_allowed_def)
  qed
  then show ?thesis
  proof (elim disjE)
    assume "render_location v path = Render Landing_page"
    then show ?thesis by (rule visit_render) (simp add: page_allowed_def)
  next
    assume "render_location v path = Navigate []"
    then show ?thesis using arrives_root by (rule visit_navigate)
  next
    assume "\<exists>p. render_location v path = customer_page v p \<and> (customer_admitted v \<longrightarrow> page_allowed v p)"
    then show ?thesis by (blast intro: arrives_customer)
  qed (simp_all add: arrives_admin arrives_login)
qed

section \<open>Keys that are kept were proved\<close>

lemma js_trim_ends:
  assumes "js_trim t \<noteq> []"
  shows "\<not> js_space (of_char (hd (js_trim t)))" and "\<not> js_space (of_char (last (js_trim t)))"
proof -
  let ?p = "js_space \<circ> (of_char :: char \<Rightarrow> nat)" and ?u = "dropWhile (js_space \<circ> of_char) t"
  have trimmed: "js_trim t = rev (dropWhile ?p (rev ?u))" by (simp add: js_trim_def comp_def)
  obtain n where front: "js_trim t = take n ?u"
    unfolding trimmed by (metis dropWhile_eq_drop rev_drop rev_rev_ident)
  with assms have "hd (js_trim t) = hd ?u" "?u \<noteq> []" by (auto simp: hd_take)
  then show "\<not> js_space (of_char (hd (js_trim t)))" using hd_dropWhile [of ?p t] by simp
  have "last (js_trim t) = hd (dropWhile ?p (rev ?u))" "dropWhile ?p (rev ?u) \<noteq> []"
    using assms unfolding trimmed by (simp_all add: last_rev)
  then show "\<not> js_space (of_char (last (js_trim t)))" using hd_dropWhile [of ?p "rev ?u"] by simp
qed

lemma tag_length: "length apiKeyTag = 8"
  by (simp add: apiKeyTag_def)

lemma http_space_js: "http_space c \<Longrightarrow> js_space (of_char c)"
  by (auto simp: http_space_def js_space_def)

text \<open>The service's answer to a request that carries a call verifying the candidate, at any time.\<close>

definition verified_by ::
    "app_options \<Rightarrow> (string option \<Rightarrow> js_error + json) \<Rightarrow> (string \<Rightarrow> json option) \<Rightarrow> api_call \<Rightarrow> route
      \<Rightarrow> web_error + json option \<Rightarrow> db \<Rightarrow> bool" where
  "verified_by opts parse_body parse a route answer s \<longleftrightarrow>
    (case a of (meth, path, options) \<Rightarrow>
      \<exists>token tab call env req w statusText tab'.
        outgoing token meth path options tab = Inr call \<and> carries parse_body call req \<and> app_db w = s \<and>
        answer = fst (incoming parse options (used_api_key options tab)
          (reply_received statusText (fst (handle opts env route req w))) tab'))"

lemma refused_answer:
  "fst (incoming parse options used (reply_received statusText (fst (refused env req msg w))) tab) \<noteq> Inr v"
  by (simp add: reply_received_def refused_def send_json_def incoming_def Let_def)

lemma admin_verified:
  assumes "verified_by opts parse_body parse (verify_admin_key_call (js_trim t)) Metrics_json (Inr v) s"
    and "js_trim t \<noteq> []"
  shows "js_trim t = op_adminApiKey opts"
proof -
  note ends = js_trim_ends [OF assms(2)]
  obtain idt tab call env req w statusText tab' where
    out: "outgoing idt GET ''/v1/admin/metrics'' ((plain_options Admin_auth)\<lparr>co_credential := Some (js_trim t)\<rparr>) tab = Inr call"
    and carried: "carries parse_body call req"
    and answer: "Inr v = fst (incoming parse ((plain_options Admin_auth)\<lparr>co_credential := Some (js_trim t)\<rparr>)
        (used_api_key ((plain_options Admin_auth)\<lparr>co_credential := Some (js_trim t)\<rparr>) tab)
        (reply_received statusText (fst (handle opts env Metrics_json req w))) tab')"
    using assms(1) unfolding verified_by_def verify_admin_key_call_def prod.case by blast
  have "hc_headers call = [(''x-admin-api-key'', js_trim t)]"
    using out by (auto simp: outgoing_def plain_options_def set_header_def chosen_key_def)
  then have "hq_admin_key req = One_header (rev (dropWhile http_space (rev (dropWhile http_space (js_trim t)))))"
    using carried by (simp add: carries_def received_def)
  then have header: "hq_admin_key req = One_header (js_trim t)"
    using dropWhile_both [OF assms(2), of http_space] ends http_space_js by metis
  show ?thesis
  proof (rule ccontr)
    assume "js_trim t \<noteq> op_adminApiKey opts"
    then obtain msg where "handle opts env Metrics_json req w = refused env req msg w"
      using admin_admission [of Metrics_json req opts env w] header by auto
    with answer refused_answer show False by metis
  qed
qed

lemma customer_verified:
  assumes "verified_by opts parse_body parse (verify_customer_key_call (js_trim t)) List_accounts (Inr v) s"
    and "starts_with (js_trim t) apiKeyTag" and "auth_inv s"
  shows "\<exists>p. key_opens (op_sha256_hex opts) (js_trim t) s p"
proof -
  let ?c = "js_trim t"
  have filled: "?c \<noteq> []" using assms(2) by (auto simp: starts_with_def apiKeyTag_def)
  note ends = js_trim_ends [OF filled]
  obtain idt tab call env req w statusText tab' where
    out: "outgoing idt GET ''/v1/accounts'' ((plain_options Customer_auth)\<lparr>co_credential := Some ?c\<rparr>) tab = Inr call"
    and carried: "carries parse_body call req" and state: "app_db w = s"
    and answer: "Inr v = fst (incoming parse ((plain_options Customer_auth)\<lparr>co_credential := Some ?c\<rparr>)
        (used_api_key ((plain_options Customer_auth)\<lparr>co_credential := Some ?c\<rparr>) tab)
        (reply_received statusText (fst (handle opts env List_accounts req w))) tab')"
    using assms(1) unfolding verified_by_def verify_customer_key_call_def prod.case by blast
  have "hc_headers call = [(''authorization'', ''Bearer '' @ ?c)]"
    using out by (auto simp: outgoing_def plain_options_def set_header_def chosen_key_def)
  then have "hq_authorization req = One_header (rev (dropWhile http_space (rev (dropWhile http_space (''Bearer '' @ ?c)))))"
    using carried by (simp add: carries_def received_def)
  moreover have bearer: "''Bearer '' @ ?c \<noteq> []" "hd (''Bearer '' @ ?c) = CHR ''B''" "last (''Bearer '' @ ?c) = last ?c"
    using filled by simp_all
  ultimately have header: "hq_authorization req = One_header (''Bearer '' @ ?c)"
    using dropWhile_both [OF bearer(1), of http_space] letter_plain(1) ends(2) http_space_js by metis
  have "js_trim (''Bearer '' @ ?c) = ''Bearer '' @ ?c"
    by (rule js_trim_id) (use bearer ends(2) letter_plain in \<open>simp_all del: of_char_of\<close>)
  moreover have "js_trim ?c = ?c" by (rule js_trim_id [OF filled ends])
  ultimately have token: "extractBearerToken (hq_authorization req) \<in> {None, Some ?c}"
    by (auto simp: header extractBearerToken_def bearer_match_def Let_def)
  have kind: "case extractBearerToken (hq_authorization req) of
      None \<Rightarrow> True | Some secret \<Rightarrow> op_verify opts = None \<or> starts_with secret apiKeyTag"
    using token assms(2) by auto
  show ?thesis
  proof (rule ccontr)
    assume none: "\<not> (\<exists>p. key_opens (op_sha256_hex opts) ?c s p)"
    have "\<exists>msg. handle opts env List_accounts req w = refused env req msg w"
      using customer_admission [OF assms(3) [folded state] _ kind, where route = List_accounts and env = env]
        token none state by auto
    with answer refused_answer show False by metis
  qed
qed

text \<open>Candidates in flight are trimmed and passed the form's own check.\<close>

definition checked_flights :: "(string \<Rightarrow> string option) \<Rightarrow> key_form \<Rightarrow> bool" where
  "checked_flights refusal st \<longleftrightarrow> (\<forall>c\<in>set (kf_flights st). refusal c = None \<and> (\<exists>t. c = js_trim t))"

definition key_ok_answer :: "(string \<Rightarrow> web_error + json option \<Rightarrow> bool) \<Rightarrow> key_event \<Rightarrow> key_form \<times> session \<Rightarrow> bool" where
  "key_ok_answer honest ev x \<longleftrightarrow>
    (case ev of
       Key_answered i answer \<Rightarrow> i < length (kf_flights (fst x)) \<longrightarrow> honest (kf_flights (fst x) ! i) answer
     | _ \<Rightarrow> True)"

lemma key_form_keeps:
  assumes flights: "checked_flights refusal st" and stored: "\<forall>c. readCredential s w = Some c \<longrightarrow> good c"
    and answered: "key_ok_answer honest ev (st, w)"
    and proves: "\<And>t v. honest (js_trim t) (Inr v) \<Longrightarrow> refusal (js_trim t) = None \<Longrightarrow> good (js_trim t)"
    and step: "key_form_step s refusal describe ev (st, w) = (st', w')"
  shows "checked_flights refusal st' \<and> (\<forall>c. readCredential s w' = Some c \<longrightarrow> good c)"
proof (cases ev)
  case (Key_answered i answer)
  show ?thesis
  proof (cases "i < length (kf_flights st)")
    case True
    let ?c = "kf_flights st ! i"
    have c: "refusal ?c = None" "\<exists>t. ?c = js_trim t" using flights True by (simp_all add: checked_flights_def)
    have "kf_flights st' = take i (kf_flights st) @ drop (Suc i) (kf_flights st)"
      using step True Key_answered by (cases answer) (auto simp: key_form_step_def Let_def)
    then have "set (kf_flights st') \<subseteq> set (kf_flights st)"
      by (auto dest: in_set_takeD in_set_dropD)
    then have "checked_flights refusal st'" using flights by (auto simp: checked_flights_def)
    moreover have "good ?c" if "answer = Inr v" for v
      using answered c proves True that Key_answered by (auto simp: key_ok_answer_def)
    then have "\<forall>c. readCredential s w' = Some c \<longrightarrow> good c"
      using step True stored Key_answered by (cases answer) (auto simp: key_form_step_def Let_def split: if_splits)
    ultimately show ?thesis by simp
  qed (use step flights stored Key_answered in \<open>simp add: key_form_step_def\<close>)
qed (use step flights stored in \<open>auto simp: key_form_step_def checked_flights_def Let_def split: option.splits\<close>)

lemma key_form_run:
  assumes "\<And>t v. honest (js_trim t) (Inr v) \<Longrightarrow> refusal (js_trim t) = None \<Longrightarrow> good (js_trim t)"
  shows "admitted_run (key_form_step s refusal describe) (key_ok_answer honest) es x \<Longrightarrow>
    checked_flights refusal (fst x) \<Longrightarrow> \<forall>c. readCredential s (snd x) = Some c \<longrightarrow> good c \<Longrightarrow>
    readCredential s (snd (fold (key_form_step s refusal describe) es x)) = Some c \<Longrightarrow> good c"
proof (induction es arbitrary: x)
  case (Cons ev es)
  obtain st w where x: "x = (st, w)" by (cases x)
  obtain st' w' where step: "key_form_step s refusal describe ev (st, w) = (st', w')" by (cases "key_form_step s refusal describe ev (st, w)")
  have "checked_flights refusal st' \<and> (\<forall>c. readCredential s w' = Some c \<longrightarrow> good c)"
    using key_form_keeps [where honest = honest and good = good, OF _ _ _ _ step] assms Cons.prems x by simp
  with Cons.IH [of "(st', w')"] Cons.prems x step show ?case by simp
qed simp

text \<open>
  C19.  A key that a login page keeps was proved to the service.  However the two key forms are used,
  and whenever the service answers the calls that verify a candidate: the admin key found in the tab
  afterwards is the service's own, byte for byte, and the customer key found there opened a live key
  of an active principal in a state the service was in when it answered.
\<close>

theorem kept_keys_were_proved:
  assumes admin: "admitted_run admin_login_step (key_ok_answer (\<lambda>c answer.
      \<exists>s. verified_by opts parse_body parse (verify_admin_key_call c) Metrics_json answer s)) es (key_form_mounted, tab)"
    and customer: "admitted_run customer_login_step (key_ok_answer (\<lambda>c answer.
      \<exists>s. auth_inv s \<and> verified_by opts parse_body parse (verify_customer_key_call c) List_accounts answer s)) fs (key_form_mounted, tab)"
    and out: "readCredential AdminKey tab = None" "readCredential CustomerKey tab = None"
  shows "(\<forall>c. readCredential AdminKey (snd (fold admin_login_step es (key_form_mounted, tab))) = Some c \<longrightarrow>
      c = op_adminApiKey opts) \<and>
    (\<forall>c. readCredential CustomerKey (snd (fold customer_login_step fs (key_form_mounted, tab))) = Some c \<longrightarrow>
      (\<exists>s p. auth_inv s \<and> key_opens (op_sha256_hex opts) c s p))"
proof -
  have mounted: "checked_flights r (fst (key_form_mounted, tab))" for r
    by (simp add: checked_flights_def key_form_mounted_def)
  have "c = op_adminApiKey opts" if c: "readCredential AdminKey (snd (fold admin_login_step es (key_form_mounted, tab))) = Some c" for c
  proof (rule key_form_run [OF _ admin [unfolded admin_login_step_def] mounted _ c [unfolded admin_login_step_def]])
    show "js_trim t = op_adminApiKey opts"
      if "\<exists>s. verified_by opts parse_body parse (verify_admin_key_call (js_trim t)) Metrics_json (Inr v) s"
        "admin_refusal (js_trim t) = None" for t v
      using that admin_verified by (auto simp: admin_refusal_def split: if_splits)
  qed (simp add: out)
  moreover have "\<exists>s p. auth_inv s \<and> key_opens (op_sha256_hex opts) c s p"
    if c: "readCredential CustomerKey (snd (fold customer_login_step fs (key_form_mounted, tab))) = Some c" for c
  proof (rule key_form_run [OF _ customer [unfolded customer_login_step_def] mounted _ c [unfolded customer_login_step_def]])
    show "\<exists>s p. auth_inv s \<and> key_opens (op_sha256_hex opts) (js_trim t) s p"
      if "\<exists>s. auth_inv s \<and> verified_by opts parse_body parse (verify_customer_key_call (js_trim t)) List_accounts (Inr v) s"
        "customer_refusal (js_trim t) = None" for t v
    proof -
      have "starts_with (js_trim t) apiKeyTag"
        using that(2) by (simp add: customer_refusal_def starts_with_def tag_length apiKeyTag_def [symmetric] split: if_splits)
      with that(1) customer_verified show ?thesis by blast
    qed
  qed (simp add: out)
  ultimately show ?thesis by auto
qed

text \<open>An administrator signs in at the sample service.\<close>

definition empty_tab :: session where
  "empty_tab = \<lparr>ss_storage = (\<lambda>_. None), ss_listeners = []\<rparr>"

definition console_request :: http_request where
  "console_request = keyed_request\<lparr>hq_authorization := No_header, hq_admin_key := One_header ''admin'',
    hq_idempotency_key := No_header\<rparr>"

definition console_answer :: "web_error + json option" where
  "console_answer = fst (incoming (\<lambda>_. None) ((plain_options Admin_auth)\<lparr>co_credential := Some ''admin''\<rparr>) False
    (reply_received [] (fst (handle sample_options quiet_request Metrics_json console_request service_world))) empty_tab)"

definition sign_in_events :: "key_event list" where
  "sign_in_events = [Type_key ''admin'', Submit_key, Key_answered 0 console_answer]"

lemma admin_text: "js_trim ''admin'' = ''admin''"
  by (rule js_trim_id) (simp_all add: js_space_def)

lemma console_verified:
  "verified_by sample_options (\<lambda>_. Inr (JObject [])) (\<lambda>_. None) (verify_admin_key_call ''admin'') Metrics_json
    console_answer sample_db"
proof -
  let ?options = "(plain_options Admin_auth)\<lparr>co_credential := Some ''admin''\<rparr>"
  have out: "outgoing no_token GET ''/v1/admin/metrics'' ?options empty_tab =
      Inr \<lparr>hc_method = GET, hc_path = ''/v1/admin/metrics'', hc_headers = [(''x-admin-api-key'', ''admin'')], hc_body = None\<rparr>"
    by (simp add: outgoing_def plain_options_def set_header_def chosen_key_def)
  have "carries (\<lambda>_. Inr (JObject [])) \<lparr>hc_method = GET, hc_path = ''/v1/admin/metrics'',
      hc_headers = [(''x-admin-api-key'', ''admin'')], hc_body = None\<rparr> console_request"
    by (simp add: carries_def received_def console_request_def keyed_request_def http_space_def)
  moreover have "used_api_key ?options empty_tab = False"
    by (simp add: used_api_key_def)
  ultimately show ?thesis
    unfolding verified_by_def verify_admin_key_call_def prod.case console_answer_def
    using out service_world_db by metis
qed

lemma kept_keys_were_proved_witness:
  "readCredential AdminKey (snd (fold admin_login_step sign_in_events (key_form_mounted, empty_tab))) \<in> {None, Some ''admin''}"
proof -
  have "admitted_run admin_login_step (key_ok_answer (\<lambda>c answer. \<exists>s. verified_by sample_options (\<lambda>_. Inr (JObject []))
      (\<lambda>_. None) (verify_admin_key_call c) Metrics_json answer s)) sign_in_events (key_form_mounted, empty_tab)"
    using console_verified
    by (auto simp: sign_in_events_def key_ok_answer_def admin_login_step_def key_form_step_def key_form_mounted_def
        admin_refusal_def admin_text Let_def)
  moreover have "readCredential s empty_tab = None" for s by (simp add: readCredential_def empty_tab_def)
  ultimately have "\<forall>c. readCredential AdminKey (snd (fold admin_login_step sign_in_events (key_form_mounted, empty_tab))) = Some c \<longrightarrow>
      c = op_adminApiKey sample_options"
    using kept_keys_were_proved [where es = sign_in_events and fs = "[]" and tab = empty_tab] by auto
  then show ?thesis
    by (cases "readCredential AdminKey (snd (fold admin_login_step sign_in_events (key_form_mounted, empty_tab)))")
      (simp_all add: sample_options_def)
qed

end
