(* ===== verification/Reply_Types.thy ===== *)
theory Reply_Types
  imports App Access_Control
begin

text \<open>
  Texts of the formats the response schemas ask for: the date-times of the service, its integers and
  identifiers; and the rows of the accounts table, which the account routes print.
\<close>

section \<open>Dates\<close>

text \<open>Instants between 1970 and the year 9890.\<close>

definition instant_ok :: "instant \<Rightarrow> bool" where
  "instant_ok t \<longleftrightarrow> 0 \<le> t \<and> t < 250000000000000000"

lemma nat_text_two: "n < 100 \<Longrightarrow> length (nat_text n) \<le> 2"
  by (cases "n < 10") (simp_all add: nat_text.simps [of n] nat_text.simps [of "n div 10"])

lemma nat_text_three: "n < 1000 \<Longrightarrow> length (nat_text n) \<le> 3"
  by (cases "n < 100") (use nat_text_two [of n] nat_text_two [of "n div 10"] in \<open>simp_all add: nat_text.simps [of n]\<close>)

lemma nat_text_four: "n < 10000 \<Longrightarrow> length (nat_text n) \<le> 4"
  by (cases "n < 1000") (use nat_text_three [of n] nat_text_three [of "n div 10"] in \<open>simp_all add: nat_text.simps [of n]\<close>)

definition digits_of_length :: "nat \<Rightarrow> string \<Rightarrow> bool" where
  "digits_of_length n s \<longleftrightarrow> length s = n \<and> list_all is_digit s"

lemma padded: "length (nat_text m) \<le> n \<Longrightarrow> digits_of_length n (pad_left n (nat_text m))"
  using nat_text_digits [of m] by (auto simp: digits_of_length_def pad_left_def list_all_iff is_digit_def less_eq_char_def)

lemma text_of_nonneg: "0 \<le> i \<Longrightarrow> bigint_text i = nat_text (nat i)"
  by (simp add: bigint_text_def)

lemma two_digits_ok: "0 \<le> i \<Longrightarrow> i < 100 \<Longrightarrow> digits_of_length 2 (two_digits i)"
  unfolding two_digits_def by (simp add: text_of_nonneg padded nat_text_two)

lemma div_bounds: "0 < c \<Longrightarrow> c * (x div c) \<le> x \<and> x < c * (x div c) + c" for x c :: int
  using mult_div_mod_eq [of c x] pos_mod_bound [of c x] pos_mod_sign [of c x] by linarith

lemma civil_bounds:
  assumes "0 \<le> days" and "days < 2900000" and "civil_from_days days = (y, m, d)"
  shows "0 \<le> y \<and> y \<le> 9999 \<and> 0 \<le> m \<and> m < 100 \<and> 0 \<le> d \<and> d < 100"
proof -
  define z where "z = days + 719468"
  define era where "era = z div 146097"
  define doe where "doe = z mod 146097"
  define q1 where "q1 = doe div 1460"
  define q2 where "q2 = doe div 36524"
  define q3 where "q3 = doe div 146096"
  define yoe where "yoe = (doe - q1 + q2 - q3) div 365"
  define y4 where "y4 = yoe div 4"
  define y100 where "y100 = yoe div 100"
  define doy where "doy = doe - (365 * yoe + y4 - y100)"
  define mp where "mp = (5 * doy + 2) div 153"
  define bk where "bk = (153 * mp + 2) div 5"
  have ymd: "d = doy - bk + 1" "m = (if mp < 10 then mp + 3 else mp - 9)"
    "y = yoe + era * 400 + (if m \<le> 2 then 1 else 0)"
  proof -
    let ?m = "if mp < 10 then mp + 3 else mp - 9"
    have "civil_from_days days = (yoe + era * 400 + (if ?m \<le> 2 then 1 else 0), ?m, doy - bk + 1)"
      by (simp only: civil_from_days_def Let_def z_def era_def doe_def q1_def q2_def q3_def yoe_def y4_def y100_def
          doy_def mp_def bk_def)
    with assms(3) show "d = doy - bk + 1" "m = ?m" "y = yoe + era * 400 + (if m \<le> 2 then 1 else 0)"
      by (auto simp only: prod.inject)
  qed
  have z: "z = 146097 * era + doe" "0 \<le> doe" "doe < 146097" by (simp_all add: doe_def era_def)
  have range: "719468 \<le> z" "z < 3619468" using assms(1,2) by (simp_all add: z_def)
  have q: "1460 * q1 \<le> doe" "doe < 1460 * q1 + 1460" "36524 * q2 \<le> doe" "doe < 36524 * q2 + 36524"
    "146096 * q3 \<le> doe" "doe < 146096 * q3 + 146096"
    using div_bounds [of 1460 doe] div_bounds [of 36524 doe] div_bounds [of 146096 doe]
    by (simp_all add: q1_def q2_def q3_def)
  have yoe: "365 * yoe \<le> doe - q1 + q2 - q3" "doe - q1 + q2 - q3 < 365 * yoe + 365"
    using div_bounds [of 365 "doe - q1 + q2 - q3"] by (simp_all add: yoe_def)
  have parts: "4 * y4 \<le> yoe" "yoe < 4 * y4 + 4" "100 * y100 \<le> yoe" "yoe < 100 * y100 + 100"
    using div_bounds [of 4 yoe] div_bounds [of 100 yoe] by (simp_all add: y4_def y100_def)
  have doy: "-30 \<le> doy" "doy \<le> 500" using z q yoe parts unfolding doy_def by linarith+
  have mp: "153 * mp \<le> 5 * doy + 2" "5 * doy + 2 < 153 * mp + 153" using div_bounds [of 153 "5 * doy + 2"] by (simp_all add: mp_def)
  have bk: "5 * bk \<le> 153 * mp + 2" "153 * mp + 2 < 5 * bk + 5" using div_bounds [of 5 "153 * mp + 2"] by (simp_all add: bk_def)
  have "-2 \<le> mp" "mp \<le> 20" using doy mp by linarith+
  then have m: "0 \<le> m" "m < 100" unfolding ymd(2) by auto
  have d: "0 \<le> d" "d < 100" using mp bk unfolding ymd(1) by linarith+
  have "0 \<le> yoe + era * 400" "yoe + era * 400 \<le> 9998" using z q yoe range by linarith+
  then have "0 \<le> y" "y \<le> 9999" unfolding ymd(3) by auto
  with m d show ?thesis by simp
qed

lemma nth_join:
  "length a = n \<Longrightarrow> (a @ b) ! i = (if i < n then a ! i else b ! (i - n))"
  by (simp add: nth_append)

text \<open>An instant is written as a date-time.\<close>

lemma iso_date_time:
  assumes "instant_ok t"
  shows "is_date_time (toISOString t)"
proof -
  define ms where "ms = ms_of t"
  obtain y mo d where civil: "civil_from_days (ms div 86400000) = (y, mo, d)" by (metis prod_cases3)
  have ms: "0 \<le> ms" "ms < 250000000000000" using assms unfolding instant_ok_def ms_def ms_of_def by linarith+
  then have "0 \<le> ms div 86400000" "ms div 86400000 < 2900000" by linarith+
  note bounds = civil_bounds [OF this civil]
  define r where "r = ms mod 86400000"
  have r: "0 \<le> r" "r < 86400000" by (simp_all add: r_def)
  have year: "digits_of_length 4 (year_text y)"
    using bounds padded [OF nat_text_four [of "nat y"]] by (simp add: year_text_def text_of_nonneg nat_less_iff)
  have hour: "digits_of_length 2 (two_digits (r div 3600000))"
    by (rule two_digits_ok) (use r in linarith)+
  have parts: "digits_of_length 2 (two_digits mo)" "digits_of_length 2 (two_digits d)"
    "digits_of_length 2 (two_digits (r div 60000 mod 60))" "digits_of_length 2 (two_digits (r div 1000 mod 60))"
    by (rule two_digits_ok; use bounds pos_mod_bound [of 60 "r div 60000"] pos_mod_bound [of 60 "r div 1000"] in simp)+
  have milli: "digits_of_length 3 (pad_left 3 (bigint_text (r mod 1000)))"
    by (simp add: text_of_nonneg padded nat_text_three)
  have split: "toISOString t = year_text y @ ''-'' @ two_digits mo @ ''-'' @ two_digits d @ ''T'' @
        two_digits (r div 3600000) @ '':'' @ two_digits (r div 60000 mod 60) @ '':'' @
        two_digits (r div 1000 mod 60) @ ''.'' @ pad_left 3 (bigint_text (r mod 1000)) @ ''Z''"
    by (simp add: toISOString_def iso_of_ms_def Let_def civil ms_def [symmetric] r_def [symmetric])
  have shape: "is_date_time (a @ ''-'' @ b @ ''-'' @ c @ ''T'' @ e @ '':'' @ f @ '':'' @ g @ ''.'' @ h @ ''Z'')"
    if "digits_of_length 4 a" "digits_of_length 2 b" "digits_of_length 2 c" "digits_of_length 2 e"
      "digits_of_length 2 f" "digits_of_length 2 g" "digits_of_length 3 h" for a b c e f g h
  proof -
    have cases: "\<exists>x1 x2. s = [x1, x2] \<and> is_digit x1 \<and> is_digit x2" if "digits_of_length 2 s" for s
      using that by (auto simp: digits_of_length_def length_Suc_conv numeral_2_eq_2)
    have "\<exists>x1 x2 x3. h = [x1, x2, x3] \<and> is_digit x1 \<and> is_digit x2 \<and> is_digit x3"
      using that(7) by (auto simp: digits_of_length_def length_Suc_conv numeral_3_eq_3)
    moreover have "\<exists>x1 x2 x3 x4. a = [x1, x2, x3, x4] \<and> is_digit x1 \<and> is_digit x2 \<and> is_digit x3 \<and> is_digit x4"
      using that(1) by (auto simp: digits_of_length_def length_Suc_conv eval_nat_numeral)
    moreover note cases [OF that(2)] cases [OF that(3)] cases [OF that(4)] cases [OF that(5)] cases [OF that(6)]
    ultimately show ?thesis
      by (elim exE conjE) (simp add: is_date_time_def All_less_Suc eval_nat_numeral)
  qed
  show ?thesis unfolding split by (rule shape) (use year hour parts milli in simp_all)
qed

section \<open>Typed accounts\<close>

definition account_typed :: "account_row \<Rightarrow> bool" where
  "account_typed r \<longleftrightarrow> is_uuid_text (acc_id r) \<and> acc_currency r \<in> set supportedCurrencies \<and> instant_ok (acc_created_at r)"

definition accounts_typed :: "db \<Rightarrow> bool" where
  "accounts_typed s \<longleftrightarrow> (\<forall>r\<in>set (accounts s). account_typed r)"

lemma integer_text: "is_integer_text (bigint_text i)"
proof (cases "i < 0")
  case True
  then show ?thesis by (simp add: is_integer_text_def bigint_text_def nat_text_digits)
next
  case False
  obtain c cs where n: "nat_text (nat i) = c # cs" by (metis nat_text_not_Nil list.exhaust)
  have digits: "list_all is_digit (c # cs)" unfolding n [symmetric] by (rule nat_text_digits)
  then have "c \<noteq> CHR ''-''" by (auto simp: is_digit_def less_eq_char_def)
  with False n digits show ?thesis by (simp add: is_integer_text_def bigint_text_def)
qed

lemma account_reply_typed:
  assumes "account_typed r"
  shows "conforms accountResponseSchema (account_json (account_view r))"
  using assms integer_text [of "acc_balance_minor r"] iso_date_time [of "acc_created_at r"]
  by (auto simp: account_typed_def account_json_def account_view_def accountResponseSchema_def account_status_text_def
      split: account_status.split)

lemma listed_rows_typed:
  assumes "accounts_typed s" and "a \<in> set (fst (store_listOwned owner cursor n s))"
  shows "conforms accountResponseSchema (account_json a)"
proof -
  obtain r where "r \<in> set (fst (keyset_page (owned_by owner) account_key cursor n (accounts s)))" "a = account_view r"
    using assms(2) by (auto simp: store_listOwned_def split: prod.splits)
  then have "r \<in> set (accounts s)" "a = account_view r"
    using keyset_page_set [of "owned_by owner" account_key cursor n "accounts s"] by auto
  with assms(1) show ?thesis using account_reply_typed by (simp add: accounts_typed_def)
qed

end
