(* ===== verification/Typed_Tables.thy ===== *)
theory Typed_Tables
  imports Request_Invariants Reply_Types
begin

text \<open>
  Typing rules: what a computation leaves when it starts in a state of some kind, and what it returns
  when it returns.  The tables hold what their columns declare - identifiers that are UUIDs, instants
  that have a date-time text, positive amounts, currencies, stored answers of the type of their
  route - and the statements of the repositories keep them so.
\<close>

section \<open>What a computation yields\<close>

definition tx_yields :: "('s \<Rightarrow> bool) \<Rightarrow> ('s, 'e, 'a) tx \<Rightarrow> ('a \<Rightarrow> bool) \<Rightarrow> bool" where
  "tx_yields P m Q \<longleftrightarrow> (\<forall>s a s'. P s \<longrightarrow> m s = Inr (a, s') \<longrightarrow> P s' \<and> Q a)"

definition io_yields :: "('s \<Rightarrow> bool) \<Rightarrow> ('s, 'e, 'a) io \<Rightarrow> ('a \<Rightarrow> bool) \<Rightarrow> bool" where
  "io_yields P m Q \<longleftrightarrow> (\<forall>s r s'. P s \<longrightarrow> m s = (r, s') \<longrightarrow> P s' \<and> (\<forall>a. r = Inr a \<longrightarrow> Q a))"

named_theorems yields "what the computations of the service yield"

lemma tx_yieldsI: "(\<And>s a s'. P s \<Longrightarrow> m s = Inr (a, s') \<Longrightarrow> P s' \<and> Q a) \<Longrightarrow> tx_yields P m Q"
  by (simp add: tx_yields_def)

lemma tx_yieldsD: "tx_yields P m Q \<Longrightarrow> P s \<Longrightarrow> m s = Inr (a, s') \<Longrightarrow> P s' \<and> Q a"
  by (simp add: tx_yields_def)

lemma tx_yields_keeps: "tx_keeps P m \<Longrightarrow> tx_yields P m (\<lambda>_. True)"
  by (auto simp: tx_yields_def tx_keeps_def)

lemma tx_keeps_yields: "tx_yields P m Q \<Longrightarrow> tx_keeps P m"
  unfolding tx_yields_def tx_keeps_def by blast

lemma tx_yields_weaken: "tx_yields P m Q \<Longrightarrow> (\<And>a. Q a \<Longrightarrow> R a) \<Longrightarrow> tx_yields P m R"
  unfolding tx_yields_def by blast

lemma tx_yields_bind: "tx_yields P m Q \<Longrightarrow> (\<And>a. Q a \<Longrightarrow> tx_yields P (k a) R) \<Longrightarrow> tx_yields P (tx_bind m k) R"
  unfolding tx_yields_def tx_bind_eq_Inr by metis

lemma tx_yields_return: "Q a \<Longrightarrow> tx_yields P (tx_return a) Q"
  by (simp add: tx_yields_def tx_simps)

lemma tx_yields_lift: "(\<And>a. r = Inr a \<Longrightarrow> Q a) \<Longrightarrow> tx_yields P (tx_lift r) Q"
  by (simp add: tx_yields_def tx_simps)

lemma tx_yields_get: "(\<And>s. P s \<Longrightarrow> Q (f s)) \<Longrightarrow> tx_yields P (tx_get f) Q"
  by (simp add: tx_yields_def tx_simps)

lemma io_yieldsD: "io_yields P m Q \<Longrightarrow> P s \<Longrightarrow> m s = (r, s') \<Longrightarrow> P s' \<and> (\<forall>a. r = Inr a \<longrightarrow> Q a)"
  by (simp add: io_yields_def)

lemma io_yields_keeps: "io_keeps P m \<Longrightarrow> io_yields P m (\<lambda>_. True)"
  unfolding io_yields_def io_keeps_def by (metis snd_conv)

lemma io_yields_weaken: "io_yields P m Q \<Longrightarrow> (\<And>a. Q a \<Longrightarrow> R a) \<Longrightarrow> io_yields P m R"
  unfolding io_yields_def by blast

lemma io_yields_bind: "io_yields P m Q \<Longrightarrow> (\<And>a. Q a \<Longrightarrow> io_yields P (k a) R) \<Longrightarrow> io_yields P (io_bind m k) R"
  unfolding io_yields_def io_bind_eq by blast

lemma io_yields_catch: "io_yields P m Q \<Longrightarrow> (\<And>e. io_yields P (h e) Q) \<Longrightarrow> io_yields P (io_catch m h) Q"
  unfolding io_yields_def io_catch_eq by blast

lemma io_yields_return: "Q a \<Longrightarrow> io_yields P (io_return a) Q"
  by (simp add: io_yields_def io_simps)

lemma io_yields_throw: "io_yields P (io_throw e) Q"
  by (simp add: io_yields_def io_simps)

lemma io_yields_lift: "(\<And>a. r = Inr a \<Longrightarrow> Q a) \<Longrightarrow> io_yields P (io_lift r) Q"
  by (simp add: io_yields_def io_simps)

lemma io_yields_get: "(\<And>s. P s \<Longrightarrow> Q (f s)) \<Longrightarrow> io_yields P (io_get f) Q"
  by (simp add: io_yields_def io_simps)

lemma io_yields_modify: "(\<And>s. P s \<Longrightarrow> P (f s)) \<Longrightarrow> io_yields P (io_modify f) (\<lambda>_. True)"
  by (simp add: io_yields_def io_simps)

lemma io_yields_commit: "tx_yields P m Q \<Longrightarrow> io_yields P (auto_commit m) Q"
  unfolding io_yields_def tx_yields_def auto_commit_eq by blast

lemma io_yields_on_transfers:
  "io_yields (\<lambda>t. P (tw_db t)) m Q \<Longrightarrow> io_yields (\<lambda>w. P (app_db w)) (on_transfers m) Q"
  unfolding io_yields_def on_transfers_def Let_def by (auto split: prod.splits)

lemma io_yields_on_db: "io_yields P m Q \<Longrightarrow> io_yields (\<lambda>w. P (app_db w)) (on_db m) Q"
  unfolding on_db_def
  by (rule io_yields_on_transfers) (auto simp: io_yields_def Let_def split: prod.splits)

text \<open>One step of a method, its result used where it was read.\<close>

lemma yields_steps [yields]:
  "tx_keeps P c \<Longrightarrow> (\<And>a. io_yields P (kc a) Q) \<Longrightarrow> io_yields P (io_bind (auto_commit c) kc) Q"
  "(\<And>s. P s \<Longrightarrow> P (f s)) \<Longrightarrow> io_yields P (km ()) Q \<Longrightarrow> io_yields P (io_bind (io_modify f) km) Q"
  "(\<And>s. P s \<Longrightarrow> io_yields P (kg (g s)) Q) \<Longrightarrow> io_yields P (io_bind (io_get g) kg) Q"
  "(\<And>a. r = Inr a \<Longrightarrow> io_yields P (kl a) Q) \<Longrightarrow> io_yields P (io_bind (io_lift r) kl) Q"
proof -
  show "io_yields P (io_bind (auto_commit c) kc) Q" if "tx_keeps P c" "\<And>a. io_yields P (kc a) Q"
    by (rule io_yields_bind [OF io_yields_commit [OF tx_yields_keeps [OF that(1)]] that(2)])
  show "io_yields P (io_bind (io_modify f) km) Q" if "\<And>s. P s \<Longrightarrow> P (f s)" "io_yields P (km ()) Q"
    by (rule io_yields_bind [OF io_yields_modify]) (simp_all add: that)
  show "io_yields P (io_bind (io_get g) kg) Q" if "\<And>s. P s \<Longrightarrow> io_yields P (kg (g s)) Q"
    using that unfolding io_yields_def io_steps by blast
  show "io_yields P (io_bind (io_lift r) kl) Q" if "\<And>a. r = Inr a \<Longrightarrow> io_yields P (kl a) Q"
    by (rule io_yields_bind [OF io_yields_lift [where Q = "\<lambda>a. r = Inr a"]]) (simp_all add: that)
qed

lemma yields_ends [yields]: "Q a \<Longrightarrow> io_yields P (io_return a) Q" "io_yields P (io_throw e) Q"
  by (erule io_yields_return, rule io_yields_throw)

lemma transaction_yields:
  assumes "tx_yields P work Q" and "P s"
  shows "P (out_state (withTransaction env b d work s)) \<and>
    (\<forall>a. out_result (withTransaction env b d work s) = Inr a \<longrightarrow> Q a)"
proof -
  let ?o = "withTransaction env b d work s"
  have "P (out_state ?o)"
    using withTransaction_state [of env b d work s] assms unfolding tx_yields_def by metis
  moreover have "Q a" if "out_result ?o = Inr a" for a
    using withTransaction_InrD [OF that] assms unfolding tx_yields_def by blast
  ultimately show ?thesis by blast
qed

section \<open>Schemas with the currencies there are\<close>

text \<open>
  Some response schemas admit any three capitals as a currency; the accounts are in one of two.  What
  is proved is the narrower schema.
\<close>

fun narrowed_rule :: "string_rule \<Rightarrow> string_rule" where
  "narrowed_rule Pattern_currency = Enum supportedCurrencies"
| "narrowed_rule r = r"

lemma size_schema [termination_simp]:
  "(k, sch) \<in> set props \<Longrightarrow> size sch < Suc (size_list (size_prod (\<lambda>_. 0) size) props)"
  by (induction props) auto

fun narrowed :: "schema \<Rightarrow> schema" where
  "narrowed (Sch_string rules) = Sch_string (map narrowed_rule rules)"
| "narrowed (Sch_nullable sch) = Sch_nullable (narrowed sch)"
| "narrowed (Sch_array sch) = Sch_array (narrowed sch)"
| "narrowed (Sch_object req props) = Sch_object req (map (\<lambda>(k, sch). (k, narrowed sch)) props)"
| "narrowed sch = sch"

lemma supported_currency_ok: "c \<in> set supportedCurrencies \<Longrightarrow> currency_ok c"
  by (auto simp: supportedCurrencies_def currency_ok_def less_eq_char_def)

lemma narrowed_rule_ok: "string_rule_ok (narrowed_rule r) s \<Longrightarrow> string_rule_ok r s"
  by (cases r) (simp_all add: supported_currency_ok)

lemma conforms_narrowed: "conforms (narrowed sch) v \<Longrightarrow> conforms sch v"
proof (induction sch v rule: conforms.induct)
  case (1 rules s)
  then show ?case by (auto simp: list.pred_map comp_def elim!: list.pred_mono_strong intro: narrowed_rule_ok)
next
  case (8 req props kvs)
  have "conforms (narrowed sch) (snd f)" if "f \<in> set kvs" "map_of props (fst f) = Some sch" for f sch
    using 8(2) that by (force simp: map_of_map)
  moreover have "map_of props (fst f) \<noteq> None" if "f \<in> set kvs" for f
    using 8(2) that by (force simp: map_of_map split: option.splits)
  ultimately show ?case using 8 by (fastforce split: option.splits)
qed auto

section \<open>Typed rows\<close>

definition entry_typed :: "journal_entry_row \<Rightarrow> bool" where
  "entry_typed r \<longleftrightarrow> is_uuid_text (je_id r) \<and> is_uuid_text (je_transaction_id r) \<and> is_uuid_text (je_account_id r) \<and>
    0 < je_amount_minor r \<and> je_currency r \<in> set supportedCurrencies \<and> instant_ok (je_created_at r)"

definition transfer_typed :: "transfer_row \<Rightarrow> bool" where
  "transfer_typed r \<longleftrightarrow> is_uuid_text (tr_id r) \<and> is_uuid_text (tr_source_account_id r) \<and>
    is_uuid_text (tr_destination_account_id r) \<and> 0 < tr_amount_minor r \<and> tr_currency r \<in> set supportedCurrencies"

text \<open>The body of every error reply, and of every stored failure.\<close>

definition errorResponse :: schema where
  "errorResponse = Sch_object [''error''] [(''error'', Sch_object [''code'', ''message'', ''requestId'']
    [(''code'', Sch_string []), (''message'', Sch_string []), (''requestId'', Sch_string [])])]"

definition answerSchema :: "string \<Rightarrow> schema" where
  "answerSchema operation =
    (if operation = fundingIdempotencyOperation then fundingResponseSchema else transferResponseSchema)"

definition answer_body_typed :: "string \<Rightarrow> nat \<Rightarrow> json \<Rightarrow> bool" where
  "answer_body_typed operation status body \<longleftrightarrow>
    (if status = 201 then conforms (narrowed (answerSchema operation)) body
     else 400 \<le> status \<and> conforms errorResponse body)"

definition answer_typed :: "idempotency_row \<Rightarrow> bool" where
  "answer_typed r \<longleftrightarrow> (ir_status r = Completed \<longrightarrow>
    (case (ir_response_status_code r, ir_response_body r) of
       (Some status, Some body) \<Rightarrow> answer_body_typed (ir_operation r) status body
     | _ \<Rightarrow> False))"

definition db_typed :: "db \<Rightarrow> bool" where
  "db_typed s \<longleftrightarrow> accounts_typed s \<and> list_all entry_typed (journal_entries s) \<and>
    list_all transfer_typed (transfers s) \<and>
    list_all (\<lambda>t. instant_ok (lt_created_at t)) (ledger_transactions s) \<and>
    list_all answer_typed (idempotency_records s)"

lemma db_typed_frame [simp]:
  "db_typed (s\<lparr>outbox_events := x1\<rparr>) = db_typed s" "db_typed (s\<lparr>consumer_inbox := x2\<rparr>) = db_typed s"
  "db_typed (s\<lparr>audit_effects := x3\<rparr>) = db_typed s" "db_typed (s\<lparr>principals := x4\<rparr>) = db_typed s"
  "db_typed (s\<lparr>api_keys := x5\<rparr>) = db_typed s" "db_typed (s\<lparr>principal_identities := x6\<rparr>) = db_typed s"
  by (simp_all add: db_typed_def accounts_typed_def)

lemma error_json_typed: "conforms errorResponse (error_json b)"
  by (simp add: errorResponse_def error_json_def)

lemma db_typed_account:
  "db_typed s \<Longrightarrow> a \<in> set (accounts s) \<Longrightarrow>
    is_uuid_text (acc_id a) \<and> acc_currency a \<in> set supportedCurrencies \<and> instant_ok (acc_created_at a)"
  by (simp add: db_typed_def accounts_typed_def account_typed_def)

section \<open>The claims\<close>

lemma records_typed [simp]:
  "db_typed s \<Longrightarrow> db_typed (s\<lparr>idempotency_records := t\<rparr>) \<longleftrightarrow> (\<forall>r\<in>set t. answer_typed r)"
  by (simp add: db_typed_def accounts_typed_def list_all_iff)

lemma db_typed_answer: "db_typed s \<Longrightarrow> r \<in> set (idempotency_records s) \<Longrightarrow> answer_typed r"
  by (simp add: db_typed_def list_all_iff)

lemma answer_typed_simps [simp]:
  "answer_typed (fresh_claim now p)"
  "answer_typed (r\<lparr>ir_created_at := now, ir_completed_at := c\<rparr>) = answer_typed r"
  by (simp add: answer_typed_def fresh_claim_def) (auto simp: answer_typed_def split: option.splits)

lemma completed_typed:
  "answer_body_typed (ir_operation r) status body \<Longrightarrow> body \<noteq> JNull \<Longrightarrow> answer_typed (completed_with now body status r)"
  by (simp add: answer_typed_def completed_with_def json_param_def)

lemma complete_typed:
  assumes "answer_body_typed operation status body" and "body \<noteq> JNull"
  shows "tx_keeps db_typed (complete now key operation pid body status)"
  unfolding tx_keeps_def complete_eq
  using assms
  by (auto intro!: completed_typed dest: db_typed_answer simp: update_where_def unfinished_def)

lemma claims_typed:
  "tx_keeps db_typed (insert_claim now p)" "tx_keeps db_typed (reclaim now p threshold)"
  "tx_keeps db_typed (release key operation pid)"
  by (auto simp: tx_keeps_def reclaim_eq release_def tx_simps update_where_def delete_where_def
      dest!: insert_claim_InrD dest: db_typed_answer split: option.splits)

lemma failure_typed: "400 \<le> status \<Longrightarrow> tx_keeps db_typed (complete now key operation pid (error_json b) status)"
  by (rule complete_typed) (simp add: answer_body_typed_def error_json_typed, simp add: error_json_def)

lemma credentials_typed:
  "tx_keeps db_typed (createPrincipal now pid name)" "tx_keeps db_typed (insertApiKey now kid hash keyPrefix pid)"
  "tx_keeps db_typed (store_revokeApiKey now kid)"
  "tx_keeps db_typed (provision_work now pid provider subject email name)"
  by (auto simp: tx_keeps_def store_revokeApiKey_eq dest!: createPrincipal_InrD insertApiKey_InrD
      elim!: provision_work_InrD)

interpretation typed: statement_invariant db_typed
  by unfold_locales (rule claims_typed failure_typed credentials_typed; assumption)+

end
