(* ===== verification/Typed_Postings.thy ===== *)
theory Typed_Postings
  imports Typed_Tables
begin

text \<open>
  The postings keep the tables typed, and what a transfer and a funding return, and store as the
  answer of their claim, has the type of the response schema of its route.
\<close>

section \<open>The posting function\<close>

definition uuids :: "string list \<Rightarrow> bool" where
  "uuids ids \<longleftrightarrow> list_all is_uuid_text ids"

definition posting_typed :: "instant \<Rightarrow> uuid \<Rightarrow> string \<Rightarrow> ledger_transaction_row \<Rightarrow> bool" where
  "posting_typed now tid ty row \<longleftrightarrow> lt_id row = tid \<and> lt_type row = ty \<and> lt_created_at row = now \<and>
    lt_currency row \<in> set supportedCurrencies"

lemma posted_state_typed:
  assumes "db_typed s" and "instant_ok (lt_created_at row)" and "\<forall>r\<in>set rows. entry_typed r"
  shows "db_typed (posted_state now row rows es s)"
  using assms
  by (auto simp: db_typed_def posted_state_def accounts_typed_def account_typed_def update_where_def post_delta_def
      list_all_iff)

lemma posting_yields:
  assumes now: "instant_ok now" and ids: "is_uuid_text tid" "uuids eids"
  shows "tx_yields db_typed (post_ledger_transaction now tid ty ref eids aids ds ms) (posting_typed now tid ty)"
proof (rule tx_yieldsI)
  fix s row s' assume typed: "db_typed s" and post: "post_ledger_transaction now tid ty ref eids aids ds ms s = Inr (row, s')"
  obtain rows where rows: "rows = map (entry_row now tid (lt_currency row)) (zip eids (zip aids (zip ds ms)))"
    and row: "lt_id row = tid" "lt_type row = ty" "lt_created_at row = now"
    and s': "s' = posted_state now row rows (zip aids (zip ds ms)) s"
    and len: "2 \<le> length eids" "length aids = length eids" "length ds = length eids" "length ms = length eids"
    and ground: "\<forall>r\<in>set rows. entry_grounded (s\<lparr>ledger_transactions := ledger_transactions s @ [row]\<rparr>) r"
    by (rule post_ledger_transaction_InrD [OF post]) blast
  have one: "entry_typed r \<and> lt_currency row \<in> set supportedCurrencies" if r: "r \<in> set rows" for r
  proof -
    from r obtain eid aid d m where e: "(eid, aid, d, m) \<in> set (zip eids (zip aids (zip ds ms)))"
      "r = entry_row now tid (lt_currency row) (eid, aid, d, m)"
      by (auto simp: rows)
    then have r': "je_id r = eid" "je_transaction_id r = tid" "je_account_id r = aid" "je_currency r = lt_currency row"
      "je_amount_minor r = m" "je_created_at r = now"
      by (simp_all add: entry_row_def)
    have "entry_grounded (s\<lparr>ledger_transactions := ledger_transactions s @ [row]\<rparr>) r" using ground r by blast
    then obtain a where a: "a \<in> set (accounts s)" "acc_id a = aid" "acc_currency a = lt_currency row" "0 < m"
      by (auto simp: entry_grounded_def r')
    have "is_uuid_text aid" "lt_currency row \<in> set supportedCurrencies"
      using db_typed_account [OF typed a(1)] a supported_currency_ok by auto
    moreover have "is_uuid_text eid" using e(1) ids(2) by (auto simp: uuids_def list_all_iff dest: set_zip_leftD)
    ultimately show ?thesis using a(4) now ids(1) by (simp add: entry_typed_def r')
  qed
  have "rows \<noteq> []" using len unfolding rows by (metis length_0_conv length_map length_zip min.idem not_numeral_le_zero)
  then obtain r where "r \<in> set rows" by (cases rows) auto
  with one have cur: "lt_currency row \<in> set supportedCurrencies" by blast
  show "db_typed s' \<and> posting_typed now tid ty row"
    unfolding s' using posted_state_typed [OF typed] one now row cur by (simp add: posting_typed_def)
qed

section \<open>A transfer\<close>

definition transfer_result :: "Transfer \<Rightarrow> bool" where
  "transfer_result t \<longleftrightarrow> conforms (narrowed transferResponseSchema) (transfer_json t)"

lemma transfer_resultI:
  "is_uuid_text (t_id t) \<Longrightarrow> is_uuid_text (t_sourceAccountId t) \<Longrightarrow> is_uuid_text (t_destinationAccountId t) \<Longrightarrow>
    is_positive_text (t_amountMinor t) \<Longrightarrow> t_currency t \<in> set supportedCurrencies \<Longrightarrow> is_date_time (t_createdAt t) \<Longrightarrow>
    transfer_result t"
  by (auto simp: transfer_result_def transferResponseSchema_def transfer_json_def)

lemma complete_claim_yields:
  "answer_body_typed operation status body \<Longrightarrow> body \<noteq> JNull \<Longrightarrow>
    tx_yields db_typed (complete_claim now key operation pid body status) (\<lambda>_. True)"
  unfolding complete_claim_def by (intro tx_yields_keeps keeps_intros complete_typed)

lemma outbox_yields: "tx_yields db_typed (if outbox then outbox_insert now eid e else tx_return ()) (\<lambda>_. True)"
  by (rule tx_yields_keeps) (auto simp: tx_keeps_def tx_simps dest!: outbox_insert_InrD)

lemma insert_transfer_yields: "transfer_typed r \<Longrightarrow> tx_yields db_typed (insert_transfer r) (\<lambda>_. True)"
  by (rule tx_yields_keeps)
    (auto simp: tx_keeps_def db_typed_def accounts_typed_def dest!: insert_transfer_InrD)

lemma transfer_body_typed:
  "transfer_result t \<Longrightarrow> answer_body_typed ''transfer'' 201 (transfer_json t)" "transfer_json t \<noteq> JNull"
  by (simp_all add: answer_body_typed_def answerSchema_def fundingIdempotencyOperation_def transfer_result_def
      transfer_json_def)

lemma postTransfer_yields:
  assumes now: "instant_ok now" and ids: "is_uuid_text (px_id i)" "uuids eids"
    and accounts: "is_uuid_text (px_sourceAccountId i)" "is_uuid_text (px_destinationAccountId i)"
    and currency: "px_currency i \<in> set supportedCurrencies"
    and operation: "\<forall>key op pid. px_idempotency i = Some (key, op, pid) \<longrightarrow> op = ''transfer''"
  shows "tx_yields db_typed (postTransfer outbox now eids evid i) transfer_result"
  unfolding postTransfer_def Let_def
proof (intro tx_yields_bind)
  show "tx_yields db_typed (tx_lift (bigints_in [px_amountMinor i, px_amountMinor i]))
      (\<lambda>_. is_positive_text (px_amountMinor i))"
    by (rule tx_yields_lift) (auto simp: bigint_in_def split: if_splits)
  fix amounts assume digits: "is_positive_text (px_amountMinor i)"
  show "tx_yields db_typed (post_ledger_transaction now (px_id i) ''transfer'' (px_reference i) eids
      [px_sourceAccountId i, px_destinationAccountId i] [Credit, Debit] amounts) (posting_typed now (px_id i) ''transfer'')"
    by (rule posting_yields [OF now ids])
  fix row assume row: "posting_typed now (px_id i) ''transfer'' row"
  show "tx_yields db_typed (tx_lift (bigint_in (px_amountMinor i))) (\<lambda>a. 0 < a)"
    by (rule tx_yields_lift) (auto simp: bigint_in_def is_positive_text_value_pos split: if_splits)
  fix amount :: int assume "0 < amount"
  then show "tx_yields db_typed (insert_transfer \<lparr>tr_id = px_id i, tr_source_account_id = px_sourceAccountId i,
      tr_destination_account_id = px_destinationAccountId i, tr_amount_minor = amount, tr_currency = px_currency i\<rparr>)
      (\<lambda>_. True)"
    using ids accounts currency by (intro insert_transfer_yields) (simp add: transfer_typed_def)
  let ?t = "\<lparr>t_amountMinor = px_amountMinor i, t_createdAt = toISOString (lt_created_at row),
        t_currency = px_currency i, t_destinationAccountId = px_destinationAccountId i, t_id = px_id i,
        t_reference = px_reference i, t_sourceAccountId = px_sourceAccountId i\<rparr>"
  have result: "transfer_result ?t"
    using row digits ids accounts currency iso_date_time [OF now]
    by (intro transfer_resultI) (simp_all add: posting_typed_def)
  show "tx_yields db_typed (if outbox then outbox_insert now evid (transfer_event ?t) else tx_return ()) (\<lambda>_. True)"
    by (rule outbox_yields)
  show "tx_yields db_typed (case px_idempotency i of None \<Rightarrow> tx_return ()
      | Some (key, operation, principalId) \<Rightarrow> complete_claim now key operation principalId (transfer_json ?t) 201)
      (\<lambda>_. True)"
    using operation transfer_body_typed [of ?t] result
    by (auto intro!: tx_yields_return complete_claim_yields split: option.split prod.split)
  show "tx_yields db_typed (tx_return ?t) transfer_result" by (rule tx_yields_return) (rule result)
qed

lemma lockAccounts_yields:
  "tx_yields db_typed (lockAccounts ids)
    (\<lambda>locked. \<forall>l\<in>set locked. is_uuid_text (lk_id l) \<and> lk_currency l \<in> set supportedCurrencies)"
  unfolding lockAccounts_def
  by (rule tx_yields_get) (auto simp: set_select_where supported_currency_ok dest!: db_typed_account)

lemma find_in_set: "find p xs = Some x \<Longrightarrow> x \<in> set xs"
  by (auto simp: find_Some_iff)

lemma transfer_work_yields:
  assumes now: "instant_ok now" and ids: "is_uuid_text tid" "uuids eids"
  shows "tx_yields db_typed (transfer_work outbox now eids evid amount input pid tid key) transfer_result"
  unfolding transfer_work_def
proof (intro tx_yields_bind)
  show "tx_yields db_typed (lockAccounts (deterministicAccountOrder (ct_sourceAccountId input) (ct_destinationAccountId input)))
      (\<lambda>locked. \<forall>l\<in>set locked. is_uuid_text (lk_id l) \<and> lk_currency l \<in> set supportedCurrencies)"
    by (rule lockAccounts_yields)
  fix locked :: "LockedTransferAccount list" assume locked: "\<forall>l\<in>set locked. is_uuid_text (lk_id l) \<and> lk_currency l \<in> set supportedCurrencies"
  show "tx_yields db_typed (tx_lift (transfer_checks amount input pid locked))
      (\<lambda>(src, dst). is_uuid_text (lk_id src) \<and> is_uuid_text (lk_id dst) \<and> lk_currency src \<in> set supportedCurrencies)"
    by (rule tx_yields_lift) (use locked find_in_set in \<open>fastforce dest!: transfer_checks_InrD\<close>)
  fix p :: "LockedTransferAccount \<times> LockedTransferAccount"
  assume p: "case p of (src, dst) \<Rightarrow> is_uuid_text (lk_id src) \<and> is_uuid_text (lk_id dst) \<and> lk_currency src \<in> set supportedCurrencies"
  obtain src dst where pair: "p = (src, dst)" by (cases p)
  show "tx_yields db_typed (case p of (source, destination) \<Rightarrow> postTransfer outbox now eids evid
      \<lparr>px_amountMinor = Money_toString amount, px_currency = lk_currency source,
       px_destinationAccountId = lk_id destination, px_id = tid, px_reference = ''transfer:'' @ tid,
       px_sourceAccountId = lk_id source, px_idempotency = map_option (\<lambda>key. (key, ''transfer'', pid)) key\<rparr>) transfer_result"
    unfolding pair prod.case by (rule postTransfer_yields) (use p now ids in \<open>auto simp: pair\<close>)
qed

section \<open>A funding\<close>

definition posted_typed :: "string \<Rightarrow> PostedTransaction \<Rightarrow> bool" where
  "posted_typed ty p \<longleftrightarrow> is_uuid_text (pt_id p) \<and> pt_type p = ty \<and> pt_currency p \<in> set supportedCurrencies \<and>
    is_date_time (pt_createdAt p)"

lemma postWith_yields:
  assumes "instant_ok now" and "is_uuid_text (po_id input)" and "uuids eids"
  shows "tx_yields db_typed (postWith now eids input) (posted_typed (po_type input))"
  unfolding postWith_def
proof (intro tx_yields_bind tx_yields_lift)
  fix amounts
  show "tx_yields db_typed (post_ledger_transaction now (po_id input) (po_type input) (po_reference input) eids
      (map en_accountId (po_entries input)) (map en_direction (po_entries input)) amounts)
      (posting_typed now (po_id input) (po_type input))"
    by (rule posting_yields [OF assms])
  fix row assume "posting_typed now (po_id input) (po_type input) row"
  then show "tx_yields db_typed (tx_return (toPosted row)) (posted_typed (po_type input))"
    using assms iso_date_time by (intro tx_yields_return) (simp add: posted_typed_def posting_typed_def toPosted_def)
qed simp

text \<open>What the postings store as the answer of their claim.\<close>

definition claim_typed :: "string \<Rightarrow> PostingIdempotency option \<Rightarrow> bool" where
  "claim_typed ty idem \<longleftrightarrow> (\<forall>i p. idem = Some i \<longrightarrow> posted_typed ty p \<longrightarrow>
    answer_body_typed (pi_operation i) (pi_responseStatus i) (pi_responseBody i p) \<and> pi_responseBody i p \<noteq> JNull)"

lemma post_work_yields:
  assumes ids: "instant_ok now" "is_uuid_text (po_id input)" "uuids eids" and claim: "claim_typed (po_type input) idem"
  shows "tx_yields db_typed (post_work outbox now eids evid input idem) (posted_typed (po_type input))"
  unfolding post_work_def
proof (intro tx_yields_bind)
  show "tx_yields db_typed (postWith now eids input) (posted_typed (po_type input))" by (rule postWith_yields [OF ids])
  fix posted assume posted: "posted_typed (po_type input) posted"
  show "tx_yields db_typed (if outbox then outbox_insert now evid (posting_event input posted) else tx_return ()) (\<lambda>_. True)"
    by (rule outbox_yields)
  show "tx_yields db_typed (case idem of None \<Rightarrow> tx_return ()
      | Some i \<Rightarrow> complete_claim now (pi_key i) (pi_operation i) (pi_principalId i) (pi_responseBody i posted) (pi_responseStatus i))
      (\<lambda>_. True)"
    using claim posted by (auto simp: claim_typed_def intro!: tx_yields_return complete_claim_yields split: option.split)
  show "tx_yields db_typed (tx_return posted) (posted_typed (po_type input))"
    by (rule tx_yields_return) (rule posted)
qed

lemma single_statement_yields:
  assumes "tx_yields P work Q" and "P s"
  shows "P (out_state (single_statement env d work s)) \<and>
    (\<forall>a. out_result (single_statement env d work s) = Inr a \<longrightarrow> Q a)"
proof -
  let ?o = "single_statement env d work s"
  have "P (out_state ?o)"
    using single_statement_state [of env d work s] assms unfolding tx_yields_def by metis
  moreover have "Q a" if "out_result ?o = Inr a" for a
    using single_statement_InrD [OF that] assms unfolding tx_yields_def by blast
  ultimately show ?thesis by blast
qed

lemma post_yields:
  assumes ids: "instant_ok now" "is_uuid_text (po_id input)" "uuids eids" and claim: "claim_typed (po_type input) idem"
  shows "io_yields db_typed (post env outbox now eids evid input idem) (posted_typed (po_type input))"
proof -
  have "db_typed (out_state (store_post env outbox now eids evid input idem s)) \<and>
      (\<forall>a. out_result (store_post env outbox now eids evid input idem s) = Inr a \<longrightarrow> posted_typed (po_type input) a)"
    if "db_typed s" for s
    unfolding store_post_def
    using transaction_yields [OF post_work_yields [OF ids claim] that]
      single_statement_yields [OF postWith_yields [OF ids] that] by simp
  then show ?thesis
    by (auto simp: post_def io_yields_def run_outcome_def Let_def io_simps split: option.split)
qed

definition funding_typed :: "FundingResult \<Rightarrow> bool" where
  "funding_typed r \<longleftrightarrow> conforms (narrowed fundingResponseSchema) (funding_json r)"

lemma funding_typedI:
  "posted_typed ''funding'' p \<Longrightarrow> in_money_range (minor amount) \<Longrightarrow> is_uuid_text aid \<Longrightarrow>
    funding_typed (funding_result amount aid p)"
  using fromMinor_of_text [of amount]
  by (auto simp: funding_typed_def fundingResponseSchema_def funding_json_def funding_result_def posted_fields_def
      posted_typed_def fromMinor_string)

lemma funding_claim_typed:
  assumes "in_money_range (minor amount)" and "is_uuid_text aid"
  shows "claim_typed ''funding'' (funding_claim amount aid idem)"
  using funding_typedI [OF _ assms]
  by (auto simp: claim_typed_def funding_claim_def answer_body_typed_def answerSchema_def funding_typed_def
      funding_json_def split: option.splits)

text \<open>What other clients do keeps the tables typed, and what the request draws is typed.\<close>

definition fund_typed :: "fund_env \<Rightarrow> bool" where
  "fund_typed env \<longleftrightarrow> instant_ok (fe_now env) \<and> is_uuid_text (fe_id env) \<and> uuids (fe_entryIds env)"

lemma findAccount_typed:
  "db_typed s \<Longrightarrow> findAccount aid s = Some a \<Longrightarrow> is_uuid_text (la_id a)"
  by (auto simp: findAccount_def toAccount_def dest!: select_first_SomeD db_typed_account)

lemma fundAccount_yields:
  assumes drawn: "fund_typed env" and before: "\<And>s. db_typed s \<Longrightarrow> db_typed (fe_before_treasury env s)"
    "\<And>s. db_typed s \<Longrightarrow> db_typed (fe_before_post env s)"
  shows "io_yields db_typed (fundAccount outbox env input idem) funding_typed"
  unfolding fundAccount_def
proof (intro io_yields_bind)
  show "io_yields db_typed (io_lift (fromMinor (StringArg (fa_amountMinor input)))) (\<lambda>a. in_money_range (minor a))"
    by (rule io_yields_lift) (rule fromMinor_range)
  fix amount assume amount: "in_money_range (minor amount)"
  show "io_yields db_typed (io_get (findAccount (fa_accountId input))) (\<lambda>f. \<forall>a. f = Some a \<longrightarrow> is_uuid_text (la_id a))"
    by (rule io_yields_get) (auto dest: findAccount_typed)
  fix found :: "LedgerAccount option" assume found: "\<forall>a. found = Some a \<longrightarrow> is_uuid_text (la_id a)"
  have last: "io_yields db_typed (io_bind (post (fe_tx env) outbox (fe_now env) (fe_entryIds env) (fe_eventId env)
      (funding_posting (fe_id env) amount (la_id account) tr (la_currency account))
      (funding_claim amount (la_id account) idem)) (\<lambda>posted. io_return (funding_result amount (la_id account) posted)))
      funding_typed" if "is_uuid_text (la_id account)" for account tr
  proof (rule io_yields_bind)
    show "io_yields db_typed (post (fe_tx env) outbox (fe_now env) (fe_entryIds env) (fe_eventId env)
        (funding_posting (fe_id env) amount (la_id account) tr (la_currency account))
        (funding_claim amount (la_id account) idem)) (posted_typed ''funding'')"
      using post_yields [of "fe_now env" "funding_posting (fe_id env) amount (la_id account) tr (la_currency account)"
          "fe_entryIds env"] drawn funding_claim_typed [OF amount that]
      by (simp add: fund_typed_def)
    fix posted assume "posted_typed ''funding'' posted"
    then show "io_yields db_typed (io_return (funding_result amount (la_id account) posted)) funding_typed"
      by (intro io_yields_return funding_typedI amount that)
  qed
  note step = io_yields_bind [OF io_yields_modify, rotated]
  show "io_yields db_typed (case found of None \<Rightarrow> io_throw (CodedError LedgerError ''ACCOUNT_NOT_FOUND'' ''Account not found'')
    | Some account \<Rightarrow>
        if la_isTreasury account then
          io_throw (CodedError LedgerError ''ACCOUNT_NOT_FOUND'' ''Account not found'')
        else if la_status account \<noteq> Account_active then
          io_throw (CodedError LedgerError ''ACCOUNT_NOT_ACTIVE'' ''Account is not active'')
        else
          io_bind (io_modify (fe_before_treasury env)) (\<lambda>_.
          io_bind (io_get (findTreasury (la_currency account))) (\<lambda>found_treasury.
          case found_treasury of
            None \<Rightarrow>
              io_throw (CodedError LedgerError ''TREASURY_NOT_FOUND'' ''Treasury account is unavailable'')
          | Some treasury \<Rightarrow>
              io_bind (io_modify (fe_before_post env)) (\<lambda>_.
              io_bind (post (fe_tx env) outbox (fe_now env) (fe_entryIds env) (fe_eventId env)
                  (funding_posting (fe_id env) amount (la_id account) (la_id treasury)
                    (la_currency account))
                  (funding_claim amount (la_id account) idem)) (\<lambda>posted.
              io_return (funding_result amount (la_id account) posted)))))) funding_typed"
    using found
    by (auto intro!: io_yields_throw step before last io_yields_bind [OF io_yields_get [where Q = "\<lambda>_. True"]] split: option.split)
qed

section \<open>The retry loop\<close>

definition attempts_typed :: "(nat \<Rightarrow> attempt_env) \<Rightarrow> bool" where
  "attempts_typed envs \<longleftrightarrow> (\<forall>i. instant_ok (at_now (envs i)) \<and> uuids (at_entryIds (envs i)))"

lemma create_yields:
  assumes drawn: "attempts_typed envs" "is_uuid_text tid"
    and before: "\<And>i s. db_typed s \<Longrightarrow> db_typed (at_before (envs i) s)"
  shows "io_yields (\<lambda>w. db_typed (tw_db w)) (create cfg envs tid startedAt input pid key) transfer_result"
  unfolding io_yields_def
proof (intro allI impI)
  fix w :: transfer_world and r w'
  assume w: "db_typed (tw_db w)" and run: "create cfg envs tid startedAt input pid key w = (r, w')"
  show "db_typed (tw_db w') \<and> (\<forall>t. r = Inr t \<longrightarrow> transfer_result t)"
  proof (cases "(\<exists>e. fromMinor (StringArg (ct_amountMinor input)) = Inl e) \<or>
      ct_sourceAccountId input = ct_destinationAccountId input")
    case True
    with w run show ?thesis by (auto simp: create_def split: sum.splits if_splits)
  next
    case False
    then obtain amount where amount: "fromMinor (StringArg (ct_amountMinor input)) = Inr amount"
      by (cases "fromMinor (StringArg (ct_amountMinor input))") auto
    have work: "tx_yields db_typed (transfer_work outbox (at_now (envs i)) (at_entryIds (envs i)) evid amount input pid tid key)
        transfer_result" for outbox i evid
      using drawn by (intro transfer_work_yields) (auto simp: attempts_typed_def)
    have loop: "create_attempts cfg envs amount input pid tid key startedAt 1 (tc_maxAttempts cfg) w = (r, w')"
      using run amount False by (simp add: create_def)
    note reach = create_attempts_reach [where P = db_typed and envs = envs, OF before tx_keeps_yields [OF work] w loop]
    show ?thesis
    proof (intro conjI allI impI)
      show "db_typed (tw_db w')" using reach by simp
      fix t assume "r = Inr t"
      with reach obtain i s0 where "db_typed s0" "transfer_work (tc_outbox cfg) (at_now (envs i)) (at_entryIds (envs i))
          (at_eventId (envs i)) amount input pid tid key s0 = Inr (t, tw_db w')" by blast
      with tx_yieldsD [OF work] show "transfer_result t" by blast
    qed
  qed
qed

end
