(* ===== verification/Typed_Replies.thy ===== *)
theory Typed_Replies
  imports Typed_Postings Http_Witnesses
begin

text \<open>
  Every reply of the service has the type its route declares: the response schemas of the route files,
  route by route and status by status, and the proof that whatever a request does it answers with a
  value its schema accepts, with a page of text for the metrics, or with an error body.
\<close>

section \<open>The remaining response schemas\<close>

definition journalEntrySchema :: schema where
  "journalEntrySchema =
    Sch_object [''id'', ''transactionId'', ''direction'', ''amountMinor'', ''currency'', ''createdAt'']
      [(''id'', Sch_string [Format_uuid]), (''transactionId'', Sch_string [Format_uuid]),
       (''direction'', Sch_string [Enum [''debit'', ''credit'']]),
       (''amountMinor'', Sch_string [Pattern_positive]), (''currency'', Sch_string [Pattern_currency]),
       (''createdAt'', Sch_string [Format_date_time])]"

definition journalEntriesResponseSchema :: schema where
  "journalEntriesResponseSchema =
    Sch_object [''entries'', ''nextCursor'']
      [(''entries'', Sch_array journalEntrySchema), (''nextCursor'', Sch_nullable (Sch_string []))]"

definition revokeResponseSchema :: schema where
  "revokeResponseSchema =
    Sch_object [''id'', ''revoked''] [(''id'', Sch_string [Format_uuid]), (''revoked'', Sch_true)]"

definition healthSchema :: schema where
  "healthSchema = Sch_object [''status''] [(''status'', Sch_string [])]"

definition readySchema :: schema where
  "readySchema =
    Sch_object [''status'']
      [(''status'', Sch_string []),
       (''outbox'', Sch_object [''pending'', ''processing'', ''failed'']
          [(''pending'', Sch_integer None None), (''processing'', Sch_integer None None),
           (''failed'', Sch_integer None None)])]"

definition metricsResponseSchema :: schema where
  "metricsResponseSchema =
    Sch_object [''transfers'']
      [(''transfers'', Sch_object [''completed'', ''retries'', ''exhausted'']
          [(''completed'', Sch_integer None None), (''retries'', Sch_integer None None),
           (''exhausted'', Sch_integer None None)])]"

text \<open>The \<open>response\<close> option of each route: the schema of a status.\<close>

fun responseSchema :: "route \<Rightarrow> (nat \<times> schema) list" where
  "responseSchema Live = [(200, healthSchema)]"
| "responseSchema Ready = [(200, readySchema), (503, healthSchema)]"
| "responseSchema List_accounts = [(200, accountListResponseSchema)]"
| "responseSchema Open_account = [(201, accountResponseSchema)]"
| "responseSchema Get_account = [(200, accountResponseSchema)]"
| "responseSchema List_entries = [(200, journalEntriesResponseSchema)]"
| "responseSchema Post_transfer = [(201, transferResponseSchema)]"
| "responseSchema Get_transfer = [(200, transferResponseSchema)]"
| "responseSchema Fund = [(201, fundingResponseSchema)]"
| "responseSchema Create_principal = [(201, principalResponseSchema)]"
| "responseSchema Issue_key = [(201, issuedApiKeyResponseSchema)]"
| "responseSchema Revoke_key = [(200, revokeResponseSchema)]"
| "responseSchema Run_reconciliation = [(200, reconciliationReportSchema)]"
| "responseSchema Metrics_json = [(200, metricsResponseSchema)]"
| "responseSchema Metrics_text = []"
| "responseSchema Unmatched = []"

text \<open>What of a value a schema declares: Fastify's serializer sends nothing else.\<close>

fun declared :: "schema \<Rightarrow> json \<Rightarrow> json" where
  "declared (Sch_object req props) (JObject kvs) =
    JObject (map (\<lambda>f. (fst f, case map_of props (fst f) of None \<Rightarrow> snd f | Some sch \<Rightarrow> declared sch (snd f)))
      (filter (\<lambda>f. map_of props (fst f) \<noteq> None) kvs))"
| "declared (Sch_array sch) (JArray vs) = JArray (map (declared sch) vs)"
| "declared (Sch_nullable sch) v = (if v = JNull then v else declared sch v)"
| "declared sch v = v"

lemma declared_all: "conforms sch v \<Longrightarrow> declared sch v = v"
proof (induction sch v rule: conforms.induct)
  case (8 req props kvs)
  have "filter (\<lambda>f. map_of props (fst f) \<noteq> None) kvs = kvs"
    using 8(2) by (intro filter_True) (auto split: option.splits)
  moreover have "map (\<lambda>f. (fst f, case map_of props (fst f) of None \<Rightarrow> snd f | Some sch \<Rightarrow> declared sch (snd f))) kvs = kvs"
    using 8 by (intro map_idI) (force split: option.splits)
  ultimately show ?case by simp
qed (auto intro!: map_idI)

text \<open>
  What a handler returns: a value of its route's schema for that status, with the currencies there are,
  or a failure that is stored or built in; and what is answered, which may also be a thrown error.
\<close>

definition returned_typed :: "route \<Rightarrow> http_reply \<Rightarrow> bool" where
  "returned_typed route reply \<longleftrightarrow>
    (case hr_body reply of
       Text_body kind page \<Rightarrow> route = Metrics_text \<and> hr_status reply = 200 \<and> kind = prometheusContentType
     | Json_body v \<Rightarrow>
         400 \<le> hr_status reply \<and> conforms errorResponse v \<or>
         (case map_of (responseSchema route) (hr_status reply) of
            None \<Rightarrow> False
          | Some sch \<Rightarrow> conforms (narrowed sch) (declared sch v)))"

definition reply_declared :: "route \<Rightarrow> http_reply \<Rightarrow> bool" where
  "reply_declared route reply \<longleftrightarrow>
    (case hr_body reply of
       Text_body kind page \<Rightarrow> route = Metrics_text \<and> hr_status reply = 200 \<and> kind = prometheusContentType
     | Json_body v \<Rightarrow>
         conforms errorResponse v \<or>
         (case map_of (responseSchema route) (hr_status reply) of
            None \<Rightarrow> False
          | Some sch \<Rightarrow> conforms sch (declared sch v)))"

lemma returned_declared: "returned_typed route reply \<Longrightarrow> reply_declared route reply"
  by (auto simp: returned_typed_def reply_declared_def dest: conforms_narrowed split: reply_body.splits option.splits)

lemma returnedI:
  "map_of (responseSchema route) status = Some sch \<Longrightarrow> conforms (narrowed sch) v \<Longrightarrow>
    returned_typed route (send_json status v)"
  by (simp add: returned_typed_def send_json_def declared_all [OF conforms_narrowed])

text \<open>Schemas that name no currency, or name the two.\<close>

lemma narrowed_same [simp]:
  "narrowed accountResponseSchema = accountResponseSchema"
  "narrowed accountListResponseSchema = accountListResponseSchema"
  "narrowed principalResponseSchema = principalResponseSchema"
  "narrowed issuedApiKeyResponseSchema = issuedApiKeyResponseSchema"
  "narrowed reconciliationReportSchema = reconciliationReportSchema"
  "narrowed revokeResponseSchema = revokeResponseSchema" "narrowed healthSchema = healthSchema"
  "narrowed readySchema = readySchema" "narrowed metricsResponseSchema = metricsResponseSchema"
  by (simp_all add: accountResponseSchema_def accountListResponseSchema_def principalResponseSchema_def
      issuedApiKeyResponseSchema_def reconciliationReportSchema_def revokeResponseSchema_def healthSchema_def
      readySchema_def metricsResponseSchema_def)

lemma error_declared: "reply_declared route (send_json status (error_json b))"
  by (simp add: reply_declared_def send_json_def error_json_typed)

section \<open>Claims\<close>

definition stored_typed :: "string \<Rightarrow> StoredIdempotentResponse \<Rightarrow> bool" where
  "stored_typed operation r \<longleftrightarrow>
    (case rsp_status r of None \<Rightarrow> False | Some status \<Rightarrow> answer_body_typed operation status (rsp_body r))"

definition record_typed :: "string \<Rightarrow> IdempotencyRecord \<Rightarrow> bool" where
  "record_typed operation r \<longleftrightarrow> (rec_status r = Completed \<longrightarrow> stored_typed operation (toResponse r))"

definition replay_typed :: "string \<Rightarrow> ClaimResult \<Rightarrow> bool" where
  "replay_typed operation c \<longleftrightarrow> (cr_action c = Replay \<longrightarrow> (\<forall>r. cr_response c = Some r \<longrightarrow> stored_typed operation r))"

lemma findRecord_typed: "db_typed s \<Longrightarrow> findRecord key operation pid s = Some r \<Longrightarrow> record_typed operation r"
  by (auto simp: findRecord_def record_typed_def toRecord_def stored_typed_def toResponse_def answer_typed_def
      dest!: select_first_SomeD db_typed_answer split: option.splits)

lemma claim_yields:
  assumes "claims_keep db_typed envs"
  shows "io_yields db_typed (claim envs p) (replay_typed (cp_operation p))"
proof -
  have one: "io_yields db_typed (tryClaim (envs i) p) (\<lambda>c. \<forall>r. c = Some r \<longrightarrow> replay_typed (cp_operation p) r)" for i
  proof -
    have keep: "db_typed s \<Longrightarrow> db_typed (ce_before_find (envs i) s)" "db_typed s \<Longrightarrow> db_typed (ce_before_reclaim (envs i) s)"
      "db_typed s \<Longrightarrow> db_typed (ce_before_reread (envs i) s)" for s
      using assms by (auto simp: claims_keep_def env_keeps_def)
    have found: "db_typed s \<Longrightarrow> findRecord (cp_key p) (cp_operation p) (cp_principalId p) s = Some r \<Longrightarrow>
        rec_status r = Completed \<Longrightarrow> stored_typed (cp_operation p) (toResponse r)" for s r
      using findRecord_typed by (auto simp: record_typed_def)
    show ?thesis
      unfolding tryClaim_def Let_def
      by (auto intro!: yields claims_typed keep simp: replay_typed_def split: option.split) (rule found; assumption)+
  qed
  have "io_yields db_typed (claim_attempts envs p attempt left) (replay_typed (cp_operation p))" for attempt left
  proof (induction left arbitrary: attempt)
    case (Suc left)
    then show ?case
      by (auto intro!: io_yields_bind [OF one] yields split: option.split)
  qed (simp add: yields)
  then show ?thesis by (simp add: claim_def)
qed

section \<open>Handlers\<close>

text \<open>What a request draws: identifiers, instants and a clock of the ranges their columns hold.\<close>

definition draws_typed :: "request_env \<Rightarrow> bool" where
  "draws_typed env \<longleftrightarrow> is_uuid_text (rv_id env) \<and> instant_ok (rv_now env) \<and> instant_ok (1000 * rv_clock env) \<and>
    fund_typed (rv_fund env) \<and> attempts_typed (rv_attempts env)"

abbreviation app_typed :: "app_world \<Rightarrow> bool" where
  "app_typed w \<equiv> db_typed (app_db w)"

lemma yields_on_db:
  "io_yields db_typed m P \<Longrightarrow> (\<And>a. P a \<Longrightarrow> io_yields app_typed (k a) Q) \<Longrightarrow> io_yields app_typed (io_bind (on_db m) k) Q"
  by (rule io_yields_bind [OF io_yields_on_db])

lemma yields_read [yields]:
  "(\<And>s. db_typed s \<Longrightarrow> io_yields app_typed (k (f s)) Q) \<Longrightarrow> io_yields app_typed (io_bind (on_db (io_get f)) k) Q"
  by (auto simp: io_yields_def io_bind_def on_db_def on_transfers_def io_apply)

lemma claim_or_replay_yields:
  assumes "env_fair db_typed env"
  shows "io_yields app_typed (claim_or_replay opts env key operation pid body)
    (\<lambda>r. \<forall>st. r = Some st \<longrightarrow> stored_typed operation st)"
proof -
  let ?p = "\<lambda>k. \<lparr>cp_fingerprint = computeCanonicalFingerprint (op_sha256_hex opts) body, cp_key = k,
      cp_operation = operation, cp_principalId = pid, cp_staleTimeoutMs = default_stale_timeout_ms\<rparr>"
  have "io_yields db_typed (claim (rv_claims env) (?p k)) (replay_typed operation)" for k
    using claim_yields [OF env_fairD(8) [OF assms], of "?p k"] by simp
  then show ?thesis
    unfolding claim_or_replay_def claimOrReplay_def
    by (auto intro!: yields io_yields_on_db io_yields_bind simp: replay_typed_def split: option.split)
qed

lemma send_replay_yields:
  assumes "stored_typed operation st" and "map_of (responseSchema route) 201 = Some (answerSchema operation)"
  shows "io_yields app_typed (send_replay st) (returned_typed route)"
  using assms
  by (auto simp: send_replay_def stored_typed_def answer_body_typed_def returned_typed_def send_json_def declared_all [OF conforms_narrowed]
      intro!: yields split: option.splits if_splits)

lemma rethrow_yields:
  assumes "env_fair db_typed env"
  shows "io_yields app_typed (settle_and_rethrow env rid key operation pid e) Q"
proof -
  have "io_yields app_typed (settle_and_rethrow env rid key operation pid e) (\<lambda>_. True)"
    by (rule io_yields_keeps [OF typed.settle_and_rethrow_keeps [OF assms]])
  then show ?thesis
    by (auto simp: io_yields_def settle_and_rethrow_def io_bind_eq io_apply)
qed

lemma post_transfer_yields:
  assumes fair: "env_fair db_typed env" and drawn: "draws_typed env"
  shows "io_yields app_typed (post_transfer opts env rid req body) (returned_typed Post_transfer)"
proof -
  have run: "io_yields app_typed (io_bind (on_transfers (create (transfer_config_of opts) (rv_attempts env) (rv_id env)
      (rv_clock env) (transfer_input body) pid key)) (\<lambda>transfer. io_return (send_json 201 (transfer_json transfer))))
      (returned_typed Post_transfer)" for pid key
  proof (rule io_yields_bind)
    show "io_yields app_typed (on_transfers (create (transfer_config_of opts) (rv_attempts env) (rv_id env)
        (rv_clock env) (transfer_input body) pid key)) transfer_result"
      by (intro io_yields_on_transfers create_yields env_fairD [OF fair]) (use drawn in \<open>auto simp: draws_typed_def\<close>)
    fix transfer assume "transfer_result transfer"
    then show "io_yields app_typed (io_return (send_json 201 (transfer_json transfer))) (returned_typed Post_transfer)"
      by (intro yields returnedI [where sch = transferResponseSchema]) (simp_all add: transfer_result_def)
  qed
  show ?thesis
    unfolding post_transfer_def
    by (auto intro!: yields io_yields_bind [OF claim_or_replay_yields [OF fair]] io_yields_catch run rethrow_yields fair
        send_replay_yields simp: answerSchema_def fundingIdempotencyOperation_def split: option.split)
qed

lemma post_fund_yields:
  assumes fair: "env_fair db_typed env" and drawn: "draws_typed env"
  shows "io_yields app_typed (post_fund opts env rid req body) (returned_typed Fund)"
proof -
  have run: "io_yields app_typed (io_bind (on_db (fundAccount (op_outbox opts) (rv_fund env) input idem))
      (\<lambda>result. io_return (send_json 201 (funding_json result)))) (returned_typed Fund)" for input idem
  proof (rule yields_on_db)
    show "io_yields db_typed (fundAccount (op_outbox opts) (rv_fund env) input idem) funding_typed"
      by (intro fundAccount_yields env_fairD [OF fair]) (use drawn in \<open>auto simp: draws_typed_def\<close>)
    fix result assume "funding_typed result"
    then show "io_yields app_typed (io_return (send_json 201 (funding_json result))) (returned_typed Fund)"
      by (intro yields returnedI [where sch = fundingResponseSchema]) (simp_all add: funding_typed_def)
  qed
  show ?thesis
    unfolding post_fund_def
    by (auto intro!: yields io_yields_bind [OF claim_or_replay_yields [OF fair]] io_yields_catch run rethrow_yields fair
        send_replay_yields simp: answerSchema_def split: option.split)
qed

lemma required_text:
  assumes "conforms (Sch_object req props) v" and "k \<in> set req" and "map_of props k = Some (Sch_string rules)"
  shows "list_all (\<lambda>r. string_rule_ok r (text_property v k)) rules"
proof -
  obtain kvs where v: "v = JObject kvs" using assms(1) by (cases v) auto
  with assms obtain x where x: "(k, x) \<in> set kvs" "distinct (map fst kvs)" by auto
  with v assms have "conforms (Sch_string rules) x" "map_of kvs k = Some x"
    by (force simp: map_of_eq_Some_iff)+
  then show ?thesis by (cases x) (simp_all add: v text_property_def json_field_def)
qed

lemma id_param: "conforms idParamSchema params \<Longrightarrow> is_uuid_text (text_property params ''id'')"
  using required_text [of "[''id'']" "[(''id'', Sch_string [Format_uuid])]" params "''id''"]
  by (simp add: idParamSchema_def)

lemma lower_hex:
  assumes "is_hex_digit c"
  shows "is_hex_digit (lower_char c)"
proof (cases "CHR ''A'' \<le> c \<and> c \<le> CHR ''Z''")
  case True
  then have lower: "(of_char (lower_char c) :: nat) = of_char c + 32"
    by (simp add: lower_char_def less_eq_char_def)
  from True assms have "c \<le> CHR ''F''" by (auto simp: is_hex_digit_def is_digit_def less_eq_char_def)
  with True lower show ?thesis by (simp add: is_hex_digit_def less_eq_char_def)
next
  case False
  with assms show ?thesis unfolding lower_char_def by (simp only: if_False)
qed

lemma uuid_in_typed: "is_uuid_text s \<Longrightarrow> is_uuid_text (uuid_in s)"
  unfolding is_uuid_text_def uuid_in_def by (simp add: lower_hex) (simp add: lower_char_def less_eq_char_def)

lemma open_account_yields:
  assumes drawn: "draws_typed env" and body: "conforms accountBodySchema body"
  shows "io_yields app_typed (open_account env req body) (returned_typed Open_account)"
proof -
  let ?currency = "text_property body ''currency''"
  have cur: "?currency \<in> set supportedCurrencies"
    using required_text [OF body [unfolded accountBodySchema_def], of "''currency''"] by simp
  have "tx_yields db_typed (createAccount (rv_now env) (rv_id env) ?currency pid)
      (\<lambda>a. returned_typed Open_account (send_json 201 (account_json a)))" for pid
  proof (rule tx_yieldsI)
    fix s a s'
    let ?row = "new_account_row (rv_now env) (rv_id env) ?currency pid"
    have typed: "account_typed ?row"
      using drawn cur by (simp add: account_typed_def new_account_row_def draws_typed_def)
    assume "db_typed s" "createAccount (rv_now env) (rv_id env) ?currency pid s = Inr (a, s')"
    then show "db_typed s' \<and> returned_typed Open_account (send_json 201 (account_json a))"
      using typed account_reply_typed [OF typed]
      by (auto simp: createAccount_def tx_simps db_typed_def accounts_typed_def
          intro: returnedI [where sch = accountResponseSchema])
  qed
  then show ?thesis
    unfolding open_account_def by (intro yields yields_on_db io_yields_commit)
qed

lemma db_typed_account_row: "db_typed s \<Longrightarrow> r \<in> set (accounts s) \<Longrightarrow> account_typed r"
  by (simp add: db_typed_def accounts_typed_def)

lemma get_account_yields: "io_yields app_typed (get_account req params) (returned_typed Get_account)"
proof -
  have found: "returned_typed Get_account (send_json 200 (account_json a))"
    if "db_typed s" "findOwnedById aid owner s = Some a" for s aid owner a
    using that
    by (auto simp: findOwnedById_def dest!: select_first_SomeD dest: db_typed_account_row
        intro!: returnedI [where sch = accountResponseSchema] account_reply_typed)
  show ?thesis
    unfolding get_account_def by (auto intro!: yields split: option.split) (rule found; assumption)
qed

lemma list_accounts_yields: "io_yields app_typed (list_accounts opts req query) (returned_typed List_accounts)"
proof -
  have listed: "returned_typed List_accounts (send_json 200 (JObject
      [(''accounts'', JArray (map account_json (fst (store_listOwned owner cursor n s)))),
       (''nextCursor'', nullable_text t)]))" if "db_typed s" for owner cursor n s t
    by (rule returnedI [where sch = accountListResponseSchema])
      (use that listed_rows_typed in \<open>auto simp: accountListResponseSchema_def nullable_text_def db_typed_def split: option.split\<close>)
  show ?thesis
    unfolding list_accounts_def
  proof (rule yields_steps(4), rule yields_on_db)
    fix pid
    show "io_yields db_typed (listOwned (op_codec opts) pid (optional_text query ''cursor'') (optional_number query ''limit''))
        (\<lambda>(as, t). returned_typed List_accounts (send_json 200 (JObject
          [(''accounts'', JArray (map account_json as)), (''nextCursor'', nullable_text t)])))"
      unfolding listOwned_def using listed by (auto intro!: yields split: prod.split) (metis fst_conv)
  qed (auto intro!: yields)
qed

lemma get_transfer_yields: "io_yields app_typed (get_transfer req params) (returned_typed Get_transfer)"
proof -
  have found: "transfer_result t" if "db_typed s" "findVisibleById tid pid s = Some t" for s t tid pid
  proof -
    from that(2) obtain r l where r: "r \<in> set (transfers s)" and l: "l \<in> set (ledger_transactions s)"
      and t: "t = \<lparr>t_amountMinor = bigint_text (tr_amount_minor r), t_createdAt = toISOString (lt_created_at l),
        t_currency = tr_currency r, t_destinationAccountId = tr_destination_account_id r, t_id = tr_id r,
        t_reference = lt_reference l, t_sourceAccountId = tr_source_account_id r\<rparr>"
      by (auto simp: findVisibleById_def dest!: select_first_SomeD split: option.splits)
    have "transfer_typed r" "instant_ok (lt_created_at l)" using that(1) r l by (auto simp: db_typed_def list_all_iff)
    then show ?thesis
      unfolding t by (intro transfer_resultI)
        (simp_all add: transfer_typed_def iso_date_time bigint_text_def is_positive_nat_text)
  qed
  show ?thesis
    unfolding get_transfer_def
  proof (rule yields_steps(4), rule yields_on_db)
    show "io_yields db_typed (findById (text_property params ''id'') pid) transfer_result" for pid
      unfolding findById_def by (auto intro!: yields split: option.split) (rule found; assumption)
  qed (auto intro!: yields returnedI [where sch = transferResponseSchema] simp: transfer_result_def)
qed

text \<open>The journal's rows carry the account they belong to, which the schema does not declare.\<close>

lemma journal_entry_declared:
  assumes "entry_typed r"
  shows "conforms (narrowed journalEntrySchema) (declared journalEntrySchema (journal_entry_json (toJournalEntry r)))"
proof -
  have "is_positive_text (bigint_text (je_amount_minor r))"
    using assms by (simp add: entry_typed_def bigint_text_def is_positive_nat_text)
  with assms iso_date_time [of "je_created_at r"] show ?thesis
    by (auto simp: entry_typed_def journalEntrySchema_def journal_entry_json_def toJournalEntry_def direction_text_def
        split: direction.split)
qed

lemma list_entries_yields: "io_yields app_typed (list_entries opts req params query) (returned_typed List_entries)"
proof -
  have listed: "returned_typed List_entries (send_json 200 (JObject
      [(''entries'', JArray (map journal_entry_json (fst (store_listJournalEntries codec aid cursor n s)))),
       (''nextCursor'', nullable_text t)]))" if typed: "db_typed s" for codec aid cursor n s t
  proof -
    define rows where "rows = fst (keyset_page (\<lambda>r. je_account_id r = uuid_in aid) entry_key cursor n (journal_entries s))"
    have "\<forall>r\<in>set rows. entry_typed r"
      using typed keyset_page_set [of "\<lambda>r. je_account_id r = uuid_in aid" entry_key cursor n "journal_entries s"]
      by (auto simp: rows_def db_typed_def list_all_iff)
    moreover have "fst (store_listJournalEntries codec aid cursor n s) = map toJournalEntry rows"
      by (simp add: store_listJournalEntries_def rows_def split: prod.split)
    ultimately show ?thesis
      using journal_entry_declared
      by (cases t) (simp_all add: returned_typed_def send_json_def journalEntriesResponseSchema_def nullable_text_def)
  qed
  show ?thesis
    unfolding list_entries_def
  proof (rule yields_steps(4), rule yields_on_db)
    fix pid
    show "io_yields db_typed (listJournalEntries (op_codec opts) (text_property params ''id'') pid
          (optional_text query ''cursor'') (optional_number query ''limit''))
        (\<lambda>(es, t). returned_typed List_entries (send_json 200 (JObject
          [(''entries'', JArray (map journal_entry_json es)), (''nextCursor'', nullable_text t)])))"
      unfolding listJournalEntries_def using listed
      by (auto intro!: yields io_yields_get split: prod.split option.split) (metis fst_conv)
  qed (auto intro!: yields)
qed

lemma post_principal_yields:
  assumes "draws_typed env"
  shows "io_yields app_typed (post_principal env body) (returned_typed Create_principal)"
proof -
  have "tx_yields db_typed (createPrincipal (rv_now env) (rv_id env) name)
      (\<lambda>p. returned_typed Create_principal (send_json 201 (principal_json p)))" for name
    using assms
    by (intro tx_yieldsI)
      (auto simp: createPrincipal_def tx_simps toPrincipal_def principal_json_def principalResponseSchema_def
        draws_typed_def iso_date_time principal_status_text_def
        intro!: returnedI [where sch = principalResponseSchema])
  then show ?thesis
    unfolding post_principal_def by (intro yields yields_on_db io_yields_commit)
qed

lemma post_api_key_yields:
  assumes fair: "env_fair db_typed env" and drawn: "draws_typed env" and params: "conforms idParamSchema params"
  shows "io_yields app_typed (post_api_key opts env params) (returned_typed Issue_key)"
proof -
  let ?pid = "text_property params ''id''"
  have pid: "is_uuid_text (uuid_in ?pid)" by (rule uuid_in_typed [OF id_param [OF params]])
  have "tx_yields db_typed (insertApiKey (rv_now env) (rv_id env) hash keyPrefix (uuid_in ?pid))
      (\<lambda>r. returned_typed Issue_key (send_json 201 (issued_json \<lparr>ik_record = r, ik_key = secret\<rparr>)))"
    for hash keyPrefix secret
    using drawn pid
    by (intro tx_yieldsI)
      (auto simp: insertApiKey_def tx_simps toApiKeyRecord_def issued_json_def issuedApiKeyResponseSchema_def
        draws_typed_def iso_date_time nullable_text_def Let_def
        intro!: returnedI [where sch = issuedApiKeyResponseSchema])
  then have "io_yields db_typed (issueApiKey (op_sha256_hex opts) (rv_between env) (rv_now env) (rv_id env)
      (rv_key_body env) ?pid) (\<lambda>k. returned_typed Issue_key (send_json 201 (issued_json k)))"
    unfolding issueApiKey_def
    by (auto intro!: yields io_yields_bind [OF io_yields_commit] env_fairD [OF fair] split: option.split prod.split)
  then show ?thesis
    unfolding post_api_key_def by (intro yields yields_on_db)
qed

lemma post_revoke_yields:
  assumes "conforms idParamSchema params"
  shows "io_yields app_typed (post_revoke env params) (returned_typed Revoke_key)"
  unfolding post_revoke_def using id_param [OF assms]
  by (intro yields yields_on_db [OF io_yields_keeps [OF typed.revoke_keeps]]
      returnedI [where sch = revokeResponseSchema]) (simp_all add: revokeResponseSchema_def)

lemma nat_text_integer: "is_integer_text (nat_text n)"
  using integer_text [of "int n"] by (simp add: bigint_text_def)

lemma clock_date_time: "draws_typed env \<Longrightarrow> is_date_time (iso_of_ms (rv_clock env))"
  using iso_date_time [of "1000 * rv_clock env"] by (simp add: draws_typed_def toISOString_def ms_of_def)

lemma issue_accounts:
  assumes "db_typed s" and "i \<in> set (rp_issues (reconcile clock counted s))"
  shows "is_uuid_text (is_accountId i) \<and> is_integer_text (is_computedBalanceMinor i) \<and>
    (\<forall>c. is_cachedBalanceMinor i = Some c \<longrightarrow> is_integer_text c)"
proof -
  from assms(2) obtain r where r: "r \<in> set (reconciliation_rows s)" "issue_of r = Some i"
    by (auto simp: reconcile_def Let_def collect_issues_eq)
  have journal: "is_uuid_text (fst g)" if "g \<in> set (journal_groups (journal_entries s))" for g
    using that assms(1) by (auto simp: set_journal_groups db_typed_def list_all_iff entry_typed_def)
  have "is_uuid_text (rr_account_id r) \<and> is_integer_text (rr_computed_balance r) \<and>
      (\<forall>c. rr_cached_balance r = Some c \<longrightarrow> is_integer_text c)"
    using r(1) db_typed_account [OF assms(1)] journal integer_text
    by (auto simp: reconciliation_rows_def account_rows_def orphan_rows_def matched_row_def orphan_row_def Let_def
        split: if_splits)
  moreover have "is_integer_text ''0''" by code_simp
  ultimately show ?thesis using r(2) by (auto simp: issue_of_def split: if_splits)
qed

lemma post_reconcile_yields:
  assumes fair: "env_fair db_typed env" and drawn: "draws_typed env"
  shows "io_yields app_typed (post_reconcile env) (returned_typed Run_reconciliation)"
proof -
  have report: "returned_typed Run_reconciliation (send_json 200 (report_json (reconcile (rv_clock env) counted s)))"
    if "db_typed s" for counted s
  proof (rule returnedI [where sch = reconciliationReportSchema])
    have issues: "rp_generatedAt (reconcile (rv_clock env) counted s) = iso_of_ms (rv_clock env)"
      by (simp add: reconcile_def Let_def)
    show "conforms (narrowed reconciliationReportSchema) (report_json (reconcile (rv_clock env) counted s))"
      using issue_accounts [OF that] clock_date_time [OF drawn]
      unfolding narrowed_same
      by (auto simp: reconciliationReportSchema_def report_json_def issue_json_def issues integer_ok_def nat_text_integer
          nullable_text_def issue_type_text_def split: option.split issue_type.split)
  qed simp
  show ?thesis
    unfolding post_reconcile_def
    by (intro yields report yields_on_db [OF io_yields_modify] env_fairD [OF fair]) auto
qed

lemma metrics_yields:
  "io_yields app_typed get_live (returned_typed Live)"
  "io_yields app_typed get_metrics_json (returned_typed Metrics_json)"
  "io_yields app_typed (get_metrics_text opts env) (returned_typed Metrics_text)"
  "io_yields app_typed (get_ready opts env) (returned_typed Ready)"
proof -
  show "io_yields app_typed get_live (returned_typed Live)"
    unfolding get_live_def
    by (intro yields returnedI [where sch = healthSchema]) (simp_all add: healthSchema_def)
  show "io_yields app_typed get_metrics_json (returned_typed Metrics_json)"
    unfolding get_metrics_json_def
    by (intro yields returnedI [where sch = metricsResponseSchema])
      (simp_all add: metricsResponseSchema_def transfers_json_def integer_ok_def nat_text_integer)
  have stats: "io_yields app_typed (read_stats env) (\<lambda>_. True)"
    by (rule io_yields_keeps [OF typed.read_stats_keeps])
  show "io_yields app_typed (get_metrics_text opts env) (returned_typed Metrics_text)"
    unfolding get_metrics_text_def
    by (rule io_yields_bind [where Q = "\<lambda>_. True"])
      (auto intro!: yields io_yields_bind [OF stats] simp: returned_typed_def)
  have unavailable: "returned_typed Ready (send_json 503 (JObject [(''status'', JString ''unavailable'')]))"
    by (rule returnedI [where sch = healthSchema]) (simp_all add: healthSchema_def)
  have ready: "returned_typed Ready (send_json 200 (JObject [(''status'', JString ''ready'')]))"
    "returned_typed Ready (send_json 200 (JObject [(''status'', JString ''ready''), (''outbox'', stats_json st)]))" for st
    by (rule returnedI [where sch = readySchema];
        simp add: readySchema_def stats_json_def integer_ok_def nat_text_integer)+
  show "io_yields app_typed (get_ready opts env) (returned_typed Ready)"
    unfolding get_ready_def
    by (rule io_yields_catch, rule io_yields_bind [where Q = "\<lambda>_. True"])
      (auto intro!: yields unavailable ready io_yields_bind [OF stats] split: option.split)
qed

section \<open>Whole requests\<close>

lemma error_returned: "400 \<le> status \<Longrightarrow> returned_typed route (send_json status (error_json b))"
  by (simp add: returned_typed_def send_json_def error_json_typed)

lemma serve_yields:
  assumes fair: "env_fair db_typed env" and drawn: "draws_typed env" and ajv: "validator_ok (op_ajv opts)"
  shows "io_yields app_typed (serve opts env rid route req) (returned_typed route)"
proof -
  note handlers = metrics_yields list_accounts_yields get_account_yields list_entries_yields get_transfer_yields
    post_transfer_yields [OF fair drawn] post_fund_yields [OF fair drawn] post_principal_yields [OF drawn]
    post_reconcile_yields [OF fair drawn] post_revoke_yields post_api_key_yields [OF fair drawn]
    open_account_yields [OF drawn]
  have parsed: "io_yields app_typed (parsed_body opts sch req) (conforms sch)"
    "io_yields app_typed (parsed_params opts req) (conforms idParamSchema)"
    "io_yields app_typed (body_parsed req) (\<lambda>_. True)" for sch
    unfolding parsed_body_def parsed_params_def body_parsed_def
    by (intro yields io_yields_lift validated_ok [OF ajv] TrueI; assumption)+
  show ?thesis
    by (cases route)
      (auto simp: serve_def error_returned intro!: yields handlers io_yields_bind [OF parsed(1)]
        io_yields_bind [OF parsed(2)] io_yields_bind [OF parsed(3)])
qed

lemma handle_yields:
  assumes inv: "app_typed w" and fair: "env_fair db_typed env" and drawn: "draws_typed env"
    and ajv: "validator_ok (op_ajv opts)"
  shows "reply_declared route (fst (handle opts env route req w)) \<and> app_typed (snd (handle opts env route req w))"
proof -
  let ?rid = "genReqId (rv_random_id env) (hq_request_id req)"
  let ?run = "io_bind (guard opts env (scope_of route) req) (\<lambda>req'.
      io_bind (on_db (io_modify (rv_before env))) (\<lambda>_. serve opts env ?rid route req'))"
  have yields: "io_yields app_typed ?run (returned_typed route)"
    by (rule io_yields_bind [OF io_yields_keeps [OF typed.guard_keeps [OF fair]]],
        rule yields_on_db [OF io_yields_modify], rule env_fairD(2) [OF fair], assumption,
        rule serve_yields [OF fair drawn ajv])
  obtain r w' where run: "?run w = (r, w')" by (cases "?run w")
  from io_yieldsD [OF yields inv run] run show ?thesis
    by (cases r) (simp_all add: handle_def Let_def respond_def error_declared returned_declared split: prod.split)
qed

text \<open>
  C24.  Every reply has its declared type.  Over tables that hold what their columns declare, whatever
  a request carries, whatever fails and whatever other clients do meanwhile, the service answers with
  a body the response schema of the route and status accepts (the journal's rows but for the one
  property the schema leaves out), with the metrics page, or with an error body; and the tables, the
  stored answers of keyed requests among them, hold what their columns declare afterwards.
\<close>

theorem every_reply_is_typed:
  assumes "db_typed (app_db w)" and "env_fair db_typed env" and "draws_typed env" and "validator_ok (op_ajv opts)"
  shows "reply_declared route (fst (handle opts env route req w)) \<and>
    db_typed (app_db (snd (handle opts env route req w)))"
  by (rule handle_yields [OF assms])

text \<open>A request on the migrated database that draws identifiers of the columns' type.\<close>

definition typed_request :: request_env where
  "typed_request = quiet_request\<lparr>rv_attempts := (\<lambda>_. quiet_attempt\<lparr>at_entryIds := [alice_account, bob_account]\<rparr>),
    rv_fund := quiet_funding\<lparr>fe_id := sample_transfer_id, fe_entryIds := [alice_account, bob_account]\<rparr>\<rparr>"

lemma typed_request_fair: "env_fair P typed_request"
  by (simp add: env_fair_def interferences_def typed_request_def quiet_parts quiet_within)

definition create_request :: http_request where
  "create_request = keyed_request\<lparr>hq_admin_key := One_header ''admin'',
    hq_body := Inr (JObject [(''name'', JString ''Asha'')])\<rparr>"

lemma create_answer: "hr_status (fst (handle sample_options typed_request Create_principal create_request first_world)) = 201"
  by code_simp

lemma typed_request_draws: "draws_typed typed_request"
  by (simp add: draws_typed_def typed_request_def fund_typed_def attempts_typed_def) code_simp

lemma first_world_typed: "db_typed (app_db first_world)"
  unfolding first_world_def by simp code_simp

lemma sample_validator: "validator_ok (op_ajv sample_options)"
  by (simp add: validator_ok_def sample_options_def)

lemma every_reply_is_typed_witness:
  "reply_declared Create_principal
    (fst (handle sample_options typed_request Create_principal create_request first_world)) \<and>
   hr_status (fst (handle sample_options typed_request Create_principal create_request first_world)) = 201"
  by (intro conjI create_answer every_reply_is_typed [THEN conjunct1] first_world_typed typed_request_fair
      typed_request_draws sample_validator)

end
