(* ===== verification/Web_Types.thy ===== *)
theory Web_Types
  imports Typed_Replies
begin

text \<open>
  The interfaces of src/web/src/lib/api.ts against the service's schemas.  The client casts what it
  reads (\<open>payload as T\<close>) and checks nothing; the casts are sound because every value a schema of the
  service accepts is a value of the type the client reads it as - but for the reconciliation report.
\<close>

section \<open>Structural types\<close>

text \<open>A TypeScript interface, written as a schema, admits properties it does not name.\<close>

fun ts_admits :: "schema \<Rightarrow> json \<Rightarrow> bool" where
  "ts_admits (Sch_string rules) (JString s) = list_all (\<lambda>r. string_rule_ok r s) rules"
| "ts_admits (Sch_integer lo hi) (JNumber s) = integer_ok lo hi s"
| "ts_admits Sch_boolean (JBool b) = True"
| "ts_admits Sch_true (JBool b) = b"
| "ts_admits (Sch_nullable ty) JNull = True"
| "ts_admits (Sch_nullable ty) v = ts_admits ty v"
| "ts_admits (Sch_array ty) (JArray vs) = (\<forall>v\<in>set vs. ts_admits ty v)"
| "ts_admits (Sch_object req props) (JObject kvs) =
    (set req \<subseteq> fst ` set kvs \<and>
     (\<forall>f\<in>set kvs. case map_of props (fst f) of None \<Rightarrow> True | Some ty \<Rightarrow> ts_admits ty (snd f)))"
| "ts_admits _ _ = False"

section \<open>The interfaces\<close>

abbreviation ts_string :: schema where
  "ts_string \<equiv> Sch_string []"

abbreviation ts_number :: schema where
  "ts_number \<equiv> Sch_integer None None"

definition ts_Currency :: schema where
  "ts_Currency = Sch_string [Enum [''INR'', ''USD'']]"

definition ts_Account :: schema where
  "ts_Account =
    Sch_object [''id'', ''currency'', ''status'', ''balanceMinor'', ''createdAt'']
      [(''id'', ts_string), (''currency'', ts_Currency),
       (''status'', Sch_string [Enum [''active'', ''frozen'', ''closed'']]), (''balanceMinor'', ts_string),
       (''createdAt'', ts_string)]"

definition ts_JournalEntry :: schema where
  "ts_JournalEntry =
    Sch_object [''id'', ''transactionId'', ''direction'', ''amountMinor'', ''currency'', ''createdAt'']
      [(''id'', ts_string), (''transactionId'', ts_string), (''direction'', Sch_string [Enum [''debit'', ''credit'']]),
       (''amountMinor'', ts_string), (''currency'', ts_Currency), (''createdAt'', ts_string)]"

definition ts_Transfer :: schema where
  "ts_Transfer =
    Sch_object [''id'', ''sourceAccountId'', ''destinationAccountId'', ''amountMinor'', ''currency'', ''status'',
        ''reference'', ''createdAt'']
      [(''id'', ts_string), (''sourceAccountId'', ts_string), (''destinationAccountId'', ts_string),
       (''amountMinor'', ts_string), (''currency'', ts_Currency), (''status'', ts_string), (''reference'', ts_string),
       (''createdAt'', ts_string)]"

definition ts_Principal :: schema where
  "ts_Principal =
    Sch_object [''id'', ''name'', ''status'', ''createdAt'']
      [(''id'', ts_string), (''name'', ts_string), (''status'', ts_string), (''createdAt'', ts_string)]"

definition ts_IssuedApiKey :: schema where
  "ts_IssuedApiKey =
    Sch_object [''id'', ''principalId'', ''keyPrefix'', ''key'', ''createdAt'', ''revokedAt'']
      [(''id'', ts_string), (''principalId'', ts_string), (''keyPrefix'', ts_string), (''key'', ts_string),
       (''createdAt'', ts_string), (''revokedAt'', Sch_nullable ts_string)]"

definition ts_FundingResult :: schema where
  "ts_FundingResult =
    Sch_object [''id'', ''amountMinor'', ''currency'', ''fundedAccountId'', ''createdAt'']
      [(''id'', ts_string), (''amountMinor'', ts_string), (''currency'', ts_Currency), (''fundedAccountId'', ts_string),
       (''createdAt'', ts_string)]"

text \<open>\<open>cachedBalanceMinor?: string\<close> is absent or a string: not \<open>null\<close>.\<close>

definition ts_ReconciliationReport :: schema where
  "ts_ReconciliationReport =
    Sch_object [''ok'', ''accountsChecked'', ''generatedAt'', ''issues'']
      [(''ok'', Sch_boolean), (''accountsChecked'', ts_number), (''generatedAt'', ts_string),
       (''issues'', Sch_array (Sch_object [''accountId'', ''type'']
          [(''accountId'', ts_string), (''type'', Sch_string [Enum [''mismatched'', ''missing'', ''unexpected'']]),
           (''cachedBalanceMinor'', ts_string), (''computedBalanceMinor'', ts_string), (''currency'', ts_string)]))]"

definition ts_Readiness :: schema where
  "ts_Readiness =
    Sch_object [''status'']
      [(''status'', ts_string),
       (''outbox'', Sch_object [''pending'', ''processing'', ''failed'']
          [(''pending'', ts_number), (''processing'', ts_number), (''failed'', ts_number)])]"

text \<open>The type argument of each call's \<open>request\<close>.\<close>

fun client_type :: "route \<Rightarrow> schema option" where
  "client_type List_accounts = Some (Sch_object [''accounts'', ''nextCursor'']
     [(''accounts'', Sch_array ts_Account), (''nextCursor'', Sch_nullable ts_string)])"
| "client_type Open_account = Some ts_Account"
| "client_type Get_account = Some ts_Account"
| "client_type List_entries = Some (Sch_object [''entries'', ''nextCursor'']
     [(''entries'', Sch_array ts_JournalEntry), (''nextCursor'', Sch_nullable ts_string)])"
| "client_type Post_transfer = Some ts_Transfer"
| "client_type Get_transfer = Some ts_Transfer"
| "client_type Create_principal = Some ts_Principal"
| "client_type Issue_key = Some ts_IssuedApiKey"
| "client_type Revoke_key = Some (Sch_object [''id'', ''revoked''] [(''id'', ts_string), (''revoked'', Sch_boolean)])"
| "client_type Fund = Some ts_FundingResult"
| "client_type Run_reconciliation = Some ts_ReconciliationReport"
| "client_type Metrics_json = Some (Sch_object [''transfers'']
     [(''transfers'', Sch_object [''completed'', ''retries'', ''exhausted'']
        [(''completed'', ts_number), (''retries'', ts_number), (''exhausted'', ts_number)])])"
| "client_type Ready = Some ts_Readiness"
| "client_type Live = None"
| "client_type Metrics_text = None"
| "client_type Unmatched = None"

section \<open>Subtyping\<close>

fun rule_fits :: "string_rule \<Rightarrow> string_rule \<Rightarrow> bool" where
  "rule_fits (Enum vs) (Enum ws) = (set vs \<subseteq> set ws)"
| "rule_fits r r' = (r = r')"

text \<open>Every value the schema accepts is a value of the type.\<close>

fun fits :: "schema \<Rightarrow> schema \<Rightarrow> bool" where
  "fits (Sch_string rules) (Sch_string rules') = list_all (\<lambda>r'. list_ex (\<lambda>r. rule_fits r r') rules) rules'"
| "fits (Sch_integer lo hi) (Sch_integer lo' hi') = (lo' = None \<and> hi' = None)"
| "fits Sch_boolean Sch_boolean = True"
| "fits Sch_true Sch_boolean = True"
| "fits (Sch_nullable sch) (Sch_nullable ty) = fits sch ty"
| "fits (Sch_array sch) (Sch_array ty) = fits sch ty"
| "fits (Sch_object req props) (Sch_object req' props') =
    (set req' \<subseteq> set req \<and>
     (\<forall>p\<in>set props'. case map_of props (fst p) of None \<Rightarrow> True | Some sch \<Rightarrow> fits sch (snd p)))"
| "fits _ _ = False"

lemma rule_fits_sound: "rule_fits r r' \<Longrightarrow> string_rule_ok r s \<Longrightarrow> string_rule_ok r' s"
  by (cases r; cases r') auto

lemma fits_sound: "fits sch ty \<Longrightarrow> conforms sch v \<Longrightarrow> ts_admits ty v"
proof (induction sch ty arbitrary: v rule: fits.induct)
  case (1 rules rules')
  then obtain s where "v = JString s" by (cases v) auto
  with 1 show ?case by (auto simp: list_all_iff list_ex_iff intro: rule_fits_sound)
next
  case (2 lo hi lo' hi')
  then obtain s where "v = JNumber s" by (cases v) auto
  with 2 show ?case by (auto simp: integer_ok_def)
next
  case 3
  then show ?case by (cases v) auto
next
  case 4
  then show ?case by (cases v) auto
next
  case (5 sch ty)
  then show ?case by (cases v) auto
next
  case (6 sch ty)
  then show ?case by (cases v) auto
next
  case (7 req props req' props')
  then obtain kvs where v: "v = JObject kvs" by (cases v) auto
  have "ts_admits ty (snd f)" if f: "f \<in> set kvs" and ty: "map_of props' (fst f) = Some ty" for f ty
  proof -
    have p: "(fst f, ty) \<in> set props'" using ty by (rule map_of_SomeD)
    obtain sch where sch: "map_of props (fst f) = Some sch" "conforms sch (snd f)"
      using 7(3) f by (auto simp: v split: option.splits)
    with 7(2) p have "fits sch ty" by (force split: option.splits)
    with 7(1) [OF p] sch show ?thesis by simp
  qed
  with 7 show ?case by (auto simp: v split: option.split)
qed simp_all

lemma client_types_fit:
  assumes "client_type route = Some ty" and "route \<noteq> Run_reconciliation"
    and "map_of (responseSchema route) status = Some sch" and "status < 300"
  shows "fits (narrowed sch) ty"
  using assms
  by (cases route)
    (auto simp: ts_Account_def ts_JournalEntry_def ts_Transfer_def ts_Principal_def ts_IssuedApiKey_def
      ts_FundingResult_def ts_Readiness_def ts_Currency_def supportedCurrencies_def accountResponseSchema_def
      accountListResponseSchema_def journalEntriesResponseSchema_def journalEntrySchema_def transferResponseSchema_def
      fundingResponseSchema_def principalResponseSchema_def issuedApiKeyResponseSchema_def revokeResponseSchema_def
      readySchema_def healthSchema_def metricsResponseSchema_def split: if_splits)

text \<open>
  The report of an entry without an account carries \<open>null\<close> for the cached balance, which the client's
  interface does not admit; the page that shows it prints a dash.
\<close>

definition stray_report :: ReconciliationReport where
  "stray_report =
    \<lparr>rp_accountsChecked = 0, rp_generatedAt = ''2026-01-01T00:00:00.000Z'',
     rp_issues = [\<lparr>is_accountId = ''30000000-0000-4000-8000-000000000009'', is_cachedBalanceMinor = None,
       is_computedBalanceMinor = ''5'', is_currency = ''INR'', is_type = Unexpected\<rparr>], rp_ok = False\<rparr>"

lemma report_outside_the_interface:
  "conforms reconciliationReportSchema (report_json stray_report)"
  "\<not> ts_admits ts_ReconciliationReport (report_json stray_report)"
  by code_simp+

section \<open>The casts\<close>

text \<open>
  C25.  The client's casts are sound.  What a handler returns with a status below 300 for a route the
  client calls - the reconciliation report aside - reaches the client as a value of the interface the
  client casts it to: every property the interface names is there, with a value of its type.
\<close>

theorem client_casts_are_sound:
  assumes db: "db_typed (app_db w)" and fair: "env_fair db_typed env" and drawn: "draws_typed env"
    and ajv: "validator_ok (op_ajv opts)"
    and returned: "fst (serve opts env rid route req w) = Inr reply" "hr_status reply < 300"
    and cast: "client_type route = Some ty" "route \<noteq> Run_reconciliation"
  shows "\<exists>sch v. map_of (responseSchema route) (hr_status reply) = Some sch \<and> hr_body reply = Json_body v \<and>
    ts_admits ty (declared sch v)"
proof -
  have "returned_typed route reply"
    using io_yieldsD [OF serve_yields [OF fair drawn ajv] db, of rid route req "Inr reply"] returned(1)
    by (metis prod.collapse)
  with returned(2) cast(1) obtain sch v where "map_of (responseSchema route) (hr_status reply) = Some sch"
    "hr_body reply = Json_body v" "conforms (narrowed sch) (declared sch v)"
    by (auto simp: returned_typed_def split: reply_body.splits option.splits)
  with fits_sound client_types_fit [OF cast _ returned(2)] show ?thesis by blast
qed

lemma client_casts_are_sound_witness:
  "\<exists>reply sch v. fst (serve sample_options typed_request ''r'' Create_principal create_request first_world) = Inr reply \<and>
    map_of (responseSchema Create_principal) (hr_status reply) = Some sch \<and> hr_body reply = Json_body v \<and>
    ts_admits ts_Principal (declared sch v)"
proof -
  let ?run = "fst (serve sample_options typed_request ''r'' Create_principal create_request first_world)"
  have "case ?run of Inl e \<Rightarrow> False | Inr reply \<Rightarrow> hr_status reply < 300" by code_simp
  then obtain reply where reply: "?run = Inr reply" "hr_status reply < 300" by (cases ?run) auto
  then show ?thesis
    using client_casts_are_sound [OF first_world_typed typed_request_fair typed_request_draws sample_validator
        reply, of ts_Principal] by simp
qed

end
