(* ===== verification/Migrations.thy ===== *)
theory Migrations
  imports Transaction Database
begin

text \<open>
  src/infrastructure/database/migrate.ts: the schema migrations, each applied once, in the order of
  the file names.  What a migration's SQL does to the database is an argument.
\<close>

section \<open>runMigrations\<close>

text \<open>\<open>schema_migrations\<close>, if it exists, and everything else in the database.\<close>

record 'd schema_state =
  ms_table :: "string list option"
  ms_database :: 'd

text \<open>The directory, the SQL each file's text stands for, and its deferred constraints.\<close>

record 'd migration_set =
  mg_directory :: "string list"
  mg_sql :: "string \<Rightarrow> ('d, js_error, unit) tx"
  mg_deferred :: "'d \<Rightarrow> 'd \<Rightarrow> js_error option"

text \<open>What may go wrong: each query and each read of the file system.\<close>

record migrate_env =
  mv_create :: "js_error option"
  mv_readdir :: "js_error option"
  mv_select :: "js_error option"
  mv_readFile :: "nat \<Rightarrow> js_error option"
  mv_transaction :: "nat \<Rightarrow> tx_env"

definition calm_migration :: migrate_env where
  "calm_migration = \<lparr>mv_create = None, mv_readdir = None, mv_select = None, mv_readFile = (\<lambda>_. None),
    mv_transaction = (\<lambda>_. calm)\<rparr>"

text \<open>The pattern \<open>^\d+_[a-z0-9_]+\.sql$\<close>.\<close>

definition migration_char :: "char \<Rightarrow> bool" where
  "migration_char c \<longleftrightarrow> (CHR ''a'' \<le> c \<and> c \<le> CHR ''z'') \<or> is_digit c \<or> c = CHR ''_''"

definition migrationFilePattern :: "string \<Rightarrow> bool" where
  "migrationFilePattern file =
    (let digits = takeWhile is_digit file; rest = dropWhile is_digit file; body = take (length rest - 5) (drop 1 rest)
     in digits \<noteq> [] \<and> take 1 rest = ''_'' \<and> 5 < length rest \<and> drop (length rest - 4) rest = ''.sql'' \<and>
        list_all migration_char body)"

definition applied_names :: "'d schema_state \<Rightarrow> string list" where
  "applied_names s = (case ms_table s of None \<Rightarrow> [] | Some names \<Rightarrow> names)"

definition create_table :: "'d schema_state \<Rightarrow> 'd schema_state" where
  "create_table s = s\<lparr>ms_table := Some (applied_names s)\<rparr>"

definition migration_work :: "'d migration_set \<Rightarrow> string \<Rightarrow> ('d schema_state, js_error, unit) tx" where
  "migration_work m file s =
    (case mg_sql m file (ms_database s) of
       Inl e \<Rightarrow> Inl e
     | Inr (_, d) \<Rightarrow>
         if file \<in> set (applied_names s) then Inl (unique_violation ''schema_migrations_pkey'')
         else Inr ((), s\<lparr>ms_table := Some (applied_names s @ [file]), ms_database := d\<rparr>))"

fun migrate_files ::
    "'d migration_set \<Rightarrow> migrate_env \<Rightarrow> string set \<Rightarrow> string list \<Rightarrow> 'd schema_state \<Rightarrow> (js_error + unit) \<times> 'd schema_state" where
  "migrate_files m env appliedNames [] s = (Inr (), s)"
| "migrate_files m env appliedNames (file # files) s =
    (if file \<in> appliedNames then migrate_files m env appliedNames files s
     else
       (case mv_readFile env (length files) of
          Some e \<Rightarrow> (Inl e, s)
        | None \<Rightarrow>
            (let out = withTransaction (mv_transaction env (length files)) default_begin
                   (\<lambda>s s'. mg_deferred m (ms_database s) (ms_database s')) (migration_work m file) s
             in case out_result out of
                  Inl e \<Rightarrow> (Inl e, out_state out)
                | Inr _ \<Rightarrow> migrate_files m env appliedNames files (out_state out))))"

definition runMigrations :: "'d migration_set \<Rightarrow> migrate_env \<Rightarrow> 'd schema_state \<Rightarrow> (js_error + unit) \<times> 'd schema_state" where
  "runMigrations m env s =
    (case mv_create env of
       Some e \<Rightarrow> (Inl e, s)
     | None \<Rightarrow>
         (let s1 = create_table s in
          case mv_readdir env of
            Some e \<Rightarrow> (Inl e, s1)
          | None \<Rightarrow>
              (let files = sort (filter migrationFilePattern (mg_directory m)) in
               case mv_select env of
                 Some e \<Rightarrow> (Inl e, s1)
               | None \<Rightarrow> migrate_files m env (set (applied_names s1)) files s1)))"

section \<open>Each file once, in order\<close>

text \<open>One migration that nothing disturbs, and the files one after the other up to the first that fails.\<close>

definition applied :: "'d migration_set \<Rightarrow> string \<Rightarrow> 'd schema_state \<Rightarrow> js_error + 'd schema_state" where
  "applied m file s =
    (case migration_work m file s of
       Inl e \<Rightarrow> Inl e
     | Inr (_, s') \<Rightarrow> (case mg_deferred m (ms_database s) (ms_database s') of Some e \<Rightarrow> Inl e | None \<Rightarrow> Inr s'))"

fun applied_all :: "'d migration_set \<Rightarrow> string list \<Rightarrow> 'd schema_state \<Rightarrow> (js_error + unit) \<times> 'd schema_state" where
  "applied_all m [] s = (Inr (), s)"
| "applied_all m (file # files) s =
    (case applied m file s of Inl e \<Rightarrow> (Inl e, s) | Inr s' \<Rightarrow> applied_all m files s')"

definition pending_files :: "'d migration_set \<Rightarrow> 'd schema_state \<Rightarrow> string list" where
  "pending_files m s =
    filter (\<lambda>f. f \<notin> set (applied_names s)) (sort (filter migrationFilePattern (mg_directory m)))"

lemma create_table_parts [simp]:
  "applied_names (create_table s) = applied_names s" "ms_database (create_table s) = ms_database s"
  "create_table (create_table s) = create_table s"
  by (simp_all add: create_table_def applied_names_def)

lemma applied_InrD:
  "applied m file s = Inr s' \<Longrightarrow> applied_names s' = applied_names s @ [file] \<and> create_table s' = s'"
  by (auto simp: applied_def migration_work_def applied_names_def create_table_def split: sum.splits if_splits option.splits)

lemma applied_all_append:
  "applied_all m as s = (Inr (), s') \<Longrightarrow> applied_all m (as @ bs) s = applied_all m bs s'"
  by (induction as arbitrary: s) (auto split: sum.splits)

lemma applied_all_names:
  "applied_all m fs s = (Inr (), s') \<Longrightarrow> create_table s = s \<Longrightarrow>
    applied_names s' = applied_names s @ fs \<and> create_table s' = s'"
  by (induction fs arbitrary: s) (auto split: sum.splits dest!: applied_InrD)

text \<open>A transaction applies its file or leaves the database alone; undisturbed, it does what \<open>applied\<close> does.\<close>

lemma transaction_applies:
  "withTransaction env default_begin (\<lambda>s s'. mg_deferred m (ms_database s) (ms_database s')) (migration_work m file) s = out \<Longrightarrow>
    out_state out = s \<and> (\<exists>e. out_result out = Inl e) \<or> applied m file s = Inr (out_state out)"
  unfolding applied_def by (auto simp: withTransaction_cases split: option.splits sum.splits commit_outcome.splits)

lemma transaction_calm:
  "withTransaction calm default_begin (\<lambda>s s'. mg_deferred m (ms_database s) (ms_database s')) (migration_work m file) s = out \<Longrightarrow>
    (case applied m file s of
       Inl e \<Rightarrow> out_result out = Inl e \<and> out_state out = s
     | Inr s' \<Rightarrow> out_result out = Inr () \<and> out_state out = s')"
  unfolding applied_def by (auto simp: withTransaction_cases calm_def split: option.splits sum.splits)

lemma calm_parts [simp]:
  "mv_create calm_migration = None" "mv_readdir calm_migration = None" "mv_select calm_migration = None"
  "mv_readFile calm_migration = (\<lambda>_. None)" "mv_transaction calm_migration = (\<lambda>_. calm)"
  by (simp_all add: calm_migration_def)

lemma migrate_files_prefix:
  assumes "migrate_files m env seen files s = (r, s')"
  shows "\<exists>n. applied_all m (take n (filter (\<lambda>f. f \<notin> seen) files)) s = (Inr (), s') \<and>
    (r = Inr () \<longrightarrow> length (filter (\<lambda>f. f \<notin> seen) files) \<le> n)"
  using assms
proof (induction files arbitrary: s)
  case (Cons f files)
  let ?rest = "filter (\<lambda>f. f \<notin> seen) files"
  show ?case
  proof (cases "f \<in> seen")
    case True
    with Cons show ?thesis by simp
  next
    case False
    show ?thesis
    proof (cases "mv_readFile env (length files)")
      case (Some e)
      with Cons.prems False show ?thesis by (intro exI [of _ 0]) auto
    next
      case None
      define out where "out = withTransaction (mv_transaction env (length files)) default_begin
        (\<lambda>s s'. mg_deferred m (ms_database s) (ms_database s')) (migration_work m f) s"
      have run: "(case out_result out of Inl e \<Rightarrow> (Inl e, out_state out) | Inr _ \<Rightarrow> migrate_files m env seen files (out_state out)) = (r, s')"
        using Cons.prems False None unfolding out_def by (simp add: Let_def)
      from transaction_applies [OF out_def [symmetric]]
      consider (stays) e where "out_state out = s" "out_result out = Inl e" | (effect) "applied m f s = Inr (out_state out)"
        by blast
      then show ?thesis
      proof cases
        case stays
        with run False show ?thesis by (intro exI [of _ 0]) auto
      next
        case effect
        show ?thesis
        proof (cases "out_result out")
          case (Inl e)
          with run effect False show ?thesis by (intro exI [of _ 1]) auto
        next
          case (Inr u)
          with run Cons.IH obtain n where
            "applied_all m (take n ?rest) (out_state out) = (Inr (), s')" "r = Inr () \<longrightarrow> length ?rest \<le> n"
            by auto
          with effect False show ?thesis by (intro exI [of _ "Suc n"]) simp
        qed
      qed
    qed
  qed
qed (auto intro: exI [of _ 0])

lemma migrate_files_calm:
  "migrate_files m calm_migration seen files s = applied_all m (filter (\<lambda>f. f \<notin> seen) files) s"
proof (induction files arbitrary: s)
  case (Cons f files)
  with transaction_calm [OF refl, of m f s] show ?case
    by (auto simp: Let_def split: sum.splits)
qed simp

lemma run_calm: "runMigrations m calm_migration s = applied_all m (pending_files m s) (create_table s)"
  by (simp add: runMigrations_def Let_def pending_files_def migrate_files_calm)

lemma filter_after_prefix:
  assumes "distinct xs"
  shows "filter (\<lambda>x. x \<notin> set (take n xs)) xs = drop n xs"
proof -
  have "distinct (take n xs @ drop n xs)" using assms by simp
  then have "filter (\<lambda>x. x \<notin> set (take n xs)) (take n xs @ drop n xs) = drop n xs"
    by (auto simp only: filter_append distinct_append) (auto simp: filter_empty_conv intro!: filter_True)
  then show ?thesis by simp
qed

text \<open>
  A failed migration run is finished by the next one.  Whatever fails in a run - a query, the
  file system, a transaction, the answer to a COMMIT - it leaves the database with a prefix of the
  pending files applied, in the order of their names, each whole and recorded; all of them, if the
  run did not throw.  And the next undisturbed run ends exactly where one undisturbed run from the
  start would have ended, so no file is applied twice or left out.
\<close>

theorem failed_migration_is_resumed:
  assumes "distinct (mg_directory m)"
  shows "case runMigrations m env s of (r, s') \<Rightarrow>
    (\<exists>n. applied_all m (take n (pending_files m s)) (create_table s) = (Inr (), create_table s') \<and>
      (r = Inr () \<longrightarrow> length (pending_files m s) \<le> n)) \<and>
    runMigrations m calm_migration s' = runMigrations m calm_migration s"
proof -
  obtain r s' where run: "runMigrations m env s = (r, s')" by (cases "runMigrations m env s")
  let ?pending = "pending_files m s"
  obtain n where n: "applied_all m (take n ?pending) (create_table s) = (Inr (), create_table s')"
    "r = Inr () \<longrightarrow> length ?pending \<le> n"
  proof (cases "mv_create env = None \<and> mv_readdir env = None \<and> mv_select env = None")
    case True
    with run have "migrate_files m env (set (applied_names s)) (sort (filter migrationFilePattern (mg_directory m))) (create_table s) = (r, s')"
      by (simp add: runMigrations_def Let_def)
    from migrate_files_prefix [OF this] obtain n where
      k: "applied_all m (take n ?pending) (create_table s) = (Inr (), s')" "r = Inr () \<longrightarrow> length ?pending \<le> n"
      unfolding pending_files_def by blast
    with applied_all_names [OF k(1)] that show ?thesis by simp
  next
    case False
    with run have "(\<exists>e. r = Inl e) \<and> create_table s' = create_table s"
      by (auto simp: runMigrations_def Let_def split: option.splits)
    with that [of 0] show ?thesis by auto
  qed
  have names: "applied_names s' = applied_names s @ take n ?pending"
    using applied_all_names [OF n(1)] by simp
  have "pending_files m s' = filter (\<lambda>f. f \<notin> set (take n ?pending)) ?pending"
    by (simp add: pending_files_def names conj_commute)
  also have "\<dots> = drop n ?pending"
    by (rule filter_after_prefix) (use assms in \<open>simp add: pending_files_def\<close>)
  finally have "runMigrations m calm_migration s' = applied_all m (drop n ?pending) (create_table s')"
    by (simp add: run_calm)
  also have "\<dots> = runMigrations m calm_migration s"
    using applied_all_append [OF n(1), of "drop n ?pending"] by (simp add: run_calm)
  finally show ?thesis using run n by auto
qed

text \<open>Two migrations that count, of which the second meets a lost connection.\<close>

definition sample_migrations :: "nat migration_set" where
  "sample_migrations = \<lparr>mg_directory = [''002_entries.sql'', ''README.md'', ''001_accounts.sql''],
    mg_sql = (\<lambda>f d. Inr ((), d + 1)), mg_deferred = (\<lambda>_ _. None)\<rparr>"

definition broken_migration :: migrate_env where
  "broken_migration = calm_migration\<lparr>mv_transaction := (\<lambda>i. if i = 0
     then calm\<lparr>env_statement := Some (pg_error ''57P01'' ''terminating connection'')\<rparr> else calm)\<rparr>"

definition empty_schema :: "nat schema_state" where
  "empty_schema = \<lparr>ms_table = None, ms_database = 0\<rparr>"

lemma failed_migration_is_resumed_witness:
  "applied_names (snd (runMigrations sample_migrations broken_migration empty_schema)) = [''001_accounts.sql''] \<and>
    runMigrations sample_migrations calm_migration (snd (runMigrations sample_migrations broken_migration empty_schema)) =
    runMigrations sample_migrations calm_migration empty_schema"
proof
  show "applied_names (snd (runMigrations sample_migrations broken_migration empty_schema)) = [''001_accounts.sql'']"
    by code_simp
  have "distinct (mg_directory sample_migrations)" by code_simp
  from failed_migration_is_resumed [OF this, of empty_schema broken_migration]
  show "runMigrations sample_migrations calm_migration (snd (runMigrations sample_migrations broken_migration empty_schema)) =
    runMigrations sample_migrations calm_migration empty_schema"
    by (auto split: prod.splits)
qed

end
