(* ===== verification/Migrate_Command.thy ===== *)
theory Migrate_Command
  imports Migrations Server Command_Lines
begin

text \<open>
  src/infrastructure/database/migrate-cli.ts: the command that brings the database of an environment up to
  date.  A configuration that does not load ends the process before there is a pool; otherwise the pool is
  ended whatever the migrations did, and an error of either leaves the process with exit code 1.
\<close>

section \<open>The command\<close>

text \<open>
  The pool it made, if any, and whether it was ended; the lines; the error that was not caught, and with it
  the exit code; the database the pool's connection string names.
\<close>

record 'd migrate_run =
  mr_pool :: "pool_settings option"
  mr_ended :: bool
  mr_lines :: "cli_line list"
  mr_uncaught :: "js_error option"
  mr_schema :: "'d schema_state"

definition exit_code :: "'d migrate_run \<Rightarrow> nat" where
  "exit_code r = (case mr_uncaught r of None \<Rightarrow> 0 | Some _ \<Rightarrow> 1)"

text \<open>\<open>ended\<close> is what \<open>pool.end()\<close> rejects with; in the \<open>finally\<close> block it replaces the error of the try block.\<close>

definition migrate_cli ::
    "environment \<Rightarrow> 'd migration_set \<Rightarrow> migrate_env \<Rightarrow> js_error option \<Rightarrow> 'd schema_state \<Rightarrow> 'd migrate_run" where
  "migrate_cli variables m env ended s =
    (case loadConfig variables of
       Inl e \<Rightarrow> \<lparr>mr_pool = None, mr_ended = False, mr_lines = [], mr_uncaught = Some e, mr_schema = s\<rparr>
     | Inr config \<Rightarrow>
         (let pool = createPool (cf_databaseUrl config);
              (result, s') = runMigrations m env s;
              (lines, thrown) =
                (case result of
                   Inr _ \<Rightarrow> ([Stdout ''Database migrations completed''], None)
                 | Inl e \<Rightarrow> ([], Some e))
          in \<lparr>mr_pool = Some pool, mr_ended = True, mr_lines = lines,
              mr_uncaught = (case ended of Some e \<Rightarrow> Some e | None \<Rightarrow> thrown), mr_schema = s'\<rparr>))"

section \<open>What its exit code says\<close>

text \<open>
  C28.  The migration command can be trusted and repeated.  It leaves the database with a prefix of the
  pending files applied, in the order of their names, each whole and recorded, and with no connection
  open; it announces completion, and exits with 0, only if none is pending any more; and after a run that failed
  anywhere one undisturbed run ends with the schema one undisturbed run from the start would have made.
\<close>

theorem migration_command_is_resumable:
  assumes "distinct (mg_directory m)" and "loadConfig variables = Inr config"
  shows "let r = migrate_cli variables m env ended s; s' = mr_schema r in
    mr_pool r = Some (createPool (cf_databaseUrl config)) \<and> mr_ended r \<and>
    (\<exists>n. applied_all m (take n (pending_files m s)) (create_table s) = (Inr (), create_table s')) \<and>
    (mr_lines r \<noteq> [] \<or> exit_code r = 0 \<longrightarrow> pending_files m s' = []) \<and>
    mr_schema (migrate_cli variables m calm_migration None s') = mr_schema (migrate_cli variables m calm_migration None s)"
proof -
  obtain result s' where run: "runMigrations m env s = (result, s')" by (cases "runMigrations m env s")
  from failed_migration_is_resumed [OF assms(1), of s env] run obtain n where
    n: "applied_all m (take n (pending_files m s)) (create_table s) = (Inr (), create_table s')"
      "result = Inr () \<longrightarrow> length (pending_files m s) \<le> n"
    and again: "runMigrations m calm_migration s' = runMigrations m calm_migration s"
    by auto
  have whole: "pending_files m s' = []" if "result = Inr ()"
    using applied_all_names [OF n(1)] n(2) that by (simp add: pending_files_def)
  have command: "migrate_cli variables m e ended' t =
    (case runMigrations m e t of (x, t') \<Rightarrow>
      \<lparr>mr_pool = Some (createPool (cf_databaseUrl config)), mr_ended = True,
       mr_lines = (case x of Inr _ \<Rightarrow> [Stdout ''Database migrations completed''] | Inl e \<Rightarrow> []),
       mr_uncaught = (case ended' of Some e \<Rightarrow> Some e | None \<Rightarrow> (case x of Inr _ \<Rightarrow> None | Inl e \<Rightarrow> Some e)),
       mr_schema = t'\<rparr>)" for e ended' t
    by (simp add: migrate_cli_def assms(2) Let_def split: sum.split prod.split)
  show ?thesis
    using n(1) whole
    by (cases result)
      (auto simp: command run again Let_def exit_code_def split: option.split prod.split intro!: exI [of _ n])
qed

lemma migration_command_is_resumable_witness:
  "(let r = migrate_cli sample_environment sample_migrations broken_migration None empty_schema in
     mr_ended r \<and> mr_lines r = [] \<and> exit_code r = 1 \<and> applied_names (mr_schema r) = [''001_accounts.sql''] \<and>
     mr_schema (migrate_cli sample_environment sample_migrations calm_migration None (mr_schema r)) =
     mr_schema (migrate_cli sample_environment sample_migrations calm_migration None empty_schema))"
proof -
  obtain config where config: "loadConfig sample_environment = Inr config" using sample_environment_loads by blast
  have "distinct (mg_directory sample_migrations)" by code_simp
  note whole = migration_command_is_resumable [OF this config, of broken_migration None empty_schema]
  have "case runMigrations sample_migrations broken_migration empty_schema of (x, s') \<Rightarrow>
      (case x of Inl _ \<Rightarrow> True | Inr _ \<Rightarrow> False) \<and> applied_names s' = [''001_accounts.sql'']"
    by code_simp
  then have "mr_lines (migrate_cli sample_environment sample_migrations broken_migration None empty_schema) = [] \<and>
      exit_code (migrate_cli sample_environment sample_migrations broken_migration None empty_schema) = 1 \<and>
      applied_names (mr_schema (migrate_cli sample_environment sample_migrations broken_migration None empty_schema)) =
        [''001_accounts.sql'']"
    by (auto simp: migrate_cli_def config exit_code_def split: prod.splits sum.splits)
  with whole show ?thesis by (simp add: Let_def)
qed

end
