(* ===== verification/Triggers.thy ===== *)
theory Triggers
  imports Http_Witnesses
begin

text \<open>
  The row triggers of the migrations: the books are append-only (002, 003, 008), an account keeps its
  identity, its currency and its owner (001, 009), and an external identity its principal (012).  The service
  is written so that none of them has anything to refuse.
\<close>

section \<open>The triggers\<close>

text \<open>A trigger sees the OLD row, and the NEW one unless the row is deleted; it refuses or lets pass.\<close>

type_synonym 'r row_trigger = "'r \<Rightarrow> 'r option \<Rightarrow> js_error option"

definition reject_ledger_mutation :: "string \<Rightarrow> 'r row_trigger" where
  "reject_ledger_mutation tg_table_name old new = Some (pg_error ''55000'' (tg_table_name @ '' is append-only''))"

definition reject_ledger_transaction_mutation :: "ledger_transaction_row row_trigger" where
  "reject_ledger_transaction_mutation old new =
    (case new of
       Some n \<Rightarrow>
         if \<not> lt_finalized old \<and> lt_finalized n \<and> lt_id n = lt_id old \<and> lt_type n = lt_type old \<and>
            lt_reference n = lt_reference old \<and> lt_currency n = lt_currency old \<and> lt_created_at n = lt_created_at old
         then None else Some (pg_error ''55000'' ''ledger_transactions is append-only'')
     | None \<Rightarrow> Some (pg_error ''55000'' ''ledger_transactions is append-only''))"

text \<open>BEFORE UPDATE only: a row of \<open>accounts\<close> is kept by the foreign keys of its entries.\<close>

definition reject_account_identity_change :: "account_row row_trigger" where
  "reject_account_identity_change old new =
    (case new of
       None \<Rightarrow> None
     | Some n \<Rightarrow>
         if acc_id n \<noteq> acc_id old \<or> acc_currency n \<noteq> acc_currency old \<or> acc_is_treasury n \<noteq> acc_is_treasury old
         then Some (pg_error ''P0001'' ''account identity, currency, and treasury status are immutable'')
         else if acc_owner_principal_id n \<noteq> acc_owner_principal_id old
         then Some (pg_error ''P0001'' ''account ownership is immutable'') else None)"

definition reject_principal_identity_change :: "identity_row row_trigger" where
  "reject_principal_identity_change old new = Some (pg_error ''P0001'' ''principal_identities rows are immutable'')"

text \<open>The rows of a table that have changed or gone between two states, each with its successor.\<close>

definition row_changes :: "('r \<Rightarrow> 'k) \<Rightarrow> 'r list \<Rightarrow> 'r list \<Rightarrow> ('r \<times> 'r option) list" where
  "row_changes key olds news =
    map (\<lambda>r. (r, select_first (\<lambda>n. key n = key r) news)) (filter (\<lambda>r. r \<notin> set news) olds)"

definition refusals :: "'r row_trigger \<Rightarrow> ('r \<times> 'r option) list \<Rightarrow> js_error list" where
  "refusals tg changes = List.map_filter (\<lambda>(old, new). tg old new) changes"

definition trigger_errors :: "db \<Rightarrow> db \<Rightarrow> js_error list" where
  "trigger_errors s s' =
    refusals reject_ledger_transaction_mutation (row_changes lt_id (ledger_transactions s) (ledger_transactions s')) @
    refusals (reject_ledger_mutation ''journal_entries'') (row_changes je_id (journal_entries s) (journal_entries s')) @
    refusals (reject_ledger_mutation ''transfers'') (row_changes tr_id (transfers s) (transfers s')) @
    refusals (reject_ledger_mutation ''consumer_inbox'') (row_changes inbox_key (consumer_inbox s) (consumer_inbox s')) @
    refusals (reject_ledger_mutation ''audit_effects'') (row_changes ae_id (audit_effects s) (audit_effects s')) @
    refusals reject_account_identity_change (row_changes acc_id (accounts s) (accounts s')) @
    refusals reject_principal_identity_change (row_changes identity_key (principal_identities s) (principal_identities s'))"

lemma refusals_simps [simp]:
  "refusals tg [] = []" "refusals tg ((r, n) # cs) = (case tg r n of None \<Rightarrow> [] | Some e \<Rightarrow> [e]) @ refusals tg cs"
  by (simp_all add: refusals_def List.map_filter_def split: option.split)

lemma nothing_changed: "prefix olds news \<Longrightarrow> row_changes key olds news = []"
  by (auto simp: row_changes_def prefix_def)

section \<open>What the rows keep\<close>

definition account_identity :: "account_row \<Rightarrow> uuid \<times> string \<times> bool \<times> uuid option" where
  "account_identity r = (acc_id r, acc_currency r, acc_is_treasury r, acc_owner_principal_id r)"

definition identities_stay :: "db \<Rightarrow> db \<Rightarrow> bool" where
  "identities_stay s s' \<longleftrightarrow>
    prefix (map account_identity (accounts s)) (map account_identity (accounts s')) \<and>
    prefix (principal_identities s) (principal_identities s')"

lemma identities_refl: "identities_stay s s"
  by (simp add: identities_stay_def)

lemma identities_frame [simp]:
  "identities_stay s (t\<lparr>ledger_transactions := x1\<rparr>) = identities_stay s t"
  "identities_stay s (t\<lparr>journal_entries := x2\<rparr>) = identities_stay s t"
  "identities_stay s (t\<lparr>transfers := x3\<rparr>) = identities_stay s t"
  "identities_stay s (t\<lparr>idempotency_records := x4\<rparr>) = identities_stay s t"
  "identities_stay s (t\<lparr>outbox_events := x5\<rparr>) = identities_stay s t"
  "identities_stay s (t\<lparr>consumer_inbox := x6\<rparr>) = identities_stay s t"
  "identities_stay s (t\<lparr>audit_effects := x7\<rparr>) = identities_stay s t"
  "identities_stay s (t\<lparr>principals := x8\<rparr>) = identities_stay s t"
  "identities_stay s (t\<lparr>api_keys := x9\<rparr>) = identities_stay s t"
  by (simp_all add: identities_stay_def)

lemma identity_of_posting: "map account_identity (update_where p (post_delta now es) rows) = map account_identity rows"
  by (induction rows) (simp_all add: update_where_def account_identity_def post_delta_def)

interpretation identities_posting: transfer_posting "identities_stay s0" for s0
proof unfold_locales
  fix now tid ty ref eids aids ds ms
  show "tx_keeps (identities_stay s0) (post_ledger_transaction now tid ty ref eids aids ds ms)"
    unfolding tx_keeps_def
  proof (intro allI impI)
    fix s row s' assume stay: "identities_stay s0 s"
      and post: "post_ledger_transaction now tid ty ref eids aids ds ms s = Inr (row, s')"
    obtain rows where "s' = posted_state now row rows (zip aids (zip ds ms)) s"
      by (rule post_ledger_transaction_InrD [OF post]) blast
    with stay show "identities_stay s0 s'" by (simp add: posted_state_def identities_stay_def identity_of_posting)
  qed
qed (auto simp: tx_keeps_def complete_eq dest!: insert_transfer_InrD outbox_insert_InrD)

lemma identities_statements:
  "tx_keeps (identities_stay s0) (insert_claim now p)" "tx_keeps (identities_stay s0) (reclaim now p threshold)"
  "tx_keeps (identities_stay s0) (complete now key operation pid b st)"
  "tx_keeps (identities_stay s0) (release key operation pid)"
  "tx_keeps (identities_stay s0) (claim_work now lease locked n)"
  "tx_keeps (identities_stay s0) (markProcessed now eid)" "tx_keeps (identities_stay s0) (markFailed eid msg a)"
  "tx_keeps (identities_stay s0) (replay_where q)"
  "tx_keeps (identities_stay s0) (createAccount now aid currency owner)"
  "tx_keeps (identities_stay s0) (createPrincipal now pid name)"
  "tx_keeps (identities_stay s0) (insertApiKey now kid hash prefix' pid)"
  "tx_keeps (identities_stay s0) (store_revokeApiKey now kid)"
  by (auto simp: tx_keeps_def complete_eq createAccount_def tx_simps store_revokeApiKey_eq identities_stay_def
      dest!: records_only events_only createPrincipal_InrD insertApiKey_InrD)

lemma identities_provision: "tx_keeps (identities_stay s0) (provision_work now pid provider subject email name)"
  unfolding tx_keeps_def by (auto elim!: provision_work_InrD simp: identities_stay_def)

lemma identities_consume: "tx_keeps (identities_stay s0) (consume_work now eid i)"
  unfolding tx_keeps_def by (auto dest!: consume_work_InrD split: if_splits)

lemma identities_purges:
  "identities_stay s0 s \<Longrightarrow> purgeCompletedBefore cutoff n s = Some (k, s') \<Longrightarrow> identities_stay s0 s'"
  "identities_stay s0 s \<Longrightarrow> purgeProcessedBefore cutoff limit s = Some (k, s') \<Longrightarrow> identities_stay s0 s'"
  by (auto simp: purgeCompletedBefore_def purgeProcessedBefore_def store_purgeProcessedBefore_def)

interpretation identities: service_invariant "identities_stay s0" "\<lambda>_ _ _. True" for s0
  by unfold_locales
    (rule identities_posting.transfer_work_keeps identities_posting.post_work_keeps identities_statements
      identities_provision identities_consume identities_purges; assumption)+

section \<open>No trigger fires\<close>

lemma account_successor:
  assumes stay: "identities_stay s s'" and keys: "distinct (map acc_id (accounts s'))" and r: "r \<in> set (accounts s)"
  obtains n where "select_first (\<lambda>n. acc_id n = acc_id r) (accounts s') = Some n" "account_identity n = account_identity r"
proof -
  have "account_identity r \<in> account_identity ` set (accounts s')"
    using stay r set_mono_prefix unfolding identities_stay_def by (metis (no_types) imageI in_mono set_map)
  then obtain n where n: "n \<in> set (accounts s')" "account_identity n = account_identity r" by auto
  then have "acc_id n = acc_id r" by (simp add: account_identity_def)
  with n that keys show ?thesis by (simp add: select_first_Some_iff)
qed

lemma account_trigger_passes:
  assumes "identities_stay s s'" and "distinct (map acc_id (accounts s'))"
  shows "refusals reject_account_identity_change (row_changes acc_id (accounts s) (accounts s')) = []"
proof -
  have "reject_account_identity_change r (select_first (\<lambda>n. acc_id n = acc_id r) (accounts s')) = None"
    if "r \<in> set (accounts s)" for r
    by (rule account_successor [OF assms that]) (simp add: reject_account_identity_change_def account_identity_def)
  then show ?thesis
    by (auto simp: refusals_def row_changes_def List.map_filter_def filter_empty_conv)
qed

text \<open>
  C5.  The triggers guard an open door.  Whatever requests, polls, replays and purges take a sound
  database from one state to another, none of the migrations' triggers has a row to refuse: no row of the books,
  of the inbox or of the effects has been changed or removed, no account has changed its currency or its
  owner, and no external identity its principal.
\<close>

theorem no_trigger_fires:
  assumes "service_run opts s s'" and "db_inv s"
  shows "trigger_errors s s' = []"
proof -
  have "history_grows s s'" by (rule history.run_keeps [OF TrueI assms(1) history_refl])
  moreover have stay: "identities_stay s s'" by (rule identities.run_keeps [OF TrueI assms(1) identities_refl])
  moreover have "db_inv s'" by (rule books.run_keeps [OF TrueI assms])
  ultimately show ?thesis
    by (simp add: trigger_errors_def nothing_changed history_grows_def identities_stay_def
        account_trigger_passes [OF stay db_inv_keys(1)])
qed

lemma no_trigger_fires_witness:
  "trigger_errors sample_db (app_db (snd (handle sample_options quiet_request Post_transfer keyed_request service_world))) = []"
  by (rule no_trigger_fires [OF sample_transfer_run sample_inv])

text \<open>A change of hands, or of a balance alone: the first is refused.\<close>

lemma change_of_hands_refused:
  "map error_message (trigger_errors sample_db
      (sample_db\<lparr>accounts := update_where (\<lambda>a. acc_id a = alice_account) (\<lambda>a. a\<lparr>acc_owner_principal_id := Some bob\<rparr>)
        (accounts sample_db)\<rparr>)) = [''account ownership is immutable'']"
  "trigger_errors sample_db
      (sample_db\<lparr>accounts := update_where (\<lambda>a. acc_id a = alice_account) (\<lambda>a. a\<lparr>acc_balance_minor := 1\<rparr>)
        (accounts sample_db)\<rparr>) = []"
  by code_simp+

end
