(* ===== verification/Web_Demo.thy ===== *)
theory Web_Demo
  imports Web_Money
begin

text \<open>
  The self-running illustration of web/src/components/landing/HeroDashboard.tsx: a script of payments
  between three accounts, one phase per timer.
\<close>

section \<open>HeroDashboard\<close>

datatype phase = Authorizing | Posting | Completed

record demo_account =
  dm_name :: string
  dm_code :: string
  dm_balance :: int

record demo_payment =
  dp_from :: nat
  dp_to :: nat
  dp_amount :: int
  dp_reference :: string

record demo_row =
  dr_id :: int
  dr_payment :: demo_payment
  dr_phase :: phase

record demo =
  de_accounts :: "demo_account list"
  de_rows :: "demo_row list"
  de_step :: nat
  de_phase :: phase

definition initialAccounts :: "demo_account list" where
  "initialAccounts =
    [\<lparr>dm_name = ''Operating'', dm_code = ''ACC-1001'', dm_balance = 482000000\<rparr>,
     \<lparr>dm_name = ''Payroll'', dm_code = ''ACC-2040'', dm_balance = 125000000\<rparr>,
     \<lparr>dm_name = ''Vendor escrow'', dm_code = ''ACC-3310'', dm_balance = 78050000\<rparr>]"

definition script :: "demo_payment list" where
  "script =
    [\<lparr>dp_from = 0, dp_to = 1, dp_amount = 24000000, dp_reference = ''payroll-2026-11''\<rparr>,
     \<lparr>dp_from = 1, dp_to = 2, dp_amount = 1875000, dp_reference = ''inv-4471''\<rparr>,
     \<lparr>dp_from = 2, dp_to = 0, dp_amount = 6230000, dp_reference = ''refund-0932''\<rparr>,
     \<lparr>dp_from = 0, dp_to = 2, dp_amount = 10500000, dp_reference = ''po-2210''\<rparr>]"

definition seedRows :: "demo_row list" where
  "seedRows =
    [\<lparr>dr_id = -1, dr_payment = \<lparr>dp_from = 2, dp_to = 0, dp_amount = 3120000, dp_reference = ''refund-0918''\<rparr>, dr_phase = Completed\<rparr>,
     \<lparr>dr_id = -2, dr_payment = \<lparr>dp_from = 0, dp_to = 1, dp_amount = 9900000, dp_reference = ''bonus-q3''\<rparr>, dr_phase = Completed\<rparr>,
     \<lparr>dr_id = -3, dr_payment = \<lparr>dp_from = 1, dp_to = 2, dp_amount = 845000, dp_reference = ''inv-4402''\<rparr>, dr_phase = Completed\<rparr>]"

definition phaseMs :: "phase \<Rightarrow> nat" where
  "phaseMs p = (case p of Authorizing \<Rightarrow> 900 | Posting \<Rightarrow> 1400 | Completed \<Rightarrow> 2600)"

definition payment_of :: "demo \<Rightarrow> demo_payment" where
  "payment_of st = script ! (de_step st mod length script)"

definition set_row_phase :: "nat \<Rightarrow> phase \<Rightarrow> demo_row list \<Rightarrow> demo_row list" where
  "set_row_phase n p rows = map (\<lambda>r. if dr_id r = int n then r\<lparr>dr_phase := p\<rparr> else r) rows"

definition move :: "demo_payment \<Rightarrow> demo_account list \<Rightarrow> demo_account list" where
  "move pay xs =
    map (\<lambda>(i, a).
      if i = dp_from pay then a\<lparr>dm_balance := dm_balance a - dp_amount pay\<rparr>
      else if i = dp_to pay then a\<lparr>dm_balance := dm_balance a + dp_amount pay\<rparr> else a) (enumerate 0 xs)"

text \<open>The timer's callback, and the effect that enters a new step into the feed.\<close>

definition timer_fires :: "demo \<Rightarrow> demo" where
  "timer_fires st =
    (case de_phase st of
       Authorizing \<Rightarrow> st\<lparr>de_phase := Posting, de_rows := set_row_phase (de_step st) Posting (de_rows st)\<rparr>
     | Posting \<Rightarrow>
         st\<lparr>de_phase := Completed, de_accounts := move (payment_of st) (de_accounts st),
            de_rows := set_row_phase (de_step st) Completed (de_rows st)\<rparr>
     | Completed \<Rightarrow> st\<lparr>de_step := de_step st + 1, de_phase := Authorizing\<rparr>)"

definition enter_step :: "demo \<Rightarrow> demo" where
  "enter_step st =
    st\<lparr>de_rows := take 4 (\<lparr>dr_id = int (de_step st), dr_payment = payment_of st, dr_phase = Authorizing\<rparr> #
        filter (\<lambda>r. dr_id r \<noteq> int (de_step st)) (de_rows st))\<rparr>"

definition demo_tick :: "demo \<Rightarrow> demo" where
  "demo_tick st = (let st' = timer_fires st in if de_step st' = de_step st then st' else enter_step st')"

definition demo_mounted :: demo where
  "demo_mounted = enter_step \<lparr>de_accounts = initialAccounts, de_rows = seedRows, de_step = 0, de_phase = Authorizing\<rparr>"

text \<open>What the panels show.\<close>

definition total :: "demo \<Rightarrow> int" where
  "total st = sum_list (map dm_balance (de_accounts st))"

definition account_active_shown :: "demo \<Rightarrow> nat \<Rightarrow> bool" where
  "account_active_shown st i \<longleftrightarrow>
    de_phase st \<noteq> Authorizing \<and> (i = dp_from (payment_of st) \<or> i = dp_to (payment_of st))"

definition phase_badge :: "phase \<Rightarrow> string" where
  "phase_badge p = (case p of Authorizing \<Rightarrow> ''Auth '' @ utf8 [0xB7] @ '' idempotency claim''
     | Posting \<Rightarrow> ''Posting '' @ utf8 [0xB7] @ '' SERIALIZABLE'' | Completed \<Rightarrow> ''Committed'')"

definition status_label :: "phase \<Rightarrow> string" where
  "status_label p = (case p of Authorizing \<Rightarrow> ''In flight'' | Posting \<Rightarrow> ''Posting'' | Completed \<Rightarrow> ''Committed'')"

section \<open>The demo conserves money and overdraws\<close>

definition demo_ok :: "demo \<Rightarrow> bool" where
  "demo_ok st \<longleftrightarrow> length (de_accounts st) = 3 \<and> total st = 685050000 \<and>
    length (de_rows st) \<le> 4 \<and> distinct (map dr_id (de_rows st))"

lemma script_accounts:
  "dp_from (payment_of st) < 3" "dp_to (payment_of st) < 3" "dp_from (payment_of st) \<noteq> dp_to (payment_of st)"
proof -
  have "payment_of st \<in> set script" unfolding payment_of_def by (rule nth_mem) (simp add: script_def)
  then show "dp_from (payment_of st) < 3" "dp_to (payment_of st) < 3" "dp_from (payment_of st) \<noteq> dp_to (payment_of st)"
    by (auto simp: script_def)
qed

lemma move_total:
  assumes "length xs = 3" and "dp_from pay < 3" and "dp_to pay < 3" and "dp_from pay \<noteq> dp_to pay"
  shows "length (move pay xs) = 3" and "sum_list (map dm_balance (move pay xs)) = sum_list (map dm_balance xs)"
proof -
  obtain a b c where xs: "xs = [a, b, c]" using assms(1) by (auto simp: length_Suc_conv numeral_3_eq_3)
  let ?change = "\<lambda>i a. if i = dp_from pay then a\<lparr>dm_balance := dm_balance a - dp_amount pay\<rparr>
    else if i = dp_to pay then a\<lparr>dm_balance := dm_balance a + dp_amount pay\<rparr> else a"
  have moved: "move pay xs = [?change 0 a, ?change 1 b, ?change 2 c]"
    by (simp add: xs move_def numeral_2_eq_2)
  then show "length (move pay xs) = 3" by simp
  have "dp_from pay = 0 \<or> dp_from pay = 1 \<or> dp_from pay = 2" "dp_to pay = 0 \<or> dp_to pay = 1 \<or> dp_to pay = 2"
    using assms(2,3) by linarith+
  then show "sum_list (map dm_balance (move pay xs)) = sum_list (map dm_balance xs)"
    using assms(4) moved by (elim disjE) (simp_all add: xs)
qed

lemma row_phase_ids: "map dr_id (set_row_phase n p rows) = map dr_id rows" "length (set_row_phase n p rows) = length rows"
  by (auto simp: set_row_phase_def comp_def)

lemma timer_ok:
  assumes "demo_ok st"
  shows "demo_ok (timer_fires st)"
proof (cases "de_phase st")
  case Posting
  with assms move_total [of "de_accounts st" "payment_of st"] script_accounts [of st] show ?thesis
    by (simp add: demo_ok_def timer_fires_def total_def row_phase_ids)
qed (use assms in \<open>simp_all add: demo_ok_def timer_fires_def total_def row_phase_ids\<close>)

lemma enter_ok: "length (de_accounts st) = 3 \<Longrightarrow> total st = 685050000 \<Longrightarrow> distinct (map dr_id (de_rows st)) \<Longrightarrow> demo_ok (enter_step st)"
  by (auto simp: demo_ok_def enter_step_def total_def take_map [symmetric] distinct_map inj_on_def
      dest!: in_set_takeD intro: distinct_take)

lemma tick_ok: "demo_ok st \<Longrightarrow> demo_ok (demo_tick st)"
  using timer_ok [of st] enter_ok [of "timer_fires st"] by (auto simp: demo_tick_def Let_def demo_ok_def)

text \<open>
  The demo conserves money.  However long it runs, the three balances add up to what they
  started with, and the feed never shows more than four payments or one of them twice.
\<close>

theorem demo_conserves_money: "demo_ok ((demo_tick ^^ n) demo_mounted)"
proof (induction n)
  case 0
  show ?case
    unfolding demo_mounted_def funpow_0
    by (rule enter_ok) (simp_all add: initialAccounts_def total_def seedRows_def)
next
  case (Suc n)
  then show ?case by (simp add: tick_ok)
qed

text \<open>It does not keep the other promise: after 206 timers, some five and a half minutes, an account is overdrawn.\<close>

definition balances :: "demo \<Rightarrow> int list" where
  "balances st = map dm_balance (de_accounts st)"

lemma move_balances:
  assumes "map dm_balance xs = [a, b, c]"
  shows "map dm_balance (move pay xs) =
    [if dp_from pay = 0 then a - dp_amount pay else if dp_to pay = 0 then a + dp_amount pay else a,
     if dp_from pay = 1 then b - dp_amount pay else if dp_to pay = 1 then b + dp_amount pay else b,
     if dp_from pay = 2 then c - dp_amount pay else if dp_to pay = 2 then c + dp_amount pay else c]"
proof -
  obtain x y z where xs: "xs = [x, y, z]" using assms by (auto simp: map_eq_Cons_conv)
  with assms have "dm_balance x = a" "dm_balance y = b" "dm_balance z = c" by simp_all
  then show ?thesis by (simp add: xs move_def numeral_2_eq_2)
qed

definition one_payment :: "demo \<Rightarrow> demo" where
  "one_payment st = demo_tick (demo_tick (demo_tick st))"

lemma one_payment:
  assumes "de_phase st = Authorizing"
  shows "de_phase (one_payment st) = Authorizing" and "de_step (one_payment st) = de_step st + 1"
    and "de_accounts (one_payment st) = move (payment_of st) (de_accounts st)"
  using assms by (simp_all add: one_payment_def demo_tick_def timer_fires_def enter_step_def payment_of_def Let_def)

definition at_cycle :: "nat \<Rightarrow> demo \<Rightarrow> bool" where
  "at_cycle k st \<longleftrightarrow> de_phase st = Authorizing \<and> de_step st = 4 * k \<and>
    balances st = [482000000 - 28270000 * int k, 125000000 + 22125000 * int k, 78050000 + 6145000 * int k]"

lemma payment_at: "de_step st = 4 * k + j \<Longrightarrow> j < 4 \<Longrightarrow> payment_of st = script ! j"
  by (simp add: payment_of_def script_def)

lemma cycle:
  assumes "at_cycle k st"
  shows "at_cycle (k + 1) (one_payment (one_payment (one_payment (one_payment st))))"
proof -
  define s1 where "s1 = one_payment st"
  define s2 where "s2 = one_payment s1"
  define s3 where "s3 = one_payment s2"
  define s4 where "s4 = one_payment s3"
  have start: "de_phase st = Authorizing" "de_step st = 4 * k + 0" using assms by (simp_all add: at_cycle_def)
  have b0: "map dm_balance (de_accounts st) = [482000000 - 28270000 * int k, 125000000 + 22125000 * int k, 78050000 + 6145000 * int k]"
    using assms by (simp add: at_cycle_def balances_def)
  have st1: "de_phase s1 = Authorizing" "de_step s1 = 4 * k + 1" "de_accounts s1 = move (script ! 0) (de_accounts st)"
    using one_payment [OF start(1)] start payment_at [OF start(2)] by (simp_all add: s1_def)
  have st2: "de_phase s2 = Authorizing" "de_step s2 = 4 * k + 2" "de_accounts s2 = move (script ! 1) (de_accounts s1)"
    using one_payment [OF st1(1)] st1 payment_at [OF st1(2)] by (simp_all add: s2_def)
  have st3: "de_phase s3 = Authorizing" "de_step s3 = 4 * k + 3" "de_accounts s3 = move (script ! 2) (de_accounts s2)"
    using one_payment [OF st2(1)] st2 payment_at [OF st2(2)] by (simp_all add: s3_def)
  have st4: "de_phase s4 = Authorizing" "de_step s4 = 4 * (k + 1)" "de_accounts s4 = move (script ! 3) (de_accounts s3)"
    using one_payment [OF st3(1)] st3 payment_at [OF st3(2)] by (simp_all add: s4_def)
  note b1 = move_balances [OF b0, of "script ! 0", folded st1(3)]
  note b2 = move_balances [OF b1, of "script ! 1", folded st2(3)]
  note b3 = move_balances [OF b2, of "script ! 2", folded st3(3)]
  note b4 = move_balances [OF b3, of "script ! 3", folded st4(3)]
  have "balances s4 = [482000000 - 28270000 * int (k + 1), 125000000 + 22125000 * int (k + 1), 78050000 + 6145000 * int (k + 1)]"
    unfolding balances_def b4 by (simp add: script_def)
  with st4 show ?thesis by (simp add: at_cycle_def s1_def s2_def s3_def s4_def)
qed

lemma cycles: "at_cycle k ((demo_tick ^^ (12 * k)) demo_mounted)"
proof (induction k)
  case 0
  show ?case by (simp add: at_cycle_def demo_mounted_def enter_step_def balances_def initialAccounts_def)
next
  case (Suc k)
  have "12 * Suc k = 12 + 12 * k" by simp
  then have "(demo_tick ^^ (12 * Suc k)) demo_mounted = (demo_tick ^^ 12) ((demo_tick ^^ (12 * k)) demo_mounted)"
    by (simp only: funpow_add comp_apply)
  also have "\<dots> = one_payment (one_payment (one_payment (one_payment ((demo_tick ^^ (12 * k)) demo_mounted))))"
    by (simp add: one_payment_def eval_nat_numeral)
  finally show ?case using cycle [OF Suc.IH] by simp
qed

lemma demo_overdraws: "hd (balances ((demo_tick ^^ 206) demo_mounted)) < 0"
proof -
  define st where "st = (demo_tick ^^ (12 * 17)) demo_mounted"
  have at: "at_cycle 17 st" unfolding st_def by (rule cycles)
  have "(206::nat) = Suc (Suc (12 * 17))" by simp
  then have "(demo_tick ^^ 206) demo_mounted = demo_tick (demo_tick st)"
    by (simp only: funpow.simps comp_apply st_def)
  moreover have "map dm_balance (de_accounts (demo_tick (demo_tick st))) = map dm_balance (move (script ! 0) (de_accounts st))"
    using at payment_at [of st 17 0]
    by (simp add: at_cycle_def demo_tick_def timer_fires_def Let_def payment_of_def)
  ultimately show ?thesis
    using at move_balances [of "de_accounts st" _ _ _ "script ! 0"] by (simp add: at_cycle_def balances_def script_def)
qed

end
