(* ===== verification/Web_Widgets.thy ===== *)
theory Web_Widgets
  imports Metrics
begin

text \<open>
  The widgets with behaviour of their own: the login menu of web/src/components/landing/Navbar.tsx with
  its keyboard focus, the bar around it, and the fields of web/src/components/auth/fields.tsx.
  Markup and styling are left out.
\<close>

section \<open>Navbar.tsx\<close>

definition nav_sections :: "(string \<times> string) list" where
  "nav_sections =
    [(''#features'', ''Features''), (''#how-it-works'', ''How It Works''), (''#security'', ''Security''),
     (''#operations'', ''Operations'')]"

record login_option =
  lo_to :: string
  lo_label :: string
  lo_detail :: string

definition loginOptions :: "login_option list" where
  "loginOptions =
    [\<lparr>lo_to = ''/login/user'', lo_label = ''User Login'', lo_detail = ''Google, email, or API key''\<rparr>,
     \<lparr>lo_to = ''/login/admin'', lo_label = ''Admin Login'', lo_detail = ''Operator console''\<rparr>]"

record navbar =
  nb_scrolled :: bool
  nb_mobileOpen :: bool

datatype bar_look = Solid_bar | Blurred_bar | Clear_bar

definition bar_look :: "navbar \<Rightarrow> bar_look" where
  "bar_look n = (if nb_mobileOpen n then Solid_bar else if nb_scrolled n then Blurred_bar else Clear_bar)"

datatype navbar_event = Scrolled int | Toggle_mobile | Section_chosen

definition navbar_step :: "navbar_event \<Rightarrow> navbar \<Rightarrow> navbar" where
  "navbar_step ev n =
    (case ev of
       Scrolled y \<Rightarrow> n\<lparr>nb_scrolled := 8 < y\<rparr>
     | Toggle_mobile \<Rightarrow> n\<lparr>nb_mobileOpen := \<not> nb_mobileOpen n\<rparr>
     | Section_chosen \<Rightarrow> n\<lparr>nb_mobileOpen := False\<rparr>)"

section \<open>The login menu\<close>

text \<open>
  What has the focus: the button, an item of the open menu, or something outside.  The items are
  mounted while the menu is open.
\<close>

datatype menu_focus = On_button | On_item nat | Outside

record login_menu =
  lm_open :: bool
  lm_focus :: menu_focus

definition closed_menu :: login_menu where
  "closed_menu = \<lparr>lm_open = False, lm_focus = Outside\<rparr>"

text \<open>The effect on \<open>open\<close>: when it has become true, the first item takes the focus.\<close>

definition set_open :: "bool \<Rightarrow> login_menu \<Rightarrow> login_menu" where
  "set_open to m =
    (if to \<and> \<not> lm_open m then \<lparr>lm_open = True, lm_focus = On_item 0\<rparr>
     else if \<not> to \<and> lm_open m then
       \<lparr>lm_open = False, lm_focus = (case lm_focus m of On_item i \<Rightarrow> Outside | f \<Rightarrow> f)\<rparr>
     else m)"

definition close_menu :: "bool \<Rightarrow> login_menu \<Rightarrow> login_menu" where
  "close_menu restoreFocus m =
    (let m' = set_open False m in if restoreFocus then m'\<lparr>lm_focus := On_button\<rparr> else m')"

definition item_index :: "login_menu \<Rightarrow> int" where
  "item_index m = (case lm_focus m of On_item i \<Rightarrow> int i | _ \<Rightarrow> - 1)"

datatype menu_key = Escape | ArrowDown | ArrowUp | Home | End | Tab | Other_key

text \<open>\<open>%\<close> of JavaScript takes the sign of its left operand, which is not negative here.\<close>

definition focus_item :: "int \<Rightarrow> login_menu \<Rightarrow> login_menu" where
  "focus_item i m = (if 0 \<le> i \<and> i < int (length loginOptions) then m\<lparr>lm_focus := On_item (nat i)\<rparr> else m)"

definition onMenuKeyDown :: "menu_key \<Rightarrow> login_menu \<Rightarrow> login_menu" where
  "onMenuKeyDown key m =
    (let n = int (length loginOptions); index = item_index m in
     case key of
       Escape \<Rightarrow> close_menu True m
     | ArrowDown \<Rightarrow> focus_item ((index + 1 + n) mod n) m
     | ArrowUp \<Rightarrow> focus_item ((index + - 1 + n) mod n) m
     | Home \<Rightarrow> focus_item 0 m
     | End \<Rightarrow> focus_item (n - 1) m
     | Tab \<Rightarrow> close_menu False m
     | Other_key \<Rightarrow> m)"

text \<open>
  A click on the button focuses it first; a key reaches the menu while one of its items has the focus,
  and the button while it has it; a pointer goes down, and the focus with it, outside.
\<close>

datatype menu_event = Button_clicked | Button_key menu_key | Menu_key menu_key | Item_chosen nat | Pointer_outside | Focus_button

fun menu_step :: "menu_event \<Rightarrow> login_menu \<Rightarrow> login_menu" where
  "menu_step Button_clicked m = set_open (\<not> lm_open m) (m\<lparr>lm_focus := On_button\<rparr>)"
| "menu_step Focus_button m = m\<lparr>lm_focus := On_button\<rparr>"
| "menu_step (Button_key key) m =
    (if lm_focus m = On_button \<and> key = ArrowDown then set_open True m else m)"
| "menu_step (Menu_key key) m =
    (case lm_focus m of On_item i \<Rightarrow> if lm_open m then onMenuKeyDown key m else m | _ \<Rightarrow> m)"
| "menu_step (Item_chosen i) m = (if lm_open m \<and> i < length loginOptions then set_open False (m\<lparr>lm_focus := On_item i\<rparr>) else m)"
| "menu_step Pointer_outside m = (set_open False m)\<lparr>lm_focus := Outside\<rparr>"

text \<open>The focus is on an item only of the open menu, and only on one that exists.\<close>

definition menu_ok :: "login_menu \<Rightarrow> bool" where
  "menu_ok m \<longleftrightarrow> (case lm_focus m of On_item i \<Rightarrow> lm_open m \<and> i < length loginOptions | _ \<Rightarrow> True)"

lemma menu_size: "length loginOptions = 2"
  by (simp add: loginOptions_def)

lemma menu_step_ok: "menu_ok m \<Longrightarrow> menu_ok (menu_step ev m)"
  by (cases ev)
    (auto simp: menu_ok_def set_open_def close_menu_def onMenuKeyDown_def focus_item_def Let_def menu_size
      split: menu_focus.splits menu_key.splits)

lemma menu_run_ok: "menu_ok m \<Longrightarrow> menu_ok (fold menu_step evs m)"
  by (induction evs arbitrary: m) (simp_all add: menu_step_ok)

lemma arrows: "lm_focus m = On_item i \<Longrightarrow> i < length loginOptions \<Longrightarrow>
    onMenuKeyDown ArrowDown m = m\<lparr>lm_focus := On_item ((i + 1) mod length loginOptions)\<rparr> \<and>
    onMenuKeyDown ArrowUp m = m\<lparr>lm_focus := On_item ((i + length loginOptions - 1) mod length loginOptions)\<rparr>"
  by (cases "i = 0") (auto simp: onMenuKeyDown_def item_index_def focus_item_def Let_def menu_size less_2_cases_iff)

text \<open>
  The keyboard never leaves the menu by accident.  However the menu is used, the focus is on an item
  only while the menu is open and only on an item there is; there the arrow keys go round - each undoes
  the other, and as many steps as there are items lead back - Home and End go to the first and last
  item, and Escape closes the menu and gives the focus back to the button.
\<close>

theorem menu_focus_goes_round:
  assumes "lm_focus (fold menu_step evs closed_menu) = On_item i"
  defines "m \<equiv> fold menu_step evs closed_menu" and "n \<equiv> length loginOptions"
  shows "lm_open m \<and> i < n \<and>
    menu_step (Menu_key ArrowUp) (menu_step (Menu_key ArrowDown) m) = m \<and>
    menu_step (Menu_key ArrowDown) (menu_step (Menu_key ArrowUp) m) = m \<and>
    (menu_step (Menu_key ArrowDown) ^^ n) m = m \<and>
    lm_focus (menu_step (Menu_key Home) m) = On_item 0 \<and>
    lm_focus (menu_step (Menu_key End) m) = On_item (n - 1) \<and>
    menu_step (Menu_key Escape) m = \<lparr>lm_open = False, lm_focus = On_button\<rparr>"
proof -
  have "menu_ok closed_menu" by (simp add: menu_ok_def closed_menu_def)
  then have "menu_ok m" unfolding m_def by (rule menu_run_ok)
  with assms(1) have m: "lm_open m" "i < 2" "lm_focus m = On_item i" "m = \<lparr>lm_open = True, lm_focus = On_item i\<rparr>"
    by (cases m; auto simp: menu_ok_def menu_size m_def [symmetric])+
  then have "i = 0 \<or> i = 1" by auto
  then show ?thesis
    by (elim disjE; subst m(4); subst m(4))
      (auto simp: m n_def menu_size numeral_2_eq_2 onMenuKeyDown_def item_index_def focus_item_def close_menu_def set_open_def Let_def)
qed

section \<open>auth/fields.tsx\<close>

text \<open>An empty hint or error is falsy: the field is not described by it.\<close>

definition described_by :: "string \<Rightarrow> string option \<Rightarrow> string option \<Rightarrow> string option" where
  "described_by fid hint err =
    (let ids = filter (\<lambda>s. s \<noteq> [])
           [case hint of Some (c # cs) \<Rightarrow> fid @ ''-hint'' | _ \<Rightarrow> [],
            case err of Some (c # cs) \<Rightarrow> fid @ ''-error'' | _ \<Rightarrow> []]
     in if ids = [] then None else Some (join '' '' ids))"

text \<open>The note under the field: an error hides the hint.\<close>

datatype field_note = No_note | Hint_note string | Error_note string

definition field_note :: "string option \<Rightarrow> string option \<Rightarrow> field_note" where
  "field_note hint err =
    (case err of
       Some (c # cs) \<Rightarrow> Error_note (c # cs)
     | _ \<Rightarrow> (case hint of Some (d # ds) \<Rightarrow> Hint_note (d # ds) | _ \<Rightarrow> No_note))"

text \<open>A field with a hint and an error is described by the id of a note that is not there.\<close>

lemma error_leaves_a_dangling_hint:
  "described_by ''f'' (Some ''8 characters or more'') (Some ''Too short'') = Some ''f-hint f-error'' \<and>
   field_note (Some ''8 characters or more'') (Some ''Too short'') = Error_note ''Too short''"
  by (simp add: described_by_def field_note_def)

definition submit_disabled :: "bool \<Rightarrow> bool \<Rightarrow> bool" where
  "submit_disabled busy disabled \<longleftrightarrow> busy \<or> disabled"

definition secret_type :: "bool \<Rightarrow> string" where
  "secret_type visible = (if visible then ''text'' else ''password'')"

datatype alert_tone = Error_tone | Success_tone | Info_tone

definition alert_role :: "alert_tone \<Rightarrow> string" where
  "alert_role tone = (if tone = Error_tone then ''alert'' else ''status'')"

end
