(* ===== verification/Web_Markup.thy ===== *)
theory Web_Markup
  imports Web_Console Web_Widgets
begin

text \<open>
  What a component returns: a tree of elements with their attributes, event listeners and children, and
  what a browser lets a visitor do with it.  Then the components of web/src/components/ui.tsx and
  web/src/components/auth/fields.tsx.  Class names, and with them the variants of a button, are styling
  and left out, as is the artwork of the icons.
\<close>

section \<open>Trees\<close>

text \<open>
  What a listener does: deliver an event of the page, or act on the component alone - copy a text to the
  clipboard, show or mask a secret.  A key listener is told which key went down.
\<close>

datatype own_action = Copies string | Toggles_visible

datatype 'h listener = On_click 'h | On_change "string \<Rightarrow> 'h" | On_submit 'h | On_key "string \<Rightarrow> 'h list" | On_own own_action

text \<open>\<open>Crash\<close> stands for a child whose rendering throws; nothing of the tree is shown then.\<close>

type_synonym attributes = "(string \<times> string) list"

datatype 'h node =
    Txt string
  | Crash
  | El string attributes "'h listener list" "'h node list"

abbreviation only_if :: "bool \<Rightarrow> 'a list \<Rightarrow> 'a list" where
  "only_if b ms \<equiv> (if b then ms else [])"

abbreviation para :: "'h node list \<Rightarrow> 'h node" where
  "para ms \<equiv> El ''p'' [] [] ms"

abbreviation span :: "'h node list \<Rightarrow> 'h node" where
  "span ms \<equiv> El ''span'' [] [] ms"

abbreviation block :: "'h node list \<Rightarrow> 'h node" where
  "block ms \<equiv> El ''div'' [] [] ms"

definition flag :: "string \<Rightarrow> bool \<Rightarrow> attributes" where
  "flag name b = (if b then [(name, [])] else [])"

definition bool_text :: "bool \<Rightarrow> string" where
  "bool_text b = (if b then ''true'' else ''false'')"

text \<open>A value that is rendered when it is truthy.\<close>

definition given :: "string option \<Rightarrow> string list" where
  "given v = (case v of Some (c # cs) \<Rightarrow> [c # cs] | _ \<Rightarrow> [])"

definition ellipsis :: string where
  "ellipsis = utf8 [0x2026]"

definition dash :: string where
  "dash = utf8 [0x2014]"

definition middot :: string where
  "middot = utf8 [0xB7]"

definition apostrophe :: string where
  "apostrophe = utf8 [0x2019]"

definition larrow :: string where
  "larrow = utf8 [0x2190]"

definition rarrow :: string where
  "rarrow = utf8 [0x2192]"

definition icon :: "'h node" where
  "icon = El ''svg'' [(''aria-hidden'', ''true'')] [] []"

definition link_to :: "string \<Rightarrow> 'h node list \<Rightarrow> 'h node" where
  "link_to href ms = El ''a'' [(''href'', href)] [] ms"

section \<open>What a visitor can do\<close>

text \<open>
  A control that is not disabled passes clicks and input on; a select offers its options.  A submit
  button - a button whose type is not given is one - submits the form around it.  A form without a
  submit button is submitted by Enter in its only field; with one, Enter is a click on it.
\<close>

datatype 'h action = Do 'h | Pick "string list" "string \<Rightarrow> 'h" | Enter_text "string \<Rightarrow> 'h" | Press "string \<Rightarrow> 'h list"

primrec may_cause :: "'h action \<Rightarrow> 'h \<Rightarrow> bool" where
  "may_cause (Do e) h \<longleftrightarrow> h = e"
| "may_cause (Pick vs f) h \<longleftrightarrow> h \<in> f ` set vs"
| "may_cause (Enter_text f) h \<longleftrightarrow> (\<exists>v. h = f v)"
| "may_cause (Press f) h \<longleftrightarrow> (\<exists>k. h \<in> set (f k))"

definition disabled :: "attributes \<Rightarrow> bool" where
  "disabled as \<longleftrightarrow> map_of as ''disabled'' \<noteq> None"

definition is_submit :: "string \<Rightarrow> attributes \<Rightarrow> bool" where
  "is_submit t as \<longleftrightarrow> t = ''button'' \<and> (case map_of as ''type'' of None \<Rightarrow> True | Some ty \<Rightarrow> ty = ''submit'')"

fun collect :: "(string \<Rightarrow> attributes \<Rightarrow> 'a list) \<Rightarrow> 'h node \<Rightarrow> 'a list" where
  "collect f (El t as ls ks) = f t as @ concat (map (collect f) ks)"
| "collect f _ = []"

definition options_of :: "'h node list \<Rightarrow> string list" where
  "options_of ks = concat (map (collect (\<lambda>t as.
     if t = ''option'' then (case map_of as ''value'' of None \<Rightarrow> [] | Some v \<Rightarrow> [v]) else [])) ks)"

fun own_actions :: "string \<Rightarrow> 'h node list \<Rightarrow> 'h listener \<Rightarrow> 'h action list" where
  "own_actions t ks (On_click h) = [Do h]"
| "own_actions t ks (On_change f) = (if t = ''select'' then [Pick (options_of ks) f] else [Enter_text f])"
| "own_actions t ks (On_key f) = [Press f]"
| "own_actions t ks _ = []"

fun submits :: "'h listener \<Rightarrow> 'h list" where
  "submits (On_submit h) = [h]"
| "submits _ = []"

definition submit_buttons :: "'h node list \<Rightarrow> bool list" where
  "submit_buttons ks = concat (map (collect (\<lambda>t as. if is_submit t as then [disabled as] else [])) ks)"

definition text_fields :: "'h node list \<Rightarrow> bool list" where
  "text_fields ks = concat (map (collect (\<lambda>t as. if t = ''input'' then [disabled as] else [])) ks)"

definition submits_by_enter :: "'h node list \<Rightarrow> bool" where
  "submits_by_enter ks \<longleftrightarrow> submit_buttons ks = [] \<and> text_fields ks = [False]"

fun actions :: "'h list \<Rightarrow> 'h node \<Rightarrow> 'h action list" where
  "actions form (El t as ls ks) =
    only_if (\<not> disabled as) (concat (map (own_actions t ks) ls) @ only_if (is_submit t as) (map Do form)) @
    (let form' = if t = ''form'' then concat (map submits ls) else form in
     only_if (t = ''form'' \<and> submits_by_enter ks) (map Do form') @ concat (map (actions form') ks))"
| "actions form _ = []"

definition offered_in :: "'h list \<Rightarrow> 'h node list \<Rightarrow> 'h \<Rightarrow> bool" where
  "offered_in form ms h \<longleftrightarrow> (\<exists>m\<in>set ms. \<exists>a\<in>set (actions form m). may_cause a h)"

abbreviation offered :: "'h node list \<Rightarrow> 'h \<Rightarrow> bool" where
  "offered \<equiv> offered_in []"

lemma offered_simps [simp]:
  "\<not> offered_in form [] h"
  "offered_in form (Txt s # ms) h \<longleftrightarrow> offered_in form ms h"
  "offered_in form (Crash # ms) h \<longleftrightarrow> offered_in form ms h"
  by (simp_all add: offered_in_def)

lemma offered_append [simp]: "offered_in form (ms @ ns) h \<longleftrightarrow> offered_in form ms h \<or> offered_in form ns h"
  by (auto simp: offered_in_def)

lemma Do_causes [simp]: "(\<exists>a\<in>Do ` S. may_cause a h) \<longleftrightarrow> h \<in> S"
  by auto

lemma only_if_causes: "(\<exists>a\<in>set (only_if b ms). may_cause a h) \<longleftrightarrow> b \<and> (\<exists>a\<in>set ms. may_cause a h)"
  by (cases b) simp_all

lemma offered_El [simp]:
  "offered_in form (El t as ls ks # ms) h \<longleftrightarrow>
    (\<not> disabled as \<and> ((\<exists>l\<in>set ls. \<exists>a\<in>set (own_actions t ks l). may_cause a h) \<or> is_submit t as \<and> h \<in> set form)) \<or>
    t = ''form'' \<and> submits_by_enter ks \<and> h \<in> set (concat (map submits ls)) \<or>
    offered_in (if t = ''form'' then concat (map submits ls) else form) ks h \<or> offered_in form ms h"
  unfolding offered_in_def actions.simps Let_def list.set bex_simps set_append bex_Un only_if_causes
  by (simp add: bex_Un)

lemma offered_map: "offered_in form (map f xs) h \<longleftrightarrow> (\<exists>x\<in>set xs. offered_in form [f x] h)"
  by (auto simp: offered_in_def)

lemma offered_member: "m \<in> set ms \<Longrightarrow> offered_in form [m] h \<Longrightarrow> offered_in form ms h"
  by (auto simp: offered_in_def)

lemma offered_concat: "offered_in form (concat mss) h \<longleftrightarrow> (\<exists>ms\<in>set mss. offered_in form ms h)"
  by (auto simp: offered_in_def)

section \<open>What a tree refers to\<close>

text \<open>The links of a tree, its ids, and whether it renders at all.\<close>

definition hrefs :: "'h node \<Rightarrow> string list" where
  "hrefs = collect (\<lambda>t as. if t = ''a'' then (case map_of as ''href'' of None \<Rightarrow> [] | Some v \<Rightarrow> [v]) else [])"

definition ids :: "'h node \<Rightarrow> string list" where
  "ids = collect (\<lambda>t as. case map_of as ''id'' of None \<Rightarrow> [] | Some v \<Rightarrow> [v])"

fun renders :: "'h node \<Rightarrow> bool" where
  "renders (El t as ls ks) \<longleftrightarrow> list_all renders ks"
| "renders Crash \<longleftrightarrow> False"
| "renders (Txt s) \<longleftrightarrow> True"

text \<open>The text a tree shows, and what its fields hold.\<close>

fun shown :: "'h node \<Rightarrow> string" where
  "shown (El t as ls ks) = concat (map shown ks)"
| "shown (Txt s) = s"
| "shown Crash = []"

section \<open>ui.tsx\<close>

definition Card :: "'h node list \<Rightarrow> 'h node list \<Rightarrow> 'h node list \<Rightarrow> 'h node" where
  "Card title acts children =
    El ''section'' [] []
      (only_if (title \<noteq> [] \<or> acts \<noteq> [])
         [El ''header'' [] [] (only_if (title \<noteq> []) [El ''h2'' [] [] title] @ acts)] @
       children)"

definition Button :: "attributes \<Rightarrow> 'h listener list \<Rightarrow> string \<Rightarrow> 'h node" where
  "Button props ls label = El ''button'' props ls [Txt label]"

definition Field :: "string \<Rightarrow> string option \<Rightarrow> attributes \<Rightarrow> 'h listener list \<Rightarrow> 'h node" where
  "Field label hint props ls =
    El ''label'' [] [] ([span [Txt label], El ''input'' props ls []] @ map (\<lambda>s. span [Txt s]) (given hint))"

definition Select :: "string \<Rightarrow> attributes \<Rightarrow> 'h listener list \<Rightarrow> 'h node list \<Rightarrow> 'h node" where
  "Select label props ls children = El ''label'' [] [] [span [Txt label], El ''select'' props ls children]"

definition option_node :: "string \<Rightarrow> string \<Rightarrow> 'h node" where
  "option_node value label = El ''option'' [(''value'', value)] [] [Txt label]"

definition ErrorBanner :: "web_error option \<Rightarrow> 'h node list" where
  "ErrorBanner err =
    (case err of
       None \<Rightarrow> []
     | Some e \<Rightarrow>
         (let b = render_error e in
          [block
            ((case bn_code b of None \<Rightarrow> [] | Some c \<Rightarrow> [span [Txt c]]) @ [Txt (bn_message b)] @
             (case bn_request b of None \<Rightarrow> [] | Some r \<Rightarrow> [span [Txt (''request '' @ r)]]))]))"

definition Money :: "string \<Rightarrow> string \<Rightarrow> 'h node" where
  "Money amountMinor currency =
    (case formatMinor amountMinor currency of None \<Rightarrow> Crash | Some t \<Rightarrow> span [Txt t])"

definition CopyText :: "bool \<Rightarrow> bool \<Rightarrow> string \<Rightarrow> 'h node" where
  "CopyText copied short value =
    El ''button'' [(''type'', ''button''), (''title'', value)] [On_own (Copies value)] [Txt (copy_label copied short value)]"

definition StatusPill :: "string \<Rightarrow> 'h node" where
  "StatusPill status = span [Txt status]"

section \<open>auth/fields.tsx\<close>

text \<open>\<open>uid\<close> is what \<open>useId\<close> gave the field.\<close>

definition TextField ::
    "string \<Rightarrow> string \<Rightarrow> string option \<Rightarrow> string option \<Rightarrow> 'h node list \<Rightarrow> attributes \<Rightarrow> 'h listener list \<Rightarrow> 'h node" where
  "TextField uid label hint err trailing props ls =
    block
      ([El ''label'' [(''for'', uid)] [] [Txt label],
        block
          (El ''input''
             ([(''id'', uid)] @ map (\<lambda>_. (''aria-invalid'', ''true'')) (given err) @
              (case described_by uid hint err of None \<Rightarrow> [] | Some v \<Rightarrow> [(''aria-describedby'', v)]) @ props)
             ls [] #
           only_if (trailing \<noteq> []) [block trailing])] @
       (case field_note hint err of
          No_note \<Rightarrow> []
        | Hint_note s \<Rightarrow> [El ''p'' [(''id'', uid @ ''-hint'')] [] [Txt s]]
        | Error_note s \<Rightarrow> [El ''p'' [(''id'', uid @ ''-error'')] [] [Txt s]]))"

definition SecretField ::
    "string \<Rightarrow> bool \<Rightarrow> string \<Rightarrow> string option \<Rightarrow> string option \<Rightarrow> attributes \<Rightarrow> 'h listener list \<Rightarrow> 'h node" where
  "SecretField uid visible label hint err props ls =
    TextField uid label hint err
      [El ''button''
         [(''type'', ''button''), (''aria-label'', (if visible then ''Hide '' else ''Show '') @ map lower_char label),
          (''aria-pressed'', bool_text visible)]
         [On_own Toggles_visible] [icon]]
      (props @ [(''type'', secret_type visible), (''spellcheck'', ''false''), (''autocapitalize'', ''off'')]) ls"

definition SubmitButton :: "bool \<Rightarrow> string \<Rightarrow> bool \<Rightarrow> string \<Rightarrow> 'h node" where
  "SubmitButton busy busyLabel disabled_prop label =
    El ''button''
      ([(''type'', ''submit'')] @ flag ''disabled'' (submit_disabled busy disabled_prop) @ [(''aria-busy'', bool_text busy)]) []
      (only_if busy [El ''span'' [(''aria-hidden'', ''true'')] [] []] @ [Txt (if busy then busyLabel else label)])"

definition Alert :: "alert_tone \<Rightarrow> 'h node list \<Rightarrow> 'h node" where
  "Alert t children = El ''div'' [(''role'', alert_role t)] [] children"

end
