(* ===== verification/Web_Console_Views.thy ===== *)
theory Web_Console_Views
  imports Web_Markup
begin

text \<open>
  What the console's pages return: Dashboard.tsx, AccountDetail.tsx with SendMoney and History, the
  five cards of Admin.tsx, VerifyEmail.tsx and the frame of Layout.tsx.  \<open>fmt\<close> is \<open>formatTime\<close>, which depends on the
  browser's locale, and \<open>cp\<close> says of which texts the copy is still announced.  A JSON value is read
  through its interface: a member that is no text makes the component crash, where the code would read
  a property of undefined.
\<close>

definition with_text :: "json \<Rightarrow> string \<Rightarrow> (string \<Rightarrow> 'h node) \<Rightarrow> 'h node" where
  "with_text v k f = (case json_field v k of Some (JString s) \<Rightarrow> f s | _ \<Rightarrow> Crash)"

section \<open>Dashboard.tsx\<close>

datatype dashboard_handler = On_dashboard dashboard_event | Customer_signs_out

definition currencies :: "string list" where
  "currencies = [''INR'', ''USD'']"

definition account_card :: "(string \<Rightarrow> string) \<Rightarrow> web_account \<Rightarrow> 'h node" where
  "account_card fmt a =
    link_to (''/app/accounts/'' @ wa_id a)
      [block [span [Txt (wa_currency a)], StatusPill (wa_status a)],
       Money (wa_balanceMinor a) (wa_currency a),
       block [span [Txt (take 8 (wa_id a) @ ellipsis)], span [Txt (''opened '' @ fmt (wa_createdAt a))]]]"

definition open_account_card :: "dashboard \<Rightarrow> dashboard_handler node" where
  "open_account_card st =
    Card [Txt ''Open a new account''] []
      [block
         [Select ''Currency'' [(''value'', da_currency st)] [On_change (\<lambda>c. On_dashboard (Choose_currency c))]
            (map (\<lambda>c. option_node c c) currencies),
          Button (flag ''disabled'' (da_creating st)) [On_click (On_dashboard Open_account_clicked)]
            (if da_creating st then ''Opening'' @ ellipsis else ''Open account'')],
       para [Txt (''New accounts start at zero. Money only enters through a journaled treasury funding (Admin '' @ rarrow @ '' Fund).'')],
       block (ErrorBanner (da_createError st))]"

definition Dashboard_view ::
    "(string \<Rightarrow> string) \<Rightarrow> (string \<Rightarrow> bool) \<Rightarrow> string option \<Rightarrow> dashboard \<Rightarrow> dashboard_handler node" where
  "Dashboard_view fmt cp who st =
    block
      ([block
          [block
             [El ''h1'' [] [] [Txt ''Your accounts''],
              para (concat (map (\<lambda>w. [Txt ''Signed in as '', span [Txt w], Txt ('' '' @ middot @ '' '')]) (given who)) @
                [Txt ''Balances are read straight from the ledger.''])],
           Button [] [On_click Customer_signs_out] ''Sign out'']] @
       ErrorBanner (as_error (da_accounts st)) @
       [case account_list st of
          List_loading \<Rightarrow> para [Txt (''Loading'' @ ellipsis)]
        | List_empty \<Rightarrow> Card [] [] [para [Txt ''No accounts yet. Open one below to get started.'']]
        | List_of l \<Rightarrow> block (map (account_card fmt) l),
        open_account_card st] @
       only_if (shown_accounts st \<noteq> [])
         [Card [Txt ''Account IDs''] []
           [para [Txt ''Share an ID with someone so they can pay you.''],
            El ''ul'' [] []
              (map (\<lambda>a. El ''li'' [] [] [span [Txt (wa_currency a)], CopyText (cp (wa_id a)) False (wa_id a)])
                (shown_accounts st))]])"

section \<open>SendMoney\<close>

text \<open>A handler waits for the \<open>crypto.randomUUID()\<close> it draws.\<close>

definition mode_buttons :: "send_form \<Rightarrow> (string \<Rightarrow> send_event) node" where
  "mode_buttons st =
    block
      (map (\<lambda>(mode, label). El ''button'' [(''type'', ''button'')] [On_click (Choose_mode mode)] [Txt label])
        [(Own_account, ''My account''), (Other_account, ''Someone else'')])"

definition destination_chooser :: "send_form \<Rightarrow> (string \<Rightarrow> send_event) node" where
  "destination_chooser st =
    (case sm_mode st of
       Own_account \<Rightarrow>
         if candidates st = [] then
           para [Txt (''You have no other '' @ wa_currency (sm_source st) @ '' account. Open one on the Accounts page.'')]
         else
           Select ''To'' [(''value'', sm_destination st)] [On_change Type_destination]
             (map (\<lambda>a. option_node (wa_id a) (take 8 (wa_id a) @ ellipsis @ '' '' @ dash @ '' '' @ wa_currency a)) (candidates st))
     | Other_account \<Rightarrow>
         Field ''Destination account ID'' None
           [(''placeholder'', ''00000000-0000-4000-8000-000000000000''), (''value'', sm_destination st),
            (''spellcheck'', ''false'')]
           [On_change Type_destination])"

definition send_button :: "send_form \<Rightarrow> (string \<Rightarrow> send_event) node" where
  "send_button st =
    (case sv_button (render_send st) of
       Retry_button busy label \<Rightarrow>
         Button ((''type'', ''button'') # flag ''disabled'' busy) [On_click (\<lambda>key. Submit_transfer)] label
     | Send_button busy label \<Rightarrow> Button ((''type'', ''submit'') # flag ''disabled'' busy) [] label)"

definition receipt_node :: "(string \<Rightarrow> string) \<Rightarrow> (string \<Rightarrow> bool) \<Rightarrow> json \<Rightarrow> 'h node" where
  "receipt_node fmt cp transfer =
    block
      [block [Txt ''Sent '',
         with_text transfer ''amountMinor'' (\<lambda>m. with_text transfer ''currency'' (\<lambda>c. Money m c))],
       block [Txt ''transfer '', with_text transfer ''id'' (\<lambda>i. CopyText (cp i) True i), Txt ('' '' @ middot @ '' ''),
         with_text transfer ''createdAt'' (\<lambda>t. Txt (fmt t))]]"

definition SendMoney :: "(string \<Rightarrow> string) \<Rightarrow> (string \<Rightarrow> bool) \<Rightarrow> send_form \<Rightarrow> (string \<Rightarrow> send_event) node" where
  "SendMoney fmt cp st =
    Card [Txt ''Send money''] []
      (El ''form'' [] [On_submit (\<lambda>key. Submit_transfer)]
         ([mode_buttons st, destination_chooser st,
           Field (''Amount ('' @ wa_currency (sm_source st) @ '')'') (sv_hint (render_send st))
             [(''inputmode'', ''decimal''), (''placeholder'', ''0.00''), (''value'', sm_amount st)] [On_change Type_amount]] @
          ErrorBanner (sm_error st) @
          [send_button st,
           para [Txt ''Idempotency key: '', span [Txt (sv_key (render_send st) @ ellipsis)],
             Txt ('' '' @ dash @ '' retrying this exact request can never post it twice.'')]]) #
       (case sm_receipt st of None \<Rightarrow> [] | Some (transfer, key) \<Rightarrow> [receipt_node fmt cp transfer]))"

section \<open>History\<close>

definition entry_row_node :: "(string \<Rightarrow> string) \<Rightarrow> (string \<Rightarrow> bool) \<Rightarrow> string \<Rightarrow> json \<Rightarrow> 'h node" where
  "entry_row_node fmt cp currency entry =
    with_text entry ''direction'' (\<lambda>direction.
      El ''tr'' [] []
        [El ''td'' [] [] [with_text entry ''createdAt'' (\<lambda>t. Txt (fmt t))],
         El ''td'' [] [] [with_text entry ''transactionId'' (\<lambda>i. CopyText (cp i) True i), span [Txt direction]],
         El ''td'' [] []
           [Txt (if direction = ''debit'' then ''+'' else utf8 [0x2212]),
            with_text entry ''amountMinor'' (\<lambda>m. Money m currency)]])"

definition History_view :: "(string \<Rightarrow> string) \<Rightarrow> (string \<Rightarrow> bool) \<Rightarrow> string \<Rightarrow> history \<Rightarrow> history_event node" where
  "History_view fmt cp currency st =
    Card [Txt ''Ledger history''] []
      (ErrorBanner (hi_error st) @
       [if hi_entries st = [] \<and> \<not> hi_loading st then para [Txt ''No entries yet.'']
        else
          El ''table'' [] []
            [El ''thead'' [] [] [El ''tr'' [] [] (map (\<lambda>h. El ''th'' [] [] [Txt h]) [''When'', ''Transaction'', ''Amount''])],
             El ''tbody'' [] [] (map (entry_row_node fmt cp currency) (hi_entries st))]] @
       only_if (hi_loading st) [para [Txt (''Loading'' @ ellipsis)]] @
       only_if (given (hi_cursor st) \<noteq> [] \<and> \<not> hi_loading st) [Button [] [On_click Load_more] ''Load more entries''])"

section \<open>AccountDetail\<close>

datatype account_handler = On_send "string \<Rightarrow> send_event" | On_history history_event | Reload_account

definition BackLink :: "'h node" where
  "BackLink = link_to ''/app'' [Txt (larrow @ '' All accounts'')]"

definition account_header :: "(string \<Rightarrow> bool) \<Rightarrow> web_account \<Rightarrow> account_handler node" where
  "account_header cp current =
    block
      [block
         [block [Txt (wa_currency current @ '' account ''), StatusPill (wa_status current)],
          Money (wa_balanceMinor current) (wa_currency current),
          block [CopyText (cp (wa_id current)) False (wa_id current)]],
       Button [] [On_click Reload_account] ''Refresh'']"

definition AccountDetail_view ::
    "(string \<Rightarrow> string) \<Rightarrow> (string \<Rightarrow> bool) \<Rightarrow> account_page \<Rightarrow> send_form \<Rightarrow> history \<Rightarrow> account_handler node" where
  "AccountDetail_view fmt cp st sending hist =
    (case account_page_view st of
       Page_error e \<Rightarrow> block (BackLink # ErrorBanner (Some e))
     | Page_loading \<Rightarrow> para [Txt (''Loading'' @ ellipsis)]
     | Page_detail current own version \<Rightarrow>
         block
           [BackLink, account_header cp current,
            block
              [block [map_node On_send (SendMoney fmt cp sending)],
               block [map_node On_history (History_view fmt cp (wa_currency current) hist)]]])"

section \<open>Admin.tsx\<close>

datatype onboard_handler = On_onboard onboard_event | Open_app web_key

definition issued_item :: "(string \<Rightarrow> bool) \<Rightarrow> web_principal \<times> web_key \<Rightarrow> onboard_handler node" where
  "issued_item cp = (\<lambda>(who, key).
    El ''li'' [] []
      [block [span [Txt (wp_name who)], span [Txt ''key id '', CopyText (cp (wk_id key)) True (wk_id key)]],
       block [CopyText (cp (wk_key key)) False (wk_key key)],
       para [Txt (''Shown once '' @ dash @ '' only its hash is stored. Copy it now or lose it.'')],
       block
         [Button [] [On_click (Open_app key)] (''Open customer app as '' @ wp_name who),
          Button [] [On_click (On_onboard (Issue_another who))] ''Issue another key'']])"

definition Onboard_view :: "(string \<Rightarrow> bool) \<Rightarrow> onboard \<Rightarrow> onboard_handler node" where
  "Onboard_view cp st =
    Card [Txt ''Onboard a customer''] []
      ([El ''form'' [] [On_submit (On_onboard Submit_onboard)]
          [block
             [Field ''Customer name'' None [(''value'', on_name st), (''maxlength'', ''128''), (''required'', [])]
                [On_change (\<lambda>v. On_onboard (Type_name v))]],
           Button ((''type'', ''submit'') # flag ''disabled'' (onboard_disabled st)) []
             (if on_busy st then ''Creating'' @ ellipsis else ''Create + issue key'')],
        block (ErrorBanner (on_error st))] @
       only_if (on_issued st \<noteq> []) [El ''ul'' [] [] (map (issued_item cp) (on_issued st))])"

definition Fund_view :: "(string \<Rightarrow> bool) \<Rightarrow> fund_form \<Rightarrow> (string \<Rightarrow> fund_event) node" where
  "Fund_view cp st =
    Card [Txt ''Fund an account''] []
      (El ''form'' [] [On_submit (\<lambda>key. Submit_funding)]
         ([Field ''Account ID'' None [(''value'', ff_account st), (''spellcheck'', ''false''), (''required'', [])]
             [On_change Type_account],
           Field ''Amount (major units)'' (Some (render_fund_hint st))
             [(''inputmode'', ''decimal''), (''placeholder'', ''2500.00''), (''value'', ff_amount st)] [On_change Type_fund_amount]] @
          ErrorBanner (ff_error st) @
          [Button ((''type'', ''submit'') # flag ''disabled'' (fund_button_disabled st)) []
             (if ff_busy st then ''Funding'' @ ellipsis else ''Fund'')]) #
       (case ff_result st of
          None \<Rightarrow> []
        | Some result \<Rightarrow>
            [para [Txt ''Funded '',
               with_text result ''amountMinor'' (\<lambda>m. with_text result ''currency'' (\<lambda>c. Money m c)),
               Txt ('' '' @ middot @ '' transaction ''), with_text result ''id'' (\<lambda>i. CopyText (cp i) True i)]]))"

text \<open>A child that is undefined, null or a boolean is rendered as nothing, an object not at all.\<close>

fun jsx_text :: "json \<Rightarrow> string option" where
  "jsx_text (JString s) = Some s"
| "jsx_text (JNumber n) = Some n"
| "jsx_text (JBool b) = Some []"
| "jsx_text JNull = Some []"
| "jsx_text (JArray vs) = map_option concat (those (map jsx_text vs))"
| "jsx_text (JObject kvs) = None"

definition jsx_child :: "json option \<Rightarrow> 'h node" where
  "jsx_child v =
    (case v of None \<Rightarrow> Txt [] | Some j \<Rightarrow> (case jsx_text j of None \<Rightarrow> Crash | Some t \<Rightarrow> Txt t))"

definition or_dash :: "json option \<Rightarrow> json option" where
  "or_dash v = (case v of None \<Rightarrow> Some (JString dash) | Some JNull \<Rightarrow> Some (JString dash) | _ \<Rightarrow> v)"

definition issue_node :: "(string \<Rightarrow> bool) \<Rightarrow> json \<Rightarrow> 'h node" where
  "issue_node cp issue =
    block
      [span [jsx_child (json_field issue ''type'')], Txt '' '',
       with_text issue ''accountId'' (\<lambda>i. CopyText (cp i) True i),
       Txt '' cached '', jsx_child (or_dash (json_field issue ''cachedBalanceMinor'')), Txt '' vs computed '',
       jsx_child (or_dash (json_field issue ''computedBalanceMinor'')), Txt '' '', jsx_child (json_field issue ''currency'')]"

definition report_nodes :: "(string \<Rightarrow> string) \<Rightarrow> (string \<Rightarrow> bool) \<Rightarrow> json \<Rightarrow> 'h node list" where
  "report_nodes fmt cp report =
    block
      [StatusPill (if json_field report ''ok'' = Some (JBool True) then ''ready'' else ''drift''),
       jsx_child (json_field report ''accountsChecked''), Txt ('' accounts checked '' @ middot @ '' ''),
       with_text report ''generatedAt'' (\<lambda>t. Txt (fmt t))] #
    (case json_field report ''issues'' of Some (JArray issues) \<Rightarrow> map (issue_node cp) issues | _ \<Rightarrow> [Crash])"

definition Reconcile_view ::
    "(string \<Rightarrow> string) \<Rightarrow> (string \<Rightarrow> bool) \<Rightarrow> json panel \<Rightarrow> json panel_event node" where
  "Reconcile_view fmt cp st =
    Card [Txt ''Reconciliation'']
      [Button (flag ''disabled'' (pn_busy st)) [On_click Panel_run] (if pn_busy st then ''Checking'' @ ellipsis else ''Run'')]
      ([para [Txt (''Recomputes every balance from the immutable journal and compares it with the cached value. '' @
          ''Read-only: it reports drift, never repairs it.'')],
        block (ErrorBanner (pn_error st))] @
       (case pn_result st of None \<Rightarrow> [] | Some report \<Rightarrow> [block (report_nodes fmt cp report)]))"

text \<open>The counters of \<open>api.metrics\<close> - completed, retries, exhausted - and the readiness beside them.\<close>

datatype metrics_handler = Refresh_metrics

definition stat_node :: "string \<Rightarrow> nat option \<Rightarrow> bool \<Rightarrow> 'h node" where
  "stat_node label value warn = block [block [Txt label], block [Txt (fst (stat value warn))]]"

definition Metrics_view :: "(nat \<times> nat \<times> nat) async \<Rightarrow> readiness async \<Rightarrow> metrics_handler node" where
  "Metrics_view metrics ready =
    (let transfers = as_data metrics; outbox = Option.bind (as_data ready) re_outbox in
     Card [Txt ''Metrics''] [Button [] [On_click Refresh_metrics] ''Refresh'']
       (ErrorBanner (as_error metrics) @
        [block [Txt ''Transfers since server start''],
         block
           [stat_node ''Completed'' (map_option fst transfers) False,
            stat_node ''Serialization retries'' (map_option (fst \<circ> snd) transfers) False,
            stat_node ''Retry exhausted (503)'' (map_option (snd \<circ> snd) transfers) True],
         block [Txt ''Outbox''],
         block
           [stat_node ''Pending'' (map_option fst outbox) False,
            stat_node ''Processing'' (map_option (fst \<circ> snd) outbox) False,
            stat_node ''Failed (dead-letter)'' (map_option (snd \<circ> snd) outbox) True]]))"

definition revoke_disabled :: "string panel \<Rightarrow> bool" where
  "revoke_disabled st \<longleftrightarrow> pn_busy st \<or> js_trim (pn_input st) = []"

definition Revoke_view :: "string panel \<Rightarrow> string panel_event node" where
  "Revoke_view st =
    Card [Txt ''Revoke an API key''] []
      [El ''form'' [] [On_submit Panel_run]
         [block
            [Field ''Key ID (not the secret)'' None
               [(''value'', pn_input st), (''spellcheck'', ''false''), (''required'', [])] [On_change Panel_type]],
          Button ((''type'', ''submit'') # flag ''disabled'' (revoke_disabled st)) [] ''Revoke''],
       block
         (ErrorBanner (pn_error st) @
          map (\<lambda>k. para [Txt (''Key '' @ take 8 k @ ellipsis @ '' revoked. It stops working on the next request.'')])
            (given (pn_result st)))]"

record admin_page =
  am_onboard :: onboard
  am_fund :: fund_form
  am_reconcile :: "json panel"
  am_metrics :: "(nat \<times> nat \<times> nat) async"
  am_ready :: "readiness async"
  am_revoke :: "string panel"

datatype admin_handler =
    In_onboard onboard_handler | In_fund "string \<Rightarrow> fund_event" | In_reconcile "json panel_event"
  | In_metrics metrics_handler | In_revoke "string panel_event" | Admin_signs_out

definition Admin_view :: "(string \<Rightarrow> string) \<Rightarrow> (string \<Rightarrow> bool) \<Rightarrow> admin_page \<Rightarrow> admin_handler node" where
  "Admin_view fmt cp st =
    block
      [block
         [block [El ''h1'' [] [] [Txt ''Admin console''], para [Txt ''Onboard customers, fund accounts, and verify the books.'']],
          Button [] [On_click Admin_signs_out] ''Sign out''],
       block
         [map_node In_onboard (Onboard_view cp (am_onboard st)), map_node In_fund (Fund_view cp (am_fund st)),
          map_node In_reconcile (Reconcile_view fmt cp (am_reconcile st)),
          map_node In_metrics (Metrics_view (am_metrics st) (am_ready st)), map_node In_revoke (Revoke_view (am_revoke st))]]"

section \<open>VerifyEmail.tsx and Layout.tsx\<close>

datatype verify_handler = Run_action verify_action | Use_another_account

definition VerifyEmail_view :: "string \<Rightarrow> verify_form \<Rightarrow> verify_handler node" where
  "VerifyEmail_view email st =
    block
      [Card [Txt ''Verify your email''] []
        ([para [Txt ''We sent a verification link to '', span [Txt email], Txt ''. Click it, then come back here.'']] @
         (case ve_message st of None \<Rightarrow> [] | Some (t, message) \<Rightarrow> [para [Txt message]]) @
         [block
           [Button (flag ''disabled'' (ve_busy st)) [On_click (Run_action Check_verified)]
              (''I'' @ apostrophe @ ''ve verified my email''),
            Button (flag ''disabled'' (ve_busy st)) [On_click (Run_action Resend_link)] ''Resend link'',
            Button (flag ''disabled'' (ve_busy st)) [On_click Use_another_account] ''Use another account'']])]"

definition Logo :: "'h node" where
  "Logo = El ''a'' [(''href'', ''/''), (''aria-label'', ''PulseLedger home'')] [] [icon, span [Txt ''Pulse'', span [Txt ''Ledger'']]]"

definition outbox_title :: "readiness async \<Rightarrow> string" where
  "outbox_title st =
    (case Option.bind (as_data st) re_outbox of
       None \<Rightarrow> []
     | Some (pending, processing, failed) \<Rightarrow>
         ''outbox '' @ dash @ '' pending '' @ nat_text pending @ '', processing '' @ nat_text processing @
         '', failed '' @ nat_text failed)"

definition HealthBadge :: "readiness async \<Rightarrow> 'h node" where
  "HealthBadge st =
    El ''span'' [(''title'', outbox_title st)] []
      ([span [], Txt (health_label st)] @
       (case failed_events st of None \<Rightarrow> [] | Some failed \<Rightarrow> [span [Txt (nat_text failed @ '' failed events'')]]))"

definition Layout_view :: "readiness async \<Rightarrow> 'h node \<Rightarrow> 'h node" where
  "Layout_view ready outlet =
    block
      [El ''header'' [] []
        [block
          [block
             [Logo,
              El ''nav'' [(''aria-label'', ''App'')] [] [link_to ''/app'' [Txt ''Accounts''], link_to ''/admin'' [Txt ''Admin'']]],
           HealthBadge ready]],
       El ''main'' [] [] [outlet]]"

end
