(* ===== verification/Web_Login_Views.thy ===== *)
theory Web_Login_Views
  imports Web_Console_Views
begin

text \<open>
  What the login pages return: the frame of web/src/components/auth/AuthShell.tsx, UserLogin.tsx with its tabs and
  two forms, and AdminLogin.tsx.  \<open>uid\<close> numbers the ids that \<open>useId\<close> draws, and \<open>visible\<close> says whether the
  secret of the form is unmasked.
\<close>

section \<open>AuthShell.tsx\<close>

record shell_aside =
  sa_heading :: string
  sa_points :: "string list"

definition AuthShell :: "string \<Rightarrow> string \<Rightarrow> shell_aside \<Rightarrow> 'h node list \<Rightarrow> 'h node" where
  "AuthShell title subtitle aside children =
    block
      [El ''aside'' [] []
         [El ''div'' [(''aria-hidden'', ''true'')] [] [], El ''div'' [(''aria-hidden'', ''true'')] [] [],
          block [Logo],
          block
            [El ''h2'' [] [] [Txt (sa_heading aside)],
             El ''ul'' [] [] (map (\<lambda>point. El ''li'' [] [] [span [icon], Txt point]) (sa_points aside))],
          para [Txt (utf8 [0x3A3] @ '' debits '' @ utf8 [0x2212] @ '' '' @ utf8 [0x3A3] @ '' credits = 0'')]],
       El ''main'' [] []
         [block [span [Logo], link_to ''/'' [Txt (larrow @ '' Back to home'')]],
          block [El ''h1'' [] [] [Txt title], para [Txt subtitle], block children]]]"

section \<open>UserLogin.tsx\<close>

datatype login_method = Email_method | Api_key_method

fun method_value :: "login_method \<Rightarrow> string" where
  "method_value Email_method = ''email''"
| "method_value Api_key_method = ''apikey''"

fun other_method :: "login_method \<Rightarrow> login_method" where
  "other_method Email_method = Api_key_method"
| "other_method Api_key_method = Email_method"

datatype login_handler = Set_method login_method | On_email email_event | On_key_form key_event

definition method_tab :: "login_method \<Rightarrow> login_method \<times> string \<Rightarrow> login_handler node" where
  "method_tab selected = (\<lambda>(value, label).
    El ''button''
      ([(''type'', ''button''), (''role'', ''tab''), (''id'', ''tab-'' @ method_value value),
        (''aria-selected'', bool_text (selected = value))] @
       only_if (selected = value) [(''aria-controls'', ''panel-'' @ method_value value)] @
       [(''tabindex'', if selected = value then ''0'' else ''-1'')])
      [On_click (Set_method value),
       On_key (\<lambda>k. only_if (k \<in> {''ArrowLeft'', ''ArrowRight''}) [Set_method (other_method value)])] [Txt label])"

definition google_button :: "email_form \<Rightarrow> email_event node list" where
  "google_button st =
    [El ''button'' ((''type'', ''button'') # flag ''disabled'' (ef_busy st \<noteq> None)) [On_click Click_google]
       [if ef_busy st = Some With_google then El ''span'' [(''aria-hidden'', ''true'')] [] [] else icon,
        Txt (if ef_busy st = Some With_google then ''Waiting for Google'' @ ellipsis else ''Continue with Google'')],
     block [span [], Txt ''or with email'', span []]]"

definition submit_label :: "email_mode \<Rightarrow> string" where
  "submit_label mode =
    (case mode of Mode_signin \<Rightarrow> ''Sign in'' | Mode_signup \<Rightarrow> ''Create account'' | Mode_reset \<Rightarrow> ''Send reset link'')"

definition password_field :: "(nat \<Rightarrow> string) \<Rightarrow> bool \<Rightarrow> email_form \<Rightarrow> email_event node" where
  "password_field uid visible st =
    SecretField (uid 1) visible ''Password''
      (if ef_mode st = Mode_signup
       then Some (''At least 6 characters. We'' @ apostrophe @ ''ll email you a verification link.'') else None) None
      ([(''name'', ''password''),
        (''autocomplete'', if ef_mode st = Mode_signup then ''new-password'' else ''current-password''),
        (''value'', ef_password st)] @ flag ''disabled'' (ef_busy st \<noteq> None))
      [On_change Type_password]"

definition EmailSignIn_view :: "(nat \<Rightarrow> string) \<Rightarrow> bool \<Rightarrow> email_form \<Rightarrow> email_event node" where
  "EmailSignIn_view uid visible st =
    block
      (only_if (ef_mode st \<noteq> Mode_reset) (google_button st) @
       [El ''form'' [(''novalidate'', [])] [On_submit Submit_email]
          ([TextField (uid 0) ''Email'' None None []
              ([(''type'', ''email''), (''name'', ''email''), (''autocomplete'', ''email''), (''inputmode'', ''email''),
                (''placeholder'', ''you@company.com''), (''value'', ef_email st)] @ flag ''disabled'' (ef_busy st \<noteq> None))
              [On_change Type_email]] @
           only_if (ef_mode st \<noteq> Mode_reset) [password_field uid visible st] @
           only_if (ef_mode st = Mode_signin)
             [block [El ''button'' [(''type'', ''button'')] [On_click (Choose_email_mode Mode_reset)] [Txt ''Forgot password?'']]] @
           map (\<lambda>e. Alert Web_Widgets.Error_tone [Txt e]) (given (ef_error st)) @
           map (\<lambda>n. Alert Success_tone [Txt n]) (given (ef_notice st)) @
           [SubmitButton (ef_busy st = Some With_email) (''Please wait'' @ ellipsis) (ef_busy st = Some With_google)
              (submit_label (ef_mode st))]),
        para
          (if ef_mode st = Mode_signin then
             [Txt ''New to PulseLedger? '',
              El ''button'' [(''type'', ''button'')] [On_click (Choose_email_mode Mode_signup)] [Txt ''Create an account'']]
           else
             [El ''button'' [(''type'', ''button'')] [On_click (Choose_email_mode Mode_signin)]
                [Txt (larrow @ '' Back to sign in'')]])])"

definition ApiKeySignIn_view :: "(nat \<Rightarrow> string) \<Rightarrow> bool \<Rightarrow> key_form \<Rightarrow> key_event node" where
  "ApiKeySignIn_view uid visible st =
    El ''form'' [(''novalidate'', [])] [On_submit Submit_key]
      ([SecretField (uid 0) visible ''Customer API key'' (Some ''Issued by an administrator. Kept in this tab only.'') None
          ([(''name'', ''api-key''), (''autocomplete'', ''off''), (''placeholder'', ''pl_live_'' @ ellipsis),
            (''value'', kf_key st)] @ flag ''disabled'' (kf_busy st))
          [On_change Type_key]] @
       map (\<lambda>e. Alert Web_Widgets.Error_tone [Txt e]) (given (kf_error st)) @
       [SubmitButton (kf_busy st) (''Verifying key'' @ ellipsis) False ''Sign in with API key''])"

definition FirebaseUnavailable :: "'h node" where
  "FirebaseUnavailable =
    Alert Info_tone
      [Txt (''Email and Google sign-in aren'' @ apostrophe @ ''t configured in this build. Add the Firebase web config to ''),
       El ''code'' [] [] [Txt ''web/.env.local''], Txt '' and set '', El ''code'' [] [] [Txt ''FIREBASE_PROJECT_ID''],
       Txt ('' on the API '' @ dash @ '' or use the API key tab.'')]"

definition login_panel ::
    "bool \<Rightarrow> (nat \<Rightarrow> string) \<Rightarrow> bool \<Rightarrow> login_method \<Rightarrow> email_form \<Rightarrow> key_form \<Rightarrow> login_handler node" where
  "login_panel configured uid visible selected email key =
    El ''div''
      [(''role'', ''tabpanel''), (''id'', ''panel-'' @ method_value selected), (''aria-labelledby'', ''tab-'' @ method_value selected)] []
      [case selected of
         Email_method \<Rightarrow>
           if configured then map_node On_email (EmailSignIn_view uid visible email) else FirebaseUnavailable
       | Api_key_method \<Rightarrow> map_node On_key_form (ApiKeySignIn_view uid visible key)]"

definition user_aside :: shell_aside where
  "user_aside =
    \<lparr>sa_heading = ''Your money, provably correct.'',
     sa_points =
       [''Every payment written as balanced debit and credit entries'',
        ''Retries are safe '' @ dash @ '' one request is one payment'',
        ''Only you can see or spend from your accounts'']\<rparr>"

definition UserLogin_view ::
    "bool \<Rightarrow> (nat \<Rightarrow> string) \<Rightarrow> bool \<Rightarrow> login_method \<Rightarrow> email_form \<Rightarrow> key_form \<Rightarrow> login_handler node" where
  "UserLogin_view configured uid visible selected email key =
    AuthShell ''Sign in'' ''Access your accounts, send payments, and see every ledger entry.'' user_aside
      [El ''div'' [(''role'', ''tablist''), (''aria-label'', ''Sign-in method'')] []
         (map (method_tab selected) [(Email_method, ''Email or Google''), (Api_key_method, ''API key'')]),
       login_panel configured uid visible selected email key]"

section \<open>AdminLogin.tsx\<close>

definition admin_aside :: shell_aside where
  "admin_aside =
    \<lparr>sa_heading = ''The operator console.'',
     sa_points =
       [''Onboard customers and issue API keys, shown exactly once'', ''Fund accounts through balanced treasury postings'',
        ''Reconcile every balance against the immutable journal'']\<rparr>"

definition AdminKey_form :: "(nat \<Rightarrow> string) \<Rightarrow> bool \<Rightarrow> key_form \<Rightarrow> key_event node" where
  "AdminKey_form uid visible st =
    El ''form'' [(''novalidate'', [])] [On_submit Submit_key]
      ([SecretField (uid 0) visible ''Admin API key''
          (Some (''The ADMIN_API_KEY value from the server'' @ apostrophe @ ''s .env file.''))
          (fst (admin_error_place st))
          ([(''name'', ''admin-key''), (''autocomplete'', ''current-password''),
            (''placeholder'', utf8 (replicate 16 0x2022)), (''value'', kf_key st)] @
           flag ''disabled'' (kf_busy st) @ [(''autofocus'', [])])
          [On_change Type_key]] @
       map (\<lambda>e. Alert Web_Widgets.Error_tone [Txt e]) (given (snd (admin_error_place st))) @
       [SubmitButton (kf_busy st) (''Verifying key'' @ ellipsis) False ''Log in to console''])"

definition AdminLogin_view :: "(nat \<Rightarrow> string) \<Rightarrow> bool \<Rightarrow> key_form \<Rightarrow> key_event node" where
  "AdminLogin_view uid visible st =
    AuthShell ''Admin login'' ''Operator access to onboarding, funding, reconciliation, and metrics.'' admin_aside
      [AdminKey_form uid visible st,
       para [Txt (''The key is held in this tab'' @ apostrophe @ ''s session storage only '' @ dash @
         '' never in source code or local storage '' @ dash @ '' and is cleared when the tab closes or you sign out.'')]]"

end
