(* ===== verification/Web_Single_Calls.thy ===== *)
theory Web_Single_Calls
  imports Web_Login_Views
begin

text \<open>
  What the markup lets a visitor do, for the forms that call the service: while a call of the form is in
  flight its button is disabled, so a second one cannot start.  The argument is made once, in a locale
  over the steps a visitor and the world can take, and interpreted with each form.
\<close>

section \<open>A component inside a page\<close>

lemma collect_map_node [simp]: "collect f (map_node g m) = collect f m"
  by (induction m) (simp_all add: comp_def cong: map_cong)

lemma collected [simp]:
  "options_of (map (map_node g) ks) = options_of ks" "submit_buttons (map (map_node g) ks) = submit_buttons ks"
  "text_fields (map (map_node g) ks) = text_fields ks" "submits_by_enter (map (map_node g) ks) = submits_by_enter ks"
  "hrefs (map_node g m) = hrefs m" "ids (map_node g m) = ids m"
  by (simp_all add: options_of_def submit_buttons_def text_fields_def submits_by_enter_def hrefs_def ids_def comp_def)

lemma renders_map_node [simp]: "renders (map_node g m) = renders m"
  by (induction m) (auto simp: list_all_iff)

lemma submits_map: "submits (map_listener g l) = map g (submits l)"
  by (cases l) simp_all

lemma own_actions_map: "own_actions t (map (map_node g) ks) (map_listener g l) = map (map_action g) (own_actions t ks l)"
  by (cases l) (simp_all add: comp_def)

lemma actions_map_node: "actions (map g form) (map_node g m) = map (map_action g) (actions form m)"
proof (induction m arbitrary: form)
  case (El t as ls ks)
  have subs: "concat (map submits (map (map_listener g) ls)) = map g (concat (map submits ls))"
    by (simp add: comp_def submits_map map_concat)
  have "concat (map (actions (map g form')) (map (map_node g) ks)) = map (map_action g) (concat (map (actions form') ks))" for form'
    using El by (simp add: comp_def map_concat cong: map_cong)
  from this [of form] this [of "concat (map submits ls)"] show ?case
    by (simp add: comp_def own_actions_map map_concat submits_map subs Let_def)
qed simp_all

lemma may_cause_map: "may_cause (map_action g a) h \<longleftrightarrow> (\<exists>h0. h = g h0 \<and> may_cause a h0)"
  by (cases a) auto

text \<open>What a component offers inside a page is what it offers alone.\<close>

lemma offered_map_node:
  "offered_in [] [map_node g m] h \<longleftrightarrow> (\<exists>h0. h = g h0 \<and> offered [m] h0)"
  using actions_map_node [of g "[]" m] by (auto simp: offered_in_def may_cause_map)

section \<open>One call at a time\<close>

text \<open>
  Steps are what the visitor does, of what the view offers in the state it shows, and what comes from
  outside: the answers to calls, and new props.
\<close>

definition visitor_can :: "('s \<Rightarrow> 'h node) \<Rightarrow> ('h \<Rightarrow> 'e \<Rightarrow> bool) \<Rightarrow> 's \<Rightarrow> 'e \<Rightarrow> bool" where
  "visitor_can view delivers s e \<longleftrightarrow> (\<exists>h. offered [view s] h \<and> delivers h e)"

definition admitted_by :: "('s \<Rightarrow> 'e \<Rightarrow> bool) \<Rightarrow> ('e \<Rightarrow> bool) \<Rightarrow> 'e \<Rightarrow> 's \<Rightarrow> bool" where
  "admitted_by can outside e s \<longleftrightarrow> can s e \<or> outside e"

locale one_call =
  fixes step :: "'e \<Rightarrow> 's \<Rightarrow> 's" and can :: "'s \<Rightarrow> 'e \<Rightarrow> bool" and outside :: "'e \<Rightarrow> bool"
    and busy :: "'s \<Rightarrow> bool" and calls :: "'s \<Rightarrow> nat" and good :: "'s \<Rightarrow> bool"
  assumes stays_good: "good s \<Longrightarrow> good (step e s)"
    and click: "good s \<Longrightarrow> can s e \<Longrightarrow>
      calls (step e s) = calls s \<and> (busy s \<longrightarrow> busy (step e s)) \<or>
      \<not> busy s \<and> calls (step e s) = Suc (calls s) \<and> busy (step e s)"
    and answer: "outside e \<Longrightarrow>
      calls (step e s) = calls s \<and> (busy s \<longrightarrow> busy (step e s)) \<or> Suc (calls (step e s)) = calls s"
begin

definition calm_form :: "'s \<Rightarrow> bool" where
  "calm_form s \<longleftrightarrow> good s \<and> calls s \<le> 1 \<and> (calls s = 1 \<longrightarrow> busy s)"

lemma step_calm: "admitted_by can outside e s \<Longrightarrow> calm_form s \<Longrightarrow> calm_form (step e s)"
  unfolding admitted_by_def calm_form_def using stays_good [of s e] click [of s e] answer [of e s] by auto

lemma run_idle: "admitted_run step (admitted_by can outside) es s \<Longrightarrow> calm_form s \<Longrightarrow> calm_form (fold step es s)"
  by (induction es arbitrary: s) (auto intro: step_calm)

lemma never_two_calls:
  "admitted_run step (admitted_by can outside) es s \<Longrightarrow> good s \<Longrightarrow> calls s = 0 \<Longrightarrow> calls (fold step es s) \<le> 1"
  using run_idle [of es s] by (simp add: calm_form_def)

end

section \<open>The forms\<close>

text \<open>What the components never attach a listener to.\<close>

lemma silent [simp]:
  "\<not> offered_in form (ErrorBanner e) h" "offered_in form (Money a c # ms) h \<longleftrightarrow> offered_in form ms h"
  "offered_in form (StatusPill t # ms) h \<longleftrightarrow> offered_in form ms h" "offered_in form (icon # ms) h \<longleftrightarrow> offered_in form ms h"
  "offered_in form (CopyText copied short value # ms) h \<longleftrightarrow> offered_in form ms h"
  "\<not> offered_in form (map (\<lambda>s. span [Txt s]) hints) h"
  by (auto simp: ErrorBanner_def Money_def StatusPill_def icon_def CopyText_def offered_map Let_def is_submit_def
      split: option.splits)

lemma with_text_silent [simp]:
  "offered_in form (with_text v k (\<lambda>s. Txt (f s)) # ms) h \<longleftrightarrow> offered_in form ms h"
  "offered_in form (with_text v k (\<lambda>s. CopyText (c s) b s) # ms) h \<longleftrightarrow> offered_in form ms h"
  "offered_in form (with_text v k (\<lambda>s. Money s (g s)) # ms) h \<longleftrightarrow> offered_in form ms h"
  "offered_in form (with_text v k (\<lambda>s. with_text v k' (\<lambda>s'. Money s s')) # ms) h \<longleftrightarrow> offered_in form ms h"
  by (simp_all add: with_text_def split: option.split json.split)

text \<open>A form with a submit button is not submitted by Enter alone.\<close>

lemma button_no_enter: "El t as ls ks \<in> set ms \<Longrightarrow> is_submit t as \<Longrightarrow> \<not> submits_by_enter ms"
  by (auto simp: submits_by_enter_def submit_buttons_def dest!: bspec)

lemmas markup_defs = Card_def Button_def Field_def Select_def TextField_def SecretField_def SubmitButton_def Alert_def
  flag_def disabled_def is_submit_def


lemma send_offers:
  assumes "offered [SendMoney fmt cp st] h" and "sm_busy st \<longrightarrow> sm_error st = None"
  shows "h = (\<lambda>key. Submit_transfer) \<and> \<not> sm_busy st \<or> (\<exists>m. h = Choose_mode m) \<or> (\<exists>v. h = Type_destination v) \<or>
    (\<exists>v. h = Type_amount v)"
proof -
  let ?fields = "[mode_buttons st, destination_chooser st,
      Field (''Amount ('' @ wa_currency (sm_source st) @ '')'') (sv_hint (render_send st))
        [(''inputmode'', ''decimal''), (''placeholder'', ''0.00''), (''value'', sm_amount st)] [On_change Type_amount]] @
     ErrorBanner (sm_error st)"
  have fields: "offered_in form ?fields h \<Longrightarrow> (\<exists>m. h = Choose_mode m) \<or> (\<exists>v. h = Type_destination v) \<or> (\<exists>v. h = Type_amount v)" for form
    by (auto simp: mode_buttons_def destination_chooser_def markup_defs offered_map option_node_def
        split: destination_mode.splits if_splits)
  have receipt: "\<not> offered_in form (case sm_receipt st of None \<Rightarrow> [] | Some (transfer, key) \<Rightarrow> [receipt_node fmt cp transfer]) h" for form
    by (auto simp: receipt_node_def is_submit_def split: option.splits)
  show ?thesis
  proof (cases "sm_busy st")
    case True
    with assms(2) have button: "send_button st = Button [(''type'', ''submit''), (''disabled'', [])] [] (''Sending'' @ ellipsis)"
      by (simp add: send_button_def render_send_def flag_def ellipsis_def)
    have "\<not> submits_by_enter (?fields @ [send_button st, f])" for f
      by (rule button_no_enter [of "''button''" "[(''type'', ''submit''), (''disabled'', [])]" "[]" "[Txt (''Sending'' @ ellipsis)]"])
        (simp_all add: button markup_defs)
    then show ?thesis using assms(1) True fields receipt
      by (auto simp: SendMoney_def Card_def button Button_def disabled_def is_submit_def simp del: append_Cons)
  next
    case False
    have "offered_in [\<lambda>key. Submit_transfer] (send_button st # ms) h \<Longrightarrow>
        h = (\<lambda>key. Submit_transfer) \<or> offered_in [\<lambda>key. Submit_transfer] ms h" for ms
      by (auto simp: send_button_def markup_defs split: button_view.splits if_splits)
    note button = this
    show ?thesis using assms(1) False fields receipt
      by (auto simp: SendMoney_def Card_def is_submit_def simp del: append_Cons dest!: button)
  qed
qed

lemma fund_offers:
  assumes "offered [Fund_view cp st] h"
  shows "h = (\<lambda>key. Submit_funding) \<and> \<not> ff_busy st \<or> (\<exists>v. h = Type_account v) \<or> (\<exists>v. h = Type_fund_amount v)"
proof -
  let ?button = "Button ((''type'', ''submit'') # flag ''disabled'' (fund_button_disabled st)) []
    (if ff_busy st then ''Funding'' @ ellipsis else ''Fund'')"
  have enter: "\<not> submits_by_enter (ms @ [?button])" for ms :: "(string \<Rightarrow> fund_event) node list"
    by (rule button_no_enter [of "''button''" "(''type'', ''submit'') # flag ''disabled'' (fund_button_disabled st)" "[]"
          "[Txt (if ff_busy st then ''Funding'' @ ellipsis else ''Fund'')]"]) (simp_all add: Button_def is_submit_def)
  have result: "\<not> offered_in form (case ff_result st of None \<Rightarrow> []
       | Some result \<Rightarrow>
          [para [Txt ''Funded '', with_text result ''amountMinor'' (\<lambda>m. with_text result ''currency'' (\<lambda>c. Money m c)),
             Txt ('' '' @ middot @ '' transaction ''), with_text result ''id'' (\<lambda>i. CopyText (cp i) True i)]]) h" for form
    by (auto simp: is_submit_def split: option.splits)
  show ?thesis
    using assms enter [of "[Field ''Account ID'' None [(''value'', ff_account st), (''spellcheck'', ''false''), (''required'', [])]
           [On_change Type_account],
         Field ''Amount (major units)'' (Some (render_fund_hint st))
           [(''inputmode'', ''decimal''), (''placeholder'', ''2500.00''), (''value'', ff_amount st)] [On_change Type_fund_amount]] @
        ErrorBanner (ff_error st)"] result
    by (auto simp: Fund_view_def markup_defs fund_button_disabled_def split: if_splits)
qed

lemma onboard_offers:
  assumes "offered [Onboard_view cp st] (On_onboard e)"
  shows "e = Submit_onboard \<and> \<not> on_busy st \<or> (\<exists>v. e = Type_name v) \<or> (\<exists>who. e = Issue_another who)"
proof -
  have item: "offered [issued_item cp x] (On_onboard e) \<Longrightarrow> \<exists>who. e = Issue_another who" for x
    by (cases x) (auto simp: issued_item_def markup_defs)
  have enter: "\<not> submits_by_enter [m, Button ((''type'', ''submit'') # props) [] label]"
    for m :: "onboard_handler node" and props label
    by (rule button_no_enter [of "''button''" "(''type'', ''submit'') # props" "[]" "[Txt label]"])
      (simp_all add: Button_def is_submit_def)
  show ?thesis
    using assms enter by (auto simp: Onboard_view_def Card_def offered_map Field_def onboard_disabled_def is_submit_def
        split: if_splits dest!: item)
      (auto simp: markup_defs split: if_splits)
qed

lemma submit_button_offered [simp]:
  "offered_in form (SubmitButton working busyLabel disabled_prop label # ms) h \<longleftrightarrow>
    \<not> working \<and> \<not> disabled_prop \<and> h \<in> set form \<or> offered_in form ms h"
  by (auto simp: markup_defs submit_disabled_def)

lemma enter_no_button: "submits_by_enter ms \<Longrightarrow> submit_buttons ms = []"
  by (simp add: submits_by_enter_def)

lemma submit_buttons_simps [simp]:
  "submit_buttons (ms @ ns) = submit_buttons ms @ submit_buttons ns"
  "submit_buttons (SubmitButton working busyLabel disabled_prop label # ms) \<noteq> []"
  by (auto simp: submit_buttons_def SubmitButton_def is_submit_def)

lemma submit_buttons_tail: "submit_buttons (m # ms) = [] \<Longrightarrow> submit_buttons ms = []"
  by (simp add: submit_buttons_def)

lemma field_offered:
  "offered_in form (TextField uid label hint err trailing props ls # ms) h \<Longrightarrow>
    (\<exists>l\<in>set ls. \<exists>a\<in>set (own_actions ''input'' [] l). may_cause a h) \<or> offered_in form trailing h \<or> offered_in form ms h"
  by (auto simp: TextField_def is_submit_def split: field_note.splits if_splits)

lemma secret_offered:
  "offered_in form (SecretField uid visible label hint err props ls # ms) h \<Longrightarrow>
    (\<exists>l\<in>set ls. \<exists>a\<in>set (own_actions ''input'' [] l). may_cause a h) \<or> offered_in form ms h"
  unfolding SecretField_def by (drule field_offered) (auto simp: is_submit_def)

lemma alerts_silent [simp]: "\<not> offered_in form (map (\<lambda>e. Alert t [Txt e]) xs) h"
  by (auto simp: offered_map Alert_def is_submit_def)

lemma key_form_offers:
  assumes "offered [ApiKeySignIn_view uid visible st] h \<or> offered [AdminKey_form uid visible st] h"
  shows "h = Submit_key \<and> \<not> kf_busy st \<or> (\<exists>v. h = Type_key v)"
  using assms unfolding ApiKeySignIn_view_def AdminKey_form_def
  by (auto simp: is_submit_def dest!: secret_offered enter_no_button submit_buttons_tail)

lemma email_offers:
  assumes "offered [EmailSignIn_view uid visible st] h"
  shows "h \<in> {Click_google, Submit_email} \<and> ef_busy st = None \<or> (\<exists>m. h = Choose_email_mode m) \<or>
    (\<exists>v. h = Type_email v) \<or> (\<exists>v. h = Type_password v)"
proof -
  have busy: "ef_busy st = None \<or> ef_busy st = Some With_google \<or> ef_busy st = Some With_email"
    by (cases "ef_busy st") (use sign_in_kind.exhaust in auto)
  have google: "offered_in form (google_button st) h \<Longrightarrow> h = Click_google \<and> ef_busy st = None" for form
    by (auto simp: google_button_def flag_def disabled_def is_submit_def split: if_splits)
  have secret: "offered_in form [password_field uid visible st] h \<Longrightarrow> \<exists>v. h = Type_password v" for form
    unfolding password_field_def by (auto dest!: secret_offered)
  show ?thesis
    using assms busy unfolding EmailSignIn_view_def
    by (auto simp: is_submit_def simp del: append_Cons split: if_splits dest!: field_offered google secret enter_no_button)
qed

section \<open>Steps of the forms\<close>

text \<open>
  What comes from outside is an answer to a call, or new props.  A handler of the forms that move
  money draws a key with its event; the sign-in forms change the tab's session.
\<close>

fun send_outside :: "send_event \<Rightarrow> bool" where
  "send_outside (Transfer_answered i answer key) = True"
| "send_outside (Send_props source own) = True"
| "send_outside _ = False"

fun fund_outside :: "fund_event \<Rightarrow> bool" where
  "fund_outside (Funding_answered i answer key) = True"
| "fund_outside _ = False"

fun onboard_outside :: "onboard_event \<Rightarrow> bool" where
  "onboard_outside (Principal_answered i answer) = True"
| "onboard_outside (Key_issued i answer) = True"
| "onboard_outside _ = False"

fun key_outside :: "key_event \<Rightarrow> bool" where
  "key_outside (Key_answered i answer) = True"
| "key_outside _ = False"

fun email_outside :: "email_event \<Rightarrow> bool" where
  "email_outside (Firebase_settled i answer) = True"
| "email_outside _ = False"

definition drawn_with :: "(string \<Rightarrow> 'e) \<Rightarrow> 'e \<Rightarrow> bool" where
  "drawn_with h e \<longleftrightarrow> (\<exists>key. e = h key)"

definition onboards :: "onboard_handler \<Rightarrow> onboard_event \<Rightarrow> bool" where
  "onboards h e \<longleftrightarrow> h = On_onboard e"

text \<open>The calls of a submission of the onboarding form: another key is not one of them.\<close>

definition onboard_calls :: "onboard \<Rightarrow> nat" where
  "onboard_calls st = length (filter (\<lambda>f. case f of Another_key who \<Rightarrow> False | _ \<Rightarrow> True) (on_flights st))"

definition send_can :: "(string \<Rightarrow> string) \<Rightarrow> (string \<Rightarrow> bool) \<Rightarrow> send_form \<Rightarrow> send_event \<Rightarrow> bool" where
  "send_can fmt cp = visitor_can (SendMoney fmt cp) drawn_with"

definition fund_can :: "(string \<Rightarrow> bool) \<Rightarrow> fund_form \<Rightarrow> fund_event \<Rightarrow> bool" where
  "fund_can cp = visitor_can (Fund_view cp) drawn_with"

definition onboard_can :: "(string \<Rightarrow> bool) \<Rightarrow> onboard \<Rightarrow> onboard_event \<Rightarrow> bool" where
  "onboard_can cp = visitor_can (Onboard_view cp) onboards"

definition email_can :: "(nat \<Rightarrow> string) \<Rightarrow> bool \<Rightarrow> email_form \<times> session \<Rightarrow> email_event \<Rightarrow> bool" where
  "email_can uid visible = visitor_can (\<lambda>st. EmailSignIn_view uid visible (fst st)) (=)"

definition customer_key_can :: "(nat \<Rightarrow> string) \<Rightarrow> bool \<Rightarrow> key_form \<times> session \<Rightarrow> key_event \<Rightarrow> bool" where
  "customer_key_can uid visible = visitor_can (\<lambda>st. ApiKeySignIn_view uid visible (fst st)) (=)"

definition admin_key_can :: "(nat \<Rightarrow> string) \<Rightarrow> bool \<Rightarrow> key_form \<times> session \<Rightarrow> key_event \<Rightarrow> bool" where
  "admin_key_can uid visible = visitor_can (\<lambda>st. AdminKey_form uid visible (fst st)) (=)"

definition error_shown_idle :: "send_form \<Rightarrow> bool" where
  "error_shown_idle st \<longleftrightarrow> (sm_busy st \<longrightarrow> sm_error st = None)"

lemma settled_same [simp]:
  "sm_busy (settle_destination st) = sm_busy st" "sm_error (settle_destination st) = sm_error st"
  "sm_flights (settle_destination st) = sm_flights st"
  by (simp_all add: settle_destination_def)

lemmas send_steps = send_step_def send_handler_def send_edit_def send_submit_def send_answered_def

interpretation send_calls: one_call send_step "send_can fmt cp" send_outside sm_busy "\<lambda>st. length (sm_flights st)" error_shown_idle
  for fmt cp
proof
  fix st e assume good: "error_shown_idle st"
  then show "error_shown_idle (send_step e st)"
    by (cases e) (auto simp: send_steps error_shown_idle_def Let_def split: option.splits sum.splits)
  assume "send_can fmt cp st e"
  then obtain h key where h: "offered [SendMoney fmt cp st] h" "e = h key"
    by (auto simp: send_can_def visitor_can_def drawn_with_def)
  show "length (sm_flights (send_step e st)) = length (sm_flights st) \<and> (sm_busy st \<longrightarrow> sm_busy (send_step e st)) \<or>
      \<not> sm_busy st \<and> length (sm_flights (send_step e st)) = Suc (length (sm_flights st)) \<and> sm_busy (send_step e st)"
    using send_offers [OF h(1) good [unfolded error_shown_idle_def]] h(2)
    by (auto simp: send_steps split: option.splits)
next
  fix st e assume "send_outside e"
  then show "length (sm_flights (send_step e st)) = length (sm_flights st) \<and> (sm_busy st \<longrightarrow> sm_busy (send_step e st)) \<or>
      Suc (length (sm_flights (send_step e st))) = length (sm_flights st)"
    by (cases e) (auto simp: send_steps Let_def split: sum.splits)
qed

interpretation fund_calls: one_call fund_step "fund_can cp" fund_outside ff_busy "\<lambda>st. length (ff_flights st)" "\<lambda>_. True" for cp
proof
  fix st e assume "fund_can cp st e"
  then obtain h key where h: "offered [Fund_view cp st] h" "e = h key"
    by (auto simp: fund_can_def visitor_can_def drawn_with_def)
  show "length (ff_flights (fund_step e st)) = length (ff_flights st) \<and> (ff_busy st \<longrightarrow> ff_busy (fund_step e st)) \<or>
      \<not> ff_busy st \<and> length (ff_flights (fund_step e st)) = Suc (length (ff_flights st)) \<and> ff_busy (fund_step e st)"
    using fund_offers [OF h(1)] h(2) by (auto simp: fund_step_def fund_submit_def split: option.splits)
next
  fix st e assume "fund_outside e"
  then show "length (ff_flights (fund_step e st)) = length (ff_flights st) \<and> (ff_busy st \<longrightarrow> ff_busy (fund_step e st)) \<or>
      Suc (length (ff_flights (fund_step e st))) = length (ff_flights st)"
    by (cases e) (auto simp: fund_step_def fund_answered_def Let_def split: sum.splits)
qed simp_all

lemma onboard_calls_drop:
  "i < length (on_flights st) \<Longrightarrow> onboard_calls st =
    onboard_calls (drop_flight i st) + (case on_flights st ! i of Another_key who \<Rightarrow> 0 | _ \<Rightarrow> 1)"
  by (subst id_take_nth_drop [of i "on_flights st", THEN arg_cong, of "\<lambda>fs. length (filter (\<lambda>f. case f of Another_key who \<Rightarrow> False | _ \<Rightarrow> True) fs)",
      folded onboard_calls_def])
    (auto simp: onboard_calls_def drop_flight_def split: onboard_flight.splits)

lemma onboard_calls_update:
  assumes "i < length (on_flights st)" and "on_flights st ! i = Creating_principal name"
  shows "onboard_calls (st\<lparr>on_flights := (on_flights st)[i := First_key who]\<rparr>) = onboard_calls st"
  using onboard_calls_drop [OF assms(1)] assms(2)
    onboard_calls_drop [of i "st\<lparr>on_flights := (on_flights st)[i := First_key who]\<rparr>"] assms(1)
  by (simp add: drop_flight_def onboard_calls_def)

lemma onboard_calls_frame [simp]:
  "onboard_calls (st\<lparr>on_error := e\<rparr>) = onboard_calls st" "onboard_calls (st\<lparr>on_busy := b\<rparr>) = onboard_calls st"
  "onboard_calls (st\<lparr>on_name := n\<rparr>) = onboard_calls st" "onboard_calls (st\<lparr>on_issued := l\<rparr>) = onboard_calls st"
  "on_busy (drop_flight i st) = on_busy st" "on_issued (drop_flight i st) = on_issued st"
  by (simp_all add: onboard_calls_def drop_flight_def)

interpretation onboard_form: one_call onboard_step "onboard_can cp" onboard_outside on_busy onboard_calls "\<lambda>_. True" for cp
proof
  fix st e assume "onboard_can cp st e"
  then have "offered [Onboard_view cp st] (On_onboard e)" by (auto simp: onboard_can_def visitor_can_def onboards_def)
  from onboard_offers [OF this]
  show "onboard_calls (onboard_step e st) = onboard_calls st \<and> (on_busy st \<longrightarrow> on_busy (onboard_step e st)) \<or>
      \<not> on_busy st \<and> onboard_calls (onboard_step e st) = Suc (onboard_calls st) \<and> on_busy (onboard_step e st)"
    by (auto simp: onboard_step_def onboard_calls_def)
next
  fix st e assume outside: "onboard_outside e"
  show "onboard_calls (onboard_step e st) = onboard_calls st \<and> (on_busy st \<longrightarrow> on_busy (onboard_step e st)) \<or>
      Suc (onboard_calls (onboard_step e st)) = onboard_calls st"
  proof (cases e)
    case (Principal_answered i answer)
    then show ?thesis
      using onboard_calls_drop [of i st] onboard_calls_update [of i st]
      by (auto simp: onboard_step_def split: onboard_flight.splits sum.splits)
  next
    case (Key_issued i answer)
    then show ?thesis
      using onboard_calls_drop [of i st] by (auto simp: onboard_step_def split: onboard_flight.splits sum.splits)
  qed (use outside in simp_all)
qed simp_all

lemma email_submit_calls:
  "length (ef_flights (fst (email_submit (st, w)))) = length (ef_flights st) \<and> ef_busy (fst (email_submit (st, w))) = ef_busy st \<or>
   length (ef_flights (fst (email_submit (st, w)))) = Suc (length (ef_flights st)) \<and> ef_busy (fst (email_submit (st, w))) \<noteq> None"
  by (simp add: email_submit_def email_run_def Let_def)

interpretation email_form: one_call email_step "email_can uid visible" email_outside
    "\<lambda>s. ef_busy (fst s) \<noteq> None" "\<lambda>s. length (ef_flights (fst s))" "\<lambda>_. True" for uid visible
proof
  fix s e assume "email_can uid visible s e"
  then have "offered [EmailSignIn_view uid visible (fst s)] e" by (auto simp: email_can_def visitor_can_def)
  from email_offers [OF this]
  show "length (ef_flights (fst (email_step e s))) = length (ef_flights (fst s)) \<and>
        (ef_busy (fst s) \<noteq> None \<longrightarrow> ef_busy (fst (email_step e s)) \<noteq> None) \<or>
      \<not> ef_busy (fst s) \<noteq> None \<and> length (ef_flights (fst (email_step e s))) = Suc (length (ef_flights (fst s))) \<and>
        ef_busy (fst (email_step e s)) \<noteq> None"
    using email_submit_calls [of "fst s" "snd s"] by (cases s) (auto simp: email_step_def email_run_def)
next
  fix s e assume "email_outside e"
  then show "length (ef_flights (fst (email_step e s))) = length (ef_flights (fst s)) \<and>
        (ef_busy (fst s) \<noteq> None \<longrightarrow> ef_busy (fst (email_step e s)) \<noteq> None) \<or>
      Suc (length (ef_flights (fst (email_step e s)))) = length (ef_flights (fst s))"
    by (cases e; cases s) (auto simp: email_step_def email_settled_def split: sum.splits firebase_action.splits)
qed simp_all

lemma key_click:
  assumes "ev = Submit_key \<and> \<not> kf_busy (fst s) \<or> (\<exists>v. ev = Type_key v)"
  shows "length (kf_flights (fst (key_form_step sl refusal describe ev s))) = length (kf_flights (fst s)) \<and>
        (kf_busy (fst s) \<longrightarrow> kf_busy (fst (key_form_step sl refusal describe ev s))) \<or>
      \<not> kf_busy (fst s) \<and> length (kf_flights (fst (key_form_step sl refusal describe ev s))) = Suc (length (kf_flights (fst s))) \<and>
        kf_busy (fst (key_form_step sl refusal describe ev s))"
  using assms by (cases s) (auto simp: key_form_step_def Let_def split: option.splits)

lemma key_answer:
  assumes "key_outside ev"
  shows "length (kf_flights (fst (key_form_step sl refusal describe ev s))) = length (kf_flights (fst s)) \<and>
        (kf_busy (fst s) \<longrightarrow> kf_busy (fst (key_form_step sl refusal describe ev s))) \<or>
      Suc (length (kf_flights (fst (key_form_step sl refusal describe ev s)))) = length (kf_flights (fst s))"
  using assms by (cases ev; cases s) (auto simp: key_form_step_def Let_def split: sum.splits)

interpretation customer_key_form: one_call customer_login_step "customer_key_can uid visible" key_outside
    "\<lambda>s. kf_busy (fst s)" "\<lambda>s. length (kf_flights (fst s))" "\<lambda>_. True" for uid visible
proof (standard, simp)
  fix s e assume "customer_key_can uid visible s e"
  then have "offered [ApiKeySignIn_view uid visible (fst s)] e" by (auto simp: customer_key_can_def visitor_can_def)
  then have "e = Submit_key \<and> \<not> kf_busy (fst s) \<or> (\<exists>v. e = Type_key v)" using key_form_offers by blast
  then show "length (kf_flights (fst (customer_login_step e s))) = length (kf_flights (fst s)) \<and>
        (kf_busy (fst s) \<longrightarrow> kf_busy (fst (customer_login_step e s))) \<or>
      \<not> kf_busy (fst s) \<and> length (kf_flights (fst (customer_login_step e s))) = Suc (length (kf_flights (fst s))) \<and>
        kf_busy (fst (customer_login_step e s))"
    unfolding customer_login_step_def by (rule key_click)
qed (unfold customer_login_step_def, rule key_answer)

interpretation admin_key_form: one_call admin_login_step "admin_key_can uid visible" key_outside
    "\<lambda>s. kf_busy (fst s)" "\<lambda>s. length (kf_flights (fst s))" "\<lambda>_. True" for uid visible
proof (standard, simp)
  fix s e assume "admin_key_can uid visible s e"
  then have "offered [AdminKey_form uid visible (fst s)] e" by (auto simp: admin_key_can_def visitor_can_def)
  then have "e = Submit_key \<and> \<not> kf_busy (fst s) \<or> (\<exists>v. e = Type_key v)" using key_form_offers by blast
  then show "length (kf_flights (fst (admin_login_step e s))) = length (kf_flights (fst s)) \<and>
        (kf_busy (fst s) \<longrightarrow> kf_busy (fst (admin_login_step e s))) \<or>
      \<not> kf_busy (fst s) \<and> length (kf_flights (fst (admin_login_step e s))) = Suc (length (kf_flights (fst s))) \<and>
        kf_busy (fst (admin_login_step e s))"
    unfolding admin_login_step_def by (rule key_click)
qed (unfold admin_login_step_def, rule key_answer)

section \<open>All of them\<close>

definition onboard_mounted :: onboard where
  "onboard_mounted = \<lparr>on_name = [], on_busy = False, on_error = None, on_issued = [], on_flights = []\<rparr>"


text \<open>What the send form does offer.\<close>

lemma form_child:
  "m \<in> set ks \<Longrightarrow> offered_in (concat (map submits ls)) [m] h \<Longrightarrow> offered_in form (El ''form'' as ls ks # ms) h"
  unfolding offered_El by (simp only: simp_thms if_True) (blast intro: offered_member)

lemma card_child: "offered_in form children h \<Longrightarrow> offered_in form [Card title acts children] h"
  by (simp add: Card_def)

lemma send_child:
  assumes "m \<in> {mode_buttons st, destination_chooser st, send_button st,
      Field (''Amount ('' @ wa_currency (sm_source st) @ '')'') (sv_hint (render_send st))
        [(''inputmode'', ''decimal''), (''placeholder'', ''0.00''), (''value'', sm_amount st)] [On_change Type_amount]}"
    and "offered_in [\<lambda>key. Submit_transfer] [m] h"
  shows "send_can fmt cp st (h key)"
proof -
  have "offered [SendMoney fmt cp st] h"
    unfolding SendMoney_def by (rule card_child, rule form_child [of m]) (use assms in auto)
  then show ?thesis by (auto simp: send_can_def visitor_can_def drawn_with_def)
qed

lemma send_can_edit:
  "send_can fmt cp st (Choose_mode mode key)" "send_can fmt cp st (Type_amount v key)"
  "sm_mode st = Other_account \<Longrightarrow> send_can fmt cp st (Type_destination v key)"
proof -
  show "send_can fmt cp st (Choose_mode mode key)"
    by (rule send_child [of "mode_buttons st"], simp, cases mode) (simp_all add: mode_buttons_def disabled_def)
  show "send_can fmt cp st (Type_amount v key)"
    by (rule send_child [OF insertI2 [OF insertI2 [OF insertI2 [OF singletonI]]]]) (auto simp: Field_def disabled_def)
  show "sm_mode st = Other_account \<Longrightarrow> send_can fmt cp st (Type_destination v key)"
    by (rule send_child [of "destination_chooser st"]) (auto simp: destination_chooser_def Field_def disabled_def)
qed

lemma send_can_submit:
  assumes "sv_button (render_send st) = Retry_button False label \<or> sv_button (render_send st) = Send_button False label"
  shows "send_can fmt cp st Submit_transfer"
  using send_child [of "send_button st" st "\<lambda>key. Submit_transfer"] assms
  by (auto simp: send_button_def markup_defs)

end
