(* ===== verification/Web_Landing.thy ===== *)
theory Web_Landing
  imports Web_Login_Views Web_Demo
begin

text \<open>
  The public page: web/src/pages/Landing.tsx and its sections under web/src/components/landing - the
  bar with its menus, the hero with the live status and the demo, the features, the stages of a payment,
  security, operations and the footer.  Only the bar, the demo, the stages and the status have a state.
\<close>

section \<open>Section.tsx\<close>

definition SectionHeader :: "string \<Rightarrow> string \<Rightarrow> string \<Rightarrow> 'h node" where
  "SectionHeader eyebrow title children =
    block ([para [Txt eyebrow], El ''h2'' [] [] [Txt title]] @ only_if (children \<noteq> []) [para [Txt children]])"

definition Section :: "string \<Rightarrow> 'h node list \<Rightarrow> 'h node" where
  "Section section_id children = El ''section'' [(''id'', section_id)] [] [block children]"

section \<open>Navbar.tsx\<close>

datatype landing_handler = On_navbar navbar_event | On_menu menu_event

definition key_of :: "string \<Rightarrow> menu_key" where
  "key_of k =
    (if k = ''Escape'' then Escape else if k = ''ArrowDown'' then ArrowDown else if k = ''ArrowUp'' then ArrowUp
     else if k = ''Home'' then Home else if k = ''End'' then End else if k = ''Tab'' then Tab else Other_key)"

definition login_item :: "login_option \<Rightarrow> 'h node list" where
  "login_item opt = [span [Txt (lo_label opt)], span [Txt (lo_detail opt)]]"

definition LoginMenu :: "string \<Rightarrow> login_menu \<Rightarrow> landing_handler node" where
  "LoginMenu menuId m =
    block
      (El ''button''
         [(''type'', ''button''), (''aria-haspopup'', ''menu''), (''aria-expanded'', bool_text (lm_open m)),
          (''aria-controls'', menuId)]
         [On_click (On_menu Button_clicked), On_key (\<lambda>k. [On_menu (Button_key (key_of k))])] [Txt ''Login'', icon] #
       only_if (lm_open m)
         [El ''div'' [(''id'', menuId), (''role'', ''menu''), (''aria-label'', ''Login options'')]
            [On_key (\<lambda>k. [On_menu (Menu_key (key_of k))])]
            (map (\<lambda>(i, opt). El ''a'' [(''href'', lo_to opt), (''role'', ''menuitem'')] [On_click (On_menu (Item_chosen i))]
               [span [icon], span (login_item opt)]) (enumerate 0 loginOptions))])"

definition mobile_menu :: "landing_handler node" where
  "mobile_menu =
    El ''div'' [(''id'', ''mobile-menu'')] []
      [El ''ul'' [] []
         (map (\<lambda>(href, label). El ''li'' [] [] [El ''a'' [(''href'', href)] [On_click (On_navbar Section_chosen)] [Txt label]])
           nav_sections),
       block (map (\<lambda>opt. link_to (lo_to opt) [icon, span (login_item opt)]) loginOptions)]"

definition Navbar :: "string \<Rightarrow> navbar \<Rightarrow> login_menu \<Rightarrow> landing_handler node" where
  "Navbar menuId n m =
    El ''header'' [] []
      ([link_to ''#main'' [Txt ''Skip to content''],
        El ''nav'' [(''aria-label'', ''Primary'')] []
          [Logo,
           El ''ul'' [] [] (map (\<lambda>(href, label). El ''li'' [] [] [link_to href [Txt label]]) nav_sections),
           block
             [block [LoginMenu menuId m],
              El ''button''
                [(''type'', ''button''), (''aria-expanded'', bool_text (nb_mobileOpen n)), (''aria-controls'', ''mobile-menu''),
                 (''aria-label'', if nb_mobileOpen n then ''Close menu'' else ''Open menu'')]
                [On_click (On_navbar Toggle_mobile)] [icon]]]] @
       only_if (nb_mobileOpen n) [mobile_menu])"

section \<open>HeroDashboard.tsx\<close>

definition inr :: "int \<Rightarrow> 'h node" where
  "inr amount = (case formatMinor (bigint_text amount) ''INR'' of None \<Rightarrow> Crash | Some t \<Rightarrow> Txt t)"

definition account_name :: "demo \<Rightarrow> nat \<Rightarrow> string" where
  "account_name st i = dm_name (de_accounts st ! i)"

definition demo_account_node :: "demo_account \<Rightarrow> 'h node" where
  "demo_account_node a = block [block [Txt (dm_name a)], block [inr (dm_balance a)], block [Txt (dm_code a)]]"

definition demo_entry_nodes :: "string \<Rightarrow> demo_account \<Rightarrow> int \<Rightarrow> 'h node list" where
  "demo_entry_nodes side a amount = [span [Txt side], span [Txt (dm_code a @ '' '' @ dm_name a)], span [inr amount]]"

definition transfer_rail :: "demo \<Rightarrow> 'h node" where
  "transfer_rail st =
    (let payment = payment_of st; from = de_accounts st ! dp_from payment; to = de_accounts st ! dp_to payment in
     block
       [block [span [Txt ''Transfer '', span [Txt (dp_reference payment)]], span [Txt (phase_badge (de_phase st))]],
        block [span [Txt (dm_name from)], block (only_if (de_phase st = Posting) [span []]), span [Txt (dm_name to)]],
        block [inr (dp_amount payment)],
        block
          (demo_entry_nodes ''DR'' to (dp_amount payment) @ demo_entry_nodes ''CR'' from (dp_amount payment) @
           [span [Txt (utf8 [0x3A3] @ '' debits '' @ utf8 [0x2212] @ '' '' @ utf8 [0x3A3] @ '' credits'')], span [Txt ''0.00'']])])"

definition feed_item :: "demo \<Rightarrow> demo_row \<Rightarrow> 'h node" where
  "feed_item st row =
    (let payment = dr_payment row in
     El ''li'' [] []
       [block
          [block [Txt (dp_reference payment)],
           block [Txt (account_name st (dp_from payment) @ '' '' @ rarrow @ '' '' @ account_name st (dp_to payment))]],
        block [span [inr (dp_amount payment)], span [span [], Txt (status_label (dr_phase row))]]])"

definition HeroDashboard :: "demo \<Rightarrow> 'h node" where
  "HeroDashboard st =
    El ''div''
      [(''role'', ''img''),
       (''aria-label'', ''Demo dashboard: a payment moves between two accounts, is recorded as balanced '' @
          ''ledger entries, and is reconciled.'')] []
      [block [block [span [], span [], span [], span [Txt ''ledger / treasury'']], span [Txt ''Demo data'']],
       block (map demo_account_node (de_accounts st)),
       transfer_rail st,
       block
         [block [span [Txt ''Recent transactions''], span [Txt ''Status'']],
          El ''ul'' [] [] (map (feed_item st) (de_rows st))],
       block
         [block
            [span [icon],
             block
               [block [Txt ''Reconciliation '', span [Txt ''ok: true'']],
                block [Txt (nat_text (length (de_accounts st)) @ ('' balances recomputed from the journal '' @ middot @ '' 0 issues''))]]],
          block [block [Txt (''Total held '' @ middot @ '' conserved'')], block [inr (total st)]]]]"

section \<open>Hero.tsx\<close>

definition LiveStatus :: "readiness async \<Rightarrow> 'h node" where
  "LiveStatus st =
    (let ready = (case as_data st of None \<Rightarrow> False | Some d \<Rightarrow> re_status d = ''ready'');
         pending = (case Option.bind (as_data st) re_outbox of None \<Rightarrow> 0 | Some (pending, _, _) \<Rightarrow> pending) in
     El ''div'' [(''aria-live'', ''polite'')] []
       ([span [],
         Txt
          (if as_loading st then (''Checking ledger API'' @ ellipsis)
           else if ready then (''Live ledger API connected '' @ middot @ '' outbox '') @ nat_text pending @ '' pending''
           else if as_error st \<noteq> None then (''Ledger API offline '' @ dash @ '' the dashboard shows demo data only'')
           else ''Ledger API reachable, database unavailable'')] @
        only_if ready [link_to ''/login/user'' [Txt (''Sign in '' @ rarrow)]]))"

definition hero_figures :: "(string \<times> string) list" where
  "hero_figures =
    [(''0'', ''overdrafts across 7,369 concurrent attempts''), (''1'', ''payment from 50 simultaneous duplicates''),
     (''0'', ''balance drift after load, every account'')]"

definition Hero :: "readiness async \<Rightarrow> demo \<Rightarrow> 'h node" where
  "Hero ready st =
    El ''section'' [] []
      [El ''div'' [(''aria-hidden'', ''true'')] [] [], El ''div'' [(''aria-hidden'', ''true'')] [] [],
       block
         [block
            [para [span [], Txt ''Double-entry payment ledger''],
             El ''h1'' [] [] [Txt ''Every Transaction.'', El ''br'' [] [] [], span [Txt ''Accounted For.'']],
             para [Txt (''A payment ledger built for absolute financial correctness. Prevent duplicate payments, '' @
               ''eliminate balance drift, and prove every transaction.'')],
             block
               [link_to ''#features'' [Txt ''Explore the Platform'', icon],
                link_to ''#documentation'' [Txt ''View Documentation'']],
             LiveStatus ready,
             El ''dl'' [] []
               (map (\<lambda>(figure, label). block [El ''dt'' [] [] [Txt label], El ''dd'' [] [] [Txt figure], El ''dd'' [] [] [Txt label]])
                 hero_figures)],
          block [HeroDashboard st]]]"

section \<open>Features.tsx\<close>

record feature =
  fe_title :: string
  fe_body :: string
  fe_mechanism :: string

definition features :: "feature list" where
  "features =
    [\<lparr>fe_title = ''Double-entry accounting'',
      fe_body = ''Every payment is written twice '' @ dash @ '' out of one account, into another '' @ dash @
        '' in whole paise or cents, never floating point. If the two sides don'' @ apostrophe @
        ''t match, the database refuses to commit.'',
      fe_mechanism = ''deferred balance trigger '' @ middot @ '' bigint''\<rparr>,
     \<lparr>fe_title = ''Atomic transactions'',
      fe_body = ''The ledger entries, the transfer record, its event, and the stored response '' @
        ''commit together or not at all. There is no half-finished payment.'',
      fe_mechanism = ''one SERIALIZABLE transaction''\<rparr>,
     \<lparr>fe_title = ''Idempotent payments'',
      fe_body = ''Retry a timed-out request with the same key and you get the original answer '' @
        ''back, not a second charge. A duplicate still in flight is refused instantly.'',
      fe_mechanism = ''Idempotency-Key '' @ middot @ '' 409 in progress''\<rparr>,
     \<lparr>fe_title = ''Concurrent transfer safety'',
      fe_body = ''Balances can'' @ apostrophe @
        ''t go negative and no update is lost, however many transfers collide. Under '' @
        ''heavy contention a request is refused with a safe, retryable 503 '' @ dash @
        '' never a wrong balance.'',
      fe_mechanism = ''SERIALIZABLE '' @ middot @ '' locks by ID '' @ middot @ '' 12 retries''\<rparr>,
     \<lparr>fe_title = ''Immutable history'',
      fe_body = ''Journal entries can never be edited or deleted '' @ dash @
        '' the database rejects it, even from a raw SQL session. Corrections are new, '' @
        ''visible entries.'',
      fe_mechanism = ''UPDATE / DELETE rejected by trigger''\<rparr>,
     \<lparr>fe_title = ''On-demand reconciliation'',
      fe_body = ''Recompute every balance from the full history and compare it with the stored '' @
        ''value. Drift is reported to the cent and never auto-repaired; the CLI fails a '' @
        ''scheduled job when it finds any.'',
      fe_mechanism = ''POST /v1/admin/reconcile '' @ middot @ '' exit 1''\<rparr>,
     \<lparr>fe_title = ''Crash-safe event delivery'',
      fe_body = ''Each payment'' @ apostrophe @
        ''s event is saved in the same commit as the money, then delivered by a worker. '' @
        ''Kill the server mid-flight and it is delivered after restart, with exactly one '' @
        ''effect.'',
      fe_mechanism = ''outbox '' @ rarrow @ '' idempotent audit inbox''\<rparr>,
     \<lparr>fe_title = ''Secure account ownership'',
      fe_body = ''You can only see and spend from your own accounts. Someone else'' @ apostrophe @
        ''s account answers exactly like one that doesn'' @ apostrophe @ ''t exist '' @ dash @
        '' and ownership can never change hands.'',
      fe_mechanism = ''404, never 403 '' @ middot @ '' immutable owner''\<rparr>]"

definition Features :: "'h node" where
  "Features =
    Section ''features''
      [SectionHeader ''Features'' ''Correctness is the feature.''
         (''Eight guarantees, each with a named automated test. The core accounting rules '' @
      ''are PostgreSQL constraints and triggers, so even a bug in application code '' @
      ''cannot commit an invalid balance.''),
       El ''ul'' [] []
         (map (\<lambda>f. El ''li'' [] []
            [span [icon], El ''h3'' [] [] [Txt (fe_title f)], para [Txt (fe_body f)], para [Txt (fe_mechanism f)]]) features)]"

section \<open>HowItWorks.tsx\<close>

record stage =
  st_title :: string
  st_body :: string
  st_tag :: string

definition steps :: "stage list" where
  "steps =
    [\<lparr>st_title = ''Customer request'',
      st_body = ''A client asks to move money, with an Idempotency-Key and the amount as an '' @
        ''integer string.'',
      st_tag = ''POST /v1/transfers''\<rparr>,
     \<lparr>st_title = ''Authentication'',
      st_body = ''An API key or Firebase token is verified before the request body is even read.'',
      st_tag = ''401 before 400''\<rparr>,
     \<lparr>st_title = ''Idempotency check'',
      st_body = ''The key is claimed. A retry gets the stored answer; a duplicate still in flight '' @
        ''gets 409.'',
      st_tag = ''Idempotency-Key''\<rparr>,
     \<lparr>st_title = ''Database transaction'',
      st_body = ''Both accounts are locked in ID order and funds checked. Conflicts retry, up to '' @
        ''12 times.'',
      st_tag = ''SERIALIZABLE''\<rparr>,
     \<lparr>st_title = ''Ledger entries'',
      st_body = ''Debit, credit, transfer record, outbox event and stored response commit as one.'',
      st_tag = utf8 [0x3A3] @ '' DR = '' @ utf8 [0x3A3] @ '' CR''\<rparr>,
     \<lparr>st_title = ''Reconciliation'',
      st_body = ''Run any time, not per request: every balance is recomputed from the journal and '' @
        ''compared.'',
      st_tag = ''ok: true''\<rparr>]"

definition requestSteps :: nat where
  "requestSteps = length steps - 1"

text \<open>The timer's callback, and the width of the progress bar in percent.\<close>

definition how_tick :: "nat \<Rightarrow> nat" where
  "how_tick active = (active + 1) mod length steps"

definition progress :: "nat \<Rightarrow> nat" where
  "progress active = min active (requestSteps - 1) * 100 div (requestSteps - 1)"

definition stage_item :: "nat \<times> stage \<Rightarrow> 'h node" where
  "stage_item = (\<lambda>(index, s).
    El ''li'' [] []
      (only_if (index < length steps - 1) [El ''span'' [(''aria-hidden'', ''true'')] [] []] @
       [span [icon],
        block
          [block [Txt (if index = requestSteps then ''any time'' else ''0'' @ nat_text (index + 1))],
           El ''h3'' [] [] [Txt (st_title s)], para [Txt (st_body s)], span [Txt (st_tag s)]]]))"

definition HowItWorks :: "nat \<Rightarrow> 'h node" where
  "HowItWorks active =
    Section ''how-it-works''
      [SectionHeader ''How it works'' ''The life of a single payment.''
         (''Five stages run on every request, in order '' @ dash @
      '' a payment that fails any of them leaves no trace in the ledger. A sixth, '' @
      ''independent check proves the books afterwards.''),
       El ''ol'' [] []
         (El ''div'' [(''aria-hidden'', ''true'')] []
            [block [El ''div'' [(''style'', ''width: '' @ nat_text (progress active) @ ''%'')] [] []], block []] #
          map stage_item (enumerate 0 steps))]"

section \<open>Security.tsx\<close>

record control =
  co_title :: string
  co_body :: string

definition controls :: "control list" where
  "controls =
    [\<lparr>co_title = ''Secrets are never stored'',
      co_body = ''API keys are shown once. Only a SHA-256 hash and a 12-character lookup prefix '' @
        ''are kept, so a database leak reveals no usable key. Revocation applies on the '' @
        ''next request.''\<rparr>,
     \<lparr>co_title = ''Verified sign-in'',
      co_body = ''Google and email sign-ins are checked against Google'' @ apostrophe @
        ''s published signing keys for this project only, and email accounts must be '' @
        ''verified first.''\<rparr>,
     \<lparr>co_title = ''Ownership enforced in SQL'',
      co_body = ''Every query is scoped to its owner. Another customer'' @ apostrophe @
        ''s account or transfer answers exactly like one that does not exist.''\<rparr>,
     \<lparr>co_title = ''Rules live in the database'',
      co_body = ''Balanced entries, non-negative balances, immutable history, and fixed ownership '' @
        ''are PostgreSQL constraints and triggers '' @ dash @ '' a raw SQL session can'' @ apostrophe @
        ''t break them either.''\<rparr>,
     \<lparr>co_title = ''Separate operator access'',
      co_body = ''Admin routes take their own static key, compared in constant time. A customer '' @
        ''credential can never reach them, and the admin key is not a customer login.''\<rparr>,
     \<lparr>co_title = ''Nothing leaks before auth'',
      co_body = ''Unauthenticated callers are refused before input is validated, and every '' @
        ''rejection uses one generic message, so probing reveals nothing.''\<rparr>]"

definition limits :: "string list" where
  "limits =
    [''One shared admin key '' @ dash @ '' no operator roles or per-person audit trail yet'',
     ''API keys have no scopes or expiry; they last until revoked'',
     ''No built-in rate limiting; TLS must be terminated in front of the API'',
     ''INR and USD only, with no FX '' @ dash @ '' cross-currency transfers are rejected'']"

record evidence =
  ev_value :: string
  ev_label :: string
  ev_note :: string

definition evidence :: "evidence list" where
  "evidence =
    [\<lparr>ev_value = ''171'',
      ev_label = ''automated tests on real PostgreSQL'',
      ev_note = ''unit '' @ middot @ '' property '' @ middot @ '' integration''\<rparr>,
     \<lparr>ev_value = ''7,369'',
      ev_label = ''concurrent transfer attempts'',
      ev_note = ''zero overdrafts or lost updates''\<rparr>,
     \<lparr>ev_value = ''50 '' @ rarrow @ '' 1'',
      ev_label = ''simultaneous duplicate requests'',
      ev_note = ''exactly one payment posted''\<rparr>,
     \<lparr>ev_value = ''SIGKILL'',
      ev_label = ''process killed mid-transaction'',
      ev_note = ''event delivered once after restart''\<rparr>,
     \<lparr>ev_value = ''707'',
      ev_label = ''accounts reconciled after load'',
      ev_note = ''0 issues '' @ middot @ '' ok: true''\<rparr>]"

definition evidence_aside :: "'h node" where
  "evidence_aside =
    El ''aside'' [(''aria-labelledby'', ''evidence-heading'')] []
      [block [El ''h3'' [(''id'', ''evidence-heading'')] [] [Txt ''Proof, not claims''], span [Txt ''release record v1.2.0'']],
       El ''dl'' [] []
         (map (\<lambda>e. block [El ''dt'' [] [] [Txt (ev_value e)], El ''dd'' [] [] [span [Txt (ev_label e)], span [Txt (ev_note e)]]])
           evidence),
       para [Txt (''Load figures measured on v1.1.0; the transfer path is unchanged since. Raw k6 '' @
      ''output and methodology are published with the source.'')]]"

definition Security :: "'h node" where
  "Security =
    Section ''security''
      [block
         [block
            [SectionHeader ''Security'' (''Built so the wrong thing can'' @ apostrophe @ ''t happen.'')
               (''Defense in depth for money: identity, ownership, and accounting rules are each '' @
      ''enforced at more than one layer.''),
             El ''ul'' [] []
               (map (\<lambda>c. El ''li'' [] []
                  [span [icon], block [El ''h3'' [] [] [Txt (co_title c)], para [Txt (co_body c)]]]) controls),
             block
               [El ''h3'' [] [] [Txt ''Scope, stated plainly''],
                El ''ul'' [] []
                  (map (\<lambda>l. El ''li'' [] [] [El ''span'' [(''aria-hidden'', ''true'')] [] [], Txt l]) limits)]],
          evidence_aside]]"

section \<open>Operations.tsx\<close>

record tool =
  tl_title :: string
  tl_body :: string
  tl_command :: string

definition tools :: "tool list" where
  "tools =
    [\<lparr>tl_title = ''Health & readiness'',
      tl_body = ''Liveness never touches the database. Readiness runs a real query and reports '' @
        ''the outbox backlog, answering 503 when PostgreSQL is unreachable.'',
      tl_command = ''GET /health/ready''\<rparr>,
     \<lparr>tl_title = ''Prometheus metrics'',
      tl_body = ''Completed transfers, serialization retries, retries exhausted, and outbox depth '' @
        ''by status '' @ dash @ '' behind the admin key, ready to scrape.'',
      tl_command = ''GET /metrics''\<rparr>,
     \<lparr>tl_title = ''Dead-letter replay'',
      tl_body = ''An event that fails 12 deliveries is parked, not lost. Operators can inspect it '' @
        ''and replay it with a fresh budget; its last error is kept.'',
      tl_command = ''npm run outbox replay <event-id>''\<rparr>,
     \<lparr>tl_title = ''Retention sweeps'',
      tl_body = ''Processed events (30 days) and idempotency records (7 days) are swept in '' @
        ''bounded batches. The audit trail cannot be deleted '' @ dash @ '' the database refuses.'',
      tl_command = ''npm run retention -- --dry-run''\<rparr>,
     \<lparr>tl_title = ''Reconciliation in a cron job'',
      tl_body = ''The same check as the admin console, from the command line. It exits non-zero '' @
        ''on any drift, so a scheduled job fails loudly.'',
      tl_command = ''npm run reconcile''\<rparr>,
     \<lparr>tl_title = ''Traceable errors'',
      tl_body = ''Every error has one shape and carries a request ID you can supply yourself. '' @
        ''Credentials are redacted from every log line.'',
      tl_command = ''x-request-id''\<rparr>]"

definition Operations :: "'h node" where
  "Operations =
    Section ''operations''
      [SectionHeader ''Operations'' ''Built to be run, not just demoed.''
         (''A worker, an outbox, and a handful of operator tools '' @ dash @
      '' all in one process against one PostgreSQL. No broker, no extra infrastructure.''),
       El ''ul'' [] []
         (map (\<lambda>t. El ''li'' [] []
            [El ''h3'' [] [] [Txt (tl_title t)], para [Txt (tl_body t)],
             El ''code'' [] [] [span [Txt (utf8 [0x203A] @ '' '')], Txt (tl_command t)]]) tools)]"

section \<open>Footer.tsx and docs-links.ts\<close>

definition repositoryUrl :: string where
  "repositoryUrl = ''https://github.com/pkc144/PulseLedger''"

text \<open>\<open>env\<close> is \<open>VITE_DOCS_BASE_URL\<close>.\<close>

definition docsBaseUrl :: "string option \<Rightarrow> string" where
  "docsBaseUrl env = (case given env of [] \<Rightarrow> repositoryUrl @ ''/blob/main/docs'' | url # _ \<Rightarrow> url)"

definition docsLinks :: "string option \<Rightarrow> (string \<times> string) list" where
  "docsLinks env =
    [(docsBaseUrl env @ ''/API.md'', ''API reference''), (docsBaseUrl env @ ''/ARCHITECTURE.md'', ''Architecture''),
     (docsBaseUrl env @ ''/adr/README.md'', ''Decision records''), (docsBaseUrl env @ ''/TESTING.md'', ''Testing & proof''),
     (docsBaseUrl env @ ''/TRADEOFFS.md'', ''Trade-offs & limits''), (repositoryUrl, ''Source on GitHub'')]"

definition productLinks :: "(string \<times> string) list" where
  "productLinks =
    [(''#features'', ''Features''), (''#how-it-works'', ''How It Works''), (''#security'', ''Security''),
     (''#operations'', ''Operations'')]"

definition Column :: "string option \<Rightarrow> string \<Rightarrow> 'h node list \<Rightarrow> 'h node" where
  "Column column_id title children =
    El ''div'' (case column_id of None \<Rightarrow> [] | Some i \<Rightarrow> [(''id'', i)]) [] [El ''h2'' [] [] [Txt title], El ''ul'' [] [] children]"

definition Footer :: "string option \<Rightarrow> 'h node" where
  "Footer env =
    El ''footer'' [] []
      [block
         [block [Logo, para [Txt (''A correctness-first double-entry payment ledger. Money as integers, history as '' @ ''fact.'')]],
          Column None ''Product'' (map (\<lambda>(href, label). El ''li'' [] [] [link_to href [Txt label]]) productLinks),
          Column (Some ''documentation'') ''Documentation''
            (map (\<lambda>(href, label). El ''li'' [] []
               [El ''a'' [(''href'', href), (''target'', ''_blank''), (''rel'', ''noreferrer'')] []
                  [Txt label, span [Txt '' (opens in a new tab)'']]]) (docsLinks env)),
          Column None ''Access''
            [El ''li'' [] [] [link_to ''/login/user'' [Txt ''User Login'']],
             El ''li'' [] [] [link_to ''/login/admin'' [Txt ''Admin Login'']]]],
       para [Txt (''Dashboard figures on this page are demo data. Evidence figures are from the '' @
      ''published release records.'')]]"

section \<open>Landing.tsx\<close>

record landing =
  la_navbar :: navbar
  la_menu :: login_menu
  la_ready :: "readiness async"
  la_demo :: demo
  la_active :: nat

definition Landing_view :: "string option \<Rightarrow> string \<Rightarrow> landing \<Rightarrow> landing_handler node" where
  "Landing_view env menuId st =
    block
      [Navbar menuId (la_navbar st) (la_menu st),
       El ''main'' [(''id'', ''main'')] []
         [Hero (la_ready st) (la_demo st), Features, HowItWorks (la_active st), Security, Operations],
       Footer env]"

end
