(* ===== verification/Web_Links.thy ===== *)
theory Web_Links
  imports Web_Single_Calls Web_Landing Web_Access
begin

text \<open>
  Where the links of the pages lead: every link inside the application is one of the routes of App.tsx,
  and every anchor of the public page names a section of it.
\<close>

section \<open>Links\<close>

text \<open>The segments of a path, as the router splits it.\<close>

fun slash_parts :: "string \<Rightarrow> string list" where
  "slash_parts [] = []"
| "slash_parts (c # cs) =
    (if c = CHR ''/'' then [] # slash_parts cs
     else (case slash_parts cs of [] \<Rightarrow> [[c]] | s # ss \<Rightarrow> (c # s) # ss))"

definition location_of :: "string \<Rightarrow> location" where
  "location_of href = filter (\<lambda>s. s \<noteq> []) (slash_parts href)"

text \<open>
  A link is alive if it names an id of its page or a route of the application - the last route, for
  any other path, sends to the public page; other addresses are not the application's.
\<close>

definition link_alive :: "visitor \<Rightarrow> string list \<Rightarrow> string \<Rightarrow> bool" where
  "link_alive v there href \<longleftrightarrow>
    (if take 1 href = ''#'' then drop 1 href \<in> set there
     else if take 1 href = ''/'' then render_location v (location_of href) \<noteq> Navigate [] else True)"

lemma collect_simps:
  "hrefs (El t as ls ks) =
    (if t = ''a'' then (case map_of as ''href'' of None \<Rightarrow> [] | Some x \<Rightarrow> [x]) else []) @ concat (map hrefs ks)"
  "hrefs (Txt s) = []" "hrefs Crash = []"
  "ids (El t as ls ks) = (case map_of as ''id'' of None \<Rightarrow> [] | Some x \<Rightarrow> [x]) @ concat (map ids ks)"
  "ids (Txt s) = []" "ids Crash = []"
  by (simp_all add: hrefs_def ids_def)

lemma silent_links [simp]:
  "hrefs icon = []" "hrefs (Money a c) = []" "hrefs (StatusPill t) = []" "hrefs (CopyText copied short s) = []"
  "concat (map hrefs (ErrorBanner e)) = []" "hrefs (link_to x ms) = x # concat (map hrefs ms)" "hrefs Logo = [''/'']"
  "hrefs (Card title acts ms) = concat (map hrefs title) @ concat (map hrefs acts) @ concat (map hrefs ms)"
  "hrefs (Button props ls label) = []" "hrefs (Field lab hint props ls) = []"
  "hrefs (Select lab props ls ms) = concat (map hrefs ms)" "hrefs (option_node x y) = []"
  "hrefs (TextField uid lab hint err trailing props ls) = concat (map hrefs trailing)"
  "hrefs (SecretField uid visible lab hint err props ls) = []" "hrefs (SubmitButton working busyLabel off lab) = []"
  "hrefs (Alert tone ms) = concat (map hrefs ms)" "hrefs (with_text v k f) = (case json_field v k of Some (JString s) \<Rightarrow> hrefs (f s) | _ \<Rightarrow> [])"
  by (auto simp: collect_simps icon_def Money_def StatusPill_def CopyText_def ErrorBanner_def link_to_def Logo_def Card_def
      Button_def Field_def Select_def option_node_def TextField_def SecretField_def SubmitButton_def Alert_def with_text_def
      given_def Let_def split: option.split json.split list.split field_note.split)

section \<open>The public page\<close>

lemma static_links [simp]:
  "hrefs Features = []" "hrefs (HowItWorks active) = []" "hrefs Security = []" "hrefs Operations = []" "hrefs (inr n) = []"
  "hrefs (feed_item dm row) = []" "hrefs (demo_account_node a) = []" "hrefs (transfer_rail dm) = []" "hrefs (HeroDashboard dm) = []"
  by (simp_all add: Features_def HowItWorks_def stage_item_def Security_def evidence_aside_def Operations_def Section_def
      SectionHeader_def inr_def HeroDashboard_def demo_account_node_def transfer_rail_def demo_entry_nodes_def feed_item_def
      collect_simps Let_def comp_def split_def split: option.split)

text \<open>Where the page leads, the documentation aside.\<close>

definition landing_targets :: "string list" where
  "landing_targets =
    [''/'', ''#main'', ''#features'', ''#how-it-works'', ''#security'', ''#operations'', ''#documentation'',
     ''/login/user'', ''/login/admin'']"

lemma navbar_hrefs: "set (hrefs (Navbar menuId n m)) \<subseteq> set landing_targets"
  by (simp add: Navbar_def nav_sections_def LoginMenu_def loginOptions_def login_item_def mobile_menu_def collect_simps
      landing_targets_def)

lemma hero_hrefs: "set (hrefs (Hero ready dm)) \<subseteq> set landing_targets"
  by (simp add: Hero_def LiveStatus_def hero_figures_def collect_simps Let_def landing_targets_def)

lemma docs_hrefs:
  "concat (map (hrefs \<circ> (\<lambda>(href, label). El ''li'' [] []
      [El ''a'' [(''href'', href), (''target'', ''_blank''), (''rel'', ''noreferrer'')] [] [Txt label, span [Txt note]]])) links) =
    map fst links"
  by (induction links) (simp_all add: collect_simps split_def)

lemma footer_hrefs: "set (hrefs (Footer env)) \<subseteq> set landing_targets \<union> fst ` set (docsLinks env)"
  by (simp add: Footer_def Column_def productLinks_def collect_simps docs_hrefs landing_targets_def subset_insertI2)

lemma landing_hrefs:
  "set (hrefs (Landing_view env menuId st)) \<subseteq> set landing_targets \<union> fst ` set (docsLinks env)"
  by (simp add: Landing_view_def collect_simps footer_hrefs le_supI1 navbar_hrefs hero_hrefs)

lemma landing_ids:
  "{''main'', ''features'', ''how-it-works'', ''security'', ''operations'', ''documentation''} \<subseteq>
    set (ids (Landing_view env menuId st))"
  by (simp add: Landing_view_def Features_def HowItWorks_def Security_def Operations_def Section_def Footer_def Column_def
      collect_simps)

section \<open>The other pages\<close>

text \<open>The parts of the console without links.\<close>

lemma part_links [simp]:
  "hrefs (mode_buttons st) = []" "hrefs (destination_chooser st) = []" "hrefs (send_button st) = []"
  "hrefs (receipt_node fmt cp transfer) = []" "hrefs (entry_row_node fmt cp c e) = []" "hrefs (issued_item cp x) = []"
  "hrefs (jsx_child y) = []" "hrefs (stat_node lab n warn) = []"
  by (simp_all add: mode_buttons_def destination_chooser_def send_button_def receipt_node_def entry_row_node_def issued_item_def
      jsx_child_def stat_node_def collect_simps comp_def split_def
      split: destination_mode.split button_view.split option.split json.split)

lemma issue_links [simp]: "hrefs (issue_node cp i) = []"
  by (simp add: issue_node_def collect_simps split: option.split json.split)

lemma console_links [simp]:
  "hrefs (SendMoney fmt cp st) = []" "hrefs (History_view fmt cp c hist) = []" "hrefs (Onboard_view cp ost) = []"
  "hrefs (Fund_view cp fst') = []" "hrefs (Reconcile_view fmt cp rst) = []" "hrefs (Metrics_view metrics ready) = []"
  "hrefs (Revoke_view vst) = []" "hrefs (HealthBadge ready) = []" "hrefs (open_account_card dst) = []"
proof -
  show "hrefs (SendMoney fmt cp st) = []"
    by (cases "sm_receipt st") (simp_all add: SendMoney_def collect_simps split_def)
  show "hrefs (Fund_view cp fst') = []"
    by (cases "ff_result fst'") (simp_all add: Fund_view_def collect_simps split: option.split json.split)
  show "hrefs (Reconcile_view fmt cp rst) = []"
    by (cases "pn_result rst")
      (simp_all add: Reconcile_view_def report_nodes_def collect_simps comp_def split: option.split json.split)
  show "hrefs (HealthBadge ready) = []"
    by (cases "failed_events ready") (simp_all add: HealthBadge_def collect_simps)
qed (simp_all add: History_view_def Onboard_view_def Metrics_view_def Revoke_view_def open_account_card_def
  collect_simps comp_def Let_def)

lemma layout_hrefs: "set (hrefs (Layout_view ready outlet)) = {''/'', ''/app'', ''/admin''} \<union> set (hrefs outlet)"
  by (auto simp: Layout_view_def collect_simps)

lemma dashboard_hrefs:
  "set (hrefs (Dashboard_view fmt cp who st)) \<subseteq> (\<lambda>a. ''/app/accounts/'' @ wa_id a) ` set (shown_accounts st)"
proof -
  have card: "hrefs (account_card fmt a) = [''/app/accounts/'' @ wa_id a]" for a :: web_account
    by (simp add: account_card_def collect_simps)
  show ?thesis
    by (auto simp: Dashboard_view_def collect_simps card account_list_def comp_def split: account_list_view.splits if_splits)
qed

lemma account_hrefs: "set (hrefs (AccountDetail_view fmt cp st sending hist)) \<subseteq> {''/app''}"
  by (simp add: AccountDetail_view_def BackLink_def account_header_def collect_simps split: account_page_view.split)

lemma admin_hrefs: "hrefs (Admin_view fmt cp st) = []" "hrefs (VerifyEmail_view email vst) = []"
  by (simp add: Admin_view_def collect_simps)
    (cases "ve_message vst"; simp add: VerifyEmail_view_def collect_simps split_def)

lemma login_hrefs:
  "set (hrefs (UserLogin_view configured uid visible selected email key)) = {''/''}"
  "set (hrefs (AdminLogin_view uid visible key)) = {''/''}"
proof -
  have shell: "set (hrefs (AuthShell title subtitle aside ms)) = {''/''} \<union> set (concat (map hrefs ms))" for title subtitle aside ms
    by (simp add: AuthShell_def collect_simps comp_def)
  have "hrefs (EmailSignIn_view uid visible email) = []" "hrefs (ApiKeySignIn_view uid visible key) = []"
    "hrefs (AdminKey_form uid visible key) = []"
    by (auto simp: EmailSignIn_view_def google_button_def password_field_def ApiKeySignIn_view_def AdminKey_form_def collect_simps)
  then show "set (hrefs (UserLogin_view configured uid visible selected email key)) = {''/''}"
    "set (hrefs (AdminLogin_view uid visible key)) = {''/''}"
    by (auto simp: UserLogin_view_def AdminLogin_view_def shell method_tab_def login_panel_def FirebaseUnavailable_def collect_simps
        split: login_method.splits)
qed

section \<open>None is dead\<close>

lemma routes_alive:
  "link_alive v there ''/''" "link_alive v there ''/app''" "link_alive v there ''/admin''"
  "link_alive v there ''/login/user''" "link_alive v there ''/login/admin''"
  by (simp_all add: link_alive_def location_of_def render_location_def static_segments customer_page_def admin_only_def
      user_login_def admin_login_def split: firebase_user.split)

lemma slash_parts_plain: "CHR ''/'' \<notin> set s \<Longrightarrow> s \<noteq> [] \<Longrightarrow> slash_parts s = [s]"
proof (induction s)
  case (Cons c s)
  then show ?case by (cases s) auto
qed simp

lemma account_alive:
  assumes "CHR ''/'' \<notin> set i" and "i \<noteq> []"
  shows "link_alive v there (''/app/accounts/'' @ i)"
proof -
  have "location_of (''/app/accounts/'' @ i) = [''app'', ''accounts'', i]"
    using slash_parts_plain [OF assms] assms(2) by (simp add: location_of_def)
  moreover have "uuid_in ''accounts'' = ''accounts''" by code_simp
  ultimately show ?thesis
    by (simp add: link_alive_def render_location_def static_segments customer_page_def split: firebase_user.split)
qed

lemma landing_alive:
  assumes "href \<in> set landing_targets"
  shows "link_alive v (ids (Landing_view env menuId st)) href"
proof -
  have "href \<in> {''/'', ''/login/user'', ''/login/admin''} \<or>
      (\<exists>x\<in>{''main'', ''features'', ''how-it-works'', ''security'', ''operations'', ''documentation''}. href = CHR ''#'' # x)"
    using assms by (auto simp: landing_targets_def)
  then show ?thesis
  proof (elim disjE bexE)
    fix x assume x: "x \<in> {''main'', ''features'', ''how-it-works'', ''security'', ''operations'', ''documentation''}" "href = CHR ''#'' # x"
    then have "x \<in> set (ids (Landing_view env menuId st))" using landing_ids by blast
    with x(2) show ?thesis by (simp add: link_alive_def)
  qed (use routes_alive in auto)
qed

section \<open>The site\<close>

text \<open>The states of all components, and what App.tsx renders for a page; handlers are forgotten.\<close>

record site =
  si_docs :: "string option"
  si_menuId :: string
  si_landing :: landing
  si_ready :: "readiness async"
  si_formatTime :: "string \<Rightarrow> string"
  si_copied :: "string \<Rightarrow> bool"
  si_who :: "string option"
  si_dashboard :: dashboard
  si_account :: account_page
  si_sending :: send_form
  si_history :: history
  si_admin :: admin_page
  si_email :: string
  si_verify :: verify_form
  si_configured :: bool
  si_uid :: "nat \<Rightarrow> string"
  si_visible :: bool
  si_method :: login_method
  si_emailForm :: email_form
  si_keyForm :: key_form

abbreviation inert :: "'h node \<Rightarrow> unit node" where
  "inert \<equiv> map_node (\<lambda>_. ())"

definition page_node :: "site \<Rightarrow> page \<Rightarrow> unit node" where
  "page_node x p =
    (case p of
       Landing_page \<Rightarrow> inert (Landing_view (si_docs x) (si_menuId x) (si_landing x))
     | User_login_page \<Rightarrow>
         inert (UserLogin_view (si_configured x) (si_uid x) (si_visible x) (si_method x) (si_emailForm x) (si_keyForm x))
     | Admin_login_page \<Rightarrow> inert (AdminLogin_view (si_uid x) (si_visible x) (si_keyForm x))
     | Restoring_page \<Rightarrow> Layout_view (si_ready x) (para [Txt (''Restoring your session'' @ ellipsis)])
     | Verify_email_page \<Rightarrow> Layout_view (si_ready x) (inert (VerifyEmail_view (si_email x) (si_verify x)))
     | Dashboard_page \<Rightarrow>
         Layout_view (si_ready x) (inert (Dashboard_view (si_formatTime x) (si_copied x) (si_who x) (si_dashboard x)))
     | Account_page i \<Rightarrow>
         Layout_view (si_ready x)
           (inert (AccountDetail_view (si_formatTime x) (si_copied x) (si_account x) (si_sending x) (si_history x)))
     | Admin_page \<Rightarrow> Layout_view (si_ready x) (inert (Admin_view (si_formatTime x) (si_copied x) (si_admin x))))"

lemma page_links_alive:
  assumes accounts: "\<forall>a\<in>set (shown_accounts (si_dashboard x)). CHR ''/'' \<notin> set (wa_id a) \<and> wa_id a \<noteq> []"
    and href: "href \<in> set (hrefs (page_node x p))"
  shows "href \<in> fst ` set (docsLinks (si_docs x)) \<or> link_alive v (ids (page_node x p)) href"
proof (cases "p = Landing_page")
  case True
  with href landing_hrefs have "href \<in> fst ` set (docsLinks (si_docs x)) \<or> href \<in> set landing_targets"
    by (fastforce simp: page_node_def)
  with True landing_alive show ?thesis by (auto simp: page_node_def)
next
  case False
  have account: "link_alive v there (''/app/accounts/'' @ wa_id a)" if "a \<in> set (shown_accounts (si_dashboard x))" for a there
    using accounts that by (intro account_alive) auto
  have "href \<in> {''/'', ''/app'', ''/admin''} \<or> (\<exists>a\<in>set (shown_accounts (si_dashboard x)). href = ''/app/accounts/'' @ wa_id a)"
    using href False dashboard_hrefs [of "si_formatTime x" "si_copied x" "si_who x" "si_dashboard x"]
      account_hrefs [of "si_formatTime x" "si_copied x" "si_account x" "si_sending x" "si_history x"]
    by (cases p) (auto simp: page_node_def layout_hrefs login_hrefs admin_hrefs collect_simps)
  with account routes_alive show ?thesis by auto
qed


end
