(* ===== verification/Web_Views.thy ===== *)
theory Web_Views
  imports Web_Single_Calls Web_Landing Web_Answers
begin

text \<open>
  What the pages show and where they lead: that no link of a rendered page is dead, that the dashboard
  shows the balances of the ledger, and concrete runs of the forms through their markup.
\<close>

section \<open>Forms at work\<close>

text \<open>
  The visitor types a transfer in and sends it; the answer is lost, and it is sent again.  While this is
  awaited the amount is changed to and fro; then the service answers that the first request is still running.
\<close>

definition edited_in_flight :: "send_event list" where
  "edited_in_flight =
    [Choose_mode Other_account (draw 1), Type_destination bob_account (draw 2), Type_amount ''2.50'' (draw 3), Submit_transfer,
     Transfer_answered 0 (Inl (ApiError 0 (JString ''NETWORK_ERROR'') [] None)) (draw 4), Submit_transfer,
     Type_amount ''2.5'' (draw 5), Type_amount ''2.50'' (draw 6),
     Transfer_answered 0 (Inl (ApiError 409 (JString ''IDEMPOTENCY_IN_PROGRESS'') [] None)) (draw 7)]"

lemmas send_run = send_step_def send_handler_def send_edit_def send_submit_def send_answered_def
  send_body_def amount_parsed settle_destination_def candidates_def send_mounted_def bob_trim bob_account_nonempty
  sample_source_def Let_def retryable_code_def

text \<open>
  The form now offers to retry safely, under the same idempotency key - which the edits have replaced: the
  payment goes out under a second key while the first may be completing, and both can be posted.
\<close>

lemma edited_retry_pays_again:
  "admitted_run send_step (admitted_by (send_can fmt cp) send_outside) (edited_in_flight @ [Submit_transfer])
      (send_mounted sample_source [] (draw 0)) \<and>
   sv_button (render_send (fold send_step edited_in_flight (send_mounted sample_source [] (draw 0)))) =
      Retry_button False ''Retry safely (same idempotency key)'' \<and>
   sm_sent (fold send_step (edited_in_flight @ [Submit_transfer]) (send_mounted sample_source [] (draw 0))) =
      [(draw 3, transfer_body alice_account bob_account ''250''), (draw 3, transfer_body alice_account bob_account ''250''),
       (draw 6, transfer_body alice_account bob_account ''250'')]"
proof (intro conjI)
  show "sv_button (render_send (fold send_step edited_in_flight (send_mounted sample_source [] (draw 0)))) =
      Retry_button False ''Retry safely (same idempotency key)''"
    by (simp add: edited_in_flight_def send_run render_send_def)
  show "sm_sent (fold send_step (edited_in_flight @ [Submit_transfer]) (send_mounted sample_source [] (draw 0))) =
      [(draw 3, transfer_body alice_account bob_account ''250''), (draw 3, transfer_body alice_account bob_account ''250''),
       (draw 6, transfer_body alice_account bob_account ''250'')]"
    by (simp add: edited_in_flight_def send_run)
  show "admitted_run send_step (admitted_by (send_can fmt cp) send_outside) (edited_in_flight @ [Submit_transfer])
      (send_mounted sample_source [] (draw 0))"
    by (simp add: edited_in_flight_def admitted_by_def send_can_edit)
      (auto simp: send_run render_send_def intro!: send_can_edit send_can_submit)
qed

lemma block_child: "offered_in form ms h \<Longrightarrow> offered_in form [block ms] h"
  by simp

lemma offered_fields:
  "fund_can cp st (Type_fund_amount v key)" "onboard_can cp ost (On_type v)" if "On_type = Type_name" for On_type
proof -
  have "offered [Fund_view cp st] (Type_fund_amount v)"
    unfolding Fund_view_def by (rule card_child) (auto simp: Field_def disabled_def)
  then show "fund_can cp st (Type_fund_amount v key)" by (auto simp: fund_can_def visitor_can_def drawn_with_def)
  have "offered [Onboard_view cp ost] (On_onboard (Type_name v))"
    unfolding Onboard_view_def by (rule card_child) (auto simp: Field_def disabled_def)
  then show "onboard_can cp ost (On_type v)" using that by (auto simp: onboard_can_def visitor_can_def onboards_def)
qed

lemma field_open:
  "\<not> disabled props \<Longrightarrow> map_of [(''id'', uid), (''aria-describedby'', x)] ''disabled'' = None \<Longrightarrow>
    offered_in form [SecretField uid visible label hint None props [On_change f]] (f v)"
  by (auto simp: SecretField_def TextField_def disabled_def given_def secret_type_def split: option.split)

lemma key_field_offered:
  assumes "\<not> kf_busy (fst st)"
  shows "customer_key_can uid visible st (Type_key v)" "admin_key_can uid visible st (Submit_key)"
proof -
  have "offered [ApiKeySignIn_view uid visible (fst st)] (Type_key v)"
    unfolding ApiKeySignIn_view_def
    by (rule form_child [where m = "SecretField a b c d e g h" for a b c d e g h])
      (use assms in \<open>auto intro!: field_open simp: flag_def disabled_def\<close>)
  then show "customer_key_can uid visible st (Type_key v)" by (simp add: customer_key_can_def visitor_can_def)
  have "offered [AdminKey_form uid visible (fst st)] Submit_key"
    unfolding AdminKey_form_def
    by (rule form_child [where m = "SubmitButton False b False d" for b d]) (use assms in auto)
  then show "admin_key_can uid visible st Submit_key" by (simp add: admin_key_can_def visitor_can_def)
qed

lemma email_submit_offered:
  assumes "ef_busy (fst st) = None" and "ef_mode (fst st) = Mode_signin"
  shows "email_can uid visible st Submit_email"
proof -
  have "offered [EmailSignIn_view uid visible (fst st)] Submit_email"
    unfolding EmailSignIn_view_def
    by (rule offered_member [OF _ form_child [where m = "SubmitButton False b False d" for b d], THEN block_child], simp add: assms)
      (use assms in auto)
  then show ?thesis by (simp add: email_can_def visitor_can_def)
qed


end
