(* ===== verification/Web_Books.thy ===== *)
theory Web_Books
  imports Web_Links Web_Views Reply_Types Http_Witnesses
begin

text \<open>
  From the ledger to the eye: what the dashboard shows of the accounts in the database, once the
  client has read them from the service page by page.
\<close>

section \<open>The client's accounts\<close>

text \<open>An account as the client reads it from a reply.\<close>

definition web_account_of :: "json \<Rightarrow> web_account" where
  "web_account_of v =
    \<lparr>wa_id = text_property v ''id'', wa_currency = text_property v ''currency'',
     wa_balanceMinor = text_property v ''balanceMinor'', wa_status = text_property v ''status'',
     wa_createdAt = text_property v ''createdAt''\<rparr>"

definition web_row :: "account_row \<Rightarrow> web_account" where
  "web_row r = web_account_of (account_json (account_view r))"

lemma web_row_simps [simp]:
  "wa_id (web_row r) = acc_id r" "wa_currency (web_row r) = acc_currency r"
  "wa_balanceMinor (web_row r) = bigint_text (acc_balance_minor r)"
  by (simp_all add: web_row_def web_account_of_def account_json_def account_view_def text_property_def json_field_def)

text \<open>What \<open>client.listAccounts()\<close> resolves or rejects with, for the credential of \<open>owner\<close>.\<close>

definition accounts_answer :: "cursor_codec \<Rightarrow> uuid \<Rightarrow> db \<Rightarrow> web_error + web_account list" where
  "accounts_answer codec owner s =
    map_sum id (map (web_account_of \<circ> account_json)) (listAccounts (accounts_page codec owner s))"

definition loaded_dashboard :: "cursor_codec \<Rightarrow> uuid \<Rightarrow> db \<Rightarrow> dashboard" where
  "loaded_dashboard codec owner s = dashboard_step (Accounts_settled 1 (accounts_answer codec owner s)) dashboard_mounted"

lemma accounts_read:
  assumes "distinct (map acc_id (accounts s))" and "cursors_travel codec owner s"
  shows "accounts_answer codec owner s = Inr (map web_row (take 5000 (owned_accounts owner s)))"
  by (simp add: accounts_answer_def all_accounts_listed [OF assms] take_map web_row_def comp_def)

lemma loaded_accounts:
  assumes "distinct (map acc_id (accounts s))" and "cursors_travel codec owner s"
  shows "as_data (da_accounts (loaded_dashboard codec owner s)) = Some (map web_row (take 5000 (owned_accounts owner s)))"
    "as_error (da_accounts (loaded_dashboard codec owner s)) = None"
    "as_loading (da_accounts (loaded_dashboard codec owner s)) = False"
    "da_createError (loaded_dashboard codec owner s) = None"
  by (simp_all add: loaded_dashboard_def dashboard_step_def dashboard_mounted_def accounts_read [OF assms]
      async_settle_def async_start_def async_initial_def)

section \<open>The ledger on the screen\<close>

text \<open>All elements of a tree.\<close>

fun parts :: "'h node \<Rightarrow> 'h node list" where
  "parts (El t as ls ks) = El t as ls ks # concat (map parts ks)"
| "parts (Txt s) = [Txt s]"
| "parts Crash = [Crash]"

lemma zero_shown: "toLocaleString m 0 = ''0''"
  by (simp add: toLocaleString_def nat_text_small digit_char_0 grouped_rev.simps [of 3])

lemma money_text:
  obtains amount where "Money (nat_text n) currency = span [Txt ((case symbols currency of Some s \<Rightarrow> s | None \<Rightarrow> currency @ '' '') @ amount)]"
    and "if n = 0 then amount = ''0.00'' else parseMajorToMinor amount = Some (nat_text n)"
proof
  let ?text = "toLocaleString (if currency = ''INR'' then 2 else 3) (int (n div 100)) @ ''.'' @
      [digit_char (n div 10 mod 10), digit_char (n mod 10)]"
  show "Money (nat_text n) currency = span [Txt ((case symbols currency of Some s \<Rightarrow> s | None \<Rightarrow> currency @ '' '') @ ?text)]"
    by (simp add: Money_def formatMinor_nat_text)
  show "if n = 0 then ?text = ''0.00'' else parseMajorToMinor ?text = Some (nat_text n)"
    using parse_shown [of _ n] by (simp add: zero_shown digit_char_0)
qed

lemma money_renders [simp]: "renders (Money (nat_text n) currency)"
  by (simp add: Money_def formatMinor_nat_text)

lemma owned_balance:
  assumes "db_inv s" and "r \<in> set (owned_accounts owner s)"
  shows "0 \<le> acc_balance_minor r" "acc_balance_minor r = journal_balance (journal_entries s) (acc_id r)"
proof -
  have r: "r \<in> set (accounts s)" "owned_by owner r" using assms(2) by (auto simp: owned_accounts_def)
  then have "account_sound s r" using assms(1) by (simp add: db_inv_def ledger_inv_def)
  with r(2) show "0 \<le> acc_balance_minor r" "acc_balance_minor r = journal_balance (journal_entries s) (acc_id r)"
    by (auto simp: account_sound_def account_row_ok_def owned_by_def)
qed

lemma dashboard_renders:
  assumes "\<forall>a\<in>set (shown_accounts st). \<exists>n. wa_balanceMinor a = nat_text n"
  shows "renders (Dashboard_view fmt cp who st)"
  using assms
  by (auto simp: Dashboard_view_def account_list_def account_card_def open_account_card_def link_to_def StatusPill_def Card_def
      CopyText_def Button_def Select_def option_node_def ErrorBanner_def Let_def list_all_iff currencies_def
      split: account_list_view.split option.split)

text \<open>The card of an account, and the amount it shows.\<close>

lemma card_shown:
  assumes "a \<in> set (shown_accounts st)" and "as_loading (da_accounts st) = False" and "wa_balanceMinor a = nat_text n"
  shows "account_card fmt a \<in> set (parts (Dashboard_view fmt cp who st))"
    and "(Money (nat_text n) (wa_currency a) :: dashboard_handler node) \<in> set (parts (account_card fmt a))"
proof -
  have own: "m \<in> set (parts m)" for m :: "dashboard_handler node" by (cases m) auto
  have "account_list st = List_of (shown_accounts st)" using assms(1,2) by (auto simp: account_list_def)
  then show "account_card fmt a \<in> set (parts (Dashboard_view fmt cp who st))"
    using assms(1) own by (auto simp: Dashboard_view_def)
  show "(Money (nat_text n) (wa_currency a) :: dashboard_handler node) \<in> set (parts (account_card fmt a))"
    using own [of "Money (nat_text n) (wa_currency a)"] assms(3) by (simp add: account_card_def link_to_def)
qed

lemma card_links: "hrefs (account_card fmt a) = [''/app/accounts/'' @ wa_id a]"
  by (simp add: account_card_def collect_simps)

lemma cards_link:
  assumes "as_loading (da_accounts st) = False" and "as_error (da_accounts st) = None" and "da_createError st = None"
  shows "hrefs (Dashboard_view fmt cp who st) = map (\<lambda>a. ''/app/accounts/'' @ wa_id a) (shown_accounts st)"
proof -
  have quiet: "concat (map (\<lambda>x. []) l) = ([] :: string list)" for l :: "web_account list" by simp
  have greeting: "concat (map hrefs (concat (map (\<lambda>w. [Txt ''Signed in as '', span [Txt w], Txt ('' '' @ middot @ '' '')]) ws))) = []"
    for ws by (induction ws) (simp_all add: collect_simps)
  show ?thesis
    using assms
    by (simp add: Dashboard_view_def account_list_def collect_simps card_links comp_def concat_map_singleton quiet greeting)
qed

text \<open>
  C22.  The dashboard shows the ledger.  Once the client has read a customer's accounts from the service,
  page by page, the dashboard renders; its cards are those of the customer's accounts, in the order they
  were opened, up to the 5000 the client stops at; and what the card of an account shows is its currency's sign and
  the sum of the account's journal entries, as an amount that typed into a form is read as this very sum.
\<close>

theorem dashboard_shows_the_ledger:
  assumes "db_inv s" and "cursors_travel codec owner s"
  shows "let view = Dashboard_view fmt cp who (loaded_dashboard codec owner s) in
    renders view \<and>
    hrefs view = map (\<lambda>r. ''/app/accounts/'' @ acc_id r) (take 5000 (owned_accounts owner s)) \<and>
    (\<forall>r\<in>set (take 5000 (owned_accounts owner s)). \<exists>card\<in>set (parts view). \<exists>amount.
      hrefs card = [''/app/accounts/'' @ acc_id r] \<and>
      span [Txt ((case symbols (acc_currency r) of Some sign \<Rightarrow> sign | None \<Rightarrow> acc_currency r @ '' '') @ amount)]
        \<in> set (parts card) \<and>
      (let sum = journal_balance (journal_entries s) (acc_id r)
       in 0 \<le> sum \<and> (if sum = 0 then amount = ''0.00'' else parseMajorToMinor amount = Some (bigint_text sum))))"
proof -
  let ?view = "Dashboard_view fmt cp who (loaded_dashboard codec owner s)"
  let ?shows = "\<lambda>r. \<exists>card\<in>set (parts ?view). \<exists>amount.
      hrefs card = [''/app/accounts/'' @ acc_id r] \<and>
      span [Txt ((case symbols (acc_currency r) of Some sign \<Rightarrow> sign | None \<Rightarrow> acc_currency r @ '' '') @ amount)]
        \<in> set (parts card) \<and>
      (let sum = journal_balance (journal_entries s) (acc_id r)
       in 0 \<le> sum \<and> (if sum = 0 then amount = ''0.00'' else parseMajorToMinor amount = Some (bigint_text sum)))"
  let ?rows = "take 5000 (owned_accounts owner s)" and ?st = "loaded_dashboard codec owner s"
  note loaded = loaded_accounts [OF db_inv_keys(1) [OF assms(1)] assms(2)]
  have list: "shown_accounts ?st = map web_row ?rows" by (simp add: shown_accounts_def loaded)
  have balance: "\<exists>n. int n = journal_balance (journal_entries s) (acc_id r) \<and> wa_balanceMinor (web_row r) = nat_text n"
    if "r \<in> set ?rows" for r
    using owned_balance [OF assms(1) in_set_takeD [OF that]]
    by (intro exI [of _ "nat (acc_balance_minor r)"]) (simp add: text_of_nonneg)
  have renders: "renders ?view"
    using balance by (intro dashboard_renders) (auto simp: list)
  have hrefs: "hrefs ?view = map (\<lambda>r. ''/app/accounts/'' @ acc_id r) ?rows"
    by (simp add: cards_link loaded list comp_def)
  have "?shows r" if r: "r \<in> set ?rows" for r
  proof -
    from balance [OF r] obtain n where
      n: "int n = journal_balance (journal_entries s) (acc_id r)" "wa_balanceMinor (web_row r) = nat_text n" by blast
    have "web_row r \<in> set (shown_accounts ?st)" using r by (simp add: list)
    note card = card_shown [OF this loaded(3) n(2)]
    show "?shows r"
    proof (rule money_text [of n "acc_currency r", where 'a = dashboard_handler])
      fix amount
      assume "Web_Markup.Money (nat_text n) (acc_currency r) = (span [Txt ((case symbols (acc_currency r) of
          Some sign \<Rightarrow> sign | None \<Rightarrow> acc_currency r @ '' '') @ amount)] :: dashboard_handler node)"
        and "if n = 0 then amount = ''0.00'' else parseMajorToMinor amount = Some (nat_text n)"
      with card(2) show ?thesis
        unfolding n(1) [symmetric] Let_def
        by (intro bexI [OF _ card(1)] exI [of _ amount]) (simp add: card_links text_of_nonneg)
    qed
  qed
  with renders hrefs show ?thesis unfolding Let_def by blast
qed

lemma dashboard_shows_the_ledger_witness:
  "let view = Dashboard_view (\<lambda>t. t) (\<lambda>_. False) None (loaded_dashboard (reading_codec (t0, alice_account)) alice sample_db) in
   renders view \<and> hrefs view = [''/app/accounts/'' @ alice_account]"
proof -
  let ?rows = "take 5000 (owned_accounts alice sample_db)"
  have own: "map acc_id ?rows = [alice_account]" by code_simp
  have "map (\<lambda>r. ''/app/accounts/'' @ acc_id r) ?rows = map (\<lambda>i. ''/app/accounts/'' @ i) (map acc_id ?rows)"
    by (simp only: list.map_comp comp_def)
  also have "\<dots> = [''/app/accounts/'' @ alice_account]" unfolding own by (simp only: list.map)
  finally have "map (\<lambda>r. ''/app/accounts/'' @ acc_id r) ?rows = [''/app/accounts/'' @ alice_account]" .
  then show ?thesis
    using dashboard_shows_the_ledger [OF sample_inv sample_cursors_travel, of "\<lambda>t. t" "\<lambda>_. False" None]
    unfolding Let_def by presburger
qed

section \<open>A site\<close>

text \<open>All pages as they are mounted, the dashboard with Alice's account on it.\<close>

definition sample_site :: site where
  "sample_site =
    \<lparr>si_docs = None, si_menuId = ''menu'',
     si_landing = \<lparr>la_navbar = \<lparr>nb_scrolled = False, nb_mobileOpen = False\<rparr>, la_menu = closed_menu,
       la_ready = async_start async_initial, la_demo = demo_mounted, la_active = 0\<rparr>,
     si_ready = async_start async_initial, si_formatTime = (\<lambda>t. t), si_copied = (\<lambda>_. False), si_who = None,
     si_dashboard = loaded_dashboard (reading_codec (t0, alice_account)) alice sample_db,
     si_account = \<lparr>ap_account = async_start async_initial, ap_owned = async_start async_initial, ap_historyVersion = 0\<rparr>,
     si_sending = send_mounted sample_source [] (draw 0),
     si_history = \<lparr>hi_account = alice_account, hi_entries = [], hi_cursor = None, hi_loading = True, hi_error = None, hi_run = 1,
       hi_more = []\<rparr>,
     si_admin = \<lparr>am_onboard = onboard_mounted, am_fund = fund_mounted (draw 0),
       am_reconcile = \<lparr>pn_input = [], pn_busy = False, pn_error = None, pn_result = None\<rparr>,
       am_metrics = async_start async_initial, am_ready = async_start async_initial,
       am_revoke = \<lparr>pn_input = [], pn_busy = False, pn_error = None, pn_result = None\<rparr>\<rparr>,
     si_email = ''alice@example.com'', si_verify = \<lparr>ve_busy = False, ve_message = None, ve_verified = 0\<rparr>,
     si_configured = True, si_uid = nat_text, si_visible = False, si_method = Email_method, si_emailForm = email_form_mounted,
     si_keyForm = key_form_mounted\<rparr>"

lemma sample_site_accounts: "shown_accounts (si_dashboard sample_site) = map web_row (take 5000 (owned_accounts alice sample_db))"
  using loaded_accounts(1) [OF db_inv_keys(1) [OF sample_inv] sample_cursors_travel]
  by (simp add: sample_site_def shown_accounts_def)


end
