(* ===== verification/Architecture.thy ===== *)
theory Architecture
  imports Auth
begin

text \<open>
  scripts/check-architecture.ts: the rules on which file of src/ may import which, checked on the text
  of the files.
\<close>

section \<open>Files and names\<close>

text \<open>A path is its segments; the directory is read as a tree.\<close>

type_synonym path = "string list"

datatype tree = File string string | Directory string "tree list"

definition ends_with :: "string \<Rightarrow> string \<Rightarrow> bool" where
  "ends_with s t \<longleftrightarrow> length t \<le> length s \<and> drop (length s - length t) s = t"

fun sourceFiles :: "path \<Rightarrow> tree \<Rightarrow> (path \<times> string) list" where
  "sourceFiles dir (Directory name entries) = concat (map (sourceFiles (dir @ [name])) entries)"
| "sourceFiles dir (File name text) = (if ends_with name ''.ts'' then [(dir @ [name], text)] else [])"

fun relative_path :: "path \<Rightarrow> path \<Rightarrow> path" where
  "relative_path (r # rs) (f # fs) =
    (if r = f then relative_path rs fs else replicate (length (r # rs)) ''..'' @ f # fs)"
| "relative_path [] fs = fs"
| "relative_path rs [] = replicate (length rs) ''..''"

fun slashed :: "path \<Rightarrow> string" where
  "slashed [] = []"
| "slashed [a] = a"
| "slashed (a # as) = a @ ''/'' @ slashed as"

definition relativeName :: "path \<Rightarrow> path \<Rightarrow> string" where
  "relativeName base file_path = slashed (relative_path base file_path)"

text \<open>The pattern \<open>^src\/modules\/([^/]+)\/\<close>.\<close>

definition featureName :: "string \<Rightarrow> string option" where
  "featureName name =
    (if starts_with name ''src/modules/'' then
       (let rest = drop 12 name; feature = takeWhile (\<lambda>c. c \<noteq> CHR ''/'') rest
        in if feature \<noteq> [] \<and> length feature < length rest then Some feature else None)
     else None)"

fun split_slash :: "string \<Rightarrow> path" where
  "split_slash [] = [[]]"
| "split_slash (c # s) =
    (if c = CHR ''/'' then [] # split_slash s
     else (case split_slash s of [] \<Rightarrow> [[c]] | w # ws \<Rightarrow> (c # w) # ws))"

definition resolve_segment :: "string \<Rightarrow> path \<Rightarrow> path" where
  "resolve_segment seg at_path =
    (if seg = [] \<or> seg = ''.'' then at_path else if seg = ''..'' then butlast at_path else at_path @ [seg])"

definition resolveLocalImport :: "path \<Rightarrow> string \<Rightarrow> path option" where
  "resolveLocalImport source specifier =
    (if \<not> starts_with specifier ''.'' then None
     else
       (let resolved = fold resolve_segment (split_slash specifier) (butlast source) in
        if resolved \<noteq> [] \<and> ends_with (last resolved) ''.js''
        then Some (butlast resolved @ [take (length (last resolved) - 3) (last resolved) @ ''.ts''])
        else Some resolved))"

section \<open>The import pattern\<close>

definition space_char :: "char \<Rightarrow> bool" where
  "space_char c \<longleftrightarrow> js_space (of_char c)"

definition quote_mark :: "char \<Rightarrow> bool" where
  "quote_mark c \<longleftrightarrow> c = CHR 0x27 \<or> c = CHR 0x22"

text \<open>
  What may stand between the keyword and the opening quote:
  \<open>\s+(?:type\s+)?(?:[^'";]+?\s+from\s+)?\<close>.  A binding clause may itself begin with \<open>type\<close>.
\<close>

definition clause_ok :: "string \<Rightarrow> bool" where
  "clause_ok between =
    (let after_space = dropWhile space_char between;
         trimmed = rev (dropWhile space_char (rev between));
         clause = take (length trimmed - 4) trimmed
     in between \<noteq> [] \<and> list_all space_char between \<or>
        after_space \<noteq> between \<and> take 4 after_space = ''type'' \<and> 4 < length after_space \<and>
          list_all space_char (drop 4 after_space) \<or>
        CHR '';'' \<notin> set between \<and> length trimmed < length between \<and> ends_with trimmed ''from'' \<and>
          3 \<le> length clause \<and> space_char (hd clause) \<and> space_char (last clause))"

text \<open>A match at the beginning of the text: the specifier, and the text after the match.\<close>

definition import_at :: "string \<Rightarrow> (string \<times> string) option" where
  "import_at s =
    (if take 6 s \<noteq> ''import'' \<and> take 6 s \<noteq> ''export'' then None
     else
       (let between = takeWhile (\<lambda>c. \<not> quote_mark c) (drop 6 s);
            quoted = drop (length between) (drop 6 s)
        in if \<not> clause_ok between \<or> quoted = [] then None
           else
             (let specifier = takeWhile (\<lambda>c. \<not> quote_mark c) (tl quoted);
                  rest = drop (length specifier) (tl quoted)
              in if specifier = [] \<or> rest = [] then None else Some (specifier, tl rest))))"

lemma import_at_shorter: "import_at s = Some (specifier, rest) \<Longrightarrow> length rest < length s"
  by (auto simp: import_at_def Let_def split: if_splits)

function import_specifiers :: "string \<Rightarrow> string list" where
  "import_specifiers [] = []"
| "import_specifiers (c # s) =
    (case import_at (c # s) of
       None \<Rightarrow> import_specifiers s
     | Some (specifier, rest) \<Rightarrow> specifier # import_specifiers rest)"
  by pat_completeness auto

termination
  by (relation "measure length") (auto dest: import_at_shorter)

text \<open>\<open>/\bstatusCode\b/\<close>, after a character or at the beginning.\<close>

definition word_char :: "char \<Rightarrow> bool" where
  "word_char c \<longleftrightarrow> is_digit c \<or> (CHR ''a'' \<le> c \<and> c \<le> CHR ''z'') \<or> (CHR ''A'' \<le> c \<and> c \<le> CHR ''Z'') \<or> c = CHR ''_''"

fun mentions_word :: "string \<Rightarrow> bool \<Rightarrow> string \<Rightarrow> bool" where
  "mentions_word word after_word [] = False"
| "mentions_word word after_word (c # s) =
    (\<not> after_word \<and> starts_with (c # s) word \<and>
       (case drop (length word) (c # s) of [] \<Rightarrow> True | d # _ \<Rightarrow> \<not> word_char d) \<or>
     mentions_word word (word_char c) s)"

section \<open>The rules\<close>

definition is_domain :: "string \<Rightarrow> bool" where "is_domain n \<longleftrightarrow> ends_with n ''-domain.ts''"
definition is_routes :: "string \<Rightarrow> bool" where "is_routes n \<longleftrightarrow> ends_with n ''-routes.ts''"
definition is_repository :: "string \<Rightarrow> bool" where "is_repository n \<longleftrightarrow> ends_with n ''-repository.ts''"
definition is_service :: "string \<Rightarrow> bool" where "is_service n \<longleftrightarrow> ends_with n ''-service.ts''"
definition is_infrastructure :: "string \<Rightarrow> bool" where "is_infrastructure n \<longleftrightarrow> starts_with n ''src/infrastructure/''"
definition is_port :: "string \<Rightarrow> bool" where "is_port n \<longleftrightarrow> starts_with n ''src/ports/''"

text \<open>\<open>target\<close> is the imported file's name, for a local import.\<close>

definition import_reasons :: "string \<Rightarrow> string option \<Rightarrow> string list" where
  "import_reasons source target =
    (let sourceFeature = featureName source in
     if is_domain source \<and> (case target of None \<Rightarrow> True | Some t \<Rightarrow> featureName t \<noteq> sourceFeature)
     then [''domain code may only import within its own feature'']
     else
       (case target of
          None \<Rightarrow> []
        | Some t \<Rightarrow>
            (let targetFeature = featureName t in
             (if is_domain source \<and> (is_routes t \<or> is_repository t \<or> is_service t)
              then [''domain code cannot depend on adapters or services''] else []) @
             (if is_infrastructure source \<and> targetFeature \<noteq> None
              then [''shared infrastructure cannot depend on a feature''] else []) @
             (if sourceFeature \<noteq> None \<and> targetFeature \<noteq> None \<and> sourceFeature \<noteq> targetFeature \<and> \<not> is_domain t
              then [''features may depend only on another feature'' @ [CHR 0x27] @ ''s public domain contract''] else []) @
             (if is_port source \<and> (targetFeature \<noteq> None \<or> is_infrastructure t)
              then [''shared ports cannot depend on features or infrastructure''] else []) @
             (if is_routes source \<and> (is_infrastructure t \<or> is_repository t \<or> is_service t)
              then [''HTTP adapters must use domain/application ports, not concrete services or persistence''] else []) @
             (if is_service source \<and> (is_infrastructure t \<or> is_repository t \<or> is_routes t)
              then [''application services must depend on ports, not concrete adapters''] else []) @
             (if is_repository source \<and> (is_routes t \<or> is_service t)
              then [''persistence adapters cannot depend on HTTP adapters or services''] else []))))"

definition violation :: "string \<Rightarrow> string \<Rightarrow> string \<Rightarrow> string" where
  "violation source specifier reason = source @ '' -> '' @ specifier @ '': '' @ reason"

definition file_violations :: "path \<Rightarrow> path \<times> string \<Rightarrow> string list" where
  "file_violations base = (\<lambda>(source, contents).
    (let sourceName = relativeName base source in
     (if is_domain sourceName \<and> mentions_word ''statusCode'' False contents
      then [violation sourceName ''statusCode'' ''domain code cannot own HTTP status semantics''] else []) @
     concat (map (\<lambda>specifier. map (violation sourceName specifier)
         (import_reasons sourceName (map_option (relativeName base) (resolveLocalImport source specifier))))
       (import_specifiers contents))))"

text \<open>The lines printed and the exit code.\<close>

definition check_architecture :: "path \<Rightarrow> tree \<Rightarrow> string list \<times> nat" where
  "check_architecture base src_tree =
    (let files = sourceFiles base src_tree; violations = concat (map (file_violations base) files)
     in if violations \<noteq> [] then (''Architecture boundary violations:'' # map (\<lambda>v. ''- '' @ v) violations, 1)
        else ([''Architecture boundaries valid ('' @ nat_text (length files) @ '' source files checked)''], 0))"

section \<open>What a valid architecture is\<close>

text \<open>An import between two local files, and one that a layered architecture allows.\<close>

definition imports_file :: "path \<Rightarrow> tree \<Rightarrow> string \<Rightarrow> string option \<Rightarrow> bool" where
  "imports_file base src_tree source target \<longleftrightarrow>
    (\<exists>(p, text)\<in>set (sourceFiles base src_tree). source = relativeName base p \<and>
      (\<exists>specifier\<in>set (import_specifiers text). target = map_option (relativeName base) (resolveLocalImport p specifier)))"

definition layered :: "string \<Rightarrow> string option \<Rightarrow> bool" where
  "layered source target \<longleftrightarrow>
    (is_domain source \<longrightarrow> (\<exists>t. target = Some t \<and> featureName t = featureName source \<and>
      \<not> is_routes t \<and> \<not> is_repository t \<and> \<not> is_service t)) \<and>
    (\<forall>t. target = Some t \<longrightarrow>
      (featureName t \<noteq> None \<longrightarrow> \<not> is_infrastructure source \<and> \<not> is_port source \<and>
        (featureName source \<in> {None, featureName t} \<or> is_domain t)) \<and>
      (is_infrastructure t \<longrightarrow> \<not> is_port source \<and> \<not> is_routes source \<and> \<not> is_service source) \<and>
      (is_repository t \<longrightarrow> \<not> is_routes source \<and> \<not> is_service source) \<and>
      (is_service t \<longrightarrow> \<not> is_routes source \<and> \<not> is_repository source) \<and>
      (is_routes t \<longrightarrow> \<not> is_service source \<and> \<not> is_repository source))"

lemma no_reasons: "import_reasons source target = [] \<longleftrightarrow> layered source target"
proof (cases target)
  case None
  show ?thesis unfolding None import_reasons_def layered_def Let_def by simp
next
  case (Some t)
  show ?thesis
    unfolding Some import_reasons_def layered_def Let_def
    by (cases "featureName source"; cases "featureName t") auto
qed

text \<open>
  The architecture check decides what it is for.  It exits with 0 exactly when no domain file
  speaks of HTTP status codes and every import is layered: domain code stays within its feature and
  away from adapters and services, features meet only in domain contracts, infrastructure and ports
  know no feature and ports no infrastructure, and routes, services and repositories do not import each other.
\<close>

theorem architecture_check_decides:
  "snd (check_architecture base src_tree) = 0 \<longleftrightarrow>
    (\<forall>(p, text)\<in>set (sourceFiles base src_tree).
      \<not> (is_domain (relativeName base p) \<and> mentions_word ''statusCode'' False text)) \<and>
    (\<forall>source target. imports_file base src_tree source target \<longrightarrow> layered source target)"
proof -
  have "snd (check_architecture base src_tree) = 0 \<longleftrightarrow>
      (\<forall>f\<in>set (sourceFiles base src_tree). file_violations base f = [])"
    by (auto simp: check_architecture_def Let_def)
  also have "\<dots> \<longleftrightarrow> (\<forall>(p, text)\<in>set (sourceFiles base src_tree).
      \<not> (is_domain (relativeName base p) \<and> mentions_word ''statusCode'' False text) \<and>
      (\<forall>specifier\<in>set (import_specifiers text).
        layered (relativeName base p) (map_option (relativeName base) (resolveLocalImport p specifier))))"
    by (intro ball_cong refl) (auto simp: file_violations_def Let_def no_reasons split: prod.splits)
  also have "\<dots> \<longleftrightarrow> (\<forall>(p, text)\<in>set (sourceFiles base src_tree).
      \<not> (is_domain (relativeName base p) \<and> mentions_word ''statusCode'' False text)) \<and>
      (\<forall>source target. imports_file base src_tree source target \<longrightarrow> layered source target)"
    unfolding imports_file_def by fast
  finally show ?thesis .
qed

text \<open>A domain file that knows a status code is reported.\<close>

definition sample_tree :: tree where
  "sample_tree = Directory ''src'' [Directory ''modules'' [Directory ''transfers'' [File ''transfer-domain.ts'' ''statusCode = 4'']]]"

lemma architecture_check_decides_witness: "snd (check_architecture [''repo''] sample_tree) \<noteq> 0"
proof -
  have files: "sourceFiles [''repo''] sample_tree =
      [([''repo'', ''src'', ''modules'', ''transfers'', ''transfer-domain.ts''], ''statusCode = 4'')]"
    by code_simp
  have "is_domain (relativeName [''repo''] [''repo'', ''src'', ''modules'', ''transfers'', ''transfer-domain.ts''])"
    "mentions_word ''statusCode'' False ''statusCode = 4''"
    by code_simp+
  then show ?thesis
    using architecture_check_decides [of "[''repo'']" sample_tree] files by auto
qed

end
