(* ===== verification/Known_Limits.thy ===== *)
theory Known_Limits
  imports Witnesses Json_Schema
begin

text \<open>
  Runs of the model in which the service does less than its comments promise: what an overtaken
  claimant, a reclaim that lost, a worker that outlived its lease and an upper-case account id do.
  Each is the code's own behaviour, shown on the sample database or from the theorems about it.
\<close>

section \<open>Claims are not tied to their claimant\<close>

text \<open>
  A claimant whose stale claim was taken over still settles the key: its failure releases the
  claim of the request that overtook it, and a third request gets the key while that one runs.
\<close>

theorem overtaken_claimant_frees_the_key:
  "case tx_bind (reclaim t0 pay2 1699999970000) (\<lambda>reclaimed.
      tx_bind (settleFailure t0 ''pay-2'' ''transfer'' bob None) (\<lambda>_.
      tx_bind (insert_claim t0 pay2) (\<lambda>inserted. tx_return (reclaimed, inserted)))) sample_db of
     Inr ((reclaimed, inserted), _) \<Rightarrow> reclaimed \<noteq> None \<and> inserted \<noteq> None
   | Inl _ \<Rightarrow> False"
  by code_simp

text \<open>
  A reclaim that lost its race answers with whatever the winner completed: the fingerprint is
  compared with the record found before the race, not with the one that is replayed.
\<close>

definition other_body_completed :: "db \<Rightarrow> db" where
  "other_body_completed s =
    s\<lparr>idempotency_records := update_where (\<lambda>r. ir_key r = ''pay-2'')
      (\<lambda>r. completed_with t0 (JObject []) 201 (r\<lparr>ir_request_fingerprint := ''fp3''\<rparr>))
      (idempotency_records s)\<rparr>"

theorem lost_reclaim_replays_another_body:
  "case fst (tryClaim ((quiet_env t0 1700000000000 t0)\<lparr>ce_before_reclaim := other_body_completed\<rparr>) pay2 sample_db) of
     Inr (Some r) \<Rightarrow> cr_action r = Replay \<and>
       map_option rec_requestFingerprint (cr_record r) = Some ''fp3'' \<and> cp_fingerprint pay2 \<noteq> ''fp3''
   | _ \<Rightarrow> False"
  by code_simp

section \<open>Leases are not tied to their worker\<close>

text \<open>
  A worker that outlived its lease marks the event failed, and that ends the lease of the worker
  that has it now: a third poll claims the event while the second lease is still running.
\<close>

theorem late_failure_ends_anothers_lease:
  "case tx_bind (claim_work t0 1 {leased_event} 1) (\<lambda>batch1.
      tx_bind (claim_work (t0 + 2000000) 300 {leased_event} 1) (\<lambda>batch2.
      tx_bind (markFailed due_event ''timeout'' (At (t0 + 3000000))) (\<lambda>_.
      tx_bind (claim_work (t0 + 3000000) 300 {leased_event} 1) (\<lambda>batch3.
      tx_return (map oe_id batch1, map oe_id batch2, map oe_id batch3))))) sample_db of
     Inr (batches, _) \<Rightarrow> batches = ([due_event], [due_event], [due_event])
   | Inl _ \<Rightarrow> False"
  by code_simp

section \<open>Account ids are compared as they were written\<close>

text \<open>
  PostgreSQL reads a UUID in either case and writes it in lower case; the service looks for the
  text of the request among the rows it locked.  A transfer whose source is written with an
  upper-case digit is refused, although the request schema accepts the text and the row is locked.
\<close>

lemma account_of_upper_case:
  assumes "canonical_accounts s" "uuid_in aid \<noteq> aid"
  shows "account_of aid s = None"
  using assms by (auto simp: account_of_def canonical_accounts_def select_first_None_iff)

definition shouted_request :: CreateTransferInput where
  "shouted_request = sample_request\<lparr>ct_sourceAccountId := ''10000000-0000-4000-8000-0000000000A1''\<rparr>"

lemma shouted_request_facts:
  "fromMinor (StringArg (ct_amountMinor shouted_request)) = Inr pay1_amount"
  "ct_sourceAccountId shouted_request \<noteq> ct_destinationAccountId shouted_request"
  "\<forall>a\<in>set (accounts sample_db). acc_id a = ct_destinationAccountId shouted_request \<longrightarrow>
    acc_balance_minor a + minor pay1_amount \<le> bigint_max"
  "uuid_in (ct_sourceAccountId shouted_request) = alice_account"
  "uuid_in (ct_sourceAccountId shouted_request) \<noteq> ct_sourceAccountId shouted_request"
  "string_rule_ok Format_uuid (ct_sourceAccountId shouted_request)"
  by code_simp+

theorem upper_case_account_is_not_found:
  "string_rule_ok Format_uuid (ct_sourceAccountId shouted_request) \<and>
   uuid_in (ct_sourceAccountId shouted_request) = alice_account \<and>
   fst (create default_transfer_config (\<lambda>_. quiet_attempt) sample_transfer_id 1700000000000
     shouted_request alice (Some ''pay-1'') sample_world) =
     Inl (transfer_error ''ACCOUNT_NOT_FOUND'' ''Account not found'')"
  using create_decided [of sample_world shouted_request pay1_amount sample_transfer_id
      "\<lambda>_. quiet_attempt" alice "Some ''pay-1''" default_transfer_config 1700000000000]
    shouted_request_facts sample_request_facts(3,4,7) sample_key_claimed sample_inv
    account_of_upper_case [of sample_db "ct_sourceAccountId shouted_request"]
  by (simp add: transfer_verdict_def)

end
