(* ===== verification/Spec2Isabelle.thy ===== *)
theory Spec2Isabelle
  imports Http_Witnesses Command_Line_Theorems Web_Access Web_Types Migrate_Command Triggers Web_Demo Web_Widgets
    Web_Books Architecture Known_Limits
begin

text \<open>
  PulseLedger is a double-entry ledger service in TypeScript over PostgreSQL, with a web client.  This
  is a verification of its code: the definitions are translations of the source, operation by operation,
  and the theorems say what the operations, the whole service and the client with the service
  guarantee.  Paths are those of the repository.

  \<^bold>\<open>The program.\<close>  Requests enter through src/app.ts: a guard (an administrator's key, or a customer's
  API key or Firebase ID token), a JSON schema, a route handler.  The handlers of the modules
  (src/modules) call services, the services call repositories, and the repositories run SQL in
  transactions (src/ports/transaction.ts).  A transfer or a funding with an \<open>Idempotency-Key\<close> first claims
  the key, posts balanced journal entries through the database function \<open>post_ledger_transaction\<close>, writes an
  outbox event and completes the claim in one transaction.  A worker polls the outbox and hands each
  event to the audit consumer.  Operators sweep, replay and reconcile from command lines and
  administrative routes.  The web client (web/src) keeps credentials in the tab, calls the API, and draws
  the idempotency keys of its forms.

  \<^bold>\<open>Conventions.\<close>  A statement is a function on the database that throws or returns a value and a new
  database (\<open>tx\<close>, Prelude); a method that runs several statements returns the new state with its error as
  well (\<open>io\<close>), because what was committed stays.  What the code does not decide - clocks, identifiers
  and random numbers drawn, connections and commits that fail, and what other clients do between two
  statements - is an argument, collected per operation in an environment record (\<open>tx_env\<close>,
  \<open>attempt_env\<close>, \<open>claim_env\<close>, \<open>fund_env\<close>, \<open>request_env\<close>, \<open>poll_env\<close>, \<open>cli_env\<close>, \<open>migrate_env\<close>, \<open>seed_env\<close>), over which
  the theorems quantify.  Money is an integer, bounded where PostgreSQL bounds it (\<open>bigint\<close>); instants are
  microseconds; JavaScript strings are character lists, or code points where the code counts them.

  \<^bold>\<open>The theories.\<close>  Shared: Prelude (types, computations, lists), Sql (tables and statements, the
  batched sweep \<open>purge_loop\<close>), Js_Date and Js_Number (\<open>toISOString\<close>, \<open>Number(text)\<close>), Errors (src/errors.ts),
  Transaction (src/ports), Database (migrations: rows, constraints, the posting function and its
  deferred triggers), Triggers (migrations: the row triggers).

  Modules: Idempotency and Canonical_Json (src/modules/idempotency), Money_Domain, Ledger and Paging
  (src/modules/ledger), Transfers, Accounts, Auth, Outbox and Outbox_Worker, Audit_Consumer,
  Reconciliation.  Each has the state as records, one definition per method, and the branches of the
  source as branches.  Around them: Json_Schema, Http (src/infrastructure/http), Metrics, Routes
  (every handler), App (src/app.ts: \<open>handle\<close> is one request), Config (src/config.ts), Command_Lines,
  Migrations and Migrate_Command (src/infrastructure/database), Server (src/server.ts as a step relation), Seed_Script and
  Architecture (scripts/).

  Web client, states: Web_Money (lib/money.ts), Web_Client (lib/api.ts, session.ts, use-async.ts, firebase.ts), Web_Types
  (the interfaces of api.ts), Web_Forms (SendMoney, History and Fund, the forms that move money), Web_Pages (App.tsx and
  the sign-in pages), Web_Console (Dashboard.tsx, AccountDetail.tsx, Admin.tsx and ui.tsx), Web_Widgets (Navbar.tsx,
  auth/fields.tsx), Web_Demo (HeroDashboard.tsx).

  Web client, markup: Web_Markup has the trees components return (\<open>node\<close>: elements with attributes, listeners and
  children; a part whose rendering throws is \<open>Crash\<close>), what a browser lets a visitor do with them (\<open>actions\<close>,
  \<open>offered\<close>: disabled controls, options of a select, submission by button and by Enter), and the components of ui.tsx and
  fields.tsx; Web_Console_Views the console's pages and the frame, Web_Login_Views the login pages, Web_Landing the public
  page.  Each component is a definition named like it, or like it with \<open>_view\<close>, and a function of the states above.

  \<^bold>\<open>What is shown.\<close>
  \<^item> One transaction: \<open>withTransaction\<close> is all or nothing (Transaction); what a committed posting
    leaves (Ledger_Invariant), exactly what one transfer or funding moves (Transfer_Safety, Funding),
    which transfers succeed (Transfer_Success), and how often one is retried (Transfer_Theorems).
  \<^item> The whole service: Request_Invariants carries any property that all statements keep through every
    request (locale \<open>request_invariant\<close>, which extends \<open>statement_invariant\<close>), Service_Runs through every run of requests, polls, replays and
    sweeps (\<open>service_run\<close>, locale \<open>service_invariant\<close>).  The locale is interpreted with the books' invariant
    \<open>db_inv\<close>, with that of the credentials \<open>auth_inv\<close>, with the refinement of an abstract bank
    (Bank_Refinement), with the growth of the history (Append_Only) and with what identifies accounts and external
    users (Triggers): no row trigger of the migrations ever has anything to refuse.
  \<^item> Idempotency: what a claim decides (Idempotency_Claims), at most one posting per key however often
    it is retried (Retry_Safety, a rely/guarantee argument), and which answer a retry gets
    (Retry_Answers).  Web_Theorems carries this to the customer: Web_Forms draws one key per intent, so an
    intent pays at most once.
  \<^item> The pages: the forms send one call at a time, through what their markup offers (Web_Single_Calls, locale
    \<open>one_call\<close> with one interpretation per form); no link is dead (Web_Links); the dashboard shows the sums of the
    journal (Web_Books).
  \<^item> Access: who reaches a route and what they can read (Access_Control, Token_Access, Auth_Theorems);
    which pages of the client a visitor sees, and that redirects end (Web_Access).
  \<^item> Delivery: leases, retries and parking of events (Outbox_Delivery), one effect per event
    (Audit_Consumer), one chain of polls and a graceful stop (Outbox_Worker, Server).
  \<^item> Operators: Command_Line_Theorems, Reconciliation, Config, Migrations, Migrate_Command, Architecture, Seed_Script.
  \<^item> Types and texts: Reply_Types has the texts the schemas ask for, Typed_Tables typing rules for computations
    (\<open>tx_yields\<close>, \<open>io_yields\<close>) and typed tables, Typed_Postings transfers and fundings, Typed_Replies the response
    schemas and every route: each reply conforms to its schema and the tables stay typed.  Web_Types shows, by
    a subtype check (\<open>fits\<close>), that the client's unchecked casts are sound.  The client reads the service's errors
    and pages (Web_Answers), money is shown and read back (Web_Money).
  \<^item> Sample, Witnesses, Auth_Witnesses and Http_Witnesses apply the theorems to a concrete database.
    Known_Limits, Web_Answers, Web_Types, Web_Views, Web_Demo, Web_Widgets and Server show runs in which the code does
    less than its comments promise.

  \<^bold>\<open>Bounds.\<close>  The loops of the source carry their own bounds and are recursions on them: 12 attempts of a
  transfer (\<open>tc_maxAttempts\<close>; any number in the theorems), 3 of a claim (\<open>maxClaimAttempts\<close>), 50 pages of
  a listing.  Loops without one are partial functions, and that they return is proved:
  \<open>purge_loop\<close> (locale \<open>batch_sweep\<close>, for batches of at least one row), the redirects of the client (\<open>visit\<close>), the
  draw of a destination in the seed script (\<open>pick_other\<close>, for draws that vary).  No other fuel is used.

  \<^bold>\<open>Third parties.\<close>  SHA-256, base64url, JSON parsing of cursors, Unicode NFC, jose's \<open>jwtVerify\<close>, ajv (\<open>validator\<close>),
  the Firebase SDK, \<open>fetch\<close>, the texts of a browser's locale (\<open>fmt\<close> for \<open>formatTime\<close>), the ids \<open>useId\<close> draws and the SQL of a migration are arguments of the definitions.  What is
  assumed of them is a named hypothesis where a theorem needs it (\<open>validator_ok\<close>, \<open>codec_reads\<close>,
  \<open>cursors_travel\<close>).  Of PostgreSQL the model has what the statements say - conditional updates with their row
  counts, unique and foreign keys, checks, \<open>FOR UPDATE SKIP LOCKED\<close>, and serializable transactions as
  atomic steps that may be refused at COMMIT; lock waits and query plans are not modelled.

  \<^bold>\<open>Not modelled.\<close>  Two migration runs at the same time and the backfill of migrations/009; class names and
  with them all styling, the artwork of the icons, focus handling outside the login menu, the interval that reloads the health
  badge, and web/src/main.tsx, which mounts App; the interfaces of TypeScript that only name what the definitions take; the tests, the
  deployment files and the load scripts.
\<close>

end
